(* ===== verification/Prelude.thy ===== *)
theory Prelude
  imports Main "HOL-Library.Word" "HOL-Library.Product_Lexorder"
begin

section \<open>Shared vocabulary: exceptions, results, transactions, strings, tables\<close>

text \<open>
  What every component of the control API uses.
  \<^item> The exceptions the Python code raises are the constructors of one datatype \<open>exn\<close>; a
    function that may raise returns \<open>exn + 'a\<close>.
  \<^item> A piece of code that runs inside one database session is a \<open>tx\<close>: it takes the state of
    the database and returns either an exception or a result and the new state.
    \<open>begin_tx\<close> is \<open>async with session.begin()\<close>: an exception leaves the state as it was.
  \<^item> A Python \<open>str\<close> is a \<open>string\<close>: a list of code points below 256.
  \<^item> A table is the list of its rows; \<open>upd_where\<close> is an \<open>UPDATE ... WHERE\<close>.
\<close>

named_theorems preserves_rules \<open>rules that a database transaction keeps an invariant\<close>
named_theorems tx_simps \<open>unfolding of the transaction combinators\<close>

subsection \<open>Exceptions\<close>

text \<open>
  One constructor for each exception class of the source, with the message where the class
  is raised with several. \<open>IntegrityError\<close>, \<open>NoResultFound\<close> and \<open>MultipleResultsFound\<close> are
  what the database driver raises, \<open>PyJWTError\<close>, \<open>PyJWKClientError\<close> and \<open>HTTPError\<close> the base classes
  of the exceptions of PyJWT and httpx; \<open>KeyError\<close> is a missing column or dictionary key.
\<close>

datatype exn =
    ValueError string
  | TypeError string
  | KeyError string
  | OverflowError string
  | RuntimeError string
  | AttributeError string
  | OSError string
  | PyJWTError string
  | PyJWKClientError string
  | HTTPError string
  | IntegrityError string
  | NoResultFound
  | MultipleResultsFound
  | AccessTokenVerificationError
  | PrincipalAuthenticationError
  | SessionProvisioningAuthenticationError
  | EmailVerificationRequiredError
  | AccountLinkRequiredError
  | ExternalUserProfileNotFoundError
  | ExternalUserProfileUnavailableError string
  | IdentityRace
  | WorkspaceNotFoundError
  | ProjectWorkspaceNotFoundError
  | ProjectNotFoundError
  | ProjectPermissionDeniedError
  | ProjectWorkspaceNotActiveError
  | ConnectionWorkspaceNotFoundError
  | ConnectionNotFoundError
  | ConnectionProjectNotFoundError
  | ConnectionPermissionDeniedError string
  | ConnectionWorkspaceNotActiveError string
  | ConnectionStateConflictError string
  | ConnectionConfigurationInvalidError string
  | ProviderConfigurationError string

type_synonym 'a result = "exn + 'a"
type_synonym ('s, 'a) tx = "'s \<Rightarrow> exn + ('a \<times> 's)"

subsection \<open>Results\<close>

definition bind_res :: "exn + 'a \<Rightarrow> ('a \<Rightarrow> exn + 'b) \<Rightarrow> exn + 'b" where
  "bind_res r f = (case r of Inl e \<Rightarrow> Inl e | Inr a \<Rightarrow> f a)"

lemma bind_res_simps [simp]:
  "bind_res (Inl e) f = Inl e"
  "bind_res (Inr a) f = f a"
  by (simp_all add: bind_res_def)

lemma bind_res_eq_Inr: "bind_res r f = Inr b \<longleftrightarrow> (\<exists>a. r = Inr a \<and> f a = Inr b)"
  by (cases r) auto

lemma bind_res_eq_Inl:
  "bind_res r f = Inl e \<longleftrightarrow> r = Inl e \<or> (\<exists>a. r = Inr a \<and> f a = Inl e)"
  by (cases r) auto

text \<open>\<open>map_res f xs\<close> is a comprehension whose body may raise: it stops at the first exception.\<close>

fun map_res :: "('a \<Rightarrow> exn + 'b) \<Rightarrow> 'a list \<Rightarrow> exn + 'b list" where
  "map_res f [] = Inr []"
| "map_res f (x # xs) = bind_res (f x) (\<lambda>y. bind_res (map_res f xs) (\<lambda>ys. Inr (y # ys)))"

lemma map_res_Inr_map: "(\<And>x. x \<in> set xs \<Longrightarrow> f x = Inr (g x)) \<Longrightarrow> map_res f xs = Inr (map g xs)"
  by (induction xs) auto

lemma map_res_map: "map_res f (map g xs) = map_res (\<lambda>x. f (g x)) xs"
  by (induction xs) auto

subsection \<open>Transactions\<close>

definition ret_tx :: "'a \<Rightarrow> ('s, 'a) tx" where
  "ret_tx a s = Inr (a, s)"

definition raise_tx :: "exn \<Rightarrow> ('s, 'a) tx" where
  "raise_tx e s = Inl e"

definition bind_tx :: "('s, 'a) tx \<Rightarrow> ('a \<Rightarrow> ('s, 'b) tx) \<Rightarrow> ('s, 'b) tx" where
  "bind_tx m f s = (case m s of Inl e \<Rightarrow> Inl e | Inr (a, s') \<Rightarrow> f a s')"

definition lift_tx :: "exn + 'a \<Rightarrow> ('s, 'a) tx" where
  "lift_tx r s = (case r of Inl e \<Rightarrow> Inl e | Inr a \<Rightarrow> Inr (a, s))"

definition query_tx :: "('s \<Rightarrow> 'a) \<Rightarrow> ('s, 'a) tx" where
  "query_tx q s = Inr (q s, s)"

text \<open>
  \<open>async with session.begin()\<close>: the body's effects are committed when it ends normally and
  rolled back when it raises. \<open>read_tx\<close> is a session without \<open>begin()\<close>: it only reads.
\<close>

definition begin_tx :: "('s, 'a) tx \<Rightarrow> 's \<Rightarrow> (exn + 'a) \<times> 's" where
  "begin_tx m s = (case m s of Inl e \<Rightarrow> (Inl e, s) | Inr (a, s') \<Rightarrow> (Inr a, s'))"

definition read_tx :: "('s, 'a) tx \<Rightarrow> 's \<Rightarrow> exn + 'a" where
  "read_tx m s = (case m s of Inl e \<Rightarrow> Inl e | Inr (a, _) \<Rightarrow> Inr a)"

text \<open>Work done on a transaction's result after it has been committed.\<close>

definition after_commit :: "(exn + 'a) \<times> 's \<Rightarrow> ('a \<Rightarrow> exn + 'b) \<Rightarrow> (exn + 'b) \<times> 's" where
  "after_commit r f = (bind_res (fst r) f, snd r)"

lemma after_commit_simps [simp]:
  "after_commit (Inl e, s) f = (Inl e, s)"
  "after_commit (Inr a, s) f = (f a, s)"
  by (simp_all add: after_commit_def)

lemma bind_tx_eq_Inr:
  "bind_tx m f s = Inr (b, s'') \<longleftrightarrow> (\<exists>a s'. m s = Inr (a, s') \<and> f a s' = Inr (b, s''))"
  by (auto simp: bind_tx_def split: sum.splits prod.splits)

lemma bind_tx_eq_Inl:
  "bind_tx m f s = Inl e \<longleftrightarrow> m s = Inl e \<or> (\<exists>a s'. m s = Inr (a, s') \<and> f a s' = Inl e)"
  by (auto simp: bind_tx_def split: sum.splits prod.splits)

lemma tx_unfold [simp]:
  "ret_tx a s = Inr (a, s)"
  "raise_tx e s = Inl e"
  "query_tx q s = Inr (q s, s)"
  "lift_tx (Inl e) s = Inl e"
  "lift_tx (Inr a) s = Inr (a, s)"
  by (simp_all add: ret_tx_def raise_tx_def query_tx_def lift_tx_def)

lemma lift_tx_eq_Inr: "lift_tx r s = Inr (a, s') \<longleftrightarrow> r = Inr a \<and> s' = s"
  by (cases r) auto

lemma lift_tx_eq_Inl: "lift_tx r s = Inl e \<longleftrightarrow> r = Inl e"
  by (cases r) auto

lemma bind_tx_step [simp]: "m s = Inr (a, s') \<Longrightarrow> bind_tx m f s = f a s'"
  by (simp add: bind_tx_def)

lemma bind_tx_stop [simp]: "m s = Inl e \<Longrightarrow> bind_tx m f s = Inl e"
  by (simp add: bind_tx_def)

lemma begin_tx_simps:
  "m s = Inl e \<Longrightarrow> begin_tx m s = (Inl e, s)"
  "m s = Inr (a, s') \<Longrightarrow> begin_tx m s = (Inr a, s')"
  by (simp_all add: begin_tx_def)

lemma begin_tx_eq_Inr: "begin_tx m s = (Inr a, s') \<longleftrightarrow> m s = Inr (a, s')"
  by (auto simp: begin_tx_def split: sum.splits prod.splits)

lemma begin_tx_eq_Inl: "begin_tx m s = (Inl e, s') \<longleftrightarrow> m s = Inl e \<and> s' = s"
  by (auto simp: begin_tx_def split: sum.splits prod.splits)

lemma begin_tx_atomic: "fst (begin_tx m s) = Inl e \<Longrightarrow> snd (begin_tx m s) = s"
  by (auto simp: begin_tx_def split: sum.splits prod.splits)

lemma read_tx_eq_Inr: "read_tx m s = Inr a \<longleftrightarrow> (\<exists>s'. m s = Inr (a, s'))"
  by (auto simp: read_tx_def split: sum.splits prod.splits)

lemma read_tx_eq_Inl: "read_tx m s = Inl e \<longleftrightarrow> m s = Inl e"
  by (auto simp: read_tx_def split: sum.splits prod.splits)

lemmas tx_inr = bind_tx_eq_Inr lift_tx_eq_Inr
lemmas tx_inl = bind_tx_eq_Inl lift_tx_eq_Inl

text \<open>A transaction keeps an invariant when every normal end of it does.\<close>

definition preserves :: "('s \<Rightarrow> bool) \<Rightarrow> ('s, 'a) tx \<Rightarrow> bool" where
  "preserves I m \<longleftrightarrow> (\<forall>s a s'. I s \<longrightarrow> m s = Inr (a, s') \<longrightarrow> I s')"

lemma preservesD: "preserves I m \<Longrightarrow> I s \<Longrightarrow> m s = Inr (a, s') \<Longrightarrow> I s'"
  by (auto simp: preserves_def)

lemma preserves_basic [preserves_rules]:
  "preserves I (ret_tx a)" "preserves I (raise_tx e)"
  "preserves I (query_tx q)" "preserves I (lift_tx r)"
  by (auto simp: preserves_def lift_tx_eq_Inr)

lemma preserves_bind [preserves_rules]:
  "preserves I m \<Longrightarrow> (\<And>a. preserves I (f a)) \<Longrightarrow> preserves I (bind_tx m f)"
  unfolding preserves_def bind_tx_eq_Inr by blast

lemma preserves_if [preserves_rules]:
  "(b \<Longrightarrow> preserves I m) \<Longrightarrow> (\<not> b \<Longrightarrow> preserves I m') \<Longrightarrow> preserves I (if b then m else m')"
  by simp

lemma preserves_option [preserves_rules]:
  "preserves I m \<Longrightarrow> (\<And>x. preserves I (f x)) \<Longrightarrow> preserves I (case r of None \<Rightarrow> m | Some x \<Rightarrow> f x)"
  by (cases r) auto

lemma preserves_begin: "preserves I m \<Longrightarrow> I s \<Longrightarrow> I (snd (begin_tx m s))"
  by (auto simp: preserves_def begin_tx_def split: sum.splits)

subsection \<open>Strings\<close>

text \<open>
  \<open>str.isspace\<close> on one code point below 256, and \<open>str.strip\<close>.
\<close>

definition is_space :: "char \<Rightarrow> bool" where
  "is_space c \<longleftrightarrow> (of_char c :: nat) \<in> set [9, 10, 11, 12, 13, 28, 29, 30, 31, 32, 133, 160]"

definition strip :: "string \<Rightarrow> string" where
  "strip s = rev (dropWhile is_space (rev (dropWhile is_space s)))"

definition trimmed :: "string \<Rightarrow> bool" where
  "trimmed s \<longleftrightarrow> s = [] \<or> (\<not> is_space (hd s) \<and> \<not> is_space (last s))"

lemma dropWhile_hd: "s \<noteq> [] \<Longrightarrow> \<not> p (hd s) \<Longrightarrow> dropWhile p s = s"
  by (cases s) auto

lemma last_dropWhile: "dropWhile p s \<noteq> [] \<Longrightarrow> last (dropWhile p s) = last s"
  by (induction s) auto

lemma strip_Nil [simp]: "strip [] = []"
  by (simp add: strip_def)

lemma strip_trimmed_id: "trimmed s \<Longrightarrow> strip s = s"
  by (cases "s = []") (auto simp: strip_def trimmed_def dropWhile_hd hd_rev)

lemma trimmed_strip: "trimmed (strip s)"
proof (cases "strip s = []")
  case False
  let ?t = "dropWhile is_space s"
  have ne: "dropWhile is_space (rev ?t) \<noteq> []" using False by (simp add: strip_def)
  then have tne: "?t \<noteq> []" by force
  have "last (dropWhile is_space (rev ?t)) = hd ?t"
    using last_dropWhile[OF ne] tne by (simp add: last_rev)
  moreover have "\<not> is_space (hd ?t)" using tne by (rule hd_dropWhile)
  moreover have "\<not> is_space (hd (dropWhile is_space (rev ?t)))" using ne by (rule hd_dropWhile)
  ultimately show ?thesis using ne by (simp add: trimmed_def strip_def hd_rev last_rev)
qed (simp add: trimmed_def)

lemma strip_idem [simp]: "strip (strip s) = strip s"
  by (simp add: strip_trimmed_id trimmed_strip)

lemma length_strip: "length (strip s) \<le> length s"
  by (metis strip_def length_rev length_dropWhile_le order_trans)

text \<open>
  \<open>str.casefold\<close> below 256: the two Latin-1 blocks of capitals are lowered and sharp s becomes
  \<open>ss\<close>. (The micro sign folds outside this range; it is left as it is.) \<open>str.lower\<close> differs
  on sharp s only.
\<close>

definition lower_char :: "char \<Rightarrow> char" where
  "lower_char c = (let n = (of_char c :: nat) in
     if 65 \<le> n \<and> n \<le> 90 \<or> 192 \<le> n \<and> n \<le> 222 \<and> n \<noteq> 215 then char_of (n + 32) else c)"

definition lower :: "string \<Rightarrow> string" where
  "lower s = map lower_char s"

definition casefold :: "string \<Rightarrow> string" where
  "casefold s = concat (map (\<lambda>c. if (of_char c :: nat) = 223 then ''ss'' else [lower_char c]) s)"

lemma of_char_lower_char:
  "(of_char (lower_char c) :: nat) =
     (let n = of_char c in if 65 \<le> n \<and> n \<le> 90 \<or> 192 \<le> n \<and> n \<le> 222 \<and> n \<noteq> 215 then n + 32 else n)"
  by (auto simp: lower_char_def Let_def)

lemma lower_char_idem [simp]: "lower_char (lower_char c) = lower_char c"
proof -
  have "(of_char (lower_char (lower_char c)) :: nat) = of_char (lower_char c)"
    by (simp add: of_char_lower_char Let_def)
  then show ?thesis by (simp only: of_char_eq_iff)
qed

lemma lower_idem [simp]: "lower (lower s) = lower s"
  by (simp add: lower_def)

definition starts_with :: "string \<Rightarrow> string \<Rightarrow> bool" where
  "starts_with p s \<longleftrightarrow> take (length p) s = p"

subsection \<open>Tables\<close>

definition upd_where :: "('a \<Rightarrow> bool) \<Rightarrow> ('a \<Rightarrow> 'a) \<Rightarrow> 'a list \<Rightarrow> 'a list" where
  "upd_where P f xs = map (\<lambda>x. if P x then f x else x) xs"

lemma upd_where_simps [simp]:
  "upd_where P f [] = []"
  "upd_where P f (x # xs) = (if P x then f x else x) # upd_where P f xs"
  "upd_where P f (xs @ ys) = upd_where P f xs @ upd_where P f ys"
  by (simp_all add: upd_where_def)

lemma set_upd_where: "set (upd_where P f xs) = (\<lambda>x. if P x then f x else x) ` set xs"
  by (simp add: upd_where_def)

lemma length_upd_where [simp]: "length (upd_where P f xs) = length xs"
  by (simp add: upd_where_def)

lemma map_upd_where: "(\<And>x. P x \<Longrightarrow> k (f x) = k x) \<Longrightarrow> map k (upd_where P f xs) = map k xs"
  by (auto simp: upd_where_def)

lemma filter_upd_where:
  "(\<And>x. P x \<Longrightarrow> Q (f x) = Q x) \<Longrightarrow> filter Q (upd_where P f xs) = upd_where P f (filter Q xs)"
  by (induction xs) auto

text \<open>A key of a table selects at most one row.\<close>

lemma distinct_key_unique:
  "distinct (map k xs) \<Longrightarrow> x \<in> set xs \<Longrightarrow> y \<in> set xs \<Longrightarrow> k x = k y \<Longrightarrow> x = y"
  by (metis (no_types, lifting) distinct_map inj_on_def)

lemma filter_key_singleton:
  assumes "distinct (map k xs)" "x \<in> set xs"
  shows "filter (\<lambda>y. k y = k x) xs = [x]"
  using assms
proof (induction xs)
  case (Cons a xs)
  then show ?case
    by (auto simp: filter_empty_conv intro: rev_image_eqI)
qed simp

lemma filter_key_cases:
  assumes "distinct (map k xs)"
  shows "filter (\<lambda>y. k y = v) xs = [] \<or> (\<exists>x \<in> set xs. k x = v \<and> filter (\<lambda>y. k y = v) xs = [x])"
proof (cases "\<exists>x \<in> set xs. k x = v")
  case True
  then show ?thesis using filter_key_singleton[OF assms] by blast
next
  case False
  then show ?thesis by (auto simp: filter_empty_conv)
qed

lemma filter_unique_cases:
  assumes "distinct xs" "\<And>x y. x \<in> set xs \<Longrightarrow> y \<in> set xs \<Longrightarrow> P x \<Longrightarrow> P y \<Longrightarrow> x = y"
  shows "filter P xs = [] \<or> (\<exists>x \<in> set xs. P x \<and> filter P xs = [x])"
proof (cases "filter P xs")
  case (Cons x ys)
  have "ys = []"
  proof (cases ys)
    case (Cons y zs)
    have "distinct (x # y # zs)" using assms(1) \<open>filter P xs = x # ys\<close> Cons distinct_filter by metis
    moreover have "{x, y} \<subseteq> {z \<in> set xs. P z}" using \<open>filter P xs = x # ys\<close> Cons by (metis set_filter list.set_intros empty_subsetI insert_subset)
    ultimately show ?thesis using assms(2) by auto
  qed simp
  moreover have "x \<in> set xs \<and> P x" using Cons by (metis filter_eq_ConsD in_set_conv_decomp)
  ultimately show ?thesis using Cons by auto
qed simp

text \<open>The first match of a key, as \<open>next(row for row in rows if ...)\<close> finds it.\<close>

lemma find_map: "find P (map f xs) = map_option f (find (\<lambda>x. P (f x)) xs)"
  by (induction xs) auto

lemma find_filter: "find P xs = (case filter P xs of [] \<Rightarrow> None | x # _ \<Rightarrow> Some x)"
  by (induction xs) auto

lemma find_key_member: "x \<in> set xs \<Longrightarrow> distinct (map k xs) \<Longrightarrow> find (\<lambda>y. k y = k x) xs = Some x"
  using filter_key_singleton[of k xs x] by (simp add: find_filter)

end
