(* ===== verification/Ids.thy ===== *)
theory Ids
  imports Prelude "HOL-Library.List_Lexorder" "HOL-Library.Char_ord"
begin

unbundle bit_operations_syntax

section \<open>Application-generated identifiers\<close>

text \<open>
  \<open>core/ids.py\<close>: \<open>uuid7\<close> builds an RFC 9562 UUIDv7 from the clock and 74 random bits. A
  \<open>uuid.UUID\<close> is its 128-bit value; \<open>uuid_str\<close> is the standard library's \<open>str(UUID)\<close>. The
  clock and the two random numbers are arguments, in the order the code draws them.
\<close>

type_synonym uuid = "128 word"

definition UNIX_MS_BITS :: nat where "UNIX_MS_BITS = 48"
definition RAND_A_BITS :: nat where "RAND_A_BITS = 12"
definition RAND_B_BITS :: nat where "RAND_B_BITS = 62"

text \<open>\<open>UUID(int=value)\<close> raises unless the value fits 128 bits.\<close>

definition UUID_of_int :: "int \<Rightarrow> exn + uuid" where
  "UUID_of_int value =
     (if 0 \<le> value \<and> value < 2 ^ 128 then Inr (word_of_int value)
      else Inl (ValueError ''int is out of range (need a 128-bit value)''))"

lemma UUID_of_int_Inr:
  "0 \<le> v \<Longrightarrow> v < 2 ^ 128 \<Longrightarrow> \<exists>u. UUID_of_int v = Inr u \<and> uint u = v"
  by (simp add: UUID_of_int_def uint_word_of_int)

definition uuid7 :: "int \<Rightarrow> int \<Rightarrow> int \<Rightarrow> exn + uuid" where
  "uuid7 time_ns rand_a rand_b =
     (let unix_ms = time_ns div 1000000 in
      if unix_ms \<ge> push_bit UNIX_MS_BITS 1
      then Inl (OverflowError ''current Unix millisecond timestamp does not fit UUIDv7'')
      else
        (let value = push_bit 80 unix_ms;
             value = value OR push_bit 76 7;
             value = value OR push_bit 64 rand_a;
             value = value OR push_bit 62 2;
             value = value OR rand_b
         in UUID_of_int value))"

text \<open>The fields RFC 9562 names, read off the 128-bit value.\<close>

definition uuid_unix_ms :: "uuid \<Rightarrow> int" where
  "uuid_unix_ms u = uint u div 2 ^ 80"

definition uuid_version :: "uuid \<Rightarrow> int" where
  "uuid_version u = (uint u div 2 ^ 76) mod 16"

definition uuid_variant :: "uuid \<Rightarrow> int" where
  "uuid_variant u = (uint u div 2 ^ 62) mod 4"

subsection \<open>The bit fields do not overlap\<close>

lemma or_below_push:
  fixes hi lo :: int
  assumes "0 \<le> lo" "lo < 2 ^ n"
  shows "push_bit n hi OR lo = hi * 2 ^ n + lo"
proof -
  have lo: "take_bit n lo = lo" using assms by (simp add: take_bit_int_eq_self)
  have "\<not> bit (push_bit n hi) k \<or> \<not> bit lo k" for k
    by (subst lo [symmetric]) (auto simp: bit_push_bit_iff bit_take_bit_iff)
  then have "push_bit n hi + lo = push_bit n hi OR lo"
    by (intro disjunctive_add_eq_or bit_eqI) (auto simp: bit_and_iff)
  then show ?thesis by (simp add: push_bit_eq_mult)
qed

lemma uuid7_fields_sum:
  fixes ms a b :: int
  assumes "0 \<le> a" "a < 2 ^ 12" "0 \<le> b" "b < 2 ^ 62"
  shows "(((push_bit 80 ms OR push_bit 76 7) OR push_bit 64 a) OR push_bit 62 2) OR b
         = ms * 2 ^ 80 + 7 * 2 ^ 76 + a * 2 ^ 64 + 2 * 2 ^ 62 + b"
proof -
  have 1: "push_bit 80 ms OR push_bit 76 7 = push_bit 76 (ms * 16 + 7)"
    using or_below_push[of "7 * 2 ^ 76" 80 ms] by (simp add: push_bit_eq_mult)
  have 2: "push_bit 76 (ms * 16 + 7) OR push_bit 64 a = push_bit 64 ((ms * 16 + 7) * 2 ^ 12 + a)"
    using or_below_push[of "a * 2 ^ 64" 76 "ms * 16 + 7"] assms
    by (simp add: push_bit_eq_mult algebra_simps)
  have 3: "push_bit 64 x OR push_bit 62 2 = push_bit 62 (x * 4 + 2)" for x :: int
    using or_below_push[of "2 * 2 ^ 62" 64 x] by (simp add: push_bit_eq_mult)
  have 4: "push_bit 62 x OR b = x * 2 ^ 62 + b" for x :: int
    using or_below_push assms by simp
  show ?thesis unfolding 1 2 3 4 by (simp add: algebra_simps)
qed

lemma uuid7_value:
  assumes "0 \<le> t" "t div 1000000 < 2 ^ 48" "0 \<le> a" "a < 2 ^ 12" "0 \<le> b" "b < 2 ^ 62"
  shows "\<exists>u. uuid7 t a b = Inr u \<and>
    uint u = (t div 1000000) * 2 ^ 80 + 7 * 2 ^ 76 + a * 2 ^ 64 + 2 * 2 ^ 62 + b"
proof -
  let ?v = "(t div 1000000) * 2 ^ 80 + 7 * 2 ^ 76 + a * 2 ^ 64 + 2 * 2 ^ 62 + b"
  have ms: "0 \<le> t div 1000000" using assms(1) by simp
  have range: "0 \<le> ?v" "?v < 2 ^ 128" using assms ms by simp_all
  have "uuid7 t a b = UUID_of_int ?v"
    unfolding uuid7_def Let_def uuid7_fields_sum[OF assms(3-6)]
    using assms by (simp add: UNIX_MS_BITS_def push_bit_eq_mult)
  then show ?thesis using UUID_of_int_Inr[OF range] by (simp only:)
qed

lemma uuid7_fields:
  assumes "0 \<le> t" "t div 1000000 < 2 ^ 48" "0 \<le> a" "a < 2 ^ 12" "0 \<le> b" "b < 2 ^ 62"
    and "uuid7 t a b = Inr u"
  shows "uuid_unix_ms u = t div 1000000" "uuid_version u = 7" "uuid_variant u = 2"
proof -
  have u: "uint u = (t div 1000000) * 2 ^ 80 + 7 * 2 ^ 76 + a * 2 ^ 64 + 2 * 2 ^ 62 + b"
    using uuid7_value[OF assms(1-6)] assms(7) by auto
  let ?low = "7 * 2 ^ 76 + a * 2 ^ 64 + 2 * 2 ^ 62 + b"
  have "uint u = ?low + 2 ^ 80 * (t div 1000000)" unfolding u by simp
  moreover have "0 \<le> ?low" "?low < 2 ^ 80" using assms(3-6) by simp_all
  ultimately show "uuid_unix_ms u = t div 1000000"
    unfolding uuid_unix_ms_def by (simp only: div_mult_self2 div_pos_pos_trivial)
  let ?low2 = "a * 2 ^ 64 + 2 * 2 ^ 62 + b"
  have "uint u = ?low2 + 2 ^ 76 * ((t div 1000000) * 16 + 7)" unfolding u by simp
  moreover have "0 \<le> ?low2" "?low2 < 2 ^ 76" using assms(3-6) by simp_all
  ultimately have "uint u div 2 ^ 76 = (t div 1000000) * 16 + 7"
    by (simp only: div_mult_self2 div_pos_pos_trivial)
  then show "uuid_version u = 7" unfolding uuid_version_def by simp
  have "uint u = b + 2 ^ 62 * (((t div 1000000) * 2 ^ 16 + 7 * 2 ^ 12 + a) * 4 + 2)"
    unfolding u by simp
  then have "uint u div 2 ^ 62 = ((t div 1000000) * 2 ^ 16 + 7 * 2 ^ 12 + a) * 4 + 2"
    using assms(5,6) by (simp only: div_mult_self2 div_pos_pos_trivial)
  then show "uuid_variant u = 2" unfolding uuid_variant_def by (simp only: mod_mult_self3) simp
qed

lemma uuid7_total:
  assumes "0 \<le> t" "0 \<le> a" "a < 2 ^ 12" "0 \<le> b" "b < 2 ^ 62"
  shows "(\<exists>u. uuid7 t a b = Inr u) \<longleftrightarrow> t div 1000000 < 2 ^ 48"
proof (cases "t div 1000000 < 2 ^ 48")
  case True
  then show ?thesis using uuid7_value[OF assms(1) True assms(2-5)] by auto
next
  case False
  then show ?thesis by (simp add: uuid7_def UNIX_MS_BITS_def push_bit_eq_mult)
qed

lemma uuid_unix_ms_less: "uuid_unix_ms u < uuid_unix_ms v \<Longrightarrow> u < v"
  unfolding uuid_unix_ms_def word_less_def by (meson not_less zdiv_mono1 zero_less_numeral zero_less_power)

subsection \<open>The canonical text of a UUID\<close>

definition hex_digit :: "int \<Rightarrow> char" where
  "hex_digit n = (if n < 10 then char_of (48 + n) else char_of (87 + n))"

fun hex_digits :: "nat \<Rightarrow> int \<Rightarrow> string" where
  "hex_digits 0 v = []"
| "hex_digits (Suc k) v = hex_digit (v div 16 ^ k mod 16) # hex_digits k v"

definition dashed :: "string \<Rightarrow> string" where
  "dashed h = take 8 h @ ''-'' @ take 4 (drop 8 h) @ ''-'' @ take 4 (drop 12 h) @ ''-''
     @ take 4 (drop 16 h) @ ''-'' @ drop 20 h"

definition uuid_str :: "uuid \<Rightarrow> string" where
  "uuid_str u = dashed (hex_digits 32 (uint u))"

lemma length_hex_digits [simp]: "length (hex_digits k v) = k"
  by (induction k) auto

lemma of_char_hex_digit:
  assumes "0 \<le> n" "n < 16"
  shows "(of_char (hex_digit n) :: nat) = nat (if n < 10 then 48 + n else 87 + n)"
proof -
  have "(of_char (hex_digit n) :: int) = (if n < 10 then 48 + n else 87 + n)"
    using assms by (simp add: hex_digit_def of_char_of)
  then show ?thesis by (metis of_nat_of_char nat_int)
qed

lemma hex_digit_less:
  "0 \<le> m \<Longrightarrow> m < 16 \<Longrightarrow> 0 \<le> n \<Longrightarrow> n < 16 \<Longrightarrow> hex_digit m < hex_digit n \<longleftrightarrow> m < n"
  by (auto simp: less_char_def of_char_hex_digit)

lemma hex_digit_eq:
  "0 \<le> m \<Longrightarrow> m < 16 \<Longrightarrow> 0 \<le> n \<Longrightarrow> n < 16 \<Longrightarrow> hex_digit m = hex_digit n \<longleftrightarrow> m = n"
  using hex_digit_less by (metis less_irrefl linorder_cases)

lemma hex_digits_less: "hex_digits k v < hex_digits k w \<longleftrightarrow> v mod 16 ^ k < w mod 16 ^ k"
proof (induction k)
  case (Suc k)
  have split: "x mod 16 ^ Suc k = 16 ^ k * (x div 16 ^ k mod 16) + x mod 16 ^ k" for x :: int
    using zmod_zmult2_eq[of 16 x "16 ^ k"] by (simp only: power_Suc mult.commute[of 16])
  have lt: "0 \<le> x mod 16 ^ k" "x mod 16 ^ k < 16 ^ k" for x :: int by simp_all
  have pair: "(P * p + r < P * q + s) = (p < q \<or> p = q \<and> r < s)"
    if "0 \<le> r" "r < P" "0 \<le> s" "s < P" for P p q r s :: int
  proof (cases p q rule: linorder_cases)
    case less
    then have "P * (p + 1) \<le> P * q" using that by (intro mult_left_mono) auto
    then show ?thesis using less that by (simp add: algebra_simps)
  next
    case greater
    then have "P * (q + 1) \<le> P * p" using that by (intro mult_left_mono) auto
    then show ?thesis using greater that by (simp add: algebra_simps)
  qed simp
  show ?case
    unfolding split by (simp add: pair lt hex_digit_less hex_digit_eq Suc)
qed simp

lemma append_less_same_length:
  fixes xs ys :: "'a::linorder list"
  assumes "length xs = length ys"
  shows "xs @ us < ys @ vs \<longleftrightarrow> xs < ys \<or> xs = ys \<and> us < vs"
  using assms by (induction xs ys rule: list_induct2) auto

lemma dashed_less:
  assumes "length h = 32" "length h' = 32"
  shows "dashed h < dashed h' \<longleftrightarrow> h < h'"
proof -
  have td: "take m (drop n g) @ drop (m + n) g = drop n g" for m n and g :: string
    by (metis append_take_drop_id drop_drop)
  have parts: "g = take 8 g @ take 4 (drop 8 g) @ take 4 (drop 12 g) @ take 4 (drop 16 g) @ drop 20 g"
    for g :: string
    using td[of 8 0 g] td[of 4 8 g] td[of 4 12 g] td[of 4 16 g] by simp
  have "h < h' \<longleftrightarrow>
    take 8 h @ take 4 (drop 8 h) @ take 4 (drop 12 h) @ take 4 (drop 16 h) @ drop 20 h <
    take 8 h' @ take 4 (drop 8 h') @ take 4 (drop 12 h') @ take 4 (drop 16 h') @ drop 20 h'"
    using parts[of h] parts[of h'] by simp
  then show ?thesis
    by (simp add: dashed_def append_less_same_length assms)
qed

text \<open>Comparing UUIDs as text, as \<open>sorted(..., key=str)\<close> does, is comparing their values.\<close>

lemma uuid_str_less: "uuid_str a < uuid_str b \<longleftrightarrow> a < b"
proof -
  have "uint x mod 16 ^ 32 = uint x" for x :: uuid
    using uint_bounded[of x] by simp
  then show ?thesis
    unfolding uuid_str_def by (simp only: dashed_less length_hex_digits hex_digits_less word_less_def)
qed

lemma uuid_str_inject: "uuid_str a = uuid_str b \<longleftrightarrow> a = b"
  using uuid_str_less by (metis less_irrefl linorder_cases)

lemma sort_key_uuid_str: "sort_key uuid_str xs = sort xs"
proof (induction xs)
  case (Cons x xs)
  have "insort_key uuid_str x ys = insort x ys" for ys
    by (induction ys) (auto simp: uuid_str_less not_less[symmetric])
  then show ?case using Cons by simp
qed simp

subsection \<open>Properties\<close>

text \<open>
  C34: identifier generation is total on the range of the clock: while the millisecond clock fits
  48 bits, every outcome of the random bits gives a UUID that carries the time, version 7 and the
  RFC variant, and different times or random bits give different UUIDs; afterwards it raises.
\<close>

theorem uuid7_well_formed:
  assumes "0 \<le> t" "0 \<le> a" "a < 2 ^ 12" "0 \<le> b" "b < 2 ^ 62"
  shows "(t div 1000000 < 2 ^ 48 \<longrightarrow> (\<exists>u. uuid7 t a b = Inr u
      \<and> uuid_unix_ms u = t div 1000000 \<and> uuid_version u = 7 \<and> uuid_variant u = 2
      \<and> (\<forall>t' a' b'. 0 \<le> t' \<longrightarrow> 0 \<le> a' \<longrightarrow> a' < 2 ^ 12 \<longrightarrow> 0 \<le> b' \<longrightarrow> b' < 2 ^ 62 \<longrightarrow>
           uuid7 t' a' b' = Inr u \<longrightarrow> t' div 1000000 = t div 1000000 \<and> a' = a \<and> b' = b)))
    \<and> (2 ^ 48 \<le> t div 1000000 \<longrightarrow>
      uuid7 t a b = Inl (OverflowError ''current Unix millisecond timestamp does not fit UUIDv7''))"
proof (intro conjI impI)
  assume fits: "t div 1000000 < 2 ^ 48"
  obtain u where u: "uuid7 t a b = Inr u"
    "uint u = (t div 1000000) * 2 ^ 80 + 7 * 2 ^ 76 + a * 2 ^ 64 + 2 * 2 ^ 62 + b"
    using uuid7_value[OF assms(1) fits assms(2-5)] by blast
  note f = uuid7_fields[OF assms(1) fits assms(2-5) u(1)]
  have "t' div 1000000 = t div 1000000 \<and> a' = a \<and> b' = b"
    if h: "0 \<le> t'" "0 \<le> a'" "a' < 2 ^ 12" "0 \<le> b'" "b' < 2 ^ 62" "uuid7 t' a' b' = Inr u" for t' a' b'
  proof -
    have fits': "t' div 1000000 < 2 ^ 48" using uuid7_total[OF h(1-5)] h(6) by blast
    have ms: "t' div 1000000 = t div 1000000"
      using uuid7_fields(1)[OF h(1) fits' h(2-6)] f(1) by simp
    have "uint u = (t' div 1000000) * 2 ^ 80 + 7 * 2 ^ 76 + a' * 2 ^ 64 + 2 * 2 ^ 62 + b'"
      using uuid7_value[OF h(1) fits' h(2-5)] h(6) by auto
    then have e: "2 ^ 64 * a' + b' = 2 ^ 64 * a + b" using u(2) ms by simp
    have lt: "b < 2 ^ 64" "b' < 2 ^ 64" using assms(5) h(5) by simp_all
    have "\<not> a' < a" "\<not> a < a'" using e lt h(4) assms(4) by simp_all
    then show ?thesis using e ms by simp
  qed
  then show "\<exists>u. uuid7 t a b = Inr u
      \<and> uuid_unix_ms u = t div 1000000 \<and> uuid_version u = 7 \<and> uuid_variant u = 2
      \<and> (\<forall>t' a' b'. 0 \<le> t' \<longrightarrow> 0 \<le> a' \<longrightarrow> a' < 2 ^ 12 \<longrightarrow> 0 \<le> b' \<longrightarrow> b' < 2 ^ 62 \<longrightarrow>
           uuid7 t' a' b' = Inr u \<longrightarrow> t' div 1000000 = t div 1000000 \<and> a' = a \<and> b' = b)"
    using u(1) f by blast
next
  assume "2 ^ 48 \<le> t div 1000000"
  then show "uuid7 t a b = Inl (OverflowError ''current Unix millisecond timestamp does not fit UUIDv7'')"
    by (simp add: uuid7_def UNIX_MS_BITS_def push_bit_eq_mult)
qed

theorem uuid7_well_formed_witness:
  "\<exists>u. uuid7 1700000000123456789 5 6 = Inr u \<and> uuid_unix_ms u = 1700000000123 \<and> uuid_version u = 7"
proof -
  have "(1700000000123456789 :: int) div 1000000 = 1700000000123" by simp
  then show ?thesis using uuid7_well_formed[of 1700000000123456789 5 6] by auto
qed

text \<open>
  Identifiers sort by creation: of two generated UUIDs the one with the later millisecond is
  greater, both as a number, the order of the database, and as text, the order of
  \<open>sorted(..., key=str)\<close>.
\<close>

theorem uuid7_time_ordered:
  assumes "0 \<le> t" "0 \<le> a" "a < 2 ^ 12" "0 \<le> b" "b < 2 ^ 62" "uuid7 t a b = Inr u"
    "0 \<le> t'" "0 \<le> a'" "a' < 2 ^ 12" "0 \<le> b'" "b' < 2 ^ 62" "uuid7 t' a' b' = Inr v"
    "t div 1000000 < t' div 1000000"
  shows "u < v \<and> uuid_str u < uuid_str v"
proof -
  have fits: "t div 1000000 < 2 ^ 48" using uuid7_total[OF assms(1-5)] assms(6) by blast
  have fits': "t' div 1000000 < 2 ^ 48" using uuid7_total[OF assms(7-11)] assms(12) by blast
  have "uuid_unix_ms u < uuid_unix_ms v"
    using uuid7_fields(1)[OF assms(1) fits assms(2-6)] uuid7_fields(1)[OF assms(7) fits' assms(8-12)]
      assms(13) by simp
  then show ?thesis using uuid_unix_ms_less by (simp add: uuid_str_less)
qed

theorem uuid7_time_ordered_witness:
  "\<exists>u v. uuid7 1000000 4095 9 = Inr u \<and> uuid7 2000000 0 0 = Inr v \<and> uuid_str u < uuid_str v"
proof -
  obtain u where "uuid7 1000000 4095 9 = Inr u" using uuid7_total[of 1000000 4095 9] by auto
  moreover obtain v where "uuid7 2000000 0 0 = Inr v" using uuid7_total[of 2000000 0 0] by auto
  ultimately show ?thesis using uuid7_time_ordered[of 1000000 4095 9 u 2000000 0 0 v] by auto
qed

end
