(* ===== verification/Database.thy ===== *)
theory Database
  imports Ids
begin

section \<open>JSON values, query rows and the tables\<close>

text \<open>
  The PostgreSQL state the repositories work on and the Python values a query returns.
  \<^item> \<open>json\<close> is a decoded JSON value; a \<open>jsonb\<close> column holds one (what \<open>json.dumps\<close> followed by
    \<open>CAST(... AS jsonb)\<close> stores and the driver decodes again).
  \<^item> A result row is a list of named Python values (\<open>pyval\<close>), as SQLAlchemy's
    \<open>RowMapping\<close>; reading a missing column raises \<open>KeyError\<close>.
  \<^item> \<open>db\<close> is the record of the tables of the schema migrations that the control API
    touches; text columns with a CHECK are strings here, as they are in the schema.
  \<^item> \<open>insert_*\<close> is \<open>INSERT\<close> under the constraints of the schema: it raises \<open>IntegrityError\<close>
    where a primary key, unique, foreign key or check constraint fails.
  Timestamps are microseconds.
\<close>

subsection \<open>Values\<close>

datatype json =
    JNull
  | JBool bool
  | JInt int
  | JFloat string
  | JStr string
  | JArr "json list"
  | JObj "(string \<times> json) list"

type_synonym json_object = "(string \<times> json) list"
type_synonym timestamp = int

datatype pyval =
    PNone
  | PUuid uuid
  | PStr string
  | PInt int
  | PBool bool
  | PDatetime timestamp
  | PDict json_object
  | PList "pyval list"

type_synonym row = "(string \<times> pyval) list"

definition row_get :: "row \<Rightarrow> string \<Rightarrow> exn + pyval" where
  "row_get r k = (case map_of r k of None \<Rightarrow> Inl (KeyError k) | Some v \<Rightarrow> Inr v)"

definition opt_val :: "('a \<Rightarrow> pyval) \<Rightarrow> 'a option \<Rightarrow> pyval" where
  "opt_val f x = (case x of None \<Rightarrow> PNone | Some y \<Rightarrow> f y)"

lemma opt_val_simps [simp]: "opt_val f None = PNone" "opt_val f (Some y) = f y"
  by (simp_all add: opt_val_def)

text \<open>\<open>result.mappings().one_or_none()\<close> and \<open>.one()\<close>.\<close>

fun one_or_none :: "'a list \<Rightarrow> exn + 'a option" where
  "one_or_none [] = Inr None"
| "one_or_none [r] = Inr (Some r)"
| "one_or_none (r # r' # rs) = Inl MultipleResultsFound"

fun one :: "'a list \<Rightarrow> exn + 'a" where
  "one [] = Inl NoResultFound"
| "one [r] = Inr r"
| "one (r # r' # rs) = Inl MultipleResultsFound"

text \<open>
  The \<open>isinstance\<close> guards every repository applies to a column before using it; \<open>who\<close> is the
  first word of the repository's message. A Python bool is an int.
\<close>

definition bad_column :: "string \<Rightarrow> string \<Rightarrow> exn" where
  "bad_column who field = TypeError (who @ '' query returned invalid '' @ field)"

definition uuid_value :: "string \<Rightarrow> pyval \<Rightarrow> string \<Rightarrow> exn + uuid" where
  "uuid_value who v field = (case v of PUuid u \<Rightarrow> Inr u | _ \<Rightarrow> Inl (bad_column who field))"

definition optional_uuid_value :: "string \<Rightarrow> pyval \<Rightarrow> string \<Rightarrow> exn + uuid option" where
  "optional_uuid_value who v field =
     (if v = PNone then Inr None else bind_res (uuid_value who v field) (\<lambda>u. Inr (Some u)))"

definition string_value :: "string \<Rightarrow> pyval \<Rightarrow> string \<Rightarrow> exn + string" where
  "string_value who v field = (case v of PStr s \<Rightarrow> Inr s | _ \<Rightarrow> Inl (bad_column who field))"

definition optional_string :: "string \<Rightarrow> pyval \<Rightarrow> string \<Rightarrow> exn + string option" where
  "optional_string who v field =
     (case v of PNone \<Rightarrow> Inr None | PStr s \<Rightarrow> Inr (Some s) | _ \<Rightarrow> Inl (bad_column who field))"

definition datetime_value :: "string \<Rightarrow> pyval \<Rightarrow> string \<Rightarrow> exn + timestamp" where
  "datetime_value who v field = (case v of PDatetime t \<Rightarrow> Inr t | _ \<Rightarrow> Inl (bad_column who field))"

definition optional_datetime_value :: "string \<Rightarrow> pyval \<Rightarrow> string \<Rightarrow> exn + timestamp option" where
  "optional_datetime_value who v field =
     (if v = PNone then Inr None else bind_res (datetime_value who v field) (\<lambda>t. Inr (Some t)))"

definition json_object_value :: "string \<Rightarrow> pyval \<Rightarrow> string \<Rightarrow> exn + json_object" where
  "json_object_value who v field = (case v of PDict o' \<Rightarrow> Inr o' | _ \<Rightarrow> Inl (bad_column who field))"

lemmas column_values = uuid_value_def optional_uuid_value_def string_value_def optional_string_def
  datetime_value_def optional_datetime_value_def json_object_value_def

lemma column_values_ok [simp]:
  "uuid_value who (PUuid u) f = Inr u"
  "string_value who (PStr s) f = Inr s"
  "datetime_value who (PDatetime t) f = Inr t"
  "json_object_value who (PDict c) f = Inr c"
  "optional_uuid_value who (opt_val PUuid ou) f = Inr ou"
  "optional_string who (opt_val PStr os) f = Inr os"
  "optional_datetime_value who (opt_val PDatetime ot) f = Inr ot"
  by (auto simp: column_values opt_val_def split: option.splits)

subsection \<open>Tables\<close>

record user_row =
  u_id :: uuid
  u_email :: string
  u_email_normalized :: string
  u_display_name :: "string option"
  u_status :: string

record identity_row =
  i_id :: uuid
  i_user_id :: uuid
  i_issuer :: string
  i_subject :: string
  i_status :: string

record session_row =
  s_id :: uuid
  s_identity_id :: uuid
  s_provider_session_id :: string
  s_expires_at :: timestamp
  s_revoked_at :: "timestamp option"
  s_created_at :: timestamp

record workspace_row =
  ws_id :: uuid
  ws_name :: string
  ws_status :: string
  ws_created_at :: timestamp
  ws_updated_at :: timestamp

record membership_row =
  m_id :: uuid
  m_workspace_id :: uuid
  m_user_id :: uuid
  m_role :: string
  m_ended_at :: "timestamp option"

record project_row =
  p_id :: uuid
  p_workspace_id :: uuid
  p_name :: string
  p_status :: string
  p_created_at :: timestamp
  p_updated_at :: timestamp
  p_archived_at :: "timestamp option"

record connection_row =
  c_id :: uuid
  c_workspace_id :: uuid
  c_name :: string
  c_provider_key :: string
  c_access_mode :: string
  c_status :: string
  c_created_at :: timestamp
  c_updated_at :: timestamp
  c_archived_at :: "timestamp option"

record draft_row =
  d_connection_id :: uuid
  d_workspace_id :: uuid
  d_json :: json_object
  d_updated_by_user_id :: "uuid option"
  d_updated_at :: timestamp

record revision_row =
  r_id :: uuid
  r_workspace_id :: uuid
  r_connection_id :: uuid
  r_number :: int
  r_schema_version :: int
  r_config_json :: json_object
  r_config_hash :: "8 word list"
  r_created_by_user_id :: "uuid option"
  r_created_at :: timestamp

record access_row =
  a_workspace_id :: uuid
  a_connection_id :: uuid
  a_project_id :: uuid
  a_granted_by_user_id :: "uuid option"

record audit_row =
  au_id :: uuid
  au_workspace_id :: "uuid option"
  au_project_id :: "uuid option"
  au_scope :: string
  au_actor_type :: string
  au_actor_user_id :: "uuid option"
  au_actor_role_snapshot :: "string option"
  au_effective_user_id :: "uuid option"
  au_action :: string
  au_outcome :: string
  au_resource_type :: string
  au_resource_id :: "uuid option"
  au_resource_display_snapshot :: "string option"
  au_before_json :: "json_object option"
  au_after_json :: "json_object option"
  au_change_json :: "json_object option"
  au_request_id :: "string option"
  au_trace_id :: "string option"
  au_session_id :: "string option"
  au_surface :: string
  au_created_at :: timestamp

record db =
  users :: "user_row list"
  identities :: "identity_row list"
  auth_sessions :: "session_row list"
  workspaces :: "workspace_row list"
  memberships :: "membership_row list"
  projects :: "project_row list"
  connections :: "connection_row list"
  drafts :: "draft_row list"
  revisions :: "revision_row list"
  project_access :: "access_row list"
  audit_events :: "audit_row list"

definition empty_db :: db where
  "empty_db = \<lparr>users = [], identities = [], auth_sessions = [], workspaces = [], memberships = [],
     projects = [], connections = [], drafts = [], revisions = [], project_access = [],
     audit_events = []\<rparr>"

subsection \<open>The constraints of the schema\<close>

definition user_statuses :: "string list" where
  "user_statuses = [''ACTIVE'', ''DISABLED'']"

definition workspace_statuses :: "string list" where
  "workspace_statuses = [''ACTIVE'', ''SUSPENDED'', ''ARCHIVED'', ''PENDING_DELETION'']"

definition membership_roles :: "string list" where
  "membership_roles = [''OWNER'', ''ADMIN'', ''BUILDER'', ''VIEWER'']"

definition connection_access_modes :: "string list" where
  "connection_access_modes = [''WORKSPACE'', ''SELECTED_PROJECTS'']"

definition connection_statuses :: "string list" where
  "connection_statuses = [''DRAFT'', ''ACTIVE'', ''DISABLED'', ''ARCHIVED'']"

lemmas check_lists = user_statuses_def workspace_statuses_def membership_roles_def
  connection_access_modes_def connection_statuses_def

definition users_ok :: "db \<Rightarrow> bool" where
  "users_ok d \<longleftrightarrow> distinct (map u_id (users d)) \<and> distinct (map u_email_normalized (users d))
     \<and> (\<forall>u \<in> set (users d). u_status u \<in> set user_statuses)"

definition identities_ok :: "db \<Rightarrow> bool" where
  "identities_ok d \<longleftrightarrow> distinct (map i_id (identities d))
     \<and> distinct (map (\<lambda>i. (i_issuer i, i_subject i)) (identities d))
     \<and> (\<forall>i \<in> set (identities d). i_user_id i \<in> set (map u_id (users d))
          \<and> i_status i \<in> set user_statuses \<and> i_issuer i \<noteq> [] \<and> i_subject i \<noteq> [])"

definition sessions_ok :: "db \<Rightarrow> bool" where
  "sessions_ok d \<longleftrightarrow> distinct (map s_id (auth_sessions d))
     \<and> distinct (map (\<lambda>s. (s_identity_id s, s_provider_session_id s)) (auth_sessions d))
     \<and> (\<forall>s \<in> set (auth_sessions d). s_identity_id s \<in> set (map i_id (identities d))
          \<and> s_provider_session_id s \<noteq> [] \<and> s_created_at s < s_expires_at s)"

definition workspaces_ok :: "db \<Rightarrow> bool" where
  "workspaces_ok d \<longleftrightarrow> distinct (map ws_id (workspaces d))
     \<and> (\<forall>w \<in> set (workspaces d). ws_status w \<in> set workspace_statuses)"

definition active_memberships :: "db \<Rightarrow> membership_row list" where
  "active_memberships d = filter (\<lambda>m. m_ended_at m = None) (memberships d)"

definition memberships_ok :: "db \<Rightarrow> bool" where
  "memberships_ok d \<longleftrightarrow> distinct (map m_id (memberships d))
     \<and> distinct (map (\<lambda>m. (m_workspace_id m, m_user_id m)) (active_memberships d))
     \<and> (\<forall>m \<in> set (memberships d). m_workspace_id m \<in> set (map ws_id (workspaces d))
          \<and> m_user_id m \<in> set (map u_id (users d)) \<and> m_role m \<in> set membership_roles)"

definition projects_ok :: "db \<Rightarrow> bool" where
  "projects_ok d \<longleftrightarrow> distinct (map p_id (projects d))
     \<and> (\<forall>p \<in> set (projects d). p_workspace_id p \<in> set (map ws_id (workspaces d))
          \<and> p_status p \<in> set workspace_statuses)"

definition connections_ok :: "db \<Rightarrow> bool" where
  "connections_ok d \<longleftrightarrow> distinct (map c_id (connections d))
     \<and> (\<forall>c \<in> set (connections d). c_workspace_id c \<in> set (map ws_id (workspaces d))
          \<and> c_access_mode c \<in> set connection_access_modes \<and> c_status c \<in> set connection_statuses)"

definition connection_keys :: "db \<Rightarrow> (uuid \<times> uuid) list" where
  "connection_keys d = map (\<lambda>c. (c_workspace_id c, c_id c)) (connections d)"

definition project_keys :: "db \<Rightarrow> (uuid \<times> uuid) list" where
  "project_keys d = map (\<lambda>p. (p_workspace_id p, p_id p)) (projects d)"

definition drafts_ok :: "db \<Rightarrow> bool" where
  "drafts_ok d \<longleftrightarrow> distinct (map d_connection_id (drafts d))
     \<and> (\<forall>r \<in> set (drafts d). (d_workspace_id r, d_connection_id r) \<in> set (connection_keys d))"

definition revisions_ok :: "db \<Rightarrow> bool" where
  "revisions_ok d \<longleftrightarrow> distinct (map r_id (revisions d))
     \<and> distinct (map (\<lambda>r. (r_connection_id r, r_number r)) (revisions d))
     \<and> (\<forall>r \<in> set (revisions d). (r_workspace_id r, r_connection_id r) \<in> set (connection_keys d)
          \<and> 0 < r_number r \<and> 0 < r_schema_version r)"

definition access_ok :: "db \<Rightarrow> bool" where
  "access_ok d \<longleftrightarrow> distinct (map (\<lambda>a. (a_connection_id a, a_project_id a)) (project_access d))
     \<and> (\<forall>a \<in> set (project_access d). (a_workspace_id a, a_connection_id a) \<in> set (connection_keys d)
          \<and> (a_workspace_id a, a_project_id a) \<in> set (project_keys d))"

definition audit_ok :: "db \<Rightarrow> bool" where
  "audit_ok d \<longleftrightarrow> distinct (map au_id (audit_events d))
     \<and> (\<forall>e \<in> set (audit_events d). au_scope e = ''TENANT'' \<longrightarrow> au_workspace_id e \<noteq> None)"

definition schema_ok :: "db \<Rightarrow> bool" where
  "schema_ok d \<longleftrightarrow> users_ok d \<and> identities_ok d \<and> sessions_ok d \<and> workspaces_ok d
     \<and> memberships_ok d \<and> projects_ok d \<and> connections_ok d \<and> drafts_ok d \<and> revisions_ok d
     \<and> access_ok d \<and> audit_ok d"

lemmas table_ok_defs = users_ok_def identities_ok_def sessions_ok_def workspaces_ok_def
  memberships_ok_def active_memberships_def projects_ok_def connections_ok_def drafts_ok_def
  revisions_ok_def access_ok_def audit_ok_def connection_keys_def project_keys_def

lemma schema_ok_empty: "schema_ok empty_db"
  by (simp add: schema_ok_def table_ok_defs empty_db_def)

subsection \<open>INSERT under the constraints\<close>

definition insert_users :: "user_row \<Rightarrow> (db, unit) tx" where
  "insert_users r d =
     (if u_id r \<in> set (map u_id (users d)) then Inl (IntegrityError ''users_pkey'')
      else if u_email_normalized r \<in> set (map u_email_normalized (users d))
      then Inl (IntegrityError ''users_email_normalized_key'')
      else if u_status r \<notin> set user_statuses then Inl (IntegrityError ''users_status_check'')
      else Inr ((), d\<lparr>users := users d @ [r]\<rparr>))"

definition insert_identities :: "identity_row \<Rightarrow> (db, unit) tx" where
  "insert_identities r d =
     (if i_id r \<in> set (map i_id (identities d)) then Inl (IntegrityError ''user_auth_identities_pkey'')
      else if (i_issuer r, i_subject r) \<in> set (map (\<lambda>i. (i_issuer i, i_subject i)) (identities d))
      then Inl (IntegrityError ''user_auth_identities_issuer_subject_key'')
      else if i_user_id r \<notin> set (map u_id (users d))
      then Inl (IntegrityError ''user_auth_identities_user_id_fkey'')
      else if i_status r \<notin> set user_statuses \<or> i_issuer r = [] \<or> i_subject r = []
      then Inl (IntegrityError ''user_auth_identities_check'')
      else Inr ((), d\<lparr>identities := identities d @ [r]\<rparr>))"

definition insert_auth_sessions :: "session_row \<Rightarrow> (db, unit) tx" where
  "insert_auth_sessions r d =
     (if s_id r \<in> set (map s_id (auth_sessions d)) then Inl (IntegrityError ''auth_sessions_pkey'')
      else if (s_identity_id r, s_provider_session_id r) \<in>
              set (map (\<lambda>s. (s_identity_id s, s_provider_session_id s)) (auth_sessions d))
      then Inl (IntegrityError ''auth_sessions_identity_provider_session_key'')
      else if s_identity_id r \<notin> set (map i_id (identities d))
      then Inl (IntegrityError ''auth_sessions_user_auth_identity_id_fkey'')
      else if s_provider_session_id r = [] \<or> \<not> s_created_at r < s_expires_at r
      then Inl (IntegrityError ''auth_sessions_check'')
      else Inr ((), d\<lparr>auth_sessions := auth_sessions d @ [r]\<rparr>))"

definition insert_workspaces :: "workspace_row \<Rightarrow> (db, unit) tx" where
  "insert_workspaces r d =
     (if ws_id r \<in> set (map ws_id (workspaces d)) then Inl (IntegrityError ''workspaces_pkey'')
      else if ws_status r \<notin> set workspace_statuses then Inl (IntegrityError ''workspaces_status_check'')
      else Inr ((), d\<lparr>workspaces := workspaces d @ [r]\<rparr>))"

definition insert_memberships :: "membership_row \<Rightarrow> (db, unit) tx" where
  "insert_memberships r d =
     (if m_id r \<in> set (map m_id (memberships d)) then Inl (IntegrityError ''workspace_memberships_pkey'')
      else if m_workspace_id r \<notin> set (map ws_id (workspaces d))
      then Inl (IntegrityError ''workspace_memberships_workspace_id_fkey'')
      else if m_user_id r \<notin> set (map u_id (users d))
      then Inl (IntegrityError ''workspace_memberships_user_id_fkey'')
      else if m_role r \<notin> set membership_roles
      then Inl (IntegrityError ''workspace_memberships_role_check'')
      else if m_ended_at r = None \<and> (m_workspace_id r, m_user_id r) \<in>
              set (map (\<lambda>m. (m_workspace_id m, m_user_id m)) (active_memberships d))
      then Inl (IntegrityError ''uq_workspace_memberships_active'')
      else Inr ((), d\<lparr>memberships := memberships d @ [r]\<rparr>))"

definition insert_projects :: "project_row \<Rightarrow> (db, unit) tx" where
  "insert_projects r d =
     (if p_id r \<in> set (map p_id (projects d)) then Inl (IntegrityError ''projects_pkey'')
      else if p_workspace_id r \<notin> set (map ws_id (workspaces d))
      then Inl (IntegrityError ''projects_workspace_id_fkey'')
      else if p_status r \<notin> set workspace_statuses then Inl (IntegrityError ''projects_status_check'')
      else Inr ((), d\<lparr>projects := projects d @ [r]\<rparr>))"

definition insert_connections :: "connection_row \<Rightarrow> (db, unit) tx" where
  "insert_connections r d =
     (if c_id r \<in> set (map c_id (connections d)) then Inl (IntegrityError ''connections_pkey'')
      else if c_workspace_id r \<notin> set (map ws_id (workspaces d))
      then Inl (IntegrityError ''connections_workspace_id_fkey'')
      else if c_access_mode r \<notin> set connection_access_modes \<or> c_status r \<notin> set connection_statuses
      then Inl (IntegrityError ''connections_check'')
      else Inr ((), d\<lparr>connections := connections d @ [r]\<rparr>))"

definition insert_revisions :: "revision_row \<Rightarrow> (db, unit) tx" where
  "insert_revisions r d =
     (if r_id r \<in> set (map r_id (revisions d)) then Inl (IntegrityError ''connection_revisions_pkey'')
      else if (r_connection_id r, r_number r) \<in>
              set (map (\<lambda>x. (r_connection_id x, r_number x)) (revisions d))
      then Inl (IntegrityError ''connection_revisions_connection_id_revision_number_key'')
      else if (r_workspace_id r, r_connection_id r) \<notin> set (connection_keys d)
      then Inl (IntegrityError ''connection_revisions_workspace_id_connection_id_fkey'')
      else if r_number r \<le> 0 \<or> r_schema_version r \<le> 0
      then Inl (IntegrityError ''connection_revisions_check'')
      else Inr ((), d\<lparr>revisions := revisions d @ [r]\<rparr>))"

definition insert_project_access :: "access_row \<Rightarrow> (db, unit) tx" where
  "insert_project_access r d =
     (if (a_connection_id r, a_project_id r) \<in>
         set (map (\<lambda>a. (a_connection_id a, a_project_id a)) (project_access d))
      then Inl (IntegrityError ''connection_project_access_pkey'')
      else if (a_workspace_id r, a_connection_id r) \<notin> set (connection_keys d)
      then Inl (IntegrityError ''connection_project_access_workspace_id_connection_id_fkey'')
      else if (a_workspace_id r, a_project_id r) \<notin> set (project_keys d)
      then Inl (IntegrityError ''connection_project_access_workspace_id_project_id_fkey'')
      else Inr ((), d\<lparr>project_access := project_access d @ [r]\<rparr>))"

definition insert_audit_events :: "audit_row \<Rightarrow> (db, unit) tx" where
  "insert_audit_events r d =
     (if au_id r \<in> set (map au_id (audit_events d)) then Inl (IntegrityError ''audit_events_pkey'')
      else if au_scope r = ''TENANT'' \<and> au_workspace_id r = None
      then Inl (IntegrityError ''audit_events_check'')
      else Inr ((), d\<lparr>audit_events := audit_events d @ [r]\<rparr>))"

text \<open>Each statement keeps every constraint of the schema.\<close>

lemma insert_preserves [preserves_rules]:
  "preserves schema_ok (insert_users ur)"
  "preserves schema_ok (insert_identities ir)"
  "preserves schema_ok (insert_auth_sessions sr)"
  "preserves schema_ok (insert_workspaces wr)"
  "preserves schema_ok (insert_memberships mr)"
  "preserves schema_ok (insert_projects pr)"
  "preserves schema_ok (insert_connections cr)"
  "preserves schema_ok (insert_revisions rr)"
  "preserves schema_ok (insert_project_access ar)"
  "preserves schema_ok (insert_audit_events er)"
  unfolding preserves_def schema_ok_def
  by (auto simp: insert_users_def insert_identities_def insert_auth_sessions_def
      insert_workspaces_def insert_memberships_def insert_projects_def insert_connections_def
      insert_revisions_def insert_project_access_def insert_audit_events_def table_ok_defs
      split: if_splits)

subsection \<open>The membership join\<close>

text \<open>
  Every Workspace-scoped query starts from the join of the caller's active memberships with
  their Workspaces. Under the schema's constraints it has at most one row per Workspace.
\<close>

definition membership_join :: "db \<Rightarrow> (membership_row \<Rightarrow> bool) \<Rightarrow> (workspace_row \<times> membership_row) list" where
  "membership_join d P =
     concat (map (\<lambda>m. map (\<lambda>w. (w, m)) (filter (\<lambda>w. ws_id w = m_workspace_id m) (workspaces d)))
       (filter (\<lambda>m. P m \<and> m_ended_at m = None) (memberships d)))"

abbreviation member_rows :: "db \<Rightarrow> uuid \<Rightarrow> uuid \<Rightarrow> (workspace_row \<times> membership_row) list" where
  "member_rows d user_id workspace_id \<equiv>
     membership_join d (\<lambda>m. m_user_id m = user_id \<and> m_workspace_id m = workspace_id)"

definition is_member_row :: "db \<Rightarrow> uuid \<Rightarrow> uuid \<Rightarrow> workspace_row \<Rightarrow> membership_row \<Rightarrow> bool" where
  "is_member_row d user_id workspace_id w m \<longleftrightarrow> w \<in> set (workspaces d) \<and> m \<in> set (memberships d)
     \<and> ws_id w = workspace_id \<and> m_workspace_id m = workspace_id \<and> m_user_id m = user_id
     \<and> m_ended_at m = None"

lemma set_membership_join:
  "set (membership_join d P) = {(w, m). w \<in> set (workspaces d) \<and> m \<in> set (memberships d)
     \<and> ws_id w = m_workspace_id m \<and> P m \<and> m_ended_at m = None}"
  by (auto simp: membership_join_def)

lemma workspace_filter_singleton:
  assumes "schema_ok d" "m \<in> set (memberships d)"
  shows "\<exists>w. filter (\<lambda>w. ws_id w = m_workspace_id m) (workspaces d) = [w]"
proof -
  have "m_workspace_id m \<in> ws_id ` set (workspaces d)" "distinct (map ws_id (workspaces d))"
    using assms by (auto simp: schema_ok_def memberships_ok_def workspaces_ok_def)
  then obtain w where "w \<in> set (workspaces d)" "ws_id w = m_workspace_id m"
    and "distinct (map ws_id (workspaces d))" by auto
  then show ?thesis using filter_key_singleton[of ws_id "workspaces d" w] by auto
qed

lemma active_filter_cases:
  assumes "schema_ok d"
  shows "filter (\<lambda>m. (m_user_id m = u \<and> m_workspace_id m = w) \<and> m_ended_at m = None) (memberships d) = []
    \<or> (\<exists>m \<in> set (memberships d). m_user_id m = u \<and> m_workspace_id m = w \<and> m_ended_at m = None \<and>
        filter (\<lambda>m. (m_user_id m = u \<and> m_workspace_id m = w) \<and> m_ended_at m = None) (memberships d) = [m])"
proof -
  let ?k = "\<lambda>m. (m_workspace_id m, m_user_id m)"
  have eq: "filter (\<lambda>m. (m_user_id m = u \<and> m_workspace_id m = w) \<and> m_ended_at m = None) (memberships d)
    = filter (\<lambda>m. ?k m = (w, u)) (active_memberships d)"
    by (auto simp: active_memberships_def intro: filter_cong)
  have "distinct (map ?k (active_memberships d))"
    using assms by (simp add: schema_ok_def memberships_ok_def)
  from filter_key_cases[OF this, of "(w, u)"] show ?thesis
    unfolding eq by (auto simp: active_memberships_def)
qed

lemma member_rows_cases:
  assumes "schema_ok d"
  shows "member_rows d u w = []
    \<or> (\<exists>ws m. member_rows d u w = [(ws, m)] \<and> is_member_row d u w ws m)"
  using active_filter_cases[OF assms, of u w]
proof (elim disjE bexE conjE)
  fix m assume m: "m \<in> set (memberships d)" "m_user_id m = u" "m_workspace_id m = w" "m_ended_at m = None"
    and f: "filter (\<lambda>m. (m_user_id m = u \<and> m_workspace_id m = w) \<and> m_ended_at m = None) (memberships d) = [m]"
  obtain ws where ws: "filter (\<lambda>w. ws_id w = m_workspace_id m) (workspaces d) = [ws]"
    using workspace_filter_singleton[OF assms m(1)] by blast
  then have "ws \<in> set (filter (\<lambda>w. ws_id w = m_workspace_id m) (workspaces d))" by simp
  then have "ws \<in> set (workspaces d)" "ws_id ws = w" using m(3) by auto
  moreover have "member_rows d u w = [(ws, m)]" using f ws by (simp add: membership_join_def)
  ultimately show ?thesis using m by (auto simp: is_member_row_def)
qed (simp add: membership_join_def)

lemma member_rows_Nil_iff:
  "member_rows d u w = [] \<longleftrightarrow> (\<forall>ws m. \<not> is_member_row d u w ws m)"
proof -
  have "member_rows d u w = [] \<longleftrightarrow> set (member_rows d u w) = {}" by simp
  then show ?thesis by (auto simp: set_membership_join is_member_row_def simp del: set_empty)
qed

lemma not_member_row: "member_rows d u w = [] \<Longrightarrow> \<not> is_member_row d u w ws m"
  using set_membership_join[of d "\<lambda>m. m_user_id m = u \<and> m_workspace_id m = w"]
  by (auto simp: is_member_row_def)

lemma member_rows_eq:
  assumes "schema_ok d" "is_member_row d u w ws m"
  shows "member_rows d u w = [(ws, m)]"
proof -
  have "(ws, m) \<in> set (member_rows d u w)"
    using assms(2) by (auto simp: set_membership_join is_member_row_def)
  then show ?thesis using member_rows_cases[OF assms(1), of u w] by auto
qed

lemma member_row_checks:
  assumes "schema_ok d" "is_member_row d u w ws m"
  shows "m_role m \<in> set membership_roles" "ws_status ws \<in> set workspace_statuses"
    "u \<in> set (map u_id (users d))"
  using assms by (auto simp: schema_ok_def memberships_ok_def workspaces_ok_def is_member_row_def)

lemma membership_join_cong [simp]:
  "membership_join (d\<lparr>users := x1\<rparr>) P = membership_join d P"
  "membership_join (d\<lparr>identities := x2\<rparr>) P = membership_join d P"
  "membership_join (d\<lparr>auth_sessions := x3\<rparr>) P = membership_join d P"
  "membership_join (d\<lparr>projects := x4\<rparr>) P = membership_join d P"
  "membership_join (d\<lparr>connections := x5\<rparr>) P = membership_join d P"
  "membership_join (d\<lparr>drafts := x6\<rparr>) P = membership_join d P"
  "membership_join (d\<lparr>revisions := x7\<rparr>) P = membership_join d P"
  "membership_join (d\<lparr>project_access := x8\<rparr>) P = membership_join d P"
  "membership_join (d\<lparr>audit_events := x9\<rparr>) P = membership_join d P"
  by (simp_all add: membership_join_def)

subsection \<open>Selecting by key\<close>

text \<open>A \<open>SELECT\<close> by a unique key, read with \<open>one_or_none\<close>, finds the one row there is.\<close>

lemma one_or_none_find:
  assumes "distinct (map k xs)"
  shows "one_or_none (filter (\<lambda>x. P x \<and> k x = v) xs) = Inr (find (\<lambda>x. P x \<and> k x = v) xs)"
proof -
  have eq: "filter (\<lambda>x. P x \<and> k x = v) xs = filter P (filter (\<lambda>x. k x = v) xs)"
    by (simp add: filter_filter conj_commute)
  show ?thesis
    unfolding find_filter eq using filter_key_cases[OF assms, of v] by (auto simp del: filter_filter)
qed

lemma one_or_none_map: "one_or_none (map f xs) = map_sum id (map_option f) (one_or_none xs)"
  by (induction xs rule: one_or_none.induct) auto

subsection \<open>A concrete database\<close>

text \<open>
  Two Workspaces: 10 with owner 1, builder 4 and viewer 2, and 11 with owner 3; Projects 20, 21,
  22 in the first and 23 in the second; a draft Connection 30 in the first. The witnesses
  evaluate the model on it.
\<close>

definition sample_db :: db where
  "sample_db = \<lparr>
     users = [\<lparr>u_id = 1, u_email = ''Ann@x.io'', u_email_normalized = ''ann@x.io'', u_display_name = None, u_status = ''ACTIVE''\<rparr>,
       \<lparr>u_id = 2, u_email = ''bob@x.io'', u_email_normalized = ''bob@x.io'', u_display_name = None, u_status = ''ACTIVE''\<rparr>,
       \<lparr>u_id = 3, u_email = ''eve@x.io'', u_email_normalized = ''eve@x.io'', u_display_name = None, u_status = ''ACTIVE''\<rparr>,
       \<lparr>u_id = 4, u_email = ''cat@x.io'', u_email_normalized = ''cat@x.io'', u_display_name = None, u_status = ''ACTIVE''\<rparr>],
     identities = [\<lparr>i_id = 100, i_user_id = 1, i_issuer = ''iss'', i_subject = ''user_1'', i_status = ''ACTIVE''\<rparr>],
     auth_sessions = [\<lparr>s_id = 200, s_identity_id = 100, s_provider_session_id = ''sess_1'',
       s_expires_at = 1000, s_revoked_at = None, s_created_at = 0\<rparr>],
     workspaces = [\<lparr>ws_id = 10, ws_name = ''First'', ws_status = ''ACTIVE'', ws_created_at = 1, ws_updated_at = 1\<rparr>,
       \<lparr>ws_id = 11, ws_name = ''Second'', ws_status = ''SUSPENDED'', ws_created_at = 2, ws_updated_at = 2\<rparr>],
     memberships = [\<lparr>m_id = 300, m_workspace_id = 10, m_user_id = 1, m_role = ''OWNER'', m_ended_at = None\<rparr>,
       \<lparr>m_id = 301, m_workspace_id = 10, m_user_id = 2, m_role = ''VIEWER'', m_ended_at = None\<rparr>,
       \<lparr>m_id = 302, m_workspace_id = 11, m_user_id = 3, m_role = ''OWNER'', m_ended_at = None\<rparr>,
       \<lparr>m_id = 303, m_workspace_id = 10, m_user_id = 4, m_role = ''BUILDER'', m_ended_at = None\<rparr>],
     projects = [\<lparr>p_id = 20, p_workspace_id = 10, p_name = ''A'', p_status = ''ACTIVE'', p_created_at = 5, p_updated_at = 5, p_archived_at = None\<rparr>,
       \<lparr>p_id = 21, p_workspace_id = 10, p_name = ''B'', p_status = ''ACTIVE'', p_created_at = 7, p_updated_at = 7, p_archived_at = None\<rparr>,
       \<lparr>p_id = 22, p_workspace_id = 10, p_name = ''C'', p_status = ''ACTIVE'', p_created_at = 7, p_updated_at = 7, p_archived_at = None\<rparr>,
       \<lparr>p_id = 23, p_workspace_id = 11, p_name = ''D'', p_status = ''ACTIVE'', p_created_at = 6, p_updated_at = 6, p_archived_at = None\<rparr>],
     connections = [\<lparr>c_id = 30, c_workspace_id = 10, c_name = ''Hook'', c_provider_key = ''generic_http'',
       c_access_mode = ''WORKSPACE'', c_status = ''DRAFT'', c_created_at = 8, c_updated_at = 8, c_archived_at = None\<rparr>],
     drafts = [\<lparr>d_connection_id = 30, d_workspace_id = 10,
       d_json = [(''base_url'', JStr ''https://api.x.io'')],
       d_updated_by_user_id = Some 1, d_updated_at = 8\<rparr>],
     revisions = [], project_access = [], audit_events = []\<rparr>"

lemma sample_db_schema: "schema_ok sample_db"
  by (simp add: schema_ok_def table_ok_defs check_lists sample_db_def)

end
