(* ===== verification/Keyset.thy ===== *)
theory Keyset
  imports Ids "HOL-Library.Option_ord" "HOL-Library.Multiset"
begin

section \<open>Keyset pagination\<close>

text \<open>
  The three list endpoints (Projects, Connections, Connection revisions) page the same way:
  \<open>ORDER BY key DESC LIMIT limit + 1\<close> below a cursor, one row more than asked to know whether
  a next page exists, and the key of the last visible row as the next cursor. This theory
  holds the query on a list of rows and the contract of a page (locale \<open>keyset_pages\<close>): a client
  that follows the cursors sees every row exactly once, newest first. Each component proves
  the contract for its own operation.
\<close>

subsection \<open>The query\<close>

text \<open>\<open>CAST(:cursor AS ...) IS NULL OR key < :cursor\<close>.\<close>

definition below :: "'k::linorder option \<Rightarrow> 'k \<Rightarrow> bool" where
  "below cursor k = (case cursor of None \<Rightarrow> True | Some c \<Rightarrow> k < c)"

lemma below_simps [simp]: "below None k" "below (Some c) k \<longleftrightarrow> k < c"
  by (simp_all add: below_def)

definition order_desc :: "('a \<Rightarrow> 'k::linorder) \<Rightarrow> 'a list \<Rightarrow> 'a list" where
  "order_desc key xs = rev (sort_key key xs)"

definition descending :: "('a \<Rightarrow> 'k::linorder) \<Rightarrow> 'a list \<Rightarrow> bool" where
  "descending key xs \<longleftrightarrow> sorted_wrt (\<lambda>x y. key y < key x) xs"

lemma set_order_desc [simp]: "set (order_desc key xs) = set xs"
  by (simp add: order_desc_def)

lemma length_order_desc [simp]: "length (order_desc key xs) = length xs"
  by (simp add: order_desc_def)

lemma distinct_map_sort_key: "distinct (map k xs) \<Longrightarrow> distinct (map k (sort_key f xs))"
  by (simp add: distinct_map)

lemma descending_order_desc:
  assumes "distinct (map key xs)"
  shows "descending key (order_desc key xs)"
proof -
  let ?s = "sort_key key xs"
  have "sorted (map key ?s)" "distinct (map key ?s)"
    using distinct_map_sort_key[OF assms] by simp_all
  then have "sorted_wrt (<) (map key ?s)" by (simp add: strict_sorted_iff)
  then show ?thesis by (simp add: descending_def order_desc_def sorted_wrt_rev sorted_wrt_map)
qed

lemma filter_order_desc: "filter P (order_desc key xs) = order_desc key (filter P xs)"
  by (simp add: order_desc_def rev_filter[symmetric] filter_sort)

lemma order_desc_filter_key: "order_desc key (filter P xs) = filter P (order_desc key xs)"
  by (simp add: filter_order_desc)

lemma descending_distinct_key: "descending key xs \<Longrightarrow> distinct (map key xs)"
  by (induction xs) (auto simp: descending_def)

lemma descending_sorted: "descending key xs \<Longrightarrow> sorted (map key (rev xs))"
  unfolding descending_def by (induction xs) (auto simp: sorted_append less_imp_le)

text \<open>A list already in descending order is what the outer \<open>ORDER BY\<close> leaves it.\<close>

lemma order_desc_descending:
  assumes "descending key xs"
  shows "order_desc key xs = xs"
proof -
  have "sort_key key xs = rev xs"
  proof (rule properties_for_sort_key)
    show "mset (rev xs) = mset xs" by simp
    show "sorted (map key (rev xs))" by (rule descending_sorted[OF assms])
    fix k assume "k \<in> set (rev xs)"
    moreover have "filter (\<lambda>x. key k = key x) xs = filter (\<lambda>x. key x = key k) xs"
      by (intro filter_cong) auto
    ultimately have "filter (\<lambda>x. key k = key x) xs = [k]"
      using filter_key_singleton[OF descending_distinct_key[OF assms]] by simp
    then show "filter (\<lambda>x. key k = key x) (rev xs) = filter (\<lambda>x. key k = key x) xs"
      by (simp add: rev_filter[symmetric])
  qed
  then show ?thesis by (simp add: order_desc_def)
qed

lemma descending_filter: "descending key xs \<Longrightarrow> descending key (filter P xs)"
  by (simp add: descending_def sorted_wrt_filter)

lemma descending_take: "descending key xs \<Longrightarrow> descending key (take n xs)"
  by (simp add: descending_def sorted_wrt_take)

lemma descending_map: "descending key (map f xs) \<longleftrightarrow> descending (\<lambda>x. key (f x)) xs"
  by (simp add: descending_def sorted_wrt_map)

text \<open>Below the key of its \<open>n\<close>-th element, a descending list continues with the rest.\<close>

lemma descending_below_nth:
  assumes "descending key xs" "n < length xs"
  shows "filter (\<lambda>x. key x < key (xs ! n)) xs = drop (Suc n) xs"
  using assms
proof (induction xs arbitrary: n)
  case (Cons x xs)
  have lt: "key y < key x" if "y \<in> set xs" for y using Cons.prems(1) that by (simp add: descending_def)
  show ?case
  proof (cases n)
    case 0
    then show ?thesis using lt by simp
  next
    case (Suc m)
    then have "m < length xs" using Cons.prems(2) by simp
    then have "\<not> key x < key (xs ! m)" using lt[of "xs ! m"] by simp
    then show ?thesis using Suc Cons.IH[of m] Cons.prems by (simp add: descending_def)
  qed
qed simp

subsection \<open>The lateral join\<close>

text \<open>
  \<open>access LEFT JOIN LATERAL (...) ON TRUE\<close>, and the outer \<open>ORDER BY ... DESC NULLS LAST\<close> (\<open>None\<close> is
  the least key), which leaves the ordered rows of the inner query as they are.
\<close>

definition left_join :: "'a \<Rightarrow> 'b list \<Rightarrow> ('a \<times> 'b option) list" where
  "left_join a bs = (if bs = [] then [(a, None)] else map (\<lambda>b. (a, Some b)) bs)"

lemma order_left_join:
  assumes "descending k ys"
  shows "order_desc (\<lambda>(_, p). map_option k p) (left_join a ys) = left_join a ys"
proof (rule order_desc_descending)
  show "descending (\<lambda>(_, p). map_option k p) (left_join a ys)"
    using assms by (auto simp: left_join_def descending_def sorted_wrt_map)
qed

subsection \<open>One page\<close>

text \<open>
  What a page of at most \<open>n\<close> items starting below \<open>cursor\<close> must be: the next \<open>n\<close> items, and the
  key of the last one if and only if more items follow it.
\<close>

definition page_spec :: "('a \<Rightarrow> 'k::linorder) \<Rightarrow> 'a list \<Rightarrow> 'k option \<Rightarrow> nat \<Rightarrow> 'a list \<times> 'k option" where
  "page_spec key xs cursor n =
     (let rest = filter (\<lambda>x. below cursor (key x)) xs in
      (take n rest, if n < length rest then Some (key (rest ! (n - 1))) else None))"

text \<open>
  The computation of the repositories: \<open>fetched\<close> holds up to \<open>n + 1\<close> items, the first \<open>n\<close> are
  visible.
\<close>

lemma page_of_fetched:
  assumes "0 < n" "fetched = take (n + 1) (filter (\<lambda>x. below cursor (key x)) xs)"
  shows "(take n fetched, if n < length fetched \<and> take n fetched \<noteq> []
      then Some (key (last (take n fetched))) else None) = page_spec key xs cursor n"
proof -
  let ?r = "filter (\<lambda>x. below cursor (key x)) xs"
  have "last (take n (take (n + 1) ?r)) = ?r ! (n - 1)" if "n < length ?r"
    using assms(1) that by (subst last_conv_nth) (auto simp: min_def)
  then show ?thesis using assms by (auto simp: page_spec_def Let_def)
qed

subsection \<open>Following the cursors\<close>

text \<open>
  A client that asks for pages of \<open>n\<close> items until no next cursor is returned; \<open>None\<close> when \<open>fuel\<close>
  requests are not enough.
\<close>

fun follow :: "('k option \<Rightarrow> nat \<Rightarrow> 'a list \<times> 'k option) \<Rightarrow> nat \<Rightarrow> 'k option \<Rightarrow> nat \<Rightarrow> 'a list option" where
  "follow page 0 cursor n = None"
| "follow page (Suc fuel) cursor n =
     (case page cursor n of
        (items, None) \<Rightarrow> Some items
      | (items, Some c) \<Rightarrow>
          (case follow page fuel (Some c) n of None \<Rightarrow> None | Some rest \<Rightarrow> Some (items @ rest)))"

locale keyset_pages =
  fixes key :: "'a \<Rightarrow> 'k::linorder"
    and max_limit :: nat
    and ok :: "'q \<Rightarrow> bool"
    and items :: "'q \<Rightarrow> 'a list"
    and page :: "'q \<Rightarrow> 'k option \<Rightarrow> nat \<Rightarrow> 'a list \<times> 'k option"
  assumes items_descending: "ok q \<Longrightarrow> descending key (items q)"
    and page_law: "ok q \<Longrightarrow> 0 < n \<Longrightarrow> n \<le> max_limit \<Longrightarrow>
      page q cursor n = page_spec key (items q) cursor n"
begin

lemma page_step:
  assumes "ok q" "0 < n" "n \<le> max_limit" "rest = filter (\<lambda>x. below cursor (key x)) (items q)"
  shows "page q cursor n =
    (take n rest, if n < length rest then Some (key (rest ! (n - 1))) else None)"
  using assms by (simp add: page_law page_spec_def Let_def)

lemma next_rest:
  assumes "ok q" "0 < n" "rest = filter (\<lambda>x. below cursor (key x)) (items q)" "n < length rest"
  shows "filter (\<lambda>x. below (Some (key (rest ! (n - 1)))) (key x)) (items q) = drop n rest"
proof -
  let ?k = "rest ! (n - 1)"
  have "?k \<in> set rest" using assms(2,4) by simp
  then have k: "below cursor (key ?k)" using assms(3) by simp
  have "below (Some (key ?k)) (key x) \<longleftrightarrow> below cursor (key x) \<and> key x < key ?k" for x
    using k by (cases cursor) auto
  then have "filter (\<lambda>x. below (Some (key ?k)) (key x)) (items q) = filter (\<lambda>x. key x < key ?k) rest"
    unfolding assms(3) filter_filter by (intro filter_cong) auto
  also have "\<dots> = drop n rest"
    using descending_below_nth[of key rest "n - 1"] descending_filter[OF items_descending] assms by simp
  finally show ?thesis .
qed

lemma follow_from:
  assumes "ok q" "0 < n" "n \<le> max_limit"
  shows "length (filter (\<lambda>x. below cursor (key x)) (items q)) < fuel \<Longrightarrow>
    follow (page q) fuel cursor n = Some (filter (\<lambda>x. below cursor (key x)) (items q))"
proof (induction fuel arbitrary: cursor)
  case (Suc fuel)
  let ?r = "filter (\<lambda>x. below cursor (key x)) (items q)"
  show ?case
  proof (cases "n < length ?r")
    case True
    then have "follow (page q) fuel (Some (key (?r ! (n - 1)))) n = Some (drop n ?r)"
      using Suc.IH[of "Some (key (?r ! (n - 1)))"] Suc.prems assms next_rest[OF assms(1,2) refl True]
      by simp
    then show ?thesis using page_step[OF assms refl, of cursor] True by simp
  next
    case False
    then show ?thesis using page_step[OF assms refl, of cursor] by simp
  qed
qed simp

text \<open>The client sees every item once, in order, and needs no more requests than items plus one.\<close>

lemma follow_all:
  "ok q \<Longrightarrow> 0 < n \<Longrightarrow> n \<le> max_limit \<Longrightarrow> length (items q) < fuel \<Longrightarrow>
    follow (page q) fuel None n = Some (items q)"
  using follow_from[of q n None fuel] by simp

lemma page_bounded: "ok q \<Longrightarrow> 0 < n \<Longrightarrow> n \<le> max_limit \<Longrightarrow> length (fst (page q cursor n)) \<le> n"
  using page_step[OF _ _ _ refl] by simp

end

end
