(* ===== verification/ConnectionPolicies.thy ===== *)
theory ConnectionPolicies
  imports Database Keyset
begin

section \<open>Connections: models and policies\<close>

text \<open>
  \<open>domains/connections/models.py\<close> and \<open>domains/connections/policies.py\<close>: the Connection's
  data, the input normalisations, the role matrix and the lifecycle guards.
\<close>

subsection \<open>Models\<close>

datatype ConnectionStatus = DRAFT | ACTIVE | DISABLED | ARCHIVED

fun ConnectionStatus_value :: "ConnectionStatus \<Rightarrow> string" where
  "ConnectionStatus_value ConnectionStatus.DRAFT = ''DRAFT''"
| "ConnectionStatus_value ConnectionStatus.ACTIVE = ''ACTIVE''"
| "ConnectionStatus_value ConnectionStatus.DISABLED = ''DISABLED''"
| "ConnectionStatus_value ConnectionStatus.ARCHIVED = ''ARCHIVED''"

definition ConnectionStatus_of :: "string \<Rightarrow> exn + ConnectionStatus" where
  "ConnectionStatus_of v =
     (if v = ''DRAFT'' then Inr ConnectionStatus.DRAFT
      else if v = ''ACTIVE'' then Inr ConnectionStatus.ACTIVE
      else if v = ''DISABLED'' then Inr ConnectionStatus.DISABLED
      else if v = ''ARCHIVED'' then Inr ConnectionStatus.ARCHIVED
      else Inl (ValueError (v @ '' is not a valid ConnectionStatus'')))"

datatype ConnectionAccessMode = WORKSPACE | SELECTED_PROJECTS

fun ConnectionAccessMode_value :: "ConnectionAccessMode \<Rightarrow> string" where
  "ConnectionAccessMode_value ConnectionAccessMode.WORKSPACE = ''WORKSPACE''"
| "ConnectionAccessMode_value ConnectionAccessMode.SELECTED_PROJECTS = ''SELECTED_PROJECTS''"

definition ConnectionAccessMode_of :: "string \<Rightarrow> exn + ConnectionAccessMode" where
  "ConnectionAccessMode_of v =
     (if v = ''WORKSPACE'' then Inr ConnectionAccessMode.WORKSPACE
      else if v = ''SELECTED_PROJECTS'' then Inr ConnectionAccessMode.SELECTED_PROJECTS
      else Inl (ValueError (v @ '' is not a valid ConnectionAccessMode'')))"

datatype ConnectionAuthorizationRole = OWNER | ADMIN | BUILDER | VIEWER

fun ConnectionAuthorizationRole_value :: "ConnectionAuthorizationRole \<Rightarrow> string" where
  "ConnectionAuthorizationRole_value ConnectionAuthorizationRole.OWNER = ''OWNER''"
| "ConnectionAuthorizationRole_value ConnectionAuthorizationRole.ADMIN = ''ADMIN''"
| "ConnectionAuthorizationRole_value ConnectionAuthorizationRole.BUILDER = ''BUILDER''"
| "ConnectionAuthorizationRole_value ConnectionAuthorizationRole.VIEWER = ''VIEWER''"

definition ConnectionAuthorizationRole_of :: "string \<Rightarrow> exn + ConnectionAuthorizationRole" where
  "ConnectionAuthorizationRole_of v =
     (if v = ''OWNER'' then Inr ConnectionAuthorizationRole.OWNER
      else if v = ''ADMIN'' then Inr ConnectionAuthorizationRole.ADMIN
      else if v = ''BUILDER'' then Inr ConnectionAuthorizationRole.BUILDER
      else if v = ''VIEWER'' then Inr ConnectionAuthorizationRole.VIEWER
      else Inl (ValueError (v @ '' is not a valid ConnectionAuthorizationRole'')))"

datatype ConnectionWorkspaceStatus = ACTIVE | SUSPENDED | ARCHIVED | PENDING_DELETION

definition ConnectionWorkspaceStatus_of :: "string \<Rightarrow> exn + ConnectionWorkspaceStatus" where
  "ConnectionWorkspaceStatus_of v =
     (if v = ''ACTIVE'' then Inr ConnectionWorkspaceStatus.ACTIVE
      else if v = ''SUSPENDED'' then Inr ConnectionWorkspaceStatus.SUSPENDED
      else if v = ''ARCHIVED'' then Inr ConnectionWorkspaceStatus.ARCHIVED
      else if v = ''PENDING_DELETION'' then Inr ConnectionWorkspaceStatus.PENDING_DELETION
      else Inl (ValueError (v @ '' is not a valid ConnectionWorkspaceStatus'')))"

datatype ConnectionLifecycleAction = DISABLE | ENABLE | ARCHIVE

fun ConnectionLifecycleAction_value :: "ConnectionLifecycleAction \<Rightarrow> string" where
  "ConnectionLifecycleAction_value ConnectionLifecycleAction.DISABLE = ''DISABLE''"
| "ConnectionLifecycleAction_value ConnectionLifecycleAction.ENABLE = ''ENABLE''"
| "ConnectionLifecycleAction_value ConnectionLifecycleAction.ARCHIVE = ''ARCHIVE''"

record ConnectionWorkspaceContext =
  cw_workspace_id :: uuid
  cw_status :: ConnectionWorkspaceStatus
  cw_role :: ConnectionAuthorizationRole

record ConnectionMutationContext =
  cm_workspace :: ConnectionWorkspaceContext
  cm_connection_id :: uuid
  cm_provider_key :: string
  cm_access_mode :: ConnectionAccessMode
  cm_status :: ConnectionStatus

record ConnectionAccessPolicy =
  ap_mode :: ConnectionAccessMode
  ap_project_ids :: "uuid list"

record Connection =
  cn_connection_id :: uuid
  cn_workspace_id :: uuid
  cn_name :: string
  cn_provider_key :: string
  cn_access_policy :: ConnectionAccessPolicy
  cn_status :: ConnectionStatus
  cn_created_at :: timestamp
  cn_updated_at :: timestamp
  cn_archived_at :: "timestamp option"

record ConnectionDraft =
  cd_connection_id :: uuid
  cd_workspace_id :: uuid
  cd_configuration :: json_object
  cd_updated_by_user_id :: "uuid option"
  cd_updated_at :: timestamp

record PublishedConnectionConfiguration =
  pub_definition_schema_version :: int
  pub_configuration :: json_object
  pub_config_hash :: "8 word list"

record ConnectionRevisionMetadata =
  rm_revision_id :: uuid
  rm_connection_id :: uuid
  rm_workspace_id :: uuid
  rm_revision_number :: int
  rm_definition_schema_version :: int
  rm_config_hash_hex :: string
  rm_created_by_user_id :: "uuid option"
  rm_created_at :: timestamp

record ConnectionRevision =
  rv_metadata :: ConnectionRevisionMetadata
  rv_configuration :: json_object

datatype ConnectionPageCursor =
  ConnectionPageCursor (conn_cursor_created_at: timestamp) (conn_cursor_connection_id: uuid)

record ConnectionPage =
  cp_items :: "Connection list"
  cp_next_cursor :: "ConnectionPageCursor option"

record ConnectionPageLookup =
  cpl_context :: "ConnectionWorkspaceContext option"
  cpl_page :: ConnectionPage

record ConnectionLookup =
  cl_context :: "ConnectionWorkspaceContext option"
  cl_connection :: "Connection option"

record ConnectionDraftLookup =
  cdl_context :: "ConnectionMutationContext option"
  cdl_draft :: "ConnectionDraft option"

record ConnectionRevisionPage =
  rp_items :: "ConnectionRevisionMetadata list"
  rp_next_before_revision :: "int option"

record ConnectionRevisionPageLookup =
  rpl_context :: "ConnectionMutationContext option"
  rpl_page :: ConnectionRevisionPage

record ConnectionRevisionLookup =
  rl_context :: "ConnectionMutationContext option"
  rl_revision :: "ConnectionRevision option"

instantiation ConnectionPageCursor :: linorder
begin

definition less_eq_ConnectionPageCursor :: "ConnectionPageCursor \<Rightarrow> ConnectionPageCursor \<Rightarrow> bool" where
  "less_eq_ConnectionPageCursor a b \<longleftrightarrow>
     (conn_cursor_created_at a, conn_cursor_connection_id a)
       \<le> (conn_cursor_created_at b, conn_cursor_connection_id b)"

definition less_ConnectionPageCursor :: "ConnectionPageCursor \<Rightarrow> ConnectionPageCursor \<Rightarrow> bool" where
  "less_ConnectionPageCursor a b \<longleftrightarrow>
     (conn_cursor_created_at a, conn_cursor_connection_id a)
       < (conn_cursor_created_at b, conn_cursor_connection_id b)"

instance
  by standard
    (auto simp: less_eq_ConnectionPageCursor_def less_ConnectionPageCursor_def ConnectionPageCursor.expand)

end

lemma ConnectionStatus_of_value [simp]: "ConnectionStatus_of (ConnectionStatus_value st) = Inr st"
  by (cases st) (simp_all add: ConnectionStatus_of_def)

lemma ConnectionAccessMode_of_value [simp]: "ConnectionAccessMode_of (ConnectionAccessMode_value md) = Inr md"
  by (cases md) (simp_all add: ConnectionAccessMode_of_def)

lemma ConnectionStatus_value_checked [simp]: "ConnectionStatus_value st \<in> set connection_statuses"
  by (cases st) (simp_all add: connection_statuses_def)

lemma ConnectionAccessMode_value_checked [simp]:
  "ConnectionAccessMode_value md \<in> set connection_access_modes"
  by (cases md) (simp_all add: connection_access_modes_def)

lemma connection_enums_checked:
  "v \<in> set connection_statuses \<Longrightarrow> \<exists>st. ConnectionStatus_of v = Inr st \<and> v = ConnectionStatus_value st"
  "v \<in> set connection_access_modes \<Longrightarrow>
    \<exists>md. ConnectionAccessMode_of v = Inr md \<and> v = ConnectionAccessMode_value md"
  "v \<in> set membership_roles \<Longrightarrow>
    \<exists>r. ConnectionAuthorizationRole_of v = Inr r \<and> v = ConnectionAuthorizationRole_value r"
  "v \<in> set workspace_statuses \<Longrightarrow> \<exists>ws. ConnectionWorkspaceStatus_of v = Inr ws"
  by (auto simp: check_lists ConnectionStatus_of_def ConnectionAccessMode_of_def
      ConnectionAuthorizationRole_of_def ConnectionWorkspaceStatus_of_def)

subsection \<open>Input normalisation\<close>

definition MAX_CONNECTION_NAME_LENGTH :: nat where "MAX_CONNECTION_NAME_LENGTH = 120"
definition MAX_CONNECTION_PAGE_LIMIT :: int where "MAX_CONNECTION_PAGE_LIMIT = 100"
definition MAX_CONNECTION_REVISION_PAGE_LIMIT :: int where "MAX_CONNECTION_REVISION_PAGE_LIMIT = 100"
definition MAX_SELECTED_PROJECTS :: nat where "MAX_SELECTED_PROJECTS = 1000"

definition normalize_connection_name :: "string \<Rightarrow> exn + string" where
  "normalize_connection_name value =
     (let normalized = strip value in
      if normalized = [] then Inl (ValueError ''connection name must not be empty'')
      else if length normalized > MAX_CONNECTION_NAME_LENGTH
      then Inl (ValueError ''connection name must be at most 120 characters'')
      else Inr normalized)"

definition normalize_provider_key :: "string \<Rightarrow> exn + string" where
  "normalize_provider_key value =
     (let normalized = strip value in
      if normalized = [] then Inl (ValueError ''provider key must not be empty'')
      else if normalized \<noteq> casefold normalized then Inl (ValueError ''provider key must be lowercase'')
      else Inr normalized)"

text \<open>\<open>tuple(dict.fromkeys(xs))\<close>: the first occurrence of each element, in order.\<close>

definition dict_fromkeys :: "'a list \<Rightarrow> 'a list" where
  "dict_fromkeys xs = rev (remdups (rev xs))"

definition normalize_access_policy :: "ConnectionAccessMode \<Rightarrow> uuid list \<Rightarrow> exn + ConnectionAccessPolicy" where
  "normalize_access_policy mode provided =
     (let unique = dict_fromkeys provided in
      if length unique \<noteq> length provided then Inl (ValueError ''selected Project IDs must be unique'')
      else if length unique > MAX_SELECTED_PROJECTS
      then Inl (ValueError ''selected Project IDs must contain at most 1000 items'')
      else if mode = ConnectionAccessMode.WORKSPACE \<and> unique \<noteq> []
      then Inl (ValueError ''WORKSPACE access cannot include selected Project IDs'')
      else Inr \<lparr>ap_mode = mode, ap_project_ids = sort_key uuid_str unique\<rparr>)"

definition normalize_draft_configuration :: "json_object \<Rightarrow> json_object" where
  "normalize_draft_configuration value = value"

definition validate_connection_page_limit :: "int \<Rightarrow> exn + int" where
  "validate_connection_page_limit value =
     (if value < 1 \<or> value > MAX_CONNECTION_PAGE_LIMIT
      then Inl (ValueError ''connection page limit must be between 1 and 100'')
      else Inr value)"

definition validate_connection_revision_page_limit :: "int \<Rightarrow> exn + int" where
  "validate_connection_revision_page_limit value =
     (if value < 1 \<or> value > MAX_CONNECTION_REVISION_PAGE_LIMIT
      then Inl (ValueError ''connection revision page limit must be between 1 and 100'')
      else Inr value)"

definition validate_before_revision :: "int option \<Rightarrow> exn + int option" where
  "validate_before_revision value =
     (case value of
        None \<Rightarrow> Inr None
      | Some v \<Rightarrow>
          if v < 1 then Inl (ValueError ''before_revision must be a positive revision number'')
          else Inr value)"

subsection \<open>Roles and lifecycle\<close>

definition CONNECTION_READ_ROLES :: "ConnectionAuthorizationRole list" where
  "CONNECTION_READ_ROLES = [ConnectionAuthorizationRole.OWNER, ConnectionAuthorizationRole.ADMIN,
     ConnectionAuthorizationRole.BUILDER, ConnectionAuthorizationRole.VIEWER]"

definition CONNECTION_AUTHOR_ROLES :: "ConnectionAuthorizationRole list" where
  "CONNECTION_AUTHOR_ROLES = [ConnectionAuthorizationRole.OWNER, ConnectionAuthorizationRole.ADMIN,
     ConnectionAuthorizationRole.BUILDER]"

definition CONNECTION_LIFECYCLE_ROLES :: "ConnectionAuthorizationRole list" where
  "CONNECTION_LIFECYCLE_ROLES = [ConnectionAuthorizationRole.OWNER, ConnectionAuthorizationRole.ADMIN]"

definition can_read_connections :: "ConnectionAuthorizationRole \<Rightarrow> bool" where
  "can_read_connections role \<longleftrightarrow> role \<in> set CONNECTION_READ_ROLES"

definition can_author_connections :: "ConnectionAuthorizationRole \<Rightarrow> bool" where
  "can_author_connections role \<longleftrightarrow> role \<in> set CONNECTION_AUTHOR_ROLES"

definition can_manage_connection_lifecycle :: "ConnectionAuthorizationRole \<Rightarrow> bool" where
  "can_manage_connection_lifecycle role \<longleftrightarrow> role \<in> set CONNECTION_LIFECYCLE_ROLES"

definition can_create_with_access :: "ConnectionAuthorizationRole \<Rightarrow> ConnectionAccessMode \<Rightarrow> bool" where
  "can_create_with_access role mode =
     (if role \<notin> set CONNECTION_AUTHOR_ROLES then False
      else role \<noteq> ConnectionAuthorizationRole.BUILDER \<or> mode = ConnectionAccessMode.SELECTED_PROJECTS)"

definition can_replace_access ::
  "ConnectionAuthorizationRole \<Rightarrow> ConnectionAccessMode \<Rightarrow> ConnectionAccessMode \<Rightarrow> bool" where
  "can_replace_access role current_mode requested_mode =
     (if role \<in> set CONNECTION_LIFECYCLE_ROLES then True
      else role = ConnectionAuthorizationRole.BUILDER
        \<and> current_mode = ConnectionAccessMode.SELECTED_PROJECTS
        \<and> requested_mode = ConnectionAccessMode.SELECTED_PROJECTS)"

definition workspace_allows_connection_mutation :: "ConnectionWorkspaceStatus \<Rightarrow> bool" where
  "workspace_allows_connection_mutation status \<longleftrightarrow> status = ConnectionWorkspaceStatus.ACTIVE"

definition workspace_allows_lifecycle_action ::
  "ConnectionWorkspaceStatus \<Rightarrow> ConnectionLifecycleAction \<Rightarrow> bool" where
  "workspace_allows_lifecycle_action status action =
     (if action = ConnectionLifecycleAction.DISABLE
      then status \<in> {ConnectionWorkspaceStatus.ACTIVE, ConnectionWorkspaceStatus.SUSPENDED}
      else status = ConnectionWorkspaceStatus.ACTIVE)"

definition connection_allows_authoring :: "ConnectionStatus \<Rightarrow> bool" where
  "connection_allows_authoring status \<longleftrightarrow> status \<noteq> ConnectionStatus.ARCHIVED"

definition connection_allows_access_replacement :: "ConnectionStatus \<Rightarrow> bool" where
  "connection_allows_access_replacement status \<longleftrightarrow> status \<noteq> ConnectionStatus.ARCHIVED"

definition lifecycle_transition_allowed :: "ConnectionStatus \<Rightarrow> ConnectionLifecycleAction \<Rightarrow> bool" where
  "lifecycle_transition_allowed current action =
     (if action = ConnectionLifecycleAction.DISABLE then current = ConnectionStatus.ACTIVE
      else if action = ConnectionLifecycleAction.ENABLE then current = ConnectionStatus.DISABLED
      else current \<in> {ConnectionStatus.DRAFT, ConnectionStatus.ACTIVE, ConnectionStatus.DISABLED})"

lemmas connection_role_defs = can_read_connections_def can_author_connections_def
  can_manage_connection_lifecycle_def can_create_with_access_def can_replace_access_def
  CONNECTION_READ_ROLES_def CONNECTION_AUTHOR_ROLES_def CONNECTION_LIFECYCLE_ROLES_def

lemma can_read_connections_all [simp]: "can_read_connections role"
  by (cases role) (simp_all add: connection_role_defs)

lemma can_author_connections_iff: "can_author_connections role \<longleftrightarrow> role \<noteq> ConnectionAuthorizationRole.VIEWER"
  by (cases role) (simp_all add: connection_role_defs)

subsection \<open>Facts about the normalisations\<close>

lemma length_dict_fromkeys: "length (dict_fromkeys xs) = length xs \<longleftrightarrow> distinct xs"
  using length_remdups_eq[of "rev xs"] by (simp add: dict_fromkeys_def)

lemma dict_fromkeys_distinct: "distinct xs \<Longrightarrow> dict_fromkeys xs = xs"
  by (simp add: dict_fromkeys_def distinct_remdups_id)

lemma normalize_access_policy_eq:
  "normalize_access_policy mode ids =
     (if \<not> distinct ids then Inl (ValueError ''selected Project IDs must be unique'')
      else if length ids > 1000
      then Inl (ValueError ''selected Project IDs must contain at most 1000 items'')
      else if mode = ConnectionAccessMode.WORKSPACE \<and> ids \<noteq> []
      then Inl (ValueError ''WORKSPACE access cannot include selected Project IDs'')
      else Inr \<lparr>ap_mode = mode, ap_project_ids = sort ids\<rparr>)"
  by (simp add: normalize_access_policy_def Let_def length_dict_fromkeys dict_fromkeys_distinct
      sort_key_uuid_str MAX_SELECTED_PROJECTS_def)

lemma normalize_access_policy_Inr:
  assumes "normalize_access_policy mode ids = Inr p"
  shows "ap_mode p = mode" "distinct ids" "length ids \<le> 1000" "ap_project_ids p = sort ids"
    "mode = ConnectionAccessMode.WORKSPACE \<Longrightarrow> ids = []"
  using assms by (auto simp: normalize_access_policy_eq split: if_splits)

subsection \<open>Properties\<close>

text \<open>
  Access policies are normalised to a canonical form: an accepted policy lists the given
  Projects without repetition in increasing order, at most 1000 of them and none for a
  workspace-wide Connection; the order in which a client sends them does not matter, and
  normalising again changes nothing.
\<close>

theorem access_policy_canonical:
  "(\<forall>p. normalize_access_policy mode ids = Inr p \<longleftrightarrow>
      distinct ids \<and> length ids \<le> 1000 \<and> (mode = ConnectionAccessMode.WORKSPACE \<longrightarrow> ids = [])
      \<and> p = \<lparr>ap_mode = mode, ap_project_ids = sort ids\<rparr>)
   \<and> (\<forall>ids'. mset ids' = mset ids \<longrightarrow>
        isl (normalize_access_policy mode ids') = isl (normalize_access_policy mode ids)
        \<and> (\<forall>p. normalize_access_policy mode ids = Inr p \<longrightarrow> normalize_access_policy mode ids' = Inr p))
   \<and> (\<forall>p. normalize_access_policy mode ids = Inr p \<longrightarrow>
        sorted (ap_project_ids p) \<and> distinct (ap_project_ids p)
        \<and> normalize_access_policy (ap_mode p) (ap_project_ids p) = Inr p)"
proof (intro conjI allI impI)
  fix ids' :: "uuid list" assume m: "mset ids' = mset ids"
  have "distinct ids' \<longleftrightarrow> distinct ids" "length ids' = length ids" "ids' = [] \<longleftrightarrow> ids = []" "sort ids' = sort ids"
    using m by (metis mset_eq_imp_distinct_iff, metis size_mset, metis mset_zero_iff,
        metis properties_for_sort sort_key_simps(1) mset_sort sorted_sort)
  note f = this
  show "isl (normalize_access_policy mode ids') = isl (normalize_access_policy mode ids)"
    by (simp add: normalize_access_policy_eq f)
  fix p assume "normalize_access_policy mode ids = Inr p"
  then show "normalize_access_policy mode ids' = Inr p"
    by (simp add: normalize_access_policy_eq f split: if_splits)
qed (auto simp: normalize_access_policy_eq sort_key_id_if_sorted split: if_splits)

theorem access_policy_canonical_witness:
  "normalize_access_policy ConnectionAccessMode.SELECTED_PROJECTS [21, 20]
    = Inr \<lparr>ap_mode = ConnectionAccessMode.SELECTED_PROJECTS, ap_project_ids = [20, 21]\<rparr>
   \<and> isl (normalize_access_policy ConnectionAccessMode.WORKSPACE [20])"
proof -
  have "normalize_access_policy ConnectionAccessMode.SELECTED_PROJECTS [21, 20]
    = Inr \<lparr>ap_mode = ConnectionAccessMode.SELECTED_PROJECTS, ap_project_ids = [20, 21]\<rparr>"
    using access_policy_canonical[of ConnectionAccessMode.SELECTED_PROJECTS "[21, 20]"] by simp
  moreover have "isl (normalize_access_policy ConnectionAccessMode.WORKSPACE [20])"
    using access_policy_canonical[of ConnectionAccessMode.WORKSPACE "[20]"]
    by (cases "normalize_access_policy ConnectionAccessMode.WORKSPACE [20]") auto
  ultimately show ?thesis ..
qed

end
