(* ===== verification/ConnectionRepository.thy ===== *)
theory ConnectionRepository
  imports ConnectionPolicies
begin

section \<open>The Connection repository\<close>

text \<open>
  \<open>infrastructure/db/connection_repository.py\<close>: every SQL statement as a function on the
  tables, the conversion of rows to domain objects with its type guards, and the eleven
  operations of the repository. \<open>Call\<close> holds what a mutating call takes from its environment:
  the transaction's time, the results of \<open>uuid7()\<close> for the new row and for the audit event, the
  session and request identifiers. Row locks (\<open>FOR UPDATE\<close>) are not observed by one session,
  and a \<open>jsonb\<close> column is the JSON object it stores.
\<close>

record Call =
  call_now :: timestamp
  call_new_id :: uuid
  call_audit_id :: uuid
  call_auth_session_id :: uuid
  call_request_id :: uuid
  call_trace_id :: "string option"

abbreviation cr_uuid :: "pyval \<Rightarrow> string \<Rightarrow> exn + uuid" where
  "cr_uuid \<equiv> uuid_value ''connection''"
abbreviation cr_string :: "pyval \<Rightarrow> string \<Rightarrow> exn + string" where
  "cr_string \<equiv> string_value ''connection''"
abbreviation cr_datetime :: "pyval \<Rightarrow> string \<Rightarrow> exn + timestamp" where
  "cr_datetime \<equiv> datetime_value ''connection''"

subsection \<open>Statements: contexts and Connections\<close>

definition sql_workspace_context :: "uuid \<Rightarrow> uuid \<Rightarrow> db \<Rightarrow> row list" where
  "sql_workspace_context user_id workspace_id d =
     map (\<lambda>(w, m). [(''workspace_id'', PUuid (ws_id w)), (''workspace_status'', PStr (ws_status w)),
                    (''membership_role'', PStr (m_role m))])
       (member_rows d user_id workspace_id)"

definition sql_connection_context :: "uuid \<Rightarrow> uuid \<Rightarrow> db \<Rightarrow> row list" where
  "sql_connection_context workspace_id connection_id d =
     map (\<lambda>c. [(''id'', PUuid (c_id c)), (''provider_key'', PStr (c_provider_key c)),
               (''access_mode'', PStr (c_access_mode c)), (''status'', PStr (c_status c))])
       (filter (\<lambda>c. c_workspace_id c = workspace_id \<and> c_id c = connection_id) (connections d))"

definition sql_insert_connection ::
  "timestamp \<Rightarrow> uuid \<Rightarrow> uuid \<Rightarrow> string \<Rightarrow> string \<Rightarrow> string \<Rightarrow> (db, unit) tx" where
  "sql_insert_connection now connection_id workspace_id name provider_key access_mode =
     insert_connections \<lparr>c_id = connection_id, c_workspace_id = workspace_id, c_name = name,
       c_provider_key = provider_key, c_access_mode = access_mode, c_status = ''DRAFT'',
       c_created_at = now, c_updated_at = now, c_archived_at = None\<rparr>"

text \<open>\<open>executemany\<close>: one insert per Project, in order.\<close>

fun sql_insert_project_access :: "uuid \<Rightarrow> uuid \<Rightarrow> uuid \<Rightarrow> uuid list \<Rightarrow> (db, unit) tx" where
  "sql_insert_project_access workspace_id connection_id user_id [] = ret_tx ()"
| "sql_insert_project_access workspace_id connection_id user_id (project_id # project_ids) =
     bind_tx (insert_project_access \<lparr>a_workspace_id = workspace_id, a_connection_id = connection_id,
                a_project_id = project_id, a_granted_by_user_id = Some user_id\<rparr>) (\<lambda>_.
     sql_insert_project_access workspace_id connection_id user_id project_ids)"

definition sql_lock_selected_projects :: "uuid \<Rightarrow> uuid list \<Rightarrow> db \<Rightarrow> pyval list" where
  "sql_lock_selected_projects workspace_id project_ids d =
     map (\<lambda>p. PUuid (p_id p))
       (filter (\<lambda>p. p_workspace_id p = workspace_id \<and> p_id p \<in> set project_ids) (projects d))"

definition access_project_ids :: "db \<Rightarrow> uuid \<Rightarrow> uuid list" where
  "access_project_ids d connection_id =
     sort (map a_project_id (filter (\<lambda>a. a_connection_id a = connection_id) (project_access d)))"

definition connection_columns :: "db \<Rightarrow> connection_row option \<Rightarrow> row" where
  "connection_columns d c =
     [(''connection_id'', opt_val (\<lambda>c. PUuid (c_id c)) c),
      (''connection_workspace_id'', opt_val (\<lambda>c. PUuid (c_workspace_id c)) c),
      (''connection_name'', opt_val (\<lambda>c. PStr (c_name c)) c),
      (''connection_provider_key'', opt_val (\<lambda>c. PStr (c_provider_key c)) c),
      (''connection_access_mode'', opt_val (\<lambda>c. PStr (c_access_mode c)) c),
      (''connection_status'', opt_val (\<lambda>c. PStr (c_status c)) c),
      (''connection_created_at'', opt_val (\<lambda>c. PDatetime (c_created_at c)) c),
      (''connection_updated_at'', opt_val (\<lambda>c. PDatetime (c_updated_at c)) c),
      (''connection_archived_at'', (case c of None \<Rightarrow> PNone | Some c \<Rightarrow> opt_val PDatetime (c_archived_at c))),
      (''connection_project_ids'', (case c of None \<Rightarrow> PList []
         | Some c \<Rightarrow> PList (map PUuid (access_project_ids d (c_id c)))))]"

definition sql_select_connection :: "uuid \<Rightarrow> uuid \<Rightarrow> db \<Rightarrow> row list" where
  "sql_select_connection workspace_id connection_id d =
     map (\<lambda>c. connection_columns d (Some c))
       (filter (\<lambda>c. c_workspace_id c = workspace_id \<and> c_id c = connection_id) (connections d))"

definition connection_row_key :: "connection_row \<Rightarrow> ConnectionPageCursor" where
  "connection_row_key c = ConnectionPageCursor (c_created_at c) (c_id c)"

definition connection_list_row ::
  "db \<Rightarrow> (workspace_row \<times> membership_row) \<times> connection_row option \<Rightarrow> row" where
  "connection_list_row d r = (case r of ((w, m), c) \<Rightarrow>
     [(''authorized_workspace_id'', PUuid (ws_id w)), (''workspace_status'', PStr (ws_status w)),
      (''membership_role'', PStr (m_role m))] @ connection_columns d c)"

definition sql_list_connections_for_user ::
  "uuid \<Rightarrow> uuid \<Rightarrow> ConnectionPageCursor option \<Rightarrow> int \<Rightarrow> db \<Rightarrow> row list" where
  "sql_list_connections_for_user user_id workspace_id cursor fetch_limit d =
     map (connection_list_row d) (order_desc (\<lambda>(_, c). map_option connection_row_key c)
       (concat (map (\<lambda>(w, m). left_join (w, m)
            (take (nat fetch_limit) (order_desc connection_row_key
              (filter (\<lambda>c. c_workspace_id c = ws_id w \<and> below cursor (connection_row_key c)) (connections d)))))
          (member_rows d user_id workspace_id))))"

definition sql_get_connection_for_user :: "uuid \<Rightarrow> uuid \<Rightarrow> uuid \<Rightarrow> db \<Rightarrow> row list" where
  "sql_get_connection_for_user user_id workspace_id connection_id d =
     map (connection_list_row d) (concat (map (\<lambda>(w, m). left_join (w, m)
         (filter (\<lambda>c. c_workspace_id c = ws_id w \<and> c_id c = connection_id) (connections d)))
       (member_rows d user_id workspace_id)))"

definition update_connections ::
  "uuid \<Rightarrow> uuid \<Rightarrow> (connection_row \<Rightarrow> bool) \<Rightarrow> (connection_row \<Rightarrow> connection_row) \<Rightarrow> (db, unit) tx" where
  "update_connections workspace_id connection_id cond f d =
     Inr ((), d\<lparr>connections := upd_where
       (\<lambda>c. c_workspace_id c = workspace_id \<and> c_id c = connection_id \<and> cond c) f (connections d)\<rparr>)"

text \<open>The \<open>SET\<close> lists of the four updates.\<close>

definition set_name :: "timestamp \<Rightarrow> string \<Rightarrow> connection_row \<Rightarrow> connection_row" where
  "set_name now name c = c\<lparr>c_name := name, c_updated_at := now\<rparr>"

definition set_active :: "timestamp \<Rightarrow> connection_row \<Rightarrow> connection_row" where
  "set_active now c = c\<lparr>c_status := ''ACTIVE'', c_updated_at := now\<rparr>"

definition set_access_mode :: "timestamp \<Rightarrow> string \<Rightarrow> connection_row \<Rightarrow> connection_row" where
  "set_access_mode now access_mode c = c\<lparr>c_access_mode := access_mode, c_updated_at := now\<rparr>"

definition set_lifecycle :: "timestamp \<Rightarrow> string \<Rightarrow> connection_row \<Rightarrow> connection_row" where
  "set_lifecycle now status c = c\<lparr>c_status := status,
     c_archived_at := (if status = ''ARCHIVED'' then Some now else c_archived_at c),
     c_updated_at := now\<rparr>"

definition sql_rename_connection :: "timestamp \<Rightarrow> uuid \<Rightarrow> uuid \<Rightarrow> string \<Rightarrow> (db, unit) tx" where
  "sql_rename_connection now workspace_id connection_id name =
     update_connections workspace_id connection_id (\<lambda>_. True) (set_name now name)"

definition sql_activate_draft_connection :: "timestamp \<Rightarrow> uuid \<Rightarrow> uuid \<Rightarrow> (db, unit) tx" where
  "sql_activate_draft_connection now workspace_id connection_id =
     update_connections workspace_id connection_id (\<lambda>c. c_status c = ''DRAFT'') (set_active now)"

definition sql_delete_project_access :: "uuid \<Rightarrow> (db, unit) tx" where
  "sql_delete_project_access connection_id d =
     Inr ((), d\<lparr>project_access := filter (\<lambda>a. a_connection_id a \<noteq> connection_id) (project_access d)\<rparr>)"

definition sql_update_access_mode :: "timestamp \<Rightarrow> uuid \<Rightarrow> uuid \<Rightarrow> string \<Rightarrow> (db, unit) tx" where
  "sql_update_access_mode now workspace_id connection_id access_mode =
     update_connections workspace_id connection_id (\<lambda>_. True) (set_access_mode now access_mode)"

definition sql_update_lifecycle :: "timestamp \<Rightarrow> uuid \<Rightarrow> uuid \<Rightarrow> string \<Rightarrow> (db, unit) tx" where
  "sql_update_lifecycle now workspace_id connection_id status =
     update_connections workspace_id connection_id (\<lambda>_. True) (set_lifecycle now status)"

subsection \<open>Statements: drafts, revisions and audit\<close>

definition draft_columns :: "draft_row \<Rightarrow> row" where
  "draft_columns r =
     [(''connection_id'', PUuid (d_connection_id r)), (''workspace_id'', PUuid (d_workspace_id r)),
      (''draft_json'', PDict (d_json r)),
      (''updated_by_user_id'', opt_val PUuid (d_updated_by_user_id r)),
      (''updated_at'', PDatetime (d_updated_at r))]"

definition sql_select_draft :: "uuid \<Rightarrow> uuid \<Rightarrow> db \<Rightarrow> row list" where
  "sql_select_draft workspace_id connection_id d =
     map draft_columns
       (filter (\<lambda>r. d_workspace_id r = workspace_id \<and> d_connection_id r = connection_id) (drafts d))"

definition sql_lock_draft :: "uuid \<Rightarrow> uuid \<Rightarrow> db \<Rightarrow> row list" where
  "sql_lock_draft workspace_id connection_id d =
     map (\<lambda>r. [(''draft_json'', PDict (d_json r))])
       (filter (\<lambda>r. d_workspace_id r = workspace_id \<and> d_connection_id r = connection_id) (drafts d))"

text \<open>\<open>INSERT ... ON CONFLICT (connection_id) DO UPDATE ... RETURNING\<close>.\<close>

definition sql_upsert_draft ::
  "timestamp \<Rightarrow> uuid \<Rightarrow> uuid \<Rightarrow> json_object \<Rightarrow> uuid \<Rightarrow> (db, row list) tx" where
  "sql_upsert_draft now connection_id workspace_id draft_json user_id d =
     (if connection_id \<in> set (map d_connection_id (drafts d)) then
        (let d' = d\<lparr>drafts := upd_where (\<lambda>r. d_connection_id r = connection_id)
               (\<lambda>r. r\<lparr>d_json := draft_json, d_updated_by_user_id := Some user_id, d_updated_at := now\<rparr>)
               (drafts d)\<rparr>
         in Inr (map draft_columns (filter (\<lambda>r. d_connection_id r = connection_id) (drafts d')), d'))
      else if (workspace_id, connection_id) \<notin> set (connection_keys d)
      then Inl (IntegrityError ''connection_drafts_workspace_id_connection_id_fkey'')
      else
        (let r = \<lparr>d_connection_id = connection_id, d_workspace_id = workspace_id, d_json = draft_json,
                  d_updated_by_user_id = Some user_id, d_updated_at = now\<rparr>
         in Inr ([draft_columns r], d\<lparr>drafts := drafts d @ [r]\<rparr>)))"

definition bytes_hex :: "8 word list \<Rightarrow> string" where
  "bytes_hex bs = concat (map (\<lambda>b. hex_digits 2 (uint b)) bs)"

definition revision_meta_columns :: "revision_row \<Rightarrow> row" where
  "revision_meta_columns r =
     [(''id'', PUuid (r_id r)), (''workspace_id'', PUuid (r_workspace_id r)),
      (''connection_id'', PUuid (r_connection_id r)), (''revision_number'', PInt (r_number r)),
      (''definition_schema_version'', PInt (r_schema_version r)),
      (''config_hash_hex'', PStr (bytes_hex (r_config_hash r))),
      (''created_by_user_id'', opt_val PUuid (r_created_by_user_id r)),
      (''created_at'', PDatetime (r_created_at r))]"

definition revision_columns :: "revision_row \<Rightarrow> row" where
  "revision_columns r = revision_meta_columns r @ [(''config_json'', PDict (r_config_json r))]"

definition sql_list_revisions :: "uuid \<Rightarrow> uuid \<Rightarrow> int option \<Rightarrow> int \<Rightarrow> db \<Rightarrow> row list" where
  "sql_list_revisions workspace_id connection_id before_revision fetch_limit d =
     map revision_meta_columns (take (nat fetch_limit) (order_desc r_number
       (filter (\<lambda>r. r_workspace_id r = workspace_id \<and> r_connection_id r = connection_id
                    \<and> below before_revision (r_number r)) (revisions d))))"

definition sql_get_revision :: "uuid \<Rightarrow> uuid \<Rightarrow> uuid \<Rightarrow> db \<Rightarrow> row list" where
  "sql_get_revision workspace_id connection_id revision_id d =
     map revision_columns (filter (\<lambda>r. (r_workspace_id r = workspace_id \<and> r_connection_id r = connection_id)
       \<and> r_id r = revision_id) (revisions d))"

text \<open>\<open>COALESCE(MAX(revision_number), 0) + 1\<close>.\<close>

definition sql_next_revision_number :: "uuid \<Rightarrow> db \<Rightarrow> pyval" where
  "sql_next_revision_number connection_id d =
     PInt ((case map r_number (filter (\<lambda>r. r_connection_id r = connection_id) (revisions d)) of
              [] \<Rightarrow> 0 | n # ns \<Rightarrow> fold max ns n) + 1)"

definition sql_insert_revision ::
  "timestamp \<Rightarrow> uuid \<Rightarrow> uuid \<Rightarrow> uuid \<Rightarrow> int \<Rightarrow> int \<Rightarrow> json_object \<Rightarrow> 8 word list \<Rightarrow> uuid \<Rightarrow> (db, row list) tx" where
  "sql_insert_revision now revision_id workspace_id connection_id revision_number schema_version
       config_json config_hash user_id =
     (let r = \<lparr>r_id = revision_id, r_workspace_id = workspace_id, r_connection_id = connection_id,
               r_number = revision_number, r_schema_version = schema_version,
               r_config_json = config_json, r_config_hash = config_hash,
               r_created_by_user_id = Some user_id, r_created_at = now\<rparr>
      in bind_tx (insert_revisions r) (\<lambda>_. ret_tx [revision_columns r]))"

text \<open>\<open>_audit\<close>: \<open>before or {}\<close> stores an empty object where nothing is given.\<close>

definition connection_audit_row ::
  "Call \<Rightarrow> ConnectionWorkspaceContext \<Rightarrow> uuid \<Rightarrow> uuid \<Rightarrow> string \<Rightarrow> string \<Rightarrow> json_object \<Rightarrow> json_object
     \<Rightarrow> json_object \<Rightarrow> audit_row" where
  "connection_audit_row call context user_id connection_id name action before_json after_json change_json =
     \<lparr>au_id = call_audit_id call, au_workspace_id = Some (cw_workspace_id context),
      au_project_id = None, au_scope = ''TENANT'', au_actor_type = ''USER'',
      au_actor_user_id = Some user_id,
      au_actor_role_snapshot = Some (ConnectionAuthorizationRole_value (cw_role context)),
      au_effective_user_id = Some user_id, au_action = action, au_outcome = ''SUCCEEDED'',
      au_resource_type = ''CONNECTION'', au_resource_id = Some connection_id,
      au_resource_display_snapshot = Some name, au_before_json = Some before_json,
      au_after_json = Some after_json, au_change_json = Some change_json,
      au_request_id = Some (uuid_str (call_request_id call)), au_trace_id = call_trace_id call,
      au_session_id = Some (uuid_str (call_auth_session_id call)), au_surface = ''PUBLIC_API'',
      au_created_at = call_now call\<rparr>"

definition connection_audit ::
  "Call \<Rightarrow> ConnectionWorkspaceContext \<Rightarrow> uuid \<Rightarrow> uuid \<Rightarrow> string \<Rightarrow> string \<Rightarrow> json_object \<Rightarrow> json_object
     \<Rightarrow> json_object \<Rightarrow> (db, unit) tx" where
  "connection_audit call context user_id connection_id name action before_json after_json change_json =
     insert_audit_events (connection_audit_row call context user_id connection_id name action before_json after_json change_json)"

subsection \<open>Row conversions\<close>

definition int_field :: "pyval \<Rightarrow> exn + int" where
  "int_field v = (case v of PInt n \<Rightarrow> Inr n | PBool b \<Rightarrow> Inr (if b then 1 else 0)
     | _ \<Rightarrow> Inl (TypeError ''connection revision query returned invalid version metadata''))"

fun uuid_items :: "pyval list \<Rightarrow> string \<Rightarrow> exn + uuid list" where
  "uuid_items [] field = Inr []"
| "uuid_items (v # vs) field =
     bind_res (cr_uuid v field) (\<lambda>u. bind_res (uuid_items vs field) (\<lambda>us. Inr (u # us)))"

definition uuid_sequence :: "pyval \<Rightarrow> string \<Rightarrow> exn + uuid list" where
  "uuid_sequence v field = (case v of PList vs \<Rightarrow> uuid_items vs field | _ \<Rightarrow> Inl (bad_column ''connection'' field))"

definition workspace_context_from_row :: "row \<Rightarrow> exn + ConnectionWorkspaceContext" where
  "workspace_context_from_row r =
     bind_res (if map_of r ''authorized_workspace_id'' \<noteq> None
               then row_get r ''authorized_workspace_id'' else row_get r ''workspace_id'') (\<lambda>v.
     bind_res (cr_uuid v ''workspace_id'') (\<lambda>workspace_id.
     bind_res (row_get r ''workspace_status'') (\<lambda>v. bind_res (cr_string v ''workspace_status'') (\<lambda>s.
     bind_res (ConnectionWorkspaceStatus_of s) (\<lambda>status.
     bind_res (row_get r ''membership_role'') (\<lambda>v. bind_res (cr_string v ''membership_role'') (\<lambda>s.
     bind_res (ConnectionAuthorizationRole_of s) (\<lambda>role.
     Inr \<lparr>cw_workspace_id = workspace_id, cw_status = status, cw_role = role\<rparr>))))))))"

definition connection_from_row :: "row \<Rightarrow> exn + Connection" where
  "connection_from_row r =
     bind_res (row_get r ''connection_access_mode'') (\<lambda>v.
     bind_res (cr_string v ''connection_access_mode'') (\<lambda>s. bind_res (ConnectionAccessMode_of s) (\<lambda>mode.
     bind_res (row_get r ''connection_project_ids'') (\<lambda>v.
     bind_res (uuid_sequence v ''connection_project_ids'') (\<lambda>project_values.
     if mode = ConnectionAccessMode.WORKSPACE \<and> project_values \<noteq> []
     then Inl (TypeError ''WORKSPACE connection unexpectedly contains selected access'')
     else
     bind_res (row_get r ''connection_id'') (\<lambda>v. bind_res (cr_uuid v ''connection_id'') (\<lambda>connection_id.
     bind_res (row_get r ''connection_workspace_id'') (\<lambda>v.
     bind_res (cr_uuid v ''connection_workspace_id'') (\<lambda>workspace_id.
     bind_res (row_get r ''connection_name'') (\<lambda>v. bind_res (cr_string v ''connection_name'') (\<lambda>name.
     bind_res (row_get r ''connection_provider_key'') (\<lambda>v.
     bind_res (cr_string v ''connection_provider_key'') (\<lambda>provider_key.
     bind_res (row_get r ''connection_status'') (\<lambda>v. bind_res (cr_string v ''connection_status'') (\<lambda>s.
     bind_res (ConnectionStatus_of s) (\<lambda>status.
     bind_res (row_get r ''connection_created_at'') (\<lambda>v.
     bind_res (cr_datetime v ''connection_created_at'') (\<lambda>created_at.
     bind_res (row_get r ''connection_updated_at'') (\<lambda>v.
     bind_res (cr_datetime v ''connection_updated_at'') (\<lambda>updated_at.
     bind_res (row_get r ''connection_archived_at'') (\<lambda>v.
     bind_res (optional_datetime_value ''connection'' v ''connection_archived_at'') (\<lambda>archived_at.
     Inr \<lparr>cn_connection_id = connection_id, cn_workspace_id = workspace_id, cn_name = name,
          cn_provider_key = provider_key,
          cn_access_policy = \<lparr>ap_mode = mode, ap_project_ids = project_values\<rparr>,
          cn_status = status, cn_created_at = created_at, cn_updated_at = updated_at,
          cn_archived_at = archived_at\<rparr>))))))))))))))))))))))"

definition draft_from_row :: "row \<Rightarrow> exn + ConnectionDraft" where
  "draft_from_row r =
     bind_res (row_get r ''connection_id'') (\<lambda>v. bind_res (cr_uuid v ''connection_id'') (\<lambda>connection_id.
     bind_res (row_get r ''workspace_id'') (\<lambda>v. bind_res (cr_uuid v ''workspace_id'') (\<lambda>workspace_id.
     bind_res (row_get r ''draft_json'') (\<lambda>v.
     bind_res (json_object_value ''connection'' v ''draft_json'') (\<lambda>configuration.
     bind_res (row_get r ''updated_by_user_id'') (\<lambda>v.
     bind_res (optional_uuid_value ''connection'' v ''updated_by_user_id'') (\<lambda>updated_by.
     bind_res (row_get r ''updated_at'') (\<lambda>v. bind_res (cr_datetime v ''updated_at'') (\<lambda>updated_at.
     Inr \<lparr>cd_connection_id = connection_id, cd_workspace_id = workspace_id,
          cd_configuration = configuration, cd_updated_by_user_id = updated_by,
          cd_updated_at = updated_at\<rparr>))))))))))"

definition revision_metadata_from_row :: "row \<Rightarrow> exn + ConnectionRevisionMetadata" where
  "revision_metadata_from_row r =
     bind_res (row_get r ''revision_number'') (\<lambda>number.
     bind_res (row_get r ''definition_schema_version'') (\<lambda>schema_version.
     bind_res (int_field number) (\<lambda>number. bind_res (int_field schema_version) (\<lambda>schema_version.
     bind_res (row_get r ''id'') (\<lambda>v. bind_res (cr_uuid v ''revision_id'') (\<lambda>revision_id.
     bind_res (row_get r ''connection_id'') (\<lambda>v. bind_res (cr_uuid v ''connection_id'') (\<lambda>connection_id.
     bind_res (row_get r ''workspace_id'') (\<lambda>v. bind_res (cr_uuid v ''workspace_id'') (\<lambda>workspace_id.
     bind_res (row_get r ''config_hash_hex'') (\<lambda>v. bind_res (cr_string v ''config_hash_hex'') (\<lambda>config_hash_hex.
     bind_res (row_get r ''created_by_user_id'') (\<lambda>v.
     bind_res (optional_uuid_value ''connection'' v ''created_by_user_id'') (\<lambda>created_by.
     bind_res (row_get r ''created_at'') (\<lambda>v. bind_res (cr_datetime v ''created_at'') (\<lambda>created_at.
     Inr \<lparr>rm_revision_id = revision_id, rm_connection_id = connection_id,
          rm_workspace_id = workspace_id, rm_revision_number = number,
          rm_definition_schema_version = schema_version, rm_config_hash_hex = config_hash_hex,
          rm_created_by_user_id = created_by, rm_created_at = created_at\<rparr>))))))))))))))))"

definition revision_from_row :: "row \<Rightarrow> exn + ConnectionRevision" where
  "revision_from_row r =
     bind_res (revision_metadata_from_row r) (\<lambda>metadata.
     bind_res (row_get r ''config_json'') (\<lambda>v.
     bind_res (json_object_value ''connection'' v ''config_json'') (\<lambda>configuration.
     Inr \<lparr>rv_metadata = metadata, rv_configuration = configuration\<rparr>)))"

definition access_json :: "ConnectionAccessPolicy \<Rightarrow> json_object" where
  "access_json policy =
     [(''access_mode'', JStr (ConnectionAccessMode_value (ap_mode policy))),
      (''project_ids'', JArr (map (\<lambda>i. JStr (uuid_str i)) (ap_project_ids policy)))]"

subsection \<open>The private helpers of the repository\<close>

definition workspace_context :: "uuid \<Rightarrow> uuid \<Rightarrow> (db, ConnectionWorkspaceContext) tx" where
  "workspace_context user_id workspace_id =
     bind_tx (query_tx (sql_workspace_context user_id workspace_id)) (\<lambda>result.
     bind_tx (lift_tx (one_or_none result)) (\<lambda>r.
     case r of None \<Rightarrow> raise_tx ConnectionWorkspaceNotFoundError
     | Some r \<Rightarrow> lift_tx (workspace_context_from_row r)))"

definition mutation_context_from_row ::
  "ConnectionWorkspaceContext \<Rightarrow> row \<Rightarrow> exn + ConnectionMutationContext" where
  "mutation_context_from_row workspace r =
     bind_res (row_get r ''id'') (\<lambda>v. bind_res (cr_uuid v ''connection_id'') (\<lambda>connection_id.
     bind_res (row_get r ''provider_key'') (\<lambda>v. bind_res (cr_string v ''provider_key'') (\<lambda>provider_key.
     bind_res (row_get r ''access_mode'') (\<lambda>v. bind_res (cr_string v ''access_mode'') (\<lambda>s.
     bind_res (ConnectionAccessMode_of s) (\<lambda>access_mode.
     bind_res (row_get r ''status'') (\<lambda>v. bind_res (cr_string v ''status'') (\<lambda>s.
     bind_res (ConnectionStatus_of s) (\<lambda>status.
     Inr \<lparr>cm_workspace = workspace, cm_connection_id = connection_id, cm_provider_key = provider_key,
          cm_access_mode = access_mode, cm_status = status\<rparr>))))))))))"

definition mutation_context :: "uuid \<Rightarrow> uuid \<Rightarrow> uuid \<Rightarrow> (db, ConnectionMutationContext) tx" where
  "mutation_context user_id workspace_id connection_id =
     bind_tx (workspace_context user_id workspace_id) (\<lambda>workspace.
     bind_tx (query_tx (sql_connection_context workspace_id connection_id)) (\<lambda>result.
     bind_tx (lift_tx (one_or_none result)) (\<lambda>r.
     case r of None \<Rightarrow> raise_tx ConnectionNotFoundError
     | Some r \<Rightarrow> lift_tx (mutation_context_from_row workspace r))))"

definition validate_projects :: "uuid \<Rightarrow> uuid list \<Rightarrow> (db, unit) tx" where
  "validate_projects workspace_id project_ids =
     (if project_ids = [] then ret_tx ()
      else
        bind_tx (query_tx (sql_lock_selected_projects workspace_id project_ids)) (\<lambda>result.
        bind_tx (lift_tx (uuid_items result ''project_id'')) (\<lambda>found.
        if set found \<noteq> set project_ids then raise_tx ConnectionProjectNotFoundError
        else ret_tx ())))"

definition repo_insert_project_access :: "uuid \<Rightarrow> uuid \<Rightarrow> uuid \<Rightarrow> uuid list \<Rightarrow> (db, unit) tx" where
  "repo_insert_project_access workspace_id connection_id user_id project_ids =
     (if project_ids = [] then ret_tx ()
      else sql_insert_project_access workspace_id connection_id user_id project_ids)"

definition fetch_connection :: "uuid \<Rightarrow> uuid \<Rightarrow> (db, Connection) tx" where
  "fetch_connection workspace_id connection_id =
     bind_tx (query_tx (sql_select_connection workspace_id connection_id)) (\<lambda>result.
     bind_tx (lift_tx (one_or_none result)) (\<lambda>r.
     case r of None \<Rightarrow> raise_tx ConnectionNotFoundError
     | Some r \<Rightarrow> lift_tx (connection_from_row r)))"

subsection \<open>What the helpers compute on well-formed tables\<close>

definition conn_context_of :: "workspace_row \<times> membership_row \<Rightarrow> ConnectionWorkspaceContext" where
  "conn_context_of wm = (case wm of (w, m) \<Rightarrow>
     \<lparr>cw_workspace_id = ws_id w, cw_status = projr (ConnectionWorkspaceStatus_of (ws_status w)),
      cw_role = projr (ConnectionAuthorizationRole_of (m_role m))\<rparr>)"

definition conn_context :: "db \<Rightarrow> uuid \<Rightarrow> uuid \<Rightarrow> ConnectionWorkspaceContext option" where
  "conn_context d user_id workspace_id =
     (case member_rows d user_id workspace_id of [] \<Rightarrow> None | wm # _ \<Rightarrow> Some (conn_context_of wm))"

definition find_connection :: "db \<Rightarrow> uuid \<Rightarrow> uuid \<Rightarrow> connection_row option" where
  "find_connection d w c = find (\<lambda>r. c_workspace_id r = w \<and> c_id r = c) (connections d)"

definition connection_of :: "db \<Rightarrow> connection_row \<Rightarrow> Connection" where
  "connection_of d c = \<lparr>cn_connection_id = c_id c, cn_workspace_id = c_workspace_id c, cn_name = c_name c,
     cn_provider_key = c_provider_key c,
     cn_access_policy = \<lparr>ap_mode = projr (ConnectionAccessMode_of (c_access_mode c)),
                         ap_project_ids = access_project_ids d (c_id c)\<rparr>,
     cn_status = projr (ConnectionStatus_of (c_status c)), cn_created_at = c_created_at c,
     cn_updated_at = c_updated_at c, cn_archived_at = c_archived_at c\<rparr>"

definition mutation_context_of ::
  "ConnectionWorkspaceContext \<Rightarrow> connection_row \<Rightarrow> ConnectionMutationContext" where
  "mutation_context_of x c = \<lparr>cm_workspace = x, cm_connection_id = c_id c,
     cm_provider_key = c_provider_key c, cm_access_mode = projr (ConnectionAccessMode_of (c_access_mode c)),
     cm_status = projr (ConnectionStatus_of (c_status c))\<rparr>"

text \<open>
  A workspace-wide Connection has no selected Projects. No constraint of the schema says so;
  the operations keep it, and reading a Connection relies on it.
\<close>

definition access_consistent :: "db \<Rightarrow> bool" where
  "access_consistent d \<longleftrightarrow>
     (\<forall>c \<in> set (connections d). c_access_mode c = ''WORKSPACE'' \<longrightarrow> access_project_ids d (c_id c) = [])"

definition conn_ok :: "db \<Rightarrow> bool" where
  "conn_ok d \<longleftrightarrow> schema_ok d \<and> access_consistent d"

lemma find_connection_Some:
  "find_connection d w c = Some r \<Longrightarrow> r \<in> set (connections d) \<and> c_workspace_id r = w \<and> c_id r = c"
  by (auto simp: find_connection_def find_Some_iff)

lemma find_connection_eqI:
  assumes "schema_ok d" "r \<in> set (connections d)" "c_workspace_id r = w" "c_id r = c"
  shows "find_connection d w c = Some r"
proof -
  have "find (\<lambda>x. c_workspace_id x = w \<and> c_id x = c) (connections d) \<noteq> None"
    using assms by (auto simp: find_None_iff)
  then obtain r' where r': "find_connection d w c = Some r'" by (auto simp: find_connection_def)
  have "r' = r"
    using find_connection_Some[OF r'] assms distinct_key_unique[of c_id "connections d" r' r]
    by (simp add: schema_ok_def connections_ok_def)
  then show ?thesis using r' by simp
qed

lemma connection_row_checks:
  assumes "schema_ok d" "r \<in> set (connections d)"
  obtains md st where "ConnectionAccessMode_of (c_access_mode r) = Inr md"
    "c_access_mode r = ConnectionAccessMode_value md"
    "ConnectionStatus_of (c_status r) = Inr st" "c_status r = ConnectionStatus_value st"
proof -
  have "c_access_mode r \<in> set connection_access_modes" "c_status r \<in> set connection_statuses"
    using assms by (auto simp: schema_ok_def connections_ok_def)
  then show thesis using connection_enums_checked(1,2) that by metis
qed

lemma conn_context_row_ok:
  assumes "schema_ok d" "is_member_row d u w ws m"
  shows "workspace_context_from_row [(''workspace_id'', PUuid (ws_id ws)),
      (''workspace_status'', PStr (ws_status ws)), (''membership_role'', PStr (m_role m))]
      = Inr (conn_context_of (ws, m))"
    and "workspace_context_from_row (connection_list_row d ((ws, m), c)) = Inr (conn_context_of (ws, m))"
proof -
  note ck = member_row_checks[OF assms]
  obtain st where "ConnectionWorkspaceStatus_of (ws_status ws) = Inr st"
    using connection_enums_checked(4)[OF ck(2)] by blast
  moreover obtain r where "ConnectionAuthorizationRole_of (m_role m) = Inr r"
    using connection_enums_checked(3)[OF ck(1)] by blast
  ultimately show "workspace_context_from_row [(''workspace_id'', PUuid (ws_id ws)),
      (''workspace_status'', PStr (ws_status ws)), (''membership_role'', PStr (m_role m))]
      = Inr (conn_context_of (ws, m))"
    and "workspace_context_from_row (connection_list_row d ((ws, m), c)) = Inr (conn_context_of (ws, m))"
    by (simp_all add: workspace_context_from_row_def connection_list_row_def row_get_def conn_context_of_def)
qed

lemma conn_context_cases:
  assumes "schema_ok d"
  obtains (none) "member_rows d u w = []" "conn_context d u w = None"
  | (member) ws m where "member_rows d u w = [(ws, m)]" "is_member_row d u w ws m"
      "conn_context d u w = Some (conn_context_of (ws, m))"
  using member_rows_cases[OF assms, of u w] by (auto simp: conn_context_def)

lemma conn_context_workspace:
  assumes "schema_ok d" "conn_context d u w = Some x"
  shows "cw_workspace_id x = w" "w \<in> set (map ws_id (workspaces d))"
  using conn_context_cases[OF assms(1), of u w] assms(2)
  by (cases; auto simp: conn_context_of_def is_member_row_def)+

lemma workspace_context_eq:
  assumes "schema_ok d"
  shows "workspace_context u w d = (case conn_context d u w of
      None \<Rightarrow> Inl ConnectionWorkspaceNotFoundError | Some x \<Rightarrow> Inr (x, d))"
  using assms
proof (cases rule: conn_context_cases[of d u w])
  case none
  then show ?thesis by (simp add: workspace_context_def sql_workspace_context_def bind_tx_def)
next
  case (member ws m)
  then show ?thesis using conn_context_row_ok(1)[OF assms, of u w ws m]
    by (simp add: workspace_context_def sql_workspace_context_def bind_tx_def)
qed

lemma uuid_items_PUuid [simp]: "uuid_items (map PUuid us) f = Inr us"
  by (induction us) simp_all

lemma connection_from_row_ok:
  assumes "conn_ok d" "r \<in> set (connections d)"
  shows "connection_from_row (connection_columns d (Some r)) = Inr (connection_of d r)"
    and "connection_from_row (connection_list_row d (wm, Some r)) = Inr (connection_of d r)"
proof -
  have s: "schema_ok d" using assms(1) by (simp add: conn_ok_def)
  obtain md st where c: "ConnectionAccessMode_of (c_access_mode r) = Inr md"
    "c_access_mode r = ConnectionAccessMode_value md" "ConnectionStatus_of (c_status r) = Inr st"
    by (rule connection_row_checks[OF s assms(2)])
  have ac: "md = ConnectionAccessMode.WORKSPACE \<Longrightarrow> access_project_ids d (c_id r) = []"
    using assms c(2) by (simp add: conn_ok_def access_consistent_def)
  show "connection_from_row (connection_columns d (Some r)) = Inr (connection_of d r)"
    using c(1,3) ac
    by (simp add: connection_from_row_def connection_columns_def row_get_def connection_of_def uuid_sequence_def)
  show "connection_from_row (connection_list_row d (wm, Some r)) = Inr (connection_of d r)"
    using c(1,3) ac
    by (cases wm) (simp add: connection_from_row_def connection_list_row_def connection_columns_def
        row_get_def connection_of_def uuid_sequence_def)
qed

lemma select_connection_one:
  assumes "schema_ok d"
  shows "one_or_none (sql_select_connection w c d) =
      Inr (map_option (\<lambda>r. connection_columns d (Some r)) (find_connection d w c))"
    and "one_or_none (sql_connection_context w c d) = Inr (map_option
      (\<lambda>r. [(''id'', PUuid (c_id r)), (''provider_key'', PStr (c_provider_key r)),
            (''access_mode'', PStr (c_access_mode r)), (''status'', PStr (c_status r))]) (find_connection d w c))"
proof -
  have "distinct (map c_id (connections d))" using assms by (simp add: schema_ok_def connections_ok_def)
  note o' = one_or_none_find[OF this, of "\<lambda>r. c_workspace_id r = w" c]
  show "one_or_none (sql_select_connection w c d) =
      Inr (map_option (\<lambda>r. connection_columns d (Some r)) (find_connection d w c))"
    and "one_or_none (sql_connection_context w c d) = Inr (map_option
      (\<lambda>r. [(''id'', PUuid (c_id r)), (''provider_key'', PStr (c_provider_key r)),
            (''access_mode'', PStr (c_access_mode r)), (''status'', PStr (c_status r))]) (find_connection d w c))"
    by (simp_all add: sql_select_connection_def sql_connection_context_def one_or_none_map o' find_connection_def)
qed

lemma fetch_connection_eq:
  assumes "conn_ok d"
  shows "fetch_connection w c d = (case find_connection d w c of
      None \<Rightarrow> Inl ConnectionNotFoundError | Some r \<Rightarrow> Inr (connection_of d r, d))"
proof -
  have s: "schema_ok d" using assms by (simp add: conn_ok_def)
  show ?thesis
    using connection_from_row_ok(1)[OF assms] find_connection_Some[of d w c]
    by (simp add: fetch_connection_def select_connection_one[OF s] bind_tx_def split: option.split)
qed

lemma mutation_context_eq:
  assumes "schema_ok d"
  shows "mutation_context u w c d = (case conn_context d u w of
      None \<Rightarrow> Inl ConnectionWorkspaceNotFoundError
    | Some x \<Rightarrow> (case find_connection d w c of
        None \<Rightarrow> Inl ConnectionNotFoundError | Some r \<Rightarrow> Inr (mutation_context_of x r, d)))"
proof (cases "find_connection d w c")
  case None
  then show ?thesis
    by (simp add: mutation_context_def workspace_context_eq[OF assms] bind_tx_def
        select_connection_one[OF assms] split: option.split)
next
  case (Some r)
  obtain md st where "ConnectionAccessMode_of (c_access_mode r) = Inr md" "ConnectionStatus_of (c_status r) = Inr st"
    using connection_row_checks[OF assms] find_connection_Some[OF Some] by metis
  then show ?thesis using Some
    by (simp add: mutation_context_def workspace_context_eq[OF assms] bind_tx_def
        select_connection_one[OF assms] mutation_context_from_row_def row_get_def mutation_context_of_def
        split: option.split)
qed

definition projects_exist :: "db \<Rightarrow> uuid \<Rightarrow> uuid list \<Rightarrow> bool" where
  "projects_exist d w ids \<longleftrightarrow> (\<forall>i \<in> set ids. (w, i) \<in> set (project_keys d))"

lemma validate_projects_eq:
  "validate_projects w ids d =
     (if projects_exist d w ids then Inr ((), d) else Inl ConnectionProjectNotFoundError)"
proof -
  let ?found = "map p_id (filter (\<lambda>p. p_workspace_id p = w \<and> p_id p \<in> set ids) (projects d))"
  have "sql_lock_selected_projects w ids d = map PUuid ?found"
    by (simp add: sql_lock_selected_projects_def)
  then have r: "uuid_items (sql_lock_selected_projects w ids d) f = Inr ?found" for f
    by (simp only: uuid_items_PUuid)
  have "set ?found = set ids \<longleftrightarrow> projects_exist d w ids"
    by (auto simp: projects_exist_def project_keys_def)
  then show ?thesis
    by (auto simp: validate_projects_def bind_tx_def r projects_exist_def)
qed

lemma insert_project_access_eq:
  assumes "(w, c) \<in> set (connection_keys d)" "distinct ids" "projects_exist d w ids"
    "\<forall>i \<in> set ids. (c, i) \<notin> set (map (\<lambda>a. (a_connection_id a, a_project_id a)) (project_access d))"
  shows "repo_insert_project_access w c u ids d =
    Inr ((), d\<lparr>project_access := project_access d @ map (\<lambda>i. \<lparr>a_workspace_id = w, a_connection_id = c,
       a_project_id = i, a_granted_by_user_id = Some u\<rparr>) ids\<rparr>)"
proof -
  have "sql_insert_project_access w c u ids d =
    Inr ((), d\<lparr>project_access := project_access d @ map (\<lambda>i. \<lparr>a_workspace_id = w, a_connection_id = c,
       a_project_id = i, a_granted_by_user_id = Some u\<rparr>) ids\<rparr>)"
    using assms
  proof (induction ids arbitrary: d)
    case (Cons i ids)
    let ?d = "d\<lparr>project_access := project_access d @ [\<lparr>a_workspace_id = w, a_connection_id = c,
       a_project_id = i, a_granted_by_user_id = Some u\<rparr>]\<rparr>"
    have "insert_project_access \<lparr>a_workspace_id = w, a_connection_id = c, a_project_id = i,
        a_granted_by_user_id = Some u\<rparr> d = Inr ((), ?d)"
      using Cons.prems by (simp add: insert_project_access_def projects_exist_def)
    moreover have "sql_insert_project_access w c u ids ?d =
      Inr ((), ?d\<lparr>project_access := project_access ?d @ map (\<lambda>i. \<lparr>a_workspace_id = w, a_connection_id = c,
       a_project_id = i, a_granted_by_user_id = Some u\<rparr>) ids\<rparr>)"
      by (rule Cons.IH) (use Cons.prems in \<open>auto simp: connection_keys_def projects_exist_def project_keys_def\<close>)
    ultimately show ?case by simp
  qed simp
  then show ?thesis by (simp add: repo_insert_project_access_def)
qed

end
