(* ===== verification/ConnectionOperations.thy ===== *)
theory ConnectionOperations
  imports ConnectionRepository
begin

section \<open>The operations of the Connection repository\<close>

text \<open>
  The eleven public methods of \<open>SqlAlchemyConnectionRepository\<close>, statement by statement. A
  mutating method returns its result and the state after the transaction; the authorizer and
  the configuration compiler it calls inside the transaction are arguments, as in the source.
\<close>

subsection \<open>Definitions\<close>

definition repo_create_connection ::
  "Call \<Rightarrow> (ConnectionWorkspaceContext \<Rightarrow> exn + unit) \<Rightarrow> uuid \<Rightarrow> uuid \<Rightarrow> string \<Rightarrow> string
     \<Rightarrow> ConnectionAccessPolicy \<Rightarrow> db \<Rightarrow> (exn + Connection) \<times> db" where
  "repo_create_connection call authorize user_id workspace_id name provider_key access_policy =
     begin_tx
       (bind_tx (workspace_context user_id workspace_id) (\<lambda>context.
        bind_tx (lift_tx (authorize context)) (\<lambda>_.
        bind_tx (validate_projects workspace_id (ap_project_ids access_policy)) (\<lambda>_.
        bind_tx (sql_insert_connection (call_now call) (call_new_id call) workspace_id name provider_key
          (ConnectionAccessMode_value (ap_mode access_policy))) (\<lambda>_.
        bind_tx (repo_insert_project_access workspace_id (call_new_id call) user_id
          (ap_project_ids access_policy)) (\<lambda>_.
        bind_tx (connection_audit call context user_id (call_new_id call) name ''CONNECTION_CREATED'' []
          [(''access_mode'', JStr (ConnectionAccessMode_value (ap_mode access_policy))),
           (''name'', JStr name),
           (''project_ids'', JArr (map (\<lambda>i. JStr (uuid_str i)) (ap_project_ids access_policy))),
           (''provider_key'', JStr provider_key), (''status'', JStr ''DRAFT'')] []) (\<lambda>_.
        fetch_connection workspace_id (call_new_id call))))))))"

definition repo_list_connections_for_user ::
  "uuid \<Rightarrow> uuid \<Rightarrow> ConnectionPageCursor option \<Rightarrow> int \<Rightarrow> db \<Rightarrow> exn + ConnectionPageLookup" where
  "repo_list_connections_for_user user_id workspace_id cursor limit d =
     (let rows = sql_list_connections_for_user user_id workspace_id cursor (limit + 1) d in
      if rows = [] then
        Inr \<lparr>cpl_context = None, cpl_page = \<lparr>cp_items = [], cp_next_cursor = None\<rparr>\<rparr>
      else
        bind_res (workspace_context_from_row (hd rows)) (\<lambda>context.
        bind_res (map_res connection_from_row
          (filter (\<lambda>r. map_of r ''connection_id'' \<noteq> Some PNone) rows)) (\<lambda>items.
        let has_more = int (length items) > limit;
            visible = take (nat limit) items;
            next_cursor = (if has_more \<and> visible \<noteq> []
              then Some (ConnectionPageCursor (cn_created_at (last visible)) (cn_connection_id (last visible)))
              else None)
        in Inr \<lparr>cpl_context = Some context,
                cpl_page = \<lparr>cp_items = visible, cp_next_cursor = next_cursor\<rparr>\<rparr>)))"

definition repo_get_connection_for_user :: "uuid \<Rightarrow> uuid \<Rightarrow> uuid \<Rightarrow> db \<Rightarrow> exn + ConnectionLookup" where
  "repo_get_connection_for_user user_id workspace_id connection_id d =
     bind_res (one_or_none (sql_get_connection_for_user user_id workspace_id connection_id d)) (\<lambda>r.
     case r of
       None \<Rightarrow> Inr \<lparr>cl_context = None, cl_connection = None\<rparr>
     | Some r \<Rightarrow>
         bind_res (bind_res (row_get r ''connection_id'') (\<lambda>v.
           if v \<noteq> PNone then bind_res (connection_from_row r) (\<lambda>c. Inr (Some c)) else Inr None)) (\<lambda>connection.
         bind_res (workspace_context_from_row r) (\<lambda>context.
         Inr \<lparr>cl_context = Some context, cl_connection = connection\<rparr>)))"

definition repo_rename_connection ::
  "Call \<Rightarrow> (ConnectionMutationContext \<Rightarrow> exn + unit) \<Rightarrow> uuid \<Rightarrow> uuid \<Rightarrow> uuid \<Rightarrow> string
     \<Rightarrow> db \<Rightarrow> (exn + Connection) \<times> db" where
  "repo_rename_connection call authorize user_id workspace_id connection_id name =
     begin_tx
       (bind_tx (mutation_context user_id workspace_id connection_id) (\<lambda>context.
        bind_tx (lift_tx (authorize context)) (\<lambda>_.
        bind_tx (fetch_connection workspace_id connection_id) (\<lambda>prior.
        bind_tx (sql_rename_connection (call_now call) workspace_id connection_id name) (\<lambda>_.
        bind_tx (connection_audit call (cm_workspace context) user_id connection_id name
          ''CONNECTION_RENAMED'' [(''name'', JStr (cn_name prior))] [(''name'', JStr name)] []) (\<lambda>_.
        fetch_connection workspace_id connection_id))))))"

definition repo_get_draft_for_user :: "uuid \<Rightarrow> uuid \<Rightarrow> uuid \<Rightarrow> db \<Rightarrow> exn + ConnectionDraftLookup" where
  "repo_get_draft_for_user user_id workspace_id connection_id d =
     bind_res (read_tx
       (bind_tx (mutation_context user_id workspace_id connection_id) (\<lambda>context.
        bind_tx (query_tx (sql_select_draft workspace_id connection_id)) (\<lambda>result.
        bind_tx (lift_tx (one_or_none result)) (\<lambda>r.
        ret_tx (context, r))))) d) (\<lambda>(context, r).
     bind_res (case r of None \<Rightarrow> Inr None
               | Some r \<Rightarrow> bind_res (draft_from_row r) (\<lambda>x. Inr (Some x))) (\<lambda>draft.
     Inr \<lparr>cdl_context = Some context, cdl_draft = draft\<rparr>))"

definition repo_put_draft ::
  "Call \<Rightarrow> (ConnectionMutationContext \<Rightarrow> exn + unit)
     \<Rightarrow> (ConnectionMutationContext \<Rightarrow> json_object \<Rightarrow> exn + json_object)
     \<Rightarrow> uuid \<Rightarrow> uuid \<Rightarrow> uuid \<Rightarrow> json_object \<Rightarrow> db \<Rightarrow> (exn + ConnectionDraft) \<times> db" where
  "repo_put_draft call authorize compile_configuration user_id workspace_id connection_id
       configuration d =
     after_commit (begin_tx
       (bind_tx (mutation_context user_id workspace_id connection_id) (\<lambda>context.
        bind_tx (lift_tx (authorize context)) (\<lambda>_.
        bind_tx (lift_tx (compile_configuration context configuration)) (\<lambda>compiled.
        bind_tx (sql_upsert_draft (call_now call) connection_id workspace_id compiled user_id) (\<lambda>result.
        lift_tx (one result)))))) d) draft_from_row"

definition repo_list_revisions_for_user ::
  "uuid \<Rightarrow> uuid \<Rightarrow> uuid \<Rightarrow> int option \<Rightarrow> int \<Rightarrow> db \<Rightarrow> exn + ConnectionRevisionPageLookup" where
  "repo_list_revisions_for_user user_id workspace_id connection_id before_revision limit d =
     bind_res (read_tx
       (bind_tx (mutation_context user_id workspace_id connection_id) (\<lambda>context.
        bind_tx (query_tx (sql_list_revisions workspace_id connection_id before_revision (limit + 1)))
          (\<lambda>rows. ret_tx (context, rows)))) d) (\<lambda>(context, rows).
     let has_more = int (length rows) > limit;
         visible_rows = take (nat limit) rows
     in bind_res (map_res revision_metadata_from_row visible_rows) (\<lambda>items.
        bind_res (if has_more \<and> visible_rows \<noteq> []
                  then bind_res (row_get (last visible_rows) ''revision_number'') (\<lambda>v.
                       bind_res (int_field v) (\<lambda>n. Inr (Some n)))
                  else Inr None) (\<lambda>next_before.
        Inr \<lparr>rpl_context = Some context,
             rpl_page = \<lparr>rp_items = items, rp_next_before_revision = next_before\<rparr>\<rparr>)))"

definition repo_get_revision_for_user ::
  "uuid \<Rightarrow> uuid \<Rightarrow> uuid \<Rightarrow> uuid \<Rightarrow> db \<Rightarrow> exn + ConnectionRevisionLookup" where
  "repo_get_revision_for_user user_id workspace_id connection_id revision_id d =
     bind_res (read_tx
       (bind_tx (mutation_context user_id workspace_id connection_id) (\<lambda>context.
        bind_tx (query_tx (sql_get_revision workspace_id connection_id revision_id)) (\<lambda>result.
        bind_tx (lift_tx (one_or_none result)) (\<lambda>r.
        ret_tx (context, r))))) d) (\<lambda>(context, r).
     bind_res (case r of None \<Rightarrow> Inr None
               | Some r \<Rightarrow> bind_res (revision_from_row r) (\<lambda>x. Inr (Some x))) (\<lambda>revision.
     Inr \<lparr>rl_context = Some context, rl_revision = revision\<rparr>))"

definition repo_publish_revision ::
  "Call \<Rightarrow> (ConnectionMutationContext \<Rightarrow> exn + unit)
     \<Rightarrow> (ConnectionMutationContext \<Rightarrow> json_object \<Rightarrow> exn + PublishedConnectionConfiguration)
     \<Rightarrow> uuid \<Rightarrow> uuid \<Rightarrow> uuid \<Rightarrow> db \<Rightarrow> (exn + ConnectionRevision) \<times> db" where
  "repo_publish_revision call authorize compile_configuration user_id workspace_id connection_id d =
     after_commit (begin_tx
       (bind_tx (mutation_context user_id workspace_id connection_id) (\<lambda>context.
        bind_tx (lift_tx (authorize context)) (\<lambda>_.
        bind_tx (query_tx (sql_lock_draft workspace_id connection_id)) (\<lambda>draft_result.
        bind_tx (lift_tx (one_or_none draft_result)) (\<lambda>draft_row.
        case draft_row of
          None \<Rightarrow> raise_tx (ConnectionStateConflictError ''connection draft does not exist'')
        | Some draft_row \<Rightarrow>
            bind_tx (lift_tx (bind_res (row_get draft_row ''draft_json'') (\<lambda>v.
              json_object_value ''connection'' v ''draft_json''))) (\<lambda>configuration.
            bind_tx (lift_tx (compile_configuration context configuration)) (\<lambda>compiled.
            bind_tx (query_tx (sql_next_revision_number connection_id)) (\<lambda>number.
            bind_tx (lift_tx (int_field number)) (\<lambda>revision_number.
            bind_tx (sql_insert_revision (call_now call) (call_new_id call) workspace_id connection_id
              revision_number (pub_definition_schema_version compiled) (pub_configuration compiled)
              (pub_config_hash compiled) user_id) (\<lambda>inserted.
            bind_tx (lift_tx (one inserted)) (\<lambda>r.
            bind_tx (sql_activate_draft_connection (call_now call) workspace_id connection_id) (\<lambda>_.
            bind_tx (fetch_connection workspace_id connection_id) (\<lambda>connection.
            bind_tx (connection_audit call (cm_workspace context) user_id connection_id
              (cn_name connection) ''CONNECTION_REVISION_PUBLISHED'' []
              [(''config_hash'', JStr (bytes_hex (pub_config_hash compiled))),
               (''definition_schema_version'', JInt (pub_definition_schema_version compiled)),
               (''revision_id'', JStr (uuid_str (call_new_id call))),
               (''revision_number'', JInt revision_number),
               (''status'', JStr (ConnectionStatus_value (cn_status connection)))] []) (\<lambda>_.
            ret_tx r)))))))))))))) d) revision_from_row"

definition repo_replace_access ::
  "Call \<Rightarrow> (ConnectionMutationContext \<Rightarrow> exn + unit) \<Rightarrow> uuid \<Rightarrow> uuid \<Rightarrow> uuid \<Rightarrow> ConnectionAccessPolicy
     \<Rightarrow> db \<Rightarrow> (exn + Connection) \<times> db" where
  "repo_replace_access call authorize user_id workspace_id connection_id access_policy =
     begin_tx
       (bind_tx (mutation_context user_id workspace_id connection_id) (\<lambda>context.
        bind_tx (lift_tx (authorize context)) (\<lambda>_.
        bind_tx (fetch_connection workspace_id connection_id) (\<lambda>prior.
        bind_tx (validate_projects workspace_id (ap_project_ids access_policy)) (\<lambda>_.
        bind_tx (sql_delete_project_access connection_id) (\<lambda>_.
        bind_tx (repo_insert_project_access workspace_id connection_id user_id
          (ap_project_ids access_policy)) (\<lambda>_.
        bind_tx (sql_update_access_mode (call_now call) workspace_id connection_id
          (ConnectionAccessMode_value (ap_mode access_policy))) (\<lambda>_.
        bind_tx (fetch_connection workspace_id connection_id) (\<lambda>updated.
        bind_tx (connection_audit call (cm_workspace context) user_id connection_id (cn_name updated)
          ''CONNECTION_ACCESS_UPDATED'' (access_json (cn_access_policy prior))
          (access_json (cn_access_policy updated)) []) (\<lambda>_.
        ret_tx updated))))))))))"

fun lifecycle_target :: "ConnectionLifecycleAction \<Rightarrow> ConnectionStatus" where
  "lifecycle_target ConnectionLifecycleAction.DISABLE = ConnectionStatus.DISABLED"
| "lifecycle_target ConnectionLifecycleAction.ENABLE = ConnectionStatus.ACTIVE"
| "lifecycle_target ConnectionLifecycleAction.ARCHIVE = ConnectionStatus.ARCHIVED"

definition lifecycle_audit_action :: "ConnectionLifecycleAction \<Rightarrow> string" where
  "lifecycle_audit_action action =
     (if action \<noteq> ConnectionLifecycleAction.DISABLE
      then ''CONNECTION_'' @ ConnectionLifecycleAction_value action @ ''D''
      else ''CONNECTION_DISABLED'')"

definition repo_transition_lifecycle ::
  "Call \<Rightarrow> (ConnectionMutationContext \<Rightarrow> exn + unit) \<Rightarrow> uuid \<Rightarrow> uuid \<Rightarrow> uuid
     \<Rightarrow> ConnectionLifecycleAction \<Rightarrow> db \<Rightarrow> (exn + Connection) \<times> db" where
  "repo_transition_lifecycle call authorize user_id workspace_id connection_id action =
     begin_tx
       (bind_tx (mutation_context user_id workspace_id connection_id) (\<lambda>context.
        bind_tx (lift_tx (authorize context)) (\<lambda>_.
        bind_tx (sql_update_lifecycle (call_now call) workspace_id connection_id
          (ConnectionStatus_value (lifecycle_target action))) (\<lambda>_.
        bind_tx (fetch_connection workspace_id connection_id) (\<lambda>updated.
        bind_tx (connection_audit call (cm_workspace context) user_id connection_id (cn_name updated)
          (lifecycle_audit_action action)
          [(''status'', JStr (ConnectionStatus_value (cm_status context)))]
          [(''status'', JStr (ConnectionStatus_value (lifecycle_target action)))] []) (\<lambda>_.
        ret_tx updated))))))"

subsection \<open>Updating one Connection\<close>

definition set_connection :: "db \<Rightarrow> uuid \<Rightarrow> uuid \<Rightarrow> (connection_row \<Rightarrow> connection_row) \<Rightarrow> db" where
  "set_connection d w c f =
     d\<lparr>connections := upd_where (\<lambda>r. c_workspace_id r = w \<and> c_id r = c) f (connections d)\<rparr>"

definition keeps_keys :: "(connection_row \<Rightarrow> connection_row) \<Rightarrow> bool" where
  "keeps_keys f \<longleftrightarrow> (\<forall>r. c_id (f r) = c_id r \<and> c_workspace_id (f r) = c_workspace_id r)"

lemma set_connection_fields [simp]:
  "users (set_connection d w c f) = users d" "workspaces (set_connection d w c f) = workspaces d"
  "memberships (set_connection d w c f) = memberships d" "projects (set_connection d w c f) = projects d"
  "drafts (set_connection d w c f) = drafts d" "revisions (set_connection d w c f) = revisions d"
  "project_access (set_connection d w c f) = project_access d"
  "audit_events (set_connection d w c f) = audit_events d"
  "access_project_ids (set_connection d w c f) i = access_project_ids d i"
  by (simp_all add: set_connection_def access_project_ids_def)

lemma conn_context_cong [simp]:
  "conn_context (set_connection d w c f) u w' = conn_context d u w'"
  "conn_context (d\<lparr>audit_events := x1\<rparr>) u w' = conn_context d u w'"
  "conn_context (d\<lparr>drafts := x2\<rparr>) u w' = conn_context d u w'"
  "conn_context (d\<lparr>revisions := x3\<rparr>) u w' = conn_context d u w'"
  "conn_context (d\<lparr>project_access := x4\<rparr>) u w' = conn_context d u w'"
  "conn_context (d\<lparr>connections := x5\<rparr>) u w' = conn_context d u w'"
  by (simp_all add: conn_context_def set_connection_def)

lemma find_connection_cong [simp]:
  "find_connection (d\<lparr>audit_events := x1\<rparr>) w c = find_connection d w c"
  "find_connection (d\<lparr>drafts := x2\<rparr>) w c = find_connection d w c"
  "find_connection (d\<lparr>revisions := x3\<rparr>) w c = find_connection d w c"
  "find_connection (d\<lparr>project_access := x4\<rparr>) w c = find_connection d w c"
  by (simp_all add: find_connection_def)

lemma connection_of_cong [simp]:
  "connection_of (set_connection d w c f) r = connection_of d r"
  "connection_of (d\<lparr>audit_events := x1\<rparr>) r = connection_of d r"
  "connection_of (d\<lparr>drafts := x2\<rparr>) r = connection_of d r"
  "connection_of (d\<lparr>revisions := x3\<rparr>) r = connection_of d r"
  by (simp_all add: connection_of_def access_project_ids_def)

lemma find_connection_set:
  assumes "keeps_keys f"
  shows "find_connection (set_connection d w c f) w' c' =
    (if w' = w \<and> c' = c then map_option f (find_connection d w c) else find_connection d w' c')"
proof -
  have "find (\<lambda>r. c_workspace_id r = w' \<and> c_id r = c')
      (upd_where (\<lambda>r. c_workspace_id r = w \<and> c_id r = c) f xs) =
    (if w' = w \<and> c' = c then map_option f (find (\<lambda>r. c_workspace_id r = w \<and> c_id r = c) xs)
     else find (\<lambda>r. c_workspace_id r = w' \<and> c_id r = c') xs)" for xs
    using assms by (induction xs) (auto simp: keeps_keys_def)
  then show ?thesis by (simp add: find_connection_def set_connection_def)
qed

lemma set_connection_ids:
  assumes "keeps_keys f"
  shows "map c_id (connections (set_connection d w c f)) = map c_id (connections d)"
    and "connection_keys (set_connection d w c f) = connection_keys d"
  using assms by (auto simp: set_connection_def keeps_keys_def map_upd_where connection_keys_def)

definition others_consistent :: "db \<Rightarrow> uuid \<Rightarrow> bool" where
  "others_consistent d c \<longleftrightarrow> (\<forall>r \<in> set (connections d). c_id r \<noteq> c \<longrightarrow>
     c_access_mode r = ''WORKSPACE'' \<longrightarrow> access_project_ids d (c_id r) = [])"

lemma set_connection_restores:
  assumes "schema_ok d" "others_consistent d c" "find_connection d w c = Some r" "keeps_keys f"
    "c_access_mode (f r) \<in> set connection_access_modes" "c_status (f r) \<in> set connection_statuses"
    "c_access_mode (f r) = ''WORKSPACE'' \<Longrightarrow> access_project_ids d c = []"
  shows "conn_ok (set_connection d w c f)"
proof -
  let ?d = "set_connection d w c f"
  note s = assms(1) and ac = assms(2)
  note r = find_connection_Some[OF assms(3)]
  have "r' = r" if "r' \<in> set (connections d)" "c_id r' = c" for r'
    using s distinct_key_unique[of c_id "connections d" r' r] r that
    by (simp add: schema_ok_def connections_ok_def)
  note uniq = this
  have mem: "r' \<in> set (connections d) \<and> r' \<noteq> r \<or> r' = f r" if m: "r' \<in> set (connections ?d)" for r'
  proof -
    obtain x where x: "x \<in> set (connections d)"
      "r' = (if c_workspace_id x = w \<and> c_id x = c then f x else x)"
      using m by (auto simp: set_connection_def set_upd_where)
    show ?thesis
    proof (cases "c_workspace_id x = w \<and> c_id x = c")
      case True
      then show ?thesis using uniq[OF x(1)] x(2) by simp
    next
      case False
      then show ?thesis using x r by auto
    qed
  qed
  have ids: "connection_keys ?d = connection_keys d" "map c_id (connections ?d) = map c_id (connections d)"
    using set_connection_ids[OF assms(4)] by blast+
  have keys: "c_id (f r) = c" "c_workspace_id (f r) = w" using r assms(4) by (auto simp: keeps_keys_def)
  have fw: "w \<in> set (map ws_id (workspaces d))"
    using s r by (auto simp: schema_ok_def connections_ok_def)
  have "c_workspace_id r' \<in> set (map ws_id (workspaces d))
      \<and> c_access_mode r' \<in> set connection_access_modes \<and> c_status r' \<in> set connection_statuses"
    if "r' \<in> set (connections ?d)" for r'
    using mem[OF that]
  proof
    assume "r' \<in> set (connections d) \<and> r' \<noteq> r"
    then show ?thesis using s by (auto simp: schema_ok_def connections_ok_def)
  next
    assume "r' = f r"
    then show ?thesis using keys(2) fw assms(5,6) by simp
  qed
  then have "connections_ok ?d"
    using s ids by (simp add: schema_ok_def connections_ok_def)
  moreover have "drafts_ok ?d" "revisions_ok ?d" "access_ok ?d" "projects_ok ?d" "audit_ok ?d" "users_ok ?d"
    "identities_ok ?d" "sessions_ok ?d" "workspaces_ok ?d" "memberships_ok ?d"
    using s ids by (auto simp: schema_ok_def drafts_ok_def revisions_ok_def access_ok_def projects_ok_def
        audit_ok_def users_ok_def identities_ok_def sessions_ok_def workspaces_ok_def memberships_ok_def
        active_memberships_def project_keys_def set_connection_def)
  ultimately have "schema_ok ?d" by (simp add: schema_ok_def)
  moreover have "access_consistent ?d"
    unfolding access_consistent_def
  proof (intro ballI impI)
    fix r' assume r': "r' \<in> set (connections ?d)" "c_access_mode r' = ''WORKSPACE''"
    from mem[OF r'(1)] show "access_project_ids ?d (c_id r') = []"
      using r'(2) ac assms(7) keys uniq by (auto simp: others_consistent_def)
  qed
  ultimately show ?thesis by (simp add: conn_ok_def)
qed

lemma set_connection_ok:
  assumes "conn_ok d" "find_connection d w c = Some r" "keeps_keys f"
    "c_access_mode (f r) \<in> set connection_access_modes" "c_status (f r) \<in> set connection_statuses"
    "c_access_mode (f r) = ''WORKSPACE'' \<Longrightarrow> access_project_ids d c = []"
  shows "conn_ok (set_connection d w c f)"
  using assms by (intro set_connection_restores)
    (auto simp: conn_ok_def others_consistent_def access_consistent_def)

lemma update_connections_eq:
  "update_connections w c cond f d = Inr ((), set_connection d w c (\<lambda>r. if cond r then f r else r))"
  by (auto simp: update_connections_def set_connection_def upd_where_def)

subsection \<open>The audit event\<close>

definition audited :: "audit_row \<Rightarrow> db \<Rightarrow> db" where
  "audited e d = d\<lparr>audit_events := audit_events d @ [e]\<rparr>"

definition audit_id_used :: "Call \<Rightarrow> db \<Rightarrow> bool" where
  "audit_id_used call d \<longleftrightarrow> call_audit_id call \<in> set (map au_id (audit_events d))"

lemma connection_audit_eq:
  "connection_audit call x u c n a b af ch d =
     (if audit_id_used call d then Inl (IntegrityError ''audit_events_pkey'')
      else Inr ((), audited (connection_audit_row call x u c n a b af ch) d))"
  by (simp add: connection_audit_def insert_audit_events_def connection_audit_row_def audited_def
      audit_id_used_def)

lemma audited_simps [simp]:
  "connections (audited e d) = connections d" "project_access (audited e d) = project_access d"
  "revisions (audited e d) = revisions d" "drafts (audited e d) = drafts d"
  "audit_events (audited e d) = audit_events d @ [e]" "projects (audited e d) = projects d"
  "connection_of (audited e d) r = connection_of d r"
  "find_connection (audited e d) w c = find_connection d w c"
  "conn_context (audited e d) u w = conn_context d u w"
  by (simp_all add: audited_def)

lemma audit_id_used_cong [simp]:
  "audit_id_used call (set_connection d w c f) = audit_id_used call d"
  "audit_id_used call (d\<lparr>drafts := x1\<rparr>) = audit_id_used call d"
  "audit_id_used call (d\<lparr>revisions := x2\<rparr>) = audit_id_used call d"
  "audit_id_used call (d\<lparr>project_access := x3\<rparr>) = audit_id_used call d"
  "audit_id_used call (d\<lparr>connections := x4\<rparr>) = audit_id_used call d"
  by (simp_all add: audit_id_used_def)

lemma audited_ok:
  assumes "conn_ok d" "\<not> audit_id_used call d"
  shows "conn_ok (audited (connection_audit_row call x u c n a b af ch) d)"
proof -
  have "connection_audit call x u c n a b af ch d = Inr ((), audited (connection_audit_row call x u c n a b af ch) d)"
    using assms(2) by (simp add: connection_audit_eq)
  then have "schema_ok (audited (connection_audit_row call x u c n a b af ch) d)"
    using preservesD[OF insert_preserves(10)] assms(1) by (auto simp: connection_audit_def conn_ok_def)
  then show ?thesis using assms(1)
    by (simp add: conn_ok_def access_consistent_def access_project_ids_def)
qed

subsection \<open>The guard every mutation starts with\<close>

definition guarded ::
  "db \<Rightarrow> uuid \<Rightarrow> uuid \<Rightarrow> uuid \<Rightarrow> (ConnectionMutationContext \<Rightarrow> exn + unit)
     \<Rightarrow> (ConnectionWorkspaceContext \<Rightarrow> connection_row \<Rightarrow> (exn + 'a) \<times> db) \<Rightarrow> (exn + 'a) \<times> db" where
  "guarded d u w c az k =
     (case conn_context d u w of
        None \<Rightarrow> (Inl ConnectionWorkspaceNotFoundError, d)
      | Some x \<Rightarrow> (case find_connection d w c of
          None \<Rightarrow> (Inl ConnectionNotFoundError, d)
        | Some r \<Rightarrow> (case az (mutation_context_of x r) of Inl e \<Rightarrow> (Inl e, d) | Inr _ \<Rightarrow> k x r)))"

lemma guarded_tx:
  assumes "schema_ok d"
  shows "begin_tx (bind_tx (mutation_context u w c) (\<lambda>ctx. bind_tx (lift_tx (az ctx)) (\<lambda>_. m ctx))) d =
    guarded d u w c az (\<lambda>x r. begin_tx (m (mutation_context_of x r)) d)"
  by (auto simp: begin_tx_def bind_tx_def mutation_context_eq[OF assms] guarded_def lift_tx_def
      split: option.splits sum.splits)

lemma guarded_after_commit:
  "after_commit (guarded d u w c az k) g = guarded d u w c az (\<lambda>x r. after_commit (k x r) g)"
  by (simp add: guarded_def split: option.split sum.split)

lemma guarded_cong:
  assumes "\<And>x r. conn_context d u w = Some x \<Longrightarrow> find_connection d w c = Some r \<Longrightarrow> k x r = k' x r"
  shows "guarded d u w c az k = guarded d u w c az k'"
  using assms by (simp add: guarded_def split: option.split sum.split)

lemma guarded_Inr:
  assumes "guarded d u w c az k = (Inr a, d')"
  obtains x r y where "conn_context d u w = Some x" "find_connection d w c = Some r"
    "az (mutation_context_of x r) = Inr y" "k x r = (Inr a, d')"
  using assms by (auto simp: guarded_def split: option.splits sum.splits)

lemma keeps_keys_sets [simp]:
  "keeps_keys (set_name now n)" "keeps_keys (set_active now)" "keeps_keys (set_access_mode now md)"
  "keeps_keys (set_lifecycle now st)" "keeps_keys (\<lambda>r. if c_status r = ''DRAFT'' then set_active now r else r)"
  by (simp_all add: keeps_keys_def set_name_def set_active_def set_access_mode_def set_lifecycle_def)

lemma found_row_checks:
  assumes "conn_ok d" "find_connection d w c = Some r"
  shows "c_access_mode r \<in> set connection_access_modes" "c_status r \<in> set connection_statuses"
    "c_access_mode r = ''WORKSPACE'' \<Longrightarrow> access_project_ids d c = []"
    "(w, c) \<in> set (connection_keys d)" "c_id r = c" "c_workspace_id r = w"
  using assms(1) find_connection_Some[OF assms(2)]
  by (auto simp: conn_ok_def schema_ok_def connections_ok_def access_consistent_def connection_keys_def)

subsection \<open>Rename and lifecycle transition\<close>

definition renamed_state :: "Call \<Rightarrow> ConnectionWorkspaceContext \<Rightarrow> connection_row \<Rightarrow> uuid \<Rightarrow> string \<Rightarrow> db \<Rightarrow> db" where
  "renamed_state call x r u n d =
     audited (connection_audit_row call x u (c_id r) n ''CONNECTION_RENAMED''
         [(''name'', JStr (c_name r))] [(''name'', JStr n)] [])
       (set_connection d (c_workspace_id r) (c_id r) (set_name (call_now call) n))"

lemma renamed_state_ok:
  assumes "conn_ok d" "find_connection d w c = Some r" "\<not> audit_id_used call d"
  shows "conn_ok (renamed_state call x r u n d)"
proof -
  note ck = found_row_checks[OF assms(1,2)]
  have "conn_ok (set_connection d w c (set_name (call_now call) n))"
    by (rule set_connection_ok[OF assms(1,2)]) (use ck in \<open>auto simp: set_name_def\<close>)
  then show ?thesis unfolding renamed_state_def ck by (rule audited_ok) (simp add: assms)
qed

lemma repo_rename_connection_eq:
  assumes "conn_ok d"
  shows "repo_rename_connection call az u w c n d = guarded d u w c az (\<lambda>x r.
    if audit_id_used call d then (Inl (IntegrityError ''audit_events_pkey''), d)
    else (Inr (connection_of d (set_name (call_now call) n r)), renamed_state call x r u n d))"
proof -
  have s: "schema_ok d" using assms by (simp add: conn_ok_def)
  show ?thesis
    unfolding repo_rename_connection_def guarded_tx[OF s]
  proof (rule guarded_cong)
    fix x r assume r: "find_connection d w c = Some r"
    note ck = found_row_checks[OF assms r]
    let ?d1 = "set_connection d w c (set_name (call_now call) n)"
    show "begin_tx (bind_tx (fetch_connection w c) (\<lambda>prior.
        bind_tx (sql_rename_connection (call_now call) w c n) (\<lambda>_.
        bind_tx (connection_audit call (cm_workspace (mutation_context_of x r)) u c n
          ''CONNECTION_RENAMED'' [(''name'', JStr (cn_name prior))] [(''name'', JStr n)] []) (\<lambda>_.
        fetch_connection w c)))) d =
      (if audit_id_used call d then (Inl (IntegrityError ''audit_events_pkey''), d)
       else (Inr (connection_of d (set_name (call_now call) n r)), renamed_state call x r u n d))"
    proof (cases "audit_id_used call d")
      case True
      then show ?thesis using r
        by (simp add: begin_tx_def bind_tx_def fetch_connection_eq[OF assms] sql_rename_connection_def
            update_connections_eq connection_audit_eq)
    next
      case False
      have "fetch_connection w c (renamed_state call x r u n d) =
        Inr (connection_of d (set_name (call_now call) n r), renamed_state call x r u n d)"
        using r by (simp add: fetch_connection_eq[OF renamed_state_ok[OF assms r False]])
          (simp add: renamed_state_def ck find_connection_set)
      then show ?thesis using r False
        by (simp add: begin_tx_def bind_tx_def fetch_connection_eq[OF assms] sql_rename_connection_def
            update_connections_eq connection_audit_eq mutation_context_of_def renamed_state_def ck
            connection_of_def)
    qed
  qed
qed

definition transitioned_state ::
  "Call \<Rightarrow> ConnectionWorkspaceContext \<Rightarrow> connection_row \<Rightarrow> uuid \<Rightarrow> ConnectionLifecycleAction \<Rightarrow> db \<Rightarrow> db" where
  "transitioned_state call x r u action d =
     audited (connection_audit_row call x u (c_id r) (c_name r) (lifecycle_audit_action action)
         [(''status'', JStr (c_status r))]
         [(''status'', JStr (ConnectionStatus_value (lifecycle_target action)))] [])
       (set_connection d (c_workspace_id r) (c_id r)
         (set_lifecycle (call_now call) (ConnectionStatus_value (lifecycle_target action))))"

lemma set_lifecycle_ok:
  assumes "conn_ok d" "find_connection d w c = Some r"
  shows "conn_ok (set_connection d w c (set_lifecycle now (ConnectionStatus_value st)))"
  by (rule set_connection_ok[OF assms]) (use found_row_checks[OF assms] in \<open>auto simp: set_lifecycle_def\<close>)

lemma transitioned_state_ok:
  assumes "conn_ok d" "find_connection d w c = Some r" "\<not> audit_id_used call d"
  shows "conn_ok (transitioned_state call x r u action d)"
  unfolding transitioned_state_def found_row_checks[OF assms(1,2)]
  by (rule audited_ok[OF set_lifecycle_ok[OF assms(1,2)]]) (simp add: assms)

lemma repo_transition_lifecycle_eq:
  assumes "conn_ok d"
  shows "repo_transition_lifecycle call az u w c action d = guarded d u w c az (\<lambda>x r.
    if audit_id_used call d then (Inl (IntegrityError ''audit_events_pkey''), d)
    else (Inr (connection_of d (set_lifecycle (call_now call) (ConnectionStatus_value (lifecycle_target action)) r)),
          transitioned_state call x r u action d))"
proof -
  have s: "schema_ok d" using assms by (simp add: conn_ok_def)
  let ?f = "set_lifecycle (call_now call) (ConnectionStatus_value (lifecycle_target action))"
  show ?thesis
    unfolding repo_transition_lifecycle_def guarded_tx[OF s]
  proof (rule guarded_cong)
    fix x r assume r: "find_connection d w c = Some r"
    note ck = found_row_checks[OF assms r]
    have st: "ConnectionStatus_value (projr (ConnectionStatus_of (c_status r))) = c_status r"
      using connection_row_checks[OF s] find_connection_Some[OF r] by (metis ConnectionStatus_of_value sum.sel(2))
    have "fetch_connection w c (set_connection d w c ?f) =
        Inr (connection_of d (?f r), set_connection d w c ?f)"
      using r by (simp add: fetch_connection_eq[OF set_lifecycle_ok[OF assms r]] find_connection_set)
    moreover have "cn_name (connection_of d (?f r)) = c_name r"
      by (simp add: connection_of_def set_lifecycle_def)
    ultimately show "begin_tx (bind_tx (sql_update_lifecycle (call_now call) w c
          (ConnectionStatus_value (lifecycle_target action))) (\<lambda>_.
        bind_tx (fetch_connection w c) (\<lambda>updated.
        bind_tx (connection_audit call (cm_workspace (mutation_context_of x r)) u c (cn_name updated)
          (lifecycle_audit_action action)
          [(''status'', JStr (ConnectionStatus_value (cm_status (mutation_context_of x r))))]
          [(''status'', JStr (ConnectionStatus_value (lifecycle_target action)))] []) (\<lambda>_.
        ret_tx updated)))) d =
      (if audit_id_used call d then (Inl (IntegrityError ''audit_events_pkey''), d)
       else (Inr (connection_of d (?f r)), transitioned_state call x r u action d))"
      by (simp add: begin_tx_def bind_tx_def sql_update_lifecycle_def update_connections_eq
          connection_audit_eq mutation_context_of_def st ck transitioned_state_def)
  qed
qed

subsection \<open>Drafts\<close>

definition find_draft :: "db \<Rightarrow> uuid \<Rightarrow> uuid \<Rightarrow> draft_row option" where
  "find_draft d w c = find (\<lambda>r. d_workspace_id r = w \<and> d_connection_id r = c) (drafts d)"

definition draft_of :: "draft_row \<Rightarrow> ConnectionDraft" where
  "draft_of r = \<lparr>cd_connection_id = d_connection_id r, cd_workspace_id = d_workspace_id r,
     cd_configuration = d_json r, cd_updated_by_user_id = d_updated_by_user_id r,
     cd_updated_at = d_updated_at r\<rparr>"

definition new_draft_row :: "timestamp \<Rightarrow> uuid \<Rightarrow> uuid \<Rightarrow> json_object \<Rightarrow> uuid \<Rightarrow> draft_row" where
  "new_draft_row now c w cfg u = \<lparr>d_connection_id = c, d_workspace_id = w, d_json = cfg,
     d_updated_by_user_id = Some u, d_updated_at = now\<rparr>"

definition draft_put_state :: "timestamp \<Rightarrow> uuid \<Rightarrow> uuid \<Rightarrow> json_object \<Rightarrow> uuid \<Rightarrow> db \<Rightarrow> db" where
  "draft_put_state now c w cfg u d =
     (if c \<in> set (map d_connection_id (drafts d))
      then d\<lparr>drafts := upd_where (\<lambda>r. d_connection_id r = c) (\<lambda>_. new_draft_row now c w cfg u) (drafts d)\<rparr>
      else d\<lparr>drafts := drafts d @ [new_draft_row now c w cfg u]\<rparr>)"

lemma draft_from_row_ok [simp]: "draft_from_row (draft_columns r) = Inr (draft_of r)"
  by (simp add: draft_from_row_def draft_columns_def row_get_def draft_of_def)

lemma select_draft_one:
  assumes "schema_ok d"
  shows "one_or_none (sql_select_draft w c d) = Inr (map_option draft_columns (find_draft d w c))"
    and "one_or_none (sql_lock_draft w c d) =
      Inr (map_option (\<lambda>r. [(''draft_json'', PDict (d_json r))]) (find_draft d w c))"
proof -
  have "distinct (map d_connection_id (drafts d))" using assms by (simp add: schema_ok_def drafts_ok_def)
  note o' = one_or_none_find[OF this, of "\<lambda>r. d_workspace_id r = w" c]
  show "one_or_none (sql_select_draft w c d) = Inr (map_option draft_columns (find_draft d w c))"
    and "one_or_none (sql_lock_draft w c d) =
      Inr (map_option (\<lambda>r. [(''draft_json'', PDict (d_json r))]) (find_draft d w c))"
    by (simp_all add: sql_select_draft_def sql_lock_draft_def one_or_none_map o' find_draft_def)
qed

text \<open>A draft lies in the Workspace of its Connection.\<close>

lemma draft_workspace:
  assumes "schema_ok d" "(w, c) \<in> set (connection_keys d)" "r \<in> set (drafts d)" "d_connection_id r = c"
  shows "d_workspace_id r = w"
proof -
  obtain k where k: "k \<in> set (connections d)" "c_workspace_id k = w" "c_id k = c"
    using assms(2) by (auto simp: connection_keys_def)
  have "(d_workspace_id r, c) \<in> set (connection_keys d)"
    using assms by (auto simp: schema_ok_def drafts_ok_def)
  then obtain k' where "k' \<in> set (connections d)" "c_workspace_id k' = d_workspace_id r" "c_id k' = c"
    by (auto simp: connection_keys_def)
  then show ?thesis
    using k assms(1) distinct_key_unique[of c_id "connections d" k k'] by (simp add: schema_ok_def connections_ok_def)
qed

lemma sql_upsert_draft_eq:
  assumes "schema_ok d" "(w, c) \<in> set (connection_keys d)"
  shows "sql_upsert_draft now c w cfg u d =
    Inr ([draft_columns (new_draft_row now c w cfg u)], draft_put_state now c w cfg u d)"
proof (cases "c \<in> set (map d_connection_id (drafts d))")
  case True
  let ?f = "\<lambda>r. r\<lparr>d_json := cfg, d_updated_by_user_id := Some u, d_updated_at := now\<rparr>"
  let ?Q = "\<lambda>r. d_connection_id r = c"
  obtain r where r: "r \<in> set (drafts d)" "d_connection_id r = c" using True by auto
  have same: "?f r' = new_draft_row now c w cfg u" if "r' \<in> set (drafts d)" "d_connection_id r' = c" for r'
    using draft_workspace[OF assms that] that(2) by (cases r') (simp add: new_draft_row_def)
  have "upd_where ?Q ?f (drafts d) = upd_where ?Q (\<lambda>_. new_draft_row now c w cfg u) (drafts d)"
    unfolding upd_where_def using same by (intro map_cong) auto
  moreover have "filter ?Q (drafts d) = [r]"
    using assms(1) r filter_key_singleton[of d_connection_id "drafts d" r] by (simp add: schema_ok_def drafts_ok_def)
  then have "filter ?Q (upd_where ?Q (\<lambda>_. new_draft_row now c w cfg u) (drafts d)) = [new_draft_row now c w cfg u]"
    using r(2) by (subst filter_upd_where) (auto simp: new_draft_row_def)
  ultimately show ?thesis using True
    by (simp add: sql_upsert_draft_def Let_def draft_put_state_def)
next
  case False
  then show ?thesis using assms(2)
    by (simp add: sql_upsert_draft_def Let_def draft_put_state_def new_draft_row_def)
qed

lemma draft_put_state_ok:
  assumes "conn_ok d" "(w, c) \<in> set (connection_keys d)"
  shows "conn_ok (draft_put_state now c w cfg u d)"
proof -
  let ?n = "new_draft_row now c w cfg u"
  have s: "schema_ok d" using assms(1) by (simp add: conn_ok_def)
  have "drafts_ok (draft_put_state now c w cfg u d)"
  proof (cases "c \<in> set (map d_connection_id (drafts d))")
    case True
    have "map d_connection_id (upd_where (\<lambda>r. d_connection_id r = c) (\<lambda>_. ?n) (drafts d)) = map d_connection_id (drafts d)"
      by (rule map_upd_where) (simp add: new_draft_row_def)
    then show ?thesis
      using True s assms(2)
      by (auto simp: draft_put_state_def schema_ok_def drafts_ok_def set_upd_where connection_keys_def
          new_draft_row_def)
  next
    case False
    then show ?thesis using s assms(2)
      by (auto simp: draft_put_state_def schema_ok_def drafts_ok_def connection_keys_def new_draft_row_def)
  qed
  then show ?thesis
    using assms(1) by (auto simp: conn_ok_def schema_ok_def draft_put_state_def table_ok_defs
        access_consistent_def access_project_ids_def)
qed

lemma find_draft_put:
  assumes "schema_ok d" "(w, c) \<in> set (connection_keys d)"
  shows "find_draft (draft_put_state now c w cfg u d) w c = Some (new_draft_row now c w cfg u)"
proof -
  let ?n = "new_draft_row now c w cfg u"
  have key: "d_connection_id ?n = c" "d_workspace_id ?n = w" by (simp_all add: new_draft_row_def)
  have a: "find (\<lambda>r. d_workspace_id r = w \<and> d_connection_id r = c) (xs @ [?n]) = Some ?n"
    if "c \<notin> set (map d_connection_id xs)" for xs
    using that key by (induction xs) auto
  have b: "find (\<lambda>r. d_workspace_id r = w \<and> d_connection_id r = c)
      (upd_where (\<lambda>r. d_connection_id r = c) (\<lambda>_. ?n) xs) = Some ?n"
    if "c \<in> set (map d_connection_id xs)" for xs
    using that key by (induction xs) auto
  show ?thesis using a b by (auto simp: find_draft_def draft_put_state_def)
qed

lemma repo_put_draft_eq:
  assumes "conn_ok d"
  shows "repo_put_draft call az compile u w c cfg d = guarded d u w c az (\<lambda>x r.
    case compile (mutation_context_of x r) cfg of
      Inl e \<Rightarrow> (Inl e, d)
    | Inr compiled \<Rightarrow> (Inr (draft_of (new_draft_row (call_now call) c w compiled u)),
                       draft_put_state (call_now call) c w compiled u d))"
proof -
  have s: "schema_ok d" using assms by (simp add: conn_ok_def)
  show ?thesis
    unfolding repo_put_draft_def guarded_tx[OF s] guarded_after_commit
  proof (rule guarded_cong)
    fix x r assume r: "find_connection d w c = Some r"
    note up = sql_upsert_draft_eq[OF s found_row_checks(4)[OF assms r]]
    show "after_commit (begin_tx
       (bind_tx (lift_tx (compile (mutation_context_of x r) cfg)) (\<lambda>compiled.
        bind_tx (sql_upsert_draft (call_now call) c w compiled u) (\<lambda>result.
        lift_tx (one result)))) d) draft_from_row =
      (case compile (mutation_context_of x r) cfg of
        Inl e \<Rightarrow> (Inl e, d)
      | Inr compiled \<Rightarrow> (Inr (draft_of (new_draft_row (call_now call) c w compiled u)),
                         draft_put_state (call_now call) c w compiled u d))"
      by (simp add: begin_tx_def bind_tx_def lift_tx_def up split: sum.split)
  qed
qed

lemma repo_get_draft_eq:
  assumes "schema_ok d"
  shows "repo_get_draft_for_user u w c d = (case conn_context d u w of
      None \<Rightarrow> Inl ConnectionWorkspaceNotFoundError
    | Some x \<Rightarrow> (case find_connection d w c of
        None \<Rightarrow> Inl ConnectionNotFoundError
      | Some r \<Rightarrow> Inr \<lparr>cdl_context = Some (mutation_context_of x r),
                       cdl_draft = map_option draft_of (find_draft d w c)\<rparr>))"
  by (simp add: repo_get_draft_for_user_def read_tx_def bind_tx_def mutation_context_eq[OF assms]
      select_draft_one[OF assms] split: option.split)

end
