(* ===== verification/Projects.thy ===== *)
theory Projects
  imports Database Keyset
begin

section \<open>Projects\<close>

text \<open>
  \<open>domains/projects\<close> and \<open>infrastructure/db/project_repository.py\<close>: the models, the role and
  lifecycle policies, the repository's three operations with their SQL and row conversions,
  and the application service. The repository's contract is the locale \<open>project_repository\<close>;
  the SQL model is an instance of it and its listing an instance of \<open>keyset_pages\<close>.
\<close>

subsection \<open>Models\<close>

datatype ProjectStatus = ACTIVE | SUSPENDED | ARCHIVED | PENDING_DELETION

datatype ProjectAuthorizationRole = OWNER | ADMIN | BUILDER | VIEWER

datatype ProjectWorkspaceStatus = ACTIVE | SUSPENDED | ARCHIVED | PENDING_DELETION

definition ProjectStatus_of :: "string \<Rightarrow> exn + ProjectStatus" where
  "ProjectStatus_of v =
     (if v = ''ACTIVE'' then Inr ProjectStatus.ACTIVE
      else if v = ''SUSPENDED'' then Inr ProjectStatus.SUSPENDED
      else if v = ''ARCHIVED'' then Inr ProjectStatus.ARCHIVED
      else if v = ''PENDING_DELETION'' then Inr ProjectStatus.PENDING_DELETION
      else Inl (ValueError (v @ '' is not a valid ProjectStatus'')))"

definition ProjectAuthorizationRole_of :: "string \<Rightarrow> exn + ProjectAuthorizationRole" where
  "ProjectAuthorizationRole_of v =
     (if v = ''OWNER'' then Inr ProjectAuthorizationRole.OWNER
      else if v = ''ADMIN'' then Inr ProjectAuthorizationRole.ADMIN
      else if v = ''BUILDER'' then Inr ProjectAuthorizationRole.BUILDER
      else if v = ''VIEWER'' then Inr ProjectAuthorizationRole.VIEWER
      else Inl (ValueError (v @ '' is not a valid ProjectAuthorizationRole'')))"

fun ProjectAuthorizationRole_value :: "ProjectAuthorizationRole \<Rightarrow> string" where
  "ProjectAuthorizationRole_value ProjectAuthorizationRole.OWNER = ''OWNER''"
| "ProjectAuthorizationRole_value ProjectAuthorizationRole.ADMIN = ''ADMIN''"
| "ProjectAuthorizationRole_value ProjectAuthorizationRole.BUILDER = ''BUILDER''"
| "ProjectAuthorizationRole_value ProjectAuthorizationRole.VIEWER = ''VIEWER''"

definition ProjectWorkspaceStatus_of :: "string \<Rightarrow> exn + ProjectWorkspaceStatus" where
  "ProjectWorkspaceStatus_of v =
     (if v = ''ACTIVE'' then Inr ProjectWorkspaceStatus.ACTIVE
      else if v = ''SUSPENDED'' then Inr ProjectWorkspaceStatus.SUSPENDED
      else if v = ''ARCHIVED'' then Inr ProjectWorkspaceStatus.ARCHIVED
      else if v = ''PENDING_DELETION'' then Inr ProjectWorkspaceStatus.PENDING_DELETION
      else Inl (ValueError (v @ '' is not a valid ProjectWorkspaceStatus'')))"

record ProjectWorkspaceContext =
  pc_workspace_id :: uuid
  pc_status :: ProjectWorkspaceStatus
  pc_role :: ProjectAuthorizationRole

record Project =
  pj_project_id :: uuid
  pj_workspace_id :: uuid
  pj_name :: string
  pj_status :: ProjectStatus
  pj_created_at :: timestamp
  pj_updated_at :: timestamp
  pj_archived_at :: "timestamp option"

datatype ProjectPageCursor =
  ProjectPageCursor (cursor_created_at: timestamp) (cursor_project_id: uuid)

record ProjectPage =
  pp_items :: "Project list"
  pp_next_cursor :: "ProjectPageCursor option"

record ProjectPageLookup =
  pl_context :: "ProjectWorkspaceContext option"
  pl_page :: ProjectPage

record ProjectLookup =
  pk_context :: "ProjectWorkspaceContext option"
  pk_project :: "Project option"

text \<open>Cursors are ordered as the SQL row comparison \<open>(created_at, id) < (..., ...)\<close> orders them.\<close>

instantiation ProjectPageCursor :: linorder
begin

definition less_eq_ProjectPageCursor :: "ProjectPageCursor \<Rightarrow> ProjectPageCursor \<Rightarrow> bool" where
  "less_eq_ProjectPageCursor a b \<longleftrightarrow>
     (cursor_created_at a, cursor_project_id a) \<le> (cursor_created_at b, cursor_project_id b)"

definition less_ProjectPageCursor :: "ProjectPageCursor \<Rightarrow> ProjectPageCursor \<Rightarrow> bool" where
  "less_ProjectPageCursor a b \<longleftrightarrow>
     (cursor_created_at a, cursor_project_id a) < (cursor_created_at b, cursor_project_id b)"

instance
  by standard
    (auto simp: less_eq_ProjectPageCursor_def less_ProjectPageCursor_def ProjectPageCursor.expand)

end

subsection \<open>Policies\<close>

definition MAX_PROJECT_NAME_LENGTH :: nat where "MAX_PROJECT_NAME_LENGTH = 120"
definition MAX_PROJECT_PAGE_LIMIT :: int where "MAX_PROJECT_PAGE_LIMIT = 100"

definition PROJECT_READ_ROLES :: "ProjectAuthorizationRole list" where
  "PROJECT_READ_ROLES = [ProjectAuthorizationRole.OWNER, ProjectAuthorizationRole.ADMIN,
     ProjectAuthorizationRole.BUILDER, ProjectAuthorizationRole.VIEWER]"

definition PROJECT_CREATE_ROLES :: "ProjectAuthorizationRole list" where
  "PROJECT_CREATE_ROLES = [ProjectAuthorizationRole.OWNER, ProjectAuthorizationRole.ADMIN,
     ProjectAuthorizationRole.BUILDER]"

definition normalize_project_name :: "string \<Rightarrow> exn + string" where
  "normalize_project_name value =
     (let normalized = strip value in
      if normalized = [] then Inl (ValueError ''project name must not be empty'')
      else if length normalized > MAX_PROJECT_NAME_LENGTH
      then Inl (ValueError ''project name must be at most 120 characters'')
      else Inr normalized)"

definition validate_project_page_limit :: "int \<Rightarrow> exn + int" where
  "validate_project_page_limit value =
     (if value < 1 \<or> value > MAX_PROJECT_PAGE_LIMIT
      then Inl (ValueError ''project page limit must be between 1 and 100'')
      else Inr value)"

definition can_read_projects :: "ProjectAuthorizationRole \<Rightarrow> bool" where
  "can_read_projects role \<longleftrightarrow> role \<in> set PROJECT_READ_ROLES"

definition can_create_project :: "ProjectAuthorizationRole \<Rightarrow> bool" where
  "can_create_project role \<longleftrightarrow> role \<in> set PROJECT_CREATE_ROLES"

definition workspace_allows_project_creation :: "ProjectWorkspaceStatus \<Rightarrow> bool" where
  "workspace_allows_project_creation status \<longleftrightarrow> status = ProjectWorkspaceStatus.ACTIVE"

lemma can_read_projects_all [simp]: "can_read_projects role"
  by (cases role) (simp_all add: can_read_projects_def PROJECT_READ_ROLES_def)

lemma can_create_project_iff: "can_create_project role \<longleftrightarrow> role \<noteq> ProjectAuthorizationRole.VIEWER"
  by (cases role) (simp_all add: can_create_project_def PROJECT_CREATE_ROLES_def)

lemma ProjectStatus_checked: "v \<in> set workspace_statuses \<Longrightarrow> \<exists>st. ProjectStatus_of v = Inr st"
  by (auto simp: workspace_statuses_def ProjectStatus_of_def)

lemma ProjectWorkspaceStatus_checked:
  "v \<in> set workspace_statuses \<Longrightarrow> \<exists>st. ProjectWorkspaceStatus_of v = Inr st"
  by (auto simp: workspace_statuses_def ProjectWorkspaceStatus_of_def)

lemma ProjectAuthorizationRole_checked:
  "v \<in> set membership_roles \<Longrightarrow>
    \<exists>r. ProjectAuthorizationRole_of v = Inr r \<and> v = ProjectAuthorizationRole_value r"
  by (auto simp: membership_roles_def ProjectAuthorizationRole_of_def)

subsection \<open>Repository: statements\<close>

text \<open>
  \<open>_LOCK_PROJECT_CREATION_CONTEXT\<close> takes row locks, which a single session does not observe.
\<close>

definition sql_lock_project_creation_context :: "uuid \<Rightarrow> uuid \<Rightarrow> db \<Rightarrow> row list" where
  "sql_lock_project_creation_context user_id workspace_id d =
     map (\<lambda>(w, m). [(''workspace_id'', PUuid (ws_id w)), (''workspace_status'', PStr (ws_status w)),
                    (''membership_role'', PStr (m_role m))])
       (member_rows d user_id workspace_id)"

definition sql_insert_project :: "timestamp \<Rightarrow> uuid \<Rightarrow> uuid \<Rightarrow> string \<Rightarrow> (db, row list) tx" where
  "sql_insert_project now project_id workspace_id name =
     bind_tx (insert_projects \<lparr>p_id = project_id, p_workspace_id = workspace_id, p_name = name,
                p_status = ''ACTIVE'', p_created_at = now, p_updated_at = now,
                p_archived_at = None\<rparr>) (\<lambda>_.
     ret_tx [[(''id'', PUuid project_id), (''workspace_id'', PUuid workspace_id),
              (''name'', PStr name), (''status'', PStr ''ACTIVE''), (''created_at'', PDatetime now),
              (''updated_at'', PDatetime now), (''archived_at'', PNone)]])"

definition sql_insert_project_audit ::
  "timestamp \<Rightarrow> uuid \<Rightarrow> uuid \<Rightarrow> uuid \<Rightarrow> uuid \<Rightarrow> string \<Rightarrow> string \<Rightarrow> json_object \<Rightarrow> string
     \<Rightarrow> string option \<Rightarrow> string \<Rightarrow> (db, unit) tx" where
  "sql_insert_project_audit now audit_id workspace_id project_id user_id membership_role name
       after_json request_id trace_id session_id =
     insert_audit_events \<lparr>au_id = audit_id, au_workspace_id = Some workspace_id,
       au_project_id = Some project_id, au_scope = ''TENANT'', au_actor_type = ''USER'',
       au_actor_user_id = Some user_id, au_actor_role_snapshot = Some membership_role,
       au_effective_user_id = Some user_id, au_action = ''PROJECT_CREATED'',
       au_outcome = ''SUCCEEDED'', au_resource_type = ''PROJECT'',
       au_resource_id = Some project_id, au_resource_display_snapshot = Some name,
       au_before_json = None, au_after_json = Some after_json, au_change_json = None,
       au_request_id = Some request_id, au_trace_id = trace_id, au_session_id = Some session_id,
       au_surface = ''PUBLIC_API'', au_created_at = now\<rparr>"

definition project_row_key :: "project_row \<Rightarrow> ProjectPageCursor" where
  "project_row_key p = ProjectPageCursor (p_created_at p) (p_id p)"

text \<open>The columns of \<open>access LEFT JOIN projects\<close>; an unmatched row has nulls for the Project.\<close>

definition project_list_row :: "(workspace_row \<times> membership_row) \<times> project_row option \<Rightarrow> row" where
  "project_list_row r = (case r of ((w, m), p) \<Rightarrow>
     [(''authorized_workspace_id'', PUuid (ws_id w)), (''workspace_status'', PStr (ws_status w)),
      (''membership_role'', PStr (m_role m)),
      (''project_id'', opt_val (\<lambda>p. PUuid (p_id p)) p),
      (''project_workspace_id'', opt_val (\<lambda>p. PUuid (p_workspace_id p)) p),
      (''project_name'', opt_val (\<lambda>p. PStr (p_name p)) p),
      (''project_status'', opt_val (\<lambda>p. PStr (p_status p)) p),
      (''project_created_at'', opt_val (\<lambda>p. PDatetime (p_created_at p)) p),
      (''project_updated_at'', opt_val (\<lambda>p. PDatetime (p_updated_at p)) p),
      (''project_archived_at'', (case p of None \<Rightarrow> PNone | Some p \<Rightarrow> opt_val PDatetime (p_archived_at p)))])"

text \<open>\<open>ORDER BY ... DESC NULLS LAST\<close>: \<open>None\<close> is the least key.\<close>

definition sql_list_projects_for_user ::
  "uuid \<Rightarrow> uuid \<Rightarrow> ProjectPageCursor option \<Rightarrow> int \<Rightarrow> db \<Rightarrow> row list" where
  "sql_list_projects_for_user user_id workspace_id cursor fetch_limit d =
     map project_list_row (order_desc (\<lambda>(_, p). map_option project_row_key p)
       (concat (map (\<lambda>(w, m). left_join (w, m)
            (take (nat fetch_limit) (order_desc project_row_key
              (filter (\<lambda>p. p_workspace_id p = ws_id w \<and> below cursor (project_row_key p)) (projects d)))))
          (member_rows d user_id workspace_id))))"

definition sql_get_project_for_user :: "uuid \<Rightarrow> uuid \<Rightarrow> uuid \<Rightarrow> db \<Rightarrow> row list" where
  "sql_get_project_for_user user_id workspace_id project_id d =
     map project_list_row (concat (map (\<lambda>(w, m). left_join (w, m)
         (filter (\<lambda>p. p_workspace_id p = ws_id w \<and> p_id p = project_id) (projects d)))
       (member_rows d user_id workspace_id)))"

subsection \<open>Repository: row conversions and operations\<close>

definition project_context_from_row :: "row \<Rightarrow> exn + ProjectWorkspaceContext" where
  "project_context_from_row r =
     bind_res (if map_of r ''authorized_workspace_id'' \<noteq> None
               then row_get r ''authorized_workspace_id'' else row_get r ''workspace_id'') (\<lambda>v.
     bind_res (uuid_value ''project'' v ''workspace_id'') (\<lambda>workspace_id.
     bind_res (row_get r ''workspace_status'') (\<lambda>v.
     bind_res (string_value ''project'' v ''workspace_status'') (\<lambda>s.
     bind_res (ProjectWorkspaceStatus_of s) (\<lambda>status.
     bind_res (row_get r ''membership_role'') (\<lambda>v.
     bind_res (string_value ''project'' v ''membership_role'') (\<lambda>s.
     bind_res (ProjectAuthorizationRole_of s) (\<lambda>role.
     Inr \<lparr>pc_workspace_id = workspace_id, pc_status = status, pc_role = role\<rparr>))))))))"

definition project_from_insert_row :: "row \<Rightarrow> exn + Project" where
  "project_from_insert_row r =
     bind_res (row_get r ''id'') (\<lambda>v. bind_res (uuid_value ''project'' v ''project_id'') (\<lambda>project_id.
     bind_res (row_get r ''workspace_id'') (\<lambda>v. bind_res (uuid_value ''project'' v ''workspace_id'') (\<lambda>workspace_id.
     bind_res (row_get r ''name'') (\<lambda>v. bind_res (string_value ''project'' v ''name'') (\<lambda>name.
     bind_res (row_get r ''status'') (\<lambda>v. bind_res (string_value ''project'' v ''project_status'') (\<lambda>s.
     bind_res (ProjectStatus_of s) (\<lambda>status.
     bind_res (row_get r ''created_at'') (\<lambda>v. bind_res (datetime_value ''project'' v ''created_at'') (\<lambda>created_at.
     bind_res (row_get r ''updated_at'') (\<lambda>v. bind_res (datetime_value ''project'' v ''updated_at'') (\<lambda>updated_at.
     bind_res (row_get r ''archived_at'') (\<lambda>v.
     bind_res (optional_datetime_value ''project'' v ''archived_at'') (\<lambda>archived_at.
     Inr \<lparr>pj_project_id = project_id, pj_workspace_id = workspace_id, pj_name = name,
          pj_status = status, pj_created_at = created_at, pj_updated_at = updated_at,
          pj_archived_at = archived_at\<rparr>)))))))))))))))"

definition project_from_list_row :: "row \<Rightarrow> exn + Project" where
  "project_from_list_row r =
     bind_res (row_get r ''project_id'') (\<lambda>v. bind_res (uuid_value ''project'' v ''project_id'') (\<lambda>project_id.
     bind_res (row_get r ''project_workspace_id'') (\<lambda>v.
     bind_res (uuid_value ''project'' v ''project_workspace_id'') (\<lambda>workspace_id.
     bind_res (row_get r ''project_name'') (\<lambda>v. bind_res (string_value ''project'' v ''project_name'') (\<lambda>name.
     bind_res (row_get r ''project_status'') (\<lambda>v. bind_res (string_value ''project'' v ''project_status'') (\<lambda>s.
     bind_res (ProjectStatus_of s) (\<lambda>status.
     bind_res (row_get r ''project_created_at'') (\<lambda>v.
     bind_res (datetime_value ''project'' v ''project_created_at'') (\<lambda>created_at.
     bind_res (row_get r ''project_updated_at'') (\<lambda>v.
     bind_res (datetime_value ''project'' v ''project_updated_at'') (\<lambda>updated_at.
     bind_res (row_get r ''project_archived_at'') (\<lambda>v.
     bind_res (optional_datetime_value ''project'' v ''project_archived_at'') (\<lambda>archived_at.
     Inr \<lparr>pj_project_id = project_id, pj_workspace_id = workspace_id, pj_name = name,
          pj_status = status, pj_created_at = created_at, pj_updated_at = updated_at,
          pj_archived_at = archived_at\<rparr>)))))))))))))))"

text \<open>
  \<open>now\<close> is the transaction's time; \<open>project_id\<close> and \<open>audit_id\<close> are the results of the two calls
  of \<open>uuid7()\<close>.
\<close>

definition repo_create_project ::
  "timestamp \<Rightarrow> uuid \<Rightarrow> uuid \<Rightarrow> uuid \<Rightarrow> uuid \<Rightarrow> string option
     \<Rightarrow> (ProjectWorkspaceContext \<Rightarrow> exn + unit) \<Rightarrow> uuid \<Rightarrow> uuid \<Rightarrow> string \<Rightarrow> db \<Rightarrow> (exn + Project) \<times> db" where
  "repo_create_project now project_id audit_id auth_session_id request_id trace_id authorize
       user_id workspace_id name d =
     after_commit (begin_tx
       (bind_tx (query_tx (sql_lock_project_creation_context user_id workspace_id)) (\<lambda>context_result.
        bind_tx (lift_tx (one_or_none context_result)) (\<lambda>context_row.
        case context_row of
          None \<Rightarrow> raise_tx ProjectWorkspaceNotFoundError
        | Some context_row \<Rightarrow>
            bind_tx (lift_tx (project_context_from_row context_row)) (\<lambda>context.
            bind_tx (lift_tx (authorize context)) (\<lambda>_.
            bind_tx (sql_insert_project now project_id workspace_id name) (\<lambda>inserted.
            bind_tx (lift_tx (one inserted)) (\<lambda>project_row.
            bind_tx (sql_insert_project_audit now audit_id workspace_id project_id user_id
              (ProjectAuthorizationRole_value (pc_role context)) name
              [(''name'', JStr name), (''status'', JStr ''ACTIVE'')]
              (uuid_str request_id) trace_id (uuid_str auth_session_id)) (\<lambda>_.
            ret_tx project_row)))))))) d) project_from_insert_row"

definition repo_list_projects_for_user ::
  "uuid \<Rightarrow> uuid \<Rightarrow> ProjectPageCursor option \<Rightarrow> int \<Rightarrow> db \<Rightarrow> exn + ProjectPageLookup" where
  "repo_list_projects_for_user user_id workspace_id cursor limit d =
     (let rows = sql_list_projects_for_user user_id workspace_id cursor (limit + 1) d in
      if rows = [] then
        Inr \<lparr>pl_context = None, pl_page = \<lparr>pp_items = [], pp_next_cursor = None\<rparr>\<rparr>
      else
        bind_res (project_context_from_row (hd rows)) (\<lambda>context.
        bind_res (map_res project_from_list_row
          (filter (\<lambda>r. map_of r ''project_id'' \<noteq> Some PNone) rows)) (\<lambda>items.
        let has_more = int (length items) > limit;
            visible = take (nat limit) items;
            next_cursor = (if has_more \<and> visible \<noteq> []
              then Some (ProjectPageCursor (pj_created_at (last visible)) (pj_project_id (last visible)))
              else None)
        in Inr \<lparr>pl_context = Some context,
                pl_page = \<lparr>pp_items = visible, pp_next_cursor = next_cursor\<rparr>\<rparr>)))"

definition repo_get_project_for_user :: "uuid \<Rightarrow> uuid \<Rightarrow> uuid \<Rightarrow> db \<Rightarrow> exn + ProjectLookup" where
  "repo_get_project_for_user user_id workspace_id project_id d =
     bind_res (one_or_none (sql_get_project_for_user user_id workspace_id project_id d)) (\<lambda>r.
     case r of
       None \<Rightarrow> Inr \<lparr>pk_context = None, pk_project = None\<rparr>
     | Some r \<Rightarrow>
         bind_res (bind_res (row_get r ''project_id'') (\<lambda>v.
           if v \<noteq> PNone then bind_res (project_from_list_row r) (\<lambda>p. Inr (Some p)) else Inr None)) (\<lambda>project.
         bind_res (project_context_from_row r) (\<lambda>context.
         Inr \<lparr>pk_context = Some context, pk_project = project\<rparr>)))"

subsection \<open>Service\<close>

definition authorize_project_read :: "ProjectWorkspaceContext option \<Rightarrow> exn + unit" where
  "authorize_project_read context =
     (case context of None \<Rightarrow> Inl ProjectWorkspaceNotFoundError
      | Some c \<Rightarrow> if \<not> can_read_projects (pc_role c) then Inl ProjectWorkspaceNotFoundError else Inr ())"

definition authorize_project_creation :: "ProjectWorkspaceContext \<Rightarrow> exn + unit" where
  "authorize_project_creation context =
     (if \<not> can_create_project (pc_role context) then Inl ProjectPermissionDeniedError
      else if \<not> workspace_allows_project_creation (pc_status context)
      then Inl ProjectWorkspaceNotActiveError
      else Inr ())"

definition create_project ::
  "((ProjectWorkspaceContext \<Rightarrow> exn + unit) \<Rightarrow> uuid \<Rightarrow> uuid \<Rightarrow> string \<Rightarrow> 'd \<Rightarrow> (exn + Project) \<times> 'd)
     \<Rightarrow> uuid \<Rightarrow> uuid \<Rightarrow> string \<Rightarrow> 'd \<Rightarrow> (exn + Project) \<times> 'd" where
  "create_project repository_create user_id workspace_id name d =
     (case normalize_project_name name of
        Inl e \<Rightarrow> (Inl e, d)
      | Inr normalized_name \<Rightarrow>
          repository_create authorize_project_creation user_id workspace_id normalized_name d)"

definition list_projects ::
  "(uuid \<Rightarrow> uuid \<Rightarrow> ProjectPageCursor option \<Rightarrow> int \<Rightarrow> 'd \<Rightarrow> exn + ProjectPageLookup)
     \<Rightarrow> uuid \<Rightarrow> uuid \<Rightarrow> ProjectPageCursor option \<Rightarrow> int \<Rightarrow> 'd \<Rightarrow> exn + ProjectPage" where
  "list_projects repository_list user_id workspace_id cursor limit d =
     bind_res (validate_project_page_limit limit) (\<lambda>validated_limit.
     bind_res (repository_list user_id workspace_id cursor validated_limit d) (\<lambda>lookup.
     bind_res (authorize_project_read (pl_context lookup)) (\<lambda>_.
     Inr (pl_page lookup))))"

definition get_project ::
  "(uuid \<Rightarrow> uuid \<Rightarrow> uuid \<Rightarrow> 'd \<Rightarrow> exn + ProjectLookup) \<Rightarrow> uuid \<Rightarrow> uuid \<Rightarrow> uuid \<Rightarrow> 'd \<Rightarrow> exn + Project" where
  "get_project repository_get user_id workspace_id project_id d =
     bind_res (repository_get user_id workspace_id project_id d) (\<lambda>lookup.
     bind_res (authorize_project_read (pk_context lookup)) (\<lambda>_.
     case pk_project lookup of None \<Rightarrow> Inl ProjectNotFoundError | Some p \<Rightarrow> Inr p))"

subsection \<open>The repository's contract and the service under it\<close>

text \<open>
  \<open>ProjectRepository\<close> (\<open>domains/projects/contracts.py\<close>): \<open>ctx d u w\<close> is what user \<open>u\<close> is in
  Workspace \<open>w\<close>, \<open>items d w\<close> are the Workspace's Projects, newest first. Every operation
  answers about a Workspace only through the caller's context; creation calls the
  authorizer inside the transaction.
\<close>

abbreviation project_key :: "Project \<Rightarrow> ProjectPageCursor" where
  "project_key p \<equiv> ProjectPageCursor (pj_created_at p) (pj_project_id p)"

locale project_repository =
  fixes ok :: "'d \<Rightarrow> bool"
    and ctx :: "'d \<Rightarrow> uuid \<Rightarrow> uuid \<Rightarrow> ProjectWorkspaceContext option"
    and items :: "'d \<Rightarrow> uuid \<Rightarrow> Project list"
    and create_op :: "(ProjectWorkspaceContext \<Rightarrow> exn + unit) \<Rightarrow> uuid \<Rightarrow> uuid \<Rightarrow> string \<Rightarrow> 'd \<Rightarrow> (exn + Project) \<times> 'd"
    and list_op :: "uuid \<Rightarrow> uuid \<Rightarrow> ProjectPageCursor option \<Rightarrow> int \<Rightarrow> 'd \<Rightarrow> exn + ProjectPageLookup"
    and get_op :: "uuid \<Rightarrow> uuid \<Rightarrow> uuid \<Rightarrow> 'd \<Rightarrow> exn + ProjectLookup"
  assumes items_law: "ok d \<Longrightarrow> descending project_key (items d w) \<and> distinct (map pj_project_id (items d w))
      \<and> (\<forall>p \<in> set (items d w). pj_workspace_id p = w)"
    and list_law: "ok d \<Longrightarrow> 0 < n \<Longrightarrow> list_op u w c (int n) d = Inr (case ctx d u w of
        None \<Rightarrow> \<lparr>pl_context = None, pl_page = \<lparr>pp_items = [], pp_next_cursor = None\<rparr>\<rparr>
      | Some x \<Rightarrow> \<lparr>pl_context = Some x, pl_page =
          \<lparr>pp_items = fst (page_spec project_key (items d w) c n),
           pp_next_cursor = snd (page_spec project_key (items d w) c n)\<rparr>\<rparr>)"
    and get_law: "ok d \<Longrightarrow> get_op u w pid d = Inr (case ctx d u w of
        None \<Rightarrow> \<lparr>pk_context = None, pk_project = None\<rparr>
      | Some x \<Rightarrow> \<lparr>pk_context = Some x, pk_project = find (\<lambda>q. pj_project_id q = pid) (items d w)\<rparr>)"
    and create_hidden_law: "ok d \<Longrightarrow> ctx d u w = None \<Longrightarrow>
      create_op az u w nm d = (Inl ProjectWorkspaceNotFoundError, d)"
    and create_denied_law: "ok d \<Longrightarrow> ctx d u w = Some x \<Longrightarrow> az x = Inl e \<Longrightarrow>
      create_op az u w nm d = (Inl e, d)"
    and create_fail_law: "ok d \<Longrightarrow> create_op az u w nm d = (Inl e, d') \<Longrightarrow> d' = d"
    and create_law: "ok d \<Longrightarrow> create_op az u w nm d = (Inr p, d') \<Longrightarrow>
      ok d' \<and> ctx d' v w' = ctx d v w' \<and> pj_name p = nm \<and> pj_workspace_id p = w
      \<and> pj_status p = ProjectStatus.ACTIVE \<and> (\<forall>q. q \<in> set (items d' w) \<longleftrightarrow> q = p \<or> q \<in> set (items d w))"
begin

lemma list_projects_eq:
  assumes "ok d" "1 \<le> n" "n \<le> 100"
  shows "list_projects list_op u w c (int n) d = (case ctx d u w of
      None \<Rightarrow> Inl ProjectWorkspaceNotFoundError
    | Some x \<Rightarrow> Inr \<lparr>pp_items = fst (page_spec project_key (items d w) c n),
                     pp_next_cursor = snd (page_spec project_key (items d w) c n)\<rparr>)"
  using assms
  by (simp add: list_projects_def validate_project_page_limit_def MAX_PROJECT_PAGE_LIMIT_def list_law
      authorize_project_read_def split: option.split)

lemma get_project_eq:
  assumes "ok d"
  shows "get_project get_op u w p d = (case ctx d u w of
      None \<Rightarrow> Inl ProjectWorkspaceNotFoundError
    | Some x \<Rightarrow> (case find (\<lambda>q. pj_project_id q = p) (items d w) of
        None \<Rightarrow> Inl ProjectNotFoundError | Some q \<Rightarrow> Inr q))"
  using assms by (simp add: get_project_def get_law authorize_project_read_def split: option.split)

lemma create_project_failure_atomic:
  assumes "ok d" "create_project create_op u w name d = (Inl e, d')"
  shows "d' = d"
  using assms create_fail_law by (auto simp: create_project_def split: sum.splits)

lemma create_project_success:
  assumes "ok d" "create_project create_op u w name d = (Inr p, d')"
  obtains x where "ctx d u w = Some x" "can_create_project (pc_role x)"
    "workspace_allows_project_creation (pc_status x)" "normalize_project_name name = Inr (pj_name p)"
proof -
  obtain n where n: "normalize_project_name name = Inr n"
    and c: "create_op authorize_project_creation u w n d = (Inr p, d')"
    using assms(2) by (auto simp: create_project_def split: sum.splits)
  obtain x where x: "ctx d u w = Some x"
    using create_hidden_law[OF assms(1), of u w] c by (cases "ctx d u w") auto
  have "authorize_project_creation x = Inr ()"
    using create_denied_law[OF assms(1) x] c by (cases "authorize_project_creation x") auto
  then have "can_create_project (pc_role x)" "workspace_allows_project_creation (pc_status x)"
    by (auto simp: authorize_project_creation_def split: if_splits)
  then show thesis using that x n create_law[OF assms(1) c] by auto
qed

lemma created_project_is_readable:
  assumes "ok d" "create_project create_op u w name d = (Inr p, d')" "ctx d v w = Some y"
  shows "get_project get_op v w (pj_project_id p) d' = Inr p"
proof -
  obtain n where c: "create_op authorize_project_creation u w n d = (Inr p, d')"
    using assms(2) by (auto simp: create_project_def split: sum.splits)
  note l = create_law[OF assms(1) c]
  then have ok': "ok d'" and p: "p \<in> set (items d' w)" and x: "ctx d' v w = Some y"
    using assms(3) by auto
  have "find (\<lambda>q. pj_project_id q = pj_project_id p) (items d' w) = Some p"
    using find_key_member[of p _ pj_project_id] p items_law[OF ok'] by blast
  then show ?thesis using ok' x by (simp add: get_project_eq)
qed

end

subsection \<open>The SQL repository meets the contract\<close>

definition context_of :: "workspace_row \<times> membership_row \<Rightarrow> ProjectWorkspaceContext" where
  "context_of wm = (case wm of (w, m) \<Rightarrow>
     \<lparr>pc_workspace_id = ws_id w, pc_status = projr (ProjectWorkspaceStatus_of (ws_status w)),
      pc_role = projr (ProjectAuthorizationRole_of (m_role m))\<rparr>)"

definition project_of :: "project_row \<Rightarrow> Project" where
  "project_of p = \<lparr>pj_project_id = p_id p, pj_workspace_id = p_workspace_id p, pj_name = p_name p,
     pj_status = projr (ProjectStatus_of (p_status p)), pj_created_at = p_created_at p,
     pj_updated_at = p_updated_at p, pj_archived_at = p_archived_at p\<rparr>"

definition project_context :: "db \<Rightarrow> uuid \<Rightarrow> uuid \<Rightarrow> ProjectWorkspaceContext option" where
  "project_context d user_id workspace_id =
     (case member_rows d user_id workspace_id of [] \<Rightarrow> None | wm # _ \<Rightarrow> Some (context_of wm))"

definition workspace_project_rows :: "db \<Rightarrow> uuid \<Rightarrow> project_row list" where
  "workspace_project_rows d w =
     order_desc project_row_key (filter (\<lambda>p. p_workspace_id p = w) (projects d))"

definition workspace_projects :: "db \<Rightarrow> uuid \<Rightarrow> Project list" where
  "workspace_projects d w = map project_of (workspace_project_rows d w)"

lemma project_key_of [simp]: "project_key (project_of p) = project_row_key p"
  by (simp add: project_of_def project_row_key_def)

lemma project_from_list_row_ok:
  assumes "schema_ok d" "p \<in> set (projects d)"
  shows "project_from_list_row (project_list_row (wm, Some p)) = Inr (project_of p)"
proof -
  obtain st where "ProjectStatus_of (p_status p) = Inr st"
    using assms ProjectStatus_checked by (fastforce simp: schema_ok_def projects_ok_def)
  then show ?thesis
    by (cases wm) (simp add: project_from_list_row_def project_list_row_def row_get_def project_of_def)
qed

lemma project_context_from_row_ok:
  assumes "schema_ok d" "is_member_row d u w ws m"
  shows "project_context_from_row (project_list_row ((ws, m), p)) = Inr (context_of (ws, m))"
    and "project_context_from_row [(''workspace_id'', PUuid (ws_id ws)),
      (''workspace_status'', PStr (ws_status ws)), (''membership_role'', PStr (m_role m))]
      = Inr (context_of (ws, m))"
proof -
  note c = member_row_checks[OF assms]
  obtain st where "ProjectWorkspaceStatus_of (ws_status ws) = Inr st"
    using ProjectWorkspaceStatus_checked[OF c(2)] by blast
  moreover obtain r where "ProjectAuthorizationRole_of (m_role m) = Inr r"
    using ProjectAuthorizationRole_checked[OF c(1)] by blast
  ultimately show "project_context_from_row (project_list_row ((ws, m), p)) = Inr (context_of (ws, m))"
    and "project_context_from_row [(''workspace_id'', PUuid (ws_id ws)),
      (''workspace_status'', PStr (ws_status ws)), (''membership_role'', PStr (m_role m))]
      = Inr (context_of (ws, m))"
    by (simp_all add: project_context_from_row_def project_list_row_def row_get_def context_of_def)
qed

lemma descending_workspace_project_rows:
  assumes "schema_ok d"
  shows "descending project_row_key (workspace_project_rows d w)"
proof -
  have "distinct (map p_id (filter (\<lambda>p. p_workspace_id p = w) (projects d)))"
    using assms by (simp add: schema_ok_def projects_ok_def distinct_map_filter)
  then have "distinct (map project_row_key (filter (\<lambda>p. p_workspace_id p = w) (projects d)))"
    by (auto simp: distinct_map inj_on_def project_row_key_def)
  then show ?thesis unfolding workspace_project_rows_def by (rule descending_order_desc)
qed

lemma lateral_rows:
  "order_desc project_row_key
     (filter (\<lambda>p. p_workspace_id p = w \<and> below c (project_row_key p)) (projects d))
   = filter (\<lambda>p. below c (project_row_key p)) (workspace_project_rows d w)"
  by (simp add: workspace_project_rows_def filter_order_desc filter_filter conj_commute)

lemma sql_list_projects_rows:
  assumes "schema_ok d" "is_member_row d u w ws m"
  shows "sql_list_projects_for_user u w c n d = map project_list_row (left_join (ws, m)
    (take (nat n) (filter (\<lambda>p. below c (project_row_key p)) (workspace_project_rows d w))))"
proof -
  let ?ys = "take (nat n) (filter (\<lambda>p. below c (project_row_key p)) (workspace_project_rows d w))"
  have "descending project_row_key ?ys"
    by (intro descending_take descending_filter descending_workspace_project_rows[OF assms(1)])
  from order_left_join[OF this, of "(ws, m)"] show ?thesis
    using member_rows_eq[OF assms] assms(2)
    by (simp add: sql_list_projects_for_user_def lateral_rows is_member_row_def)
qed

lemma left_join_items:
  "filter (\<lambda>r. map_of r ''project_id'' \<noteq> Some PNone) (map project_list_row (left_join a ys)) =
    map (\<lambda>p. project_list_row (a, Some p)) ys"
  by (cases a) (auto simp: left_join_def project_list_row_def filter_map comp_def)

lemma hd_left_join: "\<exists>p. hd (map project_list_row (left_join a ys)) = project_list_row (a, p)"
  by (cases ys) (auto simp: left_join_def)

lemma project_context_member:
  assumes "schema_ok d"
  shows "project_context d u w = Some x \<longleftrightarrow> (\<exists>ws m. is_member_row d u w ws m \<and> x = context_of (ws, m))"
proof (cases "member_rows d u w = []")
  case True
  then have "project_context d u w = None" by (simp add: project_context_def)
  then show ?thesis using not_member_row[OF True] by simp
next
  case False
  then obtain ws m where r: "member_rows d u w = [(ws, m)]" and mem: "is_member_row d u w ws m"
    using member_rows_cases[OF assms, of u w] by auto
  have "(ws', m') = (ws, m)" if "is_member_row d u w ws' m'" for ws' m'
    using member_rows_eq[OF assms that] r by simp
  moreover have "project_context d u w = Some (context_of (ws, m))"
    using r by (simp add: project_context_def)
  ultimately show ?thesis using mem by (metis option.inject)
qed

lemma list_projects_for_user_eq:
  assumes "schema_ok d" "0 < n"
  shows "repo_list_projects_for_user u w c (int n) d = Inr (case project_context d u w of
        None \<Rightarrow> \<lparr>pl_context = None, pl_page = \<lparr>pp_items = [], pp_next_cursor = None\<rparr>\<rparr>
      | Some x \<Rightarrow> \<lparr>pl_context = Some x, pl_page =
          \<lparr>pp_items = fst (page_spec project_key (workspace_projects d w) c n),
           pp_next_cursor = snd (page_spec project_key (workspace_projects d w) c n)\<rparr>\<rparr>)"
proof (cases "member_rows d u w = []")
  case True
  then show ?thesis
    by (simp add: repo_list_projects_for_user_def sql_list_projects_for_user_def project_context_def
        order_desc_def)
next
  case False
  then obtain ws m where mem: "is_member_row d u w ws m" and r: "member_rows d u w = [(ws, m)]"
    using member_rows_cases[OF assms(1), of u w] by auto
  let ?ys = "take (nat (int n + 1)) (filter (\<lambda>p. below c (project_row_key p)) (workspace_project_rows d w))"
  let ?rows = "map project_list_row (left_join (ws, m) ?ys)"
  have ne: "?rows \<noteq> []" by (simp add: left_join_def)
  obtain p where hd: "hd ?rows = project_list_row ((ws, m), p)" using hd_left_join[of "(ws, m)" ?ys] by auto
  have sub: "p \<in> set (projects d)" if "p \<in> set ?ys" for p
    using in_set_takeD[OF that] by (simp add: workspace_project_rows_def)
  have conv: "map_res project_from_list_row (map (\<lambda>p. project_list_row ((ws, m), Some p)) ?ys)
      = Inr (map project_of ?ys)"
    unfolding map_res_map by (rule map_res_Inr_map) (rule project_from_list_row_ok[OF assms(1) sub])
  have "map project_of ?ys = take (n + 1) (filter (\<lambda>p. below c (project_key p)) (workspace_projects d w))"
    by (simp add: workspace_projects_def filter_map comp_def take_map nat_add_distrib)
  from page_of_fetched[OF assms(2) this] show ?thesis
    using ne by (simp add: repo_list_projects_for_user_def sql_list_projects_rows[OF assms(1) mem] hd
        project_context_from_row_ok[OF assms(1) mem] left_join_items conv Let_def project_context_def r
        prod_eq_iff del: map_is_Nil_conv)
qed

lemma get_project_for_user_eq:
  assumes "schema_ok d"
  shows "repo_get_project_for_user u w pid d = Inr (case project_context d u w of
        None \<Rightarrow> \<lparr>pk_context = None, pk_project = None\<rparr>
      | Some x \<Rightarrow> \<lparr>pk_context = Some x,
          pk_project = find (\<lambda>q. pj_project_id q = pid) (workspace_projects d w)\<rparr>)"
proof (cases "member_rows d u w = []")
  case True
  then show ?thesis
    by (simp add: repo_get_project_for_user_def sql_get_project_for_user_def project_context_def)
next
  case False
  then obtain ws m where mem: "is_member_row d u w ws m" and r: "member_rows d u w = [(ws, m)]"
    using member_rows_cases[OF assms, of u w] by auto
  let ?L = "filter (\<lambda>p. p_workspace_id p = w \<and> p_id p = pid) (projects d)"
  have rows: "sql_get_project_for_user u w pid d = map project_list_row (left_join (ws, m) ?L)"
    using mem r by (simp add: sql_get_project_for_user_def is_member_row_def)
  have find: "find (\<lambda>q. pj_project_id q = pid) (workspace_projects d w) = map_option project_of
      (find (\<lambda>p. p_id p = pid) (workspace_project_rows d w))"
    by (simp add: workspace_projects_def find_map project_of_def)
  have filt: "filter (\<lambda>p. p_id p = pid) (workspace_project_rows d w) = order_desc project_row_key ?L"
    by (simp add: workspace_project_rows_def filter_order_desc filter_filter conj_commute)
  have "distinct (map p_id (filter (\<lambda>p. p_workspace_id p = w) (projects d)))"
    using assms by (simp add: schema_ok_def projects_ok_def distinct_map_filter)
  from filter_key_cases[OF this, of pid]
  consider "?L = []" | p where "p \<in> set (projects d)" "?L = [p]"
    by (auto simp: filter_filter conj_commute)
  then show ?thesis
  proof cases
    case 1
    then have "find (\<lambda>p. p_id p = pid) (workspace_project_rows d w) = None"
      using filt by (simp add: find_filter order_desc_def)
    then show ?thesis using 1 find project_context_from_row_ok[OF assms mem]
      by (simp add: repo_get_project_for_user_def rows left_join_def r project_context_def)
        (simp add: project_list_row_def row_get_def)
  next
    case 2
    then have "filter (\<lambda>p. p_id p = pid) (workspace_project_rows d w) = [p]"
      using filt by (simp add: order_desc_def)
    then have f: "find (\<lambda>p. p_id p = pid) (workspace_project_rows d w) = Some p"
      by (simp add: find_filter)
    have "row_get (project_list_row ((ws, m), Some p)) ''project_id'' = Inr (PUuid (p_id p))"
      by (simp add: project_list_row_def row_get_def)
    then show ?thesis using 2 f find project_context_from_row_ok[OF assms mem]
        project_from_list_row_ok[OF assms 2(1)]
      by (simp add: repo_get_project_for_user_def rows left_join_def r project_context_def)
  qed
qed

text \<open>Creation: the state it leaves and the complete case distinction of its outcome.\<close>

definition project_created ::
  "timestamp \<Rightarrow> uuid \<Rightarrow> uuid \<Rightarrow> uuid \<Rightarrow> uuid \<Rightarrow> string option \<Rightarrow> uuid \<Rightarrow> uuid \<Rightarrow> string \<Rightarrow>
     ProjectAuthorizationRole \<Rightarrow> db \<Rightarrow> db" where
  "project_created now pid aid sid rid tid u w n role d =
     d\<lparr>projects := projects d @ [\<lparr>p_id = pid, p_workspace_id = w, p_name = n, p_status = ''ACTIVE'',
          p_created_at = now, p_updated_at = now, p_archived_at = None\<rparr>],
       audit_events := audit_events d @ [\<lparr>au_id = aid, au_workspace_id = Some w,
          au_project_id = Some pid, au_scope = ''TENANT'', au_actor_type = ''USER'',
          au_actor_user_id = Some u, au_actor_role_snapshot = Some (ProjectAuthorizationRole_value role),
          au_effective_user_id = Some u, au_action = ''PROJECT_CREATED'',
          au_outcome = ''SUCCEEDED'', au_resource_type = ''PROJECT'', au_resource_id = Some pid,
          au_resource_display_snapshot = Some n, au_before_json = None,
          au_after_json = Some [(''name'', JStr n), (''status'', JStr ''ACTIVE'')],
          au_change_json = None, au_request_id = Some (uuid_str rid), au_trace_id = tid,
          au_session_id = Some (uuid_str sid), au_surface = ''PUBLIC_API'', au_created_at = now\<rparr>]\<rparr>"

definition new_project :: "timestamp \<Rightarrow> uuid \<Rightarrow> uuid \<Rightarrow> string \<Rightarrow> Project" where
  "new_project now pid w n = \<lparr>pj_project_id = pid, pj_workspace_id = w, pj_name = n,
     pj_status = ProjectStatus.ACTIVE, pj_created_at = now, pj_updated_at = now, pj_archived_at = None\<rparr>"

lemma project_insert_row_ok:
  "project_from_insert_row [(''id'', PUuid pid), (''workspace_id'', PUuid w), (''name'', PStr n),
     (''status'', PStr ''ACTIVE''), (''created_at'', PDatetime now), (''updated_at'', PDatetime now),
     (''archived_at'', PNone)] = Inr (new_project now pid w n)"
  by (simp add: project_from_insert_row_def row_get_def ProjectStatus_of_def new_project_def
      optional_datetime_value_def)

lemma repo_create_project_eq:
  assumes "schema_ok d"
  shows "repo_create_project now pid aid sid rid tid az u w n d =
    (case project_context d u w of
       None \<Rightarrow> (Inl ProjectWorkspaceNotFoundError, d)
     | Some x \<Rightarrow> (case az x of
         Inl e \<Rightarrow> (Inl e, d)
       | Inr _ \<Rightarrow>
           if pid \<in> set (map p_id (projects d)) then (Inl (IntegrityError ''projects_pkey''), d)
           else if aid \<in> set (map au_id (audit_events d)) then (Inl (IntegrityError ''audit_events_pkey''), d)
           else (Inr (new_project now pid w n), project_created now pid aid sid rid tid u w n (pc_role x) d)))"
proof (cases "member_rows d u w = []")
  case True
  then show ?thesis
    by (simp add: repo_create_project_def begin_tx_def bind_tx_def sql_lock_project_creation_context_def
        project_context_def)
next
  case False
  then obtain ws m where mem: "is_member_row d u w ws m" and r: "member_rows d u w = [(ws, m)]"
    using member_rows_cases[OF assms, of u w] by auto
  note conv = project_context_from_row_ok(2)[OF assms mem]
  have ctx: "project_context d u w = Some (context_of (ws, m))" using r by (simp add: project_context_def)
  have w: "w \<in> ws_id ` set (workspaces d)" using mem by (auto simp: is_member_row_def)
  show ?thesis
  proof (cases "az (context_of (ws, m))")
    case (Inl e)
    then show ?thesis
      by (simp add: repo_create_project_def begin_tx_def bind_tx_def r conv ctx
          sql_lock_project_creation_context_def)
  next
    case (Inr y)
    then show ?thesis using w
      by (simp add: repo_create_project_def begin_tx_def bind_tx_def r conv ctx
          sql_lock_project_creation_context_def sql_insert_project_def insert_projects_def
          workspace_statuses_def sql_insert_project_audit_def insert_audit_events_def
          project_insert_row_ok project_created_def)
  qed
qed

lemma project_created_schema:
  assumes "schema_ok d" "w \<in> set (map ws_id (workspaces d))" "pid \<notin> set (map p_id (projects d))"
    "aid \<notin> set (map au_id (audit_events d))"
  shows "schema_ok (project_created now pid aid sid rid tid u w n role d)"
  using assms
  by (auto simp: schema_ok_def table_ok_defs project_created_def workspace_statuses_def)

lemma project_context_created [simp]:
  "project_context (project_created now pid aid sid rid tid u w n role d) v w' = project_context d v w'"
  by (simp add: project_context_def project_created_def)

lemma workspace_projects_created:
  "q \<in> set (workspace_projects (project_created now pid aid sid rid tid u w n role d) w) \<longleftrightarrow>
     q = new_project now pid w n \<or> q \<in> set (workspace_projects d w)"
  by (auto simp: workspace_projects_def workspace_project_rows_def project_created_def project_of_def
      new_project_def ProjectStatus_of_def)

lemma workspace_projects_law:
  assumes "schema_ok d"
  shows "descending project_key (workspace_projects d w)
    \<and> distinct (map pj_project_id (workspace_projects d w))
    \<and> (\<forall>p \<in> set (workspace_projects d w). pj_workspace_id p = w)"
proof (intro conjI)
  show "descending project_key (workspace_projects d w)"
    using descending_workspace_project_rows[OF assms]
    by (simp add: workspace_projects_def descending_map)
  have "distinct (map p_id (filter (\<lambda>p. p_workspace_id p = w) (projects d)))"
    using assms by (simp add: schema_ok_def projects_ok_def distinct_map_filter)
  then show "distinct (map pj_project_id (workspace_projects d w))"
    by (simp add: workspace_projects_def workspace_project_rows_def comp_def project_of_def
        order_desc_def rev_map[symmetric] distinct_map_sort_key)
  show "\<forall>p \<in> set (workspace_projects d w). pj_workspace_id p = w"
    by (auto simp: workspace_projects_def workspace_project_rows_def project_of_def)
qed

lemma repo_create_project_Inr:
  assumes "schema_ok d" "repo_create_project now pid aid sid rid tid az u w n d = (Inr p, d')"
  obtains x where "project_context d u w = Some x" "az x = Inr ()" "p = new_project now pid w n"
    "d' = project_created now pid aid sid rid tid u w n (pc_role x) d" "schema_ok d'"
proof -
  obtain x where x: "project_context d u w = Some x"
    using assms repo_create_project_eq by (cases "project_context d u w") auto
  obtain ws m where "is_member_row d u w ws m" using x project_context_member[OF assms(1)] by auto
  then have w: "w \<in> set (map ws_id (workspaces d))" by (auto simp: is_member_row_def)
  obtain y where "az x = Inr y" using assms x repo_create_project_eq by (cases "az x") auto
  moreover have "pid \<notin> set (map p_id (projects d))" "aid \<notin> set (map au_id (audit_events d))"
    "p = new_project now pid w n" "d' = project_created now pid aid sid rid tid u w n (pc_role x) d"
    using assms(2) repo_create_project_eq[OF assms(1), of now pid aid sid rid tid az u w n] x calculation
    by (auto split: if_splits)
  ultimately show thesis using that x project_created_schema[OF assms(1) w] by auto
qed

interpretation sql_projects: project_repository schema_ok project_context workspace_projects
    "repo_create_project now pid aid sid rid tid"
    repo_list_projects_for_user repo_get_project_for_user
  for now :: timestamp and pid aid sid rid :: uuid and tid :: "string option"
proof unfold_locales
  fix d u w c n
  assume s: "schema_ok d"
  show "descending project_key (workspace_projects d w) \<and> distinct (map pj_project_id (workspace_projects d w))
      \<and> (\<forall>p \<in> set (workspace_projects d w). pj_workspace_id p = w)"
    by (rule workspace_projects_law[OF s])
next
  fix d :: db and az u w n x and e :: exn
  assume s: "schema_ok d"
  show "project_context d u w = None \<Longrightarrow>
      repo_create_project now pid aid sid rid tid az u w n d = (Inl ProjectWorkspaceNotFoundError, d)"
    by (simp add: repo_create_project_eq[OF s])
  show "project_context d u w = Some x \<Longrightarrow> az x = Inl e \<Longrightarrow>
      repo_create_project now pid aid sid rid tid az u w n d = (Inl e, d)"
    by (simp add: repo_create_project_eq[OF s])
next
  fix d d' :: db and az u w n and e :: exn
  assume "schema_ok d" "repo_create_project now pid aid sid rid tid az u w n d = (Inl e, d')"
  then show "d' = d"
    by (auto simp: repo_create_project_eq split: option.splits sum.splits if_splits)
next
  fix d d' :: db and az u w n p v w'
  assume s: "schema_ok d" "repo_create_project now pid aid sid rid tid az u w n d = (Inr p, d')"
  from repo_create_project_Inr[OF this] show "schema_ok d' \<and> project_context d' v w' = project_context d v w'
      \<and> pj_name p = n \<and> pj_workspace_id p = w \<and> pj_status p = ProjectStatus.ACTIVE
      \<and> (\<forall>q. q \<in> set (workspace_projects d' w) \<longleftrightarrow> q = p \<or> q \<in> set (workspace_projects d w))"
    by (metis (no_types, lifting) Project.select_convs(2-4) new_project_def project_context_created
        workspace_projects_created)
qed (simp_all add: list_projects_for_user_eq get_project_for_user_eq)

text \<open>
  The listing as a paged source: one page of the service as the client sees it, for the query
  \<open>(d, u, w)\<close> of a member \<open>u\<close> of Workspace \<open>w\<close>.
\<close>

definition project_page_of ::
  "db \<times> uuid \<times> uuid \<Rightarrow> ProjectPageCursor option \<Rightarrow> nat \<Rightarrow> Project list \<times> ProjectPageCursor option" where
  "project_page_of q cursor n = (case q of (d, u, w) \<Rightarrow>
     case list_projects repo_list_projects_for_user u w cursor (int n) d of
       Inl _ \<Rightarrow> ([], None) | Inr page \<Rightarrow> (pp_items page, pp_next_cursor page))"

interpretation project_pages: keyset_pages project_key 100
    "\<lambda>(d, u, w). schema_ok d \<and> project_context d u w \<noteq> None"
    "\<lambda>(d, u, w). workspace_projects d w" project_page_of
  by unfold_locales
    (auto simp: workspace_projects_law project_page_of_def sql_projects.list_projects_eq)

subsection \<open>Properties\<close>

text \<open>
  Following the cursors of the Project listing, with any page size the policy admits,
  returns every Project of the Workspace exactly once, newest first, within as many requests
  as there are Projects plus one.
\<close>

theorem project_listing_complete:
  assumes "schema_ok d" "project_context d u w = Some x" "1 \<le> n" "n \<le> 100"
    "length (workspace_projects d w) < fuel"
  shows "follow (project_page_of (d, u, w)) fuel None n = Some (workspace_projects d w)"
  using project_pages.follow_all[of "(d, u, w)" n fuel] assms by simp

lemma sample_project_context:
  "project_context sample_db 1 10 = Some \<lparr>pc_workspace_id = 10,
     pc_status = ProjectWorkspaceStatus.ACTIVE, pc_role = ProjectAuthorizationRole.OWNER\<rparr>"
  "project_context sample_db 2 10 = Some \<lparr>pc_workspace_id = 10,
     pc_status = ProjectWorkspaceStatus.ACTIVE, pc_role = ProjectAuthorizationRole.VIEWER\<rparr>"
  "project_context sample_db 3 10 = None"
  by (simp_all add: project_context_def membership_join_def sample_db_def context_of_def
      ProjectWorkspaceStatus_of_def ProjectAuthorizationRole_of_def)

lemma sample_projects: "map pj_project_id (workspace_projects sample_db 10) = [22, 21, 20]"
  by (simp add: workspace_projects_def workspace_project_rows_def sample_db_def order_desc_def
      project_row_key_def less_eq_ProjectPageCursor_def project_of_def)

theorem project_listing_complete_witness:
  "map_option (map pj_project_id) (follow (project_page_of (sample_db, 1, 10)) 4 None 2) = Some [22, 21, 20]"
proof -
  have "length (workspace_projects sample_db 10) = 3"
    using arg_cong[OF sample_projects, of length] by simp
  then show ?thesis
    using project_listing_complete[OF sample_db_schema sample_project_context(1), of 2 4]
    by (simp add: sample_projects)
qed



text \<open>
  Existence hiding and tenant isolation of the reads: without an active membership both
  reads answer "workspace not found" whatever the tables hold; a member reads only Projects
  of that Workspace, and the id of another Workspace's Project is "project not found".
\<close>

theorem project_reads_isolated:
  assumes "schema_ok d" "1 \<le> n" "n \<le> 100"
  shows "(project_context d u w = None \<longrightarrow>
      list_projects repo_list_projects_for_user u w c (int n) d = Inl ProjectWorkspaceNotFoundError
      \<and> get_project repo_get_project_for_user u w p d = Inl ProjectWorkspaceNotFoundError)
    \<and> (\<forall>q. get_project repo_get_project_for_user u w p d = Inr q \<longrightarrow>
        pj_workspace_id q = w \<and> pj_project_id q = p \<and> project_context d u w \<noteq> None)
    \<and> (\<forall>r \<in> set (projects d). p_id r = p \<longrightarrow> p_workspace_id r \<noteq> w \<longrightarrow> project_context d u w \<noteq> None \<longrightarrow>
        get_project repo_get_project_for_user u w p d = Inl ProjectNotFoundError)"
proof (intro conjI impI allI ballI)
  fix q assume "get_project repo_get_project_for_user u w p d = Inr q"
  then have "project_context d u w \<noteq> None \<and> find (\<lambda>q. pj_project_id q = p) (workspace_projects d w) = Some q"
    by (auto simp: sql_projects.get_project_eq[OF assms(1)] split: option.splits)
  then show "pj_workspace_id q = w" "pj_project_id q = p" "project_context d u w \<noteq> None"
    using workspace_projects_law[OF assms(1)] by (auto simp: find_Some_iff)
next
  fix r assume r: "r \<in> set (projects d)" "p_id r = p" "p_workspace_id r \<noteq> w"
    and x: "project_context d u w \<noteq> None"
  have "r' = r" if "r' \<in> set (projects d)" "p_id r' = p" for r'
    using assms(1) distinct_key_unique[of p_id "projects d" r' r] r that
    by (simp add: schema_ok_def projects_ok_def)
  then have "find (\<lambda>q. pj_project_id q = p) (workspace_projects d w) = None"
    using r(3) by (auto simp: find_None_iff workspace_projects_def workspace_project_rows_def project_of_def)
  then show "get_project repo_get_project_for_user u w p d = Inl ProjectNotFoundError"
    using x by (auto simp: sql_projects.get_project_eq[OF assms(1)])
qed (use assms in \<open>simp_all add: sql_projects.list_projects_eq sql_projects.get_project_eq\<close>)

theorem project_reads_isolated_witness:
  "get_project repo_get_project_for_user 3 10 20 sample_db = Inl ProjectWorkspaceNotFoundError
   \<and> get_project repo_get_project_for_user 1 10 23 sample_db = Inl ProjectNotFoundError"
  using project_reads_isolated[OF sample_db_schema, of 1 3 10 None 20]
    project_reads_isolated[OF sample_db_schema, of 1 1 10 None 23]
  by (simp add: sample_project_context) (simp add: sample_db_def)

text \<open>
  A created Project is at once readable, unchanged, by every member of its Workspace.
\<close>

theorem created_project_readable:
  assumes "schema_ok d" "project_context d v w = Some y"
    "create_project (repo_create_project now pid aid sid rid tid) u w name d = (Inr p, d')"
  shows "get_project repo_get_project_for_user v w (pj_project_id p) d' = Inr p \<and> schema_ok d'"
proof
  show "get_project repo_get_project_for_user v w (pj_project_id p) d' = Inr p"
    by (rule sql_projects.created_project_is_readable[OF assms(1,3,2)])
  show "schema_ok d'"
    using assms(3)
    by (auto simp: create_project_def split: sum.splits elim: repo_create_project_Inr[OF assms(1)])
qed

theorem created_project_readable_witness:
  "\<exists>p d'. create_project (repo_create_project 9 24 400 200 5 None) 1 10 ''New'' sample_db = (Inr p, d')
     \<and> get_project repo_get_project_for_user 2 10 24 d' = Inr p"
proof -
  let ?c = "create_project (repo_create_project 9 24 400 200 5 None) 1 10 ''New'' sample_db"
  let ?p = "new_project 9 24 10 ''New''"
  have "fst ?c = Inr ?p"
    by (simp add: create_project_def repo_create_project_eq[OF sample_db_schema] sample_project_context
        normalize_project_name_def strip_def is_space_def MAX_PROJECT_NAME_LENGTH_def
        authorize_project_creation_def can_create_project_iff workspace_allows_project_creation_def)
      (simp add: sample_db_def)
  then obtain d' where c: "?c = (Inr ?p, d')" by (metis prod.collapse)
  from created_project_readable[OF sample_db_schema sample_project_context(2) c] c
  show ?thesis by (auto simp: new_project_def)
qed

end
