(* ===== verification/RowLocks.thy ===== *)
theory RowLocks
  imports Prelude
begin

section \<open>Concurrent transactions under row locks\<close>

text \<open>
  The mutations of a Workspace run as transactions of several statements, at READ COMMITTED, side by side. Each begins with
  \<open>SELECT ... FOR UPDATE\<close> on the row of its Workspace. This theory is about such transactions over any state: a program is
  a tree of statements, a system a committed state with the transactions that are open, and the theorem of the locale
  \<open>row_locked\<close> says that what the calls return and commit is what they return and commit one after the other.

  A statement reads the transaction's view, which is the committed state of that moment with the transaction's own writes
  on top. So the writes are kept as a function on states. Writes that the committed state does not bear any more
  (a row with the same unique key was committed) are an exception; PostgreSQL lets the second writer of a key wait, here
  the commit of the first waits, or one of the two is rolled back (\<open>Lost\<close>).
\<close>

subsection \<open>Programs\<close>

text \<open>
  A statement on a view raises, or gives the row lock it took, what it writes (as a function, applied again on every
  later view) and the rest of the program.
\<close>

datatype ('k, 's, 'a) prog =
    Ret "exn + 'a"
  | Stmt "'s \<Rightarrow> exn + 'k option \<times> ('s \<Rightarrow> exn + 's) \<times> ('k, 's, 'a) prog"

primrec bind_prog :: "('k, 's, 'a) prog \<Rightarrow> ('a \<Rightarrow> ('k, 's, 'b) prog) \<Rightarrow> ('k, 's, 'b) prog" where
  "bind_prog (Ret r) g = (case r of Inl e \<Rightarrow> Ret (Inl e) | Inr a \<Rightarrow> g a)"
| "bind_prog (Stmt f) g = Stmt (map_sum id (map_prod id (map_prod id (\<lambda>p. bind_prog p g))) \<circ> f)"

primrec run :: "('k, 's, 'a) prog \<Rightarrow> ('s, 'a) tx" where
  "run (Ret r) = lift_tx r"
| "run (Stmt f) = (\<lambda>v. case (map_sum id (map_prod id (map_prod id run)) \<circ> f) v of
     Inl e \<Rightarrow> Inl e | Inr (_, writes, rest) \<Rightarrow> (case writes v of Inl e \<Rightarrow> Inl e | Inr v' \<Rightarrow> rest v'))"

definition stmt :: "('s, 'a) tx \<Rightarrow> ('k, 's, 'a) prog" where
  "stmt s = Stmt (\<lambda>v. case s v of Inl e \<Rightarrow> Inl e | Inr (a, _) \<Rightarrow> Inr (None, \<lambda>u. map_sum id snd (s u), Ret (Inr a)))"

text \<open>\<open>SELECT ... FOR UPDATE\<close> of one row: it is locked when there is one.\<close>

definition lock_stmt :: "'k \<Rightarrow> ('s \<Rightarrow> 'r list) \<Rightarrow> ('k, 's, 'r list) prog" where
  "lock_stmt k q = Stmt (\<lambda>v. Inr (if q v = [] then None else Some k, Inr, Ret (Inr (q v))))"

lemma run_stmt [simp]: "run (stmt s) = s"
  by (rule ext) (simp add: stmt_def split: sum.split prod.split)

lemma run_lock_stmt [simp]: "run (lock_stmt k q) = query_tx q"
  by (rule ext) (simp add: lock_stmt_def)

lemma prog_induct [case_names Ret Stmt]:
  assumes "\<And>r. P (Ret r)" "\<And>f. (\<And>v l w p. f v = Inr (l, w, p) \<Longrightarrow> P p) \<Longrightarrow> P (Stmt f)"
  shows "P p"
proof (induction p)
  case (Stmt f)
  have "P p" if "f v = Inr (l, w, p)" for v l w p
    using Stmt.IH[of "f v" "(l, w, p)" "(w, p)" p] rangeI[of f v] by (simp add: that)
  then show ?case by (rule assms(2))
qed (rule assms(1))

lemma run_bind [simp]: "run (bind_prog p g) = bind_tx (run p) (\<lambda>a. run (g a))"
proof (induction p rule: prog_induct)
  case (Ret r)
  then show ?case by (cases r) (auto simp: bind_tx_def)
next
  case (Stmt f)
  have "run (bind_prog (Stmt f) g) v = bind_tx (run (Stmt f)) (\<lambda>a. run (g a)) v" for v
    using Stmt[of v] by (cases "f v") (auto simp: bind_tx_def split: sum.split)
  then show ?case by blast
qed

lemma bind_prog_assoc: "bind_prog (bind_prog p f) g = bind_prog p (\<lambda>a. bind_prog (f a) g)"
proof (induction p rule: prog_induct)
  case (Ret r)
  then show ?case by (cases r) auto
next
  case (Stmt h)
  have "(map_sum id (map_prod id (map_prod id (\<lambda>p. bind_prog p g))) \<circ> (map_sum id (map_prod id (map_prod id (\<lambda>p. bind_prog p f))) \<circ> h)) v
      = (map_sum id (map_prod id (map_prod id (\<lambda>p. bind_prog p (\<lambda>a. bind_prog (f a) g)))) \<circ> h) v" for v
    using Stmt[of v] by (cases "h v") auto
  then show ?case unfolding bind_prog.simps prog.inject by blast
qed

subsection \<open>Confinement\<close>

text \<open>
  \<open>part k d\<close> is what belongs to \<open>k\<close> in the state. A program is confined to \<open>k\<close> from a view on when, on every view with the
  same part, its statements read that part only and write that part only, and take no lock but that of \<open>k\<close>. It is
  \<open>locked\<close> when its first statement locks \<open>k\<close>, or ends it, and the rest is confined.
\<close>

inductive confined :: "('s \<Rightarrow> bool) \<Rightarrow> ('k \<Rightarrow> 's \<Rightarrow> 'p) \<Rightarrow> 'k \<Rightarrow> 's \<Rightarrow> ('k, 's, 'a) prog \<Rightarrow> bool" for ok part k where
  confined_Ret: "confined ok part k v (Ret r)"
| confined_Stmt: "(\<And>v' l w p. ok v' \<Longrightarrow> part k v' = part k v \<Longrightarrow> f v' = Inr (l, w, p) \<Longrightarrow>
     \<exists>v''. w v' = Inr v'' \<and> ok v'' \<and> l \<in> {None, Some k} \<and> confined ok part k v'' p
       \<and> (\<forall>u u'. ok u \<longrightarrow> part k u = part k v' \<longrightarrow> w u = Inr u' \<longrightarrow>
           f u = Inr (l, w, p) \<and> ok u' \<and> part k u' = part k v'' \<and> (\<forall>k'. k' \<noteq> k \<longrightarrow> part k' u' = part k' u))) \<Longrightarrow>
   confined ok part k v (Stmt f)"

inductive_cases confined_StmtE: "confined ok part k v (Stmt f)"

lemma confined_StmtD:
  assumes "confined ok part k v (Stmt f)" "ok v" "f v = Inr (l, w, p)"
  shows "\<exists>v''. w v = Inr v'' \<and> ok v'' \<and> l \<in> {None, Some k} \<and> confined ok part k v'' p
       \<and> (\<forall>u u'. ok u \<longrightarrow> part k u = part k v \<longrightarrow> w u = Inr u' \<longrightarrow>
           f u = Inr (l, w, p) \<and> ok u' \<and> part k u' = part k v'' \<and> (\<forall>k'. k' \<noteq> k \<longrightarrow> part k' u' = part k' u))"
  using assms(1)
proof (cases rule: confined.cases)
  case confined_Stmt
  show ?thesis by (rule confined_Stmt[OF assms(2) refl assms(3)])
qed

definition locked :: "('s \<Rightarrow> bool) \<Rightarrow> ('k \<Rightarrow> 's \<Rightarrow> 'p) \<Rightarrow> 'k \<Rightarrow> ('k, 's, 'a) prog \<Rightarrow> bool" where
  "locked ok part k p \<longleftrightarrow> (\<exists>f. p = Stmt f \<and> (\<forall>v. ok v \<longrightarrow>
     (\<exists>l p'. f v = Inr (l, Inr, p') \<and> ((\<exists>e. p' = Ret (Inl e)) \<or> l = Some k \<and> confined ok part k v p'))
     \<and> (\<forall>u. ok u \<longrightarrow> part k u = part k v \<longrightarrow> f u = f v)))"

lemma confined_part: "confined ok part k v p \<Longrightarrow> part k v' = part k v \<Longrightarrow> confined ok part k v' p"
proof (induction rule: confined.cases)
  case (confined_Ret w r)
  then show ?case by (simp add: confined.confined_Ret)
next
  case (confined_Stmt w f)
  show ?case unfolding confined_Stmt(2)
    by (rule confined.confined_Stmt) (use confined_Stmt in simp)
qed

text \<open>
  A statement between two assertions on the view, which the part decides: \<open>reads_part Q s Q'\<close> says that \<open>s\<close> reads and writes the
  part only where \<open>Q\<close> holds and leaves \<open>Q'\<close>.
\<close>

definition on_part :: "('k \<Rightarrow> 's \<Rightarrow> 'p) \<Rightarrow> 'k \<Rightarrow> ('s \<Rightarrow> bool) \<Rightarrow> bool" where
  "on_part part k Q \<longleftrightarrow> (\<forall>u v. part k u = part k v \<longrightarrow> Q u = Q v)"

definition part_stmt ::
  "('s \<Rightarrow> bool) \<Rightarrow> ('k \<Rightarrow> 's \<Rightarrow> 'p) \<Rightarrow> 'k \<Rightarrow> ('s \<Rightarrow> bool) \<Rightarrow> ('s, 'a) tx \<Rightarrow> ('a \<Rightarrow> 's \<Rightarrow> bool) \<Rightarrow> bool" where
  "part_stmt ok part k Q s Q' \<longleftrightarrow> (\<forall>v a v'. ok v \<longrightarrow> Q v \<longrightarrow> s v = Inr (a, v') \<longrightarrow> ok v' \<and> Q' a v'
     \<and> (\<forall>u b u'. ok u \<longrightarrow> part k u = part k v \<longrightarrow> s u = Inr (b, u') \<longrightarrow>
         b = a \<and> part k u' = part k v' \<and> (\<forall>k'. k' \<noteq> k \<longrightarrow> part k' u' = part k' u)))"

definition confined_on ::
  "('s \<Rightarrow> bool) \<Rightarrow> ('k \<Rightarrow> 's \<Rightarrow> 'p) \<Rightarrow> 'k \<Rightarrow> ('s \<Rightarrow> bool) \<Rightarrow> ('k, 's, 'a) prog \<Rightarrow> bool" where
  "confined_on ok part k Q p \<longleftrightarrow> (\<forall>v. ok v \<longrightarrow> Q v \<longrightarrow> confined ok part k v p)"

lemma confined_on_Ret: "confined_on ok part k Q (Ret r)"
  by (simp add: confined_on_def confined_Ret)

lemma confined_on_lift:
  "(\<And>a. r = Inr a \<Longrightarrow> confined_on ok part k Q (g a)) \<Longrightarrow> confined_on ok part k Q (bind_prog (Ret r) g)"
  by (cases r) (auto simp: confined_on_Ret)

lemma bind_stmt:
  "bind_prog (stmt s) g = Stmt (\<lambda>v. case s v of Inl e \<Rightarrow> Inl e | Inr (a, _) \<Rightarrow> Inr (None, \<lambda>u. map_sum id snd (s u), g a))"
  by (auto simp: stmt_def split: sum.split)

lemma bind_lock_stmt:
  "bind_prog (lock_stmt k q) g = Stmt (\<lambda>v. Inr (if q v = [] then None else Some k, Inr, g (q v)))"
  by (simp add: lock_stmt_def comp_def)

lemma part_stmtD:
  assumes "part_stmt ok part k Q s Q'" "ok v" "Q v" "s v = Inr (a, v')"
  shows "ok v'" "Q' a v'"
    "ok u \<Longrightarrow> part k u = part k v \<Longrightarrow> s u = Inr (b, u') \<Longrightarrow> b = a \<and> part k u' = part k v' \<and> (\<forall>k'. k' \<noteq> k \<longrightarrow> part k' u' = part k' u)"
  using assms unfolding part_stmt_def by blast+

lemma confined_on_stmt:
  fixes k :: 'k
  assumes "part_stmt ok part k Q s Q'" "on_part part k Q" "\<And>a. confined_on ok part k (Q' a) (g a)"
  shows "confined_on ok part k Q (bind_prog (stmt s) g)"
  unfolding confined_on_def bind_stmt
proof (intro allI impI confined_Stmt)
  fix v v' l w p
  let ?f = "\<lambda>v. case s v of Inl e \<Rightarrow> Inl e | Inr (a, _) \<Rightarrow> Inr (None :: 'k option, \<lambda>u. map_sum id snd (s u), g a)"
  assume "ok v" "Q v" and v': "ok v'" "part k v' = part k v" and f: "?f v' = Inr (l, w, p)"
  have same: "Q u" if "part k u = part k v'" for u
    using \<open>Q v\<close> v'(2) that assms(2) unfolding on_part_def by metis
  obtain a v'' where s: "s v' = Inr (a, v'')" and lwp: "l = None" "w = (\<lambda>u. map_sum id snd (s u))" "p = g a"
    using f by (auto split: sum.splits)
  note ps = part_stmtD[OF assms(1) v'(1) same[OF refl] s]
  have "?f u = Inr (l, w, p) \<and> ok u' \<and> part k u' = part k v'' \<and> (\<forall>k'. k' \<noteq> k \<longrightarrow> part k' u' = part k' u)"
    if u: "ok u" "part k u = part k v'" "w u = Inr u'" for u u'
  proof -
    obtain b where b: "s u = Inr (b, u')" using u(3) by (cases "s u") (auto simp: lwp)
    show ?thesis using ps(3)[OF u(1,2) b] part_stmtD(1)[OF assms(1) u(1) same[OF u(2)] b] b by (simp add: lwp)
  qed
  then have replay: "\<forall>u u'. ok u \<longrightarrow> part k u = part k v' \<longrightarrow> w u = Inr u' \<longrightarrow>
       ?f u = Inr (l, w, p) \<and> ok u' \<and> part k u' = part k v'' \<and> (\<forall>k'. k' \<noteq> k \<longrightarrow> part k' u' = part k' u)"
    by blast
  have "confined ok part k v'' p" using assms(3)[of a] ps(1,2) unfolding confined_on_def lwp by blast
  moreover have "w v' = Inr v''" "l \<in> {None, Some k}" by (simp_all add: lwp s)
  ultimately show "\<exists>v''. w v' = Inr v'' \<and> ok v'' \<and> l \<in> {None, Some k} \<and> confined ok part k v'' p
     \<and> (\<forall>u u'. ok u \<longrightarrow> part k u = part k v' \<longrightarrow> w u = Inr u' \<longrightarrow>
         ?f u = Inr (l, w, p) \<and> ok u' \<and> part k u' = part k v'' \<and> (\<forall>k'. k' \<noteq> k \<longrightarrow> part k' u' = part k' u))"
    using ps(1) replay by blast
qed

text \<open>A query that the part answers, and the first statement.\<close>

lemma part_stmt_query:
  assumes "\<And>u v. ok u \<Longrightarrow> ok v \<Longrightarrow> Q v \<Longrightarrow> part k u = part k v \<Longrightarrow> q u = q v" "\<And>v. ok v \<Longrightarrow> Q v \<Longrightarrow> Q' (q v) v"
  shows "part_stmt ok part k Q (query_tx q) Q'"
  unfolding part_stmt_def
proof (intro allI impI conjI)
  fix v a v' assume v: "ok v" "Q v" "query_tx q v = Inr (a, v')"
  then show "ok v'" "Q' a v'" using assms(2)[of v] by auto
  fix u b u' assume u: "ok u" "part k u = part k v" "query_tx q u = Inr (b, u')"
  show "b = a" using u v assms(1)[OF u(1) v(1,2) u(2)] by simp
  show "part k u' = part k v'" using u v by simp
  show "part k' u' = part k' u" for k' using u by simp
qed

lemma part_stmt_writes:
  assumes "\<And>d b d'. s d = Inr (b, d') \<Longrightarrow> b = A d \<and> d' = F d" "on_part part k Q"
    "\<And>d b d'. ok d \<Longrightarrow> Q d \<Longrightarrow> s d = Inr (b, d') \<Longrightarrow> ok d' \<and> Q' b d'"
    "\<And>u v. ok u \<Longrightarrow> Q u \<Longrightarrow> ok v \<Longrightarrow> Q v \<Longrightarrow> part k u = part k v \<Longrightarrow> A u = A v \<and> part k (F u) = part k (F v)"
    "\<And>u k'. ok u \<Longrightarrow> Q u \<Longrightarrow> k' \<noteq> k \<Longrightarrow> part k' (F u) = part k' u"
  shows "part_stmt ok part k Q s Q'"
  unfolding part_stmt_def
proof (intro allI impI)
  fix v a v' assume v: "ok v" "Q v" "s v = Inr (a, v')"
  have "b = a \<and> part k u' = part k v' \<and> (\<forall>k'. k' \<noteq> k \<longrightarrow> part k' u' = part k' u)"
    if u: "ok u" "part k u = part k v" "s u = Inr (b, u')" for u b u'
  proof -
    have Q: "Q u" using assms(2) u(2) v(2) unfolding on_part_def by blast
    show ?thesis using assms(1)[OF v(3)] assms(1)[OF u(3)] assms(4)[OF u(1) Q v(1,2) u(2)] assms(5)[OF u(1) Q] by blast
  qed
  then show "ok v' \<and> Q' a v' \<and> (\<forall>u b u'. ok u \<longrightarrow> part k u = part k v \<longrightarrow> s u = Inr (b, u') \<longrightarrow>
      b = a \<and> part k u' = part k v' \<and> (\<forall>k'. k' \<noteq> k \<longrightarrow> part k' u' = part k' u))"
    using assms(3)[OF v] by blast
qed

lemma locked_stmt:
  assumes "\<And>u v. part k u = part k v \<Longrightarrow> q u = q v" "\<exists>e. g [] = Ret (Inl e)"
    "\<And>rows. rows \<noteq> [] \<Longrightarrow> confined_on ok part k (\<lambda>_. True) (g rows)"
  shows "locked ok part k (bind_prog (lock_stmt k q) g)"
  unfolding locked_def bind_lock_stmt
proof (intro exI conjI allI impI refl)
  fix v assume "ok v"
  then show "(\<exists>e. g (q v) = Ret (Inl e)) \<or> (if q v = [] then None else Some k) = Some k \<and> confined ok part k v (g (q v))"
    using assms(2,3) by (auto simp: confined_on_def)
next
  fix v u assume "part k u = part k v"
  then have "q u = q v" by (rule assms(1))
  then show "Inr (if q u = [] then None else Some k, Inr, g (q u)) = Inr (if q v = [] then None else Some k, Inr, g (q v))"
    by simp
qed simp_all

subsection \<open>Systems\<close>

text \<open>What happened: a call was answered, or another session committed something.\<close>

datatype ('m, 's, 'o) event =
    Answered 'm "exn + 'o"
  | Other "'s \<Rightarrow> 's"

record ('m, 'k, 's, 'o) open_tx =
  ot_call :: 'm
  ot_rest :: "('k, 's, exn + 'o) prog"
  ot_writes :: "'s \<Rightarrow> exn + 's"
  ot_lock :: "'k option"

record ('m, 'k, 's, 'o) system =
  sy_db :: 's
  sy_open :: "nat \<Rightarrow> ('m, 'k, 's, 'o) open_tx option"
  sy_log :: "('m, 's, 'o) event list"

definition initial :: "'s \<Rightarrow> ('m, 'k, 's, 'o) system" where
  "initial d = \<lparr>sy_db = d, sy_open = \<lambda>_. None, sy_log = []\<rparr>"

definition available :: "('m, 'k, 's, 'o) system \<Rightarrow> nat \<Rightarrow> 'k option \<Rightarrow> bool" where
  "available s i l \<longleftrightarrow> (\<forall>j t k. j \<noteq> i \<longrightarrow> sy_open s j = Some t \<longrightarrow> ot_lock t = Some k \<longrightarrow> l \<noteq> Some k)"

definition bears :: "(nat \<Rightarrow> ('m, 'k, 's, 'o) open_tx option) \<Rightarrow> 's \<Rightarrow> bool" where
  "bears txs d \<longleftrightarrow> (\<forall>i t. txs i = Some t \<longrightarrow> (\<exists>v. ot_writes t d = Inr v))"

definition begun :: "'m \<Rightarrow> ('k, 's, exn + 'o) prog \<Rightarrow> ('m, 'k, 's, 'o) open_tx" where
  "begun m p = \<lparr>ot_call = m, ot_rest = p, ot_writes = Inr, ot_lock = None\<rparr>"

definition advanced ::
  "('m, 'k, 's, 'o) open_tx \<Rightarrow> 'k option \<Rightarrow> ('s \<Rightarrow> exn + 's) \<Rightarrow> ('k, 's, exn + 'o) prog \<Rightarrow> ('m, 'k, 's, 'o) open_tx" where
  "advanced t l w p = t\<lparr>ot_rest := p, ot_writes := (\<lambda>d. bind_res (ot_writes t d) w),
     ot_lock := (case l of None \<Rightarrow> ot_lock t | Some k \<Rightarrow> Some k)\<rparr>"

lemma advanced_simps [simp]:
  "ot_call (advanced t l w p) = ot_call t" "ot_rest (advanced t l w p) = p"
  "ot_writes (advanced t l w p) = (\<lambda>d. bind_res (ot_writes t d) w)"
  "ot_lock (advanced t l w p) = (case l of None \<Rightarrow> ot_lock t | Some k \<Rightarrow> Some k)"
  by (simp_all add: advanced_def)

definition closed_tx :: "('m, 'k, 's, 'o) system \<Rightarrow> nat \<Rightarrow> exn + 'o \<Rightarrow> 's \<Rightarrow> ('m, 'k, 's, 'o) system" where
  "closed_tx s i r d = \<lparr>sy_db = d, sy_open = (sy_open s)(i := None),
     sy_log = sy_log s @ [Answered (ot_call (the (sy_open s i))) r]\<rparr>"

text \<open>
  A statement that needs a lock another transaction holds is not executed yet. An exception ends the transaction and its
  writes are gone; a commit makes its view the committed state. A transaction may be lost at any time (a deadlock, a
  connection that breaks). Other sessions commit what leaves the part of every locked row as it is.
\<close>

inductive sys_step :: "('m \<Rightarrow> ('k, 's, exn + 'o) prog) \<Rightarrow> ('s \<Rightarrow> bool) \<Rightarrow> ('k \<Rightarrow> 's \<Rightarrow> 'p) \<Rightarrow>
    ('m, 'k, 's, 'o) system \<Rightarrow> ('m, 'k, 's, 'o) system \<Rightarrow> bool" for prog_of ok part where
  Begin: "sy_open s i = None \<Longrightarrow> sys_step prog_of ok part s (s\<lparr>sy_open := (sy_open s)(i := Some (begun m (prog_of m)))\<rparr>)"
| Statement: "sy_open s i = Some t \<Longrightarrow> ot_rest t = Stmt f \<Longrightarrow> ot_writes t (sy_db s) = Inr v \<Longrightarrow> f v = Inr (l, w, p) \<Longrightarrow>
    \<nexists>e. p = Ret (Inl e) \<Longrightarrow> available s i l \<Longrightarrow>
    sys_step prog_of ok part s (s\<lparr>sy_open := (sy_open s)(i := Some (advanced t l w p))\<rparr>)"
| Raise_Statement: "sy_open s i = Some t \<Longrightarrow> ot_rest t = Stmt f \<Longrightarrow> ot_writes t (sy_db s) = Inr v \<Longrightarrow> f v = Inl e \<Longrightarrow>
    sys_step prog_of ok part s (closed_tx s i (Inl e) (sy_db s))"
| Raise_Program: "sy_open s i = Some t \<Longrightarrow> ot_rest t = Stmt f \<Longrightarrow> ot_writes t (sy_db s) = Inr v \<Longrightarrow>
    f v = Inr (l, w, Ret (Inl e)) \<Longrightarrow> available s i l \<Longrightarrow> sys_step prog_of ok part s (closed_tx s i (Inl e) (sy_db s))"
| Commit: "sy_open s i = Some t \<Longrightarrow> ot_rest t = Ret (Inr r) \<Longrightarrow> ot_writes t (sy_db s) = Inr v \<Longrightarrow>
    bears ((sy_open s)(i := None)) v \<Longrightarrow> sys_step prog_of ok part s (closed_tx s i r v)"
| Lost: "sys_step prog_of ok part s (s\<lparr>sy_open := (sy_open s)(i := None)\<rparr>)"
| Others: "ok (g (sy_db s)) \<Longrightarrow> bears (sy_open s) (g (sy_db s)) \<Longrightarrow>
    (\<And>i t k. sy_open s i = Some t \<Longrightarrow> ot_lock t = Some k \<Longrightarrow> part k (g (sy_db s)) = part k (sy_db s)) \<Longrightarrow>
    sys_step prog_of ok part s (s\<lparr>sy_db := g (sy_db s), sy_log := sy_log s @ [Other g]\<rparr>)"

subsection \<open>Schedules\<close>

text \<open>
  A schedule executed: \<open>(i, Some m)\<close> begins the call \<open>m\<close> as transaction \<open>i\<close>, \<open>(i, None)\<close> lets it execute its next statement or
  commit. None when it would have to wait. Transactions are numbered below \<open>n\<close>.
\<close>

definition lock_taken :: "nat \<Rightarrow> ('m, 'k, 's, 'o) system \<Rightarrow> nat \<Rightarrow> 'k option \<Rightarrow> bool" where
  "lock_taken n s i l \<longleftrightarrow>
     l \<noteq> None \<and> list_ex (\<lambda>j. j \<noteq> i \<and> (case sy_open s j of None \<Rightarrow> False | Some u \<Rightarrow> ot_lock u = l)) [0..<n]"

fun play_move :: "('m \<Rightarrow> ('k, 's, exn + 'o) prog) \<Rightarrow> nat \<Rightarrow> nat \<times> 'm option \<Rightarrow> ('m, 'k, 's, 'o) system \<Rightarrow> ('m, 'k, 's, 'o) system option" where
  "play_move prog_of n (i, Some m) s =
     (if i < n \<and> Option.is_none (sy_open s i) then Some (s\<lparr>sy_open := (sy_open s)(i := Some (begun m (prog_of m)))\<rparr>) else None)"
| "play_move prog_of n (i, None) s = (case sy_open s i of None \<Rightarrow> None | Some t \<Rightarrow>
     (case ot_writes t (sy_db s) of Inl _ \<Rightarrow> None | Inr v \<Rightarrow>
     (case ot_rest t of
        Ret (Inl _) \<Rightarrow> None
      | Ret (Inr r) \<Rightarrow>
          if list_all (\<lambda>j. j = i \<or> (case sy_open s j of None \<Rightarrow> True | Some u \<Rightarrow> \<not> isl (ot_writes u v))) [0..<n]
          then Some (closed_tx s i r v) else None
      | Stmt f \<Rightarrow>
          (case f v of
             Inl e \<Rightarrow> Some (closed_tx s i (Inl e) (sy_db s))
           | Inr (l, w, p) \<Rightarrow>
               if lock_taken n s i l then None
               else (case p of
                   Ret (Inl e) \<Rightarrow> Some (closed_tx s i (Inl e) (sy_db s))
                 | _ \<Rightarrow> Some (s\<lparr>sy_open := (sy_open s)(i := Some (advanced t l w p))\<rparr>))))))"

fun play :: "('m \<Rightarrow> ('k, 's, exn + 'o) prog) \<Rightarrow> nat \<Rightarrow> (nat \<times> 'm option) list \<Rightarrow> ('m, 'k, 's, 'o) system \<Rightarrow> ('m, 'k, 's, 'o) system option" where
  "play prog_of n [] s = Some s"
| "play prog_of n (mv # mvs) s = (case play_move prog_of n mv s of None \<Rightarrow> None | Some s' \<Rightarrow> play prog_of n mvs s')"

definition numbered :: "nat \<Rightarrow> ('m, 'k, 's, 'o) system \<Rightarrow> bool" where
  "numbered n s \<longleftrightarrow> (\<forall>i. sy_open s i \<noteq> None \<longrightarrow> i < n)"

lemma play_move_sound:
  assumes "play_move prog_of n mv s = Some s'" "numbered n s"
  shows "sys_step prog_of ok part s s' \<and> numbered n s'"
proof (cases mv)
  case (Pair i mo)
  show ?thesis
  proof (cases mo)
    case (Some m)
    then show ?thesis using assms Pair by (auto simp: numbered_def Option.is_none_def intro: sys_step.Begin split: if_splits)
  next
    case None
    then obtain t v where t: "sy_open s i = Some t" "ot_writes t (sy_db s) = Inr v"
      using assms(1) Pair by (auto split: option.splits sum.splits)
    show ?thesis
    proof (cases "ot_rest t")
      case (Ret r0)
      then obtain r where r: "r0 = Inr r" "s' = closed_tx s i r v"
        "list_all (\<lambda>j. j = i \<or> (case sy_open s j of None \<Rightarrow> True | Some u \<Rightarrow> \<not> isl (ot_writes u v))) [0..<n]"
        using assms(1) Pair None t by (auto split: sum.splits if_splits)
      have "\<exists>x. ot_writes u v = Inr x" if "sy_open s j = Some u" "j \<noteq> i" for j u
      proof -
        have "j < n" using assms(2) that by (simp add: numbered_def)
        then show ?thesis using r(3) that by (cases "ot_writes u v") (auto simp: list_all_iff)
      qed
      then have "bears ((sy_open s)(i := None)) v" by (auto simp: bears_def)
      moreover have "ot_rest t = Ret (Inr r)" using Ret r(1) by simp
      ultimately have "sys_step prog_of ok part s s'" unfolding r(2) by (intro sys_step.Commit[OF t(1) _ t(2)])
      then show ?thesis using assms(2) r(2) by (auto simp: numbered_def closed_tx_def)
    next
      case (Stmt f)
      show ?thesis
      proof (cases "f v")
        case (Inl e)
        then have s': "s' = closed_tx s i (Inl e) (sy_db s)" using assms(1) Pair None t Stmt by simp
        then have "sys_step prog_of ok part s s'" using sys_step.Raise_Statement[OF t(1) Stmt t(2) Inl] by simp
        then show ?thesis using assms(2) s' by (auto simp: numbered_def closed_tx_def)
      next
        case (Inr x)
        obtain l w p where x: "f v = Inr (l, w, p)" using Inr by (cases x) auto
        have free: "\<not> lock_taken n s i l"
          using assms(1) Pair None t Stmt x by (auto split: if_splits)
        have a: "available s i l" unfolding available_def
        proof (intro allI impI)
          fix j u k assume "j \<noteq> i" "sy_open s j = Some u" "ot_lock u = Some k"
          moreover then have "j < n" using assms(2) by (simp add: numbered_def)
          ultimately show "l \<noteq> Some k" using free by (force simp: lock_taken_def list_ex_iff)
        qed
        show ?thesis
        proof (cases "\<exists>e. p = Ret (Inl e)")
          case True
          then obtain e where p: "p = Ret (Inl e)" by blast
          then have s': "s' = closed_tx s i (Inl e) (sy_db s)" using assms(1) Pair None t Stmt x free by simp
          then have "sys_step prog_of ok part s s'"
            using sys_step.Raise_Program[OF t(1) Stmt t(2) x[unfolded p] a] by simp
          then show ?thesis using assms(2) s' by (auto simp: numbered_def closed_tx_def)
        next
          case False
          then have s': "s' = s\<lparr>sy_open := (sy_open s)(i := Some (advanced t l w p))\<rparr>"
            using assms(1) Pair None t Stmt x free by (auto split: prog.splits sum.splits)
          then have "sys_step prog_of ok part s s'" using sys_step.Statement[OF t(1) Stmt t(2) x False a] by simp
          then show ?thesis using assms(2) s' t(1) by (auto simp: numbered_def)
        qed
      qed
    qed
  qed
qed

lemma play_sound:
  "play prog_of n mvs s = Some s' \<Longrightarrow> numbered n s \<Longrightarrow> (sys_step prog_of ok part)\<^sup>*\<^sup>* s s'"
proof (induction mvs arbitrary: s)
  case (Cons mv mvs)
  then obtain s1 where s1: "play_move prog_of n mv s = Some s1" "play prog_of n mvs s1 = Some s'"
    by (auto split: option.splits)
  then show ?case using play_move_sound[OF s1(1) Cons.prems(2)] Cons.IH[OF s1(2)] by (metis converse_rtranclp_into_rtranclp)
qed simp

lemma numbered_initial: "numbered n (initial d)"
  by (simp add: numbered_def initial_def)

lemma played: "map_option f (play prog_of n mvs s) = Some y \<Longrightarrow> \<exists>s'. play prog_of n mvs s = Some s' \<and> f s' = y"
  by (cases "play prog_of n mvs s") simp_all

text \<open>A schedule answers the calls it begins.\<close>

fun answers :: "('m \<Rightarrow> bool) \<Rightarrow> ('m, 's, 'o) event \<Rightarrow> bool" where
  "answers P (Answered m r) = P m"
| "answers P (Other g) = False"

definition calls_among :: "('m \<Rightarrow> bool) \<Rightarrow> ('m, 'k, 's, 'o) system \<Rightarrow> bool" where
  "calls_among P s \<longleftrightarrow> list_all (answers P) (sy_log s) \<and> (\<forall>i t. sy_open s i = Some t \<longrightarrow> P (ot_call t))"

lemma play_move_calls:
  assumes "play_move prog_of n mv s = Some s'" "calls_among P s" "\<And>m. snd mv = Some m \<Longrightarrow> P m"
  shows "calls_among P s'"
proof (cases mv)
  case (Pair i mo)
  then show ?thesis using assms
    by (cases mo) (auto simp: calls_among_def begun_def closed_tx_def split: option.splits sum.splits prog.splits if_splits)
qed

lemma play_calls:
  "play prog_of n mvs s = Some s' \<Longrightarrow> calls_among P s \<Longrightarrow> list_all (\<lambda>mv. case snd mv of None \<Rightarrow> True | Some m \<Rightarrow> P m) mvs \<Longrightarrow>
    calls_among P s'"
proof (induction mvs arbitrary: s)
  case (Cons mv mvs)
  then obtain s1 where s1: "play_move prog_of n mv s = Some s1" "play prog_of n mvs s1 = Some s'"
    by (auto split: option.splits)
  show ?case by (rule Cons.IH[OF s1(2) play_move_calls[OF s1(1) Cons.prems(2)]]) (use Cons.prems(3) in auto)
qed simp

lemma calls_among_initial: "calls_among P (initial d)"
  by (simp add: calls_among_def initial_def)

subsection \<open>One after the other\<close>

text \<open>The answer of a call whose transaction is alone, and a log replayed: None when a call would be answered differently.\<close>

definition alone :: "('k, 's, exn + 'o) prog \<Rightarrow> 's \<Rightarrow> (exn + 'o) \<times> 's" where
  "alone p d = after_commit (begin_tx (run p) d) id"

fun serial :: "('m \<Rightarrow> 's \<Rightarrow> (exn + 'o) \<times> 's) \<Rightarrow> ('m, 's, 'o) event list \<Rightarrow> 's \<Rightarrow> 's option" where
  "serial perform [] d = Some d"
| "serial perform (Answered m r # es) d = (if fst (perform m d) = r then serial perform es (snd (perform m d)) else None)"
| "serial perform (Other g # es) d = serial perform es (g d)"

lemma serial_append: "serial perform (es @ es') d = (case serial perform es d of None \<Rightarrow> None | Some d' \<Rightarrow> serial perform es' d')"
  by (induction perform es d rule: serial.induct) auto

lemma alone_eq:
  "run p d = Inl e \<Longrightarrow> alone p d = (Inl e, d)" "run p d = Inr (r, d') \<Longrightarrow> alone p d = (r, d')"
  by (simp_all add: alone_def begin_tx_def after_commit_def)

lemma bearsD: "bears txs d \<Longrightarrow> txs i = Some t \<Longrightarrow> \<exists>v. ot_writes t d = Inr v"
  by (auto simp: bears_def)

text \<open>
  What holds of an open transaction: it has executed nothing, or it holds the lock of some \<open>k\<close>, the rest of its program is
  confined to \<open>k\<close>, and on every state with the same part the program run from the start comes to the same place.
\<close>

definition replays ::
  "('m \<Rightarrow> ('k, 's, exn + 'o) prog) \<Rightarrow> ('s \<Rightarrow> bool) \<Rightarrow> ('k \<Rightarrow> 's \<Rightarrow> 'p) \<Rightarrow> 's \<Rightarrow> ('m, 'k, 's, 'o) open_tx \<Rightarrow> 'k \<Rightarrow> 's \<Rightarrow> bool" where
  "replays prog_of ok part d t k v \<longleftrightarrow> (\<forall>u u'. ok u \<longrightarrow> part k u = part k d \<longrightarrow> ot_writes t u = Inr u' \<longrightarrow>
     ok u' \<and> run (prog_of (ot_call t)) u = run (ot_rest t) u' \<and> part k u' = part k v \<and> (\<forall>k'. k' \<noteq> k \<longrightarrow> part k' u' = part k' u))"

definition tx_inv ::
  "('m \<Rightarrow> ('k, 's, exn + 'o) prog) \<Rightarrow> ('s \<Rightarrow> bool) \<Rightarrow> ('k \<Rightarrow> 's \<Rightarrow> 'p) \<Rightarrow> 's \<Rightarrow> ('m, 'k, 's, 'o) open_tx \<Rightarrow> bool" where
  "tx_inv prog_of ok part d t \<longleftrightarrow> t = begun (ot_call t) (prog_of (ot_call t))
     \<or> (\<exists>k v. ot_lock t = Some k \<and> ot_writes t d = Inr v \<and> ok v \<and> confined ok part k v (ot_rest t)
          \<and> replays prog_of ok part d t k v)"

lemma replaysD:
  "replays prog_of ok part d t k v \<Longrightarrow> ok u \<Longrightarrow> part k u = part k d \<Longrightarrow> ot_writes t u = Inr u' \<Longrightarrow>
    ok u' \<and> run (prog_of (ot_call t)) u = run (ot_rest t) u' \<and> part k u' = part k v \<and> (\<forall>k'. k' \<noteq> k \<longrightarrow> part k' u' = part k' u)"
  unfolding replays_def by blast

lemma replays_part: "replays prog_of ok part d t k v \<Longrightarrow> part k d' = part k d \<Longrightarrow> part k v' = part k v \<Longrightarrow>
    replays prog_of ok part d' t k v'"
  unfolding replays_def by metis

lemma tx_inv_cases:
  assumes "tx_inv prog_of ok part d t"
  obtains (fresh) "ot_rest t = prog_of (ot_call t)" "ot_writes t = Inr" "ot_lock t = None"
  | (held) k v where "ot_lock t = Some k" "ot_writes t d = Inr v" "ok v" "confined ok part k v (ot_rest t)"
      "replays prog_of ok part d t k v"
proof -
  have "ot_rest t = prog_of (ot_call t) \<and> ot_writes t = Inr \<and> ot_lock t = None"
    if "t = begun (ot_call t) (prog_of (ot_call t))"
    using that by (metis begun_def open_tx.select_convs(2,3,4))
  then show thesis using assms that unfolding tx_inv_def by blast
qed

lemma tx_inv_held:
  "ot_lock t = Some k \<Longrightarrow> ot_writes t d = Inr v \<Longrightarrow> ok v \<Longrightarrow> confined ok part k v (ot_rest t) \<Longrightarrow>
    replays prog_of ok part d t k v \<Longrightarrow> tx_inv prog_of ok part d t"
  unfolding tx_inv_def by blast

definition sys_inv ::
  "('m \<Rightarrow> ('k, 's, exn + 'o) prog) \<Rightarrow> ('s \<Rightarrow> bool) \<Rightarrow> ('k \<Rightarrow> 's \<Rightarrow> 'p) \<Rightarrow> 's \<Rightarrow> ('m, 'k, 's, 'o) system \<Rightarrow> bool" where
  "sys_inv prog_of ok part d0 s \<longleftrightarrow> ok (sy_db s)
     \<and> serial (\<lambda>m. alone (prog_of m)) (sy_log s) d0 = Some (sy_db s)
     \<and> (\<forall>i t. sy_open s i = Some t \<longrightarrow> tx_inv prog_of ok part (sy_db s) t)
     \<and> (\<forall>i j t t' k. sy_open s i = Some t \<longrightarrow> sy_open s j = Some t' \<longrightarrow> ot_lock t = Some k \<longrightarrow> ot_lock t' = Some k \<longrightarrow> i = j)"

lemma tx_inv_begun: "tx_inv prog_of ok part d (begun m (prog_of m))"
  by (simp add: tx_inv_def begun_def)

lemma tx_inv_bears: "tx_inv prog_of ok part d t \<Longrightarrow> \<exists>v. ot_writes t d = Inr v"
  by (erule tx_inv_cases) auto

text \<open>A change of the committed state that the transaction bears and that leaves the part of its lock.\<close>

lemma tx_inv_move:
  assumes "tx_inv prog_of ok part d t" "\<And>k. ot_lock t = Some k \<Longrightarrow> part k d' = part k d" "ok d'" "ot_writes t d' = Inr v'"
  shows "tx_inv prog_of ok part d' t"
  using assms(1)
proof (cases rule: tx_inv_cases)
  case fresh
  then show ?thesis using assms(1) unfolding tx_inv_def by auto
next
  case (held k v)
  note p = assms(2)[OF held(1)]
  have "ok v'" "part k v' = part k v" using replaysD[OF held(5) assms(3) p assms(4)] by blast+
  then show ?thesis using tx_inv_held[of t k d' v'] held(1) assms(4) confined_part[OF held(4)] replays_part[OF held(5) p] by blast
qed

subsection \<open>The contract\<close>

text \<open>Every call is a program whose first statement locks something to which the rest is confined.\<close>

locale row_locked =
  fixes prog_of :: "'m \<Rightarrow> ('k, 's, exn + 'o) prog"
    and ok :: "'s \<Rightarrow> bool"
    and part :: "'k \<Rightarrow> 's \<Rightarrow> 'p"
  assumes every_call_locks: "\<exists>k. locked ok part k (prog_of m)"
begin

lemma locked_call:
  assumes "ok d"
  obtains f k where "prog_of m = Stmt f"
    "\<And>l w p. f d = Inr (l, w, p) \<Longrightarrow> w = Inr \<and> ((\<exists>e. p = Ret (Inl e)) \<or> l = Some k \<and> confined ok part k d p)"
    "\<And>u. ok u \<Longrightarrow> part k u = part k d \<Longrightarrow> f u = f d" "\<exists>x. f d = Inr x"
proof -
  obtain k where "locked ok part k (prog_of m)" using every_call_locks by blast
  then obtain f where f: "prog_of m = Stmt f"
    "\<exists>l p'. f d = Inr (l, Inr, p') \<and> ((\<exists>e. p' = Ret (Inl e)) \<or> l = Some k \<and> confined ok part k d p')"
    "\<forall>u. ok u \<longrightarrow> part k u = part k d \<longrightarrow> f u = f d" using assms unfolding locked_def by blast
  show thesis by (rule that[of f k]) (use f in auto)
qed

text \<open>A statement that does not raise keeps the invariant of its transaction.\<close>

lemma statement_inv:
  assumes t: "tx_inv prog_of ok part d t" "ok d"
    and st: "ot_rest t = Stmt f" "ot_writes t d = Inr v" "f v = Inr (l, w, p)" "\<nexists>e. p = Ret (Inl e)"
  shows "tx_inv prog_of ok part d (advanced t l w p)
    \<and> (\<exists>k. ot_lock (advanced t l w p) = Some k \<and> (l = Some k \<or> ot_lock t = Some k))"
  using t(1)
proof (cases rule: tx_inv_cases)
  case fresh
  obtain h k where h: "prog_of (ot_call t) = Stmt h"
    "\<And>l w p. h d = Inr (l, w, p) \<Longrightarrow> w = Inr \<and> ((\<exists>e. p = Ret (Inl e)) \<or> l = Some k \<and> confined ok part k d p)"
    "\<And>u. ok u \<Longrightarrow> part k u = part k d \<Longrightarrow> h u = h d" "\<exists>x. h d = Inr x"
    using locked_call[OF t(2), of "ot_call t"] by blast
  have eq: "f = h" "v = d" using st(1,2) fresh h(1) by auto
  have fd: "h d = Inr (l, w, p)" using st(3) eq by simp
  have now: "w = Inr" "l = Some k" "confined ok part k d p" using h(2)[OF fd] st(4) by blast+
  have "run (prog_of (ot_call t)) u = run p u" if "ok u" "part k u = part k d" for u
    using h(3)[OF that] fd by (simp add: h(1) now(1))
  then have "replays prog_of ok part d (advanced t l w p) k d" unfolding replays_def by (auto simp: advanced_def fresh now(1))
  then have "tx_inv prog_of ok part d (advanced t l w p)"
    using tx_inv_held[of "advanced t l w p" k d d] t(2) now by (simp add: advanced_def fresh)
  then show ?thesis using now(2) by (simp add: advanced_def)
next
  case (held k v0)
  then have c: "v0 = v" "ok v" "confined ok part k v (Stmt f)" using st(1,2) by simp_all
  obtain v2 where v2: "w v = Inr v2" "ok v2" "l \<in> {None, Some k}" "confined ok part k v2 p"
    and next_part: "\<forall>u u'. ok u \<longrightarrow> part k u = part k v \<longrightarrow> w u = Inr u' \<longrightarrow>
      f u = Inr (l, w, p) \<and> ok u' \<and> part k u' = part k v2 \<and> (\<forall>k'. k' \<noteq> k \<longrightarrow> part k' u' = part k' u)"
    using confined_StmtD[OF c(3,2) st(3)] by (elim exE conjE)
  have "ok u' \<and> run (prog_of (ot_call t)) u = run p u' \<and> part k u' = part k v2 \<and> (\<forall>k'. k' \<noteq> k \<longrightarrow> part k' u' = part k' u)"
    if u: "ok u" "part k u = part k d" "bind_res (ot_writes t u) w = Inr u'" for u u'
  proof -
    obtain u1 where u1: "ot_writes t u = Inr u1" "w u1 = Inr u'" using u(3) by (auto simp: bind_res_eq_Inr)
    have a: "ok u1" "run (prog_of (ot_call t)) u = run (Stmt f) u1" "part k u1 = part k v" "\<forall>k'. k' \<noteq> k \<longrightarrow> part k' u1 = part k' u"
      using replaysD[OF held(5) u(1,2) u1(1)] st(1) c(1) by auto
    have b: "f u1 = Inr (l, w, p)" "ok u'" "part k u' = part k v2" "\<forall>k'. k' \<noteq> k \<longrightarrow> part k' u' = part k' u1"
      using next_part[rule_format, OF a(1,3) u1(2)] by blast+
    then have "run (Stmt f) u1 = run p u'" using u1(2) by simp
    then have "run (prog_of (ot_call t)) u = run p u'" by (rule trans[OF a(2)])
    moreover have "part k' u' = part k' u" if "k' \<noteq> k" for k'
      using b(4)[rule_format, OF that] a(4)[rule_format, OF that] by (rule trans)
    ultimately show ?thesis using b(2,3) by blast
  qed
  then have "replays prog_of ok part d (advanced t l w p) k v2"
    unfolding replays_def advanced_simps by blast
  moreover have lock: "ot_lock (advanced t l w p) = Some k" using held(1) v2(3) by (auto simp: advanced_def)
  ultimately have "tx_inv prog_of ok part d (advanced t l w p)"
    using tx_inv_held[of "advanced t l w p" k d v2] v2 st(2) by (simp add: advanced_def)
  then show ?thesis using lock held(1) by blast
qed

text \<open>Where a transaction ends, its call alone, on the committed state, ends in the same way.\<close>

lemma raised_alone:
  assumes t: "tx_inv prog_of ok part d t" "ok d" and st: "ot_rest t = Stmt f" "ot_writes t d = Inr v"
    and e: "f v = Inl e \<or> f v = Inr (l, w, Ret (Inl e))"
  shows "alone (prog_of (ot_call t)) d = (Inl e, d)"
  using t(1)
proof (cases rule: tx_inv_cases)
  case fresh
  obtain h k where h: "prog_of (ot_call t) = Stmt h"
    "\<And>l w p. h d = Inr (l, w, p) \<Longrightarrow> w = Inr \<and> ((\<exists>e. p = Ret (Inl e)) \<or> l = Some k \<and> confined ok part k d p)"
    "\<And>u. ok u \<Longrightarrow> part k u = part k d \<Longrightarrow> h u = h d" "\<exists>x. h d = Inr x"
    using locked_call[OF t(2), of "ot_call t"] by blast
  have "f = h" "v = d" using st fresh h(1) by auto
  then have "run (prog_of (ot_call t)) d = Inl e" using e h by auto
  then show ?thesis by (rule alone_eq(1))
next
  case (held k v0)
  have c: "v0 = v" "confined ok part k v (Stmt f)" "ok v" using held st by auto
  have "run (prog_of (ot_call t)) d = run (Stmt f) v" using replaysD[OF held(5) t(2) refl held(2)] c(1) st(1) by simp
  moreover have "f v = Inr (l, w, Ret (Inl e)) \<Longrightarrow> \<exists>v2. w v = Inr v2"
    by (drule confined_StmtD[OF c(2,3)]) (elim exE conjE, rule exI)
  ultimately have "run (prog_of (ot_call t)) d = Inl e" using e by auto
  then show ?thesis by (rule alone_eq(1))
qed

lemma committed_alone:
  assumes t: "tx_inv prog_of ok part d t" "ok d" and st: "ot_rest t = Ret (Inr r)" "ot_writes t d = Inr v"
  shows "alone (prog_of (ot_call t)) d = (r, v) \<and> ok v
    \<and> (\<exists>k. ot_lock t = Some k \<and> (\<forall>k'. k' \<noteq> k \<longrightarrow> part k' v = part k' d))"
  using t(1)
proof (cases rule: tx_inv_cases)
  case fresh
  obtain h k where h: "prog_of (ot_call t) = Stmt h"
    "\<And>l w p. h d = Inr (l, w, p) \<Longrightarrow> w = Inr \<and> ((\<exists>e. p = Ret (Inl e)) \<or> l = Some k \<and> confined ok part k d p)"
    "\<And>u. ok u \<Longrightarrow> part k u = part k d \<Longrightarrow> h u = h d" "\<exists>x. h d = Inr x"
    using locked_call[OF t(2), of "ot_call t"] by blast
  then show ?thesis using st(1) fresh(1) by simp
next
  case (held k v0)
  note r = replaysD[OF held(5) t(2) refl st(2)]
  then have "run (prog_of (ot_call t)) d = Inr (r, v)" using st(1) by (simp add: lift_tx_def)
  then show ?thesis using r held(1) alone_eq(2) by metis
qed

text \<open>The end of a transaction: the call is answered as it would be alone.\<close>

lemma closed_inv:
  assumes inv: "sys_inv prog_of ok part d0 s" and t: "sy_open s i = Some t"
    and a: "alone (prog_of (ot_call t)) (sy_db s) = (r, d')" "ok d'"
    and move: "\<And>j u k. j \<noteq> i \<Longrightarrow> sy_open s j = Some u \<Longrightarrow> ot_lock u = Some k \<Longrightarrow> part k d' = part k (sy_db s)"
    and b: "bears ((sy_open s)(i := None)) d'"
  shows "sys_inv prog_of ok part d0 (closed_tx s i r d')"
proof -
  have "tx_inv prog_of ok part d' u" if u: "j \<noteq> i" "sy_open s j = Some u" for j u
  proof -
    obtain v where "ot_writes u d' = Inr v" using bearsD[OF b, of j u] u by auto
    then show ?thesis using tx_inv_move[of prog_of ok part "sy_db s" u d' v] inv u move[OF u] a(2) by (simp add: sys_inv_def)
  qed
  moreover have "serial (\<lambda>m. alone (prog_of m)) (sy_log (closed_tx s i r d')) d0 = Some d'"
    using inv t a(1) by (simp add: sys_inv_def closed_tx_def serial_append)
  ultimately show ?thesis using inv a(2) unfolding sys_inv_def by (auto simp: closed_tx_def split: if_splits)
qed

lemma inv_bears:
  assumes "sys_inv prog_of ok part d0 s"
  shows "bears ((sy_open s)(i := None)) (sy_db s)"
proof -
  have "\<exists>v. ot_writes t (sy_db s) = Inr v" if "sy_open s j = Some t" for j t
    using assms that tx_inv_bears[of prog_of ok part "sy_db s" t] unfolding sys_inv_def by blast
  then show ?thesis by (simp add: bears_def)
qed

lemma step_inv:
  assumes "sys_step prog_of ok part s s'" "sys_inv prog_of ok part d0 s"
  shows "sys_inv prog_of ok part d0 s'"
  using assms
proof (induction rule: sys_step.induct)
  case (Begin s i m)
  have "tx_inv prog_of ok part (sy_db s) (begun m (prog_of m))" "ot_lock (begun m (prog_of m)) = None"
    by (simp_all add: tx_inv_begun) (simp add: begun_def)
  then show ?case using Begin unfolding sys_inv_def by (auto split: if_splits)
next
  case (Statement s i t f v l w p)
  have "tx_inv prog_of ok part (sy_db s) t" "ok (sy_db s)" using Statement by (auto simp: sys_inv_def)
  from statement_inv[OF this Statement(2-5)]
  obtain k where k: "tx_inv prog_of ok part (sy_db s) (advanced t l w p)" "ot_lock (advanced t l w p) = Some k"
    "l = Some k \<or> ot_lock t = Some k" by blast
  have "j = i" if "sy_open s j = Some u" "ot_lock u = Some k" for j u
    using that k(3) Statement(1,6,7) unfolding available_def sys_inv_def by metis
  then show ?case using Statement(7) k(1,2) unfolding sys_inv_def by (auto split: if_splits)
next
  case (Raise_Statement s i t f v e)
  have t: "tx_inv prog_of ok part (sy_db s) t" "ok (sy_db s)" using Raise_Statement by (auto simp: sys_inv_def)
  have b: "bears ((sy_open s)(i := None)) (sy_db s)"
    by (rule inv_bears[OF Raise_Statement(5)])
  show ?case
    by (rule closed_inv[OF Raise_Statement(5,1) raised_alone[OF t Raise_Statement(2,3)] t(2) refl b])
      (use Raise_Statement(4) in blast)
next
  case (Raise_Program s i t f v l w e)
  have t: "tx_inv prog_of ok part (sy_db s) t" "ok (sy_db s)" using Raise_Program by (auto simp: sys_inv_def)
  have b: "bears ((sy_open s)(i := None)) (sy_db s)"
    by (rule inv_bears[OF Raise_Program(6)])
  show ?case
    by (rule closed_inv[OF Raise_Program(6,1) raised_alone[OF t Raise_Program(2,3)] t(2) refl b])
      (use Raise_Program(4) in blast)
next
  case (Commit s i t r v)
  have t: "tx_inv prog_of ok part (sy_db s) t" "ok (sy_db s)" using Commit by (auto simp: sys_inv_def)
  from committed_alone[OF t Commit(2,3)] obtain k where k: "alone (prog_of (ot_call t)) (sy_db s) = (r, v)" "ok v"
    "ot_lock t = Some k" "\<And>k'. k' \<noteq> k \<Longrightarrow> part k' v = part k' (sy_db s)" by blast
  show ?case
  proof (rule closed_inv[OF Commit(5,1) k(1,2) _ Commit(4)])
    fix j u k' assume "j \<noteq> i" "sy_open s j = Some u" "ot_lock u = Some k'"
    then have "k' \<noteq> k" using Commit(1,5) k(3) unfolding sys_inv_def by metis
    then show "part k' v = part k' (sy_db s)" by (rule k(4))
  qed
next
  case (Lost s i)
  then show ?case unfolding sys_inv_def by (auto split: if_splits)
next
  case (Others g s)
  have "tx_inv prog_of ok part (g (sy_db s)) t" if "sy_open s i = Some t" for i t
    using tx_inv_move[of prog_of ok part "sy_db s" t "g (sy_db s)"] bearsD[OF Others(2) that] Others that
    by (auto simp: sys_inv_def)
  then show ?case using Others unfolding sys_inv_def by (auto simp: serial_append)
qed

text \<open>
  Serialisability: in every system that is reached, the answers and the committed state are those of the calls run one after
  the other, each alone, in the order in which they ended.
\<close>

theorem serializable:
  assumes "(sys_step prog_of ok part)\<^sup>*\<^sup>* (initial d) s" "ok d"
  shows "ok (sy_db s) \<and> serial (\<lambda>m. alone (prog_of m)) (sy_log s) d = Some (sy_db s)"
proof -
  have "sys_inv prog_of ok part d s"
    using assms(1)
  proof (induction rule: rtranclp_induct)
    case base
    then show ?case using assms(2) by (simp add: sys_inv_def initial_def)
  next
    case (step y z)
    then show ?case using step_inv by blast
  qed
  then show ?thesis by (simp add: sys_inv_def)
qed

end

declare bind_prog.simps [simp del]

end
