(* ===== verification/WorkspaceParts.thy ===== *)
theory WorkspaceParts
  imports ConnectionOperations Projects RowLocks
begin

section \<open>What belongs to a Workspace\<close>

text \<open>
  The mutations of Connections and Projects begin with \<open>SELECT ... FOR UPDATE OF workspaces, memberships\<close> on their
  Workspace. This theory shows, statement by statement, that what they execute after it reads and writes the rows of that
  Workspace only (\<open>part_stmt\<close>), which a lock on the row of the Workspace therefore protects. Some statements name a
  Connection and no Workspace; they are confined once the Connection is known to be of the Workspace (\<open>owns\<close>).
\<close>

subsection \<open>The part\<close>

definition workspace_part :: "uuid \<Rightarrow> db \<Rightarrow> db" where
  "workspace_part w d = \<lparr>users = [], identities = [], auth_sessions = [],
     workspaces = filter (\<lambda>r. ws_id r = w) (workspaces d), memberships = filter (\<lambda>r. m_workspace_id r = w) (memberships d),
     projects = filter (\<lambda>r. p_workspace_id r = w) (projects d), connections = filter (\<lambda>r. c_workspace_id r = w) (connections d),
     drafts = filter (\<lambda>r. d_workspace_id r = w) (drafts d), revisions = filter (\<lambda>r. r_workspace_id r = w) (revisions d),
     project_access = filter (\<lambda>r. a_workspace_id r = w) (project_access d), audit_events = []\<rparr>"

lemma workspace_part_tables [simp]:
  "workspaces (workspace_part w d) = filter (\<lambda>r. ws_id r = w) (workspaces d)"
  "memberships (workspace_part w d) = filter (\<lambda>r. m_workspace_id r = w) (memberships d)"
  "projects (workspace_part w d) = filter (\<lambda>r. p_workspace_id r = w) (projects d)"
  "connections (workspace_part w d) = filter (\<lambda>r. c_workspace_id r = w) (connections d)"
  "drafts (workspace_part w d) = filter (\<lambda>r. d_workspace_id r = w) (drafts d)"
  "revisions (workspace_part w d) = filter (\<lambda>r. r_workspace_id r = w) (revisions d)"
  "project_access (workspace_part w d) = filter (\<lambda>r. a_workspace_id r = w) (project_access d)"
  by (simp_all add: workspace_part_def)

lemma workspace_part_eq: "workspace_part w u = workspace_part w v \<longleftrightarrow>
    filter (\<lambda>r. ws_id r = w) (workspaces u) = filter (\<lambda>r. ws_id r = w) (workspaces v)
  \<and> filter (\<lambda>r. m_workspace_id r = w) (memberships u) = filter (\<lambda>r. m_workspace_id r = w) (memberships v)
  \<and> filter (\<lambda>r. p_workspace_id r = w) (projects u) = filter (\<lambda>r. p_workspace_id r = w) (projects v)
  \<and> filter (\<lambda>r. c_workspace_id r = w) (connections u) = filter (\<lambda>r. c_workspace_id r = w) (connections v)
  \<and> filter (\<lambda>r. d_workspace_id r = w) (drafts u) = filter (\<lambda>r. d_workspace_id r = w) (drafts v)
  \<and> filter (\<lambda>r. r_workspace_id r = w) (revisions u) = filter (\<lambda>r. r_workspace_id r = w) (revisions v)
  \<and> filter (\<lambda>r. a_workspace_id r = w) (project_access u) = filter (\<lambda>r. a_workspace_id r = w) (project_access v)"
  by (auto simp: workspace_part_def)

definition owns :: "uuid \<Rightarrow> uuid \<Rightarrow> db \<Rightarrow> bool" where
  "owns w c d \<longleftrightarrow> (w, c) \<in> set (connection_keys d)"

lemma owns_part: "owns w c (workspace_part w d) = owns w c d"
  by (auto simp: owns_def connection_keys_def)

lemma on_part_owns: "on_part workspace_part w (owns w c)"
  unfolding on_part_def by (metis owns_part)

lemma on_part_True: "on_part part k (\<lambda>_. True)"
  by (simp add: on_part_def)

text \<open>A query whose answer is the answer on the part.\<close>

lemma query_on_part:
  assumes "\<And>d. schema_ok d \<Longrightarrow> Q d \<Longrightarrow> q (workspace_part w d) = q d" "on_part workspace_part w Q"
    "\<And>d. schema_ok d \<Longrightarrow> Q d \<Longrightarrow> Q' (q d) d"
  shows "part_stmt schema_ok workspace_part w Q (query_tx q) Q'"
proof (rule part_stmt_query)
  fix u v assume a: "schema_ok u" "schema_ok v" "Q v" "workspace_part w u = workspace_part w v"
  then have "Q u" using assms(2) unfolding on_part_def by blast
  then show "q u = q v" using assms(1)[OF a(1)] assms(1)[OF a(2,3)] a(4) by metis
qed (rule assms(3))

subsection \<open>Rows of a Connection are rows of its Workspace\<close>

lemma owner_unique: "schema_ok d \<Longrightarrow> owns w c d \<Longrightarrow> (w', c) \<in> set (connection_keys d) \<Longrightarrow> w' = w"
  unfolding owns_def connection_keys_def schema_ok_def connections_ok_def
  by (auto dest: distinct_key_unique[of c_id])

lemma access_in_part:
  assumes "schema_ok d" "owns w c d"
  shows "filter (\<lambda>a. a_connection_id a = c) (filter (\<lambda>r. a_workspace_id r = w) (project_access d))
    = filter (\<lambda>a. a_connection_id a = c) (project_access d)"
proof -
  have "a_workspace_id a = w" if "a \<in> set (project_access d)" "a_connection_id a = c" for a
    using that assms(1) owner_unique[OF assms] by (auto simp: schema_ok_def access_ok_def)
  then show ?thesis by (auto simp: filter_filter intro: filter_cong)
qed

lemma revisions_in_part:
  assumes "schema_ok d" "owns w c d"
  shows "filter (\<lambda>r. r_connection_id r = c) (filter (\<lambda>r. r_workspace_id r = w) (revisions d))
    = filter (\<lambda>r. r_connection_id r = c) (revisions d)"
proof -
  have "r_workspace_id r = w" if "r \<in> set (revisions d)" "r_connection_id r = c" for r
    using that assms(1) owner_unique[OF assms] by (auto simp: schema_ok_def revisions_ok_def)
  then show ?thesis by (auto simp: filter_filter intro: filter_cong)
qed

lemma draft_in_part:
  assumes "schema_ok d" "owns w c d" "r \<in> set (drafts d)" "d_connection_id r = c"
  shows "d_workspace_id r = w"
  using assms owner_unique[OF assms(1,2)] by (auto simp: schema_ok_def drafts_ok_def)

subsection \<open>Queries\<close>

lemma member_rows_part: "member_rows (workspace_part w d) u w = member_rows d u w"
proof -
  have "filter (\<lambda>m. (m_user_id m = u \<and> m_workspace_id m = w) \<and> m_ended_at m = None) (filter (\<lambda>r. m_workspace_id r = w) (memberships d))
      = filter (\<lambda>m. (m_user_id m = u \<and> m_workspace_id m = w) \<and> m_ended_at m = None) (memberships d)"
    by (auto simp: filter_filter intro: filter_cong)
  moreover have "map (\<lambda>x. (x, m)) (filter (\<lambda>x. ws_id x = m_workspace_id m) (filter (\<lambda>r. ws_id r = w) (workspaces d)))
      = map (\<lambda>x. (x, m)) (filter (\<lambda>x. ws_id x = m_workspace_id m) (workspaces d))"
    if "m_workspace_id m = w" for m using that by (auto simp: filter_filter)
  ultimately show ?thesis unfolding membership_join_def workspace_part_tables
    by (intro arg_cong[of _ _ concat] map_cong) auto
qed

lemma contexts_part:
  "sql_workspace_context u w (workspace_part w d) = sql_workspace_context u w d"
  "sql_lock_project_creation_context u w (workspace_part w d) = sql_lock_project_creation_context u w d"
  by (simp_all add: sql_workspace_context_def sql_lock_project_creation_context_def member_rows_part)

lemma connection_context_part: "sql_connection_context w c (workspace_part w d) = sql_connection_context w c d"
  by (auto simp: sql_connection_context_def filter_filter intro!: arg_cong[of _ _ "map _"] filter_cong)

lemma selected_projects_part: "sql_lock_selected_projects w ps (workspace_part w d) = sql_lock_selected_projects w ps d"
  by (auto simp: sql_lock_selected_projects_def filter_filter intro!: arg_cong[of _ _ "map _"] filter_cong)

lemma lock_draft_part: "sql_lock_draft w c (workspace_part w d) = sql_lock_draft w c d"
  by (auto simp: sql_lock_draft_def filter_filter intro!: arg_cong[of _ _ "map _"] filter_cong)

lemma next_number_part:
  "schema_ok d \<Longrightarrow> owns w c d \<Longrightarrow> sql_next_revision_number c (workspace_part w d) = sql_next_revision_number c d"
  using revisions_in_part[of d w c] by (simp add: sql_next_revision_number_def)

lemma select_connection_part:
  assumes "schema_ok d" "owns w c d"
  shows "sql_select_connection w c (workspace_part w d) = sql_select_connection w c d"
proof -
  have "access_project_ids (workspace_part w d) c = access_project_ids d c"
    using access_in_part[OF assms] by (simp add: access_project_ids_def)
  then have "connection_columns (workspace_part w d) (Some r) = connection_columns d (Some r)" if "c_id r = c" for r
    using that by (simp add: connection_columns_def)
  moreover have "filter (\<lambda>r. c_workspace_id r = w \<and> c_id r = c) (filter (\<lambda>r. c_workspace_id r = w) (connections d))
      = filter (\<lambda>r. c_workspace_id r = w \<and> c_id r = c) (connections d)"
    by (auto simp: filter_filter intro: filter_cong)
  ultimately show ?thesis unfolding sql_select_connection_def workspace_part_tables by (intro map_cong) auto
qed

lemma connection_context_owns: "sql_connection_context w c d \<noteq> [] \<Longrightarrow> owns w c d"
  by (auto simp: sql_connection_context_def owns_def connection_keys_def filter_empty_conv)

lemma query_stmts:
  "part_stmt schema_ok workspace_part w (\<lambda>_. True) (query_tx (sql_connection_context w c)) (\<lambda>rows d. rows \<noteq> [] \<longrightarrow> owns w c d)"
  "on_part workspace_part w Q \<Longrightarrow> part_stmt schema_ok workspace_part w Q (query_tx (sql_lock_selected_projects w ps)) (\<lambda>_. Q)"
  "on_part workspace_part w Q \<Longrightarrow> part_stmt schema_ok workspace_part w Q (query_tx (sql_lock_draft w c)) (\<lambda>_. Q)"
  "part_stmt schema_ok workspace_part w (owns w c) (query_tx (sql_next_revision_number c)) (\<lambda>_. owns w c)"
  "part_stmt schema_ok workspace_part w (owns w c) (query_tx (sql_select_connection w c)) (\<lambda>_. owns w c)"
  by (rule query_on_part; simp add: connection_context_part connection_context_owns selected_projects_part lock_draft_part
      next_number_part select_connection_part on_part_owns on_part_True)+

subsection \<open>Inserts\<close>

text \<open>An insert appends a row of the Workspace, or raises.\<close>

lemma part_insert:
  assumes "\<And>d b d'. s d = Inr (b, d') \<Longrightarrow> d' = F d" "preserves schema_ok s" "on_part workspace_part w Q"
    "\<And>d b. Q d \<Longrightarrow> Q' b (F d)"
    "\<And>u v. workspace_part w u = workspace_part w v \<Longrightarrow> workspace_part w (F u) = workspace_part w (F v)"
    "\<And>u k. k \<noteq> w \<Longrightarrow> workspace_part k (F u) = workspace_part k u"
  shows "part_stmt schema_ok workspace_part w Q (s :: (db, unit) tx) Q'"
proof (rule part_stmt_writes[where A = "\<lambda>_. ()" and F = F])
  show "b = () \<and> d' = F d" if "s d = Inr (b, d')" for d b d' using assms(1)[OF that] by simp
  show "schema_ok d' \<and> Q' b d'" if "schema_ok d" "Q d" "s d = Inr (b, d')" for d b d'
    using preservesD[OF assms(2) that(1,3)] assms(1)[OF that(3)] assms(4)[OF that(2)] by simp
  show "() = () \<and> workspace_part w (F u) = workspace_part w (F v)" if "workspace_part w u = workspace_part w v" for u v
    using assms(5)[OF that] by simp
qed (use assms(3,6) in auto)

lemma owns_append: "owns w c (d\<lparr>connections := connections d @ rs\<rparr>) = (owns w c d \<or> (w, c) \<in> set (map (\<lambda>c. (c_workspace_id c, c_id c)) rs))"
  by (auto simp: owns_def connection_keys_def)

lemma insert_connection_stmt:
  "part_stmt schema_ok workspace_part w (\<lambda>_. True) (sql_insert_connection now c w n k m) (\<lambda>_. owns w c)"
  unfolding sql_insert_connection_def
  by (rule part_insert[OF _ insert_preserves(7) on_part_True,
      where F = "\<lambda>d. d\<lparr>connections := connections d @ [\<lparr>c_id = c, c_workspace_id = w, c_name = n, c_provider_key = k,
        c_access_mode = m, c_status = ''DRAFT'', c_created_at = now, c_updated_at = now, c_archived_at = None\<rparr>]\<rparr>"])
    (auto simp: insert_connections_def workspace_part_eq owns_append split: if_splits)

lemma preserves_insert_access: "preserves schema_ok (sql_insert_project_access w c u ps)"
  by (induction ps) (simp_all only: sql_insert_project_access.simps preserves_rules)

lemma insert_access_writes:
  "sql_insert_project_access w c u ps d = Inr (b, d') \<Longrightarrow> d' = d\<lparr>project_access := project_access d @
     map (\<lambda>i. \<lparr>a_workspace_id = w, a_connection_id = c, a_project_id = i, a_granted_by_user_id = Some u\<rparr>) ps\<rparr>"
proof (induction ps arbitrary: d)
  case (Cons i ps)
  let ?r = "\<lparr>a_workspace_id = w, a_connection_id = c, a_project_id = i, a_granted_by_user_id = Some u\<rparr>"
  have "sql_insert_project_access w c u ps (d\<lparr>project_access := project_access d @ [?r]\<rparr>) = Inr (b, d')"
    using Cons.prems by (auto simp: tx_inr insert_project_access_def split: if_splits)
  from Cons.IH[OF this] show ?case by simp
qed simp

lemma insert_access_stmt:
  "part_stmt schema_ok workspace_part w (owns w c) (sql_insert_project_access w c u ps) (\<lambda>_. owns w c)"
  by (rule part_insert[OF insert_access_writes[where w = w and c = c and u = u and ps = ps] preserves_insert_access on_part_owns])
    (auto simp: workspace_part_eq owns_def connection_keys_def)

lemma insert_audit_stmt:
  assumes "on_part workspace_part w Q"
  shows "part_stmt schema_ok workspace_part w Q (insert_audit_events r) (\<lambda>_. Q)"
proof (rule part_insert[OF _ insert_preserves(10) assms, where F = "\<lambda>d. d\<lparr>audit_events := audit_events d @ [r]\<rparr>"])
  show "Q (d\<lparr>audit_events := audit_events d @ [r]\<rparr>)" if "Q d" for d
  proof -
    have "workspace_part w (d\<lparr>audit_events := audit_events d @ [r]\<rparr>) = workspace_part w d" by (simp add: workspace_part_def)
    then show ?thesis using assms that unfolding on_part_def by blast
  qed
qed (auto simp: insert_audit_events_def workspace_part_eq split: if_splits)

text \<open>\<open>INSERT ... RETURNING\<close>.\<close>

lemma insert_returning:
  assumes "part_stmt schema_ok workspace_part w Q s (\<lambda>_. Q')"
  shows "part_stmt schema_ok workspace_part w Q (bind_tx s (\<lambda>_. ret_tx rows)) (\<lambda>_. Q')"
  unfolding part_stmt_def
proof (intro allI impI)
  fix v :: db and a v' assume v: "schema_ok v" "Q v" "bind_tx s (\<lambda>_. ret_tx rows) v = Inr (a, v')"
  then obtain x where s: "s v = Inr (x, v')" "a = rows" by (auto simp: tx_inr)
  note p = part_stmtD[OF assms v(1,2) s(1)]
  have "b = a \<and> workspace_part w u' = workspace_part w v' \<and> (\<forall>k'. k' \<noteq> w \<longrightarrow> workspace_part k' u' = workspace_part k' u)"
    if u: "schema_ok u" "workspace_part w u = workspace_part w v" "bind_tx s (\<lambda>_. ret_tx rows) u = Inr (b, u')" for u b u'
  proof -
    obtain y where "s u = Inr (y, u')" "b = rows" using u(3) by (auto simp: tx_inr)
    then show ?thesis using p(3)[OF u(1,2)] s(2) by blast
  qed
  then show "schema_ok v' \<and> Q' v' \<and> (\<forall>u b u'. schema_ok u \<longrightarrow> workspace_part w u = workspace_part w v \<longrightarrow>
      bind_tx s (\<lambda>_. ret_tx rows) u = Inr (b, u') \<longrightarrow> b = a \<and> workspace_part w u' = workspace_part w v'
      \<and> (\<forall>k'. k' \<noteq> w \<longrightarrow> workspace_part k' u' = workspace_part k' u))"
    using p(1,2) by blast
qed

lemma insert_revision_stmt:
  "part_stmt schema_ok workspace_part w (owns w c) (sql_insert_revision now rid w c n sv cfg h u) (\<lambda>_. owns w c)"
  unfolding sql_insert_revision_def Let_def
  by (rule insert_returning, rule part_insert[OF _ insert_preserves(8) on_part_owns,
      where F = "\<lambda>d. d\<lparr>revisions := revisions d @ [\<lparr>r_id = rid, r_workspace_id = w, r_connection_id = c,
               r_number = n, r_schema_version = sv, r_config_json = cfg, r_config_hash = h,
               r_created_by_user_id = Some u, r_created_at = now\<rparr>]\<rparr>"])
    (auto simp: insert_revisions_def workspace_part_eq owns_def connection_keys_def split: if_splits)

lemma insert_project_stmt:
  "part_stmt schema_ok workspace_part w (\<lambda>_. True) (sql_insert_project now pid w n) (\<lambda>_ _. True)"
  unfolding sql_insert_project_def
  by (rule insert_returning, rule part_insert[OF _ insert_preserves(6) on_part_True,
      where F = "\<lambda>d. d\<lparr>projects := projects d @ [\<lparr>p_id = pid, p_workspace_id = w, p_name = n,
                p_status = ''ACTIVE'', p_created_at = now, p_updated_at = now, p_archived_at = None\<rparr>]\<rparr>"])
    (auto simp: insert_projects_def workspace_part_eq split: if_splits)

subsection \<open>Updates and deletes\<close>

definition keeps_checks :: "(connection_row \<Rightarrow> connection_row) \<Rightarrow> bool" where
  "keeps_checks f \<longleftrightarrow> keeps_keys f \<and> (\<forall>r. c_access_mode r \<in> set connection_access_modes \<longrightarrow> c_access_mode (f r) \<in> set connection_access_modes)
     \<and> (\<forall>r. c_status r \<in> set connection_statuses \<longrightarrow> c_status (f r) \<in> set connection_statuses)"

lemma keeps_checks_updates:
  "keeps_checks (set_name now n)" "keeps_checks (set_active now)" "keeps_checks (set_access_mode now (ConnectionAccessMode_value m))"
  "keeps_checks (set_lifecycle now (ConnectionStatus_value st))"
  by (cases m; cases st; simp add: keeps_checks_def keeps_keys_def set_name_def set_active_def set_access_mode_def set_lifecycle_def
      connection_access_modes_def connection_statuses_def)+

lemma update_connections_ok:
  assumes "keeps_checks f" "schema_ok d"
  shows "schema_ok (d\<lparr>connections := upd_where P f (connections d)\<rparr>)"
    and "connection_keys (d\<lparr>connections := upd_where P f (connections d)\<rparr>) = connection_keys d"
proof -
  let ?d = "d\<lparr>connections := upd_where P f (connections d)\<rparr>"
  have k: "c_id (f r) = c_id r" "c_workspace_id (f r) = c_workspace_id r" for r
    using assms(1) by (simp_all add: keeps_checks_def keeps_keys_def)
  show keys: "connection_keys ?d = connection_keys d" by (simp add: connection_keys_def map_upd_where k)
  have "connections_ok ?d" using assms k
    by (auto simp: schema_ok_def connections_ok_def map_upd_where set_upd_where keeps_checks_def)
  then show "schema_ok ?d" using assms(2) keys by (simp add: schema_ok_def table_ok_defs active_memberships_def project_keys_def)
qed

lemma update_connections_stmt:
  assumes "keeps_checks f"
  shows "part_stmt schema_ok workspace_part w (owns w c) (update_connections w c cond f) (\<lambda>_. owns w c)"
proof (rule part_stmt_writes[OF _ on_part_owns, where A = "\<lambda>_. ()"
      and F = "\<lambda>d. d\<lparr>connections := upd_where (\<lambda>r. c_workspace_id r = w \<and> c_id r = c \<and> cond r) f (connections d)\<rparr>"])
  have k: "c_workspace_id (f r) = c_workspace_id r" for r using assms by (simp add: keeps_checks_def keeps_keys_def)
  show "schema_ok d' \<and> owns w c d'" if "schema_ok d" "owns w c d" "update_connections w c cond f d = Inr (b, d')" for d b d'
    using that update_connections_ok[OF assms that(1)] by (auto simp: update_connections_def owns_def)
  show "() = () \<and> workspace_part w (u\<lparr>connections := upd_where (\<lambda>r. c_workspace_id r = w \<and> c_id r = c \<and> cond r) f (connections u)\<rparr>)
      = workspace_part w (v\<lparr>connections := upd_where (\<lambda>r. c_workspace_id r = w \<and> c_id r = c \<and> cond r) f (connections v)\<rparr>)"
    if "workspace_part w u = workspace_part w v" for u v
    using that by (auto simp: workspace_part_eq filter_upd_where k)
  have "filter (\<lambda>r. c_workspace_id r = k') (upd_where (\<lambda>r. c_workspace_id r = w \<and> c_id r = c \<and> cond r) f xs)
      = filter (\<lambda>r. c_workspace_id r = k') xs" if "k' \<noteq> w" for k' xs
    using that k by (induction xs) auto
  then show "workspace_part k' (u\<lparr>connections := upd_where (\<lambda>r. c_workspace_id r = w \<and> c_id r = c \<and> cond r) f (connections u)\<rparr>)
      = workspace_part k' u" if "k' \<noteq> w" for u k' using that by (simp add: workspace_part_eq)
qed (simp add: update_connections_def)

lemma delete_access_stmt:
  "part_stmt schema_ok workspace_part w (owns w c) (sql_delete_project_access c) (\<lambda>_. owns w c)"
proof (rule part_stmt_writes[OF _ on_part_owns, where A = "\<lambda>_. ()"
      and F = "\<lambda>d. d\<lparr>project_access := filter (\<lambda>a. a_connection_id a \<noteq> c) (project_access d)\<rparr>"])
  show "schema_ok d' \<and> owns w c d'" if "schema_ok d" "owns w c d" "sql_delete_project_access c d = Inr (b, d')" for d b d'
  proof -
    have d': "d' = d\<lparr>project_access := filter (\<lambda>a. a_connection_id a \<noteq> c) (project_access d)\<rparr>"
      using that(3) by (simp add: sql_delete_project_access_def)
    have k: "connection_keys d' = connection_keys d" "project_keys d' = project_keys d" by (simp_all add: d' connection_keys_def project_keys_def)
    have "access_ok d'" using that(1) k by (simp add: schema_ok_def access_ok_def d' distinct_map_filter)
    then show ?thesis using that(1,2) k
      by (simp add: d' schema_ok_def users_ok_def identities_ok_def sessions_ok_def workspaces_ok_def memberships_ok_def projects_ok_def
          connections_ok_def drafts_ok_def revisions_ok_def audit_ok_def active_memberships_def owns_def)
  qed
  show "() = () \<and> workspace_part w (u\<lparr>project_access := filter (\<lambda>a. a_connection_id a \<noteq> c) (project_access u)\<rparr>)
      = workspace_part w (v\<lparr>project_access := filter (\<lambda>a. a_connection_id a \<noteq> c) (project_access v)\<rparr>)"
    if "workspace_part w u = workspace_part w v" for u v
  proof -
    have "filter (\<lambda>r. a_workspace_id r = w) (filter (\<lambda>a. a_connection_id a \<noteq> c) xs)
        = filter (\<lambda>a. a_connection_id a \<noteq> c) (filter (\<lambda>r. a_workspace_id r = w) xs)" for xs :: "access_row list"
      by (induction xs) auto
    then show ?thesis using that by (simp add: workspace_part_eq del: filter_filter)
  qed
  show "workspace_part k' (u\<lparr>project_access := filter (\<lambda>a. a_connection_id a \<noteq> c) (project_access u)\<rparr>) = workspace_part k' u"
    if u: "schema_ok u" "owns w c u" "k' \<noteq> w" for u k'
  proof -
    have "a_connection_id a \<noteq> c" if "a \<in> set (project_access u)" "a_workspace_id a = k'" for a
      using that u(1,3) owner_unique[OF u(1,2)] by (auto simp: schema_ok_def access_ok_def)
    then show ?thesis by (auto simp: workspace_part_eq filter_filter intro: filter_cong)
  qed
qed (simp add: sql_delete_project_access_def)

text \<open>\<open>INSERT ... ON CONFLICT DO UPDATE ... RETURNING\<close>: the draft there is, or a new one.\<close>

definition upserted :: "timestamp \<Rightarrow> uuid \<Rightarrow> uuid \<Rightarrow> json_object \<Rightarrow> uuid \<Rightarrow> draft_row list \<Rightarrow> draft_row list" where
  "upserted now c w js u ds = (if c \<in> set (map d_connection_id ds)
     then upd_where (\<lambda>r. d_connection_id r = c) (\<lambda>r. r\<lparr>d_json := js, d_updated_by_user_id := Some u, d_updated_at := now\<rparr>) ds
     else ds @ [\<lparr>d_connection_id = c, d_workspace_id = w, d_json = js, d_updated_by_user_id = Some u, d_updated_at = now\<rparr>])"

lemma upsert_writes:
  "sql_upsert_draft now c w js u d = Inr (b, d') \<Longrightarrow>
    b = map draft_columns (filter (\<lambda>r. d_connection_id r = c) (upserted now c w js u (drafts d)))
    \<and> d' = d\<lparr>drafts := upserted now c w js u (drafts d)\<rparr>"
  by (auto simp: sql_upsert_draft_def upserted_def Let_def filter_empty_conv split: if_splits)

lemma upserted_keys: "(d_workspace_id r, d_connection_id r) \<in> (\<lambda>r. (d_workspace_id r, d_connection_id r)) ` set ds \<or>
    (d_workspace_id r, d_connection_id r) = (w, c)" if "r \<in> set (upserted now c w js u ds)"
  using that by (auto simp: upserted_def set_upd_where split: if_splits)

lemma upserted_filter:
  assumes "\<forall>r \<in> set ds. d_connection_id r = c \<longrightarrow> d_workspace_id r = w"
  shows "filter (\<lambda>r. d_workspace_id r = w) (upserted now c w js u ds) = upserted now c w js u (filter (\<lambda>r. d_workspace_id r = w) ds)"
    "k \<noteq> w \<Longrightarrow> filter (\<lambda>r. d_workspace_id r = k) (upserted now c w js u ds) = filter (\<lambda>r. d_workspace_id r = k) ds"
    "filter (\<lambda>r. d_connection_id r = c) (upserted now c w js u ds)
      = filter (\<lambda>r. d_connection_id r = c) (upserted now c w js u (filter (\<lambda>r. d_workspace_id r = w) ds))"
proof -
  let ?f = "\<lambda>r. r\<lparr>d_json := js, d_updated_by_user_id := Some u, d_updated_at := now\<rparr>"
  have mem: "c \<in> set (map d_connection_id (filter (\<lambda>r. d_workspace_id r = w) ds)) \<longleftrightarrow> c \<in> set (map d_connection_id ds)"
    using assms by auto
  have "filter (\<lambda>r. d_workspace_id r = k) (upd_where (\<lambda>r. d_connection_id r = c) ?f ds)
      = upd_where (\<lambda>r. d_connection_id r = c) ?f (filter (\<lambda>r. d_workspace_id r = k) ds)" for k
    by (simp add: filter_upd_where)
  moreover have "k \<noteq> w \<Longrightarrow> upd_where (\<lambda>r. d_connection_id r = c) ?f (filter (\<lambda>r. d_workspace_id r = k) ds)
      = filter (\<lambda>r. d_workspace_id r = k) ds" for k
    using assms by (induction ds) auto
  moreover have "filter (\<lambda>r. d_connection_id r = c) (upd_where (\<lambda>r. d_connection_id r = c) ?f ds)
      = filter (\<lambda>r. d_connection_id r = c) (upd_where (\<lambda>r. d_connection_id r = c) ?f (filter (\<lambda>r. d_workspace_id r = w) ds))"
    using assms by (induction ds) auto
  moreover have "filter (\<lambda>r. d_connection_id r = c) ds = filter (\<lambda>x. d_workspace_id x = w \<and> d_connection_id x = c) ds"
    using assms by (auto intro: filter_cong)
  ultimately show "filter (\<lambda>r. d_workspace_id r = w) (upserted now c w js u ds) = upserted now c w js u (filter (\<lambda>r. d_workspace_id r = w) ds)"
    "k \<noteq> w \<Longrightarrow> filter (\<lambda>r. d_workspace_id r = k) (upserted now c w js u ds) = filter (\<lambda>r. d_workspace_id r = k) ds"
    "filter (\<lambda>r. d_connection_id r = c) (upserted now c w js u ds)
      = filter (\<lambda>r. d_connection_id r = c) (upserted now c w js u (filter (\<lambda>r. d_workspace_id r = w) ds))"
    using mem assms by (auto simp: upserted_def filter_empty_conv)
qed

lemma upsert_draft_stmt:
  "part_stmt schema_ok workspace_part w (owns w c) (sql_upsert_draft now c w js u) (\<lambda>_. owns w c)"
proof (rule part_stmt_writes[OF upsert_writes on_part_owns])
  have ds: "\<forall>r \<in> set (drafts d). d_connection_id r = c \<longrightarrow> d_workspace_id r = w" if "schema_ok d" "owns w c d" for d
    using draft_in_part[OF that] by blast
  show "schema_ok d' \<and> owns w c d'" if a: "schema_ok d" "owns w c d" "sql_upsert_draft now c w js u d = Inr (b, d')" for d b d'
  proof -
    have d': "d' = d\<lparr>drafts := upserted now c w js u (drafts d)\<rparr>" using upsert_writes[OF a(3)] by blast
    have "drafts_ok d'" unfolding drafts_ok_def
    proof (intro conjI ballI)
      show "distinct (map d_connection_id (drafts d'))"
        using a(1) by (auto simp: d' upserted_def map_upd_where schema_ok_def drafts_ok_def)
      fix r assume "r \<in> set (drafts d')"
      then have "r \<in> set (upserted now c w js u (drafts d))" by (simp add: d')
      from upserted_keys[OF this] show "(d_workspace_id r, d_connection_id r) \<in> set (connection_keys d')"
        using a(1,2) by (auto simp: d' schema_ok_def drafts_ok_def owns_def connection_keys_def)
    qed
    then show ?thesis using a(1,2) by (simp add: d' schema_ok_def table_ok_defs active_memberships_def connection_keys_def
        project_keys_def owns_def)
  qed
  show "map draft_columns (filter (\<lambda>r. d_connection_id r = c) (upserted now c w js u (drafts x)))
      = map draft_columns (filter (\<lambda>r. d_connection_id r = c) (upserted now c w js u (drafts y)))
      \<and> workspace_part w (x\<lparr>drafts := upserted now c w js u (drafts x)\<rparr>) = workspace_part w (y\<lparr>drafts := upserted now c w js u (drafts y)\<rparr>)"
    if "schema_ok x" "owns w c x" "schema_ok y" "owns w c y" "workspace_part w x = workspace_part w y" for x y
    using that(5) upserted_filter(1,3)[OF ds[OF that(1,2)]] upserted_filter(1,3)[OF ds[OF that(3,4)]] by (simp add: workspace_part_eq)
  show "workspace_part k' (x\<lparr>drafts := upserted now c w js u (drafts x)\<rparr>) = workspace_part k' x"
    if "schema_ok x" "owns w c x" "k' \<noteq> w" for x k'
    using upserted_filter(2)[OF ds[OF that(1,2)] that(3)] by (simp add: workspace_part_eq)
qed

lemma update_stmts:
  "part_stmt schema_ok workspace_part w (owns w c) (sql_rename_connection now w c n) (\<lambda>_. owns w c)"
  "part_stmt schema_ok workspace_part w (owns w c) (sql_activate_draft_connection now w c) (\<lambda>_. owns w c)"
  "part_stmt schema_ok workspace_part w (owns w c) (sql_update_access_mode now w c (ConnectionAccessMode_value m)) (\<lambda>_. owns w c)"
  "part_stmt schema_ok workspace_part w (owns w c) (sql_update_lifecycle now w c (ConnectionStatus_value st)) (\<lambda>_. owns w c)"
  by (simp_all add: sql_rename_connection_def sql_activate_draft_connection_def sql_update_access_mode_def sql_update_lifecycle_def
      update_connections_stmt keeps_checks_updates)

end
