(* ===== verification/ConnectionMutations.thy ===== *)
theory ConnectionMutations
  imports ConnectionOperations
begin

section \<open>Publication, access replacement and creation\<close>

text \<open>
  The outcome of the three largest mutations of the Connection repository as one equation
  each: which exception wins, and otherwise the result and the exact state after the commit.
\<close>

subsection \<open>Publication\<close>

definition next_number :: "db \<Rightarrow> uuid \<Rightarrow> int" where
  "next_number d c = (case map r_number (filter (\<lambda>r. r_connection_id r = c) (revisions d)) of
     [] \<Rightarrow> 0 | n # ns \<Rightarrow> fold max ns n) + 1"

definition connection_revisions :: "db \<Rightarrow> uuid \<Rightarrow> revision_row list" where
  "connection_revisions d c = filter (\<lambda>r. r_connection_id r = c) (revisions d)"

definition metadata_of :: "revision_row \<Rightarrow> ConnectionRevisionMetadata" where
  "metadata_of r = \<lparr>rm_revision_id = r_id r, rm_connection_id = r_connection_id r,
     rm_workspace_id = r_workspace_id r, rm_revision_number = r_number r,
     rm_definition_schema_version = r_schema_version r, rm_config_hash_hex = bytes_hex (r_config_hash r),
     rm_created_by_user_id = r_created_by_user_id r, rm_created_at = r_created_at r\<rparr>"

definition revision_of :: "revision_row \<Rightarrow> ConnectionRevision" where
  "revision_of r = \<lparr>rv_metadata = metadata_of r, rv_configuration = r_config_json r\<rparr>"

lemma revision_from_row_ok [simp]:
  "revision_metadata_from_row (revision_meta_columns r) = Inr (metadata_of r)"
  "revision_from_row (revision_columns r) = Inr (revision_of r)"
  by (simp_all add: revision_from_row_def revision_metadata_from_row_def revision_columns_def
      revision_meta_columns_def row_get_def metadata_of_def revision_of_def int_field_def)

lemma next_number_Max:
  "next_number d c = (if connection_revisions d c = [] then 1
     else Max (r_number ` set (connection_revisions d c)) + 1)"
proof (cases "map r_number (connection_revisions d c)")
  case (Cons n ns)
  then have "r_number ` set (connection_revisions d c) = set (n # ns)" by (metis set_map)
  then show ?thesis using Cons
    by (auto simp: next_number_def connection_revisions_def Max.set_eq_fold simp del: set_simps)
qed (simp add: next_number_def connection_revisions_def)

lemma next_number_fresh:
  assumes "r \<in> set (revisions d)" "r_connection_id r = c"
  shows "r_number r < next_number d c"
proof -
  have r: "r \<in> set (connection_revisions d c)" using assms by (simp add: connection_revisions_def)
  then have "r_number r \<le> Max (r_number ` set (connection_revisions d c))" by simp
  then show ?thesis using r by (auto simp: next_number_Max)
qed

lemma next_number_pos:
  assumes "schema_ok d"
  shows "0 < next_number d c"
proof (cases "filter (\<lambda>r. r_connection_id r = c) (revisions d)")
  case Nil
  then show ?thesis by (simp add: next_number_def)
next
  case (Cons r rs)
  then have "r \<in> set (filter (\<lambda>r. r_connection_id r = c) (revisions d))" by simp
  then have "r \<in> set (revisions d)" "r_connection_id r = c" by auto
  then show ?thesis
    using next_number_fresh[of r d c] assms by (auto simp: schema_ok_def revisions_ok_def)
qed

definition new_revision_row ::
  "Call \<Rightarrow> uuid \<Rightarrow> uuid \<Rightarrow> uuid \<Rightarrow> int \<Rightarrow> PublishedConnectionConfiguration \<Rightarrow> revision_row" where
  "new_revision_row call w c u n p = \<lparr>r_id = call_new_id call, r_workspace_id = w, r_connection_id = c,
     r_number = n, r_schema_version = pub_definition_schema_version p,
     r_config_json = pub_configuration p, r_config_hash = pub_config_hash p,
     r_created_by_user_id = Some u, r_created_at = call_now call\<rparr>"

definition activate_if_draft :: "timestamp \<Rightarrow> connection_row \<Rightarrow> connection_row" where
  "activate_if_draft now r = (if c_status r = ''DRAFT'' then set_active now r else r)"

definition published_state ::
  "Call \<Rightarrow> ConnectionWorkspaceContext \<Rightarrow> connection_row \<Rightarrow> uuid \<Rightarrow> PublishedConnectionConfiguration \<Rightarrow> db \<Rightarrow> db" where
  "published_state call x r u p d =
     audited (connection_audit_row call x u (c_id r) (c_name r) ''CONNECTION_REVISION_PUBLISHED'' []
         [(''config_hash'', JStr (bytes_hex (pub_config_hash p))),
          (''definition_schema_version'', JInt (pub_definition_schema_version p)),
          (''revision_id'', JStr (uuid_str (call_new_id call))),
          (''revision_number'', JInt (next_number d (c_id r))),
          (''status'', JStr (c_status (activate_if_draft (call_now call) r)))] [])
       (set_connection (d\<lparr>revisions := revisions d @
            [new_revision_row call (c_workspace_id r) (c_id r) u (next_number d (c_id r)) p]\<rparr>)
          (c_workspace_id r) (c_id r) (activate_if_draft (call_now call)))"

lemma keeps_keys_activate [simp]: "keeps_keys (activate_if_draft now)"
  by (simp add: keeps_keys_def activate_if_draft_def set_active_def)

lemma insert_revision_eq:
  assumes "schema_ok d" "(w, c) \<in> set (connection_keys d)"
  shows "sql_insert_revision (call_now call) (call_new_id call) w c (next_number d c)
      (pub_definition_schema_version p) (pub_configuration p) (pub_config_hash p) u d =
    (if call_new_id call \<in> set (map r_id (revisions d)) then Inl (IntegrityError ''connection_revisions_pkey'')
     else if pub_definition_schema_version p \<le> 0 then Inl (IntegrityError ''connection_revisions_check'')
     else Inr ([revision_columns (new_revision_row call w c u (next_number d c) p)],
       d\<lparr>revisions := revisions d @ [new_revision_row call w c u (next_number d c) p]\<rparr>))"
proof -
  have "(c, next_number d c) \<notin> set (map (\<lambda>x. (r_connection_id x, r_number x)) (revisions d))"
    using next_number_fresh[of _ d c] by force
  then show ?thesis
    using next_number_pos[OF assms(1), of c] assms(2)
    by (simp add: sql_insert_revision_def insert_revisions_def bind_tx_def Let_def new_revision_row_def)
qed

lemma revision_added_ok:
  assumes "conn_ok d" "(w, c) \<in> set (connection_keys d)" "call_new_id call \<notin> set (map r_id (revisions d))"
    "0 < pub_definition_schema_version p"
  shows "conn_ok (d\<lparr>revisions := revisions d @ [new_revision_row call w c u (next_number d c) p]\<rparr>)"
proof -
  have s: "schema_ok d" using assms(1) by (simp add: conn_ok_def)
  have "insert_revisions (new_revision_row call w c u (next_number d c) p) d =
      Inr ((), d\<lparr>revisions := revisions d @ [new_revision_row call w c u (next_number d c) p]\<rparr>)"
    using insert_revision_eq[OF s assms(2), of call p u] assms(3,4)
    by (auto simp: sql_insert_revision_def Let_def new_revision_row_def tx_inr)
  then have "schema_ok (d\<lparr>revisions := revisions d @ [new_revision_row call w c u (next_number d c) p]\<rparr>)"
    using preservesD[OF insert_preserves(8)] s by blast
  then show ?thesis using assms(1)
    by (simp add: conn_ok_def access_consistent_def access_project_ids_def)
qed

lemma activated_ok:
  assumes "conn_ok d" "find_connection d w c = Some r"
  shows "conn_ok (set_connection d w c (activate_if_draft now))"
  by (rule set_connection_ok[OF assms])
    (use found_row_checks[OF assms] in \<open>auto simp: activate_if_draft_def set_active_def connection_statuses_def split: if_splits\<close>)

lemma published_state_ok:
  assumes "conn_ok d" "find_connection d w c = Some r" "\<not> audit_id_used call d"
    "call_new_id call \<notin> set (map r_id (revisions d))" "0 < pub_definition_schema_version p"
  shows "conn_ok (published_state call x r u p d)"
proof -
  note ck = found_row_checks[OF assms(1,2)]
  show ?thesis unfolding published_state_def ck
    by (rule audited_ok, rule activated_ok, rule revision_added_ok) (use assms ck in simp_all)
qed

lemma status_value_of:
  assumes "schema_ok d" "r \<in> set (connections d)"
  shows "ConnectionStatus_value (projr (ConnectionStatus_of (c_status r))) = c_status r"
  using connection_row_checks[OF assms] by (metis ConnectionStatus_of_value sum.sel(2))

lemma activate_status_value:
  assumes "schema_ok d" "r \<in> set (connections d)"
  shows "ConnectionStatus_value (projr (ConnectionStatus_of (c_status (activate_if_draft now r)))) =
    c_status (activate_if_draft now r)"
  using status_value_of[OF assms] by (auto simp: activate_if_draft_def set_active_def ConnectionStatus_of_def)

lemma repo_publish_revision_eq:
  assumes "conn_ok d"
  shows "repo_publish_revision call az compile u w c d = guarded d u w c az (\<lambda>x r.
    case find_draft d w c of
      None \<Rightarrow> (Inl (ConnectionStateConflictError ''connection draft does not exist''), d)
    | Some dr \<Rightarrow> (case compile (mutation_context_of x r) (d_json dr) of
        Inl e \<Rightarrow> (Inl e, d)
      | Inr p \<Rightarrow>
          if call_new_id call \<in> set (map r_id (revisions d)) then (Inl (IntegrityError ''connection_revisions_pkey''), d)
          else if pub_definition_schema_version p \<le> 0 then (Inl (IntegrityError ''connection_revisions_check''), d)
          else if audit_id_used call d then (Inl (IntegrityError ''audit_events_pkey''), d)
          else (Inr (revision_of (new_revision_row call w c u (next_number d c) p)),
                published_state call x r u p d)))"
proof -
  have s: "schema_ok d" using assms by (simp add: conn_ok_def)
  show ?thesis
    unfolding repo_publish_revision_def guarded_tx[OF s] guarded_after_commit
  proof (rule guarded_cong)
    fix x r assume r: "find_connection d w c = Some r"
    note ck = found_row_checks[OF assms r] and mem = find_connection_Some[OF r]
    let ?act = "activate_if_draft (call_now call)"
    have act: "sql_activate_draft_connection (call_now call) w c d' = Inr ((), set_connection d' w c ?act)" for d'
      by (simp add: sql_activate_draft_connection_def update_connections_eq activate_if_draft_def[abs_def])
    have num: "int_field (sql_next_revision_number c d) = Inr (next_number d c)"
      by (simp add: int_field_def sql_next_revision_number_def next_number_def)
    have name: "cn_name (connection_of d (?act r)) = c_name r"
      by (simp add: connection_of_def activate_if_draft_def set_active_def)
    have st: "ConnectionStatus_value (cn_status (connection_of d (?act r))) = c_status (?act r)"
      using activate_status_value[OF s] mem by (simp add: connection_of_def)
    have fetch: "fetch_connection w c (set_connection (d\<lparr>revisions := revisions d @ [v]\<rparr>) w c ?act) =
        Inr (connection_of d (?act r), set_connection (d\<lparr>revisions := revisions d @ [v]\<rparr>) w c ?act)"
      if "conn_ok (d\<lparr>revisions := revisions d @ [v]\<rparr>)" for v
      using r by (simp add: fetch_connection_eq[OF activated_ok[OF that]] find_connection_set)
    show "after_commit (begin_tx
       (bind_tx (query_tx (sql_lock_draft w c)) (\<lambda>draft_result.
        bind_tx (lift_tx (one_or_none draft_result)) (\<lambda>draft_row.
        case draft_row of
          None \<Rightarrow> raise_tx (ConnectionStateConflictError ''connection draft does not exist'')
        | Some draft_row \<Rightarrow>
            bind_tx (lift_tx (bind_res (row_get draft_row ''draft_json'') (\<lambda>v.
              json_object_value ''connection'' v ''draft_json''))) (\<lambda>configuration.
            bind_tx (lift_tx (compile (mutation_context_of x r) configuration)) (\<lambda>compiled.
            bind_tx (query_tx (sql_next_revision_number c)) (\<lambda>number.
            bind_tx (lift_tx (int_field number)) (\<lambda>revision_number.
            bind_tx (sql_insert_revision (call_now call) (call_new_id call) w c
              revision_number (pub_definition_schema_version compiled) (pub_configuration compiled)
              (pub_config_hash compiled) u) (\<lambda>inserted.
            bind_tx (lift_tx (one inserted)) (\<lambda>r'.
            bind_tx (sql_activate_draft_connection (call_now call) w c) (\<lambda>_.
            bind_tx (fetch_connection w c) (\<lambda>connection.
            bind_tx (connection_audit call (cm_workspace (mutation_context_of x r)) u c
              (cn_name connection) ''CONNECTION_REVISION_PUBLISHED'' []
              [(''config_hash'', JStr (bytes_hex (pub_config_hash compiled))),
               (''definition_schema_version'', JInt (pub_definition_schema_version compiled)),
               (''revision_id'', JStr (uuid_str (call_new_id call))),
               (''revision_number'', JInt revision_number),
               (''status'', JStr (ConnectionStatus_value (cn_status connection)))] []) (\<lambda>_.
            ret_tx r')))))))))))) d) revision_from_row =
      (case find_draft d w c of
      None \<Rightarrow> (Inl (ConnectionStateConflictError ''connection draft does not exist''), d)
    | Some dr \<Rightarrow> (case compile (mutation_context_of x r) (d_json dr) of
        Inl e \<Rightarrow> (Inl e, d)
      | Inr p \<Rightarrow>
          if call_new_id call \<in> set (map r_id (revisions d)) then (Inl (IntegrityError ''connection_revisions_pkey''), d)
          else if pub_definition_schema_version p \<le> 0 then (Inl (IntegrityError ''connection_revisions_check''), d)
          else if audit_id_used call d then (Inl (IntegrityError ''audit_events_pkey''), d)
          else (Inr (revision_of (new_revision_row call w c u (next_number d c) p)),
                published_state call x r u p d)))"
    proof (cases "find_draft d w c")
      case None
      then show ?thesis by (simp add: begin_tx_def bind_tx_def select_draft_one[OF s])
    next
      case (Some dr)
      show ?thesis
      proof (cases "compile (mutation_context_of x r) (d_json dr)")
        case (Inl e)
        then show ?thesis using Some
          by (simp add: begin_tx_def bind_tx_def select_draft_one[OF s] row_get_def)
      next
        case (Inr p)
        have ok1: "conn_ok (d\<lparr>revisions := revisions d @ [new_revision_row call w c u (next_number d c) p]\<rparr>)"
          if "call_new_id call \<notin> set (map r_id (revisions d))" "\<not> pub_definition_schema_version p \<le> 0"
          using revision_added_ok[OF assms ck(4)] that by simp
        show ?thesis using Some Inr fetch[OF ok1]
          by (simp add: begin_tx_def bind_tx_def select_draft_one[OF s] row_get_def num
              insert_revision_eq[OF s ck(4)] act name st connection_audit_eq mutation_context_of_def
              published_state_def ck del: set_map)
      qed
    qed
  qed
qed

subsection \<open>Access replacement\<close>

definition policy_ok :: "ConnectionAccessPolicy \<Rightarrow> bool" where
  "policy_ok p \<longleftrightarrow> distinct (ap_project_ids p)
     \<and> (ap_mode p = ConnectionAccessMode.WORKSPACE \<longrightarrow> ap_project_ids p = [])"

definition access_rows :: "uuid \<Rightarrow> uuid \<Rightarrow> uuid \<Rightarrow> uuid list \<Rightarrow> access_row list" where
  "access_rows w c u ids = map (\<lambda>i. \<lparr>a_workspace_id = w, a_connection_id = c, a_project_id = i,
     a_granted_by_user_id = Some u\<rparr>) ids"

definition access_replaced :: "db \<Rightarrow> uuid \<Rightarrow> uuid \<Rightarrow> uuid \<Rightarrow> uuid list \<Rightarrow> db" where
  "access_replaced d w c u ids = d\<lparr>project_access :=
     filter (\<lambda>a. a_connection_id a \<noteq> c) (project_access d) @ access_rows w c u ids\<rparr>"

lemma access_ids_filter [simp]:
  "filter (\<lambda>a. a_connection_id a \<noteq> c \<and> a_connection_id a = c') xs =
    (if c' = c then [] else filter (\<lambda>a. a_connection_id a = c') xs)"
  by (induction xs) auto

lemma access_rows_filter [simp]:
  "map a_project_id (filter (\<lambda>a. a_connection_id a = c') (access_rows w c u ids)) = (if c' = c then ids else [])"
  by (induction ids) (auto simp: access_rows_def)

lemma access_replaced_ids:
  "access_project_ids (access_replaced d w c u ids) c' = (if c' = c then sort ids else access_project_ids d c')"
  by (simp add: access_project_ids_def access_replaced_def)

lemma access_replaced_find [simp]:
  "find_connection (access_replaced d w c u ids) w' c' = find_connection d w' c'"
  "audit_id_used call (access_replaced d w c u ids) = audit_id_used call d"
  by (simp_all add: access_replaced_def)

lemma access_replaced_schema:
  assumes "schema_ok d" "(w, c) \<in> set (connection_keys d)" "distinct ids" "projects_exist d w ids"
  shows "schema_ok (access_replaced d w c u ids)"
proof -
  let ?k = "\<lambda>a. (a_connection_id a, a_project_id a)"
  let ?xs = "filter (\<lambda>a. a_connection_id a \<noteq> c) (project_access d)"
  have "distinct (map ?k ?xs)" using assms(1) by (simp add: schema_ok_def access_ok_def distinct_map_filter)
  moreover have "distinct (map ?k (access_rows w c u ids))"
    using assms(3) by (simp add: access_rows_def comp_def distinct_map inj_on_def)
  ultimately have "distinct (map ?k (?xs @ access_rows w c u ids))" by (auto simp: access_rows_def)
  then have "access_ok (access_replaced d w c u ids)"
    using assms by (auto simp: schema_ok_def access_ok_def access_replaced_def access_rows_def
        connection_keys_def project_keys_def projects_exist_def)
  then show ?thesis using assms(1) by (auto simp: schema_ok_def access_replaced_def table_ok_defs)
qed

definition access_state ::
  "Call \<Rightarrow> ConnectionWorkspaceContext \<Rightarrow> connection_row \<Rightarrow> uuid \<Rightarrow> ConnectionAccessPolicy \<Rightarrow> db \<Rightarrow> db" where
  "access_state call x r u p d =
     (let f = set_access_mode (call_now call) (ConnectionAccessMode_value (ap_mode p));
          d1 = access_replaced d (c_workspace_id r) (c_id r) u (ap_project_ids p);
          d2 = set_connection d1 (c_workspace_id r) (c_id r) f
      in audited (connection_audit_row call x u (c_id r) (c_name r) ''CONNECTION_ACCESS_UPDATED''
           (access_json (cn_access_policy (connection_of d r)))
           (access_json (cn_access_policy (connection_of d1 (f r)))) []) d2)"

lemma access_set_ok:
  assumes "conn_ok d" "find_connection d w c = Some r" "policy_ok p" "projects_exist d w (ap_project_ids p)"
  shows "conn_ok (set_connection (access_replaced d w c u (ap_project_ids p)) w c
    (set_access_mode now (ConnectionAccessMode_value (ap_mode p))))"
proof (rule set_connection_restores)
  note ck = found_row_checks[OF assms(1,2)]
  show "schema_ok (access_replaced d w c u (ap_project_ids p))"
    using assms ck by (intro access_replaced_schema) (auto simp: conn_ok_def policy_ok_def)
  show "others_consistent (access_replaced d w c u (ap_project_ids p)) c"
    using assms(1) by (auto simp: others_consistent_def access_replaced_ids conn_ok_def access_consistent_def)
      (auto simp: access_replaced_def)
  show "find_connection (access_replaced d w c u (ap_project_ids p)) w c = Some r"
    using assms(2) by (simp add: access_replaced_def)
  show "c_access_mode (set_access_mode now (ConnectionAccessMode_value (ap_mode p)) r) = ''WORKSPACE'' \<Longrightarrow>
      access_project_ids (access_replaced d w c u (ap_project_ids p)) c = []"
    using assms(3) by (cases "ap_mode p") (auto simp: set_access_mode_def access_replaced_ids policy_ok_def)
qed (use found_row_checks[OF assms(1,2)] in \<open>auto simp: set_access_mode_def\<close>)

lemma access_state_ok:
  assumes "conn_ok d" "find_connection d w c = Some r" "policy_ok p" "projects_exist d w (ap_project_ids p)"
    "\<not> audit_id_used call d"
  shows "conn_ok (access_state call x r u p d)"
  unfolding access_state_def Let_def found_row_checks[OF assms(1,2)]
  by (rule audited_ok[OF access_set_ok[OF assms(1-4)]]) (simp add: assms(5) access_replaced_def)

lemma insert_access_after_delete:
  assumes "schema_ok d" "(w, c) \<in> set (connection_keys d)" "distinct ids" "projects_exist d w ids"
  shows "repo_insert_project_access w c u ids
      (d\<lparr>project_access := filter (\<lambda>a. a_connection_id a \<noteq> c) (project_access d)\<rparr>) =
    Inr ((), access_replaced d w c u ids)"
  by (subst insert_project_access_eq)
    (use assms in \<open>auto simp: connection_keys_def projects_exist_def project_keys_def access_replaced_def access_rows_def\<close>)

lemma repo_replace_access_eq:
  assumes "conn_ok d" "policy_ok p"
  shows "repo_replace_access call az u w c p d = guarded d u w c az (\<lambda>x r.
    if \<not> projects_exist d w (ap_project_ids p) then (Inl ConnectionProjectNotFoundError, d)
    else if audit_id_used call d then (Inl (IntegrityError ''audit_events_pkey''), d)
    else (Inr (connection_of (access_replaced d w c u (ap_project_ids p))
                (set_access_mode (call_now call) (ConnectionAccessMode_value (ap_mode p)) r)),
          access_state call x r u p d))"
proof -
  have s: "schema_ok d" using assms by (simp add: conn_ok_def)
  show ?thesis
    unfolding repo_replace_access_def guarded_tx[OF s]
  proof (rule guarded_cong)
    fix x r assume r: "find_connection d w c = Some r"
    note ck = found_row_checks[OF assms(1) r]
    let ?ids = "ap_project_ids p"
    let ?d1 = "access_replaced d w c u ?ids"
    let ?f = "set_access_mode (call_now call) (ConnectionAccessMode_value (ap_mode p))"
    have upd: "sql_update_access_mode (call_now call) w c (ConnectionAccessMode_value (ap_mode p)) d' =
        Inr ((), set_connection d' w c ?f)" for d'
      by (simp add: sql_update_access_mode_def update_connections_eq)
    have name: "cn_name (connection_of ?d1 (?f r)) = c_name r"
      by (simp add: connection_of_def set_access_mode_def)
    have fetch: "fetch_connection w c (set_connection ?d1 w c ?f) =
        Inr (connection_of ?d1 (?f r), set_connection ?d1 w c ?f)" if "projects_exist d w ?ids"
      using r that by (simp add: fetch_connection_eq[OF access_set_ok[OF assms(1) r assms(2)]]
          find_connection_set)
    have used: "audit_id_used call (set_connection ?d1 w c ?f) = audit_id_used call d"
      by (simp add: access_replaced_def)
    show "begin_tx (bind_tx (fetch_connection w c) (\<lambda>prior.
        bind_tx (validate_projects w ?ids) (\<lambda>_.
        bind_tx (sql_delete_project_access c) (\<lambda>_.
        bind_tx (repo_insert_project_access w c u ?ids) (\<lambda>_.
        bind_tx (sql_update_access_mode (call_now call) w c (ConnectionAccessMode_value (ap_mode p))) (\<lambda>_.
        bind_tx (fetch_connection w c) (\<lambda>updated.
        bind_tx (connection_audit call (cm_workspace (mutation_context_of x r)) u c (cn_name updated)
          ''CONNECTION_ACCESS_UPDATED'' (access_json (cn_access_policy prior))
          (access_json (cn_access_policy updated)) []) (\<lambda>_.
        ret_tx updated)))))))) d =
      (if \<not> projects_exist d w ?ids then (Inl ConnectionProjectNotFoundError, d)
       else if audit_id_used call d then (Inl (IntegrityError ''audit_events_pkey''), d)
       else (Inr (connection_of ?d1 (?f r)), access_state call x r u p d))"
    proof (cases "projects_exist d w ?ids")
      case False
      then show ?thesis using r
        by (simp add: begin_tx_def bind_tx_def fetch_connection_eq[OF assms(1)] validate_projects_eq)
    next
      case True
      have "distinct ?ids" using assms(2) by (simp add: policy_ok_def)
      from insert_access_after_delete[OF s ck(4) this True] show ?thesis
        using r True fetch[OF True]
        by (simp add: begin_tx_def bind_tx_def fetch_connection_eq[OF assms(1)] validate_projects_eq
            sql_delete_project_access_def upd name used connection_audit_eq mutation_context_of_def
            access_state_def Let_def ck)
    qed
  qed
qed

subsection \<open>Creation\<close>

definition new_connection_row :: "Call \<Rightarrow> uuid \<Rightarrow> string \<Rightarrow> string \<Rightarrow> ConnectionAccessMode \<Rightarrow> connection_row" where
  "new_connection_row call w n pk md = \<lparr>c_id = call_new_id call, c_workspace_id = w, c_name = n,
     c_provider_key = pk, c_access_mode = ConnectionAccessMode_value md, c_status = ''DRAFT'',
     c_created_at = call_now call, c_updated_at = call_now call, c_archived_at = None\<rparr>"

definition created_connection :: "Call \<Rightarrow> uuid \<Rightarrow> string \<Rightarrow> string \<Rightarrow> ConnectionAccessPolicy \<Rightarrow> Connection" where
  "created_connection call w n pk p = \<lparr>cn_connection_id = call_new_id call, cn_workspace_id = w, cn_name = n,
     cn_provider_key = pk, cn_access_policy = \<lparr>ap_mode = ap_mode p, ap_project_ids = sort (ap_project_ids p)\<rparr>,
     cn_status = ConnectionStatus.DRAFT, cn_created_at = call_now call, cn_updated_at = call_now call,
     cn_archived_at = None\<rparr>"

definition connection_added :: "Call \<Rightarrow> uuid \<Rightarrow> uuid \<Rightarrow> string \<Rightarrow> string \<Rightarrow> ConnectionAccessPolicy \<Rightarrow> db \<Rightarrow> db" where
  "connection_added call u w n pk p d =
     d\<lparr>connections := connections d @ [new_connection_row call w n pk (ap_mode p)],
       project_access := project_access d @ access_rows w (call_new_id call) u (ap_project_ids p)\<rparr>"

definition connection_created_state ::
  "Call \<Rightarrow> ConnectionWorkspaceContext \<Rightarrow> uuid \<Rightarrow> uuid \<Rightarrow> string \<Rightarrow> string \<Rightarrow> ConnectionAccessPolicy \<Rightarrow> db \<Rightarrow> db" where
  "connection_created_state call x u w n pk p d =
     audited (connection_audit_row call x u (call_new_id call) n ''CONNECTION_CREATED'' []
          [(''access_mode'', JStr (ConnectionAccessMode_value (ap_mode p))), (''name'', JStr n),
           (''project_ids'', JArr (map (\<lambda>i. JStr (uuid_str i)) (ap_project_ids p))),
           (''provider_key'', JStr pk), (''status'', JStr ''DRAFT'')] [])
       (connection_added call u w n pk p d)"

lemma no_access_of_unknown:
  assumes "schema_ok d" "c \<notin> set (map c_id (connections d))"
  shows "\<forall>a \<in> set (project_access d). a_connection_id a \<noteq> c"
  using assms by (force simp: schema_ok_def access_ok_def connection_keys_def)

lemma connection_added_ok:
  assumes "conn_ok d" "w \<in> set (map ws_id (workspaces d))" "call_new_id call \<notin> set (map c_id (connections d))"
    "policy_ok p" "projects_exist d w (ap_project_ids p)"
  shows "conn_ok (connection_added call u w n pk p d)"
proof -
  let ?c = "call_new_id call"
  let ?d1 = "d\<lparr>connections := connections d @ [new_connection_row call w n pk (ap_mode p)]\<rparr>"
  have s: "schema_ok d" using assms(1) by (simp add: conn_ok_def)
  have no: "filter (\<lambda>a. a_connection_id a \<noteq> ?c) (project_access d) = project_access d"
    using no_access_of_unknown[OF s assms(3)] by (simp add: filter_id_conv)
  have "insert_connections (new_connection_row call w n pk (ap_mode p)) d = Inr ((), ?d1)"
    using assms(2,3) by (simp add: insert_connections_def new_connection_row_def connection_statuses_def)
  then have s1: "schema_ok ?d1" using preservesD[OF insert_preserves(7)] s by blast
  have eq: "connection_added call u w n pk p d = access_replaced ?d1 w ?c u (ap_project_ids p)"
    by (simp add: connection_added_def access_replaced_def no)
  have "schema_ok (connection_added call u w n pk p d)"
    unfolding eq using s1 assms(4,5)
    by (intro access_replaced_schema)
      (auto simp: connection_keys_def new_connection_row_def policy_ok_def projects_exist_def project_keys_def)
  moreover have "access_consistent (connection_added call u w n pk p d)"
    unfolding access_consistent_def
  proof (intro ballI impI)
    fix r assume r: "r \<in> set (connections (connection_added call u w n pk p d))" "c_access_mode r = ''WORKSPACE''"
    have ids: "access_project_ids (connection_added call u w n pk p d) i =
        (if i = ?c then sort (ap_project_ids p) else access_project_ids d i)" for i
      unfolding eq access_replaced_ids by (simp add: access_project_ids_def)
    show "access_project_ids (connection_added call u w n pk p d) (c_id r) = []"
    proof (cases "r \<in> set (connections d)")
      case True
      then have "c_id r \<noteq> ?c" using assms(3) by (metis imageI set_map)
      then show ?thesis using True r(2) assms(1) by (simp add: ids conn_ok_def access_consistent_def)
    next
      case False
      then have "r = new_connection_row call w n pk (ap_mode p)"
        using r(1) by (simp add: connection_added_def)
      then show ?thesis using r(2) assms(4)
        by (cases "ap_mode p") (auto simp: ids new_connection_row_def policy_ok_def)
    qed
  qed
  ultimately show ?thesis by (simp add: conn_ok_def)
qed

lemma repo_create_connection_eq:
  assumes "conn_ok d" "policy_ok p"
  shows "repo_create_connection call az u w n pk p d =
    (case conn_context d u w of
       None \<Rightarrow> (Inl ConnectionWorkspaceNotFoundError, d)
     | Some x \<Rightarrow> (case az x of
         Inl e \<Rightarrow> (Inl e, d)
       | Inr _ \<Rightarrow>
           if \<not> projects_exist d w (ap_project_ids p) then (Inl ConnectionProjectNotFoundError, d)
           else if call_new_id call \<in> set (map c_id (connections d)) then (Inl (IntegrityError ''connections_pkey''), d)
           else if audit_id_used call d then (Inl (IntegrityError ''audit_events_pkey''), d)
           else (Inr (created_connection call w n pk p), connection_created_state call x u w n pk p d)))"
proof (cases "conn_context d u w")
  case None
  have s: "schema_ok d" using assms by (simp add: conn_ok_def)
  show ?thesis using None
    by (simp add: repo_create_connection_def begin_tx_def bind_tx_def workspace_context_eq[OF s])
next
  case (Some x)
  have s: "schema_ok d" using assms by (simp add: conn_ok_def)
  note wd = conn_context_workspace[OF s Some]
  let ?c = "call_new_id call" and ?ids = "ap_project_ids p"
  let ?r = "new_connection_row call w n pk (ap_mode p)"
  have ins: "sql_insert_connection (call_now call) ?c w n pk (ConnectionAccessMode_value (ap_mode p)) d =
      (if ?c \<in> set (map c_id (connections d)) then Inl (IntegrityError ''connections_pkey'')
       else Inr ((), d\<lparr>connections := connections d @ [?r]\<rparr>))"
    using wd(2) by (simp add: sql_insert_connection_def insert_connections_def new_connection_row_def connection_statuses_def)
  show ?thesis
  proof (cases "projects_exist d w ?ids \<and> ?c \<notin> set (map c_id (connections d))")
    case False
    then show ?thesis using Some
      by (auto simp: repo_create_connection_def begin_tx_def bind_tx_def workspace_context_eq[OF s]
          lift_tx_def validate_projects_eq ins split: sum.splits)
  next
    case True
    then have ex: "projects_exist d w ?ids" and fresh: "?c \<notin> set (map c_id (connections d))" by auto
    have dist: "distinct ?ids" using assms(2) by (simp add: policy_ok_def)
    have "repo_insert_project_access w ?c u ?ids (d\<lparr>connections := connections d @ [?r]\<rparr>) =
        Inr ((), connection_added call u w n pk p d)"
      by (subst insert_project_access_eq)
        (use ex dist no_access_of_unknown[OF s fresh] in
          \<open>auto simp: connection_keys_def new_connection_row_def projects_exist_def project_keys_def
            connection_added_def access_rows_def\<close>)
    note acc = this
    have ok: "conn_ok (connection_added call u w n pk p d)"
      by (rule connection_added_ok[OF assms(1) wd(2) fresh assms(2) ex])
    have used: "audit_id_used call (connection_added call u w n pk p d) = audit_id_used call d"
      by (simp add: connection_added_def audit_id_used_def)
    have ids: "access_project_ids (connection_added call u w n pk p d) ?c = sort ?ids"
      using no_access_of_unknown[OF s fresh] by (simp add: access_project_ids_def connection_added_def)
    have "connection_of (connection_added call u w n pk p d) ?r = created_connection call w n pk p"
      using ids by (simp add: connection_of_def created_connection_def new_connection_row_def ConnectionStatus_of_def)
    moreover have "find_connection (connection_added call u w n pk p d) w ?c = Some ?r"
      by (rule find_connection_eqI) (use ok in \<open>auto simp: conn_ok_def connection_added_def new_connection_row_def\<close>)
    ultimately have fetch: "fetch_connection w ?c (connection_created_state call x u w n pk p d) =
        Inr (created_connection call w n pk p, connection_created_state call x u w n pk p d)"
      if "\<not> audit_id_used call d"
      using that used fetch_connection_eq[OF audited_ok[OF ok]] by (simp add: connection_created_state_def)
    show ?thesis using Some ex fresh acc fetch
      by (auto simp: repo_create_connection_def begin_tx_def bind_tx_def workspace_context_eq[OF s]
          lift_tx_def validate_projects_eq ins connection_audit_eq used connection_created_state_def
          split: sum.splits)
  qed
qed

end
