(* ===== verification/ConnectionReads.thy ===== *)
theory ConnectionReads
  imports ConnectionMutations
begin

section \<open>The reads of the Connection repository\<close>

text \<open>
  What the four read operations return on well-formed tables, as equations: the paged listing
  of Connections, one Connection, the paged listing of a Connection's revisions and one
  revision. The two listings are pages in the sense of \<open>Keyset\<close>.
\<close>

abbreviation connection_key :: "Connection \<Rightarrow> ConnectionPageCursor" where
  "connection_key c \<equiv> ConnectionPageCursor (cn_created_at c) (cn_connection_id c)"

definition workspace_connection_rows :: "db \<Rightarrow> uuid \<Rightarrow> connection_row list" where
  "workspace_connection_rows d w =
     order_desc connection_row_key (filter (\<lambda>c. c_workspace_id c = w) (connections d))"

definition workspace_connections :: "db \<Rightarrow> uuid \<Rightarrow> Connection list" where
  "workspace_connections d w = map (connection_of d) (workspace_connection_rows d w)"

lemma connection_key_of [simp]: "connection_key (connection_of d c) = connection_row_key c"
  by (simp add: connection_of_def connection_row_key_def)

lemma descending_workspace_connection_rows:
  assumes "schema_ok d"
  shows "descending connection_row_key (workspace_connection_rows d w)"
proof -
  have "distinct (map c_id (filter (\<lambda>c. c_workspace_id c = w) (connections d)))"
    using assms by (simp add: schema_ok_def connections_ok_def distinct_map_filter)
  then have "distinct (map connection_row_key (filter (\<lambda>c. c_workspace_id c = w) (connections d)))"
    by (auto simp: distinct_map inj_on_def connection_row_key_def)
  then show ?thesis unfolding workspace_connection_rows_def by (rule descending_order_desc)
qed

lemma descending_workspace_connections:
  "schema_ok d \<Longrightarrow> descending connection_key (workspace_connections d w)"
  using descending_workspace_connection_rows by (simp add: workspace_connections_def descending_map)

subsection \<open>Listing and getting Connections\<close>

lemma sql_list_connections_rows:
  assumes "schema_ok d" "is_member_row d u w ws m"
  shows "sql_list_connections_for_user u w c n d = map (connection_list_row d) (left_join (ws, m)
    (take (nat n) (filter (\<lambda>p. below c (connection_row_key p)) (workspace_connection_rows d w))))"
proof -
  let ?ys = "take (nat n) (filter (\<lambda>p. below c (connection_row_key p)) (workspace_connection_rows d w))"
  have lateral: "order_desc connection_row_key
     (filter (\<lambda>p. c_workspace_id p = w \<and> below c (connection_row_key p)) (connections d))
     = filter (\<lambda>p. below c (connection_row_key p)) (workspace_connection_rows d w)"
    by (simp add: workspace_connection_rows_def filter_order_desc filter_filter conj_commute)
  have "descending connection_row_key ?ys"
    by (intro descending_take descending_filter descending_workspace_connection_rows[OF assms(1)])
  from order_left_join[OF this, of "(ws, m)"] show ?thesis
    using member_rows_eq[OF assms] assms(2)
    by (simp add: sql_list_connections_for_user_def lateral is_member_row_def)
qed

lemma connection_left_join_items:
  "filter (\<lambda>r. map_of r ''connection_id'' \<noteq> Some PNone) (map (connection_list_row d) (left_join a ys)) =
    map (\<lambda>c. connection_list_row d (a, Some c)) ys"
  by (cases a) (auto simp: left_join_def connection_list_row_def connection_columns_def filter_map comp_def)

lemma hd_connection_left_join: "\<exists>c. hd (map (connection_list_row d) (left_join a ys)) = connection_list_row d (a, c)"
  by (cases ys) (auto simp: left_join_def)

lemma repo_list_connections_eq:
  assumes "conn_ok d" "0 < n"
  shows "repo_list_connections_for_user u w c (int n) d = Inr (case conn_context d u w of
        None \<Rightarrow> \<lparr>cpl_context = None, cpl_page = \<lparr>cp_items = [], cp_next_cursor = None\<rparr>\<rparr>
      | Some x \<Rightarrow> \<lparr>cpl_context = Some x, cpl_page =
          \<lparr>cp_items = fst (page_spec connection_key (workspace_connections d w) c n),
           cp_next_cursor = snd (page_spec connection_key (workspace_connections d w) c n)\<rparr>\<rparr>)"
proof -
  have s: "schema_ok d" using assms(1) by (simp add: conn_ok_def)
  show ?thesis
    using s
  proof (cases rule: conn_context_cases[of d u w])
    case none
    then show ?thesis
      by (simp add: repo_list_connections_for_user_def sql_list_connections_for_user_def order_desc_def)
  next
    case (member ws m)
    let ?ys = "take (nat (int n + 1)) (filter (\<lambda>p. below c (connection_row_key p)) (workspace_connection_rows d w))"
    let ?rows = "map (connection_list_row d) (left_join (ws, m) ?ys)"
    have ne: "?rows \<noteq> []" by (simp add: left_join_def)
    obtain p where hd: "hd ?rows = connection_list_row d ((ws, m), p)"
      using hd_connection_left_join[of d "(ws, m)" ?ys] by auto
    have sub: "p \<in> set (connections d)" if "p \<in> set ?ys" for p
      using in_set_takeD[OF that] by (simp add: workspace_connection_rows_def)
    have conv: "map_res connection_from_row (map (\<lambda>p. connection_list_row d ((ws, m), Some p)) ?ys)
        = Inr (map (connection_of d) ?ys)"
      unfolding map_res_map by (rule map_res_Inr_map) (rule connection_from_row_ok(2)[OF assms(1) sub])
    have "map (connection_of d) ?ys =
        take (n + 1) (filter (\<lambda>p. below c (connection_key p)) (workspace_connections d w))"
      by (simp add: workspace_connections_def filter_map comp_def take_map nat_add_distrib)
    from page_of_fetched[OF assms(2) this] show ?thesis
      using ne member(3)
      by (simp add: repo_list_connections_for_user_def sql_list_connections_rows[OF s member(2)] hd
          conn_context_row_ok(2)[OF s member(2)] connection_left_join_items conv Let_def
          prod_eq_iff del: map_is_Nil_conv)
  qed
qed

lemma repo_get_connection_eq:
  assumes "conn_ok d"
  shows "repo_get_connection_for_user u w c d = Inr (case conn_context d u w of
        None \<Rightarrow> \<lparr>cl_context = None, cl_connection = None\<rparr>
      | Some x \<Rightarrow> \<lparr>cl_context = Some x,
          cl_connection = map_option (connection_of d) (find_connection d w c)\<rparr>)"
proof -
  have s: "schema_ok d" using assms(1) by (simp add: conn_ok_def)
  let ?L = "filter (\<lambda>r. c_workspace_id r = w \<and> c_id r = c) (connections d)"
  show ?thesis
    using s
  proof (cases rule: conn_context_cases[of d u w])
    case none
    then show ?thesis
      by (simp add: repo_get_connection_for_user_def sql_get_connection_for_user_def)
  next
    case (member ws m)
    have rows: "sql_get_connection_for_user u w c d = map (connection_list_row d) (left_join (ws, m) ?L)"
      using member by (simp add: sql_get_connection_for_user_def is_member_row_def)
    have "distinct (map c_id (connections d))" using s by (simp add: schema_ok_def connections_ok_def)
    from one_or_none_find[OF this, of "\<lambda>r. c_workspace_id r = w" c]
    have one: "one_or_none ?L = Inr (find_connection d w c)" by (simp add: find_connection_def)
    show ?thesis
    proof (cases "find_connection d w c")
      case None
      then have "?L = []" using one by (cases ?L rule: one_or_none.cases) auto
      then show ?thesis using None member(3) conn_context_row_ok(2)[OF s member(2)]
        by (simp add: repo_get_connection_for_user_def rows left_join_def)
          (simp add: connection_list_row_def connection_columns_def row_get_def)
    next
      case (Some r)
      then have L: "?L = [r]" using one by (cases ?L rule: one_or_none.cases) auto
      have "row_get (connection_list_row d ((ws, m), Some r)) ''connection_id'' = Inr (PUuid (c_id r))"
        by (simp add: connection_list_row_def connection_columns_def row_get_def)
      then show ?thesis
        using Some L member(3) conn_context_row_ok(2)[OF s member(2)] find_connection_Some[OF Some]
          connection_from_row_ok(2)[OF assms]
        by (simp add: repo_get_connection_for_user_def rows left_join_def)
    qed
  qed
qed

subsection \<open>Revisions\<close>

definition revision_rows :: "db \<Rightarrow> uuid \<Rightarrow> uuid \<Rightarrow> revision_row list" where
  "revision_rows d w c =
     order_desc r_number (filter (\<lambda>r. r_workspace_id r = w \<and> r_connection_id r = c) (revisions d))"

definition find_revision :: "db \<Rightarrow> uuid \<Rightarrow> uuid \<Rightarrow> uuid \<Rightarrow> revision_row option" where
  "find_revision d w c i =
     find (\<lambda>r. (r_workspace_id r = w \<and> r_connection_id r = c) \<and> r_id r = i) (revisions d)"

lemma descending_revision_rows:
  assumes "schema_ok d"
  shows "descending r_number (revision_rows d w c)"
proof -
  let ?L = "filter (\<lambda>r. r_workspace_id r = w \<and> r_connection_id r = c) (revisions d)"
  have "distinct (map (\<lambda>r. (r_connection_id r, r_number r)) ?L)"
    using assms by (simp add: schema_ok_def revisions_ok_def distinct_map_filter)
  then have "distinct (map r_number ?L)"
    by (auto simp: distinct_map inj_on_def)
  then show ?thesis unfolding revision_rows_def by (rule descending_order_desc)
qed

lemma repo_list_revisions_eq:
  assumes "schema_ok d" "0 < n"
  shows "repo_list_revisions_for_user u w c b (int n) d = (case conn_context d u w of
      None \<Rightarrow> Inl ConnectionWorkspaceNotFoundError
    | Some x \<Rightarrow> (case find_connection d w c of
        None \<Rightarrow> Inl ConnectionNotFoundError
      | Some r \<Rightarrow> Inr \<lparr>rpl_context = Some (mutation_context_of x r), rpl_page =
          \<lparr>rp_items = fst (page_spec rm_revision_number (map metadata_of (revision_rows d w c)) b n),
           rp_next_before_revision =
             snd (page_spec rm_revision_number (map metadata_of (revision_rows d w c)) b n)\<rparr>\<rparr>))"
proof -
  define ys where "ys = take (n + 1) (filter (\<lambda>r. below b (r_number r)) (revision_rows d w c))"
  let ?P = "page_spec rm_revision_number (map metadata_of (revision_rows d w c)) b n"
  have rows: "sql_list_revisions w c b (int n + 1) d = map revision_meta_columns ys"
    by (simp add: ys_def sql_list_revisions_def revision_rows_def filter_order_desc nat_add_distrib
        filter_filter conj_ac)
  have key: "rm_revision_number (metadata_of r) = r_number r" for r by (simp add: metadata_of_def)
  have "map metadata_of ys = take (n + 1) (filter (\<lambda>m. below b (rm_revision_number m)) (map metadata_of (revision_rows d w c)))"
    by (simp add: ys_def filter_map comp_def take_map key)
  note page = page_of_fetched[OF assms(2) this]
  have items: "map_res revision_metadata_from_row (map revision_meta_columns (take n ys)) = Inr (fst ?P)"
    unfolding map_res_map page[symmetric] fst_conv take_map by (rule map_res_Inr_map) simp
  have nxt: "snd ?P = (if n < length ys \<and> take n ys \<noteq> [] then Some (r_number (last (take n ys))) else None)"
    unfolding page[symmetric] by (simp add: take_map last_map key)
  have num: "row_get (revision_meta_columns r) ''revision_number'' = Inr (PInt (r_number r))" for r
    by (simp add: revision_meta_columns_def row_get_def)
  show ?thesis
  proof (cases "n < length ys \<and> take n ys \<noteq> []")
    case True
    then have "row_get (last (map revision_meta_columns (take n ys))) ''revision_number'' =
        Inr (PInt (r_number (last (take n ys))))" by (simp add: last_map num)
    with True show ?thesis
      by (simp add: repo_list_revisions_for_user_def read_tx_def bind_tx_def mutation_context_eq[OF assms(1)]
          rows Let_def take_map items nxt int_field_def split: option.split)
  next
    case False
    then have "n < length ys \<Longrightarrow> take n ys = []" by blast
    then show ?thesis using assms(2)
      by (auto simp add: repo_list_revisions_for_user_def read_tx_def bind_tx_def
          mutation_context_eq[OF assms(1)] rows Let_def take_map items nxt split: option.split)
  qed
qed

lemma repo_get_revision_eq:
  assumes "schema_ok d"
  shows "repo_get_revision_for_user u w c i d = (case conn_context d u w of
      None \<Rightarrow> Inl ConnectionWorkspaceNotFoundError
    | Some x \<Rightarrow> (case find_connection d w c of
        None \<Rightarrow> Inl ConnectionNotFoundError
      | Some r \<Rightarrow> Inr \<lparr>rl_context = Some (mutation_context_of x r),
                       rl_revision = map_option revision_of (find_revision d w c i)\<rparr>))"
proof -
  have "distinct (map r_id (revisions d))" using assms by (simp add: schema_ok_def revisions_ok_def)
  from one_or_none_find[OF this, of "\<lambda>r. r_workspace_id r = w \<and> r_connection_id r = c" i]
  have "one_or_none (sql_get_revision w c i d) = Inr (map_option revision_columns (find_revision d w c i))"
    by (simp add: sql_get_revision_def one_or_none_map find_revision_def)
  then show ?thesis
    by (simp add: repo_get_revision_for_user_def read_tx_def bind_tx_def mutation_context_eq[OF assms]
        split: option.split)
qed

end
