(* ===== verification/ConnectionProviders.thy ===== *)
theory ConnectionProviders
  imports ConnectionPolicies
begin

section \<open>Connection providers\<close>

text \<open>
  \<open>domains/connections/providers.py\<close>: the generic HTTP provider's canonicalisation of
  \<open>base_url\<close>, the provider registry and the serialisation that is hashed at publication.
  What the source uses of the standard library is written out from CPython 3.13: \<open>urlsplit\<close>
  and \<open>urlunsplit\<close> with the derived attributes \<open>hostname\<close>, \<open>port\<close>, \<open>username\<close> and \<open>password\<close>,
  \<open>json.dumps\<close> and UTF-8, on code points below 256. Two things are parameters: the check of a
  bracketed IP literal inside \<open>urlsplit\<close> (it differs between patch releases and ends in the
  \<open>ipaddress\<close> module), \<open>brackets_ok\<close>, and \<open>hashlib.sha256\<close>.
\<close>

subsection \<open>String operations of the standard library\<close>

abbreviation code :: "char \<Rightarrow> nat" where "code c \<equiv> of_char c"

text \<open>\<open>s.partition(c)\<close> and \<open>s.rpartition(c)\<close>: the middle component is whether \<open>c\<close> occurs.\<close>

definition str_partition :: "char \<Rightarrow> string \<Rightarrow> string \<times> bool \<times> string" where
  "str_partition c s =
     (let pre = takeWhile (\<lambda>x. x \<noteq> c) s in (pre, c \<in> set s, drop (Suc (length pre)) s))"

definition str_rpartition :: "char \<Rightarrow> string \<Rightarrow> string \<times> bool \<times> string" where
  "str_rpartition c s =
     (let after = rev (takeWhile (\<lambda>x. x \<noteq> c) (rev s)) in
      if c \<in> set s then (take (length s - Suc (length after)) s, True, after) else ([], False, s))"

definition rstrip_char :: "char \<Rightarrow> string \<Rightarrow> string" where
  "rstrip_char c s = rev (dropWhile (\<lambda>x. x = c) (rev s))"

definition is_ascii_alpha :: "char \<Rightarrow> bool" where
  "is_ascii_alpha c \<longleftrightarrow> 65 \<le> code c \<and> code c \<le> 90 \<or> 97 \<le> code c \<and> code c \<le> 122"

definition is_ascii_digit :: "char \<Rightarrow> bool" where
  "is_ascii_digit c \<longleftrightarrow> 48 \<le> code c \<and> code c \<le> 57"

definition digits_value :: "string \<Rightarrow> int" where
  "digits_value s = foldl (\<lambda>a c. 10 * a + (int (code c) - 48)) 0 s"

fun nat_str :: "nat \<Rightarrow> string" where
  "nat_str n = (if n < 10 then [char_of (48 + n)] else nat_str (n div 10) @ [char_of (48 + n mod 10)])"

declare nat_str.simps [simp del]

definition int_str :: "int \<Rightarrow> string" where
  "int_str n = (if n < 0 then CHR ''-'' # nat_str (nat (- n)) else nat_str (nat n))"

subsection \<open>\<open>urllib.parse\<close>\<close>

record SplitResult =
  sr_scheme :: string
  sr_netloc :: string
  sr_path :: string
  sr_query :: string
  sr_fragment :: string

definition scheme_char :: "char \<Rightarrow> bool" where
  "scheme_char c \<longleftrightarrow> is_ascii_alpha c \<or> is_ascii_digit c \<or> c \<in> set ''+-.''"

definition c0_or_space :: "char \<Rightarrow> bool" where "c0_or_space c \<longleftrightarrow> code c \<le> 32"

definition unsafe_url_char :: "char \<Rightarrow> bool" where "unsafe_url_char c \<longleftrightarrow> code c \<in> {9, 10, 13}"

definition netloc_end :: "char \<Rightarrow> bool" where "netloc_end c \<longleftrightarrow> c \<in> set ''/?#''"

text \<open>
  The result for a default scheme of \<open>''\<close>. The NFKC check of the netloc never raises on code
  points below 256 and is left out.
\<close>

definition urlsplit :: "(string \<Rightarrow> bool) \<Rightarrow> string \<Rightarrow> exn + SplitResult" where
  "urlsplit brackets_ok value =
     (let url = filter (\<lambda>c. \<not> unsafe_url_char c) (dropWhile c0_or_space value);
          head = takeWhile (\<lambda>c. c \<noteq> CHR '':'') url;
          (scheme, rest) =
            (if CHR '':'' \<in> set url \<and> head \<noteq> [] \<and> is_ascii_alpha (hd url) \<and> (\<forall>c \<in> set head. scheme_char c)
             then (lower head, drop (Suc (length head)) url) else ([], url));
          (netloc, rest) =
            (if starts_with ''//'' rest
             then (takeWhile (\<lambda>c. \<not> netloc_end c) (drop 2 rest), dropWhile (\<lambda>c. \<not> netloc_end c) (drop 2 rest))
             else ([], rest))
      in if (CHR ''['' \<in> set netloc) \<noteq> (CHR '']'' \<in> set netloc) then Inl (ValueError ''Invalid IPv6 URL'')
         else if CHR ''['' \<in> set netloc \<and> \<not> brackets_ok netloc then Inl (ValueError ''Invalid IPv6 URL'')
         else
           (let (rest, _, fragment) = str_partition (CHR ''#'') rest;
                (path, _, query) = str_partition (CHR ''?'') rest
            in Inr \<lparr>sr_scheme = scheme, sr_netloc = netloc, sr_path = path, sr_query = query,
                    sr_fragment = fragment\<rparr>))"

definition userinfo :: "SplitResult \<Rightarrow> string option \<times> string option" where
  "userinfo r =
     (let (info, have_info, _) = str_rpartition (CHR ''@'') (sr_netloc r) in
      if have_info then
        (let (username, have_password, password) = str_partition (CHR '':'') info in
         (Some username, if have_password then Some password else None))
      else (None, None))"

definition hostinfo :: "SplitResult \<Rightarrow> string \<times> string option" where
  "hostinfo r =
     (let (_, _, info) = str_rpartition (CHR ''@'') (sr_netloc r);
          (_, have_open_br, bracketed) = str_partition (CHR ''['') info;
          (host, port) =
            (if have_open_br then
               (let (host, _, port) = str_partition (CHR '']'') bracketed;
                    (_, _, port) = str_partition (CHR '':'') port
                in (host, port))
             else (let (host, _, port) = str_partition (CHR '':'') info in (host, port)))
      in (host, if port = [] then None else Some port))"

definition url_hostname :: "SplitResult \<Rightarrow> string option" where
  "url_hostname r =
     (let host = fst (hostinfo r) in
      if host = [] then None
      else (let (host, percent, zone) = str_partition (CHR ''%'') host in
            Some (lower host @ (if percent then ''%'' else []) @ zone)))"

definition url_port :: "SplitResult \<Rightarrow> exn + int option" where
  "url_port r =
     (case snd (hostinfo r) of
        None \<Rightarrow> Inr None
      | Some port \<Rightarrow>
          if \<not> (\<forall>c \<in> set port. is_ascii_digit c)
          then Inl (ValueError ''Port could not be cast to integer value'')
          else if digits_value port > 65535 then Inl (ValueError ''Port out of range 0-65535'')
          else Inr (Some (digits_value port)))"

definition urlunsplit :: "SplitResult \<Rightarrow> string" where
  "urlunsplit r =
     (let url = (if sr_netloc r \<noteq> [] then
                   ''//'' @ sr_netloc r @
                     (if sr_path r \<noteq> [] \<and> \<not> starts_with ''/'' (sr_path r) then ''/'' else []) @ sr_path r
                 else if starts_with ''//'' (sr_path r) then ''//'' @ sr_path r
                 else sr_path r);
          url = (if sr_scheme r \<noteq> [] then sr_scheme r @ '':'' @ url else url);
          url = (if sr_query r \<noteq> [] then url @ ''?'' @ sr_query r else url)
      in if sr_fragment r \<noteq> [] then url @ ''#'' @ sr_fragment r else url)"

subsection \<open>\<open>json.dumps\<close> and UTF-8\<close>

definition json_escape :: "char \<Rightarrow> string" where
  "json_escape c =
     (if c = CHR 0x22 then [CHR 0x5C, CHR 0x22]
      else if c = CHR 0x5C then [CHR 0x5C, CHR 0x5C]
      else if code c = 10 then [CHR 0x5C, CHR ''n'']
      else if code c = 13 then [CHR 0x5C, CHR ''r'']
      else if code c = 9 then [CHR 0x5C, CHR ''t'']
      else if code c = 12 then [CHR 0x5C, CHR ''f'']
      else if code c = 8 then [CHR 0x5C, CHR ''b'']
      else if code c < 32 then [CHR 0x5C] @ ''u'' @ hex_digits 4 (int (code c))
      else [c])"

definition json_quote :: "string \<Rightarrow> string" where
  "json_quote s = [CHR 0x22] @ concat (map json_escape s) @ [CHR 0x22]"

fun join_comma :: "string list \<Rightarrow> string" where
  "join_comma [] = []"
| "join_comma [s] = s"
| "join_comma (s # t # ts) = s @ '','' @ join_comma (t # ts)"

text \<open>\<open>json.dumps(value, ensure_ascii=False, separators=(",", ":"), sort_keys=True)\<close>.\<close>

primrec dumps :: "json \<Rightarrow> string" where
  "dumps JNull = ''null''"
| "dumps (JBool b) = (if b then ''true'' else ''false'')"
| "dumps (JInt n) = int_str n"
| "dumps (JFloat s) = s"
| "dumps (JStr s) = json_quote s"
| "dumps (JArr xs) = ''['' @ join_comma (map dumps xs) @ '']''"
| "dumps (JObj kvs) = ''{'' @ join_comma (map (\<lambda>(k, v). json_quote k @ '':'' @ v)
     (sort_key fst (map (map_prod id dumps) kvs))) @ ''}''"

definition utf8 :: "string \<Rightarrow> 8 word list" where
  "utf8 s = concat (map (\<lambda>c. if code c < 128 then [of_nat (code c)]
     else [of_nat (192 + code c div 64), of_nat (128 + code c mod 64)]) s)"

subsection \<open>The generic HTTP provider\<close>

definition GENERIC_HTTP_PROVIDER_KEY :: string where
  "GENERIC_HTTP_PROVIDER_KEY = ''generic_http''"

definition normalize_base_url :: "(string \<Rightarrow> bool) \<Rightarrow> string \<Rightarrow> exn + string" where
  "normalize_base_url brackets_ok value =
     (let candidate = strip value in
      if candidate = [] then Inl (ProviderConfigurationError ''base_url must not be empty'')
      else
        case bind_res (urlsplit brackets_ok candidate) (\<lambda>parsed.
             bind_res (url_port parsed) (\<lambda>port. Inr (parsed, port))) of
          Inl _ \<Rightarrow> Inl (ProviderConfigurationError ''base_url is not a valid URL'')
        | Inr (parsed, port) \<Rightarrow>
            if casefold (sr_scheme parsed) \<noteq> ''https''
            then Inl (ProviderConfigurationError ''base_url must use https'')
            else (case url_hostname parsed of
              None \<Rightarrow> Inl (ProviderConfigurationError ''base_url must include a host'')
            | Some hostname \<Rightarrow>
                if fst (userinfo parsed) \<noteq> None \<or> snd (userinfo parsed) \<noteq> None
                then Inl (ProviderConfigurationError ''base_url must not contain credentials'')
                else if sr_query parsed \<noteq> [] \<or> sr_fragment parsed \<noteq> []
                then Inl (ProviderConfigurationError ''base_url must not contain a query string or fragment'')
                else
                  (let host = casefold hostname in
                   if \<exists>c \<in> set host. is_space c
                   then Inl (ProviderConfigurationError ''base_url host must not contain whitespace'')
                   else
                     (let host = (if CHR '':'' \<in> set host \<and> \<not> starts_with ''['' host
                                  then ''['' @ host @ '']'' else host);
                          netloc = (if port = None \<or> port = Some 443 then host
                                    else host @ '':'' @ int_str (the port));
                          path = rstrip_char (CHR ''/'') (sr_path parsed)
                      in Inr (urlunsplit \<lparr>sr_scheme = ''https'', sr_netloc = netloc, sr_path = path,
                                          sr_query = [], sr_fragment = []\<rparr>)))))"

definition generic_http_canonicalize :: "(string \<Rightarrow> bool) \<Rightarrow> json_object \<Rightarrow> exn + json_object" where
  "generic_http_canonicalize brackets_ok configuration =
     (if set (map fst configuration) \<noteq> {''base_url''}
      then Inl (ProviderConfigurationError ''generic_http configuration must contain only base_url'')
      else case map_of configuration ''base_url'' of
        Some (JStr base_url) \<Rightarrow>
          bind_res (normalize_base_url brackets_ok base_url) (\<lambda>normalized.
          Inr [(''base_url'', JStr normalized)])
      | _ \<Rightarrow> Inl (ProviderConfigurationError ''base_url must be a string''))"

subsection \<open>The registry\<close>

record ConnectionProvider =
  prov_key :: string
  prov_schema_version :: int
  prov_canonicalize :: "json_object \<Rightarrow> exn + json_object"

type_synonym registry = "(string \<times> ConnectionProvider) list"

definition generic_http_provider :: "(string \<Rightarrow> bool) \<Rightarrow> ConnectionProvider" where
  "generic_http_provider brackets_ok = \<lparr>prov_key = GENERIC_HTTP_PROVIDER_KEY, prov_schema_version = 1,
     prov_canonicalize = generic_http_canonicalize brackets_ok\<rparr>"

text \<open>A dict comprehension: of equal keys the last provider stays.\<close>

definition registry_of :: "ConnectionProvider list \<Rightarrow> exn + registry" where
  "registry_of providers =
     (let mapped = rev (map (\<lambda>p. (prov_key p, p)) providers) in
      if length (remdups (map fst mapped)) \<noteq> length providers
      then Inl (ValueError ''provider keys must be unique'')
      else Inr mapped)"

definition default_registry :: "(string \<Rightarrow> bool) \<Rightarrow> exn + registry" where
  "default_registry brackets_ok = registry_of [generic_http_provider brackets_ok]"

definition registry_require :: "registry \<Rightarrow> string \<Rightarrow> exn + ConnectionProvider" where
  "registry_require reg provider_key =
     (case map_of reg provider_key of
        None \<Rightarrow> Inl (ProviderConfigurationError ''provider key is not supported'')
      | Some p \<Rightarrow> Inr p)"

definition registry_publish ::
  "(8 word list \<Rightarrow> 8 word list) \<Rightarrow> registry \<Rightarrow> string \<Rightarrow> json_object \<Rightarrow> exn + PublishedConnectionConfiguration" where
  "registry_publish sha256 reg provider_key configuration =
     bind_res (registry_require reg provider_key) (\<lambda>provider.
     bind_res (prov_canonicalize provider configuration) (\<lambda>canonical.
     let serialized = utf8 (dumps (JObj canonical))
     in Inr \<lparr>pub_definition_schema_version = prov_schema_version provider,
             pub_configuration = canonical, pub_config_hash = sha256 serialized\<rparr>))"

definition registry_compile_draft :: "registry \<Rightarrow> string \<Rightarrow> json_object \<Rightarrow> exn + json_object" where
  "registry_compile_draft reg provider_key configuration =
     bind_res (registry_require reg provider_key) (\<lambda>provider.
     prov_canonicalize provider configuration)"

end
