(* ===== verification/ConnectionService.thy ===== *)
theory ConnectionService
  imports ConnectionReads ConnectionProviders
begin

section \<open>The Connection service\<close>

text \<open>
  \<open>domains/connections/service.py\<close>: the eleven operations of \<open>ConnectionService\<close> over a
  repository and a provider registry, both arguments as in its constructor, the authorizers it
  hands to the repository, and the configuration compilers with their change of exception. The
  contract the mutations of the repository share is the locale \<open>guarded_mutation\<close>.
\<close>

subsection \<open>Authorizers and compilers\<close>

definition authorize_connection_read :: "ConnectionWorkspaceContext option \<Rightarrow> exn + unit" where
  "authorize_connection_read context =
     (case context of None \<Rightarrow> Inl ConnectionWorkspaceNotFoundError
      | Some c \<Rightarrow> if \<not> can_read_connections (cw_role c) then Inl ConnectionWorkspaceNotFoundError else Inr ())"

definition authorize_read_mutation_context :: "ConnectionMutationContext option \<Rightarrow> exn + unit" where
  "authorize_read_mutation_context context =
     (case context of None \<Rightarrow> Inl ConnectionWorkspaceNotFoundError
      | Some c \<Rightarrow> if \<not> can_read_connections (cw_role (cm_workspace c))
                  then Inl ConnectionWorkspaceNotFoundError else Inr ())"

definition authorize_connection_creation ::
  "ConnectionWorkspaceContext \<Rightarrow> ConnectionAccessPolicy \<Rightarrow> exn + unit" where
  "authorize_connection_creation context access_policy =
     (if \<not> can_create_with_access (cw_role context) (ap_mode access_policy)
      then Inl (ConnectionPermissionDeniedError ''connection creation is not permitted'')
      else if \<not> workspace_allows_connection_mutation (cw_status context)
      then Inl (ConnectionWorkspaceNotActiveError ''workspace lifecycle does not allow connection creation'')
      else Inr ())"

definition authorize_authoring :: "ConnectionMutationContext \<Rightarrow> exn + unit" where
  "authorize_authoring context =
     (if \<not> can_author_connections (cw_role (cm_workspace context))
      then Inl (ConnectionPermissionDeniedError ''connection authoring is not permitted'')
      else if \<not> workspace_allows_connection_mutation (cw_status (cm_workspace context))
      then Inl (ConnectionWorkspaceNotActiveError ''workspace lifecycle does not allow connection authoring'')
      else if \<not> connection_allows_authoring (cm_status context)
      then Inl (ConnectionStateConflictError ''connection lifecycle does not allow authoring'')
      else Inr ())"

definition authorize_access :: "ConnectionAccessPolicy \<Rightarrow> ConnectionMutationContext \<Rightarrow> exn + unit" where
  "authorize_access access_policy context =
     (if \<not> can_replace_access (cw_role (cm_workspace context)) (cm_access_mode context) (ap_mode access_policy)
      then Inl (ConnectionPermissionDeniedError ''connection access management is not permitted'')
      else if \<not> workspace_allows_connection_mutation (cw_status (cm_workspace context))
      then Inl (ConnectionWorkspaceNotActiveError ''workspace lifecycle does not allow connection access changes'')
      else if \<not> connection_allows_access_replacement (cm_status context)
      then Inl (ConnectionStateConflictError ''connection lifecycle does not allow access changes'')
      else Inr ())"

definition authorize_lifecycle :: "ConnectionLifecycleAction \<Rightarrow> ConnectionMutationContext \<Rightarrow> exn + unit" where
  "authorize_lifecycle action context =
     (if \<not> can_manage_connection_lifecycle (cw_role (cm_workspace context))
      then Inl (ConnectionPermissionDeniedError ''connection lifecycle management is not permitted'')
      else if \<not> workspace_allows_lifecycle_action (cw_status (cm_workspace context)) action
      then Inl (ConnectionWorkspaceNotActiveError ''workspace lifecycle does not allow this connection transition'')
      else if \<not> lifecycle_transition_allowed (cm_status context) action
      then Inl (ConnectionStateConflictError ''connection lifecycle transition is not permitted'')
      else Inr ())"

text \<open>\<open>except ProviderConfigurationError as exc: raise ConnectionConfigurationInvalidError(str(exc))\<close>.\<close>

definition configuration_invalid :: "exn + 'a \<Rightarrow> exn + 'a" where
  "configuration_invalid r =
     (case r of Inl (ProviderConfigurationError m) \<Rightarrow> Inl (ConnectionConfigurationInvalidError m) | _ \<Rightarrow> r)"

definition compile_publication ::
  "(8 word list \<Rightarrow> 8 word list) \<Rightarrow> registry \<Rightarrow> ConnectionMutationContext \<Rightarrow> json_object
     \<Rightarrow> exn + PublishedConnectionConfiguration" where
  "compile_publication sha256 reg context configuration =
     configuration_invalid (registry_publish sha256 reg (cm_provider_key context) configuration)"

definition compile_draft :: "registry \<Rightarrow> ConnectionMutationContext \<Rightarrow> json_object \<Rightarrow> exn + json_object" where
  "compile_draft reg context configuration =
     configuration_invalid (registry_compile_draft reg (cm_provider_key context) configuration)"

subsection \<open>Operations\<close>

definition create_connection ::
  "registry \<Rightarrow> ((ConnectionWorkspaceContext \<Rightarrow> exn + unit) \<Rightarrow> uuid \<Rightarrow> uuid \<Rightarrow> string \<Rightarrow> string
       \<Rightarrow> ConnectionAccessPolicy \<Rightarrow> 'd \<Rightarrow> (exn + Connection) \<times> 'd)
     \<Rightarrow> uuid \<Rightarrow> uuid \<Rightarrow> string \<Rightarrow> string \<Rightarrow> ConnectionAccessPolicy \<Rightarrow> 'd \<Rightarrow> (exn + Connection) \<times> 'd" where
  "create_connection reg repository_create user_id workspace_id name provider_key access_policy d =
     (case normalize_connection_name name of Inl e \<Rightarrow> (Inl e, d) | Inr normalized_name \<Rightarrow>
     (case normalize_provider_key provider_key of Inl e \<Rightarrow> (Inl e, d) | Inr normalized_provider \<Rightarrow>
     (case normalize_access_policy (ap_mode access_policy) (ap_project_ids access_policy) of
        Inl e \<Rightarrow> (Inl e, d) | Inr normalized_access \<Rightarrow>
     (case configuration_invalid (registry_require reg normalized_provider) of Inl e \<Rightarrow> (Inl e, d) | Inr _ \<Rightarrow>
      repository_create (\<lambda>context. authorize_connection_creation context normalized_access)
        user_id workspace_id normalized_name normalized_provider normalized_access d))))"

definition list_connections ::
  "(uuid \<Rightarrow> uuid \<Rightarrow> ConnectionPageCursor option \<Rightarrow> int \<Rightarrow> 'd \<Rightarrow> exn + ConnectionPageLookup)
     \<Rightarrow> uuid \<Rightarrow> uuid \<Rightarrow> ConnectionPageCursor option \<Rightarrow> int \<Rightarrow> 'd \<Rightarrow> exn + ConnectionPage" where
  "list_connections repository_list user_id workspace_id cursor limit d =
     bind_res (validate_connection_page_limit limit) (\<lambda>limit.
     bind_res (repository_list user_id workspace_id cursor limit d) (\<lambda>lookup.
     bind_res (authorize_connection_read (cpl_context lookup)) (\<lambda>_.
     Inr (cpl_page lookup))))"

definition get_connection ::
  "(uuid \<Rightarrow> uuid \<Rightarrow> uuid \<Rightarrow> 'd \<Rightarrow> exn + ConnectionLookup) \<Rightarrow> uuid \<Rightarrow> uuid \<Rightarrow> uuid \<Rightarrow> 'd \<Rightarrow> exn + Connection" where
  "get_connection repository_get user_id workspace_id connection_id d =
     bind_res (repository_get user_id workspace_id connection_id d) (\<lambda>lookup.
     bind_res (authorize_connection_read (cl_context lookup)) (\<lambda>_.
     case cl_connection lookup of None \<Rightarrow> Inl ConnectionNotFoundError | Some c \<Rightarrow> Inr c))"

definition rename_connection ::
  "((ConnectionMutationContext \<Rightarrow> exn + unit) \<Rightarrow> uuid \<Rightarrow> uuid \<Rightarrow> uuid \<Rightarrow> string \<Rightarrow> 'd \<Rightarrow> (exn + Connection) \<times> 'd)
     \<Rightarrow> uuid \<Rightarrow> uuid \<Rightarrow> uuid \<Rightarrow> string \<Rightarrow> 'd \<Rightarrow> (exn + Connection) \<times> 'd" where
  "rename_connection repository_rename user_id workspace_id connection_id name d =
     (case normalize_connection_name name of Inl e \<Rightarrow> (Inl e, d)
      | Inr n \<Rightarrow> repository_rename authorize_authoring user_id workspace_id connection_id n d)"

definition get_draft ::
  "(uuid \<Rightarrow> uuid \<Rightarrow> uuid \<Rightarrow> 'd \<Rightarrow> exn + ConnectionDraftLookup) \<Rightarrow> uuid \<Rightarrow> uuid \<Rightarrow> uuid \<Rightarrow> 'd
     \<Rightarrow> exn + ConnectionDraft" where
  "get_draft repository_get_draft user_id workspace_id connection_id d =
     bind_res (repository_get_draft user_id workspace_id connection_id d) (\<lambda>lookup.
     case cdl_context lookup of
       None \<Rightarrow> Inl ConnectionWorkspaceNotFoundError
     | Some context \<Rightarrow>
         bind_res (authorize_authoring context) (\<lambda>_.
         case cdl_draft lookup of
           None \<Rightarrow> Inl (ConnectionStateConflictError ''connection draft does not exist'')
         | Some x \<Rightarrow> Inr x))"

definition put_draft ::
  "registry \<Rightarrow> ((ConnectionMutationContext \<Rightarrow> exn + unit)
       \<Rightarrow> (ConnectionMutationContext \<Rightarrow> json_object \<Rightarrow> exn + json_object)
       \<Rightarrow> uuid \<Rightarrow> uuid \<Rightarrow> uuid \<Rightarrow> json_object \<Rightarrow> 'd \<Rightarrow> (exn + ConnectionDraft) \<times> 'd)
     \<Rightarrow> uuid \<Rightarrow> uuid \<Rightarrow> uuid \<Rightarrow> json_object \<Rightarrow> 'd \<Rightarrow> (exn + ConnectionDraft) \<times> 'd" where
  "put_draft reg repository_put_draft user_id workspace_id connection_id configuration d =
     repository_put_draft authorize_authoring (compile_draft reg) user_id workspace_id connection_id
       (normalize_draft_configuration configuration) d"

definition list_revisions ::
  "(uuid \<Rightarrow> uuid \<Rightarrow> uuid \<Rightarrow> int option \<Rightarrow> int \<Rightarrow> 'd \<Rightarrow> exn + ConnectionRevisionPageLookup)
     \<Rightarrow> uuid \<Rightarrow> uuid \<Rightarrow> uuid \<Rightarrow> int option \<Rightarrow> int \<Rightarrow> 'd \<Rightarrow> exn + ConnectionRevisionPage" where
  "list_revisions repository_list user_id workspace_id connection_id before_revision limit d =
     bind_res (validate_before_revision before_revision) (\<lambda>before_revision.
     bind_res (validate_connection_revision_page_limit limit) (\<lambda>limit.
     bind_res (repository_list user_id workspace_id connection_id before_revision limit d) (\<lambda>lookup.
     bind_res (authorize_read_mutation_context (rpl_context lookup)) (\<lambda>_.
     Inr (rpl_page lookup)))))"

definition get_revision ::
  "(uuid \<Rightarrow> uuid \<Rightarrow> uuid \<Rightarrow> uuid \<Rightarrow> 'd \<Rightarrow> exn + ConnectionRevisionLookup)
     \<Rightarrow> uuid \<Rightarrow> uuid \<Rightarrow> uuid \<Rightarrow> uuid \<Rightarrow> 'd \<Rightarrow> exn + ConnectionRevision" where
  "get_revision repository_get user_id workspace_id connection_id revision_id d =
     bind_res (repository_get user_id workspace_id connection_id revision_id d) (\<lambda>lookup.
     case rl_context lookup of
       None \<Rightarrow> Inl ConnectionWorkspaceNotFoundError
     | Some context \<Rightarrow>
         if \<not> can_author_connections (cw_role (cm_workspace context))
         then Inl (ConnectionPermissionDeniedError ''connection configuration read is not permitted'')
         else (case rl_revision lookup of None \<Rightarrow> Inl ConnectionNotFoundError | Some r \<Rightarrow> Inr r))"

definition publish_revision ::
  "(8 word list \<Rightarrow> 8 word list) \<Rightarrow> registry \<Rightarrow> ((ConnectionMutationContext \<Rightarrow> exn + unit)
       \<Rightarrow> (ConnectionMutationContext \<Rightarrow> json_object \<Rightarrow> exn + PublishedConnectionConfiguration)
       \<Rightarrow> uuid \<Rightarrow> uuid \<Rightarrow> uuid \<Rightarrow> 'd \<Rightarrow> (exn + ConnectionRevision) \<times> 'd)
     \<Rightarrow> uuid \<Rightarrow> uuid \<Rightarrow> uuid \<Rightarrow> 'd \<Rightarrow> (exn + ConnectionRevision) \<times> 'd" where
  "publish_revision sha256 reg repository_publish user_id workspace_id connection_id d =
     repository_publish authorize_authoring (compile_publication sha256 reg)
       user_id workspace_id connection_id d"

definition replace_access ::
  "((ConnectionMutationContext \<Rightarrow> exn + unit) \<Rightarrow> uuid \<Rightarrow> uuid \<Rightarrow> uuid \<Rightarrow> ConnectionAccessPolicy \<Rightarrow> 'd
       \<Rightarrow> (exn + Connection) \<times> 'd)
     \<Rightarrow> uuid \<Rightarrow> uuid \<Rightarrow> uuid \<Rightarrow> ConnectionAccessPolicy \<Rightarrow> 'd \<Rightarrow> (exn + Connection) \<times> 'd" where
  "replace_access repository_replace user_id workspace_id connection_id access_policy d =
     (case normalize_access_policy (ap_mode access_policy) (ap_project_ids access_policy) of
        Inl e \<Rightarrow> (Inl e, d)
      | Inr normalized \<Rightarrow>
          repository_replace (authorize_access normalized) user_id workspace_id connection_id normalized d)"

definition transition_lifecycle ::
  "((ConnectionMutationContext \<Rightarrow> exn + unit) \<Rightarrow> uuid \<Rightarrow> uuid \<Rightarrow> uuid \<Rightarrow> ConnectionLifecycleAction \<Rightarrow> 'd
       \<Rightarrow> (exn + Connection) \<times> 'd)
     \<Rightarrow> uuid \<Rightarrow> uuid \<Rightarrow> uuid \<Rightarrow> ConnectionLifecycleAction \<Rightarrow> 'd \<Rightarrow> (exn + Connection) \<times> 'd" where
  "transition_lifecycle repository_transition user_id workspace_id connection_id action d =
     repository_transition (authorize_lifecycle action) user_id workspace_id connection_id action d"

subsection \<open>The contract of a guarded mutation\<close>

text \<open>
  What the service relies on in every mutation of an existing Connection: the repository finds
  the caller's context or refuses, calls the authorizer with it inside the transaction, and
  changes nothing when anything raises.
\<close>

locale guarded_mutation =
  fixes ok :: "'d \<Rightarrow> bool"
    and ctx :: "'d \<Rightarrow> uuid \<Rightarrow> uuid \<Rightarrow> uuid \<Rightarrow> exn + ConnectionMutationContext"
    and mutate :: "'x \<Rightarrow> (ConnectionMutationContext \<Rightarrow> exn + unit) \<Rightarrow> uuid \<Rightarrow> uuid \<Rightarrow> uuid \<Rightarrow> 'd \<Rightarrow> (exn + 'a) \<times> 'd"
    and valid :: "'x \<Rightarrow> bool"
  assumes hidden_law: "ok d \<Longrightarrow> valid x \<Longrightarrow> ctx d u w c = Inl e \<Longrightarrow> mutate x az u w c d = (Inl e, d)"
    and denied_law: "ok d \<Longrightarrow> valid x \<Longrightarrow> ctx d u w c = Inr m \<Longrightarrow> az m = Inl e \<Longrightarrow>
      mutate x az u w c d = (Inl e, d)"
    and atomic_law: "ok d \<Longrightarrow> valid x \<Longrightarrow> mutate x az u w c d = (Inl e, d') \<Longrightarrow> d' = d"
    and keeps_law: "ok d \<Longrightarrow> valid x \<Longrightarrow> mutate x az u w c d = (Inr a, d') \<Longrightarrow> ok d'"
begin

lemma success_authorized:
  assumes "ok d" "valid x" "mutate x az u w c d = (Inr a, d')"
  obtains m where "ctx d u w c = Inr m" "az m = Inr ()"
proof (cases "ctx d u w c")
  case (Inl e)
  then show thesis using hidden_law[OF assms(1,2) Inl] assms(3) by simp
next
  case (Inr m)
  then show thesis using denied_law[OF assms(1,2) Inr] assms(3) that by (cases "az m") auto
qed

lemma ok_after: "ok d \<Longrightarrow> valid x \<Longrightarrow> ok (snd (mutate x az u w c d))"
  by (metis atomic_law keeps_law old.sum.exhaust prod.collapse)

end

definition mutation_context_at :: "db \<Rightarrow> uuid \<Rightarrow> uuid \<Rightarrow> uuid \<Rightarrow> exn + ConnectionMutationContext" where
  "mutation_context_at d u w c = (case conn_context d u w of
     None \<Rightarrow> Inl ConnectionWorkspaceNotFoundError
   | Some x \<Rightarrow> (case find_connection d w c of
       None \<Rightarrow> Inl ConnectionNotFoundError | Some r \<Rightarrow> Inr (mutation_context_of x r)))"

lemma guarded_hidden: "mutation_context_at d u w c = Inl e \<Longrightarrow> guarded d u w c az k = (Inl e, d)"
  by (auto simp: mutation_context_at_def guarded_def split: option.splits)

lemma guarded_denied:
  "mutation_context_at d u w c = Inr m \<Longrightarrow> az m = Inl e \<Longrightarrow> guarded d u w c az k = (Inl e, d)"
  by (auto simp: mutation_context_at_def guarded_def split: option.splits)

lemma guarded_fail:
  "guarded d u w c az k = (Inl e, d') \<Longrightarrow>
    (\<And>x r. find_connection d w c = Some r \<Longrightarrow> k x r = (Inl e, d') \<Longrightarrow> d' = d) \<Longrightarrow> d' = d"
  by (auto simp: guarded_def split: option.splits sum.splits)

lemma guarded_keep:
  assumes "guarded d u w c az k = (Inr a, d')"
    "\<And>x r. find_connection d w c = Some r \<Longrightarrow> k x r = (Inr a, d') \<Longrightarrow> conn_ok d'"
  shows "conn_ok d'"
  using assms(1) by (rule guarded_Inr) (use assms(2) in blast)

interpretation sql_rename: guarded_mutation conn_ok mutation_context_at
    "\<lambda>n az u w c. repo_rename_connection call az u w c n" "\<lambda>_. True" for call :: Call
proof unfold_locales
  fix d u w c n az e d' a m
  assume o: "conn_ok d"
  note eq = repo_rename_connection_eq[OF o, of call az u w c n]
  show "mutation_context_at d u w c = Inl e \<Longrightarrow> repo_rename_connection call az u w c n d = (Inl e, d)"
    unfolding eq by (rule guarded_hidden)
  show "mutation_context_at d u w c = Inr m \<Longrightarrow> az m = Inl e \<Longrightarrow>
      repo_rename_connection call az u w c n d = (Inl e, d)"
    unfolding eq by (rule guarded_denied)
  show "repo_rename_connection call az u w c n d = (Inl e, d') \<Longrightarrow> d' = d"
    unfolding eq by (erule guarded_fail) (simp split: if_splits)
  show "repo_rename_connection call az u w c n d = (Inr a, d') \<Longrightarrow> conn_ok d'"
    unfolding eq by (erule guarded_keep) (auto split: if_splits intro: renamed_state_ok[OF o])
qed

interpretation sql_transition: guarded_mutation conn_ok mutation_context_at
    "\<lambda>act az u w c. repo_transition_lifecycle call az u w c act" "\<lambda>_. True" for call :: Call
proof unfold_locales
  fix d u w c act az e d' a m
  assume o: "conn_ok d"
  note eq = repo_transition_lifecycle_eq[OF o, of call az u w c act]
  show "mutation_context_at d u w c = Inl e \<Longrightarrow> repo_transition_lifecycle call az u w c act d = (Inl e, d)"
    unfolding eq by (rule guarded_hidden)
  show "mutation_context_at d u w c = Inr m \<Longrightarrow> az m = Inl e \<Longrightarrow>
      repo_transition_lifecycle call az u w c act d = (Inl e, d)"
    unfolding eq by (rule guarded_denied)
  show "repo_transition_lifecycle call az u w c act d = (Inl e, d') \<Longrightarrow> d' = d"
    unfolding eq by (erule guarded_fail) (simp split: if_splits)
  show "repo_transition_lifecycle call az u w c act d = (Inr a, d') \<Longrightarrow> conn_ok d'"
    unfolding eq by (erule guarded_keep) (auto split: if_splits intro: transitioned_state_ok[OF o])
qed

interpretation sql_access: guarded_mutation conn_ok mutation_context_at
    "\<lambda>p az u w c. repo_replace_access call az u w c p" policy_ok for call :: Call
proof unfold_locales
  fix d u w c p az e d' a m
  assume o: "conn_ok d" and p: "policy_ok p"
  note eq = repo_replace_access_eq[OF o p, of call az u w c]
  show "mutation_context_at d u w c = Inl e \<Longrightarrow> repo_replace_access call az u w c p d = (Inl e, d)"
    unfolding eq by (rule guarded_hidden)
  show "mutation_context_at d u w c = Inr m \<Longrightarrow> az m = Inl e \<Longrightarrow>
      repo_replace_access call az u w c p d = (Inl e, d)"
    unfolding eq by (rule guarded_denied)
  show "repo_replace_access call az u w c p d = (Inl e, d') \<Longrightarrow> d' = d"
    unfolding eq by (erule guarded_fail) (simp split: if_splits)
  show "repo_replace_access call az u w c p d = (Inr a, d') \<Longrightarrow> conn_ok d'"
    unfolding eq by (erule guarded_keep) (auto split: if_splits intro: access_state_ok[OF o _ p])
qed

interpretation sql_put_draft: guarded_mutation conn_ok mutation_context_at
    "\<lambda>(compile, cfg) az u w c. repo_put_draft call az compile u w c cfg" "\<lambda>_. True" for call :: Call
proof unfold_locales
  fix d u w c az e d' a m
    and x :: "(ConnectionMutationContext \<Rightarrow> json_object \<Rightarrow> exn + json_object) \<times> json_object"
  assume o: "conn_ok d"
  obtain compile cfg where x: "x = (compile, cfg)" by (cases x)
  note eq = repo_put_draft_eq[OF o, of call az compile u w c cfg]
  show "mutation_context_at d u w c = Inl e \<Longrightarrow>
      (case x of (compile, cfg) \<Rightarrow> \<lambda>az u w c. repo_put_draft call az compile u w c cfg) az u w c d = (Inl e, d)"
    unfolding x prod.case eq by (rule guarded_hidden)
  show "mutation_context_at d u w c = Inr m \<Longrightarrow> az m = Inl e \<Longrightarrow>
      (case x of (compile, cfg) \<Rightarrow> \<lambda>az u w c. repo_put_draft call az compile u w c cfg) az u w c d = (Inl e, d)"
    unfolding x prod.case eq by (rule guarded_denied)
  show "(case x of (compile, cfg) \<Rightarrow> \<lambda>az u w c. repo_put_draft call az compile u w c cfg) az u w c d = (Inl e, d') \<Longrightarrow> d' = d"
    unfolding x prod.case eq by (erule guarded_fail) (simp split: sum.splits)
  show "(case x of (compile, cfg) \<Rightarrow> \<lambda>az u w c. repo_put_draft call az compile u w c cfg) az u w c d = (Inr a, d') \<Longrightarrow> conn_ok d'"
    unfolding x prod.case eq
    by (erule guarded_keep) (auto split: sum.splits intro: draft_put_state_ok[OF o] dest: found_row_checks(4)[OF o])
qed

interpretation sql_publish: guarded_mutation conn_ok mutation_context_at
    "\<lambda>compile az u w c. repo_publish_revision call az compile u w c" "\<lambda>_. True" for call :: Call
proof unfold_locales
  fix d u w c compile az e d' a m
  assume o: "conn_ok d"
  note eq = repo_publish_revision_eq[OF o, of call az compile u w c]
  show "mutation_context_at d u w c = Inl e \<Longrightarrow> repo_publish_revision call az compile u w c d = (Inl e, d)"
    unfolding eq by (rule guarded_hidden)
  show "mutation_context_at d u w c = Inr m \<Longrightarrow> az m = Inl e \<Longrightarrow>
      repo_publish_revision call az compile u w c d = (Inl e, d)"
    unfolding eq by (rule guarded_denied)
  show "repo_publish_revision call az compile u w c d = (Inl e, d') \<Longrightarrow> d' = d"
    unfolding eq by (erule guarded_fail) (simp split: option.splits sum.splits if_splits)
  show "repo_publish_revision call az compile u w c d = (Inr a, d') \<Longrightarrow> conn_ok d'"
    unfolding eq by (erule guarded_keep)
      (auto split: option.splits sum.splits if_splits intro: published_state_ok[OF o])
qed

end
