(* ===== verification/ProviderFacts.thy ===== *)
theory ProviderFacts
  imports ConnectionProviders
begin

section \<open>What the generic HTTP provider guarantees\<close>

text \<open>
  The shape of a canonical \<open>base_url\<close> and when canonicalising again leaves it alone. The form
  is \<open>https://\<close>, a case-folded host, a port unless it is 443, and a path without trailing
  slashes. An input with a bracketed IP literal is outside the idempotence result; the
  executable definitions cover it.
\<close>

subsection \<open>Splitting and folding\<close>

lemma takeWhile_other:
  assumes "c \<notin> set s"
  shows "takeWhile (\<lambda>x. x \<noteq> c) s = s" "takeWhile (\<lambda>x. x \<noteq> c) (s @ c # t) = s"
  using assms by (induction s) auto

lemma str_partition_absent: "c \<notin> set s \<Longrightarrow> str_partition c s = (s, False, [])"
  by (simp add: str_partition_def Let_def takeWhile_other)

lemma str_partition_at: "c \<notin> set s \<Longrightarrow> str_partition c (s @ c # t) = (s, True, t)"
  by (simp add: str_partition_def Let_def takeWhile_other)

lemma str_rpartition_absent: "c \<notin> set s \<Longrightarrow> str_rpartition c s = ([], False, s)"
  by (simp add: str_rpartition_def Let_def)

lemma str_partition_join:
  "str_partition c s = (a, h, b) \<Longrightarrow> s = a @ (if h then [c] else []) @ b"
proof -
  assume p: "str_partition c s = (a, h, b)"
  show ?thesis
  proof (cases "c \<in> set s")
    case True
    then obtain xs ys where "s = xs @ c # ys" "c \<notin> set xs" by (meson split_list_first)
    then show ?thesis using p str_partition_at[of c xs ys] by simp
  next
    case False
    then show ?thesis using p str_partition_absent by simp
  qed
qed

definition folded :: "char \<Rightarrow> bool" where
  "folded c \<longleftrightarrow> lower_char c = c \<and> code c \<noteq> 223"

lemma lower_folded: "\<forall>c \<in> set s. folded c \<Longrightarrow> lower s = s"
  by (simp add: lower_def folded_def map_idI)

lemma casefold_folded: "\<forall>c \<in> set s. folded c \<Longrightarrow> casefold s = s"
  by (induction s) (auto simp: casefold_def folded_def)

lemma in_casefold:
  "c \<in> set (casefold s) \<longleftrightarrow>
    (\<exists>x \<in> set s. if code x = 223 then c = CHR ''s'' else c = lower_char x)"
  by (auto simp: casefold_def)

lemma folded_s: "folded (CHR ''s'')"
  by (simp add: folded_def lower_char_def Let_def)

lemma folded_lower_char: "code x \<noteq> 223 \<Longrightarrow> folded (lower_char x)"
  by (simp add: folded_def) (simp add: of_char_lower_char Let_def)

lemma folded_casefold: "c \<in> set (casefold s) \<Longrightarrow> folded c"
proof -
  assume "c \<in> set (casefold s)"
  then obtain x where x: "if code x = 223 then c = CHR ''s'' else c = lower_char x"
    unfolding in_casefold by blast
  show "folded c"
  proof (cases "code x = 223")
    case True
    with x have "c = CHR ''s''" by (simp only: if_True)
    then show ?thesis by (simp only: folded_s)
  next
    case False
    with x have "c = lower_char x" by (simp only: if_False)
    then show ?thesis using folded_lower_char[OF False] by (simp only:)
  qed
qed

text \<open>Folding introduces lowercase letters only, so no delimiter.\<close>

lemma lower_char_small: "code (lower_char c) < 97 \<Longrightarrow> lower_char c = c"
  by (auto simp: lower_char_def Let_def of_char_of split: if_splits)

lemma lower_chars: "c \<in> set (lower s) \<Longrightarrow> code c < 97 \<Longrightarrow> c \<in> set s"
  by (auto simp: lower_def dest: lower_char_small)

lemma casefold_chars:
  assumes "c \<in> set (casefold s)" "code c < 97"
  shows "c \<in> set s"
proof -
  obtain x where x: "x \<in> set s" "if code x = 223 then c = CHR ''s'' else c = lower_char x"
    using assms(1) unfolding in_casefold by blast
  show ?thesis
  proof (cases "code x = 223")
    case True
    with x(2) assms(2) show ?thesis by simp
  next
    case False
    with x(2) have c: "c = lower_char x" by (simp only: if_False)
    then have "lower_char x = x" using assms(2) lower_char_small by (simp only:)
    then show ?thesis using c x(1) by simp
  qed
qed

subsection \<open>Decimal numbers\<close>

lemma digits_value_append: "digits_value (s @ [c]) = 10 * digits_value s + (int (code c) - 48)"
  by (simp add: digits_value_def)

lemma nat_str_facts:
  "nat_str n \<noteq> [] \<and> (\<forall>c \<in> set (nat_str n). is_ascii_digit c) \<and> digits_value (nat_str n) = int n"
proof (induction n rule: nat_str.induct)
  case (1 n)
  have dig: "is_ascii_digit (char_of (48 + k)) \<and> int (code (char_of (48 + k))) - 48 = int k" if "k < 10" for k :: nat
    using that by (simp add: is_ascii_digit_def of_char_of)
  show ?case
  proof (cases "n < 10")
    case True
    then show ?thesis using dig[OF True] by (subst (1 2 3) nat_str.simps) (simp add: digits_value_def)
  next
    case False
    have "n mod 10 < 10" by simp
    note d = dig[OF this]
    have "digits_value (nat_str (n div 10) @ [char_of (48 + n mod 10)]) = int n"
      unfolding digits_value_append using 1[OF False] d by (simp add: zdiv_int zmod_int)
    then show ?thesis using False 1[OF False] d by (subst (1 2 3) nat_str.simps) simp
  qed
qed

lemma int_str_facts:
  assumes "0 \<le> p"
  shows "int_str p \<noteq> []" "\<forall>c \<in> set (int_str p). is_ascii_digit c" "digits_value (int_str p) = p"
  using nat_str_facts[of "nat p"] assms by (simp_all add: int_str_def)

lemma digits_value_nonneg: "\<forall>c \<in> set s. is_ascii_digit c \<Longrightarrow> 0 \<le> digits_value s"
proof (induction s rule: rev_induct)
  case (snoc c s)
  then show ?case by (simp add: digits_value_append is_ascii_digit_def)
qed (simp add: digits_value_def)

subsection \<open>The canonical form\<close>

definition host_char :: "char \<Rightarrow> bool" where
  "host_char c \<longleftrightarrow> folded c \<and> \<not> is_space c \<and> \<not> unsafe_url_char c \<and> c \<notin> set ''/?#@:[]''"

definition path_char :: "char \<Rightarrow> bool" where
  "path_char c \<longleftrightarrow> \<not> unsafe_url_char c \<and> c \<notin> set ''?#''"

definition port_part :: "int option \<Rightarrow> string" where
  "port_part port = (case port of None \<Rightarrow> [] | Some p \<Rightarrow> if p = 443 then [] else '':'' @ int_str p)"

definition canonical_parts :: "string \<Rightarrow> int option \<Rightarrow> string \<Rightarrow> bool" where
  "canonical_parts host port path \<longleftrightarrow>
     host \<noteq> [] \<and> (\<forall>c \<in> set host. host_char c)
     \<and> (\<forall>p. port = Some p \<longrightarrow> 0 \<le> p \<and> p \<le> 65535)
     \<and> (\<forall>c \<in> set path. path_char c) \<and> (path = [] \<or> hd path = CHR ''/'' \<and> last path \<noteq> CHR ''/'')"

lemma port_part_chars: "c \<in> set (port_part port) \<Longrightarrow> \<forall>p. port = Some p \<longrightarrow> 0 \<le> p \<Longrightarrow> c = CHR '':'' \<or> is_ascii_digit c"
  using int_str_facts(2) by (auto simp: port_part_def split: option.splits if_splits)

lemma digit_chars:
  "is_ascii_digit c \<Longrightarrow> \<not> unsafe_url_char c \<and> c \<notin> set ''/?#@:[]'' \<and> \<not> netloc_end c"
  by (auto simp: is_ascii_digit_def unsafe_url_char_def netloc_end_def)

lemma rstrip_last: "s = [] \<or> last s \<noteq> c \<Longrightarrow> rstrip_char c s = s"
  by (cases "s = []") (auto simp: rstrip_char_def dropWhile_hd hd_rev)

definition canonical_url :: "string \<Rightarrow> int option \<Rightarrow> string \<Rightarrow> string" where
  "canonical_url host port path = ''https://'' @ host @ port_part port @ path"

text \<open>A canonical URL is split into its parts again.\<close>

lemma canonical_netloc_chars:
  assumes "canonical_parts host port path" "c \<in> set (host @ port_part port)"
  shows "\<not> netloc_end c" "\<not> unsafe_url_char c" "c \<noteq> CHR ''@''" "c \<noteq> CHR ''[''" "c \<noteq> CHR '']''"
proof -
  have "host_char c \<or> c = CHR '':'' \<or> is_ascii_digit c"
    using assms port_part_chars[of c port] by (auto simp: canonical_parts_def)
  then have "\<not> netloc_end c \<and> \<not> unsafe_url_char c \<and> c \<noteq> CHR ''@'' \<and> c \<noteq> CHR ''['' \<and> c \<noteq> CHR '']''"
    using digit_chars[of c] by (auto simp: host_char_def netloc_end_def unsafe_url_char_def)
  then show "\<not> netloc_end c" "\<not> unsafe_url_char c" "c \<noteq> CHR ''@''" "c \<noteq> CHR ''[''" "c \<noteq> CHR '']''"
    by auto
qed

lemma canonical_url_safe:
  assumes "canonical_parts host port path"
  shows "filter (\<lambda>c. \<not> unsafe_url_char c) (dropWhile c0_or_space (canonical_url host port path)) =
    canonical_url host port path"
proof -
  have "dropWhile c0_or_space (canonical_url host port path) = canonical_url host port path"
    by (simp add: canonical_url_def c0_or_space_def)
  moreover have "\<forall>c \<in> set (canonical_url host port path). \<not> unsafe_url_char c"
    using canonical_netloc_chars(2)[OF assms] assms
    by (auto simp: canonical_url_def unsafe_url_char_def canonical_parts_def path_char_def)
  ultimately show ?thesis by (simp add: filter_id_conv)
qed

lemma takeWhile_netloc:
  assumes "canonical_parts host port path"
  shows "takeWhile (\<lambda>c. \<not> netloc_end c) (host @ port_part port @ path) = host @ port_part port"
    "dropWhile (\<lambda>c. \<not> netloc_end c) (host @ port_part port @ path) = path"
proof -
  have p: "takeWhile (\<lambda>c. \<not> netloc_end c) path = []" "dropWhile (\<lambda>c. \<not> netloc_end c) path = path"
    using assms by (cases path; auto simp: canonical_parts_def netloc_end_def)+
  have n: "\<forall>c \<in> set (host @ port_part port). \<not> netloc_end c" using canonical_netloc_chars(1)[OF assms] by blast
  have tw: "takeWhile P (xs @ ys) = xs @ takeWhile P ys \<and> dropWhile P (xs @ ys) = dropWhile P ys"
    if "\<forall>c \<in> set xs. P c" for P and xs ys :: string
    using that by (induction xs) auto
  show "takeWhile (\<lambda>c. \<not> netloc_end c) (host @ port_part port @ path) = host @ port_part port"
    "dropWhile (\<lambda>c. \<not> netloc_end c) (host @ port_part port @ path) = path"
    using tw[OF n, of path] p by simp_all
qed

lemma urlsplit_canonical:
  assumes "canonical_parts host port path"
  shows "urlsplit ok (canonical_url host port path) =
    Inr \<lparr>sr_scheme = ''https'', sr_netloc = host @ port_part port, sr_path = path, sr_query = [], sr_fragment = []\<rparr>"
proof -
  have br: "CHR ''['' \<notin> set (host @ port_part port)" "CHR '']'' \<notin> set (host @ port_part port)"
    using canonical_netloc_chars(4,5)[OF assms] by blast+
  have qf: "CHR ''#'' \<notin> set path" "CHR ''?'' \<notin> set path"
    using assms by (auto simp: canonical_parts_def path_char_def)
  have head: "takeWhile (\<lambda>c. c \<noteq> CHR '':'') (canonical_url host port path) = ''https''"
    and tl: "drop 6 (canonical_url host port path) = ''//'' @ host @ port_part port @ path"
    and col: "CHR '':'' \<in> set (canonical_url host port path)" "hd (canonical_url host port path) = CHR ''h''"
    by (simp_all add: canonical_url_def)
  have sch: "\<forall>c \<in> set ''https''. scheme_char c" "is_ascii_alpha (CHR ''h'')" "lower ''https'' = ''https''"
    by (simp_all add: scheme_char_def is_ascii_alpha_def lower_def lower_char_def Let_def)
  show ?thesis
    using canonical_url_safe[OF assms] head col sch tl takeWhile_netloc[OF assms] br str_partition_absent[OF qf(1)] str_partition_absent[OF qf(2)]
    by (simp add: urlsplit_def Let_def starts_with_def canonical_url_def)
qed

lemma hostinfo_canonical:
  assumes "canonical_parts host port path" "sr_netloc r = host @ port_part port"
  shows "hostinfo r = (host, if port_part port = [] then None else Some (tl (port_part port)))"
    and "userinfo r = (None, None)"
proof -
  have at: "CHR ''@'' \<notin> set (host @ port_part port)" and br: "CHR ''['' \<notin> set (host @ port_part port)"
    using canonical_netloc_chars(3,4)[OF assms(1)] by blast+
  have col: "CHR '':'' \<notin> set host" using assms(1) by (auto simp: canonical_parts_def host_char_def)
  have "port_part port = [] \<or> port_part port = CHR '':'' # tl (port_part port) \<and> tl (port_part port) \<noteq> []"
    using int_str_facts(1) assms(1) by (auto simp: port_part_def canonical_parts_def split: option.splits)
  then show "hostinfo r = (host, if port_part port = [] then None else Some (tl (port_part port)))"
  proof
    assume "port_part port = []"
    then show ?thesis
      using str_rpartition_absent[OF at] str_partition_absent[OF br] str_partition_absent[OF col] assms(2)
      by (simp add: hostinfo_def Let_def)
  next
    assume p: "port_part port = CHR '':'' # tl (port_part port) \<and> tl (port_part port) \<noteq> []"
    then have "str_partition (CHR '':'') (host @ port_part port) = (host, True, tl (port_part port))"
      using str_partition_at[OF col, of "tl (port_part port)"] by metis
    then show ?thesis
      using str_rpartition_absent[OF at] str_partition_absent[OF br] assms(2) p
      by (auto simp: hostinfo_def Let_def)
  qed
  show "userinfo r = (None, None)"
    using str_rpartition_absent[OF at] assms(2) by (simp add: userinfo_def)
qed

lemma url_port_canonical:
  assumes "canonical_parts host port path" "sr_netloc r = host @ port_part port"
  shows "url_port r = Inr (if port = Some 443 then None else port)"
proof (cases port)
  case None
  then show ?thesis using hostinfo_canonical(1)[OF assms] by (simp add: url_port_def port_part_def)
next
  case (Some p)
  then have p: "0 \<le> p" "p \<le> 65535" using assms(1) by (auto simp: canonical_parts_def)
  show ?thesis
    using hostinfo_canonical(1)[OF assms] Some int_str_facts[OF p(1)] p(2)
    by (simp add: url_port_def port_part_def)
qed

lemma hostname_canonical:
  assumes "canonical_parts host port path" "sr_netloc r = host @ port_part port"
  shows "url_hostname r = Some host"
proof -
  obtain a h b where p: "str_partition (CHR ''%'') host = (a, h, b)" by (metis prod_cases3)
  note j = str_partition_join[OF p]
  have "\<forall>c \<in> set a. folded c" using assms(1) j by (auto simp: canonical_parts_def host_char_def)
  then have "lower a = a" by (rule lower_folded)
  moreover have "host \<noteq> []" using assms(1) by (simp add: canonical_parts_def)
  ultimately show ?thesis
    using hostinfo_canonical(1)[OF assms] p j by (simp add: url_hostname_def)
qed

lemma normalize_canonical:
  assumes "canonical_parts host port path" "\<not> is_space (last (canonical_url host port path))"
  shows "normalize_base_url ok (canonical_url host port path) = Inr (canonical_url host port path)"
proof -
  let ?u = "canonical_url host port path"
  let ?r = "\<lparr>sr_scheme = ''https'', sr_netloc = host @ port_part port, sr_path = path, sr_query = [], sr_fragment = []\<rparr>"
  have "trimmed ?u" using assms(2) by (simp add: trimmed_def) (simp add: canonical_url_def is_space_def)
  then have st: "strip ?u = ?u" by (rule strip_trimmed_id)
  have ne: "?u \<noteq> []" by (simp add: canonical_url_def)
  have host: "\<forall>c \<in> set host. folded c" "\<forall>c \<in> set host. \<not> is_space c" "CHR '':'' \<notin> set host" "host \<noteq> []"
    using assms(1) by (auto simp: canonical_parts_def host_char_def)
  have path: "rstrip_char (CHR ''/'') path = path"
    using assms(1) by (intro rstrip_last) (auto simp: canonical_parts_def)
  have https: "casefold ''https'' = ''https''" by (simp add: casefold_def lower_char_def Let_def)
  have slash: "path = [] \<or> starts_with ''/'' path"
    using assms(1) by (cases path) (auto simp: canonical_parts_def starts_with_def)
  have un: "urlunsplit ?r = ?u" using host(4) slash by (simp add: urlunsplit_def Let_def canonical_url_def)
  have ui: "userinfo ?r = (None, None)" using hostinfo_canonical(2)[OF assms(1), of ?r] by simp
  have up: "url_port ?r = Inr (if port = Some 443 then None else port)"
    using url_port_canonical[OF assms(1), of ?r] by simp
  have uh: "url_hostname ?r = Some host" using hostname_canonical[OF assms(1), of ?r] by simp
  have parsed: "bind_res (urlsplit ok ?u) (\<lambda>parsed. bind_res (url_port parsed) (\<lambda>port. Inr (parsed, port))) =
      Inr (?r, if port = Some 443 then None else port)"
    by (simp add: urlsplit_canonical[OF assms(1)] up)
  have cf: "casefold host = host" using host(1) by (rule casefold_folded)
  consider "port = None \<or> port = Some 443" | p where "port = Some p" "p \<noteq> 443"
    by (cases port) auto
  then show ?thesis
  proof cases
    case 1
    then have "port_part port = []" "(if port = Some 443 then None else port) = None"
      by (auto simp: port_part_def)
    then show ?thesis
      unfolding normalize_base_url_def st parsed Let_def
      using ne host uh ui path un https cf by simp
  next
    case (2 p)
    then have "port_part port = '':'' @ int_str p" by (simp add: port_part_def)
    then show ?thesis
      unfolding normalize_base_url_def st parsed Let_def
      using ne host uh ui path un https cf 2 by simp
  qed
qed

subsection \<open>Every accepted URL without brackets is canonical\<close>

lemma urlsplit_netloc:
  assumes "urlsplit ok s = Inr r" "sr_netloc r \<noteq> []"
  shows "c \<in> set (sr_netloc r) \<Longrightarrow> \<not> netloc_end c \<and> \<not> unsafe_url_char c \<and> c \<in> set s"
    and "CHR '']'' \<in> set (sr_netloc r) \<longleftrightarrow> CHR ''['' \<in> set (sr_netloc r)"
    and "c \<in> set (sr_path r) \<Longrightarrow> path_char c"
    and "sr_path r = [] \<or> hd (sr_path r) = CHR ''/''"
proof -
  define url where "url = filter (\<lambda>c. \<not> unsafe_url_char c) (dropWhile c0_or_space s)"
  have safe: "\<not> unsafe_url_char c \<and> c \<in> set s" if "c \<in> set url" for c
    using that set_dropWhileD by (fastforce simp: url_def)
  let ?hd = "takeWhile (\<lambda>c. c \<noteq> CHR '':'') url"
  define rest where "rest = (if CHR '':'' \<in> set url \<and> ?hd \<noteq> [] \<and> is_ascii_alpha (hd url) \<and> (\<forall>c \<in> set ?hd. scheme_char c)
    then drop (Suc (length ?hd)) url else url)"
  have rest: "c \<in> set url" if "c \<in> set rest" for c
    using that by (auto simp: rest_def dest: in_set_dropD split: if_splits)
  let ?after = "dropWhile (\<lambda>c. \<not> netloc_end c) (drop 2 rest)"
  let ?before_hash = "takeWhile (\<lambda>x. x \<noteq> CHR ''#'') ?after"
  have "starts_with ''//'' rest \<and> sr_netloc r = takeWhile (\<lambda>c. \<not> netloc_end c) (drop 2 rest)
    \<and> (CHR '']'' \<in> set (sr_netloc r) \<longleftrightarrow> CHR ''['' \<in> set (sr_netloc r))
    \<and> sr_path r = takeWhile (\<lambda>x. x \<noteq> CHR ''?'') ?before_hash"
    using assms
    by (auto simp: urlsplit_def Let_def url_def[symmetric] rest_def str_partition_def split: if_splits)
  then have n: "sr_netloc r = takeWhile (\<lambda>c. \<not> netloc_end c) (drop 2 rest)"
    and b: "CHR '']'' \<in> set (sr_netloc r) \<longleftrightarrow> CHR ''['' \<in> set (sr_netloc r)"
    and p: "sr_path r = takeWhile (\<lambda>x. x \<noteq> CHR ''?'') ?before_hash" by auto
  show "c \<in> set (sr_netloc r) \<Longrightarrow> \<not> netloc_end c \<and> \<not> unsafe_url_char c \<and> c \<in> set s"
    using set_takeWhileD[of c "\<lambda>c. \<not> netloc_end c" "drop 2 rest"] in_set_dropD rest safe unfolding n by metis
  show "CHR '']'' \<in> set (sr_netloc r) \<longleftrightarrow> CHR ''['' \<in> set (sr_netloc r)" by (rule b)
  show "c \<in> set (sr_path r) \<Longrightarrow> path_char c"
    using safe rest unfolding p path_char_def
    by (auto dest!: set_takeWhileD set_dropWhileD in_set_dropD)
  show "sr_path r = [] \<or> hd (sr_path r) = CHR ''/''"
  proof (cases ?after)
    case Nil
    show ?thesis unfolding p Nil by simp
  next
    case (Cons x xs)
    then have "netloc_end x" using hd_dropWhile[of "\<lambda>c. \<not> netloc_end c" "drop 2 rest"] by simp
    then show ?thesis using Cons by (auto simp: p netloc_end_def)
  qed
qed

lemma rstrip_facts:
  assumes "path = [] \<or> hd path = CHR ''/''" "\<forall>c \<in> set path. path_char c"
  shows "\<forall>c \<in> set (rstrip_char (CHR ''/'') path). path_char c"
    "rstrip_char (CHR ''/'') path = [] \<or> hd (rstrip_char (CHR ''/'') path) = CHR ''/''
      \<and> last (rstrip_char (CHR ''/'') path) \<noteq> CHR ''/''"
proof -
  let ?q = "rstrip_char (CHR ''/'') path"
  have split: "path = ?q @ rev (takeWhile (\<lambda>x. x = CHR ''/'') (rev path))"
    unfolding rstrip_char_def by (metis rev_append rev_rev_ident takeWhile_dropWhile_id)
  show "\<forall>c \<in> set ?q. path_char c" using assms(2) split by (metis UnCI set_append)
  show "?q = [] \<or> hd ?q = CHR ''/'' \<and> last ?q \<noteq> CHR ''/''"
  proof (cases "?q = []")
    case False
    then have "hd ?q = hd path" using split by (metis hd_append2)
    moreover have "dropWhile (\<lambda>x. x = CHR ''/'') (rev path) \<noteq> []" using False by (simp add: rstrip_char_def)
    then have "last ?q \<noteq> CHR ''/''"
      using hd_dropWhile[of "\<lambda>x. x = CHR ''/''" "rev path"] by (simp add: rstrip_char_def last_rev)
    moreover have "path \<noteq> []" using False by (auto simp: rstrip_char_def)
    ultimately show ?thesis using assms(1) by simp
  qed simp
qed

lemma netloc_host_facts:
  assumes "CHR ''@'' \<notin> set (sr_netloc r)" "CHR ''['' \<notin> set (sr_netloc r)"
  shows "fst (hostinfo r) = takeWhile (\<lambda>x. x \<noteq> CHR '':'') (sr_netloc r)"
  using str_rpartition_absent[OF assms(1)] str_partition_absent[OF assms(2)]
  by (simp add: hostinfo_def Let_def str_partition_def)

lemma hostname_chars:
  assumes "url_hostname r = Some h" "c \<in> set h" "code c < 97"
  shows "c \<in> set (fst (hostinfo r))"
proof -
  obtain a b z where p: "str_partition (CHR ''%'') (fst (hostinfo r)) = (a, b, z)" by (metis prod_cases3)
  then have "h = lower a @ (if b then ''%'' else []) @ z"
    using assms(1) by (simp add: url_hostname_def Let_def split: if_splits)
  then have "c \<in> set a \<or> b \<and> c = CHR ''%'' \<or> c \<in> set z"
    using assms(2,3) lower_chars by (auto split: if_splits)
  then show ?thesis using str_partition_join[OF p] by auto
qed

lemma url_port_range:
  assumes "url_port r = Inr (Some p)"
  shows "0 \<le> p \<and> p \<le> 65535"
  using assms digits_value_nonneg by (auto simp: url_port_def split: option.splits if_splits)

lemma normalize_Inr:
  assumes "normalize_base_url ok v = Inr u"
  obtains r port h where "urlsplit ok (strip v) = Inr r" "url_port r = Inr port"
    "url_hostname r = Some h" "userinfo r = (None, None)" "\<forall>c \<in> set (casefold h). \<not> is_space c"
    "u = (let host = casefold h;
              host = (if CHR '':'' \<in> set host \<and> \<not> starts_with ''['' host then ''['' @ host @ '']'' else host)
          in urlunsplit \<lparr>sr_scheme = ''https'',
               sr_netloc = (if port = None \<or> port = Some 443 then host else host @ '':'' @ int_str (the port)),
               sr_path = rstrip_char (CHR ''/'') (sr_path r), sr_query = [], sr_fragment = []\<rparr>)"
proof -
  obtain r port where rp: "urlsplit ok (strip v) = Inr r" "url_port r = Inr port"
    using assms by (auto simp: normalize_base_url_def Let_def bind_res_def split: if_splits sum.splits)
  obtain h where h: "url_hostname r = Some h"
    using assms rp by (auto simp: normalize_base_url_def Let_def split: if_splits option.splits)
  have "fst (userinfo r) = None" "snd (userinfo r) = None" "\<forall>c \<in> set (casefold h). \<not> is_space c"
    using assms rp h by (auto simp: normalize_base_url_def Let_def split: if_splits)
  moreover have "u = (let host = casefold h;
              host = (if CHR '':'' \<in> set host \<and> \<not> starts_with ''['' host then ''['' @ host @ '']'' else host)
          in urlunsplit \<lparr>sr_scheme = ''https'',
               sr_netloc = (if port = None \<or> port = Some 443 then host else host @ '':'' @ int_str (the port)),
               sr_path = rstrip_char (CHR ''/'') (sr_path r), sr_query = [], sr_fragment = []\<rparr>)"
    using assms rp h by (auto simp: normalize_base_url_def Let_def split: if_splits)
  ultimately show thesis using that rp h by (metis prod.collapse)
qed

lemma normalize_shape:
  assumes "normalize_base_url ok v = Inr u" "CHR ''['' \<notin> set v"
  shows "\<exists>host port path. canonical_parts host port path \<and> u = canonical_url host port path"
  using assms(1)
proof (rule normalize_Inr)
  fix r port h
  assume r: "urlsplit ok (strip v) = Inr r" and port: "url_port r = Inr port"
    and h: "url_hostname r = Some h" and ui: "userinfo r = (None, None)"
    and sp: "\<forall>c \<in> set (casefold h). \<not> is_space c"
    and u: "u = (let host = casefold h;
              host = (if CHR '':'' \<in> set host \<and> \<not> starts_with ''['' host then ''['' @ host @ '']'' else host)
          in urlunsplit \<lparr>sr_scheme = ''https'',
               sr_netloc = (if port = None \<or> port = Some 443 then host else host @ '':'' @ int_str (the port)),
               sr_path = rstrip_char (CHR ''/'') (sr_path r), sr_query = [], sr_fragment = []\<rparr>)"
  have hne: "fst (hostinfo r) \<noteq> []" using h by (auto simp: url_hostname_def Let_def)
  have at: "CHR ''@'' \<notin> set (sr_netloc r)"
    using ui by (auto simp: userinfo_def Let_def str_rpartition_def split: if_splits prod.splits)
  have nne: "sr_netloc r \<noteq> []"
    using hne by (auto simp: hostinfo_def str_rpartition_def str_partition_def Let_def)
  note n = urlsplit_netloc[OF r nne]
  have "set (strip v) \<subseteq> set v" unfolding strip_def by (auto dest!: set_dropWhileD)
  then have br: "CHR ''['' \<notin> set (sr_netloc r)" "CHR '']'' \<notin> set (sr_netloc r)"
    using n(1)[of "CHR ''[''"] n(2) assms(2) by auto
  have host0: "fst (hostinfo r) = takeWhile (\<lambda>x. x \<noteq> CHR '':'') (sr_netloc r)"
    by (rule netloc_host_facts[OF at br(1)])
  have small: "c \<in> set (sr_netloc r) \<and> c \<noteq> CHR '':''" if "c \<in> set (casefold h)" "code c < 97" for c
  proof -
    have "c \<in> set h" using casefold_chars that by blast
    then have "c \<in> set (fst (hostinfo r))" using hostname_chars[OF h] that(2) by blast
    then show ?thesis unfolding host0 by (auto dest: set_takeWhileD)
  qed
  have hc: "host_char c" if c: "c \<in> set (casefold h)" for c
  proof -
    have "\<not> unsafe_url_char c"
      using small[OF c] n(1)[of c] by (cases "code c < 97") (auto simp: unsafe_url_char_def)
    moreover have "c \<notin> set ''/?#@:[]''"
    proof
      assume d: "c \<in> set ''/?#@:[]''"
      then have "code c < 97" by auto
      then have "c \<in> set (sr_netloc r)" "c \<noteq> CHR '':''" using small[OF c] by auto
      then show False using d n(1)[of c] at br by (auto simp: netloc_end_def)
    qed
    ultimately show ?thesis using folded_casefold[OF c] sp c by (simp add: host_char_def)
  qed
  have fne: "casefold h \<noteq> []"
  proof -
    have "h \<noteq> []"
    proof -
      obtain a b z where p: "str_partition (CHR ''%'') (fst (hostinfo r)) = (a, b, z)" by (metis prod_cases3)
      then show ?thesis using h hne str_partition_join[OF p]
        by (auto simp: url_hostname_def Let_def lower_def split: if_splits)
    qed
    then show ?thesis by (cases h) (auto simp: casefold_def)
  qed
  define path where "path = rstrip_char (CHR ''/'') (sr_path r)"
  have path: "\<forall>c \<in> set path. path_char c" "path = [] \<or> hd path = CHR ''/'' \<and> last path \<noteq> CHR ''/''"
    unfolding path_def using rstrip_facts[OF n(4)] n(3) by blast+
  have parts: "canonical_parts (casefold h) port path"
    using fne hc path url_port_range port by (auto simp: canonical_parts_def)
  have "CHR '':'' \<notin> set (casefold h)" using hc by (auto simp: host_char_def)
  moreover have "path = [] \<or> starts_with ''/'' path" using path(2) by (cases path) (auto simp: starts_with_def)
  ultimately have "u = canonical_url (casefold h) port path"
    using fne unfolding u path_def[symmetric]
    by (cases port) (auto simp: urlunsplit_def Let_def canonical_url_def port_part_def)
  then show ?thesis using parts by blast
qed

text \<open>The definitions that evaluate the provider on a concrete URL.\<close>

lemmas url_eval = normalize_base_url_def Let_def strip_def is_space_def urlsplit_def unsafe_url_char_def
  c0_or_space_def scheme_char_def is_ascii_alpha_def is_ascii_digit_def lower_def lower_char_def
  starts_with_def netloc_end_def str_partition_def str_rpartition_def url_port_def hostinfo_def
  casefold_def url_hostname_def userinfo_def rstrip_char_def urlunsplit_def

subsection \<open>Properties\<close>

text \<open>
  C32: every accepted \<open>base_url\<close> without a bracketed host is stored as \<open>https://host[:port][/path]\<close>:
  the host is nonempty, case-folded and free of white space, credentials and delimiters, port
  443 is left out and any other is in range, the path has no query, fragment or trailing slash.
\<close>

theorem canonical_base_url:
  assumes "generic_http_canonicalize ok cfg = Inr out" "map_of cfg ''base_url'' = Some (JStr v)"
    "CHR ''['' \<notin> set v"
  shows "\<exists>host port path. out = [(''base_url'', JStr (''https://'' @ host @ port_part port @ path))]
    \<and> host \<noteq> [] \<and> casefold host = host \<and> (\<forall>c \<in> set host. \<not> is_space c \<and> c \<notin> set ''/?#@:[]'')
    \<and> (\<forall>p. port = Some p \<longrightarrow> 0 \<le> p \<and> p \<le> 65535)
    \<and> (\<forall>c \<in> set path. c \<notin> set ''?#'') \<and> (path = [] \<or> hd path = CHR ''/'' \<and> last path \<noteq> CHR ''/'')"
proof -
  obtain u where u: "normalize_base_url ok v = Inr u" "out = [(''base_url'', JStr u)]"
    using assms(1,2) by (auto simp: generic_http_canonicalize_def bind_res_eq_Inr split: if_splits)
  obtain host port path where p: "canonical_parts host port path" "u = canonical_url host port path"
    using normalize_shape[OF u(1) assms(3)] by blast
  have "\<forall>c \<in> set host. folded c" using p(1) by (auto simp: canonical_parts_def host_char_def)
  then have cf: "casefold host = host" by (rule casefold_folded)
  have h: "\<forall>c \<in> set host. \<not> is_space c \<and> c \<notin> set ''/?#@:[]''" "host \<noteq> []"
    using p(1) unfolding canonical_parts_def host_char_def by blast+
  have q: "\<forall>p. port = Some p \<longrightarrow> 0 \<le> p \<and> p \<le> 65535" "\<forall>c \<in> set path. c \<notin> set ''?#''"
    "path = [] \<or> hd path = CHR ''/'' \<and> last path \<noteq> CHR ''/''"
    using p(1) unfolding canonical_parts_def path_char_def by blast+
  have "out = [(''base_url'', JStr (''https://'' @ host @ port_part port @ path))]"
    using u(2) p(2) by (simp add: canonical_url_def)
  then show ?thesis using cf h q by blast
qed

lemma sample_normalize:
  "normalize_base_url (\<lambda>_. False) ''https://H:81/a/'' = Inr ''https://h:81/a''"
proof -
  have "digits_value ''81'' = 81" by (simp add: digits_value_def)
  moreover have "int_str 81 = ''81''" by code_simp
  moreover have "char_of (104 :: nat) = CHR ''h''" by code_simp
  ultimately show ?thesis by (simp add: url_eval)
qed

lemma sample_canonicalize:
  "generic_http_canonicalize (\<lambda>_. False) [(''base_url'', JStr ''https://H:81/a/'')] =
    Inr [(''base_url'', JStr ''https://h:81/a'')]"
  by (simp add: generic_http_canonicalize_def sample_normalize)

theorem canonical_base_url_witness:
  "\<exists>host port path. [(''base_url'', JStr ''https://h:81/a'')] =
      [(''base_url'', JStr (''https://'' @ host @ port_part port @ path))] \<and> host \<noteq> [] \<and> casefold host = host"
proof -
  have "map_of [(''base_url'', JStr ''https://H:81/a/'')] ''base_url'' = Some (JStr ''https://H:81/a/'')"
    "CHR ''['' \<notin> set ''https://H:81/a/''" by simp_all
  from canonical_base_url[OF sample_canonicalize this] show ?thesis by blast
qed

text \<open>
  Canonicalising a canonical URL again changes nothing, unless its path ends in white space.
  Publication canonicalises the stored draft a second time, so a published configuration then
  equals the draft.
\<close>

theorem canonicalize_idempotent:
  assumes "normalize_base_url ok v = Inr u" "CHR ''['' \<notin> set v" "\<not> is_space (last u)"
  shows "normalize_base_url ok u = Inr u"
  using normalize_shape[OF assms(1,2)] normalize_canonical assms(3) by blast

theorem canonicalize_idempotent_witness:
  "normalize_base_url (\<lambda>_. False) ''https://h:81/a'' = Inr ''https://h:81/a''"
  using sample_normalize by (rule canonicalize_idempotent) (simp_all add: is_space_def)

text \<open>
  The exception is real. A path whose last segment ends in a blank keeps the blank when the
  slash after it is removed, and loses it the next time: the draft stored for
  \<open>https://h/a /\<close> is not the configuration that is published from it.
\<close>

theorem canonicalize_not_idempotent:
  "normalize_base_url ok ''https://h/a /'' = Inr ''https://h/a ''
   \<and> normalize_base_url ok ''https://h/a '' = Inr ''https://h/a''"
  by (simp add: url_eval)

text \<open>
  What the registry publishes is what it compiles for a draft of the same configuration,
  with the hash of its canonical serialisation; the default registry knows one provider and
  refuses every other key.
\<close>

theorem registry_publish_compile:
  assumes "default_registry ok = Inr reg"
  shows "(k \<noteq> ''generic_http'' \<longrightarrow>
      registry_publish sha256 reg k cfg = Inl (ProviderConfigurationError ''provider key is not supported'')
      \<and> registry_compile_draft reg k cfg = Inl (ProviderConfigurationError ''provider key is not supported''))
    \<and> registry_publish sha256 reg ''generic_http'' cfg =
      bind_res (registry_compile_draft reg ''generic_http'' cfg) (\<lambda>canonical.
        Inr \<lparr>pub_definition_schema_version = 1, pub_configuration = canonical,
             pub_config_hash = sha256 (utf8 (dumps (JObj canonical)))\<rparr>)
    \<and> registry_compile_draft reg ''generic_http'' cfg = generic_http_canonicalize ok cfg"
  using assms
  by (auto simp: default_registry_def registry_of_def Let_def generic_http_provider_def
      GENERIC_HTTP_PROVIDER_KEY_def registry_publish_def registry_compile_draft_def registry_require_def)

theorem registry_publish_compile_witness:
  "\<exists>reg. default_registry (\<lambda>_. False) = Inr reg
    \<and> registry_compile_draft reg ''generic_http'' [(''base_url'', JStr ''https://H:81/a/'')] =
      Inr [(''base_url'', JStr ''https://h:81/a'')]"
proof -
  obtain reg where "default_registry (\<lambda>_. False) = Inr reg"
    by (simp add: default_registry_def registry_of_def Let_def)
  then show ?thesis using registry_publish_compile[of "\<lambda>_. False" reg] sample_canonicalize by auto
qed

end
