(* ===== verification/ConnectionLifecycle.thy ===== *)
theory ConnectionLifecycle
  imports ConnectionService ProviderFacts
begin

section \<open>The Connection control plane as a state machine\<close>

text \<open>
  The states are the databases, the steps the successful calls of the Connection service by any
  user with any arguments, interleaved with what the rest of the system does to its own tables
  (\<open>other\<close>). \<open>life_step\<close> is the abstract lifecycle the policies promise; the lemmas show that
  the system refines it and what holds in every reachable state.
\<close>

subsection \<open>Steps\<close>

inductive conn_step :: "(8 word list \<Rightarrow> 8 word list) \<Rightarrow> registry \<Rightarrow> db \<Rightarrow> db \<Rightarrow> bool"
  for sha256 :: "8 word list \<Rightarrow> 8 word list" and reg :: registry where
  create: "create_connection reg (repo_create_connection call) u w n k p d = (Inr a, d') \<Longrightarrow>
    conn_step sha256 reg d d'"
| rename: "rename_connection (repo_rename_connection call) u w c n d = (Inr b, d') \<Longrightarrow>
    conn_step sha256 reg d d'"
| put_draft: "put_draft reg (repo_put_draft call) u w c cfg d = (Inr dr, d') \<Longrightarrow>
    conn_step sha256 reg d d'"
| publish: "publish_revision sha256 reg (repo_publish_revision call) u w c d = (Inr rv, d') \<Longrightarrow>
    conn_step sha256 reg d d'"
| replace_access: "replace_access (repo_replace_access call) u w c q d = (Inr e, d') \<Longrightarrow>
    conn_step sha256 reg d d'"
| lifecycle: "transition_lifecycle (repo_transition_lifecycle call) u w c act d = (Inr f, d') \<Longrightarrow>
    conn_step sha256 reg d d'"
| other: "conn_ok d' \<Longrightarrow> connections d' = connections d \<Longrightarrow> drafts d' = drafts d \<Longrightarrow>
    revisions d' = revisions d \<Longrightarrow> project_access d' = project_access d \<Longrightarrow>
    \<exists>es. audit_events d' = audit_events d @ es \<Longrightarrow> conn_step sha256 reg d d'"

inductive reachable :: "(8 word list \<Rightarrow> 8 word list) \<Rightarrow> registry \<Rightarrow> db \<Rightarrow> bool"
  for sha256 :: "8 word list \<Rightarrow> 8 word list" and reg :: registry where
  initial: "conn_ok d \<Longrightarrow> connections d = [] \<Longrightarrow> revisions d = [] \<Longrightarrow> reachable sha256 reg d"
| step: "reachable sha256 reg d \<Longrightarrow> conn_step sha256 reg d d' \<Longrightarrow> reachable sha256 reg d'"

inductive life_step :: "ConnectionStatus \<Rightarrow> ConnectionStatus \<Rightarrow> bool" where
  first_publication: "life_step ConnectionStatus.DRAFT ConnectionStatus.ACTIVE"
| disable: "life_step ConnectionStatus.ACTIVE ConnectionStatus.DISABLED"
| enable: "life_step ConnectionStatus.DISABLED ConnectionStatus.ACTIVE"
| archive: "s \<noteq> ConnectionStatus.ARCHIVED \<Longrightarrow> life_step s ConnectionStatus.ARCHIVED"

inductive_simps life_step_from_archived: "life_step ConnectionStatus.ARCHIVED s"
inductive_cases conn_stepE: "conn_step sha256 reg d d'"

definition status_of :: "connection_row \<Rightarrow> ConnectionStatus" where
  "status_of r = projr (ConnectionStatus_of (c_status r))"

subsection \<open>What each successful call did\<close>

lemma create_step:
  assumes "conn_ok d" "create_connection reg (repo_create_connection call) u w n0 k0 p0 d = (Inr a, d')"
  obtains x n k p pr where "conn_context d u w = Some x" "can_create_with_access (cw_role x) (ap_mode p)"
    "workspace_allows_connection_mutation (cw_status x)" "normalize_connection_name n0 = Inr n"
    "registry_require reg k = Inr pr" "normalize_access_policy (ap_mode p0) (ap_project_ids p0) = Inr p"
    "policy_ok p" "projects_exist d w (ap_project_ids p)"
    "call_new_id call \<notin> set (map c_id (connections d))" "\<not> audit_id_used call d"
    "a = created_connection call w n k p" "d' = connection_created_state call x u w n k p d"
proof -
  obtain n k p pr where npk: "normalize_connection_name n0 = Inr n" "normalize_provider_key k0 = Inr k"
    "normalize_access_policy (ap_mode p0) (ap_project_ids p0) = Inr p"
    "configuration_invalid (registry_require reg k) = Inr pr"
    and rc: "repo_create_connection call (\<lambda>ctx. authorize_connection_creation ctx p) u w n k p d = (Inr a, d')"
    using assms(2) by (auto simp: create_connection_def split: sum.splits)
  have pk: "policy_ok p" using normalize_access_policy_Inr[OF npk(3)] by (auto simp: policy_ok_def)
  have req: "registry_require reg k = Inr pr"
    using npk(4) by (auto simp: configuration_invalid_def split: sum.splits exn.splits)
  note eq = repo_create_connection_eq[OF assms(1) pk, of call "\<lambda>ctx. authorize_connection_creation ctx p" u w n k]
  obtain x where x: "conn_context d u w = Some x" using rc eq by (cases "conn_context d u w") auto
  obtain y where az: "authorize_connection_creation x p = Inr y"
    using rc eq x by (cases "authorize_connection_creation x p") auto
  have "can_create_with_access (cw_role x) (ap_mode p)" "workspace_allows_connection_mutation (cw_status x)"
    using az by (auto simp: authorize_connection_creation_def split: if_splits)
  moreover have "projects_exist d w (ap_project_ids p)" "call_new_id call \<notin> set (map c_id (connections d))"
    "\<not> audit_id_used call d" "a = created_connection call w n k p" "d' = connection_created_state call x u w n k p d"
    using rc eq x az by (auto split: if_splits)
  ultimately show thesis using that x npk(1,3) req pk by blast
qed

lemma guarded_step:
  assumes "guarded d u w c az k = (Inr a, d')"
  obtains x r where "conn_context d u w = Some x" "find_connection d w c = Some r"
    "az (mutation_context_of x r) = Inr ()" "k x r = (Inr a, d')"
  using assms by (auto elim!: guarded_Inr)

lemma authoring_allowed:
  assumes "authorize_authoring (mutation_context_of x r) = Inr y"
  shows "can_author_connections (cw_role x)" "workspace_allows_connection_mutation (cw_status x)"
    "status_of r \<noteq> ConnectionStatus.ARCHIVED"
  using assms by (auto simp: authorize_authoring_def mutation_context_of_def connection_allows_authoring_def
      status_of_def split: if_splits)

lemma access_allowed:
  assumes "authorize_access p (mutation_context_of x r) = Inr y"
  shows "can_replace_access (cw_role x) (projr (ConnectionAccessMode_of (c_access_mode r))) (ap_mode p)"
    "workspace_allows_connection_mutation (cw_status x)" "status_of r \<noteq> ConnectionStatus.ARCHIVED"
  using assms by (auto simp: authorize_access_def mutation_context_of_def
      connection_allows_access_replacement_def status_of_def split: if_splits)

lemma lifecycle_allowed:
  assumes "authorize_lifecycle act (mutation_context_of x r) = Inr y"
  shows "can_manage_connection_lifecycle (cw_role x)" "workspace_allows_lifecycle_action (cw_status x) act"
    "lifecycle_transition_allowed (status_of r) act"
  using assms by (auto simp: authorize_lifecycle_def mutation_context_of_def status_of_def split: if_splits)

lemma rename_step:
  assumes "conn_ok d" "rename_connection (repo_rename_connection call) u w c n0 d = (Inr a, d')"
  obtains x r n where "conn_context d u w = Some x" "find_connection d w c = Some r"
    "authorize_authoring (mutation_context_of x r) = Inr ()" "normalize_connection_name n0 = Inr n"
    "\<not> audit_id_used call d" "d' = renamed_state call x r u n d"
    "a = connection_of d (set_name (call_now call) n r)"
proof -
  obtain n where n: "normalize_connection_name n0 = Inr n"
    and rc: "repo_rename_connection call authorize_authoring u w c n d = (Inr a, d')"
    using assms(2) by (auto simp: rename_connection_def split: sum.splits)
  show thesis using rc unfolding repo_rename_connection_eq[OF assms(1)]
    by (rule guarded_step) (use that n in \<open>auto split: if_splits\<close>)
qed

lemma put_draft_step:
  assumes "conn_ok d" "put_draft reg (repo_put_draft call) u w c cfg d = (Inr a, d')"
  obtains x r out where "conn_context d u w = Some x" "find_connection d w c = Some r"
    "authorize_authoring (mutation_context_of x r) = Inr ()"
    "compile_draft reg (mutation_context_of x r) cfg = Inr out"
    "d' = draft_put_state (call_now call) c w out u d"
    "a = draft_of (new_draft_row (call_now call) c w out u)"
proof -
  have rc: "repo_put_draft call authorize_authoring (compile_draft reg) u w c cfg d = (Inr a, d')"
    using assms(2) by (simp add: put_draft_def normalize_draft_configuration_def)
  show thesis using rc unfolding repo_put_draft_eq[OF assms(1)]
    by (rule guarded_step) (use that in \<open>auto split: sum.splits\<close>)
qed

lemma publish_step:
  assumes "conn_ok d" "publish_revision sha256 reg (repo_publish_revision call) u w c d = (Inr a, d')"
  obtains x r dr p where "conn_context d u w = Some x" "find_connection d w c = Some r"
    "authorize_authoring (mutation_context_of x r) = Inr ()" "find_draft d w c = Some dr"
    "compile_publication sha256 reg (mutation_context_of x r) (d_json dr) = Inr p"
    "call_new_id call \<notin> set (map r_id (revisions d))" "0 < pub_definition_schema_version p"
    "\<not> audit_id_used call d" "d' = published_state call x r u p d"
    "a = revision_of (new_revision_row call w c u (next_number d c) p)"
proof -
  have rc: "repo_publish_revision call authorize_authoring (compile_publication sha256 reg) u w c d = (Inr a, d')"
    using assms(2) by (simp add: publish_revision_def)
  show thesis using rc unfolding repo_publish_revision_eq[OF assms(1)]
    by (rule guarded_step) (use that in \<open>auto split: option.splits sum.splits if_splits\<close>)
qed

lemma replace_access_step:
  assumes "conn_ok d" "replace_access (repo_replace_access call) u w c p0 d = (Inr a, d')"
  obtains x r p where "conn_context d u w = Some x" "find_connection d w c = Some r"
    "normalize_access_policy (ap_mode p0) (ap_project_ids p0) = Inr p" "policy_ok p"
    "authorize_access p (mutation_context_of x r) = Inr ()"
    "projects_exist d w (ap_project_ids p)" "\<not> audit_id_used call d" "d' = access_state call x r u p d"
    "a = connection_of (access_replaced d w c u (ap_project_ids p))
           (set_access_mode (call_now call) (ConnectionAccessMode_value (ap_mode p)) r)"
proof -
  obtain p where p: "normalize_access_policy (ap_mode p0) (ap_project_ids p0) = Inr p"
    and rc: "repo_replace_access call (authorize_access p) u w c p d = (Inr a, d')"
    using assms(2) by (auto simp: replace_access_def split: sum.splits)
  have pk: "policy_ok p" using normalize_access_policy_Inr[OF p] by (auto simp: policy_ok_def)
  show thesis using rc unfolding repo_replace_access_eq[OF assms(1) pk]
    by (rule guarded_step) (use that p pk in \<open>auto split: if_splits\<close>)
qed

lemma lifecycle_step:
  assumes "conn_ok d" "transition_lifecycle (repo_transition_lifecycle call) u w c act d = (Inr a, d')"
  obtains x r where "conn_context d u w = Some x" "find_connection d w c = Some r"
    "authorize_lifecycle act (mutation_context_of x r) = Inr ()"
    "\<not> audit_id_used call d" "d' = transitioned_state call x r u act d"
    "a = connection_of d (set_lifecycle (call_now call) (ConnectionStatus_value (lifecycle_target act)) r)"
proof -
  have rc: "repo_transition_lifecycle call (authorize_lifecycle act) u w c act d = (Inr a, d')"
    using assms(2) by (simp add: transition_lifecycle_def)
  show thesis using rc unfolding repo_transition_lifecycle_eq[OF assms(1)]
    by (rule guarded_step) (use that in \<open>auto split: if_splits\<close>)
qed

lemma connection_created_state_ok:
  assumes "conn_ok d" "conn_context d u w = Some x" "call_new_id call \<notin> set (map c_id (connections d))"
    "policy_ok p" "projects_exist d w (ap_project_ids p)" "\<not> audit_id_used call d"
  shows "conn_ok (connection_created_state call x u w n k p d)"
proof -
  have "schema_ok d" using assms(1) by (simp add: conn_ok_def)
  note wd = conn_context_workspace(2)[OF this assms(2)]
  show ?thesis unfolding connection_created_state_def
    by (rule audited_ok[OF connection_added_ok[OF assms(1) wd assms(3-5)]])
      (use assms(6) in \<open>simp add: connection_added_def audit_id_used_def\<close>)
qed

lemma conn_step_ok:
  assumes "conn_step sha256 reg d d'" "conn_ok d"
  shows "conn_ok d'"
  using assms
proof cases
  case (create call u w n k p a)
  from create_step[OF assms(2) create] show ?thesis
    using connection_created_state_ok[OF assms(2)] by metis
next
  case (rename call u w c n b)
  from rename_step[OF assms(2) rename] show ?thesis using renamed_state_ok[OF assms(2)] by metis
next
  case (put_draft call u w c cfg dr)
  from put_draft_step[OF assms(2) put_draft] show ?thesis
    using draft_put_state_ok[OF assms(2)] found_row_checks(4)[OF assms(2)] by metis
next
  case (publish call u w c rv)
  from publish_step[OF assms(2) publish] show ?thesis using published_state_ok[OF assms(2)] by metis
next
  case (replace_access call u w c q e)
  from replace_access_step[OF assms(2) replace_access] show ?thesis using access_state_ok[OF assms(2)] by metis
next
  case (lifecycle call u w c act f)
  from lifecycle_step[OF assms(2) lifecycle] show ?thesis using transitioned_state_ok[OF assms(2)] by metis
qed

subsection \<open>A step changes one Connection\<close>

definition conn_view ::
  "db \<Rightarrow> uuid \<Rightarrow> uuid \<Rightarrow> connection_row option \<times> uuid list \<times> revision_row list \<times> draft_row option" where
  "conn_view d w c =
     (find_connection d w c, access_project_ids d c, connection_revisions d c, find_draft d w c)"

lemma find_append: "find P (xs @ ys) = (case find P xs of None \<Rightarrow> find P ys | Some x \<Rightarrow> Some x)"
  by (induction xs) auto

lemma find_unique_id:
  assumes "schema_ok d" "find_connection d w c = Some r" "find_connection d w' c = Some r'"
  shows "r' = r" "w' = w"
  using find_connection_Some[OF assms(2)] find_connection_Some[OF assms(3)]
    distinct_key_unique[of c_id "connections d" r r'] assms(1)
  by (auto simp: schema_ok_def connections_ok_def)

lemma view_set_connection:
  assumes "c \<noteq> c0" "keeps_keys f"
  shows "conn_view (set_connection d w0 c0 f) w c = conn_view d w c"
  using assms by (simp add: conn_view_def find_connection_set connection_revisions_def find_draft_def)

lemma view_audited: "conn_view (audited e d) w c = conn_view d w c"
  by (simp add: conn_view_def connection_revisions_def find_draft_def access_project_ids_def)

lemma view_renamed: "c \<noteq> c_id r \<Longrightarrow> conn_view (renamed_state call x r u n d) w c = conn_view d w c"
  by (simp add: renamed_state_def view_audited view_set_connection)

lemma view_transitioned: "c \<noteq> c_id r \<Longrightarrow> conn_view (transitioned_state call x r u act d) w c = conn_view d w c"
  by (simp add: transitioned_state_def view_audited view_set_connection)

lemma view_published: "c \<noteq> c_id r \<Longrightarrow> conn_view (published_state call x r u p d) w c = conn_view d w c"
  by (simp add: published_state_def view_audited view_set_connection)
    (simp add: conn_view_def connection_revisions_def find_draft_def access_project_ids_def new_revision_row_def)

lemma view_access: "c \<noteq> c_id r \<Longrightarrow> conn_view (access_state call x r u p d) w c = conn_view d w c"
  by (simp add: access_state_def Let_def view_audited view_set_connection)
    (simp add: conn_view_def access_replaced_ids, simp add: access_replaced_def connection_revisions_def find_draft_def)

lemma view_draft_put:
  assumes "c \<noteq> c0"
  shows "conn_view (draft_put_state now c0 w0 cfg u d) w c = conn_view d w c"
proof -
  have "find (\<lambda>r. d_workspace_id r = w \<and> d_connection_id r = c)
      (upd_where (\<lambda>r. d_connection_id r = c0) (\<lambda>_. new_draft_row now c0 w0 cfg u) xs) =
      find (\<lambda>r. d_workspace_id r = w \<and> d_connection_id r = c) xs" for xs
    using assms by (induction xs) (auto simp: new_draft_row_def)
  then show ?thesis using assms
    by (auto simp: conn_view_def draft_put_state_def find_draft_def connection_revisions_def
        access_project_ids_def find_append new_draft_row_def split: option.split)
qed

lemma view_created:
  assumes "conn_ok d" "call_new_id call \<notin> set (map c_id (connections d))" "find_connection d w c = Some r"
  shows "conn_view (connection_created_state call x u w0 n k p d) w c = conn_view d w c"
proof -
  have "c \<noteq> call_new_id call" using find_connection_Some[OF assms(3)] assms(2) by (metis imageI set_map)
  then show ?thesis using assms(3)
    by (simp add: connection_created_state_def view_audited conn_view_def connection_added_def
        find_connection_def find_append connection_revisions_def find_draft_def access_project_ids_def)
qed

definition row_evolves :: "connection_row \<Rightarrow> connection_row \<Rightarrow> bool" where
  "row_evolves r r' \<longleftrightarrow> c_id r' = c_id r \<and> c_workspace_id r' = c_workspace_id r
     \<and> c_provider_key r' = c_provider_key r \<and> c_created_at r' = c_created_at r
     \<and> (status_of r' = status_of r \<or> life_step (status_of r) (status_of r'))"

lemma row_evolves_refl [simp]: "row_evolves r r"
  by (simp add: row_evolves_def)

lemma status_of_value [simp]:
  "c_status r = ConnectionStatus_value st \<Longrightarrow> status_of r = st"
  by (simp add: status_of_def)

lemma transition_life_step:
  assumes "lifecycle_transition_allowed st act"
  shows "life_step st (lifecycle_target act)"
  using assms by (cases act) (auto simp: lifecycle_transition_allowed_def intro: life_step.intros split: if_splits)

lemma row_evolves_sets:
  "row_evolves r (set_name now n r)" "row_evolves r (set_access_mode now md r)"
  "lifecycle_transition_allowed (status_of r) act \<Longrightarrow>
    row_evolves r (set_lifecycle now (ConnectionStatus_value (lifecycle_target act)) r)"
  "row_evolves r (activate_if_draft now r)"
proof -
  show "row_evolves r (set_name now n r)" "row_evolves r (set_access_mode now md r)"
    by (simp_all add: row_evolves_def set_name_def set_access_mode_def status_of_def)
  assume "lifecycle_transition_allowed (status_of r) act"
  from transition_life_step[OF this]
  show "row_evolves r (set_lifecycle now (ConnectionStatus_value (lifecycle_target act)) r)"
    by (simp add: row_evolves_def set_lifecycle_def status_of_def)
next
  show "row_evolves r (activate_if_draft now r)"
    using first_publication
    by (auto simp: row_evolves_def activate_if_draft_def set_active_def status_of_def ConnectionStatus_of_def)
qed

text \<open>
  One step either leaves a Connection's row, access, revisions and draft as they are, or the
  Connection is not archived and its row evolves along the abstract lifecycle.
\<close>

lemma conn_step_view:
  assumes "conn_step sha256 reg d d'" "conn_ok d" "find_connection d w c = Some r"
  shows "conn_view d' w c = conn_view d w c \<or>
    status_of r \<noteq> ConnectionStatus.ARCHIVED \<and> (\<exists>r'. find_connection d' w c = Some r' \<and> row_evolves r r')"
proof -
  have s: "schema_ok d" using assms(2) by (simp add: conn_ok_def)
  have same: "c0 = c \<Longrightarrow> find_connection d w0 c0 = Some r0 \<Longrightarrow> r0 = r \<and> w0 = w" for w0 c0 r0
    using find_unique_id[OF s assms(3)] by blast
  from assms(1) show ?thesis
  proof cases
    case (create call u w0 n k p a)
    from create_step[OF assms(2) create] show ?thesis using view_created[OF assms(2) _ assms(3)] by metis
  next
    case (rename call u w0 c0 n0 b)
    from assms(2) rename show ?thesis
    proof (rule rename_step)
      fix x r0 n assume h: "find_connection d w0 c0 = Some r0" "authorize_authoring (mutation_context_of x r0) = Inr ()"
        "d' = renamed_state call x r0 u n d"
      note id = found_row_checks[OF assms(2) h(1)]
      show ?thesis
      proof (cases "c0 = c")
        case True
        then have "r0 = r" "w0 = w" using same h(1) by auto
        then show ?thesis using True h id assms(3) authoring_allowed(3)[OF h(2)] row_evolves_sets(1)
          by (simp add: renamed_state_def find_connection_set)
      qed (use h id view_renamed in auto)
    qed
  next
    case (put_draft call u w0 c0 cfg dr)
    from assms(2) put_draft show ?thesis
    proof (rule put_draft_step)
      fix x r0 out assume h: "find_connection d w0 c0 = Some r0" "authorize_authoring (mutation_context_of x r0) = Inr ()"
        "d' = draft_put_state (call_now call) c0 w0 out u d"
      show ?thesis
      proof (cases "c0 = c")
        case True
        then have "r0 = r" "w0 = w" using same h(1) by auto
        then show ?thesis using h assms(3) authoring_allowed(3)[OF h(2)]
          by (simp add: draft_put_state_def)
      qed (use h view_draft_put in auto)
    qed
  next
    case (publish call u w0 c0 rv)
    from assms(2) publish show ?thesis
    proof (rule publish_step)
      fix x r0 dr p assume h: "find_connection d w0 c0 = Some r0" "authorize_authoring (mutation_context_of x r0) = Inr ()"
        "d' = published_state call x r0 u p d"
      note id = found_row_checks[OF assms(2) h(1)]
      show ?thesis
      proof (cases "c0 = c")
        case True
        then have "r0 = r" "w0 = w" using same h(1) by auto
        then show ?thesis using True h id assms(3) authoring_allowed(3)[OF h(2)] row_evolves_sets(4)
          by (simp add: published_state_def find_connection_set)
      qed (use h id view_published in auto)
    qed
  next
    case (replace_access call u w0 c0 q e)
    from assms(2) replace_access show ?thesis
    proof (rule replace_access_step)
      fix x r0 p assume h: "find_connection d w0 c0 = Some r0" "authorize_access p (mutation_context_of x r0) = Inr ()"
        "d' = access_state call x r0 u p d"
      note id = found_row_checks[OF assms(2) h(1)]
      show ?thesis
      proof (cases "c0 = c")
        case True
        then have "r0 = r" "w0 = w" using same h(1) by auto
        then show ?thesis using True h id assms(3) access_allowed(3)[OF h(2)] row_evolves_sets(2)
          by (simp add: access_state_def Let_def find_connection_set)
      qed (use h id view_access in auto)
    qed
  next
    case (lifecycle call u w0 c0 act f)
    from assms(2) lifecycle show ?thesis
    proof (rule lifecycle_step)
      fix x r0 assume h: "find_connection d w0 c0 = Some r0" "authorize_lifecycle act (mutation_context_of x r0) = Inr ()"
        "d' = transitioned_state call x r0 u act d"
      note id = found_row_checks[OF assms(2) h(1)] and al = lifecycle_allowed(3)[OF h(2)]
      show ?thesis
      proof (cases "c0 = c")
        case True
        then have r0: "r0 = r" "w0 = w" using same h(1) by auto
        have "status_of r \<noteq> ConnectionStatus.ARCHIVED"
          using al r0 by (cases act) (auto simp: lifecycle_transition_allowed_def split: if_splits)
        then show ?thesis using True r0 h id assms(3) al row_evolves_sets(3)
          by (simp add: transitioned_state_def find_connection_set)
      qed (use h id view_transitioned in auto)
    qed
  next
    case other
    then show ?thesis
      by (simp add: conn_view_def find_connection_def find_draft_def connection_revisions_def access_project_ids_def)
  qed
qed

subsection \<open>The invariant\<close>

text \<open>
  What holds of every Connection in a reachable state, given its row and its revisions in the
  order they were published.
\<close>

definition published_well :: "(8 word list \<Rightarrow> 8 word list) \<Rightarrow> registry \<Rightarrow> string \<Rightarrow> revision_row \<Rightarrow> bool" where
  "published_well sha256 reg k v \<longleftrightarrow>
     (\<exists>cfg p. registry_publish sha256 reg k cfg = Inr p \<and> r_config_json v = pub_configuration p
       \<and> r_config_hash v = pub_config_hash p \<and> r_schema_version v = pub_definition_schema_version p)"

definition row_inv ::
  "(8 word list \<Rightarrow> 8 word list) \<Rightarrow> registry \<Rightarrow> revision_row list \<Rightarrow> connection_row \<Rightarrow> bool" where
  "row_inv sha256 reg revs r \<longleftrightarrow>
     (status_of r = ConnectionStatus.DRAFT \<longrightarrow> revs = [])
     \<and> (status_of r \<in> {ConnectionStatus.ACTIVE, ConnectionStatus.DISABLED} \<longrightarrow> revs \<noteq> [])
     \<and> (status_of r = ConnectionStatus.ARCHIVED \<longleftrightarrow> c_archived_at r \<noteq> None)
     \<and> map r_number revs = [1..int (length revs)]
     \<and> (\<exists>p. registry_require reg (c_provider_key r) = Inr p)
     \<and> (\<forall>v \<in> set revs. r_workspace_id v = c_workspace_id r \<and> published_well sha256 reg (c_provider_key r) v)"

definition life_inv :: "(8 word list \<Rightarrow> 8 word list) \<Rightarrow> registry \<Rightarrow> db \<Rightarrow> bool" where
  "life_inv sha256 reg d \<longleftrightarrow>
     (\<forall>r \<in> set (connections d). row_inv sha256 reg (connection_revisions d (c_id r)) r)"

lemma next_number_contiguous:
  assumes "map r_number (connection_revisions d c) = [1..int (length (connection_revisions d c))]"
  shows "next_number d c = int (length (connection_revisions d c)) + 1"
proof (cases "connection_revisions d c = []")
  case True
  then show ?thesis by (simp add: next_number_Max)
next
  case False
  let ?n = "int (length (connection_revisions d c))"
  have "r_number ` set (connection_revisions d c) = {1..?n}"
    using arg_cong[OF assms, of set] by simp
  moreover have "Max {1..?n} = ?n" using False by (intro Max_eqI) (auto simp: Suc_le_eq)
  ultimately show ?thesis using False by (simp add: next_number_Max)
qed

lemma map_upto_snoc: "0 \<le> n \<Longrightarrow> [1..n] @ [n + 1] = [1..n + 1]"
  using upto_rec2[of 1 "n + 1"] by simp

lemma life_inv_set:
  assumes "life_inv sha256 reg d" "conn_ok d" "find_connection d w c = Some r" "keeps_keys f"
    "\<And>revs. row_inv sha256 reg revs r \<Longrightarrow> row_inv sha256 reg revs (f r)"
  shows "life_inv sha256 reg (set_connection d w c f)"
  unfolding life_inv_def
proof
  fix r' assume "r' \<in> set (connections (set_connection d w c f))"
  then obtain q where q: "q \<in> set (connections d)" "r' = (if c_workspace_id q = w \<and> c_id q = c then f q else q)"
    by (auto simp: set_connection_def set_upd_where)
  have inv: "row_inv sha256 reg (connection_revisions d (c_id q)) q" using assms(1) q(1) by (simp add: life_inv_def)
  have revs: "connection_revisions (set_connection d w c f) i = connection_revisions d i" for i
    by (simp add: connection_revisions_def)
  show "row_inv sha256 reg (connection_revisions (set_connection d w c f) (c_id r')) r'"
  proof (cases "c_workspace_id q = w \<and> c_id q = c")
    case True
    then have "q = r"
      using q(1) find_connection_eqI[of d q w c] assms(2,3) by (simp add: conn_ok_def)
    then show ?thesis using inv assms(4,5) q(2) True unfolding revs by (auto simp: keeps_keys_def)
  next
    case False
    then show ?thesis using inv q(2) unfolding revs by auto
  qed
qed

lemma life_inv_audited: "life_inv sha256 reg (audited e d) = life_inv sha256 reg d"
  by (simp add: life_inv_def connection_revisions_def)

lemma row_inv_sets:
  "row_inv sha256 reg revs r \<Longrightarrow> row_inv sha256 reg revs (set_name now n r)"
  "row_inv sha256 reg revs r \<Longrightarrow> row_inv sha256 reg revs (set_access_mode now md r)"
  by (simp_all add: row_inv_def set_name_def set_access_mode_def status_of_def)

lemma row_inv_lifecycle:
  assumes "row_inv sha256 reg revs r" "lifecycle_transition_allowed (status_of r) act"
  shows "row_inv sha256 reg revs (set_lifecycle now (ConnectionStatus_value (lifecycle_target act)) r)"
proof -
  let ?f = "set_lifecycle now (ConnectionStatus_value (lifecycle_target act))"
  have st: "status_of (?f r) = lifecycle_target act" by (simp add: set_lifecycle_def status_of_def)
  have fields: "c_provider_key (?f r) = c_provider_key r" "c_workspace_id (?f r) = c_workspace_id r"
    by (simp_all add: set_lifecycle_def)
  have "c_archived_at (?f r) \<noteq> None \<longleftrightarrow> lifecycle_target act = ConnectionStatus.ARCHIVED"
    using assms by (cases act) (auto simp: set_lifecycle_def lifecycle_transition_allowed_def row_inv_def)
  moreover have "lifecycle_target act \<noteq> ConnectionStatus.DRAFT" by (cases act) simp_all
  moreover have "lifecycle_target act \<in> {ConnectionStatus.ACTIVE, ConnectionStatus.DISABLED} \<Longrightarrow> revs \<noteq> []"
    using assms by (cases act) (auto simp: lifecycle_transition_allowed_def row_inv_def)
  ultimately show ?thesis using assms(1) st fields by (auto simp: row_inv_def)
qed

lemma life_inv_published:
  assumes "life_inv sha256 reg d" "conn_ok d" "find_connection d w c = Some r"
    "compile_publication sha256 reg (mutation_context_of x r) cfg = Inr p"
    "status_of r \<noteq> ConnectionStatus.ARCHIVED"
  shows "life_inv sha256 reg (published_state call x r u p d)"
proof -
  note id = found_row_checks[OF assms(2,3)] and mem = find_connection_Some[OF assms(3)]
  let ?v = "new_revision_row call w c u (next_number d c) p"
  let ?d1 = "d\<lparr>revisions := revisions d @ [?v]\<rparr>"
  let ?f = "activate_if_draft (call_now call)"
  have pub: "published_well sha256 reg (c_provider_key r) ?v"
    using assms(4) by (auto simp: published_well_def compile_publication_def configuration_invalid_def
        mutation_context_of_def new_revision_row_def split: sum.splits exn.splits)
  have revs: "connection_revisions (set_connection ?d1 w c ?f) i =
      (if i = c then connection_revisions d i @ [?v] else connection_revisions d i)" for i
    by (simp add: connection_revisions_def new_revision_row_def)
  show ?thesis
    unfolding published_state_def id life_inv_audited
    unfolding life_inv_def
  proof
    fix r' assume "r' \<in> set (connections (set_connection ?d1 w c ?f))"
    then obtain q where q: "q \<in> set (connections d)" "r' = (if c_workspace_id q = w \<and> c_id q = c then ?f q else q)"
      by (auto simp: set_connection_def set_upd_where)
    have inv: "row_inv sha256 reg (connection_revisions d (c_id q)) q"
      using assms(1) q(1) by (simp add: life_inv_def)
    show "row_inv sha256 reg (connection_revisions (set_connection ?d1 w c ?f) (c_id r')) r'"
    proof (cases "c_id q = c")
      case True
      then have qr: "q = r"
        using q(1) mem distinct_key_unique[of c_id "connections d" q r] assms(2)
        by (simp add: conn_ok_def schema_ok_def connections_ok_def)
      let ?revs = "connection_revisions d c"
      have i: "row_inv sha256 reg ?revs r" using inv qr id by simp
      have num: "r_number ?v = int (length ?revs) + 1"
        using next_number_contiguous i by (simp add: new_revision_row_def row_inv_def)
      have st: "status_of (?f r) \<noteq> ConnectionStatus.DRAFT" "status_of (?f r) \<noteq> ConnectionStatus.ARCHIVED"
        using assms(5) found_row_checks(2)[OF assms(2,3)]
        by (auto simp: activate_if_draft_def set_active_def status_of_def ConnectionStatus_of_def
            connection_statuses_def)
      have fields: "c_provider_key (?f r) = c_provider_key r" "c_workspace_id (?f r) = w"
        "c_archived_at (?f r) = c_archived_at r" "c_id (?f r) = c"
        using id by (auto simp: activate_if_draft_def set_active_def)
      have "row_inv sha256 reg (?revs @ [?v]) (?f r)"
        using i st fields num pub assms(5) id map_upto_snoc[of "int (length ?revs)"]
        by (auto simp: row_inv_def new_revision_row_def add.commute)
      then show ?thesis using q(2) qr id fields unfolding revs by simp
    next
      case False
      then show ?thesis using inv q(2) unfolding revs by auto
    qed
  qed
qed

lemma life_inv_created:
  assumes "life_inv sha256 reg d" "conn_ok d" "call_new_id call \<notin> set (map c_id (connections d))"
    "registry_require reg k = Inr pr"
  shows "life_inv sha256 reg (connection_created_state call x u w n k p d)"
proof -
  have "connection_revisions d (call_new_id call) = []"
    using assms(2,3) by (force simp: connection_revisions_def filter_empty_conv conn_ok_def schema_ok_def
        revisions_ok_def connection_keys_def)
  then have "row_inv sha256 reg (connection_revisions d (call_new_id call)) (new_connection_row call w n k (ap_mode p))"
    using assms(4) by (simp add: row_inv_def new_connection_row_def status_of_def ConnectionStatus_of_def)
  moreover have "c_id (new_connection_row call w n k (ap_mode p)) = call_new_id call"
    by (simp add: new_connection_row_def)
  ultimately show ?thesis
    using assms(1) unfolding connection_created_state_def life_inv_audited
    by (auto simp: life_inv_def connection_added_def connection_revisions_def)
qed

lemma conn_step_life_inv:
  assumes "conn_step sha256 reg d d'" "conn_ok d" "life_inv sha256 reg d"
  shows "life_inv sha256 reg d'"
  using assms(1)
proof cases
  case (create call u w n k p a)
  from create_step[OF assms(2) create] show ?thesis using life_inv_created[OF assms(3,2)] by metis
next
  case (rename call u w c n0 b)
  from assms(2) rename show ?thesis
  proof (rule rename_step)
    fix x r n assume h: "find_connection d w c = Some r" "d' = renamed_state call x r u n d"
    show ?thesis unfolding h(2) renamed_state_def found_row_checks(5,6)[OF assms(2) h(1)] life_inv_audited
      by (rule life_inv_set[OF assms(3,2) h(1)]) (simp_all add: row_inv_sets)
  qed
next
  case (put_draft call u w c cfg dr)
  from assms(2) put_draft show ?thesis
  proof (rule put_draft_step)
    fix out assume "d' = draft_put_state (call_now call) c w out u d"
    then show ?thesis using assms(3) by (simp add: life_inv_def draft_put_state_def connection_revisions_def)
  qed
next
  case (publish call u w c rv)
  from assms(2) publish show ?thesis
    by (rule publish_step) (use life_inv_published[OF assms(3,2)] authoring_allowed(3) in metis)
next
  case (replace_access call u w c q e)
  from assms(2) replace_access show ?thesis
  proof (rule replace_access_step)
    fix x r p assume h: "find_connection d w c = Some r" "d' = access_state call x r u p d"
      "policy_ok p" "projects_exist d w (ap_project_ids p)"
    let ?d1 = "access_replaced d w c u (ap_project_ids p)"
    have "life_inv sha256 reg ?d1 \<longleftrightarrow> life_inv sha256 reg d"
      by (simp add: life_inv_def access_replaced_def connection_revisions_def)
    have "life_inv sha256 reg (set_connection d w c (set_access_mode (call_now call) (ConnectionAccessMode_value (ap_mode p))))"
      by (rule life_inv_set[OF assms(3,2) h(1)]) (simp_all add: row_inv_sets)
    then show ?thesis
      unfolding h(2) access_state_def Let_def found_row_checks(5,6)[OF assms(2) h(1)] life_inv_audited
      by (simp add: life_inv_def access_replaced_def connection_revisions_def set_connection_def)
  qed
next
  case (lifecycle call u w c act f)
  from assms(2) lifecycle show ?thesis
  proof (rule lifecycle_step)
    fix x r assume h: "find_connection d w c = Some r" "d' = transitioned_state call x r u act d"
      "authorize_lifecycle act (mutation_context_of x r) = Inr ()"
    show ?thesis unfolding h(2) transitioned_state_def found_row_checks(5,6)[OF assms(2) h(1)] life_inv_audited
      by (rule life_inv_set[OF assms(3,2) h(1)]) (simp_all add: row_inv_lifecycle lifecycle_allowed(3)[OF h(3)])
  qed
next
  case other
  then show ?thesis using assms(3) by (simp add: life_inv_def connection_revisions_def)
qed

lemma reachable_inv:
  assumes "reachable sha256 reg d"
  shows "conn_ok d" "life_inv sha256 reg d"
  using assms
proof (induction rule: reachable.induct)
  case (initial d)
  { case 1 show ?case by (rule initial(1)) next
    case 2 show ?case using initial by (simp add: life_inv_def) }
next
  case (step d d')
  { case 1 show ?case by (rule conn_step_ok[OF step(2) step.IH(1)]) next
    case 2 show ?case by (rule conn_step_life_inv[OF step(2) step.IH]) }
qed

end
