(* ===== verification/ConnectionContracts.thy ===== *)
theory ConnectionContracts
  imports ConnectionLifecycle
begin

section \<open>What a client of the Connection service relies on\<close>

text \<open>
  The operations of \<open>ConnectionService\<close> composed with the SQL repository, as a route handler
  calls them: the reads (listings complete, tenants isolated, configurations hidden from
  viewers), the mutations (authorised, atomic, audited, readable afterwards) and publication.
\<close>

subsection \<open>The reads of the service\<close>

lemma conn_ok_schema: "conn_ok d \<Longrightarrow> schema_ok d"
  by (simp add: conn_ok_def)

lemma list_connections_eq:
  assumes "conn_ok d" "1 \<le> n" "n \<le> 100"
  shows "list_connections repo_list_connections_for_user u w cur (int n) d = (case conn_context d u w of
      None \<Rightarrow> Inl ConnectionWorkspaceNotFoundError
    | Some x \<Rightarrow> Inr \<lparr>cp_items = fst (page_spec connection_key (workspace_connections d w) cur n),
        cp_next_cursor = snd (page_spec connection_key (workspace_connections d w) cur n)\<rparr>)"
  using repo_list_connections_eq[OF assms(1), of n u w cur] assms
  by (simp add: list_connections_def validate_connection_page_limit_def MAX_CONNECTION_PAGE_LIMIT_def
      authorize_connection_read_def split: option.split)

lemma get_connection_eq:
  assumes "conn_ok d"
  shows "get_connection repo_get_connection_for_user u w c d = (case conn_context d u w of
      None \<Rightarrow> Inl ConnectionWorkspaceNotFoundError
    | Some x \<Rightarrow> (case find_connection d w c of
        None \<Rightarrow> Inl ConnectionNotFoundError | Some r \<Rightarrow> Inr (connection_of d r)))"
  by (simp add: get_connection_def repo_get_connection_eq[OF assms] authorize_connection_read_def
      split: option.split)

lemma get_draft_eq:
  assumes "schema_ok d"
  shows "get_draft repo_get_draft_for_user u w c d = (case mutation_context_at d u w c of
      Inl e \<Rightarrow> Inl e
    | Inr m \<Rightarrow> (case authorize_authoring m of
        Inl e \<Rightarrow> Inl e
      | Inr _ \<Rightarrow> (case find_draft d w c of
          None \<Rightarrow> Inl (ConnectionStateConflictError ''connection draft does not exist'')
        | Some r \<Rightarrow> Inr (draft_of r))))"
  by (simp add: get_draft_def repo_get_draft_eq[OF assms] mutation_context_at_def bind_res_def
      split: option.split sum.split)

lemma list_revisions_eq:
  assumes "schema_ok d" "1 \<le> n" "n \<le> 100" "\<forall>v. b = Some v \<longrightarrow> 1 \<le> v"
  shows "list_revisions repo_list_revisions_for_user u w c b (int n) d = (case mutation_context_at d u w c of
      Inl e \<Rightarrow> Inl e
    | Inr m \<Rightarrow> Inr \<lparr>rp_items = fst (page_spec rm_revision_number (map metadata_of (revision_rows d w c)) b n),
        rp_next_before_revision =
          snd (page_spec rm_revision_number (map metadata_of (revision_rows d w c)) b n)\<rparr>)"
proof -
  have "validate_before_revision b = Inr b"
    using assms(4) by (cases b) (auto simp: validate_before_revision_def)
  then show ?thesis using repo_list_revisions_eq[OF assms(1), of n u w c b] assms(2,3)
    by (simp add: list_revisions_def validate_connection_revision_page_limit_def
        MAX_CONNECTION_REVISION_PAGE_LIMIT_def authorize_read_mutation_context_def
        mutation_context_at_def mutation_context_of_def split: option.split)
qed

lemma get_revision_eq:
  assumes "schema_ok d"
  shows "get_revision repo_get_revision_for_user u w c i d = (case mutation_context_at d u w c of
      Inl e \<Rightarrow> Inl e
    | Inr m \<Rightarrow>
        if cw_role (cm_workspace m) = ConnectionAuthorizationRole.VIEWER
        then Inl (ConnectionPermissionDeniedError ''connection configuration read is not permitted'')
        else (case find_revision d w c i of
          None \<Rightarrow> Inl ConnectionNotFoundError | Some r \<Rightarrow> Inr (revision_of r)))"
  by (simp add: get_revision_def repo_get_revision_eq[OF assms] can_author_connections_iff
      mutation_context_at_def mutation_context_of_def split: option.split)

subsection \<open>The two listings as pages\<close>

definition connection_page_of ::
  "db \<times> uuid \<times> uuid \<Rightarrow> ConnectionPageCursor option \<Rightarrow> nat \<Rightarrow> Connection list \<times> ConnectionPageCursor option" where
  "connection_page_of q cursor n = (case q of (d, u, w) \<Rightarrow>
     case list_connections repo_list_connections_for_user u w cursor (int n) d of
       Inl _ \<Rightarrow> ([], None) | Inr page \<Rightarrow> (cp_items page, cp_next_cursor page))"

interpretation connection_pages: keyset_pages connection_key 100
    "\<lambda>(d, u, w). conn_ok d \<and> conn_context d u w \<noteq> None"
    "\<lambda>(d, u, w). workspace_connections d w" connection_page_of
  by unfold_locales
    (auto simp: descending_workspace_connections conn_ok_schema connection_page_of_def list_connections_eq)

definition revision_page_of ::
  "db \<times> uuid \<times> uuid \<times> uuid \<Rightarrow> int option \<Rightarrow> nat \<Rightarrow> ConnectionRevisionMetadata list \<times> int option" where
  "revision_page_of q cursor n = (case q of (d, u, w, c) \<Rightarrow>
     case list_revisions repo_list_revisions_for_user u w c cursor (int n) d of
       Inl _ \<Rightarrow> ([], None) | Inr page \<Rightarrow> (rp_items page, rp_next_before_revision page))"

lemma rm_number_metadata [simp]: "rm_revision_number (metadata_of r) = r_number r"
  by (simp add: metadata_of_def)

lemma no_revision_below:
  assumes "schema_ok d" "v < 1"
  shows "filter (\<lambda>m. rm_revision_number m < v) (map metadata_of (revision_rows d w c)) = []"
  using assms by (auto simp: filter_empty_conv revision_rows_def schema_ok_def revisions_ok_def)

interpretation revision_pages: keyset_pages rm_revision_number 100
    "\<lambda>(d, u, w, c). schema_ok d \<and> \<not> isl (mutation_context_at d u w c)"
    "\<lambda>(d, u, w, c). map metadata_of (revision_rows d w c)" revision_page_of
proof unfold_locales
  fix q :: "db \<times> uuid \<times> uuid \<times> uuid" and n :: nat and cursor :: "int option"
  obtain d u w c where q: "q = (d, u, w, c)" by (cases q)
  assume ok: "case q of (d, u, w, c) \<Rightarrow> schema_ok d \<and> \<not> isl (mutation_context_at d u w c)"
  then have s: "schema_ok d" and m: "\<not> isl (mutation_context_at d u w c)" by (simp_all add: q)
  show "descending rm_revision_number (case q of (d, u, w, c) \<Rightarrow> map metadata_of (revision_rows d w c))"
    using descending_revision_rows[OF s] by (simp add: q descending_map)
  assume n: "0 < n" "n \<le> 100"
  show "revision_page_of q cursor n = page_spec rm_revision_number
      (case q of (d, u, w, c) \<Rightarrow> map metadata_of (revision_rows d w c)) cursor n"
  proof (cases "\<forall>v. cursor = Some v \<longrightarrow> 1 \<le> v")
    case True
    then show ?thesis using list_revisions_eq[OF s _ n(2) True, of u w c] m n(1)
      by (auto simp: q revision_page_of_def split: sum.splits)
  next
    case False
    then obtain v where v: "cursor = Some v" "v < 1" by auto
    then show ?thesis using no_revision_below[OF s v(2), of w c]
      by (simp add: q revision_page_of_def list_revisions_def validate_before_revision_def page_spec_def Let_def)
  qed
qed

subsection \<open>A database with published revisions\<close>

definition sample_revision :: "uuid \<Rightarrow> int \<Rightarrow> revision_row" where
  "sample_revision i n = \<lparr>r_id = i, r_workspace_id = 10, r_connection_id = 31, r_number = n,
     r_schema_version = 1, r_config_json = [(''base_url'', JStr ''https://a.io'')], r_config_hash = [1],
     r_created_by_user_id = Some 1, r_created_at = 9\<rparr>"

definition sample_published_db :: db where
  "sample_published_db = sample_db\<lparr>
     connections := connections sample_db @ [\<lparr>c_id = 31, c_workspace_id = 10, c_name = ''Api'',
       c_provider_key = ''generic_http'', c_access_mode = ''SELECTED_PROJECTS'', c_status = ''ACTIVE'',
       c_created_at = 9, c_updated_at = 9, c_archived_at = None\<rparr>],
     revisions := [sample_revision 50 1, sample_revision 51 2],
     project_access := [\<lparr>a_workspace_id = 10, a_connection_id = 31, a_project_id = 20,
       a_granted_by_user_id = Some 1\<rparr>]\<rparr>"

lemma sample_published_ok: "conn_ok sample_published_db"
  by (simp add: conn_ok_def schema_ok_def access_consistent_def access_project_ids_def table_ok_defs
      check_lists sample_published_db_def sample_revision_def sample_db_def)

lemma sample_db_ok: "conn_ok sample_db"
  using sample_db_schema by (simp add: conn_ok_def access_consistent_def access_project_ids_def sample_db_def)

definition sample_context :: "ConnectionAuthorizationRole \<Rightarrow> ConnectionWorkspaceContext" where
  "sample_context role = \<lparr>cw_workspace_id = 10, cw_status = ConnectionWorkspaceStatus.ACTIVE, cw_role = role\<rparr>"

lemma sample_conn_context:
  "conn_context sample_db 1 10 = Some (sample_context ConnectionAuthorizationRole.OWNER)"
  "conn_context sample_db 2 10 = Some (sample_context ConnectionAuthorizationRole.VIEWER)"
  "conn_context sample_db 4 10 = Some (sample_context ConnectionAuthorizationRole.BUILDER)"
  "conn_context sample_db 3 10 = None"
  by (simp_all add: conn_context_def membership_join_def sample_db_def conn_context_of_def sample_context_def
      ConnectionWorkspaceStatus_of_def ConnectionAuthorizationRole_of_def)

lemma sample_published_context: "conn_context sample_published_db u w = conn_context sample_db u w"
  by (simp add: conn_context_def sample_published_db_def)

lemma sample_published_rows:
  "map r_id (revision_rows sample_published_db 10 31) = [51, 50]"
  "map cn_connection_id (workspace_connections sample_published_db 10) = [31, 30]"
  by (simp_all add: revision_rows_def workspace_connections_def workspace_connection_rows_def
      sample_published_db_def sample_revision_def sample_db_def order_desc_def connection_of_def
      connection_row_key_def less_eq_ConnectionPageCursor_def)

subsection \<open>Properties of the reads\<close>

text \<open>
  C28: following the cursors of the Connection listing, with any page size the policy admits,
  returns every Connection of the Workspace exactly once, newest first, within as many requests
  as there are Connections plus one.
\<close>

theorem connection_listing_complete:
  assumes "conn_ok d" "conn_context d u w = Some x" "1 \<le> n" "n \<le> 100"
    "length (workspace_connections d w) < fuel"
  shows "follow (connection_page_of (d, u, w)) fuel None n = Some (workspace_connections d w)"
  using connection_pages.follow_all[of "(d, u, w)" n fuel] assms by simp

theorem connection_listing_complete_witness:
  "map_option (map cn_connection_id) (follow (connection_page_of (sample_published_db, 2, 10)) 3 None 1)
    = Some [31, 30]"
proof -
  have "length (workspace_connections sample_published_db 10) = 2"
    using arg_cong[OF sample_published_rows(2), of length] by simp
  moreover have "conn_context sample_published_db 2 10 = Some (sample_context ConnectionAuthorizationRole.VIEWER)"
    by (simp add: sample_published_context sample_conn_context)
  ultimately show ?thesis
    using connection_listing_complete[OF sample_published_ok, of 2 10 _ 1 3] sample_published_rows by simp
qed

text \<open>
  Following \<open>before_revision\<close> lists the metadata of every revision of a Connection exactly
  once, the latest first, to every member of its Workspace.
\<close>

theorem revision_listing_complete:
  assumes "schema_ok d" "conn_context d u w = Some x" "find_connection d w c = Some r" "1 \<le> n" "n \<le> 100"
    "length (revision_rows d w c) < fuel"
  shows "follow (revision_page_of (d, u, w, c)) fuel None n = Some (map metadata_of (revision_rows d w c))
    \<and> sorted_wrt (>) (map r_number (revision_rows d w c))"
proof
  show "follow (revision_page_of (d, u, w, c)) fuel None n = Some (map metadata_of (revision_rows d w c))"
    using revision_pages.follow_all[of "(d, u, w, c)" n fuel] assms by (simp add: mutation_context_at_def)
  show "sorted_wrt (>) (map r_number (revision_rows d w c))"
    using descending_revision_rows[OF assms(1)] by (simp add: descending_def sorted_wrt_map)
qed

theorem revision_listing_complete_witness:
  "map_option (map rm_revision_id) (follow (revision_page_of (sample_published_db, 2, 10, 31)) 3 None 1)
    = Some [51, 50]"
proof -
  have "length (revision_rows sample_published_db 10 31) = 2"
    using arg_cong[OF sample_published_rows(1), of length] by simp
  moreover obtain r where "find_connection sample_published_db 10 31 = Some r"
    by (simp add: find_connection_def sample_published_db_def sample_db_def)
  moreover have "conn_context sample_published_db 2 10 = Some (sample_context ConnectionAuthorizationRole.VIEWER)"
    by (simp add: sample_published_context sample_conn_context)
  moreover have "map rm_revision_id (map metadata_of (revision_rows sample_published_db 10 31)) = [51, 50]"
    using sample_published_rows(1) by (simp add: comp_def metadata_of_def)
  ultimately show ?thesis
    using revision_listing_complete[OF conn_ok_schema[OF sample_published_ok], of 2 10 _ 31 _ 1 3] by simp
qed

text \<open>
  C22: existence hiding and tenant isolation of the five reads: without an active membership
  every read answers "workspace not found" whatever the tables hold; in a Workspace that does
  not hold the Connection, an existing Connection of another Workspace included, the four
  reads of one Connection answer "connection not found".
\<close>

theorem connection_reads_isolated:
  assumes "conn_ok d" "1 \<le> n" "n \<le> 100"
  shows "(conn_context d u w = None \<longrightarrow>
      list_connections repo_list_connections_for_user u w cur (int n) d = Inl ConnectionWorkspaceNotFoundError
      \<and> get_connection repo_get_connection_for_user u w c d = Inl ConnectionWorkspaceNotFoundError
      \<and> get_draft repo_get_draft_for_user u w c d = Inl ConnectionWorkspaceNotFoundError
      \<and> list_revisions repo_list_revisions_for_user u w c None (int n) d = Inl ConnectionWorkspaceNotFoundError
      \<and> get_revision repo_get_revision_for_user u w c i d = Inl ConnectionWorkspaceNotFoundError)
    \<and> (conn_context d u w \<noteq> None \<longrightarrow> (\<forall>r \<in> set (connections d). c_id r = c \<longrightarrow> c_workspace_id r \<noteq> w) \<longrightarrow>
      get_connection repo_get_connection_for_user u w c d = Inl ConnectionNotFoundError
      \<and> get_draft repo_get_draft_for_user u w c d = Inl ConnectionNotFoundError
      \<and> list_revisions repo_list_revisions_for_user u w c None (int n) d = Inl ConnectionNotFoundError
      \<and> get_revision repo_get_revision_for_user u w c i d = Inl ConnectionNotFoundError)"
proof -
  have s: "schema_ok d" by (rule conn_ok_schema[OF assms(1)])
  note eqs = list_connections_eq[OF assms] get_connection_eq[OF assms(1)] get_draft_eq[OF s]
    list_revisions_eq[OF s assms(2,3)] get_revision_eq[OF s]
  have "(\<forall>r \<in> set (connections d). c_id r = c \<longrightarrow> c_workspace_id r \<noteq> w) \<Longrightarrow> find_connection d w c = None"
    by (auto simp: find_connection_def find_None_iff)
  then show ?thesis by (auto simp: eqs mutation_context_at_def)
qed

theorem connection_reads_isolated_witness:
  "get_draft repo_get_draft_for_user 3 10 30 sample_db = Inl ConnectionWorkspaceNotFoundError
   \<and> get_connection repo_get_connection_for_user 3 11 30 sample_db = Inl ConnectionNotFoundError"
proof -
  have "conn_context sample_db 3 11 \<noteq> None"
    by (simp add: conn_context_def membership_join_def sample_db_def)
  moreover have "\<forall>r \<in> set (connections sample_db). c_id r = 30 \<longrightarrow> c_workspace_id r \<noteq> 11"
    by (simp add: sample_db_def)
  ultimately show ?thesis
    using connection_reads_isolated[OF sample_db_ok, of 1 3 10 None 30 0] sample_conn_context(4)
      connection_reads_isolated[OF sample_db_ok, of 1 3 11 None 30 0] by simp
qed

text \<open>
  C31: Configurations are for authors. A viewer is refused both the draft and every published
  configuration of a Connection, and still reads the metadata of its revisions, where the
  configuration appears only as its hash.
\<close>

theorem configuration_hidden_from_viewers:
  assumes "schema_ok d" "conn_context d u w = Some x" "cw_role x = ConnectionAuthorizationRole.VIEWER"
    "find_connection d w c = Some r"
  shows "get_draft repo_get_draft_for_user u w c d =
      Inl (ConnectionPermissionDeniedError ''connection authoring is not permitted'')
    \<and> get_revision repo_get_revision_for_user u w c i d =
      Inl (ConnectionPermissionDeniedError ''connection configuration read is not permitted'')
    \<and> (\<exists>page. list_revisions repo_list_revisions_for_user u w c None 100 d = Inr page
        \<and> rp_items page = map metadata_of (take 100 (revision_rows d w c)))"
proof (intro conjI)
  show "get_draft repo_get_draft_for_user u w c d =
      Inl (ConnectionPermissionDeniedError ''connection authoring is not permitted'')"
    using assms by (simp add: get_draft_eq mutation_context_at_def authorize_authoring_def
        mutation_context_of_def can_author_connections_iff)
  show "get_revision repo_get_revision_for_user u w c i d =
      Inl (ConnectionPermissionDeniedError ''connection configuration read is not permitted'')"
    using assms by (simp add: get_revision_eq mutation_context_at_def mutation_context_of_def)
  show "\<exists>page. list_revisions repo_list_revisions_for_user u w c None 100 d = Inr page
      \<and> rp_items page = map metadata_of (take 100 (revision_rows d w c))"
    using list_revisions_eq[OF assms(1), of 100 None u w c] assms(2,4)
    by (simp add: mutation_context_at_def page_spec_def Let_def take_map)
qed

theorem configuration_hidden_from_viewers_witness:
  "get_revision repo_get_revision_for_user 2 10 31 50 sample_published_db =
    Inl (ConnectionPermissionDeniedError ''connection configuration read is not permitted'')"
proof -
  obtain r where "find_connection sample_published_db 10 31 = Some r"
    by (simp add: find_connection_def sample_published_db_def sample_db_def)
  moreover have "conn_context sample_published_db 2 10 = Some (sample_context ConnectionAuthorizationRole.VIEWER)"
    by (simp add: sample_published_context sample_conn_context)
  ultimately show ?thesis
    using configuration_hidden_from_viewers[OF conn_ok_schema[OF sample_published_ok], of 2 10 _ 31]
    by (simp add: sample_context_def)
qed

end
