(* ===== verification/ConnectionEffects.thy ===== *)
theory ConnectionEffects
  imports ConnectionContracts
begin

section \<open>The effects of the Connection mutations\<close>

text \<open>
  The mutations of \<open>ConnectionService\<close> composed with the SQL repository: who may perform them
  (\<open>permitted\<close>, the permission matrix of the product, which the policies refine), that a refused
  or failed one changes nothing, that a successful one is audited once, and that what it returns
  is what every later read of the same state returns.
\<close>

subsection \<open>The permission matrix\<close>

datatype connection_mutation =
    Create ConnectionAccessMode
  | Author ConnectionStatus
  | Access ConnectionAccessMode ConnectionAccessMode ConnectionStatus
  | Lifecycle ConnectionStatus ConnectionLifecycleAction

fun permitted :: "ConnectionWorkspaceContext \<Rightarrow> connection_mutation \<Rightarrow> bool" where
  "permitted x (Create mode) \<longleftrightarrow> cw_status x = ConnectionWorkspaceStatus.ACTIVE
     \<and> (cw_role x \<in> {ConnectionAuthorizationRole.OWNER, ConnectionAuthorizationRole.ADMIN}
        \<or> cw_role x = ConnectionAuthorizationRole.BUILDER \<and> mode = ConnectionAccessMode.SELECTED_PROJECTS)"
| "permitted x (Author status) \<longleftrightarrow> cw_status x = ConnectionWorkspaceStatus.ACTIVE
     \<and> cw_role x \<noteq> ConnectionAuthorizationRole.VIEWER \<and> status \<noteq> ConnectionStatus.ARCHIVED"
| "permitted x (Access current requested status) \<longleftrightarrow> cw_status x = ConnectionWorkspaceStatus.ACTIVE
     \<and> status \<noteq> ConnectionStatus.ARCHIVED
     \<and> (cw_role x \<in> {ConnectionAuthorizationRole.OWNER, ConnectionAuthorizationRole.ADMIN}
        \<or> cw_role x = ConnectionAuthorizationRole.BUILDER
          \<and> current = ConnectionAccessMode.SELECTED_PROJECTS \<and> requested = ConnectionAccessMode.SELECTED_PROJECTS)"
| "permitted x (Lifecycle status action) \<longleftrightarrow>
     cw_role x \<in> {ConnectionAuthorizationRole.OWNER, ConnectionAuthorizationRole.ADMIN}
     \<and> (cw_status x = ConnectionWorkspaceStatus.ACTIVE
        \<or> cw_status x = ConnectionWorkspaceStatus.SUSPENDED \<and> action = ConnectionLifecycleAction.DISABLE)
     \<and> life_step status (lifecycle_target action) \<and> (action = ConnectionLifecycleAction.ENABLE \<longrightarrow> status = ConnectionStatus.DISABLED)"

definition mode_of :: "connection_row \<Rightarrow> ConnectionAccessMode" where
  "mode_of r = projr (ConnectionAccessMode_of (c_access_mode r))"

inductive_simps life_step_to:
  "life_step s ConnectionStatus.ACTIVE" "life_step s ConnectionStatus.DISABLED" "life_step s ConnectionStatus.ARCHIVED"

lemma authorize_creation_permitted:
  "authorize_connection_creation x p = Inr y \<longleftrightarrow> permitted x (Create (ap_mode p))"
  by (cases "cw_role x")
    (auto simp: authorize_connection_creation_def connection_role_defs workspace_allows_connection_mutation_def)

lemma authorize_authoring_permitted:
  "authorize_authoring (mutation_context_of x r) = Inr y \<longleftrightarrow> permitted x (Author (status_of r))"
  by (auto simp: authorize_authoring_def mutation_context_of_def can_author_connections_iff status_of_def
      workspace_allows_connection_mutation_def connection_allows_authoring_def)

lemma authorize_access_permitted:
  "authorize_access p (mutation_context_of x r) = Inr y \<longleftrightarrow> permitted x (Access (mode_of r) (ap_mode p) (status_of r))"
  by (cases "cw_role x")
    (auto simp: authorize_access_def mutation_context_of_def connection_role_defs status_of_def mode_of_def
      workspace_allows_connection_mutation_def connection_allows_access_replacement_def)

lemma authorize_lifecycle_permitted:
  "authorize_lifecycle act (mutation_context_of x r) = Inr y \<longleftrightarrow> permitted x (Lifecycle (status_of r) act)"
  by (cases "cw_role x"; cases act; cases "status_of r")
    (auto simp: authorize_lifecycle_def mutation_context_of_def connection_role_defs status_of_def life_step_to
      workspace_allows_lifecycle_action_def lifecycle_transition_allowed_def)

definition may_mutate :: "db \<Rightarrow> uuid \<Rightarrow> uuid \<Rightarrow> uuid \<Rightarrow> (connection_row \<Rightarrow> connection_mutation) \<Rightarrow> bool" where
  "may_mutate d u w c f \<longleftrightarrow>
     (\<exists>x r. conn_context d u w = Some x \<and> find_connection d w c = Some r \<and> permitted x (f r))"

lemma may_mutate_iff:
  "may_mutate d u w c f \<longleftrightarrow> (case (conn_context d u w, find_connection d w c) of
     (Some x, Some r) \<Rightarrow> permitted x (f r) | _ \<Rightarrow> False)"
  by (auto simp: may_mutate_def split: option.split)

subsection \<open>Concrete calls\<close>

definition sample_call :: Call where
  "sample_call = \<lparr>call_now = 20, call_new_id = 60, call_audit_id = 400, call_auth_session_id = 200,
     call_request_id = 5, call_trace_id = None\<rparr>"

definition sample_hook :: connection_row where
  "sample_hook = \<lparr>c_id = 30, c_workspace_id = 10, c_name = ''Hook'', c_provider_key = ''generic_http'',
     c_access_mode = ''WORKSPACE'', c_status = ''DRAFT'', c_created_at = 8, c_updated_at = 8, c_archived_at = None\<rparr>"

lemma sample_hook_found: "find_connection sample_db 10 30 = Some sample_hook"
  by (simp add: find_connection_def sample_db_def sample_hook_def)

lemma sample_hook_status: "status_of sample_hook = ConnectionStatus.DRAFT"
  by (simp add: sample_hook_def status_of_def ConnectionStatus_of_def)

lemma sample_audit_id: "\<not> audit_id_used sample_call sample_db"
  by (simp add: audit_id_used_def sample_db_def)

lemma sample_name: "normalize_connection_name ''Hook 2'' = Inr ''Hook 2''"
  by (simp add: normalize_connection_name_def strip_def is_space_def MAX_CONNECTION_NAME_LENGTH_def)

lemma sample_rename:
  "rename_connection (repo_rename_connection sample_call) 1 10 30 ''Hook 2'' sample_db =
     (Inr (connection_of sample_db (set_name 20 ''Hook 2'' sample_hook)),
      renamed_state sample_call (sample_context ConnectionAuthorizationRole.OWNER) sample_hook 1 ''Hook 2'' sample_db)"
  by (simp add: rename_connection_def sample_name repo_rename_connection_eq[OF sample_db_ok] guarded_def
      sample_conn_context sample_hook_found sample_audit_id authorize_authoring_def mutation_context_of_def
      can_author_connections_iff workspace_allows_connection_mutation_def connection_allows_authoring_def
      sample_context_def sample_hook_status[unfolded status_of_def])
    (simp add: sample_call_def)

text \<open>
  C4: no mutation of the Connection service succeeds unless the caller is an active member of
  the Workspace whose role, with the Workspace's and the Connection's states, permits it:
  viewers mutate nothing; builders create and share only Connections of selected Projects and
  do not manage the lifecycle; a Workspace that is not active accepts nothing but disabling,
  and that only while suspended; an archived Connection accepts nothing.
\<close>

theorem connection_mutations_authorized:
  assumes "conn_ok d"
  shows "(\<forall>a d'. create_connection reg (repo_create_connection call) u w n k p d = (Inr a, d') \<longrightarrow>
      (\<exists>x. conn_context d u w = Some x \<and> permitted x (Create (ap_mode p))))
    \<and> (\<forall>a d'. rename_connection (repo_rename_connection call) u w c n d = (Inr a, d') \<longrightarrow>
      may_mutate d u w c (\<lambda>r. Author (status_of r)))
    \<and> (\<forall>a d'. put_draft reg (repo_put_draft call) u w c cfg d = (Inr a, d') \<longrightarrow>
      may_mutate d u w c (\<lambda>r. Author (status_of r)))
    \<and> (\<forall>a d'. publish_revision sha256 reg (repo_publish_revision call) u w c d = (Inr a, d') \<longrightarrow>
      may_mutate d u w c (\<lambda>r. Author (status_of r)))
    \<and> (\<forall>a d'. replace_access (repo_replace_access call) u w c p d = (Inr a, d') \<longrightarrow>
      may_mutate d u w c (\<lambda>r. Access (mode_of r) (ap_mode p) (status_of r)))
    \<and> (\<forall>a d'. transition_lifecycle (repo_transition_lifecycle call) u w c act d = (Inr a, d') \<longrightarrow>
      may_mutate d u w c (\<lambda>r. Lifecycle (status_of r) act))"
proof (intro conjI allI impI)
  fix a d' assume h: "create_connection reg (repo_create_connection call) u w n k p d = (Inr a, d')"
  show "\<exists>x. conn_context d u w = Some x \<and> permitted x (Create (ap_mode p))"
    using create_step[OF assms h] normalize_access_policy_Inr(1)
      authorize_creation_permitted by (metis authorize_connection_creation_def)
next
  fix a d' assume h: "rename_connection (repo_rename_connection call) u w c n d = (Inr a, d')"
  show "may_mutate d u w c (\<lambda>r. Author (status_of r))"
    using rename_step[OF assms h] authorize_authoring_permitted unfolding may_mutate_def by metis
next
  fix a d' assume h: "put_draft reg (repo_put_draft call) u w c cfg d = (Inr a, d')"
  show "may_mutate d u w c (\<lambda>r. Author (status_of r))"
    using put_draft_step[OF assms h] authorize_authoring_permitted unfolding may_mutate_def by metis
next
  fix a d' assume h: "publish_revision sha256 reg (repo_publish_revision call) u w c d = (Inr a, d')"
  show "may_mutate d u w c (\<lambda>r. Author (status_of r))"
    using publish_step[OF assms h] authorize_authoring_permitted unfolding may_mutate_def by metis
next
  fix a d' assume h: "replace_access (repo_replace_access call) u w c p d = (Inr a, d')"
  show "may_mutate d u w c (\<lambda>r. Access (mode_of r) (ap_mode p) (status_of r))"
    using replace_access_step[OF assms h] authorize_access_permitted normalize_access_policy_Inr(1)
    unfolding may_mutate_def by metis
next
  fix a d' assume h: "transition_lifecycle (repo_transition_lifecycle call) u w c act d = (Inr a, d')"
  show "may_mutate d u w c (\<lambda>r. Lifecycle (status_of r) act)"
    using lifecycle_step[OF assms h] authorize_lifecycle_permitted unfolding may_mutate_def by metis
qed

theorem connection_mutations_authorized_witness:
  "may_mutate sample_db 1 10 30 (\<lambda>r. Author (status_of r))
   \<and> (\<forall>a d'. rename_connection (repo_rename_connection sample_call) 2 10 30 ''Hook 2'' sample_db \<noteq> (Inr a, d'))"
proof -
  note law = connection_mutations_authorized[OF sample_db_ok, THEN conjunct2, THEN conjunct1, rule_format]
  have "\<not> may_mutate sample_db 2 10 30 (\<lambda>r. Author (status_of r))"
    by (simp add: may_mutate_iff sample_conn_context sample_hook_found sample_context_def)
  then show ?thesis using law[OF sample_rename] law[of sample_call 2 10 30 "''Hook 2''"] by blast
qed

text \<open>
  A mutation that fails, for whatever reason and after whatever statements, leaves the
  database as it was: validation errors, hidden resources, refusals, missing drafts, invalid
  configurations, unknown Projects and identifier collisions alike.
\<close>

lemma connection_mutations_atomic:
  assumes "conn_ok d"
  shows "create_connection reg (repo_create_connection call) u w n k p d = (Inl e, d') \<Longrightarrow> d' = d"
    and "rename_connection (repo_rename_connection call) u w c n d = (Inl e, d') \<Longrightarrow> d' = d"
    and "put_draft reg (repo_put_draft call) u w c cfg d = (Inl e, d') \<Longrightarrow> d' = d"
    and "publish_revision sha256 reg (repo_publish_revision call) u w c d = (Inl e, d') \<Longrightarrow> d' = d"
    and "replace_access (repo_replace_access call) u w c p d = (Inl e, d') \<Longrightarrow> d' = d"
    and "transition_lifecycle (repo_transition_lifecycle call) u w c act d = (Inl e, d') \<Longrightarrow> d' = d"
proof -
  have pk: "policy_ok q" if "normalize_access_policy (ap_mode p) (ap_project_ids p) = Inr q" for q
    using normalize_access_policy_Inr[OF that] by (auto simp: policy_ok_def)
  show "create_connection reg (repo_create_connection call) u w n k p d = (Inl e, d') \<Longrightarrow> d' = d"
    by (auto simp: create_connection_def repo_create_connection_eq[OF assms pk]
        split: sum.splits option.splits if_splits)
  show "replace_access (repo_replace_access call) u w c p d = (Inl e, d') \<Longrightarrow> d' = d"
    using sql_access.atomic_law[OF assms pk] by (auto simp: replace_access_def split: sum.splits)
  show "rename_connection (repo_rename_connection call) u w c n d = (Inl e, d') \<Longrightarrow> d' = d"
    using sql_rename.atomic_law[OF assms] by (auto simp: rename_connection_def split: sum.splits)
  show "put_draft reg (repo_put_draft call) u w c cfg d = (Inl e, d') \<Longrightarrow> d' = d"
    using sql_put_draft.atomic_law[OF assms, where x = "(compile_draft reg, cfg)"]
    by (simp add: put_draft_def normalize_draft_configuration_def)
  show "publish_revision sha256 reg (repo_publish_revision call) u w c d = (Inl e, d') \<Longrightarrow> d' = d"
    unfolding publish_revision_def by (rule sql_publish.atomic_law[OF assms TrueI])
  show "transition_lifecycle (repo_transition_lifecycle call) u w c act d = (Inl e, d') \<Longrightarrow> d' = d"
    unfolding transition_lifecycle_def by (rule sql_transition.atomic_law[OF assms TrueI])
qed

subsection \<open>Audit\<close>

definition records :: "audit_row \<Rightarrow> Call \<Rightarrow> uuid \<Rightarrow> uuid \<Rightarrow> uuid \<Rightarrow> string \<Rightarrow> bool" where
  "records e call u w c action \<longleftrightarrow> au_action e = action \<and> au_outcome e = ''SUCCEEDED''
     \<and> au_scope e = ''TENANT'' \<and> au_workspace_id e = Some w \<and> au_actor_user_id e = Some u
     \<and> au_resource_type e = ''CONNECTION'' \<and> au_resource_id e = Some c
     \<and> au_session_id e = Some (uuid_str (call_auth_session_id call))
     \<and> au_request_id e = Some (uuid_str (call_request_id call))"

lemma records_row:
  "cw_workspace_id x = w \<Longrightarrow> records (connection_audit_row call x u c n a b af ch) call u w c a"
  by (simp add: records_def connection_audit_row_def)

lemma audit_of_states:
  assumes "conn_ok d" "conn_context d u w = Some x"
  shows "\<exists>e. audit_events (connection_created_state call x u w n k q d) = audit_events d @ [e]
      \<and> records e call u w (call_new_id call) ''CONNECTION_CREATED''"
    and "find_connection d w c = Some r \<Longrightarrow>
      \<exists>e. audit_events (renamed_state call x r u n d) = audit_events d @ [e] \<and> records e call u w c ''CONNECTION_RENAMED''"
    and "find_connection d w c = Some r \<Longrightarrow>
      \<exists>e. audit_events (published_state call x r u p d) = audit_events d @ [e]
        \<and> records e call u w c ''CONNECTION_REVISION_PUBLISHED''"
    and "find_connection d w c = Some r \<Longrightarrow>
      \<exists>e. audit_events (access_state call x r u q d) = audit_events d @ [e] \<and> records e call u w c ''CONNECTION_ACCESS_UPDATED''"
    and "find_connection d w c = Some r \<Longrightarrow>
      \<exists>e. audit_events (transitioned_state call x r u act d) = audit_events d @ [e]
        \<and> records e call u w c (lifecycle_audit_action act)"
proof -
  have x: "cw_workspace_id x = w" by (rule conn_context_workspace(1)[OF conn_ok_schema[OF assms(1)] assms(2)])
  note rec = records_row[OF x]
  show "\<exists>e. audit_events (connection_created_state call x u w n k q d) = audit_events d @ [e]
      \<and> records e call u w (call_new_id call) ''CONNECTION_CREATED''"
    using rec by (simp add: connection_created_state_def connection_added_def)
  assume r: "find_connection d w c = Some r"
  note id = found_row_checks(5,6)[OF assms(1) r]
  show "\<exists>e. audit_events (renamed_state call x r u n d) = audit_events d @ [e] \<and> records e call u w c ''CONNECTION_RENAMED''"
    using rec by (simp add: renamed_state_def id)
  show "\<exists>e. audit_events (published_state call x r u p d) = audit_events d @ [e]
      \<and> records e call u w c ''CONNECTION_REVISION_PUBLISHED''"
    using rec by (simp add: published_state_def id)
  show "\<exists>e. audit_events (access_state call x r u q d) = audit_events d @ [e] \<and> records e call u w c ''CONNECTION_ACCESS_UPDATED''"
    using rec by (simp add: access_state_def Let_def id access_replaced_def)
  show "\<exists>e. audit_events (transitioned_state call x r u act d) = audit_events d @ [e]
      \<and> records e call u w c (lifecycle_audit_action act)"
    using rec by (simp add: transitioned_state_def id)
qed

text \<open>
  C26: every successful creation, rename, publication, access change and lifecycle transition
  appends exactly one audit event, which names the actor, the Workspace, the Connection, the
  action, the session and the request; saving a draft appends none.
\<close>

theorem connection_mutations_audited:
  assumes "conn_ok d"
  shows "(\<forall>a d'. create_connection reg (repo_create_connection call) u w n k p d = (Inr a, d') \<longrightarrow>
      (\<exists>e. audit_events d' = audit_events d @ [e] \<and> records e call u w (cn_connection_id a) ''CONNECTION_CREATED''))
    \<and> (\<forall>a d'. rename_connection (repo_rename_connection call) u w c n d = (Inr a, d') \<longrightarrow>
      (\<exists>e. audit_events d' = audit_events d @ [e] \<and> records e call u w c ''CONNECTION_RENAMED''))
    \<and> (\<forall>a d'. publish_revision sha256 reg (repo_publish_revision call) u w c d = (Inr a, d') \<longrightarrow>
      (\<exists>e. audit_events d' = audit_events d @ [e] \<and> records e call u w c ''CONNECTION_REVISION_PUBLISHED''))
    \<and> (\<forall>a d'. replace_access (repo_replace_access call) u w c p d = (Inr a, d') \<longrightarrow>
      (\<exists>e. audit_events d' = audit_events d @ [e] \<and> records e call u w c ''CONNECTION_ACCESS_UPDATED''))
    \<and> (\<forall>a d'. transition_lifecycle (repo_transition_lifecycle call) u w c act d = (Inr a, d') \<longrightarrow>
      (\<exists>e. audit_events d' = audit_events d @ [e] \<and> records e call u w c (case act of
         ConnectionLifecycleAction.DISABLE \<Rightarrow> ''CONNECTION_DISABLED''
       | ConnectionLifecycleAction.ENABLE \<Rightarrow> ''CONNECTION_ENABLED''
       | ConnectionLifecycleAction.ARCHIVE \<Rightarrow> ''CONNECTION_ARCHIVED'')))
    \<and> (\<forall>a d'. put_draft reg (repo_put_draft call) u w c cfg d = (Inr a, d') \<longrightarrow>
      audit_events d' = audit_events d)"
proof (intro conjI allI impI)
  note st = audit_of_states[OF assms]
  fix a d' assume h: "create_connection reg (repo_create_connection call) u w n k p d = (Inr a, d')"
  show "\<exists>e. audit_events d' = audit_events d @ [e] \<and> records e call u w (cn_connection_id a) ''CONNECTION_CREATED''"
    using assms h by (rule create_step) (use st(1) in \<open>simp add: created_connection_def\<close>)
next
  note st = audit_of_states[OF assms]
  fix a d' assume h: "rename_connection (repo_rename_connection call) u w c n d = (Inr a, d')"
  show "\<exists>e. audit_events d' = audit_events d @ [e] \<and> records e call u w c ''CONNECTION_RENAMED''"
    using assms h by (rule rename_step) (use st(2) in blast)
next
  note st = audit_of_states[OF assms]
  fix a d' assume h: "publish_revision sha256 reg (repo_publish_revision call) u w c d = (Inr a, d')"
  show "\<exists>e. audit_events d' = audit_events d @ [e] \<and> records e call u w c ''CONNECTION_REVISION_PUBLISHED''"
    using assms h by (rule publish_step) (use st(3) in blast)
next
  note st = audit_of_states[OF assms]
  fix a d' assume h: "replace_access (repo_replace_access call) u w c p d = (Inr a, d')"
  show "\<exists>e. audit_events d' = audit_events d @ [e] \<and> records e call u w c ''CONNECTION_ACCESS_UPDATED''"
    using assms h by (rule replace_access_step) (use st(4) in blast)
next
  note st = audit_of_states[OF assms]
  fix a d' assume h: "transition_lifecycle (repo_transition_lifecycle call) u w c act d = (Inr a, d')"
  have "lifecycle_audit_action act = (case act of
         ConnectionLifecycleAction.DISABLE \<Rightarrow> ''CONNECTION_DISABLED''
       | ConnectionLifecycleAction.ENABLE \<Rightarrow> ''CONNECTION_ENABLED''
       | ConnectionLifecycleAction.ARCHIVE \<Rightarrow> ''CONNECTION_ARCHIVED'')"
    by (cases act) (simp_all add: lifecycle_audit_action_def)
  then show "\<exists>e. audit_events d' = audit_events d @ [e] \<and> records e call u w c (case act of
         ConnectionLifecycleAction.DISABLE \<Rightarrow> ''CONNECTION_DISABLED''
       | ConnectionLifecycleAction.ENABLE \<Rightarrow> ''CONNECTION_ENABLED''
       | ConnectionLifecycleAction.ARCHIVE \<Rightarrow> ''CONNECTION_ARCHIVED'')"
    using lifecycle_step[OF assms h] st(5) by metis
next
  fix a d' assume h: "put_draft reg (repo_put_draft call) u w c cfg d = (Inr a, d')"
  show "audit_events d' = audit_events d"
    using assms h by (rule put_draft_step) (simp add: draft_put_state_def)
qed

theorem connection_mutations_audited_witness:
  "\<exists>a d' e. rename_connection (repo_rename_connection sample_call) 1 10 30 ''Hook 2'' sample_db = (Inr a, d')
     \<and> audit_events d' = [e] \<and> records e sample_call 1 10 30 ''CONNECTION_RENAMED''"
proof -
  have "audit_events sample_db = []" by (simp add: sample_db_def)
  then show ?thesis
    using connection_mutations_audited[OF sample_db_ok, THEN conjunct2, THEN conjunct1, rule_format, OF sample_rename]
      sample_rename by (metis append_Nil)
qed

subsection \<open>What a mutation returns is what is read afterwards\<close>

lemma context_of_states [simp]:
  "conn_context (connection_created_state call x u w n k q d) v w' = conn_context d v w'"
  "conn_context (renamed_state call x r u n d) v w' = conn_context d v w'"
  "conn_context (published_state call x r u p d) v w' = conn_context d v w'"
  "conn_context (access_state call x r u q d) v w' = conn_context d v w'"
  "conn_context (transitioned_state call x r u act d) v w' = conn_context d v w'"
  "conn_context (draft_put_state now c w cfg u d) v w' = conn_context d v w'"
  by (simp_all add: connection_created_state_def connection_added_def renamed_state_def published_state_def
      access_state_def Let_def access_replaced_def transitioned_state_def draft_put_state_def)

lemma conn_context_status:
  assumes "schema_ok d" "conn_context d u w = Some x" "conn_context d v w = Some y"
  shows "cw_status y = cw_status x"
proof -
  obtain ws m where a: "is_member_row d u w ws m" "x = conn_context_of (ws, m)"
    by (rule conn_context_cases[OF assms(1), of u w]) (use assms(2) that in auto)
  obtain ws' m' where b: "is_member_row d v w ws' m'" "y = conn_context_of (ws', m')"
    by (rule conn_context_cases[OF assms(1), of v w]) (use assms(3) that in auto)
  have "ws' = ws"
    using a(1) b(1) assms(1) distinct_key_unique[of ws_id "workspaces d" ws' ws]
    by (simp add: is_member_row_def schema_ok_def workspaces_ok_def)
  then show ?thesis using a b by (simp add: conn_context_of_def)
qed

lemma readable_row:
  assumes "conn_ok d'" "conn_context d' v w = Some y" "find_connection d' w c = Some r" "connection_of d' r = a"
  shows "get_connection repo_get_connection_for_user v w c d' = Inr a"
  by (simp add: get_connection_eq[OF assms(1)] assms(2-4))

lemma created_readable:
  assumes "conn_ok (connection_created_state call x u w n k q d)" "conn_context d v w = Some y"
    "call_new_id call \<notin> set (map c_id (connections d))" "schema_ok d"
  shows "get_connection repo_get_connection_for_user v w (call_new_id call)
    (connection_created_state call x u w n k q d) = Inr (created_connection call w n k q)"
proof (rule readable_row[OF assms(1)])
  let ?r = "new_connection_row call w n k (ap_mode q)"
  show "conn_context (connection_created_state call x u w n k q d) v w = Some y" using assms(2) by simp
  show "find_connection (connection_created_state call x u w n k q d) w (call_new_id call) = Some ?r"
    by (rule find_connection_eqI[OF conn_ok_schema[OF assms(1)]])
      (simp_all add: connection_created_state_def connection_added_def new_connection_row_def)
  have "access_project_ids (connection_created_state call x u w n k q d) (call_new_id call) = sort (ap_project_ids q)"
    using no_access_of_unknown[OF assms(4,3)]
    by (simp add: access_project_ids_def connection_created_state_def connection_added_def)
  then show "connection_of (connection_created_state call x u w n k q d) ?r = created_connection call w n k q"
    by (simp add: connection_of_def created_connection_def new_connection_row_def ConnectionStatus_of_def)
qed

lemma set_readable:
  assumes "conn_ok (audited e (set_connection d1 w c f))" "conn_context (audited e (set_connection d1 w c f)) v w = Some y"
    "find_connection d1 w c = Some r" "keeps_keys f"
  shows "get_connection repo_get_connection_for_user v w c (audited e (set_connection d1 w c f)) =
    Inr (connection_of d1 (f r))"
  using assms by (intro readable_row[OF assms(1,2)]) (simp_all add: find_connection_set)

lemma sort_snoc_greatest:
  assumes "\<And>y. y \<in> set xs \<Longrightarrow> k y < k x"
  shows "sort_key k (xs @ [x]) = sort_key k xs @ [x]"
proof -
  have "insort_key k y (ys @ [x]) = insort_key k y ys @ [x]" if "k y < k x" for y ys
    using that by (induction ys) (auto simp: not_le[symmetric])
  then show ?thesis using assms by (induction xs) auto
qed

lemma published_row_readable:
  assumes "conn_ok d" "conn_ok (published_state call x r u p d)" "find_connection d w c = Some r"
    "call_new_id call \<notin> set (map r_id (revisions d))"
  shows "find_connection (published_state call x r u p d) w c = Some (activate_if_draft (call_now call) r)"
    and "find_draft (published_state call x r u p d) w c = find_draft d w c"
    and "find_revision (published_state call x r u p d) w c (call_new_id call) =
      Some (new_revision_row call w c u (next_number d c) p)"
    and "revision_rows (published_state call x r u p d) w c =
      new_revision_row call w c u (next_number d c) p # revision_rows d w c"
proof -
  note id = found_row_checks(5,6)[OF assms(1,3)]
  let ?v = "new_revision_row call w c u (next_number d c) p"
  have revs: "revisions (published_state call x r u p d) = revisions d @ [?v]"
    by (simp add: published_state_def id)
  show "find_connection (published_state call x r u p d) w c = Some (activate_if_draft (call_now call) r)"
    using assms(3) by (simp add: published_state_def id find_connection_set)
  show "find_draft (published_state call x r u p d) w c = find_draft d w c"
    by (simp add: published_state_def find_draft_def)
  have "find (\<lambda>r. (r_workspace_id r = w \<and> r_connection_id r = c) \<and> r_id r = call_new_id call) (revisions d) = None"
    using assms(4) by (force simp: find_None_iff)
  then show "find_revision (published_state call x r u p d) w c (call_new_id call) = Some ?v"
    by (simp add: find_revision_def revs find_append new_revision_row_def)
  let ?L = "filter (\<lambda>r. r_workspace_id r = w \<and> r_connection_id r = c) (revisions d)"
  have lt: "r_number r' < r_number ?v" if "r' \<in> set ?L" for r'
    using next_number_fresh[of r' d c] that by (simp add: new_revision_row_def)
  have "descending r_number (?v # revision_rows d w c)"
    using descending_revision_rows[OF conn_ok_schema[OF assms(1)], of w c] lt
    by (auto simp: descending_def revision_rows_def)
  from order_desc_descending[OF this] have "order_desc r_number (?v # order_desc r_number ?L) = ?v # revision_rows d w c"
    by (simp add: revision_rows_def)
  moreover have "order_desc r_number (?L @ [?v]) = ?v # order_desc r_number ?L"
    using sort_snoc_greatest[of ?L r_number ?v] lt by (simp add: order_desc_def)
  ultimately show "revision_rows (published_state call x r u p d) w c = ?v # revision_rows d w c"
    by (simp add: revision_rows_def revs) (simp add: new_revision_row_def)
qed

text \<open>
  The Connection a creation, a rename, an access change or a transition returns is the one
  every member of the Workspace then reads, and it carries what was asked: a draft with the
  normalised policy, the normalised name, the normalised policy, the status of the action.
\<close>

theorem connection_mutations_readable:
  assumes "conn_ok d" "conn_context d v w = Some y"
  shows "(\<forall>a d'. create_connection reg (repo_create_connection call) u w n k p d = (Inr a, d') \<longrightarrow>
      get_connection repo_get_connection_for_user v w (cn_connection_id a) d' = Inr a
      \<and> cn_status a = ConnectionStatus.DRAFT \<and> normalize_connection_name n = Inr (cn_name a)
      \<and> normalize_access_policy (ap_mode p) (ap_project_ids p) = Inr (cn_access_policy a))
    \<and> (\<forall>a d'. rename_connection (repo_rename_connection call) u w c n d = (Inr a, d') \<longrightarrow>
      get_connection repo_get_connection_for_user v w c d' = Inr a
      \<and> normalize_connection_name n = Inr (cn_name a))
    \<and> (\<forall>a d'. replace_access (repo_replace_access call) u w c p d = (Inr a, d') \<longrightarrow>
      get_connection repo_get_connection_for_user v w c d' = Inr a
      \<and> normalize_access_policy (ap_mode p) (ap_project_ids p) = Inr (cn_access_policy a))
    \<and> (\<forall>a d'. transition_lifecycle (repo_transition_lifecycle call) u w c act d = (Inr a, d') \<longrightarrow>
      get_connection repo_get_connection_for_user v w c d' = Inr a \<and> cn_status a = lifecycle_target act)"
proof (intro conjI allI impI)
  note s = conn_ok_schema[OF assms(1)]
  have sorted: "\<lparr>ap_mode = ap_mode q, ap_project_ids = sort (ap_project_ids q)\<rparr> = q"
    if "normalize_access_policy m ids = Inr q" for q m ids
    using normalize_access_policy_Inr[OF that] by (cases q) (simp add: sort_key_id_if_sorted)
  { fix a d' assume h: "create_connection reg (repo_create_connection call) u w n k p d = (Inr a, d')"
    from create_step[OF assms(1) h] obtain x n' k' q where q: "normalize_connection_name n = Inr n'"
      "normalize_access_policy (ap_mode p) (ap_project_ids p) = Inr q"
      "call_new_id call \<notin> set (map c_id (connections d))" "a = created_connection call w n' k' q"
      "d' = connection_created_state call x u w n' k' q d" "conn_ok d'"
      using connection_created_state_ok[OF assms(1)] by (metis (no_types, lifting))
    note f = created_readable[OF q(6)[unfolded q(5)] assms(2) q(3) s]
    have i: "cn_connection_id a = call_new_id call" by (simp add: q(4) created_connection_def)
    show "get_connection repo_get_connection_for_user v w (cn_connection_id a) d' = Inr a"
      unfolding i unfolding q(4,5) by (rule f)
    show "cn_status a = ConnectionStatus.DRAFT" "normalize_connection_name n = Inr (cn_name a)"
      "normalize_access_policy (ap_mode p) (ap_project_ids p) = Inr (cn_access_policy a)"
      by (simp_all add: q created_connection_def sorted[OF q(2)]) }
  { fix a d' assume h: "rename_connection (repo_rename_connection call) u w c n d = (Inr a, d')"
    from rename_step[OF assms(1) h] obtain x r n' where q: "find_connection d w c = Some r"
      "normalize_connection_name n = Inr n'" "d' = renamed_state call x r u n' d"
      "a = connection_of d (set_name (call_now call) n' r)" "conn_ok d'"
      using renamed_state_ok[OF assms(1)] by metis
    note id = found_row_checks(5,6)[OF assms(1) q(1)]
    show "get_connection repo_get_connection_for_user v w c d' = Inr a"
      using q(5) assms(2) unfolding q(3,4) renamed_state_def id
      by (subst set_readable[OF _ _ q(1)]) simp_all
    show "normalize_connection_name n = Inr (cn_name a)" by (simp add: q connection_of_def set_name_def) }
  { fix a d' assume h: "replace_access (repo_replace_access call) u w c p d = (Inr a, d')"
    from replace_access_step[OF assms(1) h] obtain x r q where q: "find_connection d w c = Some r"
      "normalize_access_policy (ap_mode p) (ap_project_ids p) = Inr q" "d' = access_state call x r u q d"
      "a = connection_of (access_replaced d w c u (ap_project_ids q))
             (set_access_mode (call_now call) (ConnectionAccessMode_value (ap_mode q)) r)" "conn_ok d'"
      using access_state_ok[OF assms(1)] by metis
    note id = found_row_checks(5,6)[OF assms(1) q(1)]
    have fc: "find_connection (access_replaced d w c u (ap_project_ids q)) w c = Some r" using q(1) by simp
    show "get_connection repo_get_connection_for_user v w c d' = Inr a"
      using q(5) assms(2) unfolding q(3,4) access_state_def Let_def id
      by (subst set_readable[OF _ _ fc]) (simp_all add: access_replaced_def)
    show "normalize_access_policy (ap_mode p) (ap_project_ids p) = Inr (cn_access_policy a)"
      by (simp add: q connection_of_def set_access_mode_def access_replaced_ids id sorted[OF q(2)]) }
  { fix a d' assume h: "transition_lifecycle (repo_transition_lifecycle call) u w c act d = (Inr a, d')"
    from lifecycle_step[OF assms(1) h] obtain x r where q: "find_connection d w c = Some r"
      "d' = transitioned_state call x r u act d"
      "a = connection_of d (set_lifecycle (call_now call) (ConnectionStatus_value (lifecycle_target act)) r)" "conn_ok d'"
      using transitioned_state_ok[OF assms(1)] by metis
    note id = found_row_checks(5,6)[OF assms(1) q(1)]
    show "get_connection repo_get_connection_for_user v w c d' = Inr a"
      using q(4) assms(2) unfolding q(2,3) transitioned_state_def id
      by (subst set_readable[OF _ _ q(1)]) simp_all
    show "cn_status a = lifecycle_target act" by (simp add: q connection_of_def set_lifecycle_def) }
qed

theorem connection_mutations_readable_witness:
  "\<exists>a d'. rename_connection (repo_rename_connection sample_call) 1 10 30 ''Hook 2'' sample_db = (Inr a, d')
     \<and> get_connection repo_get_connection_for_user 2 10 30 d' = Inr a \<and> cn_name a = ''Hook 2''"
  using connection_mutations_readable[OF sample_db_ok sample_conn_context(2), THEN conjunct2, THEN conjunct1,
      rule_format, OF sample_rename] sample_rename sample_name by auto

subsection \<open>Drafts and publication\<close>

text \<open>
  C27: saving a draft stores the canonical form of the configuration the provider computes; every
  author of the Workspace then reads that draft, and nothing else of the Connection changed.
\<close>

theorem draft_saved:
  assumes "conn_ok d" "put_draft reg (repo_put_draft call) u w c cfg d = (Inr a, d')"
    "conn_context d v w = Some y" "cw_role y \<noteq> ConnectionAuthorizationRole.VIEWER"
  shows "get_draft repo_get_draft_for_user v w c d' = Inr a
    \<and> (\<exists>r. find_connection d w c = Some r
        \<and> registry_compile_draft reg (c_provider_key r) cfg = Inr (cd_configuration a))
    \<and> cd_updated_by_user_id a = Some u
    \<and> get_connection repo_get_connection_for_user v w c d' = get_connection repo_get_connection_for_user v w c d
    \<and> revisions d' = revisions d"
proof -
  obtain x r out where q: "conn_context d u w = Some x" "find_connection d w c = Some r"
    "authorize_authoring (mutation_context_of x r) = Inr ()"
    "compile_draft reg (mutation_context_of x r) cfg = Inr out"
    "d' = draft_put_state (call_now call) c w out u d"
    "a = draft_of (new_draft_row (call_now call) c w out u)"
    by (rule put_draft_step[OF assms(1,2)])
  note s = conn_ok_schema[OF assms(1)] and ck = found_row_checks(4)[OF assms(1) q(2)]
  have ok: "conn_ok d'" unfolding q(5) by (rule draft_put_state_ok[OF assms(1) ck])
  have active: "cw_status y = cw_status x"
    by (rule conn_context_status[OF s q(1) assms(3)])
  have az: "authorize_authoring (mutation_context_of y r) = Inr ()"
    using q(3) assms(4) active by (simp add: authorize_authoring_permitted)
  have fc: "find_connection d' w c = Some r" and cx: "conn_context d' v w = Some y"
    using q(2) assms(3) by (simp_all add: q(5) draft_put_state_def)
  have co: "connection_of d' r = connection_of d r"
    by (simp add: q(5) connection_of_def access_project_ids_def draft_put_state_def)
  have fd: "find_draft d' w c = Some (new_draft_row (call_now call) c w out u)"
    unfolding q(5) by (rule find_draft_put[OF s ck])
  have "get_draft repo_get_draft_for_user v w c d' = Inr a"
    using get_draft_eq[OF conn_ok_schema[OF ok], of v w c] fc cx fd az
    by (simp add: mutation_context_at_def q(6))
  moreover have "registry_compile_draft reg (c_provider_key r) cfg = Inr (cd_configuration a)"
    using q(4) by (auto simp: compile_draft_def configuration_invalid_def mutation_context_of_def q(6)
        draft_of_def new_draft_row_def split: sum.splits exn.splits)
  moreover have "get_connection repo_get_connection_for_user v w c d' = get_connection repo_get_connection_for_user v w c d"
    using fc cx q(2) assms(3) co by (simp add: get_connection_eq[OF ok] get_connection_eq[OF assms(1)])
  ultimately show ?thesis using q(2)
    by (simp add: q(5,6) draft_of_def new_draft_row_def draft_put_state_def)
qed

text \<open>
  C13: a publication freezes the draft: the new revision holds what the provider publishes for
  the stored draft, hash and schema version included, and the highest number so far plus one;
  every author reads it back unchanged; it comes first in the listing, before the revisions
  there were, which stay as they are; the draft stays; and the Connection is active afterwards
  if it was a draft, and otherwise keeps its status.
\<close>

theorem revision_published:
  assumes "conn_ok d" "publish_revision sha256 reg (repo_publish_revision call) u w c d = (Inr a, d')"
    "conn_context d v w = Some y" "cw_role y \<noteq> ConnectionAuthorizationRole.VIEWER"
  shows "get_revision repo_get_revision_for_user v w c (rm_revision_id (rv_metadata a)) d' = Inr a
    \<and> (\<exists>r dr p. find_connection d w c = Some r \<and> find_draft d w c = Some dr
        \<and> registry_publish sha256 reg (c_provider_key r) (d_json dr) = Inr p
        \<and> rv_configuration a = pub_configuration p
        \<and> rm_config_hash_hex (rv_metadata a) = bytes_hex (pub_config_hash p)
        \<and> rm_definition_schema_version (rv_metadata a) = pub_definition_schema_version p
        \<and> find_draft d' w c = Some dr
        \<and> map_option status_of (find_connection d' w c) =
            Some (if status_of r = ConnectionStatus.DRAFT then ConnectionStatus.ACTIVE else status_of r))
    \<and> rm_revision_number (rv_metadata a) = next_number d c
    \<and> (\<exists>row. revision_of row = a \<and> revision_rows d' w c = row # revision_rows d w c)"
proof -
  obtain x r dr p where q: "conn_context d u w = Some x" "find_connection d w c = Some r"
    "find_draft d w c = Some dr" "compile_publication sha256 reg (mutation_context_of x r) (d_json dr) = Inr p"
    "call_new_id call \<notin> set (map r_id (revisions d))" "conn_ok d'"
    "d' = published_state call x r u p d" "a = revision_of (new_revision_row call w c u (next_number d c) p)"
    using assms(1,2) by (rule publish_step) (use published_state_ok[OF assms(1)] in metis)
  note s = conn_ok_schema[OF assms(1)]
  note f = published_row_readable[OF assms(1) q(6)[unfolded q(7)] q(2) q(5), folded q(7)]
  have id: "rm_revision_id (rv_metadata a) = call_new_id call"
    by (simp add: q(8) revision_of_def metadata_of_def new_revision_row_def)
  have cx: "conn_context d' v w = Some y" using assms(3) by (simp add: q(7))
  have "get_revision repo_get_revision_for_user v w c (call_new_id call) d' = Inr a"
    using get_revision_eq[OF conn_ok_schema[OF q(6)], of v w c] f(1,3) cx assms(4)
    by (simp add: mutation_context_at_def mutation_context_of_def q(8))
  moreover have "registry_publish sha256 reg (c_provider_key r) (d_json dr) = Inr p"
    using q(4) by (auto simp: compile_publication_def configuration_invalid_def mutation_context_of_def
        split: sum.splits exn.splits)
  moreover have "status_of (activate_if_draft (call_now call) r) =
      (if status_of r = ConnectionStatus.DRAFT then ConnectionStatus.ACTIVE else status_of r)"
    using found_row_checks(2)[OF assms(1) q(2)]
    by (auto simp: activate_if_draft_def set_active_def status_of_def ConnectionStatus_of_def connection_statuses_def)
  moreover have "rv_configuration a = pub_configuration p"
    "rm_config_hash_hex (rv_metadata a) = bytes_hex (pub_config_hash p)"
    "rm_definition_schema_version (rv_metadata a) = pub_definition_schema_version p"
    "rm_revision_number (rv_metadata a) = next_number d c"
    by (simp_all add: q(8) revision_of_def metadata_of_def new_revision_row_def)
  ultimately show ?thesis using q(2,3,8) f id by auto
qed

subsection \<open>A concrete publication\<close>

definition sample_registry :: registry where
  "sample_registry = [(GENERIC_HTTP_PROVIDER_KEY, generic_http_provider (\<lambda>_. False))]"

lemma sample_registry_default: "default_registry (\<lambda>_. False) = Inr sample_registry"
  by (simp add: default_registry_def registry_of_def sample_registry_def generic_http_provider_def Let_def)

definition sample_published :: PublishedConnectionConfiguration where
  "sample_published = \<lparr>pub_definition_schema_version = 1,
     pub_configuration = [(''base_url'', JStr ''https://api.x.io'')], pub_config_hash = [7]\<rparr>"

lemma sample_publish_configuration:
  "registry_publish (\<lambda>_. [7]) sample_registry ''generic_http'' [(''base_url'', JStr ''https://api.x.io'')]
    = Inr sample_published"
proof -
  have "normalize_base_url (\<lambda>_. False) ''https://api.x.io'' = Inr ''https://api.x.io''"
    by (simp add: url_eval)
  then show ?thesis
    by (simp add: registry_publish_def registry_require_def sample_registry_def generic_http_provider_def
        GENERIC_HTTP_PROVIDER_KEY_def generic_http_canonicalize_def sample_published_def)
qed

lemma sample_draft: "find_draft sample_db 10 30 = Some \<lparr>d_connection_id = 30, d_workspace_id = 10,
    d_json = [(''base_url'', JStr ''https://api.x.io'')], d_updated_by_user_id = Some 1, d_updated_at = 8\<rparr>"
  by (simp add: find_draft_def sample_db_def)

lemma sample_publish:
  "publish_revision (\<lambda>_. [7]) sample_registry (repo_publish_revision sample_call) 1 10 30 sample_db =
    (Inr (revision_of (new_revision_row sample_call 10 30 1 1 sample_published)),
     published_state sample_call (sample_context ConnectionAuthorizationRole.OWNER) sample_hook 1 sample_published sample_db)"
proof -
  let ?m = "mutation_context_of (sample_context ConnectionAuthorizationRole.OWNER) sample_hook"
  have az: "authorize_authoring ?m = Inr ()"
    by (simp add: authorize_authoring_permitted sample_hook_status sample_context_def)
  have cp: "compile_publication (\<lambda>_. [7]) sample_registry ?m [(''base_url'', JStr ''https://api.x.io'')] = Inr sample_published"
    using sample_publish_configuration
    by (simp add: compile_publication_def configuration_invalid_def mutation_context_of_def sample_hook_def)
  have "next_number sample_db 30 = 1" "call_new_id sample_call \<notin> set (map r_id (revisions sample_db))"
    by (simp_all add: next_number_def sample_db_def)
  then show ?thesis
    by (simp add: publish_revision_def repo_publish_revision_eq[OF sample_db_ok] guarded_def
        sample_conn_context sample_hook_found az sample_draft cp sample_audit_id)
      (simp add: sample_published_def)
qed

theorem revision_published_witness:
  "\<exists>a d'. publish_revision (\<lambda>_. [7]) sample_registry (repo_publish_revision sample_call) 1 10 30 sample_db = (Inr a, d')
     \<and> get_revision repo_get_revision_for_user 4 10 30 60 d' = Inr a
     \<and> rv_configuration a = [(''base_url'', JStr ''https://api.x.io'')]"
proof -
  have "cw_role (sample_context ConnectionAuthorizationRole.BUILDER) \<noteq> ConnectionAuthorizationRole.VIEWER"
    by (simp add: sample_context_def)
  from revision_published[OF sample_db_ok sample_publish sample_conn_context(3) this] sample_publish
  show ?thesis
    by (simp add: revision_of_def metadata_of_def new_revision_row_def sample_call_def sample_published_def)
qed

lemma sample_put_draft:
  "put_draft sample_registry (repo_put_draft sample_call) 1 10 30 [(''base_url'', JStr ''https://api.x.io'')] sample_db =
    (Inr (draft_of (new_draft_row 20 30 10 [(''base_url'', JStr ''https://api.x.io'')] 1)),
     draft_put_state 20 30 10 [(''base_url'', JStr ''https://api.x.io'')] 1 sample_db)"
proof -
  let ?m = "mutation_context_of (sample_context ConnectionAuthorizationRole.OWNER) sample_hook"
  have az: "authorize_authoring ?m = Inr ()"
    by (simp add: authorize_authoring_permitted sample_hook_status sample_context_def)
  have "registry_compile_draft sample_registry ''generic_http'' [(''base_url'', JStr ''https://api.x.io'')]
      = Inr [(''base_url'', JStr ''https://api.x.io'')]"
    using sample_publish_configuration
    by (auto simp: registry_publish_def registry_compile_draft_def bind_res_eq_Inr sample_published_def Let_def)
  then have cp: "compile_draft sample_registry ?m [(''base_url'', JStr ''https://api.x.io'')]
      = Inr [(''base_url'', JStr ''https://api.x.io'')]"
    by (simp add: compile_draft_def configuration_invalid_def mutation_context_of_def sample_hook_def)
  show ?thesis
    by (simp add: put_draft_def normalize_draft_configuration_def repo_put_draft_eq[OF sample_db_ok] guarded_def
        sample_conn_context sample_hook_found az cp)
      (simp add: sample_call_def)
qed

theorem draft_saved_witness:
  "\<exists>a d'. put_draft sample_registry (repo_put_draft sample_call) 1 10 30
      [(''base_url'', JStr ''https://api.x.io'')] sample_db = (Inr a, d')
     \<and> get_draft repo_get_draft_for_user 4 10 30 d' = Inr a"
proof -
  have "cw_role (sample_context ConnectionAuthorizationRole.BUILDER) \<noteq> ConnectionAuthorizationRole.VIEWER"
    by (simp add: sample_context_def)
  from draft_saved[OF sample_db_ok sample_put_draft sample_conn_context(3) this] sample_put_draft
  show ?thesis by blast
qed

end
