(* ===== verification/ConnectionHistory.thy ===== *)
theory ConnectionHistory
  imports ConnectionEffects
begin

section \<open>Histories of the Connection control plane\<close>

text \<open>
  What holds along every interleaving of successful calls by any users (\<open>conn_step\<close>): the
  invariant of reachable states, the refinement of the abstract lifecycle, the terminal state,
  the locality of a step and the append-only logs.
\<close>

subsection \<open>Logs and locality\<close>

lemma revisions_of_states [simp]:
  "revisions (connection_created_state call x u w n k q d) = revisions d"
  "revisions (renamed_state call x r u n d) = revisions d"
  "revisions (published_state call x r u p d) = revisions d @
     [new_revision_row call (c_workspace_id r) (c_id r) u (next_number d (c_id r)) p]"
  "revisions (access_state call x r u q d) = revisions d"
  "revisions (transitioned_state call x r u act d) = revisions d"
  "revisions (draft_put_state now c w cfg u d) = revisions d"
  "audit_events (draft_put_state now c w cfg u d) = audit_events d"
  by (simp_all add: connection_created_state_def connection_added_def renamed_state_def published_state_def
      access_state_def Let_def access_replaced_def transitioned_state_def draft_put_state_def)

definition publication_audited :: "revision_row list \<Rightarrow> audit_row list \<Rightarrow> bool" where
  "publication_audited vs es \<longleftrightarrow> length vs \<le> 1
     \<and> (\<forall>v \<in> set vs. \<exists>e \<in> set es. au_action e = ''CONNECTION_REVISION_PUBLISHED''
        \<and> au_resource_id e = Some (r_connection_id v) \<and> au_actor_user_id e = r_created_by_user_id v)"

definition logs_extended :: "db \<Rightarrow> db \<Rightarrow> bool" where
  "logs_extended d d' \<longleftrightarrow> (\<exists>vs es. revisions d' = revisions d @ vs \<and> audit_events d' = audit_events d @ es
     \<and> publication_audited vs es)"

lemma logs_extendedI:
  "revisions d' = revisions d \<Longrightarrow> \<exists>e. audit_events d' = audit_events d @ [e] \<and> records e call u w c a \<Longrightarrow>
    logs_extended d d'"
  by (auto simp: logs_extended_def publication_audited_def)

lemma logs_of_states:
  assumes "conn_ok d" "conn_context d u w = Some x"
  shows "logs_extended d (connection_created_state call x u w n k q d)"
    and "find_connection d w c = Some r \<Longrightarrow> logs_extended d (renamed_state call x r u n d)"
    and "find_connection d w c = Some r \<Longrightarrow> logs_extended d (published_state call x r u p d)"
    and "find_connection d w c = Some r \<Longrightarrow> logs_extended d (access_state call x r u q d)"
    and "find_connection d w c = Some r \<Longrightarrow> logs_extended d (transitioned_state call x r u act d)"
proof -
  note st = audit_of_states[OF assms]
  show "logs_extended d (connection_created_state call x u w n k q d)"
    by (rule logs_extendedI[OF _ st(1)]) simp
  assume r: "find_connection d w c = Some r"
  show "logs_extended d (renamed_state call x r u n d)" by (rule logs_extendedI[OF _ st(2)[OF r]]) simp
  show "logs_extended d (access_state call x r u q d)" by (rule logs_extendedI[OF _ st(4)[OF r]]) simp
  show "logs_extended d (transitioned_state call x r u act d)" by (rule logs_extendedI[OF _ st(5)[OF r]]) simp
  obtain e where "audit_events (published_state call x r u p d) = audit_events d @ [e]"
    "records e call u w c ''CONNECTION_REVISION_PUBLISHED''"
    using st(3)[OF r] by blast
  then show "logs_extended d (published_state call x r u p d)"
    using found_row_checks(5)[OF assms(1) r]
    by (auto simp: logs_extended_def publication_audited_def records_def new_revision_row_def)
qed

lemma conn_step_logs:
  assumes "conn_step sha256 reg d d'" "conn_ok d"
  shows "logs_extended d d'"
  using assms(1)
proof cases
  case (create call u w n k p a)
  from assms(2) create show ?thesis by (rule create_step) (simp add: logs_of_states(1)[OF assms(2)])
next
  case (rename call u w c n b)
  from assms(2) rename show ?thesis by (rule rename_step) (simp add: logs_of_states(2)[OF assms(2)])
next
  case (put_draft call u w c cfg dr)
  from assms(2) put_draft show ?thesis
    by (rule put_draft_step) (simp add: logs_extended_def publication_audited_def)
next
  case (publish call u w c rv)
  from assms(2) publish show ?thesis by (rule publish_step) (simp add: logs_of_states(3)[OF assms(2)])
next
  case (replace_access call u w c q e)
  from assms(2) replace_access show ?thesis
    by (rule replace_access_step) (simp add: logs_of_states(4)[OF assms(2)])
next
  case (lifecycle call u w c act f)
  from assms(2) lifecycle show ?thesis by (rule lifecycle_step) (simp add: logs_of_states(5)[OF assms(2)])
next
  case other
  then show ?thesis by (auto simp: logs_extended_def publication_audited_def)
qed

text \<open>One step touches at most one existing Connection.\<close>

lemma conn_step_local:
  assumes "conn_step sha256 reg d d'" "conn_ok d"
  shows "\<exists>c0. \<forall>w c r. find_connection d w c = Some r \<longrightarrow> c \<noteq> c0 \<longrightarrow> conn_view d' w c = conn_view d w c"
  using assms(1)
proof cases
  case (create call u w n k p a)
  from assms(2) create show ?thesis
    by (rule create_step) (use view_created[OF assms(2)] in blast)
next
  case (rename call u w c n b)
  from assms(2) rename show ?thesis
    by (rule rename_step) (use view_renamed in blast)
next
  case (put_draft call u w c cfg dr)
  from assms(2) put_draft show ?thesis
    by (rule put_draft_step) (use view_draft_put in blast)
next
  case (publish call u w c rv)
  from assms(2) publish show ?thesis
    by (rule publish_step) (use view_published in blast)
next
  case (replace_access call u w c q e)
  from assms(2) replace_access show ?thesis
    by (rule replace_access_step) (use view_access in blast)
next
  case (lifecycle call u w c act f)
  from assms(2) lifecycle show ?thesis
    by (rule lifecycle_step) (use view_transitioned in blast)
next
  case other
  then show ?thesis
    by (simp add: conn_view_def find_connection_def find_draft_def connection_revisions_def access_project_ids_def)
qed

lemma conn_steps_ok: "(conn_step sha256 reg)\<^sup>*\<^sup>* d d' \<Longrightarrow> conn_ok d \<Longrightarrow> conn_ok d'"
  by (induction rule: rtranclp_induct) (auto intro: conn_step_ok)

subsection \<open>Properties\<close>

text \<open>
  C1: the invariant of the control plane. In every reachable state the tables satisfy their
  constraints and, for every Connection: a draft was never published and an active or disabled
  one was; it is archived exactly if it has an archival time; its revisions are numbered
  1, 2, ... in the order of their publication; its provider is registered; and every revision lies
  in its Workspace and is, with hash and schema version, what that provider publishes for some
  configuration.
\<close>

theorem reachable_connections:
  assumes "reachable sha256 reg d"
  shows "conn_ok d \<and> (\<forall>r \<in> set (connections d). let revs = connection_revisions d (c_id r) in
      (status_of r = ConnectionStatus.DRAFT \<longrightarrow> revs = [])
    \<and> (status_of r \<in> {ConnectionStatus.ACTIVE, ConnectionStatus.DISABLED} \<longrightarrow> revs \<noteq> [])
    \<and> (status_of r = ConnectionStatus.ARCHIVED \<longleftrightarrow> c_archived_at r \<noteq> None)
    \<and> map r_number revs = [1..int (length revs)]
    \<and> (\<exists>p. registry_require reg (c_provider_key r) = Inr p)
    \<and> (\<forall>v \<in> set revs. r_workspace_id v = c_workspace_id r \<and> published_well sha256 reg (c_provider_key r) v))"
  using reachable_inv[OF assms] by (simp add: life_inv_def row_inv_def Let_def)


lemma archived_steps:
  assumes "(conn_step sha256 reg)\<^sup>*\<^sup>* d d'" "conn_ok d" "find_connection d w c = Some r"
    "status_of r = ConnectionStatus.ARCHIVED"
  shows "conn_view d' w c = conn_view d w c"
  using assms(1)
proof (induction rule: rtranclp_induct)
  case (step e f)
  have "conn_ok e" by (rule conn_steps_ok[OF step(1) assms(2)])
  moreover have "find_connection e w c = Some r" using step.IH assms(3) by (simp add: conn_view_def)
  ultimately have "conn_view f w c = conn_view e w c"
    using conn_step_view[OF step(2)] assms(4) by blast
  then show ?case using step.IH by simp
qed simp

text \<open>
  C14: archiving is final. However the history goes on, the row, the access list, the revisions
  and the draft of an archived Connection never change again.
\<close>

theorem archived_connection_frozen:
  assumes "(conn_step sha256 reg)\<^sup>*\<^sup>* d d'" "conn_ok d" "find_connection d w c = Some r"
    "status_of r = ConnectionStatus.ARCHIVED"
  shows "find_connection d' w c = Some r \<and> access_project_ids d' c = access_project_ids d c
    \<and> connection_revisions d' c = connection_revisions d c \<and> find_draft d' w c = find_draft d w c"
  using archived_steps[OF assms] assms(3) by (simp add: conn_view_def)

lemma steps_prefix:
  assumes "(conn_step sha256 reg)\<^sup>*\<^sup>* d d'" "conn_ok d"
  shows "\<exists>vs es. revisions d' = revisions d @ vs \<and> audit_events d' = audit_events d @ es"
  using assms(1)
proof (induction rule: rtranclp_induct)
  case (step e f)
  have "logs_extended e f" by (rule conn_step_logs[OF step(2) conn_steps_ok[OF step(1) assms(2)]])
  then show ?case using step.IH by (auto simp: logs_extended_def)
qed simp

text \<open>
  C16: the record is append-only. Along every history the table of revisions and the audit log
  only grow, so that a revision once published is read back unchanged for ever; and every step
  publishes at most one revision, with an audit event for it by the same user.
\<close>

theorem history_append_only:
  assumes "(conn_step sha256 reg)\<^sup>*\<^sup>* d d'" "conn_ok d"
  shows "(\<exists>vs es. revisions d' = revisions d @ vs \<and> audit_events d' = audit_events d @ es)
    \<and> (\<forall>w c i v. find_revision d w c i = Some v \<longrightarrow> find_revision d' w c i = Some v)
    \<and> (\<forall>d''. conn_step sha256 reg d' d'' \<longrightarrow> (\<exists>vs es. revisions d'' = revisions d' @ vs
        \<and> audit_events d'' = audit_events d' @ es \<and> length vs \<le> 1
        \<and> (\<forall>v \<in> set vs. \<exists>e \<in> set es. au_action e = ''CONNECTION_REVISION_PUBLISHED''
            \<and> au_resource_id e = Some (r_connection_id v) \<and> au_actor_user_id e = r_created_by_user_id v)))"
proof (intro conjI allI impI)
  show pre: "\<exists>vs es. revisions d' = revisions d @ vs \<and> audit_events d' = audit_events d @ es"
    by (rule steps_prefix[OF assms])
  show "find_revision d w c i = Some v \<Longrightarrow> find_revision d' w c i = Some v" for w c i v
    using pre by (auto simp: find_revision_def find_append)
  fix d'' assume "conn_step sha256 reg d' d''"
  from conn_step_logs[OF this conn_steps_ok[OF assms]]
  show "\<exists>vs es. revisions d'' = revisions d' @ vs
        \<and> audit_events d'' = audit_events d' @ es \<and> length vs \<le> 1
        \<and> (\<forall>v \<in> set vs. \<exists>e \<in> set es. au_action e = ''CONNECTION_REVISION_PUBLISHED''
            \<and> au_resource_id e = Some (r_connection_id v) \<and> au_actor_user_id e = r_created_by_user_id v)"
    by (simp add: logs_extended_def publication_audited_def)
qed

text \<open>
  Operations on different Connections do not interfere: every successful call changes the
  row, the access list, the revisions and the draft of at most one Connection there was.
\<close>

theorem connection_step_local:
  assumes "conn_step sha256 reg d d'" "conn_ok d"
  shows "\<exists>c0. \<forall>w c r. find_connection d w c = Some r \<longrightarrow> c \<noteq> c0 \<longrightarrow>
    find_connection d' w c = Some r \<and> access_project_ids d' c = access_project_ids d c
    \<and> connection_revisions d' c = connection_revisions d c \<and> find_draft d' w c = find_draft d w c"
  using conn_step_local[OF assms] by (auto simp: conn_view_def)

subsection \<open>A concrete history\<close>

text \<open>
  From a database without Connections, the owner 1 of Workspace 10 creates a Connection, saves a
  draft, publishes it and archives the Connection.
\<close>

definition sample_start :: db where
  "sample_start = sample_db\<lparr>connections := [], drafts := []\<rparr>"

definition run_call :: "uuid \<Rightarrow> Call" where
  "run_call i = \<lparr>call_now = 20, call_new_id = 30, call_audit_id = i, call_auth_session_id = 200,
     call_request_id = 5, call_trace_id = None\<rparr>"

abbreviation sample_cfg :: json_object where
  "sample_cfg \<equiv> [(''base_url'', JStr ''https://api.x.io'')]"

abbreviation sample_owner :: ConnectionWorkspaceContext where
  "sample_owner \<equiv> sample_context ConnectionAuthorizationRole.OWNER"

abbreviation sample_policy :: ConnectionAccessPolicy where
  "sample_policy \<equiv> \<lparr>ap_mode = ConnectionAccessMode.WORKSPACE, ap_project_ids = []\<rparr>"

definition run1 :: db where
  "run1 = connection_created_state (run_call 400) sample_owner 1 10 ''Hook 2'' ''generic_http'' sample_policy sample_start"
definition run2 :: db where
  "run2 = draft_put_state 20 30 10 sample_cfg 1 run1"
definition run3 :: db where
  "run3 = published_state (run_call 401) sample_owner
     (new_connection_row (run_call 400) 10 ''Hook 2'' ''generic_http'' ConnectionAccessMode.WORKSPACE) 1 sample_published run2"

lemma sample_start_ok: "conn_ok sample_start"
  by (simp add: conn_ok_def schema_ok_def access_consistent_def access_project_ids_def table_ok_defs
      check_lists sample_start_def sample_db_def)

lemma run_context: "conn_context sample_start 1 10 = Some sample_owner"
  using sample_conn_context(1) by (simp add: sample_start_def)

lemma run1_created:
  "create_connection sample_registry (repo_create_connection (run_call 400)) 1 10 ''Hook 2'' ''generic_http''
     sample_policy sample_start =
   (Inr (created_connection (run_call 400) 10 ''Hook 2'' ''generic_http'' sample_policy), run1)"
proof -
  have "normalize_provider_key ''generic_http'' = Inr ''generic_http''" by code_simp
  moreover have "normalize_access_policy ConnectionAccessMode.WORKSPACE [] = Inr sample_policy"
    by (simp add: normalize_access_policy_eq)
  moreover have "configuration_invalid (registry_require sample_registry ''generic_http'') =
      Inr (generic_http_provider (\<lambda>_. False))"
    by (simp add: configuration_invalid_def registry_require_def sample_registry_def GENERIC_HTTP_PROVIDER_KEY_def)
  moreover have "policy_ok sample_policy" by (simp add: policy_ok_def)
  moreover have "authorize_connection_creation sample_owner sample_policy = Inr ()"
    by (simp add: authorize_creation_permitted sample_context_def)
  moreover have "connections sample_start = []" "\<not> audit_id_used (run_call 400) sample_start"
    by (simp_all add: sample_start_def sample_db_def audit_id_used_def)
  ultimately show ?thesis
    by (simp add: create_connection_def sample_name repo_create_connection_eq[OF sample_start_ok] run_context
        projects_exist_def run1_def)
qed

lemma run1_step: "conn_step (\<lambda>_. [7]) sample_registry sample_start run1"
  by (rule conn_step.create[OF run1_created])

lemma run1_ok: "conn_ok run1"
  by (rule conn_step_ok[OF run1_step sample_start_ok])

abbreviation run_row :: connection_row where
  "run_row \<equiv> new_connection_row (run_call 400) 10 ''Hook 2'' ''generic_http'' ConnectionAccessMode.WORKSPACE"

lemma run1_found: "find_connection run1 10 30 = Some run_row" "conn_context run1 1 10 = Some sample_owner"
proof -
  show "find_connection run1 10 30 = Some run_row"
    by (rule find_connection_eqI[OF conn_ok_schema[OF run1_ok]])
      (simp_all add: run1_def connection_created_state_def connection_added_def new_connection_row_def run_call_def)
  show "conn_context run1 1 10 = Some sample_owner" by (simp add: run1_def run_context)
qed

lemma run_row_authoring: "authorize_authoring (mutation_context_of sample_owner run_row) = Inr ()"
  by (simp add: authorize_authoring_permitted sample_context_def new_connection_row_def status_of_def
      ConnectionStatus_of_def)

lemma run2_step: "conn_step (\<lambda>_. [7]) sample_registry run1 run2"
proof -
  have "registry_compile_draft sample_registry ''generic_http'' sample_cfg = Inr sample_cfg"
    using sample_publish_configuration
    by (auto simp: registry_publish_def registry_compile_draft_def bind_res_eq_Inr sample_published_def Let_def)
  then have "compile_draft sample_registry (mutation_context_of sample_owner run_row) sample_cfg = Inr sample_cfg"
    by (simp add: compile_draft_def configuration_invalid_def mutation_context_of_def new_connection_row_def)
  then have "put_draft sample_registry (repo_put_draft (run_call 400)) 1 10 30 sample_cfg run1 =
      (Inr (draft_of (new_draft_row 20 30 10 sample_cfg 1)), run2)"
    by (simp add: put_draft_def normalize_draft_configuration_def repo_put_draft_eq[OF run1_ok] guarded_def
        run1_found run_row_authoring run2_def)
      (simp add: run_call_def)
  then show ?thesis by (rule conn_step.put_draft)
qed

lemma run2_ok: "conn_ok run2"
  by (rule conn_step_ok[OF run2_step run1_ok])

lemma run2_found: "find_connection run2 10 30 = Some run_row" "conn_context run2 1 10 = Some sample_owner"
  "find_draft run2 10 30 = Some (new_draft_row 20 30 10 sample_cfg 1)"
  using run1_found find_draft_put[OF conn_ok_schema[OF run1_ok] found_row_checks(4)[OF run1_ok run1_found(1)]]
  by (simp_all add: run2_def draft_put_state_def)

lemma run3_step: "conn_step (\<lambda>_. [7]) sample_registry run2 run3"
proof -
  have "compile_publication (\<lambda>_. [7]) sample_registry (mutation_context_of sample_owner run_row) sample_cfg = Inr sample_published"
    using sample_publish_configuration
    by (simp add: compile_publication_def configuration_invalid_def mutation_context_of_def new_connection_row_def)
  moreover have "\<not> audit_id_used (run_call 401) run2" "revisions run2 = []"
    by (simp_all add: run2_def run1_def audit_id_used_def connection_created_state_def connection_added_def
        sample_start_def sample_db_def connection_audit_row_def run_call_def draft_put_state_def)
  moreover have "d_json (new_draft_row 20 30 10 sample_cfg 1) = sample_cfg" by (simp add: new_draft_row_def)
  ultimately have "publish_revision (\<lambda>_. [7]) sample_registry (repo_publish_revision (run_call 401)) 1 10 30 run2 =
      (Inr (revision_of (new_revision_row (run_call 401) 10 30 1 (next_number run2 30) sample_published)), run3)"
    by (simp add: publish_revision_def repo_publish_revision_eq[OF run2_ok] guarded_def
        run2_found run_row_authoring run3_def)
      (simp add: sample_published_def)
  then show ?thesis by (rule conn_step.publish)
qed

lemma run_reachable: "reachable (\<lambda>_. [7]) sample_registry run3"
proof -
  have "reachable (\<lambda>_. [7]) sample_registry sample_start"
    by (rule reachable.initial[OF sample_start_ok]) (simp_all add: sample_start_def sample_db_def)
  then show ?thesis using run1_step run2_step run3_step by (blast intro: reachable.step)
qed

lemma run3_row: "find_connection run3 10 30 = Some (activate_if_draft 20 run_row)"
proof -
  have "c_id run_row = 30" "c_workspace_id run_row = 10" by (simp_all add: new_connection_row_def run_call_def)
  then show ?thesis using run2_found(1)
    by (simp add: run3_def published_state_def find_connection_set) (simp add: run_call_def)
qed

lemma run3_active: "status_of (activate_if_draft 20 run_row) = ConnectionStatus.ACTIVE"
  by (simp add: activate_if_draft_def new_connection_row_def set_active_def status_of_def ConnectionStatus_of_def)

theorem reachable_connections_witness:
  "\<exists>r \<in> set (connections run3). status_of r = ConnectionStatus.ACTIVE \<and> c_archived_at r = None
     \<and> connection_revisions run3 30 \<noteq> []"
proof -
  let ?r = "activate_if_draft 20 run_row"
  have r: "?r \<in> set (connections run3)" "c_id ?r = 30" using find_connection_Some[OF run3_row] by auto
  from reachable_connections[OF run_reachable, THEN conjunct2, rule_format, OF r(1)]
  have "c_archived_at ?r = None" "connection_revisions run3 30 \<noteq> []"
    unfolding Let_def r(2) run3_active by simp_all
  then show ?thesis using r(1) run3_active by blast
qed


theorem history_append_only_witness:
  "\<exists>vs es. revisions run3 = vs \<and> length vs \<le> 1 \<and> audit_events run3 = audit_events run2 @ es"
proof -
  have "revisions run2 = []"
    by (simp add: run2_def run1_def connection_created_state_def connection_added_def sample_start_def
        sample_db_def draft_put_state_def)
  then show ?thesis
    using history_append_only[OF rtranclp.rtrancl_refl run2_ok, THEN conjunct2, THEN conjunct2, rule_format,
        OF run3_step] by auto
qed

theorem connection_step_local_witness:
  "\<exists>c0. \<forall>w c r. find_connection run2 w c = Some r \<longrightarrow> c \<noteq> c0 \<longrightarrow> find_connection run3 w c = Some r"
  using connection_step_local[OF run3_step run2_ok] by blast

lemma archived_row: "status_of (set_lifecycle 20 ''ARCHIVED'' r) = ConnectionStatus.ARCHIVED"
  by (simp add: set_lifecycle_def status_of_def ConnectionStatus_of_def)

theorem archived_connection_frozen_witness:
  "\<exists>d' r. conn_step (\<lambda>_. [7]) sample_registry run3 d' \<and> find_connection d' 10 30 = Some r
     \<and> (\<forall>d''. conn_step (\<lambda>_. [7]) sample_registry d' d'' \<longrightarrow> find_connection d'' 10 30 = Some r)"
proof -
  let ?row = "activate_if_draft 20 run_row" and ?act = ConnectionLifecycleAction.ARCHIVE
  let ?d = "transitioned_state (run_call 402) sample_owner ?row 1 ?act run3"
  have ok3: "conn_ok run3" by (rule conn_step_ok[OF run3_step run2_ok])
  have cx: "conn_context run3 1 10 = Some sample_owner" using run2_found(2) by (simp add: run3_def)
  have "authorize_lifecycle ?act (mutation_context_of sample_owner ?row) = Inr ()"
    by (simp add: authorize_lifecycle_permitted run3_active sample_context_def life_step.archive)
  moreover have "\<not> audit_id_used (run_call 402) run3"
    by (simp add: run3_def published_state_def run2_def run1_def audit_id_used_def connection_created_state_def
        connection_added_def sample_start_def sample_db_def connection_audit_row_def run_call_def draft_put_state_def)
  ultimately have "transition_lifecycle (repo_transition_lifecycle (run_call 402)) 1 10 30 ?act run3 =
      (Inr (connection_of run3 (set_lifecycle (call_now (run_call 402)) (ConnectionStatus_value (lifecycle_target ?act)) ?row)), ?d)"
    by (simp add: transition_lifecycle_def repo_transition_lifecycle_eq[OF ok3] guarded_def cx run3_row)
  then have st: "conn_step (\<lambda>_. [7]) sample_registry run3 ?d" by (rule conn_step.lifecycle)
  have ok: "conn_ok ?d" by (rule conn_step_ok[OF st ok3])
  define d' where "d' = ?d"
  define r' where "r' = set_lifecycle 20 ''ARCHIVED'' ?row"
  have found: "find_connection d' 10 30 = Some r'"
    using run3_row found_row_checks(5,6)[OF ok3 run3_row]
    by (simp add: d'_def r'_def transitioned_state_def find_connection_set) (simp add: run_call_def)
  have arch: "status_of r' = ConnectionStatus.ARCHIVED" unfolding r'_def by (rule archived_row)
  have "find_connection d'' 10 30 = Some r'" if "conn_step (\<lambda>_. [7]) sample_registry d' d''" for d''
    using archived_connection_frozen[OF r_into_rtranclp[of "conn_step (\<lambda>_. [7]) sample_registry", OF that]
        ok[folded d'_def] found arch] by blast
  then show ?thesis using st[folded d'_def] found by blast
qed

end
