(* ===== verification/WorkspaceConcurrency.thy ===== *)
theory WorkspaceConcurrency
  imports WorkspaceParts ConnectionHistory
begin

section \<open>The mutations of a Workspace, side by side\<close>

text \<open>
  The six mutating methods of \<open>connection_repository.py\<close> and \<open>create_project\<close> of \<open>project_repository.py\<close> as programs, one
  \<open>stmt\<close> for each \<open>session.execute\<close>. Run alone they are the operations of \<open>ConnectionOperations\<close> and \<open>Projects\<close>
  (\<open>alone_is_perform\<close>), which take the whole transaction as one step; run side by side, with the statements of many
  transactions interleaved, they give what those operations give one after the other.
\<close>

subsection \<open>Programs\<close>

type_synonym 'a db_prog = "(uuid, db, 'a) prog"

definition workspace_context_prog :: "uuid \<Rightarrow> uuid \<Rightarrow> (ConnectionWorkspaceContext \<Rightarrow> 'a db_prog) \<Rightarrow> 'a db_prog" where
  "workspace_context_prog user_id workspace_id g =
     bind_prog (lock_stmt workspace_id (sql_workspace_context user_id workspace_id)) (\<lambda>result.
     bind_prog (Ret (one_or_none result)) (\<lambda>r.
     case r of None \<Rightarrow> Ret (Inl ConnectionWorkspaceNotFoundError)
     | Some r \<Rightarrow> bind_prog (Ret (workspace_context_from_row r)) g))"

definition mutation_context_prog :: "uuid \<Rightarrow> uuid \<Rightarrow> uuid \<Rightarrow> (ConnectionMutationContext \<Rightarrow> 'a db_prog) \<Rightarrow> 'a db_prog" where
  "mutation_context_prog user_id workspace_id connection_id g =
     workspace_context_prog user_id workspace_id (\<lambda>workspace.
     bind_prog (stmt (query_tx (sql_connection_context workspace_id connection_id))) (\<lambda>result.
     bind_prog (Ret (one_or_none result)) (\<lambda>r.
     case r of None \<Rightarrow> Ret (Inl ConnectionNotFoundError)
     | Some r \<Rightarrow> bind_prog (Ret (mutation_context_from_row workspace r)) g)))"

definition validate_projects_prog :: "uuid \<Rightarrow> uuid list \<Rightarrow> 'a db_prog \<Rightarrow> 'a db_prog" where
  "validate_projects_prog workspace_id project_ids rest =
     (if project_ids = [] then rest
      else
        bind_prog (stmt (query_tx (sql_lock_selected_projects workspace_id project_ids))) (\<lambda>result.
        bind_prog (Ret (uuid_items result ''project_id'')) (\<lambda>found.
        if set found \<noteq> set project_ids then Ret (Inl ConnectionProjectNotFoundError) else rest)))"

definition insert_project_access_prog :: "uuid \<Rightarrow> uuid \<Rightarrow> uuid \<Rightarrow> uuid list \<Rightarrow> 'a db_prog \<Rightarrow> 'a db_prog" where
  "insert_project_access_prog workspace_id connection_id user_id project_ids rest =
     (if project_ids = [] then rest
      else bind_prog (stmt (sql_insert_project_access workspace_id connection_id user_id project_ids)) (\<lambda>_. rest))"

definition fetch_connection_prog :: "uuid \<Rightarrow> uuid \<Rightarrow> (Connection \<Rightarrow> 'a db_prog) \<Rightarrow> 'a db_prog" where
  "fetch_connection_prog workspace_id connection_id g =
     bind_prog (stmt (query_tx (sql_select_connection workspace_id connection_id))) (\<lambda>result.
     bind_prog (Ret (one_or_none result)) (\<lambda>r.
     case r of None \<Rightarrow> Ret (Inl ConnectionNotFoundError)
     | Some r \<Rightarrow> bind_prog (Ret (connection_from_row r)) g))"

definition audit_prog ::
  "Call \<Rightarrow> ConnectionWorkspaceContext \<Rightarrow> uuid \<Rightarrow> uuid \<Rightarrow> string \<Rightarrow> string \<Rightarrow> json_object \<Rightarrow> json_object \<Rightarrow> 'a db_prog \<Rightarrow> 'a db_prog" where
  "audit_prog call context user_id connection_id name action before_json after_json rest =
     bind_prog (stmt (connection_audit call context user_id connection_id name action before_json after_json [])) (\<lambda>_. rest)"

text \<open>What a method returns, and what its transaction ends with: rows are converted once it is committed.\<close>

datatype outcome =
    Saved Connection
  | Drafted ConnectionDraft
  | Published ConnectionRevision
  | Founded Project

abbreviation returned :: "exn + outcome \<Rightarrow> (exn + outcome) db_prog" where
  "returned r \<equiv> Ret (Inr r)"

datatype mutation =
    Create Call "ConnectionWorkspaceContext \<Rightarrow> exn + unit" uuid uuid string string ConnectionAccessPolicy
  | Rename Call "ConnectionMutationContext \<Rightarrow> exn + unit" uuid uuid uuid string
  | Put_Draft Call "ConnectionMutationContext \<Rightarrow> exn + unit" "ConnectionMutationContext \<Rightarrow> json_object \<Rightarrow> exn + json_object"
      uuid uuid uuid json_object
  | Publish Call "ConnectionMutationContext \<Rightarrow> exn + unit"
      "ConnectionMutationContext \<Rightarrow> json_object \<Rightarrow> exn + PublishedConnectionConfiguration" uuid uuid uuid
  | Replace_Access Call "ConnectionMutationContext \<Rightarrow> exn + unit" uuid uuid uuid ConnectionAccessPolicy
  | Transition Call "ConnectionMutationContext \<Rightarrow> exn + unit" uuid uuid uuid ConnectionLifecycleAction
  | Create_Project timestamp uuid uuid uuid uuid "string option" "ProjectWorkspaceContext \<Rightarrow> exn + unit" uuid uuid string

definition create_connection_prog ::
  "Call \<Rightarrow> (ConnectionWorkspaceContext \<Rightarrow> exn + unit) \<Rightarrow> uuid \<Rightarrow> uuid \<Rightarrow> string \<Rightarrow> string
     \<Rightarrow> ConnectionAccessPolicy \<Rightarrow> (exn + outcome) db_prog" where
  "create_connection_prog call authorize user_id workspace_id name provider_key access_policy =
     workspace_context_prog user_id workspace_id (\<lambda>context.
     bind_prog (Ret (authorize context)) (\<lambda>_.
     validate_projects_prog workspace_id (ap_project_ids access_policy) (
     bind_prog (stmt (sql_insert_connection (call_now call) (call_new_id call) workspace_id name provider_key
       (ConnectionAccessMode_value (ap_mode access_policy)))) (\<lambda>_.
     insert_project_access_prog workspace_id (call_new_id call) user_id (ap_project_ids access_policy) (
     audit_prog call context user_id (call_new_id call) name ''CONNECTION_CREATED'' []
       [(''access_mode'', JStr (ConnectionAccessMode_value (ap_mode access_policy))),
        (''name'', JStr name),
        (''project_ids'', JArr (map (\<lambda>i. JStr (uuid_str i)) (ap_project_ids access_policy))),
        (''provider_key'', JStr provider_key), (''status'', JStr ''DRAFT'')] (
     fetch_connection_prog workspace_id (call_new_id call) (\<lambda>connection. returned (Inr (Saved connection)))))))))"

definition rename_connection_prog ::
  "Call \<Rightarrow> (ConnectionMutationContext \<Rightarrow> exn + unit) \<Rightarrow> uuid \<Rightarrow> uuid \<Rightarrow> uuid \<Rightarrow> string \<Rightarrow> (exn + outcome) db_prog" where
  "rename_connection_prog call authorize user_id workspace_id connection_id name =
     mutation_context_prog user_id workspace_id connection_id (\<lambda>context.
     bind_prog (Ret (authorize context)) (\<lambda>_.
     fetch_connection_prog workspace_id connection_id (\<lambda>prior.
     bind_prog (stmt (sql_rename_connection (call_now call) workspace_id connection_id name)) (\<lambda>_.
     audit_prog call (cm_workspace context) user_id connection_id name ''CONNECTION_RENAMED''
       [(''name'', JStr (cn_name prior))] [(''name'', JStr name)] (
     fetch_connection_prog workspace_id connection_id (\<lambda>renamed. returned (Inr (Saved renamed))))))))"

definition put_draft_prog ::
  "Call \<Rightarrow> (ConnectionMutationContext \<Rightarrow> exn + unit) \<Rightarrow> (ConnectionMutationContext \<Rightarrow> json_object \<Rightarrow> exn + json_object)
     \<Rightarrow> uuid \<Rightarrow> uuid \<Rightarrow> uuid \<Rightarrow> json_object \<Rightarrow> (exn + outcome) db_prog" where
  "put_draft_prog call authorize compile_configuration user_id workspace_id connection_id configuration =
     mutation_context_prog user_id workspace_id connection_id (\<lambda>context.
     bind_prog (Ret (authorize context)) (\<lambda>_.
     bind_prog (Ret (compile_configuration context configuration)) (\<lambda>compiled.
     bind_prog (stmt (sql_upsert_draft (call_now call) connection_id workspace_id compiled user_id)) (\<lambda>result.
     bind_prog (Ret (one result)) (\<lambda>r.
     returned (bind_res (draft_from_row r) (\<lambda>x. Inr (Drafted x))))))))"

definition publish_revision_prog ::
  "Call \<Rightarrow> (ConnectionMutationContext \<Rightarrow> exn + unit)
     \<Rightarrow> (ConnectionMutationContext \<Rightarrow> json_object \<Rightarrow> exn + PublishedConnectionConfiguration)
     \<Rightarrow> uuid \<Rightarrow> uuid \<Rightarrow> uuid \<Rightarrow> (exn + outcome) db_prog" where
  "publish_revision_prog call authorize compile_configuration user_id workspace_id connection_id =
     mutation_context_prog user_id workspace_id connection_id (\<lambda>context.
     bind_prog (Ret (authorize context)) (\<lambda>_.
     bind_prog (stmt (query_tx (sql_lock_draft workspace_id connection_id))) (\<lambda>draft_result.
     bind_prog (Ret (one_or_none draft_result)) (\<lambda>draft_row.
     case draft_row of
       None \<Rightarrow> Ret (Inl (ConnectionStateConflictError ''connection draft does not exist''))
     | Some draft_row \<Rightarrow>
         bind_prog (Ret (bind_res (row_get draft_row ''draft_json'') (\<lambda>v.
           json_object_value ''connection'' v ''draft_json''))) (\<lambda>configuration.
         bind_prog (Ret (compile_configuration context configuration)) (\<lambda>compiled.
         bind_prog (stmt (query_tx (sql_next_revision_number connection_id))) (\<lambda>number.
         bind_prog (Ret (int_field number)) (\<lambda>revision_number.
         bind_prog (stmt (sql_insert_revision (call_now call) (call_new_id call) workspace_id connection_id
           revision_number (pub_definition_schema_version compiled) (pub_configuration compiled)
           (pub_config_hash compiled) user_id)) (\<lambda>inserted.
         bind_prog (Ret (one inserted)) (\<lambda>r.
         bind_prog (stmt (sql_activate_draft_connection (call_now call) workspace_id connection_id)) (\<lambda>_.
         fetch_connection_prog workspace_id connection_id (\<lambda>connection.
         audit_prog call (cm_workspace context) user_id connection_id (cn_name connection) ''CONNECTION_REVISION_PUBLISHED'' []
           [(''config_hash'', JStr (bytes_hex (pub_config_hash compiled))),
            (''definition_schema_version'', JInt (pub_definition_schema_version compiled)),
            (''revision_id'', JStr (uuid_str (call_new_id call))),
            (''revision_number'', JInt revision_number),
            (''status'', JStr (ConnectionStatus_value (cn_status connection)))] (
         returned (bind_res (revision_from_row r) (\<lambda>x. Inr (Published x))))))))))))))))"

definition replace_access_prog ::
  "Call \<Rightarrow> (ConnectionMutationContext \<Rightarrow> exn + unit) \<Rightarrow> uuid \<Rightarrow> uuid \<Rightarrow> uuid \<Rightarrow> ConnectionAccessPolicy
     \<Rightarrow> (exn + outcome) db_prog" where
  "replace_access_prog call authorize user_id workspace_id connection_id access_policy =
     mutation_context_prog user_id workspace_id connection_id (\<lambda>context.
     bind_prog (Ret (authorize context)) (\<lambda>_.
     fetch_connection_prog workspace_id connection_id (\<lambda>prior.
     validate_projects_prog workspace_id (ap_project_ids access_policy) (
     bind_prog (stmt (sql_delete_project_access connection_id)) (\<lambda>_.
     insert_project_access_prog workspace_id connection_id user_id (ap_project_ids access_policy) (
     bind_prog (stmt (sql_update_access_mode (call_now call) workspace_id connection_id
       (ConnectionAccessMode_value (ap_mode access_policy)))) (\<lambda>_.
     fetch_connection_prog workspace_id connection_id (\<lambda>updated.
     audit_prog call (cm_workspace context) user_id connection_id (cn_name updated) ''CONNECTION_ACCESS_UPDATED''
       (access_json (cn_access_policy prior)) (access_json (cn_access_policy updated)) (
     returned (Inr (Saved updated)))))))))))"

definition transition_lifecycle_prog ::
  "Call \<Rightarrow> (ConnectionMutationContext \<Rightarrow> exn + unit) \<Rightarrow> uuid \<Rightarrow> uuid \<Rightarrow> uuid \<Rightarrow> ConnectionLifecycleAction
     \<Rightarrow> (exn + outcome) db_prog" where
  "transition_lifecycle_prog call authorize user_id workspace_id connection_id action =
     mutation_context_prog user_id workspace_id connection_id (\<lambda>context.
     bind_prog (Ret (authorize context)) (\<lambda>_.
     bind_prog (stmt (sql_update_lifecycle (call_now call) workspace_id connection_id
       (ConnectionStatus_value (lifecycle_target action)))) (\<lambda>_.
     fetch_connection_prog workspace_id connection_id (\<lambda>updated.
     audit_prog call (cm_workspace context) user_id connection_id (cn_name updated) (lifecycle_audit_action action)
       [(''status'', JStr (ConnectionStatus_value (cm_status context)))]
       [(''status'', JStr (ConnectionStatus_value (lifecycle_target action)))] (
     returned (Inr (Saved updated)))))))"

definition create_project_prog ::
  "timestamp \<Rightarrow> uuid \<Rightarrow> uuid \<Rightarrow> uuid \<Rightarrow> uuid \<Rightarrow> string option \<Rightarrow> (ProjectWorkspaceContext \<Rightarrow> exn + unit)
     \<Rightarrow> uuid \<Rightarrow> uuid \<Rightarrow> string \<Rightarrow> (exn + outcome) db_prog" where
  "create_project_prog now project_id audit_id auth_session_id request_id trace_id authorize user_id workspace_id name =
     bind_prog (lock_stmt workspace_id (sql_lock_project_creation_context user_id workspace_id)) (\<lambda>context_result.
     bind_prog (Ret (one_or_none context_result)) (\<lambda>context_row.
     case context_row of
       None \<Rightarrow> Ret (Inl ProjectWorkspaceNotFoundError)
     | Some context_row \<Rightarrow>
         bind_prog (Ret (project_context_from_row context_row)) (\<lambda>context.
         bind_prog (Ret (authorize context)) (\<lambda>_.
         bind_prog (stmt (sql_insert_project now project_id workspace_id name)) (\<lambda>inserted.
         bind_prog (Ret (one inserted)) (\<lambda>project_row.
         bind_prog (stmt (sql_insert_project_audit now audit_id workspace_id project_id user_id
           (ProjectAuthorizationRole_value (pc_role context)) name
           [(''name'', JStr name), (''status'', JStr ''ACTIVE'')]
           (uuid_str request_id) trace_id (uuid_str auth_session_id))) (\<lambda>_.
         returned (bind_res (project_from_insert_row project_row) (\<lambda>x. Inr (Founded x))))))))))"

fun mutation_prog :: "mutation \<Rightarrow> (exn + outcome) db_prog" where
  "mutation_prog (Create call az u w n k p) = create_connection_prog call az u w n k p"
| "mutation_prog (Rename call az u w c n) = rename_connection_prog call az u w c n"
| "mutation_prog (Put_Draft call az cc u w c cfg) = put_draft_prog call az cc u w c cfg"
| "mutation_prog (Publish call az cc u w c) = publish_revision_prog call az cc u w c"
| "mutation_prog (Replace_Access call az u w c p) = replace_access_prog call az u w c p"
| "mutation_prog (Transition call az u w c act) = transition_lifecycle_prog call az u w c act"
| "mutation_prog (Create_Project now pid aid sid rid tid az u w n) = create_project_prog now pid aid sid rid tid az u w n"

text \<open>The same calls on the operations that take the transaction as one step.\<close>

definition wrap :: "('a \<Rightarrow> outcome) \<Rightarrow> (exn + 'a) \<times> db \<Rightarrow> (exn + outcome) \<times> db" where
  "wrap f r = (bind_res (fst r) (\<lambda>a. Inr (f a)), snd r)"

fun perform :: "mutation \<Rightarrow> db \<Rightarrow> (exn + outcome) \<times> db" where
  "perform (Create call az u w n k p) d = wrap Saved (repo_create_connection call az u w n k p d)"
| "perform (Rename call az u w c n) d = wrap Saved (repo_rename_connection call az u w c n d)"
| "perform (Put_Draft call az cc u w c cfg) d = wrap Drafted (repo_put_draft call az cc u w c cfg d)"
| "perform (Publish call az cc u w c) d = wrap Published (repo_publish_revision call az cc u w c d)"
| "perform (Replace_Access call az u w c p) d = wrap Saved (repo_replace_access call az u w c p d)"
| "perform (Transition call az u w c act) d = wrap Saved (repo_transition_lifecycle call az u w c act d)"
| "perform (Create_Project now pid aid sid rid tid az u w n) d = wrap Founded (repo_create_project now pid aid sid rid tid az u w n d)"

subsection \<open>Alone, a program is the operation\<close>

lemma bind_tx_laws:
  "bind_tx (bind_tx m f) g = bind_tx m (\<lambda>a. bind_tx (f a) g)"
  "bind_tx (ret_tx a) h = h a" "bind_tx (raise_tx e) k = raise_tx e" "bind_tx (lift_tx (Inl e)) k = raise_tx e"
  "bind_tx (case r of None \<Rightarrow> m1 | Some x \<Rightarrow> m2 x) k = (case r of None \<Rightarrow> bind_tx m1 k | Some x \<Rightarrow> bind_tx (m2 x) k)"
  "bind_tx (if b then m1 else m3) k = (if b then bind_tx m1 k else bind_tx m3 k)"
  by (rule ext, simp add: bind_tx_def split: sum.split prod.split option.split)+

lemma run_cases:
  "run (case r of None \<Rightarrow> p | Some x \<Rightarrow> q x) = (case r of None \<Rightarrow> run p | Some x \<Rightarrow> run (q x))"
  "run (if b then p else p') = (if b then run p else run p')"
  "lift_tx (Inl e) = raise_tx e"
  by (auto split: option.split simp: fun_eq_iff)

lemma run_helpers:
  "run (workspace_context_prog u w g1) = bind_tx (workspace_context u w) (\<lambda>x. run (g1 x))"
  "run (mutation_context_prog u w c g2) = bind_tx (mutation_context u w c) (\<lambda>x. run (g2 x))"
  "run (validate_projects_prog w ps p) = bind_tx (validate_projects w ps) (\<lambda>_. run p)"
  "run (insert_project_access_prog w c u ps p) = bind_tx (repo_insert_project_access w c u ps) (\<lambda>_. run p)"
  "run (fetch_connection_prog w c g3) = bind_tx (fetch_connection w c) (\<lambda>x. run (g3 x))"
  "run (audit_prog call x u c n a bj aj p) = bind_tx (connection_audit call x u c n a bj aj []) (\<lambda>_. run p)"
  by (simp_all add: workspace_context_prog_def workspace_context_def mutation_context_prog_def mutation_context_def
      validate_projects_prog_def validate_projects_def insert_project_access_prog_def repo_insert_project_access_def
      fetch_connection_prog_def fetch_connection_def audit_prog_def bind_tx_laws run_cases cong: option.case_cong if_cong)

lemma alone_wrap:
  assumes "run p = bind_tx m (\<lambda>x. lift_tx (Inr (bind_res (conv x) (\<lambda>y. Inr (f y)))))"
  shows "alone p d = wrap f (after_commit (begin_tx m d) conv)"
  by (cases "m d") (auto simp: alone_def assms begin_tx_def after_commit_def wrap_def)

lemma alone_wrap_same:
  assumes "run p = bind_tx m (\<lambda>x. lift_tx (Inr (Inr (f x))))"
  shows "alone p d = wrap f (begin_tx m d)"
  using alone_wrap[of p m Inr f d] assms by (cases "begin_tx m d"; cases "fst (begin_tx m d)") (auto simp: after_commit_def)

lemma lift_tx_Inr: "lift_tx (Inr a) = (\<lambda>s. Inr (a, s))"
  by (rule ext) simp

lemmas run_laws = run_helpers run_cases bind_tx_laws lift_tx_Inr

lemma alone_is_perform: "alone (mutation_prog m) d = perform m d"
proof (cases m)
  case (Create call az u w n k p)
  show ?thesis unfolding Create mutation_prog.simps perform.simps repo_create_connection_def
    by (rule alone_wrap_same) (simp add: create_connection_prog_def run_laws cong: option.case_cong)
next
  case (Rename call az u w c n)
  show ?thesis unfolding Rename mutation_prog.simps perform.simps repo_rename_connection_def
    by (rule alone_wrap_same) (simp add: rename_connection_prog_def run_laws cong: option.case_cong)
next
  case (Put_Draft call az cc u w c cfg)
  show ?thesis unfolding Put_Draft mutation_prog.simps perform.simps repo_put_draft_def
    by (rule alone_wrap) (simp add: put_draft_prog_def run_laws cong: option.case_cong)
next
  case (Publish call az cc u w c)
  show ?thesis unfolding Publish mutation_prog.simps perform.simps repo_publish_revision_def
    by (rule alone_wrap) (simp add: publish_revision_prog_def run_laws cong: option.case_cong)
next
  case (Replace_Access call az u w c p)
  show ?thesis unfolding Replace_Access mutation_prog.simps perform.simps repo_replace_access_def
    by (rule alone_wrap_same) (simp add: replace_access_prog_def run_laws cong: option.case_cong)
next
  case (Transition call az u w c act)
  show ?thesis unfolding Transition mutation_prog.simps perform.simps repo_transition_lifecycle_def
    by (rule alone_wrap_same) (simp add: transition_lifecycle_prog_def run_laws cong: option.case_cong)
next
  case (Create_Project now pid aid sid rid tid az u w n)
  show ?thesis unfolding Create_Project mutation_prog.simps perform.simps repo_create_project_def
    by (rule alone_wrap) (simp add: create_project_prog_def run_laws cong: option.case_cong)
qed

subsection \<open>Every mutation locks its Workspace and stays in it\<close>

abbreviation within :: "uuid \<Rightarrow> (db \<Rightarrow> bool) \<Rightarrow> 'a db_prog \<Rightarrow> bool" where
  "within w \<equiv> confined_on schema_ok workspace_part w"

lemma within_mono: "within w Q p \<Longrightarrow> (\<And>d. Q' d \<Longrightarrow> Q d) \<Longrightarrow> within w Q' p"
  by (simp add: confined_on_def)

lemma within_lift: "(\<And>a. r = Inr a \<Longrightarrow> within w Q (g a)) \<Longrightarrow> within w Q (bind_prog (Ret r) g)"
  by (rule confined_on_lift)

lemma within_query:
  assumes "part_stmt schema_ok workspace_part w Q s (\<lambda>_. Q')" "on_part workspace_part w Q" "\<And>a. within w Q' (g a)"
  shows "within w Q (bind_prog (stmt s) g)"
  using confined_on_stmt[OF assms(1,2)] assms(3) by blast

lemma within_one_row: "(\<And>r x. rows = [r] \<Longrightarrow> conv r = Inr x \<Longrightarrow> within w Q (g x)) \<Longrightarrow>
    within w Q (bind_prog (Ret (one_or_none rows)) (\<lambda>r. case r of None \<Rightarrow> Ret (Inl e) | Some r \<Rightarrow> bind_prog (Ret (conv r)) g))"
  by (rule within_lift, cases rows rule: one_or_none.cases) (auto intro!: within_lift confined_on_Ret)

lemma within_option: "within w Q p \<Longrightarrow> (\<And>x. within w Q (g x)) \<Longrightarrow> within w Q (case r of None \<Rightarrow> p | Some x \<Rightarrow> g x)"
  by (simp split: option.split)

lemma within_fetch: "(\<And>x. within w (owns w c) (g x)) \<Longrightarrow> within w (owns w c) (fetch_connection_prog w c g)"
  unfolding fetch_connection_prog_def
  by (rule within_query[OF query_stmts(5) on_part_owns], rule within_one_row)

lemma within_validate: "on_part workspace_part w Q \<Longrightarrow> within w Q p \<Longrightarrow> within w Q (validate_projects_prog w ps p)"
  unfolding validate_projects_prog_def
  by (auto intro!: within_query[OF query_stmts(2)] within_lift confined_on_Ret)

lemma within_insert_access: "within w (owns w c) p \<Longrightarrow> within w (owns w c) (insert_project_access_prog w c u ps p)"
  unfolding insert_project_access_prog_def by (auto intro!: within_query[OF insert_access_stmt on_part_owns])

lemma within_audit: "on_part workspace_part w Q \<Longrightarrow> within w Q p \<Longrightarrow> within w Q (audit_prog call x u c n a bj aj p)"
  unfolding audit_prog_def connection_audit_def by (rule within_query[OF insert_audit_stmt])

lemma locked_context:
  assumes "\<And>x. within w (\<lambda>_. True) (g x)"
  shows "locked schema_ok workspace_part w (workspace_context_prog u w g)"
  unfolding workspace_context_prog_def
proof (rule locked_stmt)
  show "sql_workspace_context u w x = sql_workspace_context u w y" if "workspace_part w x = workspace_part w y" for x y
    using that by (metis contexts_part(1))
qed (simp add: bind_prog.simps, rule within_one_row, rule assms)

lemma locked_mutation:
  assumes "\<And>x. within w (owns w c) (g x)"
  shows "locked schema_ok workspace_part w (mutation_context_prog u w c g)"
  unfolding mutation_context_prog_def
proof (rule locked_context, rule confined_on_stmt[OF query_stmts(1) on_part_True])
  fix x rows
  show "within w (\<lambda>d. rows \<noteq> [] \<longrightarrow> owns w c d) (bind_prog (Ret (one_or_none rows)) (\<lambda>r. case r of
      None \<Rightarrow> Ret (Inl ConnectionNotFoundError) | Some r \<Rightarrow> bind_prog (Ret (mutation_context_from_row x r)) g))"
    by (rule within_one_row, rule within_mono[OF assms]) simp
qed

lemmas within_rules = within_option within_fetch within_validate within_insert_access within_audit within_lift confined_on_Ret
  within_query[OF insert_connection_stmt on_part_True] within_query[OF insert_revision_stmt on_part_owns]
  within_query[OF insert_project_stmt on_part_True] within_query[OF update_stmts(1) on_part_owns]
  within_query[OF update_stmts(2) on_part_owns] within_query[OF update_stmts(3) on_part_owns]
  within_query[OF update_stmts(4) on_part_owns] within_query[OF delete_access_stmt on_part_owns]
  within_query[OF upsert_draft_stmt on_part_owns] within_query[OF query_stmts(3)] within_query[OF query_stmts(4) on_part_owns]
  on_part_owns on_part_True

lemma mutation_locks: "\<exists>w. locked schema_ok workspace_part w (mutation_prog m)"
proof (cases m)
  case (Create call az u w n k p)
  show ?thesis unfolding Create mutation_prog.simps create_connection_prog_def
    by (rule exI, rule locked_context) (intro within_rules)
next
  case (Rename call az u w c n)
  show ?thesis unfolding Rename mutation_prog.simps rename_connection_prog_def
    by (rule exI, rule locked_mutation) (intro within_rules)
next
  case (Put_Draft call az cc u w c cfg)
  show ?thesis unfolding Put_Draft mutation_prog.simps put_draft_prog_def
    by (rule exI, rule locked_mutation) (intro within_rules)
next
  case (Publish call az cc u w c)
  show ?thesis unfolding Publish mutation_prog.simps publish_revision_prog_def
    by (rule exI, rule locked_mutation) (intro within_rules)
next
  case (Replace_Access call az u w c p)
  show ?thesis unfolding Replace_Access mutation_prog.simps replace_access_prog_def
    by (rule exI, rule locked_mutation) (intro within_rules)
next
  case (Transition call az u w c act)
  show ?thesis unfolding Transition mutation_prog.simps transition_lifecycle_prog_def
    by (rule exI, rule locked_mutation) (intro within_rules)
next
  case (Create_Project now pid aid sid rid tid az u w n)
  show ?thesis unfolding Create_Project mutation_prog.simps create_project_prog_def
  proof (rule exI, rule locked_stmt)
    show "sql_lock_project_creation_context u w x = sql_lock_project_creation_context u w y" if "workspace_part w x = workspace_part w y" for x y
      using that by (metis contexts_part(2))
    show "\<exists>e. bind_prog (Ret (one_or_none [])) (\<lambda>context_row. case context_row of None \<Rightarrow> Ret (Inl ProjectWorkspaceNotFoundError)
        | Some context_row \<Rightarrow> g context_row) = Ret (Inl e)" for g :: "row \<Rightarrow> (exn + outcome) db_prog" by (simp add: bind_prog.simps)
  qed (rule within_one_row, unfold sql_insert_project_audit_def, intro within_rules within_query[OF insert_audit_stmt])
qed

interpretation workspace_locks: row_locked mutation_prog schema_ok workspace_part
  by unfold_locales (rule mutation_locks)

lemma serialized_mutations:
  assumes "(sys_step mutation_prog schema_ok workspace_part)\<^sup>*\<^sup>* (initial d) s" "schema_ok d"
  shows "schema_ok (sy_db s) \<and> serial perform (sy_log s) d = Some (sy_db s)"
proof -
  have "(\<lambda>m. alone (mutation_prog m)) = perform" by (intro ext alone_is_perform)
  then show ?thesis using workspace_locks.serializable[OF assms] by simp
qed

text \<open>
  C2: The mutations of Connections and Projects are serialisable. However the statements of any number of them
  interleave at READ COMMITTED, with lost transactions and with what other sessions commit outside the locked
  Workspaces, every call is answered, and the database ends, as if each call had run as one step, in the order in
  which the transactions ended.
\<close>

theorem mutations_serializable:
  assumes "(sys_step mutation_prog schema_ok workspace_part)\<^sup>*\<^sup>* (initial d) s" "schema_ok d"
  shows "schema_ok (sy_db s) \<and> serial perform (sy_log s) d = Some (sy_db s)"
  by (rule serialized_mutations[OF assms])

text \<open>Two transactions that create Projects in different Workspaces, statement by statement in turn; the second commits first.\<close>

definition sample_project :: "string \<Rightarrow> uuid \<Rightarrow> uuid \<Rightarrow> uuid \<Rightarrow> uuid \<Rightarrow> mutation" where
  "sample_project name project_id audit_id u w = Create_Project 50 project_id audit_id 200 502 None (\<lambda>_. Inr ()) u w name"

definition two_in_turn :: "(nat \<times> mutation option) list" where
  "two_in_turn = [(0, Some (sample_project ''E'' 500 501 1 10)), (1, Some (sample_project ''F'' 510 511 3 11)), (0, None), (1, None),
     (0, None), (1, None), (1, None), (0, None), (1, None), (0, None)]"

lemma two_in_turn_played:
  "map_option (\<lambda>s. (map p_name (projects (sy_db s)), length (sy_log s)))
     (play mutation_prog 2 two_in_turn (initial sample_db)) = Some ([''A'', ''B'', ''C'', ''D'', ''F'', ''E''], 2)"
  by code_simp

theorem mutations_serializable_witness:
  "\<exists>s. play mutation_prog 2 two_in_turn (initial sample_db) = Some s \<and> length (sy_log s) = 2
     \<and> map p_name (projects (sy_db s)) = [''A'', ''B'', ''C'', ''D'', ''F'', ''E''] \<and> serial perform (sy_log s) sample_db = Some (sy_db s)"
proof -
  obtain s where s: "play mutation_prog 2 two_in_turn (initial sample_db) = Some s" "length (sy_log s) = 2"
    "map p_name (projects (sy_db s)) = [''A'', ''B'', ''C'', ''D'', ''F'', ''E'']"
    using played[OF two_in_turn_played] unfolding prod.inject by (elim exE conjE) (rule that)
  show ?thesis
    by (intro exI[of _ s] conjI s mutations_serializable[OF play_sound[OF s(1) numbered_initial] sample_db_schema, THEN conjunct2])
qed

end
