(* ===== verification/ConcurrentHistory.thy ===== *)
theory ConcurrentHistory
  imports WorkspaceConcurrency
begin

section \<open>Histories of concurrent service calls\<close>

text \<open>
  What the services hand to the repositories, and that every state their calls reach side by side is a state of
  \<open>ConnectionLifecycle.reachable\<close>, whose steps are whole calls: what \<open>ConnectionHistory\<close> shows of those states holds
  under concurrency too.
\<close>

subsection \<open>The calls of the services\<close>

text \<open>A repository that notes the call it is handed, so that the services themselves say what they ask for.\<close>

definition asked :: "mutation \<Rightarrow> mutation option \<Rightarrow> (exn + 'a) \<times> mutation option" where
  "asked m s = (Inl ConnectionNotFoundError, Some m)"

inductive service_call :: "(8 word list \<Rightarrow> 8 word list) \<Rightarrow> registry \<Rightarrow> mutation \<Rightarrow> bool"
  for sha256 :: "8 word list \<Rightarrow> 8 word list" and reg :: registry where
  create: "snd (create_connection reg (\<lambda>az u w n k p. asked (Create call az u w n k p)) u w n k p None) = Some m \<Longrightarrow>
    service_call sha256 reg m"
| rename: "snd (rename_connection (\<lambda>az u w c n. asked (Rename call az u w c n)) u w c n None) = Some m \<Longrightarrow>
    service_call sha256 reg m"
| put_draft: "snd (put_draft reg (\<lambda>az cc u w c cfg. asked (Put_Draft call az cc u w c cfg)) u w c cfg None) = Some m \<Longrightarrow>
    service_call sha256 reg m"
| publish: "snd (publish_revision sha256 reg (\<lambda>az cc u w c. asked (Publish call az cc u w c)) u w c None) = Some m \<Longrightarrow>
    service_call sha256 reg m"
| replace_access: "snd (replace_access (\<lambda>az u w c p. asked (Replace_Access call az u w c p)) u w c p None) = Some m \<Longrightarrow>
    service_call sha256 reg m"
| lifecycle: "snd (transition_lifecycle (\<lambda>az u w c act. asked (Transition call az u w c act)) u w c act None) = Some m \<Longrightarrow>
    service_call sha256 reg m"
| create_project: "snd (create_project (\<lambda>az u w n. asked (Create_Project now pid aid sid rid tid az u w n)) u w n None) = Some m \<Longrightarrow>
    service_call sha256 reg m"

lemma wrap_eq: "wrap f r = (x, d') \<longleftrightarrow> (case fst r of Inl e \<Rightarrow> x = Inl e | Inr a \<Rightarrow> x = Inr (f a)) \<and> snd r = d'"
  by (auto simp: wrap_def split: sum.split)

lemma asked_create:
  assumes "snd (create_connection reg (\<lambda>az u w n k p. asked (Create call az u w n k p)) u w n k p None) = Some m"
  shows "perform m d = wrap Saved (create_connection reg (repo_create_connection call) u w n k p d)"
  using assms by (auto simp: create_connection_def asked_def split: sum.splits)

lemma asked_rename:
  assumes "snd (rename_connection (\<lambda>az u w c n. asked (Rename call az u w c n)) u w c n None) = Some m"
  shows "perform m d = wrap Saved (rename_connection (repo_rename_connection call) u w c n d)"
  using assms by (auto simp: rename_connection_def asked_def split: sum.splits)

lemma asked_replace_access:
  assumes "snd (replace_access (\<lambda>az u w c p. asked (Replace_Access call az u w c p)) u w c p None) = Some m"
  shows "perform m d = wrap Saved (replace_access (repo_replace_access call) u w c p d)"
  using assms by (auto simp: replace_access_def asked_def split: sum.splits)

lemma asked_others:
  "snd (put_draft reg (\<lambda>az cc u w c cfg. asked (Put_Draft call az cc u w c cfg)) u w c cfg None) = Some m \<Longrightarrow>
    perform m d = wrap Drafted (put_draft reg (repo_put_draft call) u w c cfg d)"
  "snd (publish_revision sha256 reg (\<lambda>az cc u w c. asked (Publish call az cc u w c)) u w c None) = Some m \<Longrightarrow>
    perform m d = wrap Published (publish_revision sha256 reg (repo_publish_revision call) u w c d)"
  "snd (transition_lifecycle (\<lambda>az u w c act. asked (Transition call az u w c act)) u w c act None) = Some m \<Longrightarrow>
    perform m d = wrap Saved (transition_lifecycle (repo_transition_lifecycle call) u w c act d)"
  by (auto simp: put_draft_def publish_revision_def transition_lifecycle_def asked_def)

lemma asked_create_project:
  assumes "snd (create_project (\<lambda>az u w n. asked (Create_Project now pid aid sid rid tid az u w n)) u w n None) = Some m"
  obtains n' where "\<And>d. perform m d = wrap Founded (repo_create_project now pid aid sid rid tid authorize_project_creation u w n' d)"
  using assms that by (auto simp: create_project_def asked_def split: sum.splits)

text \<open>A Project touches no Connection.\<close>

lemma project_step:
  assumes "conn_ok d" "repo_create_project now pid aid sid rid tid az u w n d = (x, d')"
  shows "d' = d \<or> conn_step sha256 reg d d'"
proof (cases x)
  case (Inl e)
  then show ?thesis using assms
    by (auto simp: repo_create_project_eq[OF conn_ok_schema] split: option.splits sum.splits if_splits)
next
  case (Inr p)
  show ?thesis
  proof (rule repo_create_project_Inr[OF conn_ok_schema[OF assms(1)] assms(2)[unfolded Inr]])
    fix y assume "d' = project_created now pid aid sid rid tid u w n (pc_role y) d" and s: "schema_ok d'"
    then have f: "connections d' = connections d" "drafts d' = drafts d" "revisions d' = revisions d"
      "project_access d' = project_access d" "\<exists>es. audit_events d' = audit_events d @ es"
      by (simp_all add: project_created_def)
    moreover have "conn_ok d'"
      using assms(1) s f by (simp add: conn_ok_def access_consistent_def access_project_ids_def)
    ultimately show ?thesis by (intro disjI2 conn_step.other)
  qed
qed

text \<open>Performed alone, a call of a service is a step of a history, or leaves no trace.\<close>

lemma service_call_step:
  assumes "service_call sha256 reg m" "conn_ok d"
  shows "snd (perform m d) = d \<or> conn_step sha256 reg d (snd (perform m d))"
proof -
  have kept: ?thesis
    if "perform m d = wrap f r" "\<And>e. r = (Inl e, snd r) \<Longrightarrow> snd r = d" "\<And>a. r = (Inr a, snd r) \<Longrightarrow> conn_step sha256 reg d (snd r)"
    for f :: "'x \<Rightarrow> outcome" and r
    using that by (cases r; cases "fst r") (auto simp: wrap_def)
  note atomic = connection_mutations_atomic[OF assms(2)]
  show ?thesis
    using assms(1)
  proof cases
    case (create call u w n k p)
    show ?thesis
      by (rule kept[OF asked_create[OF create]]) (erule atomic(1), erule conn_step.create)
  next
    case (rename call u w c n)
    show ?thesis
      by (rule kept[OF asked_rename[OF rename]]) (erule atomic(2), erule conn_step.rename)
  next
    case (put_draft call u w c cfg)
    show ?thesis
      by (rule kept[OF asked_others(1)[OF put_draft]]) (erule atomic(3), erule conn_step.put_draft)
  next
    case (publish call u w c)
    show ?thesis
      by (rule kept[OF asked_others(2)[OF publish]]) (erule atomic(4), erule conn_step.publish)
  next
    case (replace_access call u w c p)
    show ?thesis
      by (rule kept[OF asked_replace_access[OF replace_access]]) (erule atomic(5), erule conn_step.replace_access)
  next
    case (lifecycle call u w c act)
    show ?thesis
      by (rule kept[OF asked_others(3)[OF lifecycle]]) (erule atomic(6), erule conn_step.lifecycle)
  next
    case (create_project now pid aid sid rid tid u w n)
    obtain n' where p: "perform m d = wrap Founded (repo_create_project now pid aid sid rid tid authorize_project_creation u w n' d)"
      using asked_create_project[OF create_project] by blast
    show ?thesis unfolding p
      using project_step[OF assms(2), of now pid aid sid rid tid authorize_project_creation u w n'] by (metis prod.collapse snd_conv wrap_def)
  qed
qed

subsection \<open>Properties\<close>

text \<open>What the control plane may see happen: calls of its services, and changes outside its tables.\<close>

definition leaves_connections :: "(db \<Rightarrow> db) \<Rightarrow> bool" where
  "leaves_connections g \<longleftrightarrow> (\<forall>d. conn_ok d \<longrightarrow> conn_ok (g d) \<and> connections (g d) = connections d \<and> drafts (g d) = drafts d
     \<and> revisions (g d) = revisions d \<and> project_access (g d) = project_access d
     \<and> (\<exists>es. audit_events (g d) = audit_events d @ es))"

fun expected :: "(8 word list \<Rightarrow> 8 word list) \<Rightarrow> registry \<Rightarrow> (mutation, db, outcome) event \<Rightarrow> bool" where
  "expected sha256 reg (Answered m r) = service_call sha256 reg m"
| "expected sha256 reg (Other g) = leaves_connections g"

lemma serial_reachable:
  "serial perform es d = Some d' \<Longrightarrow> reachable sha256 reg d \<Longrightarrow> \<forall>e \<in> set es. expected sha256 reg e \<Longrightarrow>
    reachable sha256 reg d'"
proof (induction perform es d rule: serial.induct)
  case (2 m r es d)
  have "conn_ok d" using reachable_inv[OF 2(3)] by (simp add: life_inv_def)
  then have "reachable sha256 reg (snd (perform m d))"
    using service_call_step[of sha256 reg m d] 2(3,4) by (auto intro: reachable.step)
  then show ?case using 2 by (auto split: if_splits)
next
  case (3 g es d)
  have "conn_ok d" using reachable_inv[OF 3(3)] by (simp add: life_inv_def)
  then have "conn_step sha256 reg d (g d)" using 3(4) by (intro conn_step.other) (auto simp: leaves_connections_def)
  then show ?case using 3 by (auto intro: reachable.step)
qed simp


subsection \<open>Concrete schedules\<close>

definition asked_connection :: mutation where
  "asked_connection = (case snd (create_connection sample_registry (\<lambda>az u w n k p. asked (Create (run_call 400) az u w n k p))
     1 10 ''Hook 2'' ''generic_http'' sample_policy None) of Some m \<Rightarrow> m)"

definition asked_project :: "uuid \<Rightarrow> uuid \<Rightarrow> uuid \<Rightarrow> uuid \<Rightarrow> mutation" where
  "asked_project project_id audit_id u w = (case snd (create_project
     (\<lambda>az u w n. asked (Create_Project 50 project_id audit_id 200 502 None az u w n)) u w ''E'' None) of Some m \<Rightarrow> m)"

lemma asked_connection_call: "service_call (\<lambda>_. [7]) sample_registry asked_connection"
proof -
  have "snd (create_connection sample_registry (\<lambda>az u w n k p. asked (Create (run_call 400) az u w n k p))
      1 10 ''Hook 2'' ''generic_http'' sample_policy None) \<noteq> None" by code_simp
  then show ?thesis unfolding asked_connection_def
    by (intro service_call.create[of _ "run_call 400" 1 10 "''Hook 2''" "''generic_http''" sample_policy]) (auto split: option.split)
qed

lemma asked_project_call: "service_call sha256 reg (asked_project project_id audit_id u w)"
proof -
  have "normalize_project_name ''E'' = Inr ''E''" by code_simp
  then show ?thesis
    by (intro service_call.create_project[of 50 project_id audit_id 200 502 None u w "''E''"])
      (simp add: asked_project_def create_project_def asked_def)
qed

text \<open>
  A Connection and a Project of Workspace 10: the second waits while the first holds the lock, and follows once it has
  committed.
\<close>

definition both_begun :: "(nat \<times> mutation option) list" where
  "both_begun = [(0, Some asked_connection), (1, Some (asked_project 500 501 4 10)), (0, None)]"

definition one_then_other :: "(nat \<times> mutation option) list" where
  "one_then_other = both_begun @ [(0, None), (0, None), (0, None), (0, None), (1, None), (1, None), (1, None), (1, None)]"

lemma second_waits:
  "Option.is_none (play mutation_prog 2 (both_begun @ [(1, None)]) (initial sample_start))"
  "\<not> Option.is_none (play mutation_prog 2 both_begun (initial sample_start))"
  by code_simp+

lemma one_then_other_played:
  "map_option (\<lambda>s. (length (connections (sy_db s)), length (projects (sy_db s)), length (sy_log s)))
     (play mutation_prog 2 one_then_other (initial sample_start)) = Some (1, 5, 2)"
  by code_simp


end
