(* ===== verification/Workspaces.thy ===== *)
theory Workspaces
  imports Database
begin

section \<open>Workspaces\<close>

text \<open>
  \<open>domains/workspaces\<close> and \<open>infrastructure/db/workspace_repository.py\<close>: the Workspace models
  and policies, the repository's SQL and row conversions, and the application service. The
  service takes the repository's operations as arguments, as its constructor takes the
  repository; the interface between them is the locale \<open>workspace_repository\<close>.
\<close>

subsection \<open>Models\<close>

datatype WorkspaceStatus = ACTIVE | SUSPENDED | ARCHIVED | PENDING_DELETION

datatype WorkspaceRole = OWNER | ADMIN | BUILDER | VIEWER

fun WorkspaceStatus_value :: "WorkspaceStatus \<Rightarrow> string" where
  "WorkspaceStatus_value WorkspaceStatus.ACTIVE = ''ACTIVE''"
| "WorkspaceStatus_value WorkspaceStatus.SUSPENDED = ''SUSPENDED''"
| "WorkspaceStatus_value WorkspaceStatus.ARCHIVED = ''ARCHIVED''"
| "WorkspaceStatus_value WorkspaceStatus.PENDING_DELETION = ''PENDING_DELETION''"

definition WorkspaceStatus_of :: "string \<Rightarrow> exn + WorkspaceStatus" where
  "WorkspaceStatus_of v =
     (if v = ''ACTIVE'' then Inr WorkspaceStatus.ACTIVE
      else if v = ''SUSPENDED'' then Inr WorkspaceStatus.SUSPENDED
      else if v = ''ARCHIVED'' then Inr WorkspaceStatus.ARCHIVED
      else if v = ''PENDING_DELETION'' then Inr WorkspaceStatus.PENDING_DELETION
      else Inl (ValueError (v @ '' is not a valid WorkspaceStatus'')))"

fun WorkspaceRole_value :: "WorkspaceRole \<Rightarrow> string" where
  "WorkspaceRole_value WorkspaceRole.OWNER = ''OWNER''"
| "WorkspaceRole_value WorkspaceRole.ADMIN = ''ADMIN''"
| "WorkspaceRole_value WorkspaceRole.BUILDER = ''BUILDER''"
| "WorkspaceRole_value WorkspaceRole.VIEWER = ''VIEWER''"

definition WorkspaceRole_of :: "string \<Rightarrow> exn + WorkspaceRole" where
  "WorkspaceRole_of v =
     (if v = ''OWNER'' then Inr WorkspaceRole.OWNER
      else if v = ''ADMIN'' then Inr WorkspaceRole.ADMIN
      else if v = ''BUILDER'' then Inr WorkspaceRole.BUILDER
      else if v = ''VIEWER'' then Inr WorkspaceRole.VIEWER
      else Inl (ValueError (v @ '' is not a valid WorkspaceRole'')))"

record WorkspaceAccess =
  wa_workspace_id :: uuid
  wa_name :: string
  wa_status :: WorkspaceStatus
  wa_role :: WorkspaceRole
  wa_created_at :: timestamp
  wa_updated_at :: timestamp

lemma WorkspaceStatus_of_value [simp]: "WorkspaceStatus_of (WorkspaceStatus_value st) = Inr st"
  by (cases st) (simp_all add: WorkspaceStatus_of_def)

lemma WorkspaceRole_of_value [simp]: "WorkspaceRole_of (WorkspaceRole_value r) = Inr r"
  by (cases r) (simp_all add: WorkspaceRole_of_def)

lemma WorkspaceStatus_checked:
  "v \<in> set workspace_statuses \<Longrightarrow> \<exists>st. WorkspaceStatus_of v = Inr st \<and> v = WorkspaceStatus_value st"
  by (auto simp: workspace_statuses_def WorkspaceStatus_of_def)

lemma WorkspaceRole_checked:
  "v \<in> set membership_roles \<Longrightarrow> \<exists>r. WorkspaceRole_of v = Inr r \<and> v = WorkspaceRole_value r"
  by (auto simp: membership_roles_def WorkspaceRole_of_def)

subsection \<open>Policies\<close>

definition MAX_WORKSPACE_NAME_LENGTH :: nat where "MAX_WORKSPACE_NAME_LENGTH = 120"

definition WORKSPACE_READ_ROLES :: "WorkspaceRole list" where
  "WORKSPACE_READ_ROLES =
     [WorkspaceRole.OWNER, WorkspaceRole.ADMIN, WorkspaceRole.BUILDER, WorkspaceRole.VIEWER]"

definition normalize_workspace_name :: "string \<Rightarrow> exn + string" where
  "normalize_workspace_name value =
     (let normalized = strip value in
      if normalized = [] then Inl (ValueError ''workspace name must not be empty'')
      else if length normalized > MAX_WORKSPACE_NAME_LENGTH
      then Inl (ValueError ''workspace name must be at most 120 characters'')
      else Inr normalized)"

definition can_read_workspace :: "WorkspaceRole \<Rightarrow> bool" where
  "can_read_workspace role \<longleftrightarrow> role \<in> set WORKSPACE_READ_ROLES"

lemma can_read_workspace_all [simp]: "can_read_workspace role"
  by (cases role) (simp_all add: can_read_workspace_def WORKSPACE_READ_ROLES_def)

subsection \<open>Repository: statements\<close>

definition sql_insert_workspace :: "timestamp \<Rightarrow> uuid \<Rightarrow> string \<Rightarrow> (db, row list) tx" where
  "sql_insert_workspace now workspace_id name =
     bind_tx (insert_workspaces \<lparr>ws_id = workspace_id, ws_name = name, ws_status = ''ACTIVE'',
                ws_created_at = now, ws_updated_at = now\<rparr>) (\<lambda>_.
     ret_tx [[(''id'', PUuid workspace_id), (''name'', PStr name), (''status'', PStr ''ACTIVE''),
              (''created_at'', PDatetime now), (''updated_at'', PDatetime now)]])"

definition sql_insert_owner_membership :: "uuid \<Rightarrow> uuid \<Rightarrow> uuid \<Rightarrow> (db, unit) tx" where
  "sql_insert_owner_membership membership_id workspace_id user_id =
     insert_memberships \<lparr>m_id = membership_id, m_workspace_id = workspace_id, m_user_id = user_id,
       m_role = ''OWNER'', m_ended_at = None\<rparr>"

definition sql_insert_workspace_audit ::
  "timestamp \<Rightarrow> uuid \<Rightarrow> uuid \<Rightarrow> uuid \<Rightarrow> string \<Rightarrow> json_object \<Rightarrow> string \<Rightarrow> string option \<Rightarrow> string
     \<Rightarrow> (db, unit) tx" where
  "sql_insert_workspace_audit now audit_id workspace_id user_id name after_json request_id trace_id
       session_id =
     insert_audit_events \<lparr>au_id = audit_id, au_workspace_id = Some workspace_id,
       au_project_id = None, au_scope = ''TENANT'', au_actor_type = ''USER'',
       au_actor_user_id = Some user_id, au_actor_role_snapshot = Some ''OWNER'',
       au_effective_user_id = Some user_id, au_action = ''WORKSPACE_CREATED'',
       au_outcome = ''SUCCEEDED'', au_resource_type = ''WORKSPACE'',
       au_resource_id = Some workspace_id, au_resource_display_snapshot = Some name,
       au_before_json = None, au_after_json = Some after_json, au_change_json = None,
       au_request_id = Some request_id, au_trace_id = trace_id, au_session_id = Some session_id,
       au_surface = ''PUBLIC_API'', au_created_at = now\<rparr>"

definition access_row :: "workspace_row \<times> membership_row \<Rightarrow> row" where
  "access_row wm = (case wm of (w, m) \<Rightarrow>
     [(''workspace_id'', PUuid (ws_id w)), (''name'', PStr (ws_name w)),
      (''status'', PStr (ws_status w)), (''role'', PStr (m_role m)),
      (''created_at'', PDatetime (ws_created_at w)), (''updated_at'', PDatetime (ws_updated_at w))])"

definition sql_list_workspaces_for_user :: "uuid \<Rightarrow> db \<Rightarrow> row list" where
  "sql_list_workspaces_for_user user_id d =
     map access_row (sort_key (\<lambda>(w, m). (ws_created_at w, ws_id w))
       (membership_join d (\<lambda>m. m_user_id m = user_id)))"

definition sql_get_workspace_for_user :: "uuid \<Rightarrow> uuid \<Rightarrow> db \<Rightarrow> row list" where
  "sql_get_workspace_for_user user_id workspace_id d = map access_row (member_rows d user_id workspace_id)"

subsection \<open>Repository: row conversions and operations\<close>

abbreviation ws_uuid_value :: "pyval \<Rightarrow> string \<Rightarrow> exn + uuid" where
  "ws_uuid_value \<equiv> uuid_value ''workspace''"

definition workspace_status :: "pyval \<Rightarrow> exn + WorkspaceStatus" where
  "workspace_status v = bind_res (string_value ''workspace'' v ''status'') WorkspaceStatus_of"

definition workspace_role :: "pyval \<Rightarrow> exn + WorkspaceRole" where
  "workspace_role v = bind_res (string_value ''workspace'' v ''role'') WorkspaceRole_of"

definition access_from_row :: "row \<Rightarrow> exn + WorkspaceAccess" where
  "access_from_row r =
     bind_res (row_get r ''workspace_id'') (\<lambda>v. bind_res (ws_uuid_value v ''workspace_id'') (\<lambda>workspace_id.
     bind_res (row_get r ''name'') (\<lambda>v. bind_res (string_value ''workspace'' v ''name'') (\<lambda>name.
     bind_res (row_get r ''status'') (\<lambda>v. bind_res (workspace_status v) (\<lambda>status.
     bind_res (row_get r ''role'') (\<lambda>v. bind_res (workspace_role v) (\<lambda>role.
     bind_res (row_get r ''created_at'') (\<lambda>v. bind_res (datetime_value ''workspace'' v ''created_at'') (\<lambda>created_at.
     bind_res (row_get r ''updated_at'') (\<lambda>v. bind_res (datetime_value ''workspace'' v ''updated_at'') (\<lambda>updated_at.
     Inr \<lparr>wa_workspace_id = workspace_id, wa_name = name, wa_status = status, wa_role = role,
          wa_created_at = created_at, wa_updated_at = updated_at\<rparr>))))))))))))"

definition created_access :: "row \<Rightarrow> exn + WorkspaceAccess" where
  "created_access r =
     bind_res (row_get r ''id'') (\<lambda>v. bind_res (ws_uuid_value v ''workspace_id'') (\<lambda>workspace_id.
     bind_res (row_get r ''name'') (\<lambda>v. bind_res (string_value ''workspace'' v ''name'') (\<lambda>name.
     bind_res (row_get r ''status'') (\<lambda>v. bind_res (workspace_status v) (\<lambda>status.
     bind_res (row_get r ''created_at'') (\<lambda>v. bind_res (datetime_value ''workspace'' v ''created_at'') (\<lambda>created_at.
     bind_res (row_get r ''updated_at'') (\<lambda>v. bind_res (datetime_value ''workspace'' v ''updated_at'') (\<lambda>updated_at.
     Inr \<lparr>wa_workspace_id = workspace_id, wa_name = name, wa_status = status,
          wa_role = WorkspaceRole.OWNER, wa_created_at = created_at, wa_updated_at = updated_at\<rparr>))))))))))"

text \<open>
  \<open>now\<close> is the database's transaction time; \<open>workspace_id\<close>, \<open>membership_id\<close> and \<open>audit_id\<close>
  are what the three calls of \<open>uuid7()\<close> returned.
\<close>

definition repo_create_owned_workspace ::
  "timestamp \<Rightarrow> uuid \<Rightarrow> uuid \<Rightarrow> uuid \<Rightarrow> uuid \<Rightarrow> uuid \<Rightarrow> string \<Rightarrow> uuid \<Rightarrow> string option
     \<Rightarrow> db \<Rightarrow> (exn + WorkspaceAccess) \<times> db" where
  "repo_create_owned_workspace now workspace_id membership_id audit_id user_id auth_session_id name
       request_id trace_id d =
     after_commit (begin_tx
       (bind_tx (sql_insert_workspace now workspace_id name) (\<lambda>inserted.
        bind_tx (lift_tx (one inserted)) (\<lambda>r.
        bind_tx (sql_insert_owner_membership membership_id workspace_id user_id) (\<lambda>_.
        bind_tx (sql_insert_workspace_audit now audit_id workspace_id user_id name
          [(''name'', JStr name), (''role'', JStr (WorkspaceRole_value WorkspaceRole.OWNER)),
           (''status'', JStr (WorkspaceStatus_value WorkspaceStatus.ACTIVE))]
          (uuid_str request_id) trace_id (uuid_str auth_session_id)) (\<lambda>_.
        ret_tx r))))) d) created_access"

definition repo_list_workspaces_for_user :: "uuid \<Rightarrow> db \<Rightarrow> exn + WorkspaceAccess list" where
  "repo_list_workspaces_for_user user_id d =
     bind_res (read_tx (query_tx (sql_list_workspaces_for_user user_id)) d) (map_res access_from_row)"

definition repo_get_workspace_for_user :: "uuid \<Rightarrow> uuid \<Rightarrow> db \<Rightarrow> exn + WorkspaceAccess option" where
  "repo_get_workspace_for_user user_id workspace_id d =
     bind_res (read_tx (bind_tx (query_tx (sql_get_workspace_for_user user_id workspace_id))
       (\<lambda>rows. lift_tx (one_or_none rows))) d) (\<lambda>r.
     case r of None \<Rightarrow> Inr None
     | Some r \<Rightarrow> bind_res (access_from_row r) (\<lambda>a. Inr (Some a)))"

subsection \<open>Service\<close>

definition create_workspace ::
  "(string \<Rightarrow> db \<Rightarrow> (exn + WorkspaceAccess) \<times> db) \<Rightarrow> string \<Rightarrow> db \<Rightarrow> (exn + WorkspaceAccess) \<times> db" where
  "create_workspace repository_create name d =
     (case normalize_workspace_name name of
        Inl e \<Rightarrow> (Inl e, d)
      | Inr normalized_name \<Rightarrow> repository_create normalized_name d)"

definition list_workspaces ::
  "(uuid \<Rightarrow> db \<Rightarrow> exn + WorkspaceAccess list) \<Rightarrow> uuid \<Rightarrow> db \<Rightarrow> exn + WorkspaceAccess list" where
  "list_workspaces repository_list user_id d =
     bind_res (repository_list user_id d) (\<lambda>accesses.
       Inr (filter (\<lambda>access. can_read_workspace (wa_role access)) accesses))"

definition get_workspace ::
  "(uuid \<Rightarrow> uuid \<Rightarrow> db \<Rightarrow> exn + WorkspaceAccess option) \<Rightarrow> uuid \<Rightarrow> uuid \<Rightarrow> db \<Rightarrow> exn + WorkspaceAccess" where
  "get_workspace repository_get user_id workspace_id d =
     bind_res (repository_get user_id workspace_id d) (\<lambda>access.
       case access of None \<Rightarrow> Inl WorkspaceNotFoundError
       | Some a \<Rightarrow> if \<not> can_read_workspace (wa_role a) then Inl WorkspaceNotFoundError else Inr a)"

subsection \<open>The repository's contract and the service's behaviour under it\<close>

text \<open>
  What \<open>WorkspaceRepository\<close> (\<open>domains/workspaces/contracts.py\<close>) promises the service:
  \<open>visible d u\<close> are the accesses user \<open>u\<close> has in state \<open>d\<close>; listing returns them, getting
  picks one of them, and creating adds one, owned by the creator, or changes nothing.
\<close>

locale workspace_repository =
  fixes ok :: "'d \<Rightarrow> bool"
    and visible :: "'d \<Rightarrow> uuid \<Rightarrow> WorkspaceAccess list"
    and creator :: uuid
    and create_op :: "string \<Rightarrow> 'd \<Rightarrow> (exn + WorkspaceAccess) \<times> 'd"
    and list_op :: "uuid \<Rightarrow> 'd \<Rightarrow> exn + WorkspaceAccess list"
    and get_op :: "uuid \<Rightarrow> uuid \<Rightarrow> 'd \<Rightarrow> exn + WorkspaceAccess option"
  assumes list_law: "ok d \<Longrightarrow> list_op u d = Inr (visible d u)"
    and get_law: "ok d \<Longrightarrow> get_op u w d = Inr (find (\<lambda>a. wa_workspace_id a = w) (visible d u))"
    and create_fail_law: "ok d \<Longrightarrow> create_op n d = (Inl e, d') \<Longrightarrow> d' = d"
    and create_law: "ok d \<Longrightarrow> create_op n d = (Inr a, d') \<Longrightarrow>
      ok d' \<and> wa_name a = n \<and> wa_role a = WorkspaceRole.OWNER \<and> wa_status a = WorkspaceStatus.ACTIVE
      \<and> find (\<lambda>b. wa_workspace_id b = wa_workspace_id a) (visible d' creator) = Some a"
begin

lemma created_is_readable:
  assumes "ok d" "create_op n d = (Inr a, d')"
  shows "get_op creator (wa_workspace_id a) d' = Inr (Some a)"
  using assms create_law get_law by simp

lemma listed_is_readable:
  assumes "ok d" "list_op u d = Inr xs" "a \<in> set xs" "distinct (map wa_workspace_id xs)"
  shows "get_op u (wa_workspace_id a) d = Inr (Some a)"
proof -
  have xs: "xs = visible d u" using assms(1,2) list_law by simp
  have "find (\<lambda>b. wa_workspace_id b = wa_workspace_id a) xs = Some a"
    using find_key_member[OF assms(3,4)] .
  then show ?thesis using assms(1) xs get_law by simp
qed

end

text \<open>The accesses the tables give a user.\<close>

definition access_of :: "workspace_row \<times> membership_row \<Rightarrow> WorkspaceAccess" where
  "access_of wm = (case wm of (w, m) \<Rightarrow>
     \<lparr>wa_workspace_id = ws_id w, wa_name = ws_name w, wa_status = projr (WorkspaceStatus_of (ws_status w)),
      wa_role = projr (WorkspaceRole_of (m_role m)), wa_created_at = ws_created_at w,
      wa_updated_at = ws_updated_at w\<rparr>)"

definition visible_workspaces :: "db \<Rightarrow> uuid \<Rightarrow> WorkspaceAccess list" where
  "visible_workspaces d u = map access_of (sort_key (\<lambda>(w, m). (ws_created_at w, ws_id w))
     (membership_join d (\<lambda>m. m_user_id m = u)))"

lemma access_from_row_ok:
  assumes "schema_ok d" "w \<in> set (workspaces d)" "m \<in> set (memberships d)"
  shows "access_from_row (access_row (w, m)) = Inr (access_of (w, m))"
proof -
  obtain st where "WorkspaceStatus_of (ws_status w) = Inr st"
    using assms WorkspaceStatus_checked by (fastforce simp: schema_ok_def workspaces_ok_def)
  moreover obtain r where "WorkspaceRole_of (m_role m) = Inr r"
    using assms WorkspaceRole_checked by (fastforce simp: schema_ok_def memberships_ok_def)
  ultimately show ?thesis
    by (simp add: access_from_row_def access_row_def access_of_def row_get_def workspace_status_def
        workspace_role_def)
qed

lemma list_for_user_eq:
  assumes "schema_ok d"
  shows "repo_list_workspaces_for_user u d = Inr (visible_workspaces d u)"
proof -
  let ?J = "sort_key (\<lambda>(w, m). (ws_created_at w, ws_id w)) (membership_join d (\<lambda>m. m_user_id m = u))"
  have "access_from_row (access_row wm) = Inr (access_of wm)" if "wm \<in> set ?J" for wm
  proof -
    from that have "wm \<in> set (membership_join d (\<lambda>m. m_user_id m = u))" by simp
    then show ?thesis using assms access_from_row_ok by (auto simp: set_membership_join)
  qed
  then have "map_res access_from_row (map access_row ?J) = Inr (map access_of ?J)"
    using map_res_Inr_map[of ?J "\<lambda>x. access_from_row (access_row x)" access_of]
    by (simp add: map_res_map)
  then show ?thesis
    by (simp add: repo_list_workspaces_for_user_def read_tx_def sql_list_workspaces_for_user_def
        visible_workspaces_def)
qed

lemma member_unique_workspace:
  assumes "schema_ok d" "(w, m) \<in> set (membership_join d (\<lambda>m. m_user_id m = u))"
  shows "member_rows d u (ws_id w) = [(w, m)]"
  using assms by (intro member_rows_eq) (auto simp: set_membership_join is_member_row_def)

lemma get_for_user_eq:
  assumes "schema_ok d"
  shows "repo_get_workspace_for_user u w d =
    Inr (find (\<lambda>a. wa_workspace_id a = w) (visible_workspaces d u))"
proof -
  let ?f = "find (\<lambda>a. wa_workspace_id a = w) (visible_workspaces d u)"
  have mem: "a \<in> set (visible_workspaces d u) \<longleftrightarrow>
    (\<exists>wm \<in> set (membership_join d (\<lambda>m. m_user_id m = u)). a = access_of wm)" for a
    by (auto simp: visible_workspaces_def)
  from member_rows_cases[OF assms, of u w] show ?thesis
  proof (elim disjE exE conjE)
    assume Nil: "member_rows d u w = []"
    have "?f = None"
    proof (rule ccontr)
      assume "?f \<noteq> None"
      then obtain a where "a \<in> set (visible_workspaces d u)" "wa_workspace_id a = w"
        by (auto simp: find_None_iff)
      then obtain ws m where "(ws, m) \<in> set (membership_join d (\<lambda>m. m_user_id m = u))" "ws_id ws = w"
        using mem by (auto simp: access_of_def)
      then show False using member_unique_workspace[OF assms] Nil by auto
    qed
    then show ?thesis using Nil
      by (simp add: repo_get_workspace_for_user_def read_tx_def sql_get_workspace_for_user_def)
  next
    fix ws m assume One: "member_rows d u w = [(ws, m)]" and r: "is_member_row d u w ws m"
    then have "(ws, m) \<in> set (membership_join d (\<lambda>m. m_user_id m = u))" "ws_id ws = w"
      by (auto simp: set_membership_join is_member_row_def)
    then have a: "access_of (ws, m) \<in> set (visible_workspaces d u)" "wa_workspace_id (access_of (ws, m)) = w"
      unfolding mem by (blast, simp add: access_of_def)
    then obtain b where b: "?f = Some b" by (cases ?f) (auto simp: find_None_iff)
    then have "b \<in> set (visible_workspaces d u)" "wa_workspace_id b = w"
      by (auto simp: find_Some_iff)
    then obtain ws' m' where "(ws', m') \<in> set (membership_join d (\<lambda>m. m_user_id m = u))"
      "b = access_of (ws', m')" "ws_id ws' = w"
      unfolding mem by (auto simp: access_of_def)
    then have "b = access_of (ws, m)" using member_unique_workspace[OF assms] One by auto
    then show ?thesis using One b r access_from_row_ok[OF assms]
      by (simp add: repo_get_workspace_for_user_def read_tx_def sql_get_workspace_for_user_def is_member_row_def)
  qed
qed

text \<open>
  The state after a creation, and when it succeeds: the three identifiers are unused and the
  user exists.
\<close>

definition workspace_created ::
  "timestamp \<Rightarrow> uuid \<Rightarrow> uuid \<Rightarrow> uuid \<Rightarrow> uuid \<Rightarrow> uuid \<Rightarrow> string \<Rightarrow> uuid \<Rightarrow> string option \<Rightarrow> db \<Rightarrow> db" where
  "workspace_created now workspace_id membership_id audit_id user_id auth_session_id name request_id
       trace_id d =
     d\<lparr>workspaces := workspaces d @ [\<lparr>ws_id = workspace_id, ws_name = name, ws_status = ''ACTIVE'',
          ws_created_at = now, ws_updated_at = now\<rparr>],
       memberships := memberships d @ [\<lparr>m_id = membership_id, m_workspace_id = workspace_id,
          m_user_id = user_id, m_role = ''OWNER'', m_ended_at = None\<rparr>],
       audit_events := audit_events d @ [\<lparr>au_id = audit_id, au_workspace_id = Some workspace_id,
          au_project_id = None, au_scope = ''TENANT'', au_actor_type = ''USER'',
          au_actor_user_id = Some user_id, au_actor_role_snapshot = Some ''OWNER'',
          au_effective_user_id = Some user_id, au_action = ''WORKSPACE_CREATED'',
          au_outcome = ''SUCCEEDED'', au_resource_type = ''WORKSPACE'',
          au_resource_id = Some workspace_id, au_resource_display_snapshot = Some name,
          au_before_json = None,
          au_after_json = Some [(''name'', JStr name), (''role'', JStr ''OWNER''), (''status'', JStr ''ACTIVE'')],
          au_change_json = None, au_request_id = Some (uuid_str request_id), au_trace_id = trace_id,
          au_session_id = Some (uuid_str auth_session_id), au_surface = ''PUBLIC_API'',
          au_created_at = now\<rparr>]\<rparr>"

definition workspace_ids_fresh :: "uuid \<Rightarrow> uuid \<Rightarrow> uuid \<Rightarrow> uuid \<Rightarrow> db \<Rightarrow> bool" where
  "workspace_ids_fresh workspace_id membership_id audit_id user_id d \<longleftrightarrow>
     workspace_id \<notin> set (map ws_id (workspaces d)) \<and> membership_id \<notin> set (map m_id (memberships d))
     \<and> audit_id \<notin> set (map au_id (audit_events d)) \<and> user_id \<in> set (map u_id (users d))"

definition fresh_access :: "timestamp \<Rightarrow> uuid \<Rightarrow> string \<Rightarrow> WorkspaceAccess" where
  "fresh_access now workspace_id name = \<lparr>wa_workspace_id = workspace_id, wa_name = name,
     wa_status = WorkspaceStatus.ACTIVE, wa_role = WorkspaceRole.OWNER, wa_created_at = now,
     wa_updated_at = now\<rparr>"

lemma create_owned_workspace_ok:
  assumes "schema_ok d" "workspace_ids_fresh wid mid aid u d"
  shows "repo_create_owned_workspace now wid mid aid u sid n rid tid d =
    (Inr (fresh_access now wid n), workspace_created now wid mid aid u sid n rid tid d)"
proof -
  have "(wid, u) \<notin> (\<lambda>m. (m_workspace_id m, m_user_id m)) ` set (active_memberships d)"
    using assms by (auto simp: schema_ok_def memberships_ok_def active_memberships_def workspace_ids_fresh_def)
  then show ?thesis
    using assms(2)
    by (simp add: repo_create_owned_workspace_def begin_tx_def sql_insert_workspace_def bind_tx_def
        insert_workspaces_def workspace_statuses_def sql_insert_owner_membership_def
        insert_memberships_def membership_roles_def active_memberships_def
        sql_insert_workspace_audit_def insert_audit_events_def workspace_created_def
        workspace_ids_fresh_def created_access_def row_get_def workspace_status_def
        WorkspaceStatus_of_def fresh_access_def)
qed

lemma create_owned_workspace_not_fresh:
  assumes "\<not> workspace_ids_fresh wid mid aid u d"
  shows "\<exists>c. repo_create_owned_workspace now wid mid aid u sid n rid tid d = (Inl (IntegrityError c), d)"
  using assms
  by (auto simp: repo_create_owned_workspace_def begin_tx_def sql_insert_workspace_def bind_tx_def
      insert_workspaces_def workspace_statuses_def sql_insert_owner_membership_def
      insert_memberships_def membership_roles_def active_memberships_def
      sql_insert_workspace_audit_def insert_audit_events_def workspace_ids_fresh_def)

lemma workspace_created_schema:
  assumes "schema_ok d" "workspace_ids_fresh wid mid aid u d"
  shows "schema_ok (workspace_created now wid mid aid u sid n rid tid d)"
proof -
  have "preserves schema_ok (bind_tx (sql_insert_workspace now wid n) (\<lambda>inserted.
        bind_tx (lift_tx (one inserted)) (\<lambda>r.
        bind_tx (sql_insert_owner_membership mid wid u) (\<lambda>_.
        bind_tx (sql_insert_workspace_audit now aid wid u n
          [(''name'', JStr n), (''role'', JStr (WorkspaceRole_value WorkspaceRole.OWNER)),
           (''status'', JStr (WorkspaceStatus_value WorkspaceStatus.ACTIVE))]
          (uuid_str rid) tid (uuid_str sid)) (\<lambda>_. ret_tx r)))))"
    unfolding sql_insert_workspace_def sql_insert_owner_membership_def sql_insert_workspace_audit_def
    by (intro preserves_rules)
  from preserves_begin[OF this assms(1)] create_owned_workspace_ok[OF assms, of now sid n rid tid]
  show ?thesis by (simp add: repo_create_owned_workspace_def after_commit_def)
qed

lemma find_created:
  assumes "schema_ok d" "workspace_ids_fresh wid mid aid u d"
  shows "find (\<lambda>b. wa_workspace_id b = wid)
      (visible_workspaces (workspace_created now wid mid aid u sid n rid tid d) u) = Some (fresh_access now wid n)"
proof -
  let ?d = "workspace_created now wid mid aid u sid n rid tid d"
  have s: "schema_ok ?d" by (rule workspace_created_schema[OF assms])
  let ?w = "\<lparr>ws_id = wid, ws_name = n, ws_status = ''ACTIVE'', ws_created_at = now, ws_updated_at = now\<rparr>"
  let ?m = "\<lparr>m_id = mid, m_workspace_id = wid, m_user_id = u, m_role = ''OWNER'', m_ended_at = None\<rparr>"
  have "is_member_row ?d u wid ?w ?m" by (simp add: is_member_row_def workspace_created_def)
  from member_rows_eq[OF s this]
  have "repo_get_workspace_for_user u wid ?d = Inr (Some (fresh_access now wid n))"
    by (simp add: repo_get_workspace_for_user_def read_tx_def sql_get_workspace_for_user_def
        access_from_row_def access_row_def row_get_def workspace_status_def workspace_role_def
        WorkspaceStatus_of_def WorkspaceRole_of_def fresh_access_def)
  then show ?thesis using get_for_user_eq[OF s, of u wid] by simp
qed

interpretation sql_workspaces: workspace_repository schema_ok visible_workspaces u
    "\<lambda>n. repo_create_owned_workspace now wid mid aid u sid n rid tid"
    repo_list_workspaces_for_user repo_get_workspace_for_user
  for now :: timestamp and wid mid aid u sid rid :: uuid and tid :: "string option"
proof unfold_locales
  fix d v w
  assume s: "schema_ok d"
  show "repo_list_workspaces_for_user v d = Inr (visible_workspaces d v)"
    by (rule list_for_user_eq[OF s])
  show "repo_get_workspace_for_user v w d = Inr (find (\<lambda>a. wa_workspace_id a = w) (visible_workspaces d v))"
    by (rule get_for_user_eq[OF s])
next
  fix d n e d'
  assume s: "schema_ok d" and c: "repo_create_owned_workspace now wid mid aid u sid n rid tid d = (Inl e, d')"
  then show "d' = d"
    using create_owned_workspace_ok[OF s, of wid mid aid u now sid n rid tid]
      create_owned_workspace_not_fresh[of wid mid aid u d now sid n rid tid]
    by (cases "workspace_ids_fresh wid mid aid u d") auto
next
  fix d n a d'
  assume s: "schema_ok d" and c: "repo_create_owned_workspace now wid mid aid u sid n rid tid d = (Inr a, d')"
  have f: "workspace_ids_fresh wid mid aid u d"
    using c create_owned_workspace_not_fresh[of wid mid aid u d now sid n rid tid] by fastforce
  then have "a = fresh_access now wid n" "d' = workspace_created now wid mid aid u sid n rid tid d"
    using c create_owned_workspace_ok[OF s f, of now sid n rid tid] by auto
  then show "schema_ok d' \<and> wa_name a = n \<and> wa_role a = WorkspaceRole.OWNER \<and> wa_status a = WorkspaceStatus.ACTIVE
      \<and> find (\<lambda>b. wa_workspace_id b = wa_workspace_id a) (visible_workspaces d' u) = Some a"
    using workspace_created_schema[OF s f] find_created[OF s f] by (simp add: fresh_access_def)
qed

subsection \<open>Properties\<close>

text \<open>
  The complete outcome of \<open>create_workspace\<close>: an invalid name is rejected before any
  statement runs; with unused identifiers and an existing user exactly one Workspace, its owner
  membership and one audit event are added and the tables stay well formed; otherwise the
  transaction raises \<open>IntegrityError\<close> and leaves everything as it was.
\<close>

theorem create_workspace_outcome:
  assumes "schema_ok d"
  shows "case normalize_workspace_name name of
      Inl e \<Rightarrow> create_workspace (\<lambda>n. repo_create_owned_workspace now wid mid aid u sid n rid tid) name d = (Inl e, d)
    | Inr n \<Rightarrow>
        if workspace_ids_fresh wid mid aid u d
        then create_workspace (\<lambda>n. repo_create_owned_workspace now wid mid aid u sid n rid tid) name d
              = (Inr (fresh_access now wid n), workspace_created now wid mid aid u sid n rid tid d)
           \<and> schema_ok (workspace_created now wid mid aid u sid n rid tid d)
        else \<exists>c. create_workspace (\<lambda>n. repo_create_owned_workspace now wid mid aid u sid n rid tid) name d
              = (Inl (IntegrityError c), d)"
  using assms create_owned_workspace_ok workspace_created_schema create_owned_workspace_not_fresh
  by (simp add: create_workspace_def split: sum.split)

theorem create_workspace_outcome_witness:
  "create_workspace (\<lambda>n. repo_create_owned_workspace 9 12 310 400 1 200 n 5 None) '' Lab'' sample_db
     = (Inr (fresh_access 9 12 ''Lab''), workspace_created 9 12 310 400 1 200 ''Lab'' 5 None sample_db)"
proof -
  have n: "normalize_workspace_name '' Lab'' = Inr ''Lab''"
    by (simp add: normalize_workspace_name_def strip_def is_space_def MAX_WORKSPACE_NAME_LENGTH_def)
  have "workspace_ids_fresh 12 310 400 1 sample_db" by (simp add: workspace_ids_fresh_def sample_db_def)
  then show ?thesis
    using create_workspace_outcome[OF sample_db_schema, where name = "'' Lab''" and now = 9 and wid = 12
        and mid = 310 and aid = 400 and u = 1 and sid = 200 and rid = 5 and tid = None]
    unfolding n by simp
qed

text \<open>
  A creator reads the new Workspace back as its active owner.
\<close>

theorem created_workspace_readable:
  assumes "schema_ok d"
    "create_workspace (\<lambda>n. repo_create_owned_workspace now wid mid aid u sid n rid tid) name d = (Inr a, d')"
  shows "get_workspace repo_get_workspace_for_user u (wa_workspace_id a) d' = Inr a
    \<and> wa_role a = WorkspaceRole.OWNER \<and> wa_status a = WorkspaceStatus.ACTIVE"
proof -
  obtain n where c: "repo_create_owned_workspace now wid mid aid u sid n rid tid d = (Inr a, d')"
    using assms(2) by (auto simp: create_workspace_def split: sum.splits)
  show ?thesis
    using sql_workspaces.created_is_readable[OF assms(1) c] sql_workspaces.create_law[OF assms(1) c]
    by (simp add: get_workspace_def)
qed

theorem created_workspace_readable_witness:
  "\<exists>d'. get_workspace repo_get_workspace_for_user 1 12 d' = Inr (fresh_access 9 12 ''Lab'')"
proof -
  have n: "normalize_workspace_name ''Lab'' = Inr ''Lab''"
    by (simp add: normalize_workspace_name_def strip_def is_space_def MAX_WORKSPACE_NAME_LENGTH_def)
  have "workspace_ids_fresh 12 310 400 1 sample_db" by (simp add: workspace_ids_fresh_def sample_db_def)
  then have "create_workspace (\<lambda>n. repo_create_owned_workspace 9 12 310 400 1 200 n 5 None) ''Lab'' sample_db
     = (Inr (fresh_access 9 12 ''Lab''), workspace_created 9 12 310 400 1 200 ''Lab'' 5 None sample_db)"
    by (simp add: create_workspace_def n create_owned_workspace_ok sample_db_schema)
  from created_workspace_readable[OF sample_db_schema this] show ?thesis
    by (auto simp: fresh_access_def)
qed

text \<open>
  The Workspaces a user lists and reads are exactly those in which the user has a
  membership that has not ended, oldest first; any other identifier, of an existing Workspace
  or not, is "workspace not found".
\<close>

theorem workspace_reads:
  assumes "schema_ok d"
  shows "list_workspaces repo_list_workspaces_for_user u d = Inr (visible_workspaces d u)
    \<and> sorted (map (\<lambda>a. (wa_created_at a, wa_workspace_id a)) (visible_workspaces d u))
    \<and> get_workspace repo_get_workspace_for_user u w d =
        (case find (\<lambda>a. wa_workspace_id a = w) (visible_workspaces d u) of
           None \<Rightarrow> Inl WorkspaceNotFoundError | Some a \<Rightarrow> Inr a)
    \<and> (w \<in> wa_workspace_id ` set (visible_workspaces d u) \<longleftrightarrow>
        (\<exists>m \<in> set (memberships d). m_user_id m = u \<and> m_workspace_id m = w \<and> m_ended_at m = None))"
proof (intro conjI)
  show "list_workspaces repo_list_workspaces_for_user u d = Inr (visible_workspaces d u)"
    by (simp add: list_workspaces_def list_for_user_eq[OF assms])
  have "(\<lambda>a. (wa_created_at a, wa_workspace_id a)) \<circ> access_of = (\<lambda>(w, m). (ws_created_at w, ws_id w))"
    by (auto simp: access_of_def)
  then show "sorted (map (\<lambda>a. (wa_created_at a, wa_workspace_id a)) (visible_workspaces d u))"
    by (simp add: visible_workspaces_def)
  show "get_workspace repo_get_workspace_for_user u w d =
        (case find (\<lambda>a. wa_workspace_id a = w) (visible_workspaces d u) of
           None \<Rightarrow> Inl WorkspaceNotFoundError | Some a \<Rightarrow> Inr a)"
    by (simp add: get_workspace_def get_for_user_eq[OF assms] split: option.split)
  have "w \<in> wa_workspace_id ` set (visible_workspaces d u) \<longleftrightarrow>
      (\<exists>ws m. (ws, m) \<in> set (membership_join d (\<lambda>m. m_user_id m = u)) \<and> ws_id ws = w)"
    by (force simp: visible_workspaces_def access_of_def)
  moreover have "\<exists>ws \<in> set (workspaces d). ws_id ws = m_workspace_id m" if "m \<in> set (memberships d)" for m
    using assms that by (fastforce simp: schema_ok_def memberships_ok_def)
  ultimately show "w \<in> wa_workspace_id ` set (visible_workspaces d u) \<longleftrightarrow>
        (\<exists>m \<in> set (memberships d). m_user_id m = u \<and> m_workspace_id m = w \<and> m_ended_at m = None)"
    unfolding set_membership_join by auto metis
qed

theorem workspace_reads_witness:
  "get_workspace repo_get_workspace_for_user 3 10 sample_db = Inl WorkspaceNotFoundError
   \<and> map_sum id (map wa_workspace_id) (list_workspaces repo_list_workspaces_for_user 1 sample_db) = Inr [10]"
proof -
  have "map wa_workspace_id (visible_workspaces sample_db 1) = [10]"
    "map wa_workspace_id (visible_workspaces sample_db 3) = [11]"
    by (simp_all add: visible_workspaces_def membership_join_def sample_db_def access_of_def)
  moreover from this have "find (\<lambda>a. wa_workspace_id a = 10) (visible_workspaces sample_db 3) = None"
    by (auto simp: find_None_iff)
  ultimately show ?thesis
    using workspace_reads[OF sample_db_schema, of 1 10] workspace_reads[OF sample_db_schema, of 3 10]
    by simp
qed

end
