(* ===== verification/Transactions.thy ===== *)
theory Transactions
  imports Database
begin

section \<open>Transactions that interleave with other sessions\<close>

text \<open>
  The session-provisioning repository is written for races: two first sign-ins of the same
  person run at once, and uniqueness constraints with \<open>ON CONFLICT DO NOTHING\<close> decide. Under
  PostgreSQL's READ COMMITTED each statement of a transaction sees what others have committed
  before it starts, together with the transaction's own writes, which nobody else sees.

  A \<open>txn\<close> is the committed database, the rows the transaction has inserted, and a script of what
  the other sessions try to commit, one entry before each statement. An entry takes effect if it
  is \<open>admissible\<close>: it keeps the constraints together with the pending rows (a conflicting insert
  would wait for this transaction), removes no user, identity or session and changes none of their keys.
  An act may raise and still have moved the script and the committed state on.
\<close>

subsection \<open>Pending writes\<close>

record writes =
  w_users :: "user_row list"
  w_identities :: "identity_row list"
  w_sessions :: "session_row list"
  w_audit :: "audit_row list"

definition no_writes :: writes where
  "no_writes = \<lparr>w_users = [], w_identities = [], w_sessions = [], w_audit = []\<rparr>"

definition with_writes :: "db \<Rightarrow> writes \<Rightarrow> db" where
  "with_writes d p = d\<lparr>users := users d @ w_users p, identities := identities d @ w_identities p,
     auth_sessions := auth_sessions d @ w_sessions p, audit_events := audit_events d @ w_audit p\<rparr>"

definition add_writes :: "writes \<Rightarrow> writes \<Rightarrow> writes" where
  "add_writes p q = \<lparr>w_users = w_users p @ w_users q, w_identities = w_identities p @ w_identities q,
     w_sessions = w_sessions p @ w_sessions q, w_audit = w_audit p @ w_audit q\<rparr>"

lemma with_no_writes [simp]: "with_writes d no_writes = d"
  by (simp add: with_writes_def no_writes_def)

lemma with_add_writes: "with_writes d (add_writes p q) = with_writes (with_writes d p) q"
  by (simp add: with_writes_def add_writes_def)

lemma with_writes_tables [simp]:
  "users (with_writes d p) = users d @ w_users p"
  "identities (with_writes d p) = identities d @ w_identities p"
  "auth_sessions (with_writes d p) = auth_sessions d @ w_sessions p"
  "audit_events (with_writes d p) = audit_events d @ w_audit p"
  by (simp_all add: with_writes_def)

lemma no_writes_simps [simp]:
  "w_users no_writes = []" "w_identities no_writes = []" "w_sessions no_writes = []" "w_audit no_writes = []"
  by (simp_all add: no_writes_def)

lemma add_writes_simps [simp]:
  "w_users (add_writes p q) = w_users p @ w_users q"
  "w_identities (add_writes p q) = w_identities p @ w_identities q"
  "w_sessions (add_writes p q) = w_sessions p @ w_sessions q"
  "w_audit (add_writes p q) = w_audit p @ w_audit q"
  by (simp_all add: add_writes_def)

subsection \<open>Interference\<close>

record txn =
  tx_shared :: db
  tx_pending :: writes
  tx_script :: "(db \<Rightarrow> db) list"

abbreviation tx_view :: "txn \<Rightarrow> db" where
  "tx_view t \<equiv> with_writes (tx_shared t) (tx_pending t)"

definition identity_keys :: "db \<Rightarrow> (uuid \<times> uuid \<times> string \<times> string) list" where
  "identity_keys d = map (\<lambda>i. (i_id i, i_user_id i, i_issuer i, i_subject i)) (identities d)"

definition session_keys :: "db \<Rightarrow> (uuid \<times> uuid \<times> string) list" where
  "session_keys d = map (\<lambda>s. (s_id s, s_identity_id s, s_provider_session_id s)) (auth_sessions d)"

definition admissible :: "writes \<Rightarrow> db \<Rightarrow> db \<Rightarrow> bool" where
  "admissible p d d' \<longleftrightarrow> schema_ok d' \<and> schema_ok (with_writes d' p)
     \<and> set (map u_id (users d)) \<subseteq> set (map u_id (users d'))
     \<and> set (identity_keys d) \<subseteq> set (identity_keys d')
     \<and> set (session_keys d) \<subseteq> set (session_keys d')"

definition interfere :: "txn \<Rightarrow> txn" where
  "interfere t = (case tx_script t of
     [] \<Rightarrow> t
   | f # fs \<Rightarrow>
       if admissible (tx_pending t) (tx_shared t) (f (tx_shared t))
       then t\<lparr>tx_shared := f (tx_shared t), tx_script := fs\<rparr> else t\<lparr>tx_script := fs\<rparr>)"

definition tx_ok :: "txn \<Rightarrow> bool" where
  "tx_ok t \<longleftrightarrow> schema_ok (tx_shared t) \<and> schema_ok (tx_view t)"

lemma interfere_pending [simp]: "tx_pending (interfere t) = tx_pending t"
  by (simp add: interfere_def split: list.split)

lemma interfere_ok: "tx_ok t \<Longrightarrow> tx_ok (interfere t)"
  by (auto simp: interfere_def tx_ok_def admissible_def split: list.split)

text \<open>What is once in the committed state stays, whatever the others do.\<close>

definition grows :: "db \<Rightarrow> db \<Rightarrow> bool" where
  "grows d d' \<longleftrightarrow> set (map u_id (users d)) \<subseteq> set (map u_id (users d'))
     \<and> set (identity_keys d) \<subseteq> set (identity_keys d') \<and> set (session_keys d) \<subseteq> set (session_keys d')"

lemma grows_refl [simp]: "grows d d"
  by (simp add: grows_def)

lemma grows_trans: "grows d e \<Longrightarrow> grows e f \<Longrightarrow> grows d f"
  by (auto simp: grows_def)

lemma interfere_grows: "grows (tx_shared t) (tx_shared (interfere t))"
  by (auto simp: interfere_def admissible_def grows_def split: list.split)

lemma grows_view: "grows d d' \<Longrightarrow> grows (with_writes d p) (with_writes d' p)"
  by (auto simp: grows_def identity_keys_def session_keys_def)

lemma interfere_view: "grows (tx_view t) (tx_view (interfere t))"
  using grows_view[OF interfere_grows, of t "tx_pending t"] by simp

lemma interfere_done [simp]: "tx_script t = [] \<Longrightarrow> interfere t = t"
  by (simp add: interfere_def)

subsection \<open>Acts\<close>

type_synonym 'a act = "txn \<Rightarrow> (exn + 'a) \<times> txn"

definition ret_act :: "'a \<Rightarrow> 'a act" where
  "ret_act a t = (Inr a, t)"

definition raise_act :: "exn \<Rightarrow> 'a act" where
  "raise_act e t = (Inl e, t)"

definition lift_act :: "exn + 'a \<Rightarrow> 'a act" where
  "lift_act r t = (r, t)"

definition bind_act :: "'a act \<Rightarrow> ('a \<Rightarrow> 'b act) \<Rightarrow> 'b act" where
  "bind_act m f t = (case m t of (Inl e, t') \<Rightarrow> (Inl e, t') | (Inr a, t') \<Rightarrow> f a t')"

text \<open>A statement: what the others did first, then a query or an insert on what is visible.\<close>

definition select_stmt :: "(db \<Rightarrow> 'a) \<Rightarrow> 'a act" where
  "select_stmt q t = (let t' = interfere t in (Inr (q (tx_view t')), t'))"

definition insert_stmt :: "(db \<Rightarrow> exn + ('a \<times> writes)) \<Rightarrow> 'a act" where
  "insert_stmt f t = (let t' = interfere t in
     case f (tx_view t') of
       Inl e \<Rightarrow> (Inl e, t')
     | Inr (a, w) \<Rightarrow> (Inr a, t'\<lparr>tx_pending := add_writes (tx_pending t') w\<rparr>))"

text \<open>
  \<open>session.begin_nested()\<close>: an exception rolls the transaction's own writes back to the
  savepoint; what others committed stays. \<open>catch_act\<close> is \<open>try: ... except E: ...\<close>.
\<close>

definition nested :: "'a act \<Rightarrow> 'a act" where
  "nested m t = (case m t of (Inl e, t') \<Rightarrow> (Inl e, t'\<lparr>tx_pending := tx_pending t\<rparr>) | (Inr a, t') \<Rightarrow> (Inr a, t'))"

definition catch_act :: "exn \<Rightarrow> 'a act \<Rightarrow> 'a act \<Rightarrow> 'a act" where
  "catch_act e m h t = (case m t of (Inl e', t') \<Rightarrow> if e' = e then h t' else (Inl e', t') | (Inr a, t') \<Rightarrow> (Inr a, t'))"

text \<open>\<open>async with database.session() as session, session.begin()\<close>.\<close>

definition transaction :: "(db \<Rightarrow> db) list \<Rightarrow> 'a act \<Rightarrow> db \<Rightarrow> (exn + 'a) \<times> db" where
  "transaction script m d =
     (case m \<lparr>tx_shared = d, tx_pending = no_writes, tx_script = script\<rparr> of
        (Inl e, t) \<Rightarrow> (Inl e, tx_shared t) | (Inr a, t) \<Rightarrow> (Inr a, tx_view t))"

subsection \<open>What every act keeps\<close>

definition keeps_ok :: "'a act \<Rightarrow> bool" where
  "keeps_ok m \<longleftrightarrow> (\<forall>t. tx_ok t \<longrightarrow> tx_ok (snd (m t)) \<and> grows (tx_shared t) (tx_shared (snd (m t))))"

lemma keeps_okD: "keeps_ok m \<Longrightarrow> tx_ok t \<Longrightarrow> m t = (r, t') \<Longrightarrow> tx_ok t' \<and> grows (tx_shared t) (tx_shared t')"
  by (metis keeps_ok_def snd_conv)

lemma keeps_basic [preserves_rules]:
  "keeps_ok (ret_act a)" "keeps_ok (raise_act e)" "keeps_ok (lift_act r)" "keeps_ok (select_stmt q)"
  by (auto simp: keeps_ok_def ret_act_def raise_act_def lift_act_def select_stmt_def Let_def
      interfere_ok interfere_grows)

lemma keeps_bind [preserves_rules]:
  assumes "keeps_ok m" "\<And>a. keeps_ok (f a)"
  shows "keeps_ok (bind_act m f)"
  unfolding keeps_ok_def
proof (intro allI impI)
  fix t assume t: "tx_ok t"
  obtain r t' where m: "m t = (r, t')" by (cases "m t")
  have 1: "tx_ok t' \<and> grows (tx_shared t) (tx_shared t')" using keeps_okD[OF assms(1) t m] .
  show "tx_ok (snd (bind_act m f t)) \<and> grows (tx_shared t) (tx_shared (snd (bind_act m f t)))"
  proof (cases r)
    case (Inl e)
    then show ?thesis using 1 m by (simp add: bind_act_def)
  next
    case (Inr a)
    obtain r2 t2 where 2: "f a t' = (r2, t2)" by (cases "f a t'")
    show ?thesis using Inr m 2 1 keeps_okD[OF assms(2) _ 2] grows_trans by (auto simp: bind_act_def)
  qed
qed

lemma keeps_if [preserves_rules]:
  "(b \<Longrightarrow> keeps_ok m) \<Longrightarrow> (\<not> b \<Longrightarrow> keeps_ok m') \<Longrightarrow> keeps_ok (if b then m else m')"
  by simp

lemma keeps_option [preserves_rules]:
  "keeps_ok m \<Longrightarrow> (\<And>x. keeps_ok (f x)) \<Longrightarrow> keeps_ok (case r of None \<Rightarrow> m | Some x \<Rightarrow> f x)"
  by (cases r) auto

lemma keeps_catch [preserves_rules]:
  assumes "keeps_ok m" "keeps_ok h"
  shows "keeps_ok (catch_act e m h)"
  unfolding keeps_ok_def
proof (intro allI impI)
  fix t assume t: "tx_ok t"
  obtain r t' where m: "m t = (r, t')" by (cases "m t")
  have 1: "tx_ok t' \<and> grows (tx_shared t) (tx_shared t')" using keeps_okD[OF assms(1) t m] .
  obtain r2 t2 where 2: "h t' = (r2, t2)" by (cases "h t'")
  show "tx_ok (snd (catch_act e m h t)) \<and> grows (tx_shared t) (tx_shared (snd (catch_act e m h t)))"
    using m 2 1 keeps_okD[OF assms(2) _ 2] grows_trans
    by (cases r) (auto simp: catch_act_def)
qed

text \<open>A savepoint set before the first write is rolled back to the committed state.\<close>

lemma nested_keeps:
  assumes "keeps_ok m" "tx_ok t" "tx_pending t = no_writes"
  shows "tx_ok (snd (nested m t)) \<and> grows (tx_shared t) (tx_shared (snd (nested m t)))"
proof -
  obtain r t' where m: "m t = (r, t')" by (cases "m t")
  then have "tx_ok t' \<and> grows (tx_shared t) (tx_shared t')" by (rule keeps_okD[OF assms(1,2)])
  then show ?thesis using m assms(3) by (cases r) (auto simp: nested_def tx_ok_def)
qed

lemma keeps_insert:
  assumes "\<And>d a w. schema_ok d \<Longrightarrow> f d = Inr (a, w) \<Longrightarrow> schema_ok (with_writes d w)"
  shows "keeps_ok (insert_stmt f)"
  unfolding keeps_ok_def
proof (intro allI impI)
  fix t assume t: "tx_ok t"
  let ?t = "interfere t"
  have ok: "tx_ok ?t" and g: "grows (tx_shared t) (tx_shared ?t)"
    using interfere_ok[OF t] interfere_grows by auto
  show "tx_ok (snd (insert_stmt f t)) \<and> grows (tx_shared t) (tx_shared (snd (insert_stmt f t)))"
  proof (cases "f (tx_view ?t)")
    case (Inl e)
    then show ?thesis using ok g by (simp add: insert_stmt_def Let_def)
  next
    case (Inr aw)
    then have "schema_ok (with_writes (tx_view ?t) (snd aw))"
      using assms[of "tx_view ?t" "fst aw" "snd aw"] ok by (simp add: tx_ok_def)
    then show ?thesis using Inr ok g
      by (cases aw) (simp add: insert_stmt_def Let_def tx_ok_def with_add_writes)
  qed
qed

lemma transaction_schema:
  assumes "keeps_ok m" "schema_ok d" "transaction script m d = (r, d')"
  shows "schema_ok d' \<and> grows d d'"
proof -
  let ?t = "\<lparr>tx_shared = d, tx_pending = no_writes, tx_script = script\<rparr>"
  have "tx_ok ?t" using assms(2) by (simp add: tx_ok_def)
  moreover obtain q t' where m: "m ?t = (q, t')" by (cases "m ?t")
  ultimately have "tx_ok t' \<and> grows d (tx_shared t')" using keeps_okD[OF assms(1)] by fastforce
  moreover have "grows (tx_shared t') (tx_view t')"
    by (simp add: grows_def identity_keys_def session_keys_def)
  ultimately show ?thesis using assms(3) m grows_trans
    by (cases q) (auto simp: transaction_def tx_ok_def)
qed

subsection \<open>Without interference\<close>

definition quiet :: "'a act \<Rightarrow> bool" where
  "quiet m \<longleftrightarrow> (\<forall>t. tx_script t = [] \<longrightarrow> tx_shared (snd (m t)) = tx_shared t \<and> tx_script (snd (m t)) = [])"

lemma quietD:
  "quiet m \<Longrightarrow> tx_script t = [] \<Longrightarrow> m t = (r, t') \<Longrightarrow> tx_shared t' = tx_shared t \<and> tx_script t' = []"
  by (metis quiet_def snd_conv)

lemma quiet_basic [preserves_rules]:
  "quiet (ret_act a)" "quiet (raise_act e)" "quiet (lift_act r)" "quiet (select_stmt q)" "quiet (insert_stmt f)"
  by (auto simp: quiet_def ret_act_def raise_act_def lift_act_def select_stmt_def insert_stmt_def Let_def
      split: sum.split)

lemma quiet_bind [preserves_rules]: "quiet m \<Longrightarrow> (\<And>a. quiet (f a)) \<Longrightarrow> quiet (bind_act m f)"
  unfolding quiet_def bind_act_def by (fastforce split: sum.splits prod.splits)

lemma quiet_if [preserves_rules]:
  "(b \<Longrightarrow> quiet m) \<Longrightarrow> (\<not> b \<Longrightarrow> quiet m') \<Longrightarrow> quiet (if b then m else m')"
  by simp

lemma quiet_option [preserves_rules]:
  "quiet m \<Longrightarrow> (\<And>x. quiet (f x)) \<Longrightarrow> quiet (case r of None \<Rightarrow> m | Some x \<Rightarrow> f x)"
  by (cases r) auto

lemma quiet_nested [preserves_rules]: "quiet m \<Longrightarrow> quiet (nested m)"
  unfolding quiet_def nested_def by (fastforce split: sum.splits prod.splits)

lemma quiet_catch [preserves_rules]: "quiet m \<Longrightarrow> quiet h \<Longrightarrow> quiet (catch_act e m h)"
  unfolding quiet_def catch_act_def by (fastforce split: sum.splits prod.splits)

end
