(* ===== verification/SessionProvisioning.thy ===== *)
theory SessionProvisioning
  imports Transactions
begin

section \<open>Session provisioning: the repository\<close>

text \<open>
  \<open>domains/authentication/models.py\<close>, \<open>provisioning_models.py\<close> and
  \<open>infrastructure/db/session_provisioning_repository.py\<close>: find an identity, admit a session for
  it, or create user, identity and session for a first sign-in, each as a transaction that
  interleaves with other sessions (\<open>Transactions\<close>). \<open>Provision\<close> holds the time of the transaction
  (\<open>CURRENT_TIMESTAMP\<close> is constant in it) and the results of \<open>uuid7()\<close>.
\<close>

subsection \<open>Models\<close>

record VerifiedAccessToken =
  vt_issuer :: string
  vt_subject :: string
  vt_provider_session_id :: string
  vt_token_id :: string
  vt_issued_at :: timestamp
  vt_expires_at :: timestamp

record AuthenticatedPrincipal =
  ap_user_id :: uuid
  ap_auth_session_id :: uuid
  ap_email :: string
  ap_display_name :: "string option"

record ExternalUserProfile =
  ep_subject :: string
  ep_email :: string
  ep_email_verified :: bool
  ep_display_name :: "string option"

record ProvisioningIdentity =
  pi_identity_id :: uuid
  pi_user_id :: uuid
  pi_active :: bool

record ProvisionedSession =
  ps_principal :: AuthenticatedPrincipal
  ps_expires_at :: timestamp
  ps_created :: bool

record ActiveIdentity =
  ai_identity_id :: uuid
  ai_user_id :: uuid
  ai_email :: string
  ai_display_name :: "string option"

record Provision =
  pv_now :: timestamp
  pv_user_id :: uuid
  pv_identity_id :: uuid
  pv_session_id :: uuid
  pv_audit_id :: uuid

abbreviation sp_uuid :: "pyval \<Rightarrow> string \<Rightarrow> exn + uuid" where
  "sp_uuid \<equiv> uuid_value ''session provisioning''"
abbreviation sp_string :: "pyval \<Rightarrow> string \<Rightarrow> exn + string" where
  "sp_string \<equiv> string_value ''session provisioning''"
abbreviation sp_optional_string :: "pyval \<Rightarrow> string \<Rightarrow> exn + string option" where
  "sp_optional_string \<equiv> optional_string ''session provisioning''"
abbreviation sp_datetime :: "pyval \<Rightarrow> string \<Rightarrow> exn + timestamp" where
  "sp_datetime \<equiv> datetime_value ''session provisioning''"

subsection \<open>Statements\<close>

definition identity_join :: "db \<Rightarrow> (identity_row \<Rightarrow> user_row \<Rightarrow> bool) \<Rightarrow> (identity_row \<times> user_row) list" where
  "identity_join d P = filter (\<lambda>(i, u). P i u)
     (concat (map (\<lambda>i. map (\<lambda>u. (i, u)) (filter (\<lambda>u. u_id u = i_user_id i) (users d))) (identities d)))"

definition sql_find_identity :: "string \<Rightarrow> string \<Rightarrow> db \<Rightarrow> row list" where
  "sql_find_identity issuer subject d =
     map (\<lambda>(i, u). [(''identity_id'', PUuid (i_id i)), (''user_id'', PUuid (u_id u)),
                    (''identity_status'', PStr (i_status i)), (''user_status'', PStr (u_status u))])
       (identity_join d (\<lambda>i u. i_issuer i = issuer \<and> i_subject i = subject))"

definition sql_lock_active_identity :: "uuid \<Rightarrow> string \<Rightarrow> string \<Rightarrow> db \<Rightarrow> row list" where
  "sql_lock_active_identity identity_id issuer subject d =
     map (\<lambda>(i, u). [(''identity_id'', PUuid (i_id i)), (''user_id'', PUuid (u_id u)),
                    (''email'', PStr (u_email u)), (''display_name'', opt_val PStr (u_display_name u))])
       (identity_join d (\<lambda>i u. i_id i = identity_id \<and> i_issuer i = issuer \<and> i_subject i = subject
          \<and> i_status i = ''ACTIVE'' \<and> u_status u = ''ACTIVE''))"

definition sql_find_exact_identity :: "string \<Rightarrow> string \<Rightarrow> db \<Rightarrow> row list" where
  "sql_find_exact_identity issuer subject d =
     map (\<lambda>(i, u). [(''identity_id'', PUuid (i_id i)), (''user_id'', PUuid (u_id u)),
                    (''identity_status'', PStr (i_status i)), (''user_status'', PStr (u_status u)),
                    (''email'', PStr (u_email u)), (''display_name'', opt_val PStr (u_display_name u))])
       (identity_join d (\<lambda>i u. i_issuer i = issuer \<and> i_subject i = subject))"

text \<open>
  \<open>INSERT ... ON CONFLICT (key) DO NOTHING RETURNING\<close>: CHECK constraints raise first, then a
  conflict on the key inserts nothing and returns no row; any other violation raises.
\<close>

definition sql_insert_user :: "uuid \<Rightarrow> string \<Rightarrow> string \<Rightarrow> string option \<Rightarrow> db \<Rightarrow> exn + (uuid list \<times> writes)" where
  "sql_insert_user user_id email email_normalized display_name d =
     (let r = \<lparr>u_id = user_id, u_email = email, u_email_normalized = email_normalized,
               u_display_name = display_name, u_status = ''ACTIVE''\<rparr> in
      if email_normalized \<in> set (map u_email_normalized (users d)) then Inr ([], no_writes)
      else bind_res (insert_users r d) (\<lambda>_. Inr ([user_id], no_writes\<lparr>w_users := [r]\<rparr>)))"

definition sql_insert_identity :: "uuid \<Rightarrow> uuid \<Rightarrow> string \<Rightarrow> string \<Rightarrow> db \<Rightarrow> exn + (uuid list \<times> writes)" where
  "sql_insert_identity identity_id user_id issuer subject d =
     (let r = \<lparr>i_id = identity_id, i_user_id = user_id, i_issuer = issuer, i_subject = subject,
               i_status = ''ACTIVE''\<rparr> in
      if issuer = [] \<or> subject = [] then Inl (IntegrityError ''user_auth_identities_check'')
      else if (issuer, subject) \<in> set (map (\<lambda>i. (i_issuer i, i_subject i)) (identities d))
      then Inr ([], no_writes)
      else bind_res (insert_identities r d) (\<lambda>_. Inr ([identity_id], no_writes\<lparr>w_identities := [r]\<rparr>)))"

definition sql_insert_session ::
  "timestamp \<Rightarrow> uuid \<Rightarrow> uuid \<Rightarrow> string \<Rightarrow> int \<Rightarrow> db \<Rightarrow> exn + (row list \<times> writes)" where
  "sql_insert_session now session_id identity_id provider_session_id ttl_seconds d =
     (let r = \<lparr>s_id = session_id, s_identity_id = identity_id, s_provider_session_id = provider_session_id,
               s_expires_at = now + ttl_seconds * 1000000, s_revoked_at = None, s_created_at = now\<rparr> in
      if provider_session_id = [] \<or> \<not> s_created_at r < s_expires_at r
      then Inl (IntegrityError ''auth_sessions_check'')
      else if (identity_id, provider_session_id) \<in>
              set (map (\<lambda>s. (s_identity_id s, s_provider_session_id s)) (auth_sessions d))
      then Inr ([], no_writes)
      else bind_res (insert_auth_sessions r d) (\<lambda>_.
        Inr ([[(''id'', PUuid session_id), (''expires_at'', PDatetime (s_expires_at r))]],
             no_writes\<lparr>w_sessions := [r]\<rparr>)))"

definition sql_find_session :: "timestamp \<Rightarrow> uuid \<Rightarrow> string \<Rightarrow> db \<Rightarrow> row list" where
  "sql_find_session now identity_id provider_session_id d =
     map (\<lambda>s. [(''id'', PUuid (s_id s)), (''expires_at'', PDatetime (s_expires_at s)),
               (''revoked_at'', opt_val PDatetime (s_revoked_at s)),
               (''unexpired'', PBool (s_expires_at s > now))])
       (filter (\<lambda>s. s_identity_id s = identity_id \<and> s_provider_session_id s = provider_session_id)
         (auth_sessions d))"

definition session_audit_row :: "timestamp \<Rightarrow> uuid \<Rightarrow> uuid \<Rightarrow> uuid \<Rightarrow> string \<Rightarrow> audit_row" where
  "session_audit_row now audit_id user_id session_id session_id_text =
     \<lparr>au_id = audit_id, au_workspace_id = None, au_project_id = None, au_scope = ''PLATFORM'',
      au_actor_type = ''USER'', au_actor_user_id = Some user_id, au_actor_role_snapshot = None,
      au_effective_user_id = Some user_id, au_action = ''AUTH_SESSION_CREATED'',
      au_outcome = ''SUCCEEDED'', au_resource_type = ''AUTH_SESSION'', au_resource_id = Some session_id,
      au_resource_display_snapshot = None, au_before_json = None, au_after_json = None,
      au_change_json = None, au_request_id = None, au_trace_id = None,
      au_session_id = Some session_id_text, au_surface = ''PUBLIC_API'', au_created_at = now\<rparr>"

definition sql_insert_session_audit :: "audit_row \<Rightarrow> db \<Rightarrow> exn + (unit \<times> writes)" where
  "sql_insert_session_audit e d =
     bind_res (insert_audit_events e d) (\<lambda>_. Inr ((), no_writes\<lparr>w_audit := [e]\<rparr>))"

subsection \<open>Row conversions\<close>

definition active_identity_from_row :: "row \<Rightarrow> exn + ActiveIdentity" where
  "active_identity_from_row r =
     bind_res (bind_res (row_get r ''identity_id'') (\<lambda>v. sp_uuid v ''identity_id'')) (\<lambda>identity_id.
     bind_res (bind_res (row_get r ''user_id'') (\<lambda>v. sp_uuid v ''user_id'')) (\<lambda>user_id.
     bind_res (bind_res (row_get r ''email'') (\<lambda>v. sp_string v ''email'')) (\<lambda>email.
     bind_res (bind_res (row_get r ''display_name'') (\<lambda>v. sp_optional_string v ''display_name'')) (\<lambda>display_name.
     Inr \<lparr>ai_identity_id = identity_id, ai_user_id = user_id, ai_email = email,
          ai_display_name = display_name\<rparr>))))"

definition require_active :: "row \<Rightarrow> exn + ActiveIdentity" where
  "require_active r =
     bind_res (row_get r ''identity_status'') (\<lambda>identity_status.
     if identity_status \<noteq> PStr ''ACTIVE'' then Inl SessionProvisioningAuthenticationError
     else bind_res (row_get r ''user_status'') (\<lambda>user_status.
       if user_status \<noteq> PStr ''ACTIVE'' then Inl SessionProvisioningAuthenticationError
       else active_identity_from_row r))"

definition principal_of :: "ActiveIdentity \<Rightarrow> uuid \<Rightarrow> AuthenticatedPrincipal" where
  "principal_of identity session_id =
     \<lparr>ap_user_id = ai_user_id identity, ap_auth_session_id = session_id, ap_email = ai_email identity,
      ap_display_name = ai_display_name identity\<rparr>"

subsection \<open>Acts\<close>

definition lock_active_identity :: "VerifiedAccessToken \<Rightarrow> uuid \<Rightarrow> ActiveIdentity act" where
  "lock_active_identity token identity_id =
     bind_act (select_stmt (sql_lock_active_identity identity_id (vt_issuer token) (vt_subject token))) (\<lambda>rows.
     bind_act (lift_act (one_or_none rows)) (\<lambda>r.
     case r of None \<Rightarrow> raise_act SessionProvisioningAuthenticationError
     | Some r \<Rightarrow> lift_act (active_identity_from_row r)))"

definition find_exact_identity :: "VerifiedAccessToken \<Rightarrow> row option act" where
  "find_exact_identity token =
     bind_act (select_stmt (sql_find_exact_identity (vt_issuer token) (vt_subject token))) (\<lambda>rows.
     lift_act (one_or_none rows))"

definition create_identity :: "Provision \<Rightarrow> VerifiedAccessToken \<Rightarrow> string \<Rightarrow> string \<Rightarrow> string option \<Rightarrow> ActiveIdentity act" where
  "create_identity pv token email email_normalized display_name =
     bind_act (insert_stmt (sql_insert_user (pv_user_id pv) email email_normalized display_name)) (\<lambda>rows.
     bind_act (lift_act (one_or_none rows)) (\<lambda>inserted_user.
     case inserted_user of
       None \<Rightarrow>
         bind_act (find_exact_identity token) (\<lambda>existing.
         case existing of
           Some r \<Rightarrow> lift_act (require_active r)
         | None \<Rightarrow> raise_act AccountLinkRequiredError)
     | Some _ \<Rightarrow>
         bind_act (insert_stmt (sql_insert_identity (pv_identity_id pv) (pv_user_id pv) (vt_issuer token) (vt_subject token))) (\<lambda>rows.
         bind_act (lift_act (one_or_none rows)) (\<lambda>inserted_identity.
         case inserted_identity of
           None \<Rightarrow> raise_act IdentityRace
         | Some _ \<Rightarrow>
             ret_act \<lparr>ai_identity_id = pv_identity_id pv, ai_user_id = pv_user_id pv, ai_email = email,
                      ai_display_name = display_name\<rparr>))))"

definition resolve_race :: "VerifiedAccessToken \<Rightarrow> ActiveIdentity act" where
  "resolve_race token =
     bind_act (find_exact_identity token) (\<lambda>existing.
     case existing of
       None \<Rightarrow> raise_act (RuntimeError ''identity uniqueness race resolved without identity row'')
     | Some r \<Rightarrow> lift_act (require_active r))"

definition create_identity_or_resolve_race ::
  "Provision \<Rightarrow> VerifiedAccessToken \<Rightarrow> ExternalUserProfile \<Rightarrow> ActiveIdentity act" where
  "create_identity_or_resolve_race pv token profile =
     (let email = strip (ep_email profile); email_normalized = casefold email in
      if email = [] \<or> email_normalized = [] then raise_act (ValueError ''provider email must be non-empty'')
      else catch_act IdentityRace
        (nested (create_identity pv token email email_normalized (ep_display_name profile)))
        (resolve_race token))"

definition reuse_session :: "ActiveIdentity \<Rightarrow> row \<Rightarrow> exn + ProvisionedSession" where
  "reuse_session identity r =
     bind_res (row_get r ''revoked_at'') (\<lambda>revoked_at.
     bind_res (row_get r ''unexpired'') (\<lambda>unexpired.
     if revoked_at \<noteq> PNone \<or> unexpired \<noteq> PBool True then Inl SessionProvisioningAuthenticationError
     else
       bind_res (bind_res (row_get r ''id'') (\<lambda>v. sp_uuid v ''session_id'')) (\<lambda>session_id.
       bind_res (bind_res (row_get r ''expires_at'') (\<lambda>v. sp_datetime v ''expires_at'')) (\<lambda>expires_at.
       Inr \<lparr>ps_principal = principal_of identity session_id, ps_expires_at = expires_at, ps_created = False\<rparr>))))"

definition admit_session :: "Provision \<Rightarrow> VerifiedAccessToken \<Rightarrow> ActiveIdentity \<Rightarrow> int \<Rightarrow> ProvisionedSession act" where
  "admit_session pv token identity ttl_seconds =
     bind_act (insert_stmt (sql_insert_session (pv_now pv) (pv_session_id pv) (ai_identity_id identity)
                 (vt_provider_session_id token) ttl_seconds)) (\<lambda>rows.
     bind_act (lift_act (one_or_none rows)) (\<lambda>inserted_row.
     case inserted_row of
       Some r \<Rightarrow>
         bind_act (lift_act (bind_res (row_get r ''expires_at'') (\<lambda>v. sp_datetime v ''expires_at''))) (\<lambda>expires_at.
         bind_act (insert_stmt (sql_insert_session_audit (session_audit_row (pv_now pv) (pv_audit_id pv)
           (ai_user_id identity) (pv_session_id pv) (uuid_str (pv_session_id pv))))) (\<lambda>_.
         ret_act \<lparr>ps_principal = principal_of identity (pv_session_id pv), ps_expires_at = expires_at,
                  ps_created = True\<rparr>))
     | None \<Rightarrow>
         bind_act (select_stmt (sql_find_session (pv_now pv) (ai_identity_id identity) (vt_provider_session_id token))) (\<lambda>rows.
         bind_act (lift_act (one rows)) (\<lambda>r.
         lift_act (reuse_session identity r)))))"

subsection \<open>The operations of the repository\<close>

definition repo_find_identity :: "VerifiedAccessToken \<Rightarrow> db \<Rightarrow> exn + ProvisioningIdentity option" where
  "repo_find_identity token d =
     bind_res (one_or_none (sql_find_identity (vt_issuer token) (vt_subject token) d)) (\<lambda>r.
     case r of
       None \<Rightarrow> Inr None
     | Some r \<Rightarrow>
         bind_res (bind_res (row_get r ''identity_id'') (\<lambda>v. sp_uuid v ''identity_id'')) (\<lambda>identity_id.
         bind_res (bind_res (row_get r ''user_id'') (\<lambda>v. sp_uuid v ''user_id'')) (\<lambda>user_id.
         bind_res (row_get r ''identity_status'') (\<lambda>identity_status.
         bind_res (row_get r ''user_status'') (\<lambda>user_status.
         Inr (Some \<lparr>pi_identity_id = identity_id, pi_user_id = user_id,
                    pi_active = (identity_status = PStr ''ACTIVE'' \<and> user_status = PStr ''ACTIVE'')\<rparr>))))))"

definition admit_existing :: "Provision \<Rightarrow> VerifiedAccessToken \<Rightarrow> ProvisioningIdentity \<Rightarrow> int \<Rightarrow> ProvisionedSession act" where
  "admit_existing pv token identity ttl_seconds =
     bind_act (lock_active_identity token (pi_identity_id identity)) (\<lambda>active.
     admit_session pv token active ttl_seconds)"

definition provision_new :: "Provision \<Rightarrow> VerifiedAccessToken \<Rightarrow> ExternalUserProfile \<Rightarrow> int \<Rightarrow> ProvisionedSession act" where
  "provision_new pv token profile ttl_seconds =
     bind_act (find_exact_identity token) (\<lambda>existing.
     case existing of
       Some r \<Rightarrow>
         bind_act (lift_act (require_active r)) (\<lambda>active. admit_session pv token active ttl_seconds)
     | None \<Rightarrow>
         bind_act (create_identity_or_resolve_race pv token profile) (\<lambda>active.
         admit_session pv token active ttl_seconds))"

definition repo_admit_existing_identity ::
  "Provision \<Rightarrow> (db \<Rightarrow> db) list \<Rightarrow> VerifiedAccessToken \<Rightarrow> ProvisioningIdentity \<Rightarrow> int \<Rightarrow> db
     \<Rightarrow> (exn + ProvisionedSession) \<times> db" where
  "repo_admit_existing_identity pv script token identity ttl_seconds =
     transaction script (admit_existing pv token identity ttl_seconds)"

definition repo_provision_new_identity ::
  "Provision \<Rightarrow> (db \<Rightarrow> db) list \<Rightarrow> VerifiedAccessToken \<Rightarrow> ExternalUserProfile \<Rightarrow> int \<Rightarrow> db
     \<Rightarrow> (exn + ProvisionedSession) \<times> db" where
  "repo_provision_new_identity pv script token profile ttl_seconds =
     transaction script (provision_new pv token profile ttl_seconds)"

end
