(* ===== verification/Authentication.thy ===== *)
theory Authentication
  imports SessionProvisioning
begin

section \<open>Authentication: services, principal repository, WorkOS adapters\<close>

text \<open>
  \<open>domains/authentication/service.py\<close> and \<open>provisioning.py\<close>: the two services over a verifier, a
  repository and a profile provider, which are arguments as in their constructors;
  \<open>infrastructure/db/principal_repository.py\<close>; \<open>infrastructure/auth/workos.py\<close> with the functions
  of PyJWT as parameters and \<open>workos_profile.py\<close> with the HTTP response as a parameter.
\<close>

subsection \<open>The principal repository\<close>

definition session_join ::
  "db \<Rightarrow> (identity_row \<Rightarrow> user_row \<Rightarrow> session_row \<Rightarrow> bool) \<Rightarrow> (identity_row \<times> user_row \<times> session_row) list" where
  "session_join d P = filter (\<lambda>(i, u, s). P i u s)
     (concat (map (\<lambda>(i, u). map (\<lambda>s. (i, u, s)) (filter (\<lambda>s. s_identity_id s = i_id i) (auth_sessions d)))
       (identity_join d (\<lambda>_ _. True))))"

definition sql_resolve_active_principal :: "timestamp \<Rightarrow> string \<Rightarrow> string \<Rightarrow> string \<Rightarrow> db \<Rightarrow> row list" where
  "sql_resolve_active_principal now issuer subject provider_session_id d =
     map (\<lambda>(i, u, s). [(''user_id'', PUuid (u_id u)), (''auth_session_id'', PUuid (s_id s)),
                       (''email'', PStr (u_email u)), (''display_name'', opt_val PStr (u_display_name u))])
       (session_join d (\<lambda>i u s. i_issuer i = issuer \<and> i_subject i = subject
          \<and> i_status i = ''ACTIVE'' \<and> u_status u = ''ACTIVE''
          \<and> s_provider_session_id s = provider_session_id \<and> s_revoked_at s = None
          \<and> s_expires_at s > now))"

definition repo_resolve_active_principal ::
  "timestamp \<Rightarrow> VerifiedAccessToken \<Rightarrow> db \<Rightarrow> exn + AuthenticatedPrincipal option" where
  "repo_resolve_active_principal now token d =
     bind_res (one_or_none (sql_resolve_active_principal now (vt_issuer token) (vt_subject token)
       (vt_provider_session_id token) d)) (\<lambda>r.
     case r of
       None \<Rightarrow> Inr None
     | Some r \<Rightarrow>
         bind_res (row_get r ''user_id'') (\<lambda>user_id.
         bind_res (row_get r ''auth_session_id'') (\<lambda>auth_session_id.
         bind_res (row_get r ''email'') (\<lambda>email.
         bind_res (row_get r ''display_name'') (\<lambda>display_name.
         case user_id of PUuid user_id \<Rightarrow>
           (case auth_session_id of PUuid auth_session_id \<Rightarrow>
             (case email of PStr email \<Rightarrow>
               (case display_name of
                  PNone \<Rightarrow> Inr (Some \<lparr>ap_user_id = user_id, ap_auth_session_id = auth_session_id,
                                  ap_email = email, ap_display_name = None\<rparr>)
                | PStr n \<Rightarrow> Inr (Some \<lparr>ap_user_id = user_id, ap_auth_session_id = auth_session_id,
                                  ap_email = email, ap_display_name = Some n\<rparr>)
                | _ \<Rightarrow> Inl (TypeError ''principal query returned an invalid display_name''))
              | _ \<Rightarrow> Inl (TypeError ''principal query returned a non-string email''))
            | _ \<Rightarrow> Inl (TypeError ''principal query returned a non-UUID auth_session_id''))
         | _ \<Rightarrow> Inl (TypeError ''principal query returned a non-UUID user_id''))))))"

subsection \<open>The services\<close>

definition authenticate ::
  "(string \<Rightarrow> exn + VerifiedAccessToken) \<Rightarrow> (VerifiedAccessToken \<Rightarrow> 'd \<Rightarrow> exn + AuthenticatedPrincipal option)
     \<Rightarrow> string \<Rightarrow> 'd \<Rightarrow> exn + AuthenticatedPrincipal" where
  "authenticate verify resolve_active_principal token d =
     (case verify token of
        Inl AccessTokenVerificationError \<Rightarrow> Inl PrincipalAuthenticationError
      | Inl e \<Rightarrow> Inl e
      | Inr verified \<Rightarrow>
          bind_res (resolve_active_principal verified d) (\<lambda>principal.
          case principal of None \<Rightarrow> Inl PrincipalAuthenticationError | Some p \<Rightarrow> Inr p))"

text \<open>The constructor refuses a lifetime that is not positive.\<close>

definition session_ttl :: "int \<Rightarrow> exn + int" where
  "session_ttl absolute_ttl_seconds =
     (if absolute_ttl_seconds \<le> 0 then Inl (ValueError ''absolute_ttl_seconds must be positive'')
      else Inr absolute_ttl_seconds)"

text \<open>
  \<open>find_identity\<close>, \<open>admit_existing_identity\<close> and \<open>provision_new_identity\<close> of the repository and
  \<open>fetch_user\<close> of the profile provider are the first arguments after the verifier.
\<close>

definition provision ::
  "(string \<Rightarrow> exn + VerifiedAccessToken)
     \<Rightarrow> (VerifiedAccessToken \<Rightarrow> 'd \<Rightarrow> exn + ProvisioningIdentity option)
     \<Rightarrow> (VerifiedAccessToken \<Rightarrow> ProvisioningIdentity \<Rightarrow> int \<Rightarrow> 'd \<Rightarrow> (exn + ProvisionedSession) \<times> 'd)
     \<Rightarrow> (VerifiedAccessToken \<Rightarrow> ExternalUserProfile \<Rightarrow> int \<Rightarrow> 'd \<Rightarrow> (exn + ProvisionedSession) \<times> 'd)
     \<Rightarrow> (string \<Rightarrow> exn + ExternalUserProfile) \<Rightarrow> int \<Rightarrow> string \<Rightarrow> 'd \<Rightarrow> (exn + ProvisionedSession) \<times> 'd" where
  "provision verify find_identity admit_existing_identity provision_new_identity fetch_user ttl token d =
     (case verify token of
        Inl AccessTokenVerificationError \<Rightarrow> (Inl SessionProvisioningAuthenticationError, d)
      | Inl e \<Rightarrow> (Inl e, d)
      | Inr verified \<Rightarrow>
     (case find_identity verified d of
        Inl e \<Rightarrow> (Inl e, d)
      | Inr (Some identity) \<Rightarrow>
          if \<not> pi_active identity then (Inl SessionProvisioningAuthenticationError, d)
          else admit_existing_identity verified identity ttl d
      | Inr None \<Rightarrow>
     (case fetch_user (vt_subject verified) of
        Inl ExternalUserProfileNotFoundError \<Rightarrow> (Inl SessionProvisioningAuthenticationError, d)
      | Inl e \<Rightarrow> (Inl e, d)
      | Inr profile \<Rightarrow>
          if ep_subject profile \<noteq> vt_subject verified
          then (Inl (ExternalUserProfileUnavailableError ''provider profile subject mismatch''), d)
          else if \<not> ep_email_verified profile then (Inl EmailVerificationRequiredError, d)
          else provision_new_identity verified profile ttl d)))"

subsection \<open>The WorkOS verifier\<close>

text \<open>
  \<open>Jwt\<close> holds the functions of PyJWT and the JWKS client the verifier calls: the header of a
  token, the key for a \<open>kid\<close>, and \<open>jwt.decode\<close>, which checks signature, issuer, times (with the
  leeway) and the presence of the required claims; each returns or raises.
\<close>

record 'k Jwt =
  get_unverified_header :: "string \<Rightarrow> exn + json_object"
  get_signing_key :: "string \<Rightarrow> exn + 'k"
  jwt_decode :: "string \<Rightarrow> 'k \<Rightarrow> string list \<Rightarrow> string \<Rightarrow> int \<Rightarrow> string list \<Rightarrow> exn + json_object"

record AuthenticationSettings =
  as_issuer :: string
  as_client_id :: string
  as_max_bearer_token_length :: nat
  as_jwt_leeway_seconds :: int

definition WORKOS_SIGNING_ALGORITHMS :: "string list" where
  "WORKOS_SIGNING_ALGORITHMS = [''RS256'']"

definition REQUIRED_CLAIMS :: "string list" where
  "REQUIRED_CLAIMS = [''iss'', ''sub'', ''sid'', ''jti'', ''iat'', ''exp'', ''client_id'']"

definition required_non_empty_string :: "json_object \<Rightarrow> string \<Rightarrow> exn + string" where
  "required_non_empty_string payload claim =
     (case map_of payload claim of
        Some (JStr s) \<Rightarrow> if s = [] then Inl AccessTokenVerificationError else Inr s
      | _ \<Rightarrow> Inl AccessTokenVerificationError)"

definition required_timestamp :: "json_object \<Rightarrow> string \<Rightarrow> exn + int" where
  "required_timestamp payload claim =
     (case map_of payload claim of Some (JInt n) \<Rightarrow> Inr n | _ \<Rightarrow> Inl AccessTokenVerificationError)"

text \<open>
  \<open>datetime.fromtimestamp(n, tz=UTC)\<close>, in microseconds: CPython converts through a 64-bit
  \<open>time_t\<close> (\<open>OverflowError\<close>), then \<open>gmtime\<close>, whose year is a C int (\<open>OSError\<close>), and needs a year from
  1 to 9999 (\<open>ValueError\<close>).
\<close>

definition fromtimestamp :: "int \<Rightarrow> exn + timestamp" where
  "fromtimestamp n =
     (if n < - (2 ^ 63) \<or> 2 ^ 63 \<le> n then Inl (OverflowError ''timestamp out of range for platform time_t'')
      else if n < - 67768040609740800 \<or> 67768036191676799 < n
      then Inl (OSError ''Value too large for defined data type'')
      else if n < - 62135596800 \<or> 253402300799 < n then Inl (ValueError ''year is out of range'')
      else Inr (n * 1000000))"

definition claims_from_payload :: "AuthenticationSettings \<Rightarrow> json_object \<Rightarrow> exn + VerifiedAccessToken" where
  "claims_from_payload settings payload =
     bind_res (required_non_empty_string payload ''client_id'') (\<lambda>client_id.
     if client_id \<noteq> as_client_id settings then Inl AccessTokenVerificationError
     else
       bind_res (required_non_empty_string payload ''iss'') (\<lambda>issuer.
       bind_res (required_non_empty_string payload ''sub'') (\<lambda>subject.
       bind_res (required_non_empty_string payload ''sid'') (\<lambda>provider_session_id.
       bind_res (required_non_empty_string payload ''jti'') (\<lambda>token_id.
       bind_res (required_timestamp payload ''iat'') (\<lambda>issued_at_value.
       bind_res (required_timestamp payload ''exp'') (\<lambda>expires_at_value.
       if expires_at_value \<le> issued_at_value then Inl AccessTokenVerificationError
       else
         bind_res (fromtimestamp issued_at_value) (\<lambda>issued_at.
         bind_res (fromtimestamp expires_at_value) (\<lambda>expires_at.
         Inr \<lparr>vt_issuer = issuer, vt_subject = subject, vt_provider_session_id = provider_session_id,
              vt_token_id = token_id, vt_issued_at = issued_at, vt_expires_at = expires_at\<rparr>)))))))))"

text \<open>The \<open>except\<close> clauses of \<open>_verify_sync\<close>.\<close>

definition verification_failed :: "exn + 'a \<Rightarrow> exn + 'a" where
  "verification_failed r = (case r of
     Inl (PyJWTError _) \<Rightarrow> Inl AccessTokenVerificationError
   | Inl (PyJWKClientError _) \<Rightarrow> Inl AccessTokenVerificationError
   | Inl (ValueError _) \<Rightarrow> Inl AccessTokenVerificationError
   | Inl (OverflowError _) \<Rightarrow> Inl AccessTokenVerificationError
   | _ \<Rightarrow> r)"

definition verify_sync :: "'k Jwt \<Rightarrow> AuthenticationSettings \<Rightarrow> string \<Rightarrow> exn + VerifiedAccessToken" where
  "verify_sync jwt settings token = verification_failed
     (bind_res (get_unverified_header jwt token) (\<lambda>header.
      case map_of header ''alg'' of
        Some (JStr algorithm) \<Rightarrow>
          if algorithm \<notin> set WORKOS_SIGNING_ALGORITHMS then Inl AccessTokenVerificationError
          else (case map_of header ''kid'' of
            Some (JStr kid) \<Rightarrow>
              if kid = [] then Inl AccessTokenVerificationError
              else
                bind_res (get_signing_key jwt kid) (\<lambda>signing_key.
                bind_res (jwt_decode jwt token signing_key WORKOS_SIGNING_ALGORITHMS (as_issuer settings)
                  (as_jwt_leeway_seconds settings) REQUIRED_CLAIMS) (\<lambda>payload.
                claims_from_payload settings payload))
          | _ \<Rightarrow> Inl AccessTokenVerificationError)
      | _ \<Rightarrow> Inl AccessTokenVerificationError))"

definition verify_access_token :: "'k Jwt \<Rightarrow> AuthenticationSettings \<Rightarrow> string \<Rightarrow> exn + VerifiedAccessToken" where
  "verify_access_token jwt settings token =
     (if token = [] \<or> length token > as_max_bearer_token_length settings
      then Inl AccessTokenVerificationError else verify_sync jwt settings token)"

subsection \<open>The WorkOS profile client\<close>

text \<open>
  \<open>get\<close> is \<open>client.get\<close> on the path of the user: it raises \<open>HTTPError\<close> or returns the status code
  and the decoded body, itself \<open>ValueError\<close> when it is not JSON. \<open>quote_path\<close> is \<open>urllib.parse.quote\<close>
  with nothing safe.
\<close>

definition unreserved :: "char \<Rightarrow> bool" where
  "unreserved c \<longleftrightarrow> (let n = (of_char c :: nat) in
     48 \<le> n \<and> n \<le> 57 \<or> 65 \<le> n \<and> n \<le> 90 \<or> 97 \<le> n \<and> n \<le> 122 \<or> n \<in> {95, 46, 45, 126})"

definition upper_hex :: "nat \<Rightarrow> char" where
  "upper_hex n = (if n < 10 then char_of (48 + n) else char_of (55 + n))"

definition percent :: "nat \<Rightarrow> string" where
  "percent b = [CHR ''%'', upper_hex (b div 16), upper_hex (b mod 16)]"

definition quote_char :: "char \<Rightarrow> string" where
  "quote_char c = (let n = (of_char c :: nat) in
     if unreserved c then [c] else if n < 128 then percent n
     else percent (192 + n div 64) @ percent (128 + n mod 64))"

definition quote_path :: "string \<Rightarrow> string" where
  "quote_path s = concat (map quote_char s)"

definition fetch_user ::
  "(string \<Rightarrow> exn + (int \<times> (exn + json))) \<Rightarrow> string \<Rightarrow> exn + ExternalUserProfile" where
  "fetch_user get subject =
     (case get (''/user_management/users/'' @ quote_path subject) of
        Inl (HTTPError _) \<Rightarrow> Inl (ExternalUserProfileUnavailableError ''provider profile request failed'')
      | Inl e \<Rightarrow> Inl e
      | Inr (status_code, body) \<Rightarrow>
     if status_code = 404 then Inl ExternalUserProfileNotFoundError
     else if status_code \<noteq> 200 then Inl (ExternalUserProfileUnavailableError ''provider profile request failed'')
     else (case body of
        Inl (ValueError _) \<Rightarrow> Inl (ExternalUserProfileUnavailableError ''provider profile response was not valid JSON'')
      | Inl e \<Rightarrow> Inl e
      | Inr (JObj payload) \<Rightarrow>
          if map_of payload ''id'' \<noteq> Some (JStr subject)
          then Inl (ExternalUserProfileUnavailableError ''provider profile subject mismatch'')
          else (case map_of payload ''email'' of
            Some (JStr email) \<Rightarrow>
              if strip email = [] then Inl (ExternalUserProfileUnavailableError ''provider profile email was invalid'')
              else (case map_of payload ''email_verified'' of
                Some (JBool email_verified) \<Rightarrow>
                  (case map_of payload ''name'' of
                     Some (JStr n) \<Rightarrow> Inr \<lparr>ep_subject = subject, ep_email = strip email,
                       ep_email_verified = email_verified,
                       ep_display_name = (if strip n = [] then None else Some (strip n))\<rparr>
                   | None \<Rightarrow> Inr \<lparr>ep_subject = subject, ep_email = strip email,
                       ep_email_verified = email_verified, ep_display_name = None\<rparr>
                   | Some JNull \<Rightarrow> Inr \<lparr>ep_subject = subject, ep_email = strip email,
                       ep_email_verified = email_verified, ep_display_name = None\<rparr>
                   | _ \<Rightarrow> Inl (ExternalUserProfileUnavailableError ''provider profile display name was invalid''))
              | _ \<Rightarrow> Inl (ExternalUserProfileUnavailableError ''provider profile email verification state was invalid''))
          | _ \<Rightarrow> Inl (ExternalUserProfileUnavailableError ''provider profile email was invalid''))
      | _ \<Rightarrow> Inl (ExternalUserProfileUnavailableError ''provider profile response had invalid shape'')))"

end
