(* ===== verification/SessionFacts.thy ===== *)
theory SessionFacts
  imports Authentication
begin

section \<open>Session provisioning under interference\<close>

text \<open>
  What the acts of the repository do whatever other sessions commit between their statements:
  \<open>outcome\<close> computes the weakest precondition of an act from its text, and the lemmas follow
  the code: the exact identity, the first sign-in with its two races, the admission.
\<close>

named_theorems outcome_simps \<open>the outcome of an act, statement by statement\<close>

definition outcome :: "'a act \<Rightarrow> txn \<Rightarrow> ('a \<Rightarrow> txn \<Rightarrow> bool) \<Rightarrow> (exn \<Rightarrow> txn \<Rightarrow> bool) \<Rightarrow> bool" where
  "outcome m t Q E = (case m t of (Inl e, t') \<Rightarrow> E e t' | (Inr a, t') \<Rightarrow> Q a t')"

lemma outcome_basic [outcome_simps]:
  "outcome (ret_act a) t Q E = Q a t"
  "outcome (raise_act e) t Q E = E e t"
  "outcome (lift_act r) t Q E = (case r of Inl e \<Rightarrow> E e t | Inr a \<Rightarrow> Q a t)"
  "outcome (select_stmt q) t Q E = Q (q (tx_view (interfere t))) (interfere t)"
  "outcome (insert_stmt f) t Q E = (case f (tx_view (interfere t)) of
     Inl e \<Rightarrow> E e (interfere t)
   | Inr (a, w) \<Rightarrow> Q a ((interfere t)\<lparr>tx_pending := add_writes (tx_pending t) w\<rparr>))"
  by (simp_all add: outcome_def ret_act_def raise_act_def lift_act_def select_stmt_def insert_stmt_def
      Let_def split: sum.split prod.split)

lemma outcome_bind [outcome_simps]:
  "outcome (bind_act m f) t Q E = outcome m t (\<lambda>a t'. outcome (f a) t' Q E) E"
  by (simp add: outcome_def bind_act_def split: sum.split prod.split)

lemma outcome_nested [outcome_simps]:
  "outcome (nested m) t Q E = outcome m t Q (\<lambda>e t'. E e (t'\<lparr>tx_pending := tx_pending t\<rparr>))"
  by (simp add: outcome_def nested_def split: sum.split prod.split)

lemma outcome_catch [outcome_simps]:
  "outcome (catch_act x m h) t Q E = outcome m t Q (\<lambda>e t'. if e = x then outcome h t' Q E else E e t')"
  by (simp add: outcome_def catch_act_def split: sum.split prod.split)

lemma outcome_mono:
  "outcome m t Q E \<Longrightarrow> (\<And>a t'. Q a t' \<Longrightarrow> Q' a t') \<Longrightarrow> (\<And>e t'. E e t' \<Longrightarrow> E' e t') \<Longrightarrow> outcome m t Q' E'"
  by (auto simp: outcome_def split: sum.splits prod.splits)

subsection \<open>The exact identity\<close>

definition user_of :: "db \<Rightarrow> identity_row \<Rightarrow> user_row" where
  "user_of d i = hd (filter (\<lambda>u. u_id u = i_user_id i) (users d))"

definition identity_at :: "db \<Rightarrow> string \<Rightarrow> string \<Rightarrow> identity_row option" where
  "identity_at d iss sub = find (\<lambda>i. True \<and> (i_issuer i, i_subject i) = (iss, sub)) (identities d)"

lemma user_of_row:
  assumes "schema_ok d" "i \<in> set (identities d)"
  shows "filter (\<lambda>u. u_id u = i_user_id i) (users d) = [user_of d i]"
    and "user_of d i \<in> set (users d)" "u_id (user_of d i) = i_user_id i"
proof -
  have "i_user_id i \<in> u_id ` set (users d)" "distinct (map u_id (users d))"
    using assms by (auto simp: schema_ok_def identities_ok_def users_ok_def)
  then obtain u where u: "u \<in> set (users d)" "u_id u = i_user_id i"
    and f: "filter (\<lambda>u'. u_id u' = u_id u) (users d) = [u]"
    using filter_key_singleton[of u_id "users d"] by force
  then show "filter (\<lambda>u. u_id u = i_user_id i) (users d) = [user_of d i]"
    by (simp add: user_of_def)
  show "user_of d i \<in> set (users d)" "u_id (user_of d i) = i_user_id i"
    using u f by (simp_all add: user_of_def)
qed

lemma identity_join_eq:
  assumes "schema_ok d"
  shows "identity_join d P = map (\<lambda>i. (i, user_of d i)) (filter (\<lambda>i. P i (user_of d i)) (identities d))"
proof -
  have "concat (map (\<lambda>i. map (\<lambda>u. (i, u)) (filter (\<lambda>u. u_id u = i_user_id i) (users d))) is) =
      map (\<lambda>i. (i, user_of d i)) is" if "set is \<subseteq> set (identities d)" for "is"
    using that by (induction "is") (auto simp: user_of_row[OF assms])
  from this[OF order_refl] show ?thesis by (simp add: identity_join_def filter_map comp_def)
qed

lemma identity_filter:
  assumes "schema_ok d"
  shows "filter (\<lambda>i. i_issuer i = iss \<and> i_subject i = sub) (identities d) =
    (case identity_at d iss sub of None \<Rightarrow> [] | Some i \<Rightarrow> [i])"
proof -
  have "distinct (map (\<lambda>i. (i_issuer i, i_subject i)) (identities d))"
    using assms by (simp add: schema_ok_def identities_ok_def)
  from filter_key_cases[OF this, of "(iss, sub)"] show ?thesis
    by (auto simp: identity_at_def find_filter)
qed

lemma identity_at_Some:
  "identity_at d iss sub = Some i \<Longrightarrow> i \<in> set (identities d) \<and> i_issuer i = iss \<and> i_subject i = sub"
  by (auto simp: identity_at_def find_Some_iff)

lemma identity_at_None:
  "identity_at d iss sub = None \<longleftrightarrow> (iss, sub) \<notin> set (map (\<lambda>i. (i_issuer i, i_subject i)) (identities d))"
  by (auto simp: identity_at_def find_None_iff)

definition exact_row :: "db \<Rightarrow> identity_row \<Rightarrow> row" where
  "exact_row d i = [(''identity_id'', PUuid (i_id i)), (''user_id'', PUuid (u_id (user_of d i))),
     (''identity_status'', PStr (i_status i)), (''user_status'', PStr (u_status (user_of d i))),
     (''email'', PStr (u_email (user_of d i))), (''display_name'', opt_val PStr (u_display_name (user_of d i)))]"

definition active_of :: "db \<Rightarrow> identity_row \<Rightarrow> ActiveIdentity" where
  "active_of d i = \<lparr>ai_identity_id = i_id i, ai_user_id = u_id (user_of d i), ai_email = u_email (user_of d i),
     ai_display_name = u_display_name (user_of d i)\<rparr>"

definition is_active :: "db \<Rightarrow> identity_row \<Rightarrow> bool" where
  "is_active d i \<longleftrightarrow> i_status i = ''ACTIVE'' \<and> u_status (user_of d i) = ''ACTIVE''"

lemma exact_identity_one:
  assumes "schema_ok d"
  shows "one_or_none (sql_find_exact_identity iss sub d) = Inr (map_option (exact_row d) (identity_at d iss sub))"
  by (auto simp: sql_find_exact_identity_def identity_join_eq[OF assms] identity_filter[OF assms]
      exact_row_def split: option.split)

lemma require_active_exact:
  "require_active (exact_row d i) = (if is_active d i then Inr (active_of d i)
     else Inl SessionProvisioningAuthenticationError)"
  by (simp add: require_active_def exact_row_def row_get_def active_identity_from_row_def active_of_def is_active_def)

lemma outcome_find_exact:
  assumes "tx_ok t"
  shows "outcome (find_exact_identity token) t Q E =
    Q (map_option (exact_row (tx_view (interfere t)))
        (identity_at (tx_view (interfere t)) (vt_issuer token) (vt_subject token))) (interfere t)"
  using interfere_ok[OF assms]
  by (simp add: find_exact_identity_def outcome_simps exact_identity_one tx_ok_def)

definition has_identity :: "db \<Rightarrow> VerifiedAccessToken \<Rightarrow> ActiveIdentity \<Rightarrow> bool" where
  "has_identity d token a \<longleftrightarrow>
     (ai_identity_id a, ai_user_id a, vt_issuer token, vt_subject token) \<in> set (identity_keys d)"

lemma has_identity_active_of:
  assumes "schema_ok d" "identity_at d (vt_issuer token) (vt_subject token) = Some i"
  shows "has_identity d token (active_of d i)"
  using identity_at_Some[OF assms(2)] user_of_row(3)[OF assms(1)]
  by (force simp: has_identity_def active_of_def identity_keys_def)

lemma has_identity_grows: "has_identity d token a \<Longrightarrow> grows d d' \<Longrightarrow> has_identity d' token a"
  by (auto simp: has_identity_def grows_def)

lemma identity_at_grows:
  assumes "identity_at d iss sub \<noteq> None" "grows d d'"
  shows "identity_at d' iss sub \<noteq> None"
proof -
  obtain i where "i \<in> set (identities d)" "i_issuer i = iss" "i_subject i = sub"
    using assms(1) identity_at_Some by force
  then have "(i_id i, i_user_id i, iss, sub) \<in> set (identity_keys d')"
    using assms(2) by (auto simp: grows_def identity_keys_def)
  then have "(iss, sub) \<in> set (map (\<lambda>i. (i_issuer i, i_subject i)) (identities d'))"
    by (auto simp: identity_keys_def)
  then show ?thesis by (simp only: identity_at_None not_not)
qed

subsection \<open>Inserts\<close>

lemma insert_user_eq:
  "sql_insert_user i e n nm d = Inr (a, w) \<Longrightarrow>
    a = [] \<and> w = no_writes \<or>
    a = [i] \<and> w = no_writes\<lparr>w_users := [\<lparr>u_id = i, u_email = e, u_email_normalized = n,
      u_display_name = nm, u_status = ''ACTIVE''\<rparr>]\<rparr> \<and> i \<notin> set (map u_id (users d))"
  by (auto simp: sql_insert_user_def Let_def bind_res_eq_Inr insert_users_def split: if_splits)

lemma insert_as_writes:
  "insert_users ur d = Inr ((), d') \<Longrightarrow> d' = with_writes d (no_writes\<lparr>w_users := [ur]\<rparr>)"
  "insert_identities ir d = Inr ((), d') \<Longrightarrow> d' = with_writes d (no_writes\<lparr>w_identities := [ir]\<rparr>)"
  "insert_auth_sessions sr d = Inr ((), d') \<Longrightarrow> d' = with_writes d (no_writes\<lparr>w_sessions := [sr]\<rparr>)"
  "insert_audit_events er d = Inr ((), d') \<Longrightarrow> d' = with_writes d (no_writes\<lparr>w_audit := [er]\<rparr>)"
  by (auto simp: insert_users_def insert_identities_def insert_auth_sessions_def insert_audit_events_def
      with_writes_def no_writes_def split: if_splits)

lemma insert_writes_schema:
  assumes "schema_ok d"
  shows "insert_users ur d = Inr x \<Longrightarrow> schema_ok (with_writes d (no_writes\<lparr>w_users := [ur]\<rparr>))"
    "insert_identities ir d = Inr x \<Longrightarrow> schema_ok (with_writes d (no_writes\<lparr>w_identities := [ir]\<rparr>))"
    "insert_auth_sessions sr d = Inr x \<Longrightarrow> schema_ok (with_writes d (no_writes\<lparr>w_sessions := [sr]\<rparr>))"
    "insert_audit_events er d = Inr x \<Longrightarrow> schema_ok (with_writes d (no_writes\<lparr>w_audit := [er]\<rparr>))"
  using preservesD[OF insert_preserves(1) assms, of ur] preservesD[OF insert_preserves(2) assms, of ir]
    preservesD[OF insert_preserves(3) assms, of sr] preservesD[OF insert_preserves(10) assms, of er]
    insert_as_writes[of _ d] by (cases x; fastforce)+

lemma insert_stmts_schema:
  assumes "schema_ok d"
  shows "sql_insert_user i e n nm d = Inr (a, w) \<Longrightarrow> schema_ok (with_writes d w)"
    "sql_insert_identity i u iss sub d = Inr (a, w) \<Longrightarrow> schema_ok (with_writes d w)"
    "sql_insert_session now s i p ttl d = Inr (c, w) \<Longrightarrow> schema_ok (with_writes d w)"
    "sql_insert_session_audit x d = Inr (y, w) \<Longrightarrow> schema_ok (with_writes d w)"
  using assms insert_writes_schema[OF assms]
  by (auto simp: sql_insert_user_def sql_insert_identity_def sql_insert_session_def
      sql_insert_session_audit_def Let_def bind_res_eq_Inr split: if_splits)

subsection \<open>Admission\<close>

lemma add_no_writes [simp]: "add_writes p no_writes = p"
  by (cases p) (simp add: add_writes_def no_writes_def)

lemma pending_same: "tx_pending t = p \<Longrightarrow> t\<lparr>tx_pending := p\<rparr> = t"
  by (cases t) simp

lemma session_key_grows:
  assumes "k \<in> set (map (\<lambda>s. (s_identity_id s, s_provider_session_id s)) (auth_sessions d))" "grows d d'"
  shows "k \<in> set (map (\<lambda>s. (s_identity_id s, s_provider_session_id s)) (auth_sessions d'))"
proof -
  have "map (\<lambda>s. (s_identity_id s, s_provider_session_id s)) (auth_sessions e) = map snd (session_keys e)" for e
    by (simp add: session_keys_def)
  then show ?thesis using assms by (auto simp: grows_def simp del: map_map)
qed

lemma sql_insert_session_cases:
  assumes "sql_insert_session now sid iid psid ttl d = Inr (rows, w)"
  obtains (conflict) "rows = []" "w = no_writes"
      "(iid, psid) \<in> set (map (\<lambda>s. (s_identity_id s, s_provider_session_id s)) (auth_sessions d))"
  | (inserted) r where "r = \<lparr>s_id = sid, s_identity_id = iid, s_provider_session_id = psid,
        s_expires_at = now + ttl * 1000000, s_revoked_at = None, s_created_at = now\<rparr>"
      "rows = [[(''id'', PUuid sid), (''expires_at'', PDatetime (now + ttl * 1000000))]]"
      "w = no_writes\<lparr>w_sessions := [r]\<rparr>" "now < now + ttl * 1000000" "sid \<notin> set (map s_id (auth_sessions d))"
proof (cases "rows = []")
  case True
  then show thesis using assms conflict
    by (auto simp: sql_insert_session_def Let_def bind_res_eq_Inr split: if_splits)
next
  case False
  then show thesis using assms inserted
    by (auto simp: sql_insert_session_def Let_def bind_res_eq_Inr insert_auth_sessions_def split: if_splits)
qed

definition found_row :: "timestamp \<Rightarrow> session_row \<Rightarrow> row" where
  "found_row now s = [(''id'', PUuid (s_id s)), (''expires_at'', PDatetime (s_expires_at s)),
     (''revoked_at'', opt_val PDatetime (s_revoked_at s)), (''unexpired'', PBool (s_expires_at s > now))]"

lemma find_session_one:
  assumes "schema_ok d" "(iid, psid) \<in> set (map (\<lambda>s. (s_identity_id s, s_provider_session_id s)) (auth_sessions d))"
  obtains x where "x \<in> set (auth_sessions d)" "s_identity_id x = iid" "s_provider_session_id x = psid"
    "sql_find_session now iid psid d = [found_row now x]"
proof -
  have "distinct (map (\<lambda>s. (s_identity_id s, s_provider_session_id s)) (auth_sessions d))"
    using assms(1) by (simp add: schema_ok_def sessions_ok_def)
  from filter_key_cases[OF this, of "(iid, psid)"] assms(2) that show thesis
    by (auto simp: sql_find_session_def found_row_def filter_empty_conv)
qed

lemma reuse_session_found:
  "reuse_session a (found_row now x) =
    (if s_revoked_at x \<noteq> None \<or> \<not> now < s_expires_at x then Inl SessionProvisioningAuthenticationError
     else Inr \<lparr>ps_principal = principal_of a (s_id x), ps_expires_at = s_expires_at x, ps_created = False\<rparr>)"
  by (auto simp: reuse_session_def found_row_def row_get_def opt_val_def split: option.split)

definition admitted :: "db \<Rightarrow> timestamp \<Rightarrow> VerifiedAccessToken \<Rightarrow> ActiveIdentity \<Rightarrow> ProvisionedSession \<Rightarrow> bool" where
  "admitted d now token a s \<longleftrightarrow>
     ps_principal s = principal_of a (ap_auth_session_id (ps_principal s))
     \<and> (\<exists>x \<in> set (auth_sessions d). s_id x = ap_auth_session_id (ps_principal s)
          \<and> s_identity_id x = ai_identity_id a \<and> s_provider_session_id x = vt_provider_session_id token
          \<and> s_revoked_at x = None \<and> s_expires_at x = ps_expires_at s \<and> now < s_expires_at x)"

definition audited_session :: "db \<Rightarrow> ProvisionedSession \<Rightarrow> bool" where
  "audited_session d s \<longleftrightarrow> (\<exists>e \<in> set (audit_events d). au_action e = ''AUTH_SESSION_CREATED''
     \<and> au_resource_id e = Some (ap_auth_session_id (ps_principal s))
     \<and> au_actor_user_id e = Some (ap_user_id (ps_principal s)))"

lemma admit_session_keeps: "keeps_ok (admit_session pv token a ttl)"
  unfolding admit_session_def
  by (intro preserves_rules keeps_insert) (auto intro: insert_stmts_schema)

definition unavailable :: "exn \<Rightarrow> bool" where
  "unavailable e \<longleftrightarrow> e = SessionProvisioningAuthenticationError \<or> (\<exists>m. e = IntegrityError m)"

lemma insert_session_raises:
  "sql_insert_session now sid iid psid ttl d = Inl e \<Longrightarrow> unavailable e"
  "sql_insert_session_audit x d = Inl e \<Longrightarrow> unavailable e"
  by (auto simp: sql_insert_session_def sql_insert_session_audit_def Let_def bind_res_eq_Inl
      insert_auth_sessions_def insert_audit_events_def unavailable_def split: if_splits)

lemma insert_audit_writes:
  "sql_insert_session_audit x d = Inr (y, w) \<Longrightarrow> w = no_writes\<lparr>w_audit := [x]\<rparr>"
  by (auto simp: sql_insert_session_audit_def bind_res_eq_Inr)

lemma admit_session_outcome:
  assumes "tx_ok t"
  shows "outcome (admit_session pv token a ttl) t
    (\<lambda>s t'. admitted (tx_view t') (pv_now pv) token a s \<and> (ps_created s \<longrightarrow> audited_session (tx_view t') s)
      \<and> w_users (tx_pending t') = w_users (tx_pending t)
      \<and> w_identities (tx_pending t') = w_identities (tx_pending t))
    (\<lambda>e _. unavailable e)"
proof -
  define t1 where "t1 = interfere t"
  let ?iid = "ai_identity_id a" and ?psid = "vt_provider_session_id token"
  have ok1: "tx_ok t1" and p1: "tx_pending t1 = tx_pending t" using interfere_ok[OF assms] by (simp_all add: t1_def)
  note unfold = admit_session_def outcome_simps t1_def[symmetric] sum.case prod.case option.case
    one_or_none.simps one.simps
  show ?thesis
  proof (cases "sql_insert_session (pv_now pv) (pv_session_id pv) ?iid ?psid ttl (tx_view t1)")
    case (Inl e)
    show ?thesis unfolding unfold Inl by (rule insert_session_raises(1)[OF Inl])
  next
    case (Inr rw)
    then obtain rows w where rw: "sql_insert_session (pv_now pv) (pv_session_id pv) ?iid ?psid ttl (tx_view t1) = Inr (rows, w)"
      by (cases rw) auto
    then show ?thesis
    proof (cases rule: sql_insert_session_cases)
      case conflict
      define t2 where "t2 = interfere t1"
      have ok2: "tx_ok t2" "tx_pending t2 = tx_pending t" using interfere_ok[OF ok1] p1 by (simp_all add: t2_def)
      have "grows (tx_view t1) (tx_view t2)" unfolding t2_def by (rule interfere_view)
      from session_key_grows[OF conflict(3) this]
      have "(?iid, ?psid) \<in> set (map (\<lambda>s. (s_identity_id s, s_provider_session_id s)) (auth_sessions (tx_view t2)))" .
      moreover have "schema_ok (tx_view t2)" using ok2 by (simp add: tx_ok_def)
      ultimately obtain x where x: "x \<in> set (auth_sessions (tx_view t2))" "s_identity_id x = ?iid"
        "s_provider_session_id x = ?psid"
        "sql_find_session (pv_now pv) ?iid ?psid (tx_view t2) = [found_row (pv_now pv) x]"
        using find_session_one[of "tx_view t2" ?iid ?psid] by metis
      have same: "t1\<lparr>tx_pending := tx_pending t\<rparr> = t1" by (rule pending_same[OF p1])
      show ?thesis
        unfolding unfold rw conflict(1,2) add_no_writes same t2_def[symmetric] x(4) reuse_session_found
        using x(1-3) by (auto simp: unavailable_def admitted_def principal_of_def ok2(2) simp del: with_writes_tables)
    next
      case (inserted r)
      define t3 where "t3 = interfere (t1\<lparr>tx_pending := add_writes (tx_pending t) w\<rparr>)"
      have p3: "tx_pending t3 = add_writes (tx_pending t) w" by (simp add: t3_def)
      define e where "e = session_audit_row (pv_now pv) (pv_audit_id pv) (ai_user_id a) (pv_session_id pv) (uuid_str (pv_session_id pv))"
      have exp: "bind_res (row_get [(''id'', PUuid (pv_session_id pv)), (''expires_at'', PDatetime (pv_now pv + ttl * 1000000))] ''expires_at'')
          (\<lambda>v. sp_datetime v ''expires_at'') = Inr (pv_now pv + ttl * 1000000)"
        by (simp add: row_get_def)
      show ?thesis
      proof (cases "sql_insert_session_audit e (tx_view t3)")
        case (Inl x)
        show ?thesis unfolding unfold rw inserted(2) exp e_def[symmetric] t3_def[symmetric] Inl
          by (rule insert_session_raises(2)[OF Inl])
      next
        case (Inr yw)
        then obtain y where yw: "sql_insert_session_audit e (tx_view t3) = Inr (y, no_writes\<lparr>w_audit := [e]\<rparr>)"
          using insert_audit_writes by (cases yw) auto
        show ?thesis
          unfolding unfold rw inserted(2) exp e_def[symmetric] t3_def[symmetric] yw
          using inserted(1,4) unfolding inserted(3)
          by (auto simp: admitted_def principal_of_def audited_session_def e_def session_audit_row_def p3 inserted(3))
      qed
    qed
  qed
qed

subsection \<open>The first sign-in and its races\<close>

definition refusal :: "exn \<Rightarrow> bool" where
  "refusal e \<longleftrightarrow> unavailable e \<or> e = AccountLinkRequiredError \<or> e = ValueError ''provider email must be non-empty''"

definition no_orphan :: "writes \<Rightarrow> bool" where
  "no_orphan p \<longleftrightarrow> (\<forall>u \<in> set (w_users p). \<exists>i \<in> set (w_identities p). i_user_id i = u_id u)"

lemma no_orphan_none [simp]: "no_orphan no_writes"
  by (simp add: no_orphan_def)

lemma sql_insert_user_cases:
  assumes "sql_insert_user i e n nm d = Inr (rows, w)"
  obtains (conflict) "rows = []" "w = no_writes"
  | (inserted) r where "rows = [i]" "w = no_writes\<lparr>w_users := [r]\<rparr>" "u_id r = i" "insert_users r d = Inr ((), with_writes d w)"
proof (cases "rows = []")
  case True
  then show thesis using assms conflict by (auto simp: sql_insert_user_def Let_def bind_res_eq_Inr split: if_splits)
next
  case False
  define r where "r = \<lparr>u_id = i, u_email = e, u_email_normalized = n, u_display_name = nm, u_status = ''ACTIVE''\<rparr>"
  have q: "rows = [i]" "w = no_writes\<lparr>w_users := [r]\<rparr>" "\<exists>x. insert_users r d = Inr x"
    using assms False by (auto simp: sql_insert_user_def Let_def bind_res_eq_Inr r_def split: if_splits)
  then have "insert_users r d = Inr ((), with_writes d w)" using insert_as_writes(1) by fastforce
  then show thesis using inserted[of r] q by (simp add: r_def)
qed

lemma sql_insert_identity_cases:
  assumes "sql_insert_identity i u iss sub d = Inr (rows, w)"
  obtains (conflict) "rows = []" "w = no_writes" "identity_at d iss sub \<noteq> None"
  | (inserted) r where "rows = [i]" "w = no_writes\<lparr>w_identities := [r]\<rparr>"
      "i_id r = i" "i_user_id r = u" "i_issuer r = iss" "i_subject r = sub"
proof (cases "rows = []")
  case True
  then show thesis using assms conflict
    by (auto simp: sql_insert_identity_def Let_def bind_res_eq_Inr identity_at_None split: if_splits)
next
  case False
  then show thesis using assms
      inserted[of "\<lparr>i_id = i, i_user_id = u, i_issuer = iss, i_subject = sub, i_status = ''ACTIVE''\<rparr>"]
    by (auto simp: sql_insert_identity_def Let_def bind_res_eq_Inr split: if_splits)
qed

lemma insert_rows_raise:
  "sql_insert_user i e n nm d = Inl x \<Longrightarrow> refusal x \<and> x \<noteq> IdentityRace"
  "sql_insert_identity i u iss sub d = Inl x \<Longrightarrow> refusal x \<and> x \<noteq> IdentityRace"
  by (auto simp: sql_insert_user_def sql_insert_identity_def Let_def bind_res_eq_Inl insert_users_def
      insert_identities_def refusal_def unavailable_def split: if_splits)

lemma refusal_spae [simp]: "refusal SessionProvisioningAuthenticationError" "refusal AccountLinkRequiredError"
  "unavailable e \<Longrightarrow> refusal e"
  by (simp_all add: refusal_def unavailable_def)

lemma resolve_race_outcome:
  assumes "tx_ok t" "tx_pending t = no_writes" "identity_at (tx_shared t) (vt_issuer token) (vt_subject token) \<noteq> None"
  shows "outcome (resolve_race token) t
    (\<lambda>a t'. tx_ok t' \<and> has_identity (tx_view t') token a \<and> tx_pending t' = no_writes) (\<lambda>e _. refusal e)"
proof -
  have ok: "tx_ok (interfere t)" by (rule interfere_ok[OF assms(1)])
  have "identity_at (tx_view (interfere t)) (vt_issuer token) (vt_subject token) \<noteq> None"
    using identity_at_grows[OF assms(3) interfere_grows] assms(2) by simp
  then obtain i where i: "identity_at (tx_view (interfere t)) (vt_issuer token) (vt_subject token) = Some i" by blast
  have "has_identity (tx_view (interfere t)) token (active_of (tx_view (interfere t)) i)"
    using ok i by (intro has_identity_active_of) (simp_all add: tx_ok_def)
  then show ?thesis using ok i assms(2)
    by (simp add: resolve_race_def outcome_bind outcome_basic outcome_find_exact[OF assms(1)] require_active_exact)
qed

lemma create_identity_outcome:
  assumes "tx_ok t" "tx_pending t = no_writes"
  shows "outcome (create_identity pv token e n nm) t
    (\<lambda>a t'. tx_ok t' \<and> has_identity (tx_view t') token a \<and> no_orphan (tx_pending t'))
    (\<lambda>x t'. if x = IdentityRace
            then schema_ok (tx_shared t') \<and> identity_at (tx_shared t') (vt_issuer token) (vt_subject token) \<noteq> None
            else refusal x)"
proof -
  define t1 where "t1 = interfere t"
  have ok1: "tx_ok t1" and p1: "tx_pending t1 = no_writes" using interfere_ok[OF assms(1)] assms(2) by (simp_all add: t1_def)
  have same: "t1\<lparr>tx_pending := tx_pending t\<rparr> = t1" by (rule pending_same) (simp add: p1 assms(2))
  note unfold = create_identity_def outcome_bind outcome_basic t1_def[symmetric] sum.case prod.case option.case
    one_or_none.simps
  show ?thesis
  proof (cases "sql_insert_user (pv_user_id pv) e n nm (tx_view t1)")
    case (Inl x)
    show ?thesis unfolding unfold Inl using insert_rows_raise(1)[OF Inl] by simp
  next
    case (Inr rw)
    then obtain rows w where rw: "sql_insert_user (pv_user_id pv) e n nm (tx_view t1) = Inr (rows, w)" by (cases rw) auto
    then show ?thesis
    proof (cases rule: sql_insert_user_cases)
      case conflict
      define d2 where "d2 = tx_view (interfere t1)"
      have ok2: "tx_ok (interfere t1)" "schema_ok d2" using interfere_ok[OF ok1] by (simp_all add: tx_ok_def d2_def)
      show ?thesis
      proof (cases "identity_at d2 (vt_issuer token) (vt_subject token)")
        case None
        then show ?thesis
          unfolding unfold rw conflict add_no_writes same outcome_find_exact[OF ok1] d2_def[symmetric]
          by (simp add: outcome_basic)
      next
        case (Some i)
        have "has_identity d2 token (active_of d2 i)" by (rule has_identity_active_of[OF ok2(2) Some])
        then show ?thesis
          unfolding unfold rw conflict add_no_writes same outcome_find_exact[OF ok1] d2_def[symmetric] Some
          using ok2 p1 by (simp add: outcome_basic require_active_exact d2_def)
      qed
    next
      case (inserted r)
      define t2 where "t2 = interfere (t1\<lparr>tx_pending := add_writes (tx_pending t) w\<rparr>)"
      have "tx_ok (t1\<lparr>tx_pending := add_writes (tx_pending t) w\<rparr>)"
        using ok1 insert_stmts_schema(1)[OF _ rw] p1 assms(2) by (simp add: tx_ok_def with_add_writes)
      then have ok2: "tx_ok t2" unfolding t2_def by (rule interfere_ok)
      have p2: "tx_pending t2 = no_writes\<lparr>w_users := [r]\<rparr>"
        using inserted(2) assms(2) by (simp add: t2_def add_writes_def no_writes_def)
      show ?thesis
      proof (cases "sql_insert_identity (pv_identity_id pv) (pv_user_id pv) (vt_issuer token) (vt_subject token) (tx_view t2)")
        case (Inl x)
        show ?thesis unfolding unfold rw inserted(1) t2_def[symmetric] Inl
          using insert_rows_raise(2)[OF Inl] by simp
      next
        case (Inr qv)
        then obtain rows' v where qv: "sql_insert_identity (pv_identity_id pv) (pv_user_id pv) (vt_issuer token)
            (vt_subject token) (tx_view t2) = Inr (rows', v)" by (cases qv) auto
        then show ?thesis
        proof (cases rule: sql_insert_identity_cases)
          case conflict
          have "identity_at (tx_shared t2) (vt_issuer token) (vt_subject token) \<noteq> None"
            using conflict(3) by (simp add: identity_at_def p2)
          then show ?thesis
            unfolding unfold rw inserted(1) t2_def[symmetric] qv conflict(1) using ok2 by (simp add: tx_ok_def)
        next
          case (inserted s)
          have ok3: "tx_ok (t2\<lparr>tx_pending := add_writes (tx_pending t2) v\<rparr>)"
            using ok2 insert_stmts_schema(2)[OF _ qv] by (simp add: tx_ok_def with_add_writes)
          have "tx_pending (t1\<lparr>tx_pending := add_writes (tx_pending t) w\<rparr>) = tx_pending t2" by (simp add: t2_def)
          note p = this
          show ?thesis
            unfolding unfold rw \<open>rows = [pv_user_id pv]\<close> t2_def[symmetric] qv inserted(1) p
            using ok3 inserted \<open>u_id r = pv_user_id pv\<close>
            by (auto simp: has_identity_def identity_keys_def no_orphan_def p2)
        qed
      qed
    qed
  qed
qed

lemma create_or_resolve_outcome:
  assumes "tx_ok t" "tx_pending t = no_writes"
  shows "outcome (create_identity_or_resolve_race pv token profile) t
    (\<lambda>a t'. tx_ok t' \<and> has_identity (tx_view t') token a \<and> no_orphan (tx_pending t')) (\<lambda>e _. refusal e)"
proof (cases "strip (ep_email profile) = [] \<or> casefold (strip (ep_email profile)) = []")
  case True
  then show ?thesis by (simp add: create_identity_or_resolve_race_def Let_def outcome_basic refusal_def)
next
  case False
  let ?m = "create_identity pv token (strip (ep_email profile)) (casefold (strip (ep_email profile))) (ep_display_name profile)"
  have "outcome (catch_act IdentityRace (nested ?m) (resolve_race token)) t
    (\<lambda>a t'. tx_ok t' \<and> has_identity (tx_view t') token a \<and> no_orphan (tx_pending t')) (\<lambda>e _. refusal e)"
    unfolding outcome_catch outcome_nested
  proof (rule outcome_mono[OF create_identity_outcome[OF assms]], assumption)
    fix e and t' :: txn
    let ?t = "t'\<lparr>tx_pending := tx_pending t\<rparr>"
    assume h: "if e = IdentityRace then schema_ok (tx_shared t')
        \<and> identity_at (tx_shared t') (vt_issuer token) (vt_subject token) \<noteq> None else refusal e"
    show "if e = IdentityRace
      then outcome (resolve_race token) ?t (\<lambda>a t'. tx_ok t' \<and> has_identity (tx_view t') token a \<and> no_orphan (tx_pending t'))
        (\<lambda>e _. refusal e)
      else refusal e"
    proof (cases "e = IdentityRace")
      case True
      have "outcome (resolve_race token) ?t
        (\<lambda>a t'. tx_ok t' \<and> has_identity (tx_view t') token a \<and> tx_pending t' = no_writes) (\<lambda>e _. refusal e)"
        by (rule resolve_race_outcome) (use h True assms(2) in \<open>simp_all add: tx_ok_def\<close>)
      then show ?thesis using True by (auto elim!: outcome_mono)
    qed (use h in simp)
  qed
  then show ?thesis using False by (simp add: create_identity_or_resolve_race_def Let_def)
qed

subsection \<open>The operations as a whole\<close>

lemma outcome_keeps:
  assumes "keeps_ok m" "tx_ok t" "outcome m t Q E"
  shows "outcome m t (\<lambda>a t'. Q a t' \<and> tx_ok t' \<and> grows (tx_shared t) (tx_shared t')) E"
proof -
  obtain r t' where m: "m t = (r, t')" by (cases "m t")
  show ?thesis using keeps_okD[OF assms(1,2) m] assms(3) m by (simp add: outcome_def split: sum.splits)
qed

definition provisioned :: "db \<Rightarrow> timestamp \<Rightarrow> VerifiedAccessToken \<Rightarrow> ProvisionedSession \<Rightarrow> bool" where
  "provisioned d now token s \<longleftrightarrow> (\<exists>a. has_identity d token a \<and> admitted d now token a s)
     \<and> (ps_created s \<longrightarrow> audited_session d s)"

definition sound :: "txn \<Rightarrow> timestamp \<Rightarrow> VerifiedAccessToken \<Rightarrow> ProvisionedSession \<Rightarrow> txn \<Rightarrow> bool" where
  "sound t now token s t' \<longleftrightarrow> provisioned (tx_view t') now token s \<and> tx_ok t' \<and> no_orphan (tx_pending t')"

lemma admit_after:
  assumes "tx_ok t" "has_identity (tx_view t) token a" "no_orphan (tx_pending t)"
  shows "outcome (admit_session pv token a ttl) t (sound t0 (pv_now pv) token) (\<lambda>e _. refusal e)"
proof (rule outcome_mono[OF outcome_keeps[OF admit_session_keeps assms(1) admit_session_outcome[OF assms(1)]]])
  fix s t'
  assume h: "(admitted (tx_view t') (pv_now pv) token a s \<and> (ps_created s \<longrightarrow> audited_session (tx_view t') s)
    \<and> w_users (tx_pending t') = w_users (tx_pending t) \<and> w_identities (tx_pending t') = w_identities (tx_pending t))
    \<and> tx_ok t' \<and> grows (tx_shared t) (tx_shared t')"
  have "has_identity (tx_view t') token a"
    using assms(2) h by (auto simp: has_identity_def identity_keys_def grows_def)
  then show "sound t0 (pv_now pv) token s t'"
    using h assms(3) by (auto simp: sound_def provisioned_def no_orphan_def)
qed simp

lemma lock_active_outcome:
  assumes "tx_ok t"
  shows "outcome (lock_active_identity token i) t
    (\<lambda>a t'. t' = interfere t \<and> has_identity (tx_view t') token a) (\<lambda>e _. e = SessionProvisioningAuthenticationError)"
proof -
  define d where "d = with_writes (tx_shared (interfere t)) (tx_pending t)"
  have ok: "schema_ok d" using interfere_ok[OF assms] by (simp add: d_def tx_ok_def)
  define P where "P = (\<lambda>j. i_id j = i \<and> i_issuer j = vt_issuer token \<and> i_subject j = vt_subject token
    \<and> i_status j = ''ACTIVE'' \<and> u_status (user_of d j) = ''ACTIVE'')"
  define r where "r = (\<lambda>j. [(''identity_id'', PUuid (i_id j)), (''user_id'', PUuid (u_id (user_of d j))),
    (''email'', PStr (u_email (user_of d j))), (''display_name'', opt_val PStr (u_display_name (user_of d j)))])"
  have rows: "sql_lock_active_identity i (vt_issuer token) (vt_subject token) d = map r (filter P (identities d))"
    by (simp add: sql_lock_active_identity_def identity_join_eq[OF ok] P_def r_def)
  have "distinct (map (\<lambda>j. (i_issuer j, i_subject j)) (identities d))"
    using ok by (simp add: schema_ok_def identities_ok_def)
  then have one: "filter P (identities d) = [] \<or> (\<exists>j \<in> set (identities d). P j \<and> filter P (identities d) = [j])"
    using distinct_key_unique[of "\<lambda>j. (i_issuer j, i_subject j)" "identities d"]
    by (intro filter_unique_cases) (auto simp: P_def distinct_map)
  have row: "active_identity_from_row (r j) = Inr (active_of d j)" for j
    by (simp add: active_identity_from_row_def r_def row_get_def active_of_def)
  have "has_identity d token (active_of d j)" if "j \<in> set (identities d)" "P j" for j
    using that user_of_row(3)[OF ok, of j] by (force simp: has_identity_def active_of_def identity_keys_def P_def)
  then show ?thesis using one
    unfolding lock_active_identity_def outcome_bind outcome_basic interfere_pending d_def[symmetric] rows
    by (auto simp: row outcome_basic d_def[symmetric])
qed

lemma provision_new_outcome:
  assumes "tx_ok t" "tx_pending t = no_writes"
  shows "outcome (provision_new pv token profile ttl) t (sound t (pv_now pv) token) (\<lambda>e _. refusal e)"
proof -
  define d where "d = tx_view (interfere t)"
  have ok: "tx_ok (interfere t)" by (rule interfere_ok[OF assms(1)])
  then have okd: "schema_ok d" by (simp add: d_def tx_ok_def)
  note unfold = provision_new_def outcome_bind outcome_find_exact[OF assms(1)] d_def[symmetric]
  show ?thesis
  proof (cases "identity_at d (vt_issuer token) (vt_subject token)")
    case None
    have "outcome (create_identity_or_resolve_race pv token profile) (interfere t)
      (\<lambda>a t'. tx_ok t' \<and> has_identity (tx_view t') token a \<and> no_orphan (tx_pending t')) (\<lambda>e _. refusal e)"
      using create_or_resolve_outcome[OF ok] assms(2) by simp
    then have "outcome (create_identity_or_resolve_race pv token profile) (interfere t)
      (\<lambda>a t'. outcome (admit_session pv token a ttl) t' (sound t (pv_now pv) token) (\<lambda>e _. refusal e)) (\<lambda>e _. refusal e)"
      by (rule outcome_mono) (auto intro: admit_after)
    then show ?thesis unfolding unfold None by (simp add: outcome_bind)
  next
    case (Some i)
    have "outcome (admit_session pv token (active_of d i) ttl) (interfere t) (sound t (pv_now pv) token) (\<lambda>e _. refusal e)"
      by (rule admit_after[OF ok]) (use has_identity_active_of[OF okd Some] assms(2) in \<open>simp_all add: d_def\<close>)
    then show ?thesis unfolding unfold Some by (simp add: outcome_bind outcome_basic require_active_exact)
  qed
qed

lemma admit_existing_outcome:
  assumes "tx_ok t" "tx_pending t = no_writes"
  shows "outcome (admit_existing pv token identity ttl) t (sound t (pv_now pv) token) (\<lambda>e _. refusal e)"
proof -
  have "outcome (lock_active_identity token (pi_identity_id identity)) t
    (\<lambda>a t'. outcome (admit_session pv token a ttl) t' (sound t (pv_now pv) token) (\<lambda>e _. refusal e)) (\<lambda>e _. refusal e)"
    by (rule outcome_mono[OF lock_active_outcome[OF assms(1)]])
      (use interfere_ok[OF assms(1)] assms(2) in \<open>auto intro!: admit_after\<close>)
  then show ?thesis by (simp add: admit_existing_def outcome_bind)
qed

end
