(* ===== verification/SessionContracts.thy ===== *)
theory SessionContracts
  imports SessionFacts
begin

section \<open>Sign-in and authentication: the contracts\<close>

text \<open>
  What a sign-in gives under any interference of other sessions, what it gives when nobody
  interferes, and how the principal repository reads it back.
\<close>

subsection \<open>The sessions of an identity\<close>

definition session_at :: "db \<Rightarrow> uuid \<Rightarrow> string \<Rightarrow> session_row option" where
  "session_at d iid psid =
     find (\<lambda>s. True \<and> (s_identity_id s, s_provider_session_id s) = (iid, psid)) (auth_sessions d)"

lemma session_at_eq:
  assumes "schema_ok d"
  shows "filter (\<lambda>s. s_identity_id s = iid \<and> s_provider_session_id s = psid) (auth_sessions d) =
    (case session_at d iid psid of None \<Rightarrow> [] | Some x \<Rightarrow> [x])"
proof -
  have "distinct (map (\<lambda>s. (s_identity_id s, s_provider_session_id s)) (auth_sessions d))"
    using assms by (simp add: schema_ok_def sessions_ok_def)
  from filter_key_cases[OF this, of "(iid, psid)"] show ?thesis
    by (auto simp: session_at_def find_filter)
qed

lemma session_at_iff:
  assumes "schema_ok d"
  shows "session_at d iid psid = Some x \<longleftrightarrow>
    x \<in> set (auth_sessions d) \<and> s_identity_id x = iid \<and> s_provider_session_id x = psid"
proof -
  have "x \<in> set (auth_sessions d) \<and> s_identity_id x = iid \<and> s_provider_session_id x = psid \<longleftrightarrow>
      x \<in> set (filter (\<lambda>s. s_identity_id s = iid \<and> s_provider_session_id s = psid) (auth_sessions d))"
    by simp
  then show ?thesis unfolding session_at_eq[OF assms] by (auto split: option.splits)
qed

lemma session_at_None:
  "session_at d iid psid = None \<longleftrightarrow>
    (iid, psid) \<notin> set (map (\<lambda>s. (s_identity_id s, s_provider_session_id s)) (auth_sessions d))"
  by (auto simp: session_at_def find_None_iff)

lemma session_row_checks:
  assumes "schema_ok d" "x \<in> set (auth_sessions d)"
  shows "s_provider_session_id x \<noteq> []"
  using assms by (auto simp: schema_ok_def sessions_ok_def)

definition live :: "timestamp \<Rightarrow> session_row \<Rightarrow> bool" where
  "live now s \<longleftrightarrow> s_revoked_at s = None \<and> now < s_expires_at s"

subsection \<open>The principal of a token\<close>

definition principal_spec :: "timestamp \<Rightarrow> VerifiedAccessToken \<Rightarrow> db \<Rightarrow> AuthenticatedPrincipal option" where
  "principal_spec now token d =
     (case identity_at d (vt_issuer token) (vt_subject token) of
        None \<Rightarrow> None
      | Some i \<Rightarrow>
          if \<not> is_active d i then None
          else (case session_at d (i_id i) (vt_provider_session_id token) of
            None \<Rightarrow> None
          | Some s \<Rightarrow> if live now s then Some (principal_of (active_of d i) (s_id s)) else None))"

lemma concat_map_if: "concat (map (\<lambda>x. if P x then f x else []) xs) = concat (map f (filter P xs))"
  by (induction xs) auto

lemma session_join_eq:
  assumes "schema_ok d"
  shows "session_join d (\<lambda>i u s. A i u \<and> s_provider_session_id s = psid \<and> B s) =
    concat (map (\<lambda>i. map (\<lambda>s. (i, user_of d i, s)) (filter B
        (case session_at d (i_id i) psid of None \<Rightarrow> [] | Some x \<Rightarrow> [x])))
      (filter (\<lambda>i. A i (user_of d i)) (identities d)))"
proof -
  have f: "filter (\<lambda>(i, u, s). A i u \<and> s_provider_session_id s = psid \<and> B s)
      (map (\<lambda>s. (i, user_of d i, s)) (filter (\<lambda>s. s_identity_id s = i_id i) (auth_sessions d))) =
    (if A i (user_of d i) then map (\<lambda>s. (i, user_of d i, s)) (filter B
        (case session_at d (i_id i) psid of None \<Rightarrow> [] | Some x \<Rightarrow> [x])) else [])" for i
    unfolding session_at_eq[OF assms, symmetric] by (auto simp: filter_map comp_def intro!: filter_cong)
  show ?thesis
    unfolding session_join_def identity_join_eq[OF assms] map_map comp_def prod.case filter_concat f concat_map_if
    by (simp add: comp_def)
qed

lemma resolve_active_principal:
  assumes "schema_ok d"
  shows "repo_resolve_active_principal now token d = Inr (principal_spec now token d)"
proof -
  let ?A = "\<lambda>i u. i_issuer i = vt_issuer token \<and> i_subject i = vt_subject token
    \<and> i_status i = ''ACTIVE'' \<and> u_status u = ''ACTIVE''"
  let ?r = "\<lambda>(i, u, s). [(''user_id'', PUuid (u_id u)), (''auth_session_id'', PUuid (s_id s)),
    (''email'', PStr (u_email u)), (''display_name'', opt_val PStr (u_display_name u))]"
  have ids: "filter (\<lambda>i. ?A i (user_of d i)) (identities d) =
    (case identity_at d (vt_issuer token) (vt_subject token) of None \<Rightarrow> [] | Some i \<Rightarrow> if is_active d i then [i] else [])"
    using arg_cong[OF identity_filter[OF assms, of "vt_issuer token" "vt_subject token"],
        of "filter (is_active d)"]
    by (simp add: is_active_def conj_ac split: option.splits)
  have "sql_resolve_active_principal now (vt_issuer token) (vt_subject token) (vt_provider_session_id token) d =
    map ?r (session_join d (\<lambda>i u s. ?A i u \<and> s_provider_session_id s = vt_provider_session_id token \<and> live now s))"
    by (simp add: sql_resolve_active_principal_def live_def)
  then show ?thesis
    unfolding repo_resolve_active_principal_def session_join_eq[OF assms] ids
    by (simp add: principal_spec_def row_get_def opt_val_def principal_of_def active_of_def
        split: option.split)
qed

subsection \<open>A sign-in nobody interferes with\<close>

definition resolves :: "db \<Rightarrow> VerifiedAccessToken \<Rightarrow> ActiveIdentity \<Rightarrow> bool" where
  "resolves d token a \<longleftrightarrow> (\<exists>i. identity_at d (vt_issuer token) (vt_subject token) = Some i
     \<and> is_active d i \<and> a = active_of d i)"

lemma resolves_cong:
  "users d' = users d \<Longrightarrow> identities d' = identities d \<Longrightarrow> resolves d' token a = resolves d token a"
  by (simp add: resolves_def identity_at_def is_active_def active_of_def user_of_def)

definition signed_in :: "db \<Rightarrow> timestamp \<Rightarrow> VerifiedAccessToken \<Rightarrow> ProvisionedSession \<Rightarrow> txn \<Rightarrow> bool" where
  "signed_in d now token s t' \<longleftrightarrow> tx_shared t' = d \<and> tx_script t' = []
     \<and> (\<exists>a. resolves (tx_view t') token a \<and> admitted (tx_view t') now token a s)"

lemma outcome_conj:
  "outcome m t Q E \<Longrightarrow> outcome m t Q' E' \<Longrightarrow> outcome m t (\<lambda>a t'. Q a t' \<and> Q' a t') (\<lambda>e t'. E e t' \<and> E' e t')"
  by (auto simp: outcome_def split: sum.splits prod.splits)

lemma outcome_quiet:
  assumes "quiet m" "tx_script t = []" "outcome m t Q E"
  shows "outcome m t (\<lambda>a t'. Q a t' \<and> tx_shared t' = tx_shared t \<and> tx_script t' = []) E"
proof -
  obtain r t' where m: "m t = (r, t')" by (cases "m t")
  show ?thesis using quietD[OF assms(1,2) m] assms(3) m by (simp add: outcome_def split: sum.splits)
qed

lemma admit_session_quiet: "quiet (admit_session pv token a ttl)"
  unfolding admit_session_def by (intro preserves_rules)

lemma find_exact_quiet: "quiet (find_exact_identity token)"
  unfolding find_exact_identity_def by (intro preserves_rules)

lemma create_identity_quiet: "quiet (create_identity pv token e n nm)"
  unfolding create_identity_def by (intro preserves_rules find_exact_quiet)

lemma admit_quiet:
  assumes "tx_ok t" "tx_script t = []" "resolves (tx_view t) token a"
  shows "outcome (admit_session pv token a ttl) t (signed_in (tx_shared t) (pv_now pv) token) (\<lambda>_ _. True)"
proof (rule outcome_mono[OF outcome_quiet[OF admit_session_quiet assms(2) admit_session_outcome[OF assms(1)]]])
  fix s t'
  assume h: "(admitted (tx_view t') (pv_now pv) token a s \<and> (ps_created s \<longrightarrow> audited_session (tx_view t') s)
    \<and> w_users (tx_pending t') = w_users (tx_pending t) \<and> w_identities (tx_pending t') = w_identities (tx_pending t))
    \<and> tx_shared t' = tx_shared t \<and> tx_script t' = []"
  then have "resolves (tx_view t') token a"
    using resolves_cong[of "tx_view t'" "tx_view t" token a] assms(3) by simp
  then show "signed_in (tx_shared t) (pv_now pv) token s t'" using h by (auto simp: signed_in_def)
qed simp

lemma resolves_exact:
  "identity_at d (vt_issuer token) (vt_subject token) = Some i \<Longrightarrow> is_active d i \<Longrightarrow> resolves d token (active_of d i)"
  by (simp add: resolves_def)

lemma resolves_inserted:
  assumes "identity_at d (vt_issuer token) (vt_subject token) = None" "u_id u \<notin> set (map u_id (users d))"
    and "i_issuer i = vt_issuer token" "i_subject i = vt_subject token" "i_user_id i = u_id u"
    and "i_status i = ''ACTIVE''" "u_status u = ''ACTIVE''"
    and "users d' = users d @ [u]" "identities d' = identities d @ [i]"
  shows "resolves d' token \<lparr>ai_identity_id = i_id i, ai_user_id = u_id u, ai_email = u_email u,
    ai_display_name = u_display_name u\<rparr>"
proof -
  have "identity_at d' (vt_issuer token) (vt_subject token) = Some i"
    using assms(1,3,4,9) by (auto simp: identity_at_def find_filter filter_empty_conv split: list.splits)
  moreover have "filter (\<lambda>x. u_id x = u_id u) (users d) = []"
    unfolding filter_empty_conv using assms(2) by (metis imageI list.set_map)
  then have "user_of d' i = u"
    using assms(5,8) by (simp add: user_of_def)
  ultimately show ?thesis using assms(6,7) by (simp add: resolves_def is_active_def active_of_def)
qed

definition new_user ::
  "db \<Rightarrow> VerifiedAccessToken \<Rightarrow> string \<Rightarrow> string \<Rightarrow> string option \<Rightarrow> writes \<Rightarrow> bool" where
  "new_user d token e n nm w \<longleftrightarrow> (\<exists>u i. w_users w = [u] \<and> w_identities w = [i]
     \<and> u_email u = e \<and> u_email_normalized u = n \<and> u_display_name u = nm
     \<and> n \<notin> set (map u_email_normalized (users d))
     \<and> i_user_id i = u_id u \<and> i_issuer i = vt_issuer token \<and> i_subject i = vt_subject token)"

lemma insert_user_fresh: "sql_insert_user i e n nm d = Inr (x # xs, w) \<Longrightarrow> n \<notin> set (map u_email_normalized (users d))"
  by (auto simp: sql_insert_user_def Let_def split: if_splits)

lemma create_identity_signed:
  assumes "tx_ok t" "tx_pending t = no_writes" "tx_script t = []"
    and "identity_at (tx_shared t) (vt_issuer token) (vt_subject token) = None"
  shows "outcome (create_identity pv token e n nm) t
    (\<lambda>a t'. resolves (tx_view t') token a \<and> new_user (tx_shared t) token e n nm (tx_pending t')) (\<lambda>x _. x \<noteq> IdentityRace)"
proof -
  note unfold = create_identity_def outcome_bind outcome_basic interfere_done[OF assms(3)] assms(2) with_no_writes
    sum.case prod.case option.case one_or_none.simps
  show ?thesis
  proof (cases "sql_insert_user (pv_user_id pv) e n nm (tx_shared t)")
    case (Inl x)
    show ?thesis unfolding unfold Inl using insert_rows_raise(1)[OF Inl] by simp
  next
    case (Inr rw)
    then obtain rows w where rw: "sql_insert_user (pv_user_id pv) e n nm (tx_shared t) = Inr (rows, w)" by (cases rw) auto
    from insert_user_eq[OF rw] show ?thesis
    proof (elim disjE conjE)
      assume c: "rows = []" "w = no_writes"
      have same: "t\<lparr>tx_pending := no_writes\<rparr> = t" by (rule pending_same[OF assms(2)])
      show ?thesis
        unfolding unfold rw c add_no_writes same outcome_find_exact[OF assms(1)] assms(4) by (simp add: outcome_basic)
    next
      assume c: "rows = [pv_user_id pv]" "pv_user_id pv \<notin> set (map u_id (users (tx_shared t)))"
      define r where "r = \<lparr>u_id = pv_user_id pv, u_email = e, u_email_normalized = n, u_display_name = nm, u_status = ''ACTIVE''\<rparr>"
      assume "w = no_writes\<lparr>w_users := [\<lparr>u_id = pv_user_id pv, u_email = e, u_email_normalized = n,
        u_display_name = nm, u_status = ''ACTIVE''\<rparr>]\<rparr>"
      then have w: "w = no_writes\<lparr>w_users := [r]\<rparr>" by (simp add: r_def)
      define t2 where "t2 = t\<lparr>tx_pending := add_writes no_writes w\<rparr>"
      have p2: "tx_pending t2 = no_writes\<lparr>w_users := [r]\<rparr>" "tx_shared t2 = tx_shared t" "interfere t2 = t2"
        using assms(3) by (simp_all add: t2_def w add_writes_def no_writes_def)
      note unfold2 = unfold rw c(1) t2_def[symmetric] p2(3)
      show ?thesis
      proof (cases "sql_insert_identity (pv_identity_id pv) (pv_user_id pv) (vt_issuer token) (vt_subject token) (tx_view t2)")
        case (Inl x)
        show ?thesis unfolding unfold2 Inl using insert_rows_raise(2)[OF Inl] by simp
      next
        case (Inr qv)
        have "identity_at (tx_view t2) (vt_issuer token) (vt_subject token) = None"
          using assms(4) by (simp add: identity_at_def p2)
        then have qv: "qv = ([pv_identity_id pv], no_writes\<lparr>w_identities := [\<lparr>i_id = pv_identity_id pv,
            i_user_id = pv_user_id pv, i_issuer = vt_issuer token, i_subject = vt_subject token, i_status = ''ACTIVE''\<rparr>]\<rparr>)"
          using Inr by (auto simp: sql_insert_identity_def Let_def bind_res_eq_Inr identity_at_None split: if_splits)
        obtain s where s: "qv = ([pv_identity_id pv], no_writes\<lparr>w_identities := [s]\<rparr>)" "i_id s = pv_identity_id pv"
          "i_user_id s = u_id r" "i_issuer s = vt_issuer token" "i_subject s = vt_subject token" "i_status s = ''ACTIVE''"
          using that[OF qv] by (simp add: r_def)
        define t3 where "t3 = t2\<lparr>tx_pending := add_writes (tx_pending t2) (no_writes\<lparr>w_identities := [s]\<rparr>)\<rparr>"
        have "resolves (tx_view t3) token \<lparr>ai_identity_id = i_id s, ai_user_id = u_id r, ai_email = u_email r,
            ai_display_name = u_display_name r\<rparr>"
          by (rule resolves_inserted[of "tx_shared t"])
            (use assms(4) c(2) s in \<open>simp_all add: r_def t3_def p2\<close>)
        then have "resolves (tx_view t3) token \<lparr>ai_identity_id = pv_identity_id pv, ai_user_id = pv_user_id pv, ai_email = e,
            ai_display_name = nm\<rparr>"
          using s(2) by (simp add: r_def)
        moreover have "new_user (tx_shared t) token e n nm (tx_pending t3)"
          using s insert_user_fresh[OF rw[unfolded c(1)]] by (auto simp: new_user_def t3_def p2(1) r_def)
        ultimately show ?thesis unfolding unfold2 Inr s(1) t3_def[symmetric] by simp
      qed
    qed
  qed
qed

text \<open>The row a lock of an active identity returns.\<close>

lemma lock_active_row:
  assumes "schema_ok d"
  shows "one_or_none (sql_lock_active_identity i (vt_issuer token) (vt_subject token) d) =
    Inr (case identity_at d (vt_issuer token) (vt_subject token) of
      None \<Rightarrow> None
    | Some j \<Rightarrow> if i_id j = i \<and> is_active d j then Some [(''identity_id'', PUuid (i_id j)), (''user_id'', PUuid (u_id (user_of d j))),
        (''email'', PStr (u_email (user_of d j))), (''display_name'', opt_val PStr (u_display_name (user_of d j)))] else None)"
proof -
  have "filter (\<lambda>j. i_id j = i \<and> i_issuer j = vt_issuer token \<and> i_subject j = vt_subject token
      \<and> i_status j = ''ACTIVE'' \<and> u_status (user_of d j) = ''ACTIVE'') (identities d) =
    filter (\<lambda>j. i_id j = i \<and> is_active d j)
      (filter (\<lambda>j. i_issuer j = vt_issuer token \<and> i_subject j = vt_subject token) (identities d))"
    unfolding filter_filter by (rule filter_cong) (auto simp: is_active_def)
  then show ?thesis
    unfolding sql_lock_active_identity_def identity_join_eq[OF assms] identity_filter[OF assms]
    by (simp split: option.split)
qed

lemma provision_new_signed:
  assumes "tx_ok t" "tx_pending t = no_writes" "tx_script t = []"
  shows "outcome (provision_new pv token profile ttl) t (signed_in (tx_shared t) (pv_now pv) token) (\<lambda>_ _. True)"
proof -
  note it = interfere_done[OF assms(3)]
  note unfold = provision_new_def outcome_bind outcome_find_exact[OF assms(1)] it assms(2) with_no_writes
  let ?S = "signed_in (tx_shared t) (pv_now pv) token"
  show ?thesis
  proof (cases "identity_at (tx_shared t) (vt_issuer token) (vt_subject token)")
    case (Some i)
    have "outcome (admit_session pv token (active_of (tx_shared t) i) ttl) t ?S (\<lambda>_ _. True)" if "is_active (tx_shared t) i"
      by (rule admit_quiet[OF assms(1,3)]) (simp add: resolves_exact[OF Some that] assms(2))
    then show ?thesis unfolding unfold Some by (simp add: outcome_bind outcome_basic require_active_exact)
  next
    case None
    have sigma: "outcome (create_identity pv token e n nm) t
      (\<lambda>a t'. outcome (admit_session pv token a ttl) t' ?S (\<lambda>_ _. True)) (\<lambda>x _. x \<noteq> IdentityRace)" for e n nm
    proof -
      let ?R = "\<lambda>a t'. tx_ok t' \<and> resolves (tx_view t') token a"
      have "outcome (create_identity pv token e n nm) t ?R (\<lambda>x _. x \<noteq> IdentityRace)"
        by (rule outcome_mono[OF outcome_conj[OF create_identity_signed[OF assms None] create_identity_outcome[OF assms(1,2)]]]) auto
      from outcome_quiet[OF create_identity_quiet assms(3) this] show ?thesis
        by (rule outcome_mono) (use admit_quiet in fastforce)+
    qed
    have "outcome (create_identity_or_resolve_race pv token profile) t
      (\<lambda>a t'. outcome (admit_session pv token a ttl) t' ?S (\<lambda>_ _. True)) (\<lambda>_ _. True)"
    proof -
      have "outcome (catch_act IdentityRace (nested (create_identity pv token e n nm)) (resolve_race token)) t
        (\<lambda>a t'. outcome (admit_session pv token a ttl) t' ?S (\<lambda>_ _. True)) (\<lambda>_ _. True)" for e n nm
        unfolding outcome_catch outcome_nested by (rule outcome_mono[OF sigma]) auto
      then show ?thesis by (simp add: create_identity_or_resolve_race_def Let_def outcome_basic)
    qed
    then show ?thesis unfolding unfold None by (simp add: outcome_bind)
  qed
qed

lemma admit_existing_signed:
  assumes "tx_ok t" "tx_pending t = no_writes" "tx_script t = []"
  shows "outcome (admit_existing pv token identity ttl) t (signed_in (tx_shared t) (pv_now pv) token) (\<lambda>_ _. True)"
proof -
  have ok: "schema_ok (tx_shared t)" using assms(1) by (simp add: tx_ok_def)
  have "outcome (lock_active_identity token i) t (\<lambda>a t'. t' = t \<and> resolves (tx_shared t) token a) (\<lambda>_ _. True)" for i
    unfolding lock_active_identity_def outcome_bind outcome_basic interfere_done[OF assms(3)] assms(2) with_no_writes
      lock_active_row[OF ok]
    by (auto simp: outcome_basic active_identity_from_row_def row_get_def resolves_def active_of_def split: option.split)
  then have "outcome (lock_active_identity token (pi_identity_id identity)) t
    (\<lambda>a t'. outcome (admit_session pv token a ttl) t' (signed_in (tx_shared t) (pv_now pv) token) (\<lambda>_ _. True)) (\<lambda>_ _. True)"
    by (rule outcome_mono) (use admit_quiet[OF assms(1,3)] assms(2) in auto)
  then show ?thesis by (simp add: admit_existing_def outcome_bind)
qed

subsection \<open>What a sign-in writes\<close>

lemma admit_writes:
  assumes "tx_ok t" "P (w_users (tx_pending t)) (w_identities (tx_pending t))"
  shows "outcome (admit_session pv token a ttl) t
    (\<lambda>s t'. P (w_users (tx_pending t')) (w_identities (tx_pending t'))) (\<lambda>_ _. True)"
  by (rule outcome_mono[OF admit_session_outcome[OF assms(1)]]) (use assms(2) in auto)

lemma new_user_tables:
  "new_user d token e n nm w \<longleftrightarrow> new_user d token e n nm (no_writes\<lparr>w_users := w_users w, w_identities := w_identities w\<rparr>)"
  by (simp add: new_user_def)

lemma provision_new_writes:
  assumes "tx_ok t" "tx_pending t = no_writes" "tx_script t = []"
    and "identity_at (tx_shared t) (vt_issuer token) (vt_subject token) = None"
  shows "outcome (provision_new pv token profile ttl) t
    (\<lambda>s t'. new_user (tx_shared t) token (strip (ep_email profile)) (casefold (strip (ep_email profile)))
       (ep_display_name profile) (tx_pending t')) (\<lambda>_ _. True)"
proof -
  define e n nm where "e = strip (ep_email profile)" and "n = casefold e" and "nm = ep_display_name profile"
  note parts = e_def[symmetric] n_def[symmetric] nm_def[symmetric]
  let ?N = "\<lambda>s t'. new_user (tx_shared t) token e n nm (tx_pending t')"
  have "outcome (create_identity pv token e n nm) t
    (\<lambda>a t'. tx_ok t' \<and> new_user (tx_shared t) token e n nm (tx_pending t')) (\<lambda>x _. x \<noteq> IdentityRace)"
    by (rule outcome_mono[OF outcome_conj[OF create_identity_signed[OF assms] create_identity_outcome[OF assms(1,2)]]]) auto
  then have "outcome (create_identity pv token e n nm) t
    (\<lambda>a t'. outcome (admit_session pv token a ttl) t' ?N (\<lambda>_ _. True)) (\<lambda>x _. x \<noteq> IdentityRace)"
  proof (rule outcome_mono)
    fix a t' assume h: "tx_ok t' \<and> new_user (tx_shared t) token e n nm (tx_pending t')"
    show "outcome (admit_session pv token a ttl) t' ?N (\<lambda>_ _. True)"
      using admit_writes[of t' "\<lambda>us is. new_user (tx_shared t) token e n nm (no_writes\<lparr>w_users := us, w_identities := is\<rparr>)"] h
      unfolding new_user_tables[symmetric] by blast
  qed
  then have "outcome (catch_act IdentityRace (nested (create_identity pv token e n nm)) (resolve_race token)) t
      (\<lambda>a t'. outcome (admit_session pv token a ttl) t' ?N (\<lambda>_ _. True)) (\<lambda>_ _. True)"
    unfolding outcome_catch outcome_nested by (rule outcome_mono) auto
  then have "outcome (create_identity_or_resolve_race pv token profile) t
    (\<lambda>a t'. outcome (admit_session pv token a ttl) t' ?N (\<lambda>_ _. True)) (\<lambda>_ _. True)"
    by (simp add: create_identity_or_resolve_race_def Let_def outcome_basic parts)
  then show ?thesis
    unfolding provision_new_def outcome_bind outcome_find_exact[OF assms(1)] interfere_done[OF assms(3)] assms(2,4)
      with_no_writes parts
    by (simp add: outcome_bind)
qed

lemma admit_existing_writes:
  assumes "tx_ok t" "tx_pending t = no_writes" "tx_script t = []"
  shows "outcome (admit_existing pv token identity ttl) t
    (\<lambda>s t'. w_users (tx_pending t') = [] \<and> w_identities (tx_pending t') = []) (\<lambda>_ _. True)"
proof -
  have "outcome (lock_active_identity token (pi_identity_id identity)) t
    (\<lambda>a t'. outcome (admit_session pv token a ttl) t'
      (\<lambda>s t'. w_users (tx_pending t') = [] \<and> w_identities (tx_pending t') = []) (\<lambda>_ _. True)) (\<lambda>_ _. True)"
    by (rule outcome_mono[OF lock_active_outcome[OF assms(1)]])
      (use assms interfere_done[OF assms(3)] in \<open>auto intro: admit_writes[where P = "\<lambda>us is. us = [] \<and> is = []"]\<close>)
  then show ?thesis by (simp add: admit_existing_def outcome_bind)
qed

end
