(* ===== verification/AuthenticationContracts.thy ===== *)
theory AuthenticationContracts
  imports SessionContracts
begin

section \<open>The authentication services on the SQL repositories\<close>

text \<open>
  \<open>sign_in\<close> and \<open>identify\<close> are the two services as the application wires them: the SQL
  repositories under \<open>SessionProvisioningService\<close> and \<open>AuthenticationService\<close>. The verifier and
  the profile provider stay arguments; \<open>script\<close> is what other sessions commit meanwhile.
\<close>

definition sign_in ::
  "(string \<Rightarrow> exn + VerifiedAccessToken) \<Rightarrow> (string \<Rightarrow> exn + ExternalUserProfile) \<Rightarrow> int
     \<Rightarrow> Provision \<Rightarrow> (db \<Rightarrow> db) list \<Rightarrow> string \<Rightarrow> db \<Rightarrow> (exn + ProvisionedSession) \<times> db" where
  "sign_in verify fetch ttl pv script =
     provision verify repo_find_identity (repo_admit_existing_identity pv script)
       (repo_provision_new_identity pv script) fetch ttl"

definition identify ::
  "(string \<Rightarrow> exn + VerifiedAccessToken) \<Rightarrow> timestamp \<Rightarrow> string \<Rightarrow> db \<Rightarrow> exn + AuthenticatedPrincipal" where
  "identify verify now = authenticate verify (repo_resolve_active_principal now)"

subsection \<open>Finding an identity\<close>

lemma find_identity_eq:
  assumes "schema_ok d"
  shows "repo_find_identity token d = Inr (map_option
    (\<lambda>i. \<lparr>pi_identity_id = i_id i, pi_user_id = i_user_id i, pi_active = is_active d i\<rparr>)
    (identity_at d (vt_issuer token) (vt_subject token)))"
proof -
  have "one_or_none (sql_find_identity (vt_issuer token) (vt_subject token) d) =
    Inr (map_option (\<lambda>i. [(''identity_id'', PUuid (i_id i)), (''user_id'', PUuid (u_id (user_of d i))),
        (''identity_status'', PStr (i_status i)), (''user_status'', PStr (u_status (user_of d i)))])
      (identity_at d (vt_issuer token) (vt_subject token)))"
    by (auto simp: sql_find_identity_def identity_join_eq[OF assms] identity_filter[OF assms] split: option.split)
  then show ?thesis
    using identity_at_Some[of d "vt_issuer token" "vt_subject token"] user_of_row(3)[OF assms]
    by (auto simp: repo_find_identity_def row_get_def is_active_def split: option.split)
qed

subsection \<open>Transactions\<close>

lemma transaction_outcome:
  assumes "outcome m \<lparr>tx_shared = d, tx_pending = no_writes, tx_script = script\<rparr> Q E" "transaction script m d = (r, d')"
  shows "\<exists>t'. case r of Inl e \<Rightarrow> E e t' \<and> d' = tx_shared t' | Inr a \<Rightarrow> Q a t' \<and> d' = tx_view t'"
  using assms by (auto simp: outcome_def transaction_def split: sum.splits prod.splits)

lemma start_ok: "schema_ok d \<Longrightarrow> tx_ok \<lparr>tx_shared = d, tx_pending = no_writes, tx_script = script\<rparr>"
  by (simp add: tx_ok_def)

lemma repo_sound:
  assumes "schema_ok d"
  shows "repo_provision_new_identity pv script token profile ttl d = (Inr s, d') \<Longrightarrow> provisioned d' (pv_now pv) token s"
    "repo_admit_existing_identity pv script token identity ttl d = (Inr s, d') \<Longrightarrow> provisioned d' (pv_now pv) token s"
    "repo_provision_new_identity pv script token profile ttl d = (Inl e, d') \<Longrightarrow> refusal e"
    "repo_admit_existing_identity pv script token identity ttl d = (Inl e, d') \<Longrightarrow> refusal e"
  using transaction_outcome[OF provision_new_outcome[OF start_ok[OF assms]], of script pv token profile ttl]
    transaction_outcome[OF admit_existing_outcome[OF start_ok[OF assms]], of script pv token identity ttl]
  by (fastforce simp: repo_provision_new_identity_def repo_admit_existing_identity_def sound_def)+

lemma repo_signed_in:
  assumes "schema_ok d"
    and "repo_provision_new_identity pv [] token profile ttl d = (Inr s, d')
      \<or> repo_admit_existing_identity pv [] token identity ttl d = (Inr s, d')"
  shows "\<exists>a w. d' = with_writes d w \<and> resolves d' token a \<and> admitted d' (pv_now pv) token a s"
  using transaction_outcome[OF provision_new_signed[OF start_ok[OF assms(1)]], of "[]" pv token profile ttl]
    transaction_outcome[OF admit_existing_signed[OF start_ok[OF assms(1)]], of "[]" pv token identity ttl] assms(2)
  by (fastforce simp: repo_provision_new_identity_def repo_admit_existing_identity_def signed_in_def)

lemma create_or_resolve_keeps:
  assumes "tx_ok t" "tx_pending t = no_writes"
  shows "let t' = snd (create_identity_or_resolve_race pv token profile t) in
    tx_ok t' \<and> grows (tx_shared t) (tx_shared t')"
proof -
  have res: "keeps_ok (resolve_race token)" and ex: "keeps_ok (find_exact_identity token)"
    unfolding resolve_race_def find_exact_identity_def by (intro preserves_rules)+
  have cr: "keeps_ok (create_identity pv token e n nm)" for e n nm
    unfolding create_identity_def
    by (intro preserves_rules keeps_insert ex) (auto intro: insert_stmts_schema)
  define e where "e = strip (ep_email profile)"
  define m where "m = nested (create_identity pv token e (casefold e) (ep_display_name profile))"
  obtain r t1 where 1: "m t = (r, t1)" by (cases "m t")
  have "tx_ok (snd (m t)) \<and> grows (tx_shared t) (tx_shared (snd (m t)))"
    unfolding m_def by (rule nested_keeps[OF cr assms])
  then have ok: "tx_ok t1" "grows (tx_shared t) (tx_shared t1)" using 1 by simp_all
  obtain r2 t2 where 2: "resolve_race token t1 = (r2, t2)" by (cases "resolve_race token t1")
  note g = keeps_okD[OF res ok(1) 2]
  show ?thesis
  proof (cases "e = [] \<or> casefold e = []")
    case True
    then show ?thesis using assms(1)
      by (auto simp: create_identity_or_resolve_race_def e_def Let_def raise_act_def)
  next
    case False
    then have "create_identity_or_resolve_race pv token profile t = catch_act IdentityRace m (resolve_race token) t"
      by (auto simp: create_identity_or_resolve_race_def Let_def e_def m_def)
    then show ?thesis using 1 2 ok g grows_trans[OF ok(2)] by (cases r) (auto simp: catch_act_def)
  qed
qed

definition keeps_at :: "'a act \<Rightarrow> txn \<Rightarrow> bool" where
  "keeps_at m t \<longleftrightarrow> tx_ok (snd (m t)) \<and> grows (tx_shared t) (tx_shared (snd (m t)))"

lemma keeps_at_keeps: "keeps_ok m \<Longrightarrow> tx_ok t \<Longrightarrow> keeps_at m t"
  by (simp add: keeps_ok_def keeps_at_def)

lemma keeps_at_bind:
  assumes "keeps_at m t" "\<And>a t'. m t = (Inr a, t') \<Longrightarrow> tx_ok t' \<Longrightarrow> keeps_at (f a) t'"
  shows "keeps_at (bind_act m f) t"
proof -
  obtain r t' where m: "m t = (r, t')" by (cases "m t")
  then have 1: "tx_ok t'" "grows (tx_shared t) (tx_shared t')" using assms(1) by (simp_all add: keeps_at_def)
  show ?thesis
  proof (cases r)
    case (Inl e)
    then show ?thesis using m 1 by (simp add: keeps_at_def bind_act_def)
  next
    case (Inr a)
    then have "keeps_at (f a) t'" using m assms(2) 1 by simp
    then show ?thesis using m Inr grows_trans[OF 1(2)] by (simp add: keeps_at_def bind_act_def)
  qed
qed

lemma provision_new_keeps:
  assumes "tx_ok t" "tx_pending t = no_writes"
  shows "keeps_at (provision_new pv token profile ttl) t"
proof -
  have find: "keeps_ok (find_exact_identity token)" unfolding find_exact_identity_def by (intro preserves_rules)
  have pend: "tx_pending t' = no_writes" if "find_exact_identity token t = (Inr a, t')" for a t'
    using that assms(2)
    by (auto simp: find_exact_identity_def bind_act_def select_stmt_def lift_act_def Let_def)
  have admit: "keeps_ok (bind_act (lift_act r) (\<lambda>active. admit_session pv token active ttl))" for r :: "exn + ActiveIdentity"
    by (intro preserves_rules admit_session_keeps)
  have new: "keeps_at (bind_act (create_identity_or_resolve_race pv token profile) (\<lambda>active. admit_session pv token active ttl)) t'"
    if "tx_ok t'" "tx_pending t' = no_writes" for t'
    using create_or_resolve_keeps[OF that, of pv token profile] that
    by (intro keeps_at_bind keeps_at_keeps[OF admit_session_keeps]) (auto simp: keeps_at_def Let_def)
  show ?thesis unfolding provision_new_def
  proof (rule keeps_at_bind[OF keeps_at_keeps[OF find assms(1)]])
    fix a t' assume h: "find_exact_identity token t = (Inr a, t')" "tx_ok t'"
    show "keeps_at (case a of None \<Rightarrow> bind_act (create_identity_or_resolve_race pv token profile)
          (\<lambda>active. admit_session pv token active ttl)
        | Some r \<Rightarrow> bind_act (lift_act (require_active r)) (\<lambda>active. admit_session pv token active ttl)) t'"
      using new[OF h(2) pend[OF h(1)]] keeps_at_keeps[OF admit h(2)] by (cases a) simp_all
  qed
qed

lemma admit_existing_keeps: "keeps_ok (admit_existing pv token identity ttl)"
  unfolding admit_existing_def lock_active_identity_def by (intro preserves_rules admit_session_keeps)

lemma transaction_keeps_at:
  assumes "keeps_at m \<lparr>tx_shared = d, tx_pending = no_writes, tx_script = script\<rparr>" "transaction script m d = (r, d')"
  shows "schema_ok d' \<and> grows d d'"
proof -
  have "grows e (with_writes e p)" for e p by (simp add: grows_def identity_keys_def session_keys_def)
  then show ?thesis using assms grows_trans
    by (fastforce simp: keeps_at_def transaction_def tx_ok_def split: sum.splits prod.splits)
qed

lemma repo_keeps:
  assumes "schema_ok d"
  shows "repo_provision_new_identity pv script token profile ttl d = (r, d') \<Longrightarrow> schema_ok d' \<and> grows d d'"
    "repo_admit_existing_identity pv script token identity ttl d = (r, d') \<Longrightarrow> schema_ok d' \<and> grows d d'"
  using transaction_keeps_at[OF provision_new_keeps[OF start_ok[OF assms]]]
    transaction_schema[OF admit_existing_keeps assms]
  by (simp_all add: repo_provision_new_identity_def repo_admit_existing_identity_def)

subsection \<open>The services\<close>

lemma sign_in_unfold:
  assumes "schema_ok d"
  shows "sign_in verify fetch ttl pv script token d = (case verify token of
      Inl e \<Rightarrow> (Inl (if e = AccessTokenVerificationError then SessionProvisioningAuthenticationError else e), d)
    | Inr v \<Rightarrow> (case identity_at d (vt_issuer v) (vt_subject v) of
        Some i \<Rightarrow>
          if is_active d i
          then repo_admit_existing_identity pv script v \<lparr>pi_identity_id = i_id i, pi_user_id = i_user_id i, pi_active = True\<rparr> ttl d
          else (Inl SessionProvisioningAuthenticationError, d)
      | None \<Rightarrow> (case fetch (vt_subject v) of
          Inl e \<Rightarrow> (Inl (if e = ExternalUserProfileNotFoundError then SessionProvisioningAuthenticationError else e), d)
        | Inr profile \<Rightarrow>
            if ep_subject profile \<noteq> vt_subject v
            then (Inl (ExternalUserProfileUnavailableError ''provider profile subject mismatch''), d)
            else if \<not> ep_email_verified profile then (Inl EmailVerificationRequiredError, d)
            else repo_provision_new_identity pv script v profile ttl d)))"
proof (cases "verify token")
  case (Inl e)
  then show ?thesis by (cases e) (simp_all add: sign_in_def provision_def)
next
  case (Inr v)
  show ?thesis
  proof (cases "identity_at d (vt_issuer v) (vt_subject v)")
    case (Some i)
    then show ?thesis using Inr by (simp add: sign_in_def provision_def find_identity_eq[OF assms])
  next
    case None
    show ?thesis
    proof (cases "fetch (vt_subject v)")
      case (Inl e)
      then show ?thesis using Inr None
        by (cases e) (simp_all add: sign_in_def provision_def find_identity_eq[OF assms])
    next
      case (Inr p)
      then show ?thesis using \<open>verify token = Inr v\<close> None
        by (simp add: sign_in_def provision_def find_identity_eq[OF assms])
    qed
  qed
qed

lemma identify_unfold:
  assumes "schema_ok d"
  shows "identify verify now token d = (case verify token of
      Inl e \<Rightarrow> Inl (if e = AccessTokenVerificationError then PrincipalAuthenticationError else e)
    | Inr v \<Rightarrow> (case principal_spec now v d of None \<Rightarrow> Inl PrincipalAuthenticationError | Some p \<Rightarrow> Inr p))"
proof (cases "verify token")
  case (Inl e)
  then show ?thesis by (cases e) (simp_all add: identify_def authenticate_def)
qed (simp add: identify_def authenticate_def resolve_active_principal[OF assms])

lemma sign_in_InrE:
  assumes "schema_ok d" "sign_in verify fetch ttl pv script token d = (Inr s, d')"
  obtains (existing) v i where "verify token = Inr v" "identity_at d (vt_issuer v) (vt_subject v) = Some i" "is_active d i"
      "repo_admit_existing_identity pv script v \<lparr>pi_identity_id = i_id i, pi_user_id = i_user_id i, pi_active = True\<rparr> ttl d = (Inr s, d')"
  | (first) v p where "verify token = Inr v" "identity_at d (vt_issuer v) (vt_subject v) = None"
      "fetch (vt_subject v) = Inr p" "ep_subject p = vt_subject v" "ep_email_verified p"
      "repo_provision_new_identity pv script v p ttl d = (Inr s, d')"
  using assms(2) that unfolding sign_in_unfold[OF assms(1)]
  by (auto split: sum.splits option.splits if_splits)

lemma sign_in_InlE:
  assumes "schema_ok d" "sign_in verify fetch ttl pv script token d = (Inl e, d')"
  shows "schema_ok d' \<and> grows d d' \<and> (refusal e \<or> e = EmailVerificationRequiredError
    \<or> (\<exists>m. e = ExternalUserProfileUnavailableError m) \<or> verify token = Inl e
    \<or> (\<exists>v. verify token = Inr v \<and> fetch (vt_subject v) = Inl e))"
proof (cases "d' = d \<and> (\<forall>v. verify token = Inr v \<longrightarrow> e = SessionProvisioningAuthenticationError
    \<or> e = EmailVerificationRequiredError \<or> (\<exists>m. e = ExternalUserProfileUnavailableError m) \<or> fetch (vt_subject v) = Inl e)")
  case True
  then show ?thesis using assms
    by (cases "verify token") (auto simp: sign_in_unfold[OF assms(1)] split: if_splits)
next
  case False
  then obtain v where "(\<exists>i. repo_admit_existing_identity pv script v i ttl d = (Inl e, d'))
      \<or> (\<exists>p. repo_provision_new_identity pv script v p ttl d = (Inl e, d'))"
    using assms(2) unfolding sign_in_unfold[OF assms(1)]
    by (cases "verify token"; simp split: option.splits sum.splits if_splits) auto
  then show ?thesis using repo_keeps[OF assms(1)] repo_sound(3,4)[OF assms(1)] by metis
qed

lemma sign_in_signed_in:
  assumes "schema_ok d" "sign_in verify fetch ttl pv [] token d = (Inr s, d')"
  obtains v a w where "verify token = Inr v" "d' = with_writes d w" "resolves d' v a" "admitted d' (pv_now pv) v a s"
  using assms(1,2)
proof (cases rule: sign_in_InrE)
  case (existing v i)
  then show thesis using repo_signed_in[OF assms(1)] that by metis
next
  case (first v p)
  then show thesis using repo_signed_in[OF assms(1)] that by metis
qed

subsection \<open>A sample\<close>

text \<open>
  A token and a profile; a first sign-in on an empty database; and a rival that creates the same
  user and identity between the look-up and the insert of the user.
\<close>

definition sample_token :: VerifiedAccessToken where
  "sample_token = \<lparr>vt_issuer = ''https://idp'', vt_subject = ''user_1'', vt_provider_session_id = ''sess_1'',
     vt_token_id = ''jti_1'', vt_issued_at = 0, vt_expires_at = 300000000\<rparr>"

definition sample_profile :: ExternalUserProfile where
  "sample_profile = \<lparr>ep_subject = ''user_1'', ep_email = '' Ada@Example.org'', ep_email_verified = True,
     ep_display_name = Some ''Ada''\<rparr>"

definition sample_provision :: "timestamp \<Rightarrow> Provision" where
  "sample_provision now = \<lparr>pv_now = now, pv_user_id = 1, pv_identity_id = 2, pv_session_id = 3, pv_audit_id = 4\<rparr>"

definition sample_sign_in :: "timestamp \<Rightarrow> (db \<Rightarrow> db) list \<Rightarrow> db \<Rightarrow> (exn + ProvisionedSession) \<times> db" where
  "sample_sign_in now script =
     sign_in (\<lambda>_. Inr sample_token) (\<lambda>_. Inr sample_profile) 3600 (sample_provision now) script ''t''"

definition rival :: "db \<Rightarrow> db" where
  "rival d = d\<lparr>users := users d @ [\<lparr>u_id = 8, u_email = ''ada@example.org'', u_email_normalized = ''ada@example.org'',
       u_display_name = None, u_status = ''ACTIVE''\<rparr>],
     identities := identities d @ [\<lparr>i_id = 9, i_user_id = 8, i_issuer = ''https://idp'', i_subject = ''user_1'',
       i_status = ''ACTIVE''\<rparr>]\<rparr>"

definition first_db :: db where
  "first_db = with_writes empty_db \<lparr>
     w_users = [\<lparr>u_id = 1, u_email = ''Ada@Example.org'', u_email_normalized = ''ada@example.org'',
       u_display_name = Some ''Ada'', u_status = ''ACTIVE''\<rparr>],
     w_identities = [\<lparr>i_id = 2, i_user_id = 1, i_issuer = ''https://idp'', i_subject = ''user_1'', i_status = ''ACTIVE''\<rparr>],
     w_sessions = [\<lparr>s_id = 3, s_identity_id = 2, s_provider_session_id = ''sess_1'', s_expires_at = 3601000000,
       s_revoked_at = None, s_created_at = 1000000\<rparr>],
     w_audit = [session_audit_row 1000000 4 1 3 ''00000000-0000-0000-0000-000000000003'']\<rparr>"

definition first_session :: ProvisionedSession where
  "first_session = \<lparr>ps_principal = \<lparr>ap_user_id = 1, ap_auth_session_id = 3, ap_email = ''Ada@Example.org'',
     ap_display_name = Some ''Ada''\<rparr>, ps_expires_at = 3601000000, ps_created = True\<rparr>"

lemma empty_db_ok: "schema_ok empty_db"
  by code_simp

lemma first_sign_in: "sample_sign_in 1000000 [] empty_db = (Inr first_session, first_db)"
  by code_simp

lemma raced_sign_in: "map_sum id (\<lambda>s. (ap_user_id (ps_principal s), ps_created s))
    (fst (sample_sign_in 1000000 [id, rival] empty_db)) = Inr (8, True)"
  by code_simp

subsection \<open>Signing in\<close>

lemma sign_in_facts:
  assumes "schema_ok d" "sign_in verify fetch ttl pv script token d = (r, d')"
  shows "schema_ok d' \<and> grows d d' \<and> (case r of
      Inr s \<Rightarrow> (\<exists>v. verify token = Inr v \<and> provisioned d' (pv_now pv) v s)
    | Inl e \<Rightarrow> refusal e \<or> e = EmailVerificationRequiredError \<or> (\<exists>m. e = ExternalUserProfileUnavailableError m)
        \<or> verify token = Inl e \<or> (\<exists>v. verify token = Inr v \<and> fetch (vt_subject v) = Inl e))"
proof (cases r)
  case (Inl e)
  show ?thesis using sign_in_InlE[OF assms(1) assms(2)[unfolded Inl]] unfolding Inl sum.case .
next
  case (Inr s)
  from assms(1) assms(2)[unfolded Inr] show ?thesis
  proof (cases rule: sign_in_InrE)
    case (existing v i)
    then show ?thesis using repo_keeps(2)[OF assms(1)] repo_sound(2)[OF assms(1)] Inr by fastforce
  next
    case (first v p)
    then show ?thesis using repo_keeps(1)[OF assms(1)] repo_sound(1)[OF assms(1)] Inr by fastforce
  qed
qed

lemmas sign_in_keeps = conjunct1[OF sign_in_facts] conjunct1[OF conjunct2[OF sign_in_facts]]



text \<open>
  C17: A first sign-in never leaves a user without an identity, whatever other sessions commit
  meanwhile: every user the transaction writes has an identity that it writes too, also when
  the identity lost its race and the savepoint was rolled back.
\<close>

theorem first_sign_in_leaves_no_orphan:
  assumes "schema_ok d" "provision_new pv token profile ttl \<lparr>tx_shared = d, tx_pending = no_writes, tx_script = script\<rparr> = (Inr s, t)"
  shows "\<forall>u \<in> set (w_users (tx_pending t)). \<exists>i \<in> set (w_identities (tx_pending t)). i_user_id i = u_id u"
  using provision_new_outcome[OF start_ok[OF assms(1)], of script pv token profile ttl] assms(2)
  by (simp add: outcome_def sound_def no_orphan_def)

theorem first_sign_in_leaves_no_orphan_witness:
  "\<exists>s t u i. provision_new (sample_provision 1000000) sample_token sample_profile 3600
      \<lparr>tx_shared = empty_db, tx_pending = no_writes, tx_script = []\<rparr> = (Inr s, t)
    \<and> u \<in> set (w_users (tx_pending t)) \<and> i \<in> set (w_identities (tx_pending t)) \<and> i_user_id i = u_id u"
proof -
  let ?p = "provision_new (sample_provision 1000000) sample_token sample_profile 3600
      \<lparr>tx_shared = empty_db, tx_pending = no_writes, tx_script = []\<rparr>"
  have "\<not> isl (fst ?p) \<and> w_users (tx_pending (snd ?p)) \<noteq> []" by code_simp
  then obtain s t u where p: "?p = (Inr s, t)" "u \<in> set (w_users (tx_pending t))"
    by (cases ?p; cases "fst ?p"; cases "w_users (tx_pending (snd ?p))") auto
  show ?thesis using p first_sign_in_leaves_no_orphan[OF empty_db_ok p(1)] by blast
qed

lemma live_session:
  assumes "schema_ok d" "admitted d now v a s" "resolves d v a"
  obtains i x where "identity_at d (vt_issuer v) (vt_subject v) = Some i" "is_active d i" "a = active_of d i"
    "session_at d (i_id i) (vt_provider_session_id v) = Some x" "s_revoked_at x = None"
    "s_expires_at x = ps_expires_at s" "ps_principal s = principal_of a (s_id x)" "s_provider_session_id x \<noteq> []"
proof -
  obtain i where i: "identity_at d (vt_issuer v) (vt_subject v) = Some i" "is_active d i" "a = active_of d i"
    using assms(3) by (auto simp: resolves_def)
  obtain x where x: "x \<in> set (auth_sessions d)" "s_id x = ap_auth_session_id (ps_principal s)"
    "s_identity_id x = ai_identity_id a" "s_provider_session_id x = vt_provider_session_id v"
    "s_revoked_at x = None" "s_expires_at x = ps_expires_at s"
    using assms(2) by (auto simp: admitted_def)
  have "session_at d (i_id i) (vt_provider_session_id v) = Some x"
    using x i(3) by (simp add: session_at_iff[OF assms(1)] active_of_def)
  moreover have "ps_principal s = principal_of a (s_id x)"
    using assms(2) x(2) by (simp add: admitted_def)
  ultimately show thesis using that i x(5,6) session_row_checks[OF assms(1) x(1)] by blast
qed

lemma identified:
  assumes "schema_ok d" "verify token = Inr v" "resolves d v a" "admitted d now' v a s" "now < ps_expires_at s"
  shows "identify verify now token d = Inr (ps_principal s)"
proof -
  obtain i x where x: "identity_at d (vt_issuer v) (vt_subject v) = Some i" "is_active d i" "a = active_of d i"
    "session_at d (i_id i) (vt_provider_session_id v) = Some x" "s_revoked_at x = None"
    "s_expires_at x = ps_expires_at s" "ps_principal s = principal_of a (s_id x)"
    by (rule live_session[OF assms(1,4,3)]) blast
  have "principal_spec now v d = Some (ps_principal s)"
    unfolding principal_spec_def x(1,4) option.case x(7) x(3) live_def x(5,6) using x(2) assms(5) by simp
  then show ?thesis by (simp add: identify_unfold[OF assms(1)] assms(2))
qed

lemma session_identifies:
  assumes "schema_ok d" "sign_in verify fetch ttl pv [] token d = (Inr s, d')" "now < ps_expires_at s"
  shows "identify verify now token d' = Inr (ps_principal s)"
proof -
  have ok: "schema_ok d'" using sign_in_keeps(1)[OF assms(1,2)] by simp
  obtain v a w where v: "verify token = Inr v" "resolves d' v a" "admitted d' (pv_now pv) v a s"
    using sign_in_signed_in[OF assms(1,2)] by metis
  show ?thesis using ok v assms(3) by (rule identified)
qed



lemma insert_session_conflict:
  assumes "schema_ok d" "session_at d iid psid = Some x" "0 < ttl"
  shows "sql_insert_session now sid iid psid ttl d = Inr ([], no_writes)"
proof -
  have x: "x \<in> set (auth_sessions d)" "s_identity_id x = iid" "s_provider_session_id x = psid"
    using assms(2) by (simp_all add: session_at_iff[OF assms(1)])
  have "psid \<noteq> []" using session_row_checks[OF assms(1) x(1)] x(3) by simp
  moreover have "(iid, psid) \<in> set (map (\<lambda>s. (s_identity_id s, s_provider_session_id s)) (auth_sessions d))"
    using x by force
  ultimately show ?thesis using assms(3) by (simp add: sql_insert_session_def)
qed

lemma find_session_at:
  assumes "schema_ok d" "session_at d iid psid = Some x"
  shows "sql_find_session now iid psid d = [found_row now x]"
  by (simp add: sql_find_session_def session_at_eq[OF assms(1)] assms(2) found_row_def)

lemma admit_existing_session:
  assumes "schema_ok d" "identity_at d (vt_issuer v) (vt_subject v) = Some i" "is_active d i"
    and "session_at d (i_id i) (vt_provider_session_id v) = Some x" "0 < ttl"
  shows "repo_admit_existing_identity pv [] v \<lparr>pi_identity_id = i_id i, pi_user_id = u, pi_active = b\<rparr> ttl d =
    (reuse_session (active_of d i) (found_row (pv_now pv) x), d)"
proof -
  define t where "t = \<lparr>tx_shared = d, tx_pending = no_writes, tx_script = [] :: (db \<Rightarrow> db) list\<rparr>"
  have t: "interfere t = t" "tx_view t = d" "tx_pending t = no_writes" "tx_shared t = d" by (simp_all add: t_def)
  have same: "t\<lparr>tx_pending := no_writes\<rparr> = t" by (simp add: t_def)
  have id: "ai_identity_id (active_of d i) = i_id i" by (simp add: active_of_def)
  have "lock_active_identity v (i_id i) t = (Inr (active_of d i), t)"
    by (simp add: lock_active_identity_def bind_act_def select_stmt_def lift_act_def Let_def t lock_active_row[OF assms(1)]
        assms(2,3) active_identity_from_row_def row_get_def active_of_def)
  moreover have "admit_session pv v (active_of d i) ttl t = (reuse_session (active_of d i) (found_row (pv_now pv) x), t)"
    by (simp add: admit_session_def bind_act_def insert_stmt_def select_stmt_def lift_act_def Let_def t id same
        insert_session_conflict[OF assms(1,4,5)] find_session_at[OF assms(1,4)])
  ultimately show ?thesis
    by (simp add: repo_admit_existing_identity_def transaction_def t_def[symmetric] admit_existing_def bind_act_def t
        split: sum.split)
qed

lemma admit_existing_reuses:
  assumes "schema_ok d" "identity_at d (vt_issuer v) (vt_subject v) = Some i" "is_active d i"
    and "session_at d (i_id i) (vt_provider_session_id v) = Some x" "s_revoked_at x = None"
    and "pv_now pv < s_expires_at x" "0 < ttl"
  shows "repo_admit_existing_identity pv [] v \<lparr>pi_identity_id = i_id i, pi_user_id = u, pi_active = b\<rparr> ttl d =
    (Inr \<lparr>ps_principal = principal_of (active_of d i) (s_id x), ps_expires_at = s_expires_at x, ps_created = False\<rparr>, d)"
  unfolding admit_existing_session[OF assms(1-4,7)] reuse_session_found using assms(5,6) by simp

lemma session_reused:
  assumes "schema_ok d" "sign_in verify fetch ttl pv [] token d = (Inr s, d')"
    and "pv_now pv' < ps_expires_at s" "0 < ttl'"
  shows "sign_in verify fetch' ttl' pv' [] token d' = (Inr (s\<lparr>ps_created := False\<rparr>), d')"
proof -
  have ok: "schema_ok d'" using sign_in_keeps(1)[OF assms(1,2)] by simp
  obtain v a w where v: "verify token = Inr v" "resolves d' v a" "admitted d' (pv_now pv) v a s"
    using sign_in_signed_in[OF assms(1,2)] by metis
  obtain i x where x: "identity_at d' (vt_issuer v) (vt_subject v) = Some i" "is_active d' i" "a = active_of d' i"
    "session_at d' (i_id i) (vt_provider_session_id v) = Some x" "s_revoked_at x = None"
    "s_expires_at x = ps_expires_at s" "ps_principal s = principal_of a (s_id x)" "s_provider_session_id x \<noteq> []"
    by (rule live_session[OF ok v(3,2)])
  have "repo_admit_existing_identity pv' [] v \<lparr>pi_identity_id = i_id i, pi_user_id = i_user_id i, pi_active = True\<rparr> ttl' d' =
      (Inr \<lparr>ps_principal = principal_of a (s_id x), ps_expires_at = s_expires_at x, ps_created = False\<rparr>, d')"
    unfolding x(3) by (rule admit_existing_reuses[OF ok x(1,2,4,5) _ assms(4)]) (use assms(3) x(6) in simp)
  then show ?thesis
    unfolding sign_in_unfold[OF ok] v(1) sum.case x(1) option.case using x(2,6,7) by (cases s) simp
qed



lemma identity_at_iff:
  assumes "schema_ok d"
  shows "identity_at d iss sub = Some i \<longleftrightarrow> i \<in> set (identities d) \<and> i_issuer i = iss \<and> i_subject i = sub"
proof -
  have "i \<in> set (identities d) \<and> i_issuer i = iss \<and> i_subject i = sub \<longleftrightarrow>
      i \<in> set (filter (\<lambda>i. i_issuer i = iss \<and> i_subject i = sub) (identities d))"
    by simp
  then show ?thesis unfolding identity_filter[OF assms] by (auto split: option.splits)
qed

text \<open>
  C20: A session that was revoked or has expired is never revived: a sign-in with its provider
  session is refused and changes nothing, and its token identifies nobody.
\<close>

theorem dead_session_refused:
  assumes "schema_ok d" "verify token = Inr v"
    and "i \<in> set (identities d)" "i_issuer i = vt_issuer v" "i_subject i = vt_subject v"
    and "x \<in> set (auth_sessions d)" "s_identity_id x = i_id i" "s_provider_session_id x = vt_provider_session_id v"
    and "s_revoked_at x \<noteq> None \<or> s_expires_at x \<le> pv_now pv" "0 < ttl"
  shows "sign_in verify fetch ttl pv [] token d = (Inl SessionProvisioningAuthenticationError, d)
    \<and> identify verify (pv_now pv) token d = Inl PrincipalAuthenticationError"
proof -
  have i: "identity_at d (vt_issuer v) (vt_subject v) = Some i" using assms(3-5) by (simp add: identity_at_iff[OF assms(1)])
  have x: "session_at d (i_id i) (vt_provider_session_id v) = Some x" using assms(6-8) by (simp add: session_at_iff[OF assms(1)])
  have dead: "\<not> live (pv_now pv) x" using assms(9) by (auto simp: live_def)
  have "reuse_session (active_of d i) (found_row (pv_now pv) x) = Inl SessionProvisioningAuthenticationError"
    using assms(9) by (auto simp: reuse_session_found)
  then have "sign_in verify fetch ttl pv [] token d = (Inl SessionProvisioningAuthenticationError, d)"
    using admit_existing_session[OF assms(1) i _ x assms(10)]
    by (simp add: sign_in_unfold[OF assms(1)] assms(2) i)
  moreover have "principal_spec (pv_now pv) v d = None"
    using dead by (simp add: principal_spec_def i x)
  ultimately show ?thesis by (simp add: identify_unfold[OF assms(1)] assms(2))
qed

theorem dead_session_refused_witness:
  "sign_in (\<lambda>_. Inr sample_token) (\<lambda>_. Inr sample_profile) 60 (sample_provision 3601000000) [] ''t'' first_db =
      (Inl SessionProvisioningAuthenticationError, first_db)
    \<and> identify (\<lambda>_. Inr sample_token) 3601000000 ''t'' first_db = Inl PrincipalAuthenticationError"
proof -
  have ok: "schema_ok first_db" by code_simp
  from dead_session_refused[OF ok, where v = sample_token and pv = "sample_provision 3601000000" and ttl = 60
      and verify = "\<lambda>_. Inr sample_token" and token = "''t''" and fetch = "\<lambda>_. Inr sample_profile"
      and i = "hd (identities first_db)" and x = "hd (auth_sessions first_db)"]
  show ?thesis by (simp add: first_db_def empty_db_def sample_token_def sample_provision_def)
qed

lemma repo_admit_writes:
  assumes "schema_ok d" "repo_admit_existing_identity pv [] token identity ttl d = (Inr s, d')"
  shows "users d' = users d"
proof -
  let ?t = "\<lparr>tx_shared = d, tx_pending = no_writes, tx_script = [] :: (db \<Rightarrow> db) list\<rparr>"
  have "outcome (admit_existing pv token identity ttl) ?t
    (\<lambda>s t'. (w_users (tx_pending t') = [] \<and> w_identities (tx_pending t') = []) \<and> signed_in d (pv_now pv) token s t')
    (\<lambda>_ _. True \<and> True)"
    using outcome_conj[OF admit_existing_writes admit_existing_signed] start_ok[OF assms(1)] by fastforce
  from transaction_outcome[OF this assms(2)[unfolded repo_admit_existing_identity_def]]
  show ?thesis by (auto simp: signed_in_def)
qed

lemma repo_new_writes:
  assumes "schema_ok d" "identity_at d (vt_issuer token) (vt_subject token) = None"
    and "repo_provision_new_identity pv [] token p ttl d = (Inr s, d')"
  shows "\<exists>w. d' = with_writes d w
    \<and> new_user d token (strip (ep_email p)) (casefold (strip (ep_email p))) (ep_display_name p) w"
proof -
  let ?t = "\<lparr>tx_shared = d, tx_pending = no_writes, tx_script = [] :: (db \<Rightarrow> db) list\<rparr>"
  have "outcome (provision_new pv token p ttl) ?t
    (\<lambda>s t'. new_user d token (strip (ep_email p)) (casefold (strip (ep_email p))) (ep_display_name p) (tx_pending t')
      \<and> signed_in d (pv_now pv) token s t') (\<lambda>_ _. True \<and> True)"
    using outcome_conj[OF provision_new_writes provision_new_signed] start_ok[OF assms(1)] assms(2) by fastforce
  from transaction_outcome[OF this assms(3)[unfolded repo_provision_new_identity_def]]
  show ?thesis by (auto simp: signed_in_def)
qed

lemma transaction_failed_quiet:
  assumes "quiet m" "transaction [] m d = (Inl e, d')"
  shows "d' = d"
  using assms(2) quietD[OF assms(1), of "\<lparr>tx_shared = d, tx_pending = no_writes, tx_script = []\<rparr>"]
  by (auto simp: transaction_def split: sum.splits prod.splits)

lemma provision_quiet: "quiet (provision_new pv token profile ttl)" "quiet (admit_existing pv token identity ttl)"
  unfolding provision_new_def admit_existing_def lock_active_identity_def find_exact_identity_def
    create_identity_or_resolve_race_def Let_def create_identity_def resolve_race_def
  by (intro preserves_rules admit_session_quiet)+

lemma sign_in_failed_quiet:
  assumes "schema_ok d" "sign_in verify fetch ttl pv [] token d = (Inl e, d')"
  shows "d' = d"
proof (rule ccontr)
  assume ne: "d' \<noteq> d"
  then obtain v where "(\<exists>i. repo_admit_existing_identity pv [] v i ttl d = (Inl e, d'))
      \<or> (\<exists>p. repo_provision_new_identity pv [] v p ttl d = (Inl e, d'))"
    using assms(2) unfolding sign_in_unfold[OF assms(1)]
    by (cases "verify token"; simp split: option.splits sum.splits if_splits) auto
  then show False using transaction_failed_quiet[OF provision_quiet(1)] transaction_failed_quiet[OF provision_quiet(2)] ne
    by (metis repo_admit_existing_identity_def repo_provision_new_identity_def)
qed

text \<open>
  C21: A sign-in that nobody interferes with adds a user only for a token with no identity yet,
  whose profile has the token's subject and a verified email: then it adds one user, with that
  email, stripped, and a normalised email nobody has yet, and one identity, that of the token.
\<close>

theorem first_sign_in_gated:
  assumes "schema_ok d" "sign_in verify fetch ttl pv [] token d = (r, d')" "users d' \<noteq> users d"
  shows "\<exists>v p u i. verify token = Inr v \<and> fetch (vt_subject v) = Inr p
    \<and> ep_subject p = vt_subject v \<and> ep_email_verified p
    \<and> (vt_issuer v, vt_subject v) \<notin> set (map (\<lambda>i. (i_issuer i, i_subject i)) (identities d))
    \<and> users d' = users d @ [u] \<and> u_email u = strip (ep_email p)
    \<and> u_email_normalized u = casefold (strip (ep_email p)) \<and> u_email_normalized u \<notin> set (map u_email_normalized (users d))
    \<and> identities d' = identities d @ [i] \<and> i_user_id i = u_id u \<and> i_issuer i = vt_issuer v \<and> i_subject i = vt_subject v"
proof (cases r)
  case (Inl e)
  then show ?thesis using sign_in_failed_quiet[OF assms(1,2)[unfolded Inl]] assms(3) by simp
next
  case (Inr s)
  from assms(1) assms(2)[unfolded Inr] show ?thesis
  proof (cases rule: sign_in_InrE)
    case (existing v i)
    then show ?thesis using repo_admit_writes[OF assms(1)] assms(3) by blast
  next
    case (first v p)
    have free: "(vt_issuer v, vt_subject v) \<notin> set (map (\<lambda>i. (i_issuer i, i_subject i)) (identities d))"
      using first(2) unfolding identity_at_None .
    obtain w where "d' = with_writes d w" "new_user d v (strip (ep_email p)) (casefold (strip (ep_email p))) (ep_display_name p) w"
      using repo_new_writes[OF assms(1) first(2,6)] by blast
    then show ?thesis using first(1,3,4,5) free unfolding new_user_def by fastforce
  qed
qed

theorem first_sign_in_gated_witness:
  "\<exists>u. users first_db = users empty_db @ [u] \<and> u_email_normalized u = casefold (strip (ep_email sample_profile))"
proof -
  have "users first_db \<noteq> users empty_db" by (simp add: first_db_def empty_db_def)
  from first_sign_in_gated[OF empty_db_ok first_sign_in[unfolded sample_sign_in_def] this]
  show ?thesis by auto
qed

end
