(* ===== verification/WorkosFacts.thy ===== *)
theory WorkosFacts
  imports Authentication
begin

section \<open>The WorkOS adapters\<close>

text \<open>
  What an accepted access token has been checked for, which exceptions the verifier and the
  profile client let through, and that the path of a user names that user only.
\<close>

subsection \<open>The access token verifier\<close>

lemma json_str_case:
  "(case j of Some (JStr s) \<Rightarrow> f s | _ \<Rightarrow> Inl e) = Inr x \<longleftrightarrow> (\<exists>s. j = Some (JStr s) \<and> f s = Inr x)"
  "(case j of Some (JStr s) \<Rightarrow> f s | _ \<Rightarrow> Inl e) = Inl y \<longleftrightarrow>
    (\<exists>s. j = Some (JStr s) \<and> f s = Inl y) \<or> (\<nexists>s. j = Some (JStr s)) \<and> y = e"
  by (auto split: option.splits json.splits)

lemma required_string_Inr:
  "required_non_empty_string payload c = Inr s \<longleftrightarrow> map_of payload c = Some (JStr s) \<and> s \<noteq> []"
  by (auto simp: required_non_empty_string_def split: option.splits json.splits if_splits)

lemma required_string_Inl: "required_non_empty_string payload c = Inl e \<Longrightarrow> e = AccessTokenVerificationError"
  by (auto simp: required_non_empty_string_def split: option.splits json.splits if_splits)

lemma required_timestamp_Inr: "required_timestamp payload c = Inr n \<longleftrightarrow> map_of payload c = Some (JInt n)"
  by (auto simp: required_timestamp_def split: option.splits json.splits)

lemma required_timestamp_Inl: "required_timestamp payload c = Inl e \<Longrightarrow> e = AccessTokenVerificationError"
  by (auto simp: required_timestamp_def split: option.splits json.splits)

lemma fromtimestamp_Inr: "fromtimestamp n = Inr t \<longleftrightarrow> t = n * 1000000 \<and> - 62135596800 \<le> n \<and> n \<le> 253402300799"
  by (auto simp: fromtimestamp_def)

definition caught :: "exn \<Rightarrow> bool" where
  "caught e \<longleftrightarrow> (\<exists>m. e = PyJWTError m \<or> e = PyJWKClientError m \<or> e = ValueError m \<or> e = OverflowError m)"

lemma verification_failed_eq:
  "verification_failed (Inr a) = Inr a"
  "verification_failed (Inl e) = Inl (if caught e then AccessTokenVerificationError else e)"
  by (simp add: verification_failed_def) (cases e; simp add: verification_failed_def caught_def)

lemma verification_failed_InrD: "verification_failed r = Inr a \<Longrightarrow> r = Inr a"
  by (cases r) (auto simp: verification_failed_eq)

lemma verification_failed_InlD:
  "verification_failed r = Inl e \<Longrightarrow> e = AccessTokenVerificationError \<or> r = Inl e \<and> \<not> caught e"
  by (cases r) (auto simp: verification_failed_eq split: if_splits)

lemma fromtimestamp_Inl:
  "fromtimestamp n = Inl e \<Longrightarrow> caught e \<or> (\<exists>m. e = OSError m) \<and> (n < - 67768040609740800 \<or> 67768036191676799 < n)"
  by (auto simp: fromtimestamp_def caught_def split: if_splits)

lemma claims_Inr:
  assumes "claims_from_payload settings payload = Inr v"
  shows "map_of payload ''client_id'' = Some (JStr (as_client_id settings))
    \<and> map_of payload ''iss'' = Some (JStr (vt_issuer v)) \<and> vt_issuer v \<noteq> []
    \<and> map_of payload ''sub'' = Some (JStr (vt_subject v)) \<and> vt_subject v \<noteq> []
    \<and> map_of payload ''sid'' = Some (JStr (vt_provider_session_id v)) \<and> vt_provider_session_id v \<noteq> []
    \<and> map_of payload ''jti'' = Some (JStr (vt_token_id v)) \<and> vt_token_id v \<noteq> []
    \<and> (\<exists>iat expiry. map_of payload ''iat'' = Some (JInt iat) \<and> map_of payload ''exp'' = Some (JInt expiry)
        \<and> vt_issued_at v = iat * 1000000 \<and> vt_expires_at v = expiry * 1000000 \<and> iat < expiry)"
  using assms
  by (auto simp: claims_from_payload_def bind_res_eq_Inr required_string_Inr required_timestamp_Inr fromtimestamp_Inr
      split: if_splits)

lemma claims_Inl:
  assumes "claims_from_payload settings payload = Inl e"
  shows "caught e \<or> e = AccessTokenVerificationError \<or> (\<exists>m. e = OSError m) \<and> (\<exists>c n. c \<in> {''iat'', ''exp''}
    \<and> map_of payload c = Some (JInt n) \<and> (n < - 67768040609740800 \<or> 67768036191676799 < n))"
  using assms
  by (auto simp: claims_from_payload_def bind_res_eq_Inl required_timestamp_Inr split: if_splits
      dest!: required_string_Inl required_timestamp_Inl fromtimestamp_Inl)


definition sample_settings :: AuthenticationSettings where
  "sample_settings = \<lparr>as_issuer = ''https://idp'', as_client_id = ''client_1'', as_max_bearer_token_length = 8192,
     as_jwt_leeway_seconds = 30\<rparr>"

text \<open>A PyJWT that decodes one token, with expiry \<open>n\<close>.\<close>

definition sample_jwt :: "int \<Rightarrow> unit Jwt" where
  "sample_jwt n = \<lparr>
     get_unverified_header = (\<lambda>_. Inr [(''alg'', JStr ''RS256''), (''kid'', JStr ''key_1'')]),
     get_signing_key = (\<lambda>kid. if kid = ''key_1'' then Inr () else Inl (PyJWKClientError ''no key'')),
     jwt_decode = (\<lambda>t _ _ _ _ _. if t = ''a.b.c''
       then Inr [(''iss'', JStr ''https://idp''), (''sub'', JStr ''user_1''), (''sid'', JStr ''sess_1''), (''jti'', JStr ''jti_1''),
                 (''iat'', JInt 1700000000), (''exp'', JInt n), (''client_id'', JStr ''client_1'')]
       else Inl (PyJWTError ''invalid signature''))\<rparr>"

lemma sample_jwt_accepts:
  "verify_access_token (sample_jwt 1700000300) sample_settings ''a.b.c'' = Inr
    \<lparr>vt_issuer = ''https://idp'', vt_subject = ''user_1'', vt_provider_session_id = ''sess_1'', vt_token_id = ''jti_1'',
     vt_issued_at = 1700000000000000, vt_expires_at = 1700000300000000\<rparr>"
  by code_simp


text \<open>
  C30: Where PyJWT and the key client raise only their own errors and \<open>ValueError\<close>, a token that is
  not accepted raises \<open>AccessTokenVerificationError\<close>, which the services turn into their
  authentication errors. The one exception is an \<open>OSError\<close>, for an issue or expiry time whose year
  does not fit the platform's \<open>gmtime\<close>, and it does escape.
\<close>

theorem access_token_refused:
  assumes "\<And>t e. get_unverified_header jwt t = Inl e \<Longrightarrow> caught e"
    and "\<And>kid e. get_signing_key jwt kid = Inl e \<Longrightarrow> caught e"
    and "\<And>t k algs iss l req e. jwt_decode jwt t k algs iss l req = Inl e \<Longrightarrow> caught e"
    and "verify_access_token jwt settings token = Inl e"
  shows "e = AccessTokenVerificationError \<or> (\<exists>m. e = OSError m) \<and> (\<exists>key payload c n.
      jwt_decode jwt token key [''RS256''] (as_issuer settings) (as_jwt_leeway_seconds settings) REQUIRED_CLAIMS = Inr payload
      \<and> c \<in> {''iat'', ''exp''} \<and> map_of payload c = Some (JInt n) \<and> (n < - 67768040609740800 \<or> 67768036191676799 < n))"
proof (cases "token = [] \<or> as_max_bearer_token_length settings < length token")
  case True
  then show ?thesis using assms(4) by (auto simp: verify_access_token_def)
next
  case False
  then have "verify_sync jwt settings token = Inl e" using assms(4) by (auto simp: verify_access_token_def)
  then consider "e = AccessTokenVerificationError" | key payload where "\<not> caught e"
      "jwt_decode jwt token key [''RS256''] (as_issuer settings) (as_jwt_leeway_seconds settings) REQUIRED_CLAIMS = Inr payload"
      "claims_from_payload settings payload = Inl e"
    using assms(1-3)
    by (auto simp: verify_sync_def WORKOS_SIGNING_ALGORITHMS_def bind_res_eq_Inl json_str_case
        split: if_splits dest!: verification_failed_InlD)
  then show ?thesis
  proof cases
    case (2 key payload)
    then show ?thesis using claims_Inl[OF 2(3)] by blast
  qed simp
qed

lemma escaping_os_error:
  "verify_access_token (sample_jwt 100000000000000000) sample_settings ''a.b.c'' =
    Inl (OSError ''Value too large for defined data type'')"
  by code_simp

theorem access_token_refused_witness:
  "\<exists>payload c n. jwt_decode (sample_jwt 100000000000000000) ''a.b.c'' () [''RS256''] ''https://idp'' 30 REQUIRED_CLAIMS = Inr payload
    \<and> c \<in> {''iat'', ''exp''} \<and> map_of payload c = Some (JInt n) \<and> (n < - 67768040609740800 \<or> 67768036191676799 < n)"
  using access_token_refused[OF _ _ _ escaping_os_error]
  by (simp add: sample_jwt_def caught_def sample_settings_def split: if_splits)

subsection \<open>The profile client\<close>

text \<open>
  A profile the client returns is that of the requested user, from a response with status 200,
  with a non-empty, stripped email and no blank display name. Where the HTTP client raises only
  its own errors, the client raises \<open>ExternalUserProfileNotFoundError\<close> exactly for status 404 and
  \<open>ExternalUserProfileUnavailableError\<close> for everything else.
\<close>

theorem fetch_user_outcome:
  assumes "\<And>path e. get path = Inl e \<Longrightarrow> (\<exists>m. e = HTTPError m)"
    and "\<And>path status e. get path = Inr (status, Inl e) \<Longrightarrow> (\<exists>m. e = ValueError m)"
  shows "case fetch_user get subject of
      Inr p \<Rightarrow> ep_subject p = subject \<and> ep_email p \<noteq> [] \<and> trimmed (ep_email p)
        \<and> (\<forall>n. ep_display_name p = Some n \<longrightarrow> n \<noteq> [] \<and> trimmed n)
        \<and> (\<exists>payload. get (''/user_management/users/'' @ quote_path subject) = Inr (200, Inr (JObj payload))
            \<and> map_of payload ''id'' = Some (JStr subject) \<and> map_of payload ''email_verified'' = Some (JBool (ep_email_verified p)))
    | Inl e \<Rightarrow> e = ExternalUserProfileNotFoundError \<and> (\<exists>body. get (''/user_management/users/'' @ quote_path subject) = Inr (404, body))
        \<or> (\<exists>m. e = ExternalUserProfileUnavailableError m) \<and> (\<nexists>body. get (''/user_management/users/'' @ quote_path subject) = Inr (404, body))"
proof -
  define path where "path = ''/user_management/users/'' @ quote_path subject"
  show ?thesis
  proof (cases "get path")
    case (Inl e)
    then show ?thesis unfolding fetch_user_def path_def[symmetric] using assms(1)[OF Inl] by auto
  next
    case (Inr sb)
    obtain status body where sb: "get path = Inr (status, body)" using Inr by (cases sb) auto
    show ?thesis
    proof (cases "status = 200 \<and> (\<exists>payload. body = Inr (JObj payload))")
      case True
      then obtain payload where "status = 200" "body = Inr (JObj payload)" by blast
      then show ?thesis unfolding fetch_user_def path_def[symmetric] sb
        by (auto simp: trimmed_strip split: option.split json.split)
    next
      case False
      then show ?thesis unfolding fetch_user_def path_def[symmetric] using sb assms(2)[of path status]
        by (cases body) (auto split: json.split)
    qed
  qed
qed

theorem fetch_user_outcome_witness:
  "fetch_user (\<lambda>_. Inr (404, Inr JNull)) ''user_1'' = Inl ExternalUserProfileNotFoundError
    \<and> ep_email (projr (fetch_user (\<lambda>_. Inr (200, Inr (JObj [(''id'', JStr ''user_1''), (''email'', JStr '' a@b.c ''),
        (''email_verified'', JBool True)]))) ''user_1'')) = ''a@b.c''"
  using fetch_user_outcome[of "\<lambda>_. Inr (404, Inr JNull)" "''user_1''"] by (auto simp: fetch_user_def strip_def is_space_def split: sum.splits)

subsection \<open>The path of a user\<close>

lemma upper_hex_inj: "a < 16 \<Longrightarrow> b < 16 \<Longrightarrow> upper_hex a = upper_hex b \<Longrightarrow> a = b"
  by (auto simp: upper_hex_def char_of_eq_iff of_char_of take_bit_eq_mod dest!: arg_cong[where f = "of_char :: char \<Rightarrow> nat"] split: if_splits)

lemma percent_inj:
  assumes "a < 256" "b < 256" "percent a @ s = percent b @ t"
  shows "a = b \<and> s = t"
proof -
  have "a div 16 = b div 16" "a mod 16 = b mod 16"
    using assms by (auto simp: percent_def intro!: upper_hex_inj)
  then have "a = b" by (metis div_mult_mod_eq)
  then show ?thesis using assms(3) by (simp add: percent_def)
qed

lemma quote_char_prefix_free:
  assumes "quote_char c @ s = quote_char d @ t"
  shows "c = d \<and> s = t"
proof -
  define m n where "m = (of_char c :: nat)" and "n = (of_char d :: nat)"
  have mn: "m < 256" "n < 256" by (simp_all add: m_def n_def)
  have pc: "\<not> unreserved CHR ''%''" by (simp add: unreserved_def)
  have cd: "c = d" if "m = n" using that by (simp add: m_def n_def)
  note q = assms[unfolded quote_char_def Let_def m_def[symmetric] n_def[symmetric]]
  have lead: "192 + m div 64 < 256" "192 + n div 64 < 256" "128 + m mod 64 < 256" "128 + n mod 64 < 256"
    using mn by simp_all
  show ?thesis
  proof (cases "unreserved c \<or> unreserved d")
    case True
    then show ?thesis using q pc by (auto simp: percent_def split: if_splits)
  next
    case False
    consider "m < 128 \<and> n < 128" | "m < 128 \<and> 128 \<le> n" | "128 \<le> m \<and> n < 128" | "128 \<le> m \<and> 128 \<le> n" by linarith
    then show ?thesis
    proof cases
      case 1
      then have "percent m @ s = percent n @ t" using q False by simp
      from percent_inj[OF mn this] cd show ?thesis by simp
    next
      case 2
      then have "percent m @ s = percent (192 + n div 64) @ (percent (128 + n mod 64) @ t)" using q False by simp
      from percent_inj[OF mn(1) lead(2) this] 2 show ?thesis by simp
    next
      case 3
      then have "percent (192 + m div 64) @ (percent (128 + m mod 64) @ s) = percent n @ t" using q False by simp
      from percent_inj[OF lead(1) mn(2) this] 3 show ?thesis by simp
    next
      case 4
      then have "percent (192 + m div 64) @ (percent (128 + m mod 64) @ s) =
        percent (192 + n div 64) @ (percent (128 + n mod 64) @ t)" using q False by simp
      from percent_inj[OF lead(1,2) this] have h: "m div 64 = n div 64" "percent (128 + m mod 64) @ s = percent (128 + n mod 64) @ t"
        by simp_all
      from percent_inj[OF lead(3,4) h(2)] h(1) have "m = n \<and> s = t" by (metis add_left_cancel div_mult_mod_eq)
      then show ?thesis using cd by simp
    qed
  qed
qed

lemma quote_char_safe: "x \<in> set (quote_char c) \<Longrightarrow> unreserved x \<or> x = CHR ''%''"
proof -
  have hex: "unreserved (upper_hex a)" if "a < 16" for a
    using that by (auto simp: unreserved_def upper_hex_def of_char_of)
  have p: "x \<in> set (percent b) \<Longrightarrow> unreserved x \<or> x = CHR ''%''" if "b < 256" for b
    using that by (auto simp: percent_def intro!: hex)
  have "192 + (of_char c :: nat) div 64 < 256" using nat_of_char_less_256[of c] by linarith
  moreover have "128 + (of_char c :: nat) mod 64 < 256" by simp
  moreover assume "x \<in> set (quote_char c)"
  ultimately show "unreserved x \<or> x = CHR ''%''"
    using p[of "of_char c"] p[of "192 + of_char c div 64"] p[of "128 + of_char c mod 64"]
    by (auto simp: quote_char_def Let_def split: if_splits)
qed

text \<open>
  The path segment of a user has no character but letters, digits, \<open>_.-~\<close> and \<open>%\<close>, so no
  identifier adds a path segment, a query or a fragment, and two identifiers never share a segment.
\<close>

theorem user_path_confined:
  "(\<forall>c \<in> set (quote_path s). unreserved c \<or> c = CHR ''%'') \<and> (quote_path s = quote_path t \<longleftrightarrow> s = t)"
proof -
  have ne: "quote_char c \<noteq> []" for c by (simp add: quote_char_def Let_def percent_def)
  have "quote_path s = quote_path t \<Longrightarrow> s = t"
  proof (induction s arbitrary: t)
    case Nil
    then show ?case using ne by (cases t) (auto simp: quote_path_def)
  next
    case (Cons c s)
    then obtain d u where t: "t = d # u" using ne by (cases t) (auto simp: quote_path_def)
    then have "quote_char c @ quote_path s = quote_char d @ quote_path u" using Cons.prems by (simp add: quote_path_def)
    from quote_char_prefix_free[OF this] Cons.IH t show ?case by simp
  qed
  then show ?thesis using quote_char_safe by (auto simp: quote_path_def)
qed

theorem user_path_confined_witness:
  "quote_path ''a/../b?c'' = ''a%2F..%2Fb%3Fc'' \<and> list_all (\<lambda>c. unreserved c \<or> c = CHR ''%'') (quote_path ''a/../b?c'')"
proof -
  have "quote_path ''a/../b?c'' = ''a%2F..%2Fb%3Fc''" by code_simp
  then show ?thesis using user_path_confined[of "''a/../b?c''" "[]"] by (simp add: list_all_iff)
qed

end
