(* ===== verification/Problems.thy ===== *)
theory Problems
  imports ConnectionProviders
begin

section \<open>The public problem layer\<close>

text \<open>
  \<open>api/problems/schemas.py\<close>, \<open>registry.py\<close>, \<open>exceptions.py\<close> and \<open>handlers.py\<close>: the registry of
  public problems, and the handlers that turn every exception that leaves a route into a
  Problem Details response. \<open>api_exn\<close> is what can leave a route: an exception of the domains or the
  drivers, a \<open>ProblemException\<close>, FastAPI's \<open>RequestValidationError\<close> and Starlette's \<open>HTTPException\<close>.
  \<open>handle_exception\<close> is the look-up of Starlette over the handlers that are registered.
\<close>

subsection \<open>Schemas and registry\<close>

datatype ProblemCode =
    AUTH_INVALID_CREDENTIALS
  | AUTH_EMAIL_VERIFICATION_REQUIRED
  | AUTH_ACCOUNT_LINK_REQUIRED
  | AUTH_PROVIDER_UNAVAILABLE
  | WORKSPACE_NOT_FOUND
  | WORKSPACE_PERMISSION_DENIED
  | WORKSPACE_NOT_ACTIVE
  | PROJECT_NOT_FOUND
  | CONNECTION_NOT_FOUND
  | CONNECTION_STATE_CONFLICT
  | REQUEST_VALIDATION_FAILED
  | REQUEST_NOT_FOUND
  | REQUEST_METHOD_NOT_ALLOWED
  | REQUEST_REJECTED
  | INTERNAL_ERROR

fun ProblemCode_value :: "ProblemCode \<Rightarrow> string" where
  "ProblemCode_value AUTH_INVALID_CREDENTIALS = ''AUTH_INVALID_CREDENTIALS''"
| "ProblemCode_value AUTH_EMAIL_VERIFICATION_REQUIRED = ''AUTH_EMAIL_VERIFICATION_REQUIRED''"
| "ProblemCode_value AUTH_ACCOUNT_LINK_REQUIRED = ''AUTH_ACCOUNT_LINK_REQUIRED''"
| "ProblemCode_value AUTH_PROVIDER_UNAVAILABLE = ''AUTH_PROVIDER_UNAVAILABLE''"
| "ProblemCode_value WORKSPACE_NOT_FOUND = ''WORKSPACE_NOT_FOUND''"
| "ProblemCode_value WORKSPACE_PERMISSION_DENIED = ''WORKSPACE_PERMISSION_DENIED''"
| "ProblemCode_value WORKSPACE_NOT_ACTIVE = ''WORKSPACE_NOT_ACTIVE''"
| "ProblemCode_value PROJECT_NOT_FOUND = ''PROJECT_NOT_FOUND''"
| "ProblemCode_value CONNECTION_NOT_FOUND = ''CONNECTION_NOT_FOUND''"
| "ProblemCode_value CONNECTION_STATE_CONFLICT = ''CONNECTION_STATE_CONFLICT''"
| "ProblemCode_value REQUEST_VALIDATION_FAILED = ''REQUEST_VALIDATION_FAILED''"
| "ProblemCode_value REQUEST_NOT_FOUND = ''REQUEST_NOT_FOUND''"
| "ProblemCode_value REQUEST_METHOD_NOT_ALLOWED = ''REQUEST_METHOD_NOT_ALLOWED''"
| "ProblemCode_value REQUEST_REJECTED = ''REQUEST_REJECTED''"
| "ProblemCode_value INTERNAL_ERROR = ''INTERNAL_ERROR''"

datatype ValidationIssueCode = REQUIRED | INVALID_JSON | INVALID_VALUE

record ValidationIssue =
  vi_pointer :: string
  vi_code :: ValidationIssueCode
  vi_detail :: string

record ProblemDetail =
  pd_type :: string
  pd_title :: string
  pd_status :: int
  pd_detail :: string
  pd_instance :: string
  pd_code :: ProblemCode
  pd_request_id :: string
  pd_retryable :: "bool option"
  pd_errors :: "ValidationIssue list option"

record ProblemSpec =
  spec_code :: ProblemCode
  spec_type_uri :: string
  spec_title :: string
  spec_status :: int
  spec_detail :: string
  spec_retryable :: "bool option"

definition PROBLEM_SPECS :: "(ProblemCode \<times> ProblemSpec) list" where
  "PROBLEM_SPECS = [
    (AUTH_INVALID_CREDENTIALS, \<lparr>spec_code = AUTH_INVALID_CREDENTIALS,
      spec_type_uri = ''urn:uuid:60277549-1ffa-560c-b5f1-80b82f0ce19f'', spec_title = ''Invalid authentication credentials'',
      spec_status = 401, spec_detail = ''Authentication could not be completed.'', spec_retryable = None\<rparr>),
    (AUTH_EMAIL_VERIFICATION_REQUIRED, \<lparr>spec_code = AUTH_EMAIL_VERIFICATION_REQUIRED,
      spec_type_uri = ''urn:uuid:d3468a7d-6ab3-5040-9f14-89c811f0b0a1'', spec_title = ''Email verification required'',
      spec_status = 403, spec_detail = ''Verify the authentication provider email before continuing.'', spec_retryable = Some False\<rparr>),
    (AUTH_ACCOUNT_LINK_REQUIRED, \<lparr>spec_code = AUTH_ACCOUNT_LINK_REQUIRED,
      spec_type_uri = ''urn:uuid:a90a34d0-9660-51f4-9732-5f134b23b3a1'', spec_title = ''Account linking required'',
      spec_status = 409, spec_detail = ''An existing BFF account must be linked explicitly before continuing.'', spec_retryable = Some False\<rparr>),
    (AUTH_PROVIDER_UNAVAILABLE, \<lparr>spec_code = AUTH_PROVIDER_UNAVAILABLE,
      spec_type_uri = ''urn:uuid:4b7e9b99-220d-5b6f-b051-56c00818c362'', spec_title = ''Authentication service unavailable'',
      spec_status = 503, spec_detail = ''Authentication is temporarily unavailable.'', spec_retryable = Some True\<rparr>),
    (WORKSPACE_NOT_FOUND, \<lparr>spec_code = WORKSPACE_NOT_FOUND,
      spec_type_uri = ''urn:uuid:14e7c170-79a8-550d-a696-9cbe4d8a089f'', spec_title = ''Workspace not found'',
      spec_status = 404, spec_detail = ''The requested Workspace was not found.'', spec_retryable = Some False\<rparr>),
    (WORKSPACE_PERMISSION_DENIED, \<lparr>spec_code = WORKSPACE_PERMISSION_DENIED,
      spec_type_uri = ''urn:uuid:9a590bea-29bf-571e-a9ac-802214c8d53e'', spec_title = ''Workspace permission denied'',
      spec_status = 403, spec_detail = ''The active Workspace role does not permit this operation.'', spec_retryable = Some False\<rparr>),
    (WORKSPACE_NOT_ACTIVE, \<lparr>spec_code = WORKSPACE_NOT_ACTIVE,
      spec_type_uri = ''urn:uuid:dc40c9d8-61fc-5425-97bb-46ca0d799d69'', spec_title = ''Workspace is not active'',
      spec_status = 409, spec_detail = ''The Workspace lifecycle does not permit this operation.'', spec_retryable = Some False\<rparr>),
    (PROJECT_NOT_FOUND, \<lparr>spec_code = PROJECT_NOT_FOUND,
      spec_type_uri = ''urn:uuid:11f1e95b-3a4c-512e-b2cf-a962f52b5db2'', spec_title = ''Project not found'',
      spec_status = 404, spec_detail = ''The requested Project was not found.'', spec_retryable = Some False\<rparr>),
    (CONNECTION_NOT_FOUND, \<lparr>spec_code = CONNECTION_NOT_FOUND,
      spec_type_uri = ''urn:uuid:7c131d55-c5eb-594c-b431-88a69b45ad9e'', spec_title = ''Connection not found'',
      spec_status = 404, spec_detail = ''The requested Connection was not found.'', spec_retryable = Some False\<rparr>),
    (CONNECTION_STATE_CONFLICT, \<lparr>spec_code = CONNECTION_STATE_CONFLICT,
      spec_type_uri = ''urn:uuid:4ca5a5c5-128c-53b8-820d-ea94dd6d400e'', spec_title = ''Connection state conflict'',
      spec_status = 409, spec_detail = ''The Connection lifecycle does not permit this operation.'', spec_retryable = Some False\<rparr>),
    (REQUEST_VALIDATION_FAILED, \<lparr>spec_code = REQUEST_VALIDATION_FAILED,
      spec_type_uri = ''urn:uuid:542c876a-0825-5cc6-a84b-f55bccc0087a'', spec_title = ''Request validation failed'',
      spec_status = 422, spec_detail = ''One or more request fields are invalid.'', spec_retryable = Some False\<rparr>),
    (REQUEST_NOT_FOUND, \<lparr>spec_code = REQUEST_NOT_FOUND,
      spec_type_uri = ''urn:uuid:bc67b9ce-02f7-540e-b0c1-5015c66635e3'', spec_title = ''Not found'',
      spec_status = 404, spec_detail = ''The requested endpoint was not found.'', spec_retryable = Some False\<rparr>),
    (REQUEST_METHOD_NOT_ALLOWED, \<lparr>spec_code = REQUEST_METHOD_NOT_ALLOWED,
      spec_type_uri = ''urn:uuid:0aeb43e6-7822-5a7c-bf4c-9e789b15bccd'', spec_title = ''Method not allowed'',
      spec_status = 405, spec_detail = ''The requested method is not supported for this endpoint.'', spec_retryable = Some False\<rparr>),
    (REQUEST_REJECTED, \<lparr>spec_code = REQUEST_REJECTED,
      spec_type_uri = ''urn:uuid:d72f20c6-a0d5-5e45-8c3f-08b1150fec95'', spec_title = ''Request rejected'',
      spec_status = 400, spec_detail = ''The request could not be accepted.'', spec_retryable = None\<rparr>),
    (INTERNAL_ERROR, \<lparr>spec_code = INTERNAL_ERROR,
      spec_type_uri = ''urn:uuid:c10c4a56-f258-50ec-a667-000c307d32b3'', spec_title = ''Internal server error'',
      spec_status = 500, spec_detail = ''The request could not be completed.'', spec_retryable = None\<rparr>)]"

definition validate_problem_registry :: "exn + unit" where
  "validate_problem_registry =
     (if set (map (\<lambda>(_, s). spec_code s) PROBLEM_SPECS) \<noteq> set (map fst PROBLEM_SPECS)
      then Inl (RuntimeError ''problem registry keys and codes must match'')
      else if length (remdups (map (\<lambda>(_, s). spec_type_uri s) PROBLEM_SPECS)) \<noteq> length PROBLEM_SPECS
      then Inl (RuntimeError ''problem type identifiers must be unique'')
      else Inr ())"

definition problem_spec :: "ProblemCode \<Rightarrow> ProblemSpec" where
  "problem_spec c = the (map_of PROBLEM_SPECS c)"

subsection \<open>Responses\<close>

type_synonym headers = "(string \<times> string) list"

record 'b Response =
  rs_status :: int
  rs_headers :: headers
  rs_media_type :: string
  rs_body :: 'b

record RequestContext =
  rc_request_id :: uuid
  rc_trace_id :: "string option"

text \<open>\<open>d[k] = v\<close> on a dictionary.\<close>

fun dict_set :: "string \<Rightarrow> string \<Rightarrow> headers \<Rightarrow> headers" where
  "dict_set k v [] = [(k, v)]"
| "dict_set k v ((k', v') # h) = (if k' = k then (k, v) # h else (k', v') # dict_set k v h)"

text \<open>The parts of a validation location that \<open>_validation_handler\<close> keeps are strings and integers.\<close>

datatype locpart = LStr string | LInt int | LOther

type_synonym issue = "locpart list \<times> string"

datatype api_exn =
    Raised exn
  | ProblemException ProblemCode headers
  | RequestValidationError "issue list"
  | HTTPException int "headers option"

definition safe_framework_headers :: "headers option \<Rightarrow> headers" where
  "safe_framework_headers raw_headers = (case raw_headers of
     None \<Rightarrow> []
   | Some h \<Rightarrow> filter (\<lambda>(name, _). casefold name \<in> set [''allow'', ''retry-after'', ''www-authenticate'']) h)"

text \<open>Pydantic refuses a \<open>ProblemDetail\<close> whose status is not between 100 and 599.\<close>

definition problem_response ::
  "RequestContext \<Rightarrow> ProblemCode \<Rightarrow> ValidationIssue list option \<Rightarrow> headers \<Rightarrow> int option \<Rightarrow> string option
     \<Rightarrow> exn + ProblemDetail Response" where
  "problem_response context problem_code errors headers status_override title_override =
     (let spec = problem_spec problem_code;
          status_code = (case status_override of Some s \<Rightarrow> if s \<noteq> 0 then s else spec_status spec | None \<Rightarrow> spec_status spec);
          title = (case title_override of Some t \<Rightarrow> if t \<noteq> [] then t else spec_title spec | None \<Rightarrow> spec_title spec);
          request_id = uuid_str (rc_request_id context) in
      if status_code < 100 \<or> 599 < status_code then Inl (ValueError ''ProblemDetail.status'')
      else Inr \<lparr>
        rs_status = status_code,
        rs_headers = dict_set ''X-Request-ID'' request_id headers,
        rs_media_type = ''application/problem+json'',
        rs_body = \<lparr>pd_type = spec_type_uri spec, pd_title = title, pd_status = status_code,
          pd_detail = spec_detail spec, pd_instance = ''urn:uuid:'' @ request_id, pd_code = problem_code,
          pd_request_id = request_id, pd_retryable = spec_retryable spec, pd_errors = errors\<rparr>\<rparr>)"

subsection \<open>Validation issues\<close>

text \<open>\<open>str\<close> of a part, with \<open>~\<close> and \<open>/\<close> escaped as JSON Pointer escapes them.\<close>

definition escape_char :: "char \<Rightarrow> string" where
  "escape_char c = (if c = CHR ''~'' then ''~0'' else if c = CHR ''/'' then ''~1'' else [c])"

fun part_text :: "locpart \<Rightarrow> string option" where
  "part_text (LStr s) = Some s"
| "part_text (LInt n) = Some (int_str n)"
| "part_text LOther = None"

fun join_slash :: "string list \<Rightarrow> string" where
  "join_slash [] = []"
| "join_slash [s] = s"
| "join_slash (s # t # ss) = s @ CHR ''/'' # join_slash (t # ss)"

definition validation_pointer :: "locpart list \<Rightarrow> string" where
  "validation_pointer location =
     ''#/'' @ join_slash (map (\<lambda>s. concat (map escape_char s)) (List.map_filter part_text location))"

definition validation_issue_code :: "string \<Rightarrow> ValidationIssueCode" where
  "validation_issue_code error_type =
     (if error_type = ''missing'' then REQUIRED
      else if error_type = ''json_invalid'' then INVALID_JSON else INVALID_VALUE)"

definition validation_issue_detail :: "ValidationIssueCode \<Rightarrow> string" where
  "validation_issue_detail c = (case c of
     REQUIRED \<Rightarrow> ''Field is required.''
   | INVALID_JSON \<Rightarrow> ''Request body is not valid JSON.''
   | INVALID_VALUE \<Rightarrow> ''Value is invalid.'')"

definition validation_issues :: "issue list \<Rightarrow> ValidationIssue list" where
  "validation_issues = map (\<lambda>(location, error_type).
     (let issue_code = validation_issue_code error_type in
      \<lparr>vi_pointer = validation_pointer location, vi_code = issue_code,
       vi_detail = validation_issue_detail issue_code\<rparr>))"

subsection \<open>Handlers\<close>

text \<open>\<open>http.HTTPStatus(n).phrase\<close> of Python 3.13.\<close>

definition http_phrases :: "(int \<times> string) list" where
  "http_phrases = [
    (100, ''Continue''),
    (101, ''Switching Protocols''),
    (102, ''Processing''),
    (103, ''Early Hints''),
    (200, ''OK''),
    (201, ''Created''),
    (202, ''Accepted''),
    (203, ''Non-Authoritative Information''),
    (204, ''No Content''),
    (205, ''Reset Content''),
    (206, ''Partial Content''),
    (207, ''Multi-Status''),
    (208, ''Already Reported''),
    (226, ''IM Used''),
    (300, ''Multiple Choices''),
    (301, ''Moved Permanently''),
    (302, ''Found''),
    (303, ''See Other''),
    (304, ''Not Modified''),
    (305, ''Use Proxy''),
    (307, ''Temporary Redirect''),
    (308, ''Permanent Redirect''),
    (400, ''Bad Request''),
    (401, ''Unauthorized''),
    (402, ''Payment Required''),
    (403, ''Forbidden''),
    (404, ''Not Found''),
    (405, ''Method Not Allowed''),
    (406, ''Not Acceptable''),
    (407, ''Proxy Authentication Required''),
    (408, ''Request Timeout''),
    (409, ''Conflict''),
    (410, ''Gone''),
    (411, ''Length Required''),
    (412, ''Precondition Failed''),
    (413, ''Content Too Large''),
    (414, ''URI Too Long''),
    (415, ''Unsupported Media Type''),
    (416, ''Range Not Satisfiable''),
    (417, ''Expectation Failed''),
    (418, ''I'' @ [CHR 39] @ ''m a Teapot''),
    (421, ''Misdirected Request''),
    (422, ''Unprocessable Content''),
    (423, ''Locked''),
    (424, ''Failed Dependency''),
    (425, ''Too Early''),
    (426, ''Upgrade Required''),
    (428, ''Precondition Required''),
    (429, ''Too Many Requests''),
    (431, ''Request Header Fields Too Large''),
    (451, ''Unavailable For Legal Reasons''),
    (500, ''Internal Server Error''),
    (501, ''Not Implemented''),
    (502, ''Bad Gateway''),
    (503, ''Service Unavailable''),
    (504, ''Gateway Timeout''),
    (505, ''HTTP Version Not Supported''),
    (506, ''Variant Also Negotiates''),
    (507, ''Insufficient Storage''),
    (508, ''Loop Detected''),
    (510, ''Not Extended''),
    (511, ''Network Authentication Required'')]"

definition internal_error_handler :: "RequestContext \<Rightarrow> exn + ProblemDetail Response" where
  "internal_error_handler context = problem_response context INTERNAL_ERROR None [] None None"

definition http_exception_handler :: "RequestContext \<Rightarrow> int \<Rightarrow> headers option \<Rightarrow> exn + ProblemDetail Response" where
  "http_exception_handler context status_code headers =
     problem_response context REQUEST_REJECTED None (safe_framework_headers headers) (Some status_code)
       (Some (case map_of http_phrases status_code of
          Some phrase \<Rightarrow> phrase | None \<Rightarrow> spec_title (problem_spec REQUEST_REJECTED)))"

text \<open>The handlers registered for the exceptions of the domains: the problem and the headers of each.\<close>

fun domain_problem :: "exn \<Rightarrow> (ProblemCode \<times> headers) option" where
  "domain_problem PrincipalAuthenticationError = Some (AUTH_INVALID_CREDENTIALS, [(''WWW-Authenticate'', ''Bearer'')])"
| "domain_problem SessionProvisioningAuthenticationError = Some (AUTH_INVALID_CREDENTIALS, [(''WWW-Authenticate'', ''Bearer'')])"
| "domain_problem EmailVerificationRequiredError = Some (AUTH_EMAIL_VERIFICATION_REQUIRED, [])"
| "domain_problem AccountLinkRequiredError = Some (AUTH_ACCOUNT_LINK_REQUIRED, [])"
| "domain_problem (ExternalUserProfileUnavailableError _) = Some (AUTH_PROVIDER_UNAVAILABLE, [])"
| "domain_problem WorkspaceNotFoundError = Some (WORKSPACE_NOT_FOUND, [])"
| "domain_problem ProjectWorkspaceNotFoundError = Some (WORKSPACE_NOT_FOUND, [])"
| "domain_problem ProjectNotFoundError = Some (PROJECT_NOT_FOUND, [])"
| "domain_problem ConnectionWorkspaceNotFoundError = Some (WORKSPACE_NOT_FOUND, [])"
| "domain_problem ConnectionNotFoundError = Some (CONNECTION_NOT_FOUND, [])"
| "domain_problem ConnectionProjectNotFoundError = Some (PROJECT_NOT_FOUND, [])"
| "domain_problem (ConnectionPermissionDeniedError _) = Some (WORKSPACE_PERMISSION_DENIED, [])"
| "domain_problem (ConnectionWorkspaceNotActiveError _) = Some (WORKSPACE_NOT_ACTIVE, [])"
| "domain_problem (ConnectionStateConflictError _) = Some (CONNECTION_STATE_CONFLICT, [])"
| "domain_problem (ConnectionConfigurationInvalidError _) = Some (REQUEST_VALIDATION_FAILED, [])"
| "domain_problem ProjectPermissionDeniedError = Some (WORKSPACE_PERMISSION_DENIED, [])"
| "domain_problem ProjectWorkspaceNotActiveError = Some (WORKSPACE_NOT_ACTIVE, [])"
| "domain_problem _ = None"

text \<open>
  \<open>exception_handler\<close> is the handler of \<open>ExceptionMiddleware\<close> for an exception, if there is one: the
  status handlers 404 and 405 for an \<open>HTTPException\<close>, then the class. Without a handler, or if the
  handler raises, \<open>ServerErrorMiddleware\<close> answers with the one for \<open>Exception\<close>.
\<close>

fun exception_handler :: "RequestContext \<Rightarrow> api_exn \<Rightarrow> (exn + ProblemDetail Response) option" where
  "exception_handler context (Raised e) =
     map_option (\<lambda>(problem_code, headers). problem_response context problem_code None headers None None) (domain_problem e)"
| "exception_handler context (ProblemException problem_code headers) =
     Some (problem_response context problem_code None headers None None)"
| "exception_handler context (RequestValidationError errors) =
     Some (problem_response context REQUEST_VALIDATION_FAILED (Some (validation_issues errors)) [] None None)"
| "exception_handler context (HTTPException status_code headers) =
     Some (if status_code = 404
           then problem_response context REQUEST_NOT_FOUND None (safe_framework_headers headers) None None
           else if status_code = 405
           then problem_response context REQUEST_METHOD_NOT_ALLOWED None (safe_framework_headers headers) None None
           else http_exception_handler context status_code headers)"

end
