(* ===== verification/Cursors.thy ===== *)
theory Cursors
  imports Problems Projects
begin

section \<open>Page cursors\<close>

text \<open>
  The codec of page cursors in \<open>api/routes/v1/connections.py\<close> and \<open>projects.py\<close>: URL-safe base64
  without padding over a JSON object. \<open>base64\<close>, \<open>binascii.a2b_base64\<close> in strict mode, \<open>json.dumps\<close>
  and \<open>uuid.UUID\<close> are the standard library's, written out. \<open>Text\<close> holds the parsers the decoder calls
  on what a client sends: \<open>json.loads\<close> after the bytes' \<open>decode()\<close>, \<open>datetime.isoformat\<close> and
  \<open>datetime.fromisoformat\<close>, the latter with the flag that the result has an offset.
\<close>

record Text =
  json_loads :: "8 word list \<Rightarrow> exn + json"
  isoformat :: "timestamp \<Rightarrow> string"
  fromisoformat :: "string \<Rightarrow> exn + (timestamp \<times> bool)"

subsection \<open>Base64\<close>

definition b64_char :: "nat \<Rightarrow> char" where
  "b64_char n = (if n < 26 then char_of (65 + n) else if n < 52 then char_of (71 + n)
     else if n < 62 then char_of (n - 4) else if n = 62 then CHR ''-'' else CHR ''_'')"

fun urlsafe_b64encode :: "8 word list \<Rightarrow> string" where
  "urlsafe_b64encode [] = []"
| "urlsafe_b64encode [a] = [b64_char (unat a div 4), b64_char (unat a mod 4 * 16), CHR ''='', CHR ''='']"
| "urlsafe_b64encode [a, b] = [b64_char (unat a div 4), b64_char (unat a mod 4 * 16 + unat b div 16),
     b64_char (unat b mod 16 * 4), CHR ''='']"
| "urlsafe_b64encode (a # b # c # r) = b64_char (unat a div 4) # b64_char (unat a mod 4 * 16 + unat b div 16)
     # b64_char (unat b mod 16 * 4 + unat c div 64) # b64_char (unat c mod 64) # urlsafe_b64encode r"

text \<open>With \<open>altchars=b"-_"\<close> the characters \<open>+\<close> and \<open>/\<close> are still decoded.\<close>

definition b64_value :: "char \<Rightarrow> nat option" where
  "b64_value c = (let n = (of_char c :: nat) in
     if 65 \<le> n \<and> n \<le> 90 then Some (n - 65)
     else if 97 \<le> n \<and> n \<le> 122 then Some (n - 71)
     else if 48 \<le> n \<and> n \<le> 57 then Some (n + 4)
     else if c = CHR ''-'' \<or> c = CHR ''+'' then Some 62
     else if c = CHR ''_'' \<or> c = CHR ''/'' then Some 63
     else None)"

definition put_byte :: "nat \<Rightarrow> exn + 8 word list \<Rightarrow> exn + 8 word list" where
  "put_byte n r = bind_res r (\<lambda>bs. Inr (of_nat n # bs))"

fun a2b_strict :: "nat \<Rightarrow> nat \<Rightarrow> nat \<Rightarrow> bool \<Rightarrow> string \<Rightarrow> exn + 8 word list" where
  "a2b_strict quad_pos leftchar pads padding_started [] =
     (if quad_pos = 0 then Inr [] else Inl (ValueError ''Incorrect padding''))"
| "a2b_strict quad_pos leftchar pads padding_started (c # cs) =
     (if c = CHR ''='' then
        (if quad_pos \<ge> 2 \<and> quad_pos + (pads + 1) \<ge> 4 then
           (if cs \<noteq> [] then Inl (ValueError ''Excess data after padding'') else Inr [])
         else a2b_strict quad_pos leftchar (if quad_pos \<ge> 2 then pads + 1 else pads) True cs)
      else (case b64_value c of
          None \<Rightarrow> Inl (ValueError ''Only base64 data is allowed'')
        | Some v \<Rightarrow>
            if padding_started then Inl (ValueError ''Discontinuous padding not allowed'')
            else if quad_pos = 0 then a2b_strict 1 v 0 False cs
            else if quad_pos = 1 then put_byte (leftchar * 4 + v div 16) (a2b_strict 2 (v mod 16) 0 False cs)
            else if quad_pos = 2 then put_byte (leftchar * 16 + v div 4) (a2b_strict 3 (v mod 4) 0 False cs)
            else put_byte (leftchar * 64 + v) (a2b_strict 0 0 0 False cs)))"

definition b64decode :: "string \<Rightarrow> exn + 8 word list" where
  "b64decode s =
     (if \<exists>c \<in> set s. 128 \<le> (of_char c :: nat)
      then Inl (ValueError ''string argument should contain only ASCII characters'')
      else if starts_with ''='' s then Inl (ValueError ''Leading padding not allowed'')
      else a2b_strict 0 0 0 False s)"

subsection \<open>\<open>uuid.UUID\<close> of a text\<close>

text \<open>
  \<open>s.replace(p, "")\<close>, \<open>s.strip("{}")\<close> and \<open>int(s, 16)\<close>: white space around the number, a sign, the
  prefix \<open>0x\<close> and single underscores are allowed. (A minus sign cannot be left: \<open>-\<close> is removed.)
\<close>

function remove_all :: "string \<Rightarrow> string \<Rightarrow> string" where
  "remove_all p s = (if s = [] \<or> p = [] then s
     else if starts_with p s then remove_all p (drop (length p) s) else hd s # remove_all p (tl s))"
  by pat_completeness auto

termination remove_all
  by (relation "measure (\<lambda>(p, s). length s)") auto

declare remove_all.simps [simp del]

definition strip_braces :: "string \<Rightarrow> string" where
  "strip_braces s = (let brace = (\<lambda>c. c \<in> {CHR 0x7B, CHR 0x7D}) in
     rev (dropWhile brace (rev (dropWhile brace s))))"

definition hex_value :: "char \<Rightarrow> nat option" where
  "hex_value c = (let n = (of_char c :: nat) in
     if 48 \<le> n \<and> n \<le> 57 then Some (n - 48)
     else if 97 \<le> n \<and> n \<le> 102 then Some (n - 87)
     else if 65 \<le> n \<and> n \<le> 70 then Some (n - 55)
     else None)"

text \<open>Digits with single underscores between them: the value so far, whether the last character was a digit.\<close>

fun hex_number :: "int \<Rightarrow> bool \<Rightarrow> string \<Rightarrow> int option" where
  "hex_number v after_digit [] = (if after_digit then Some v else None)"
| "hex_number v after_digit (c # cs) =
     (if c = CHR ''_'' then (if after_digit then hex_number v False cs else None)
      else case hex_value c of None \<Rightarrow> None | Some x \<Rightarrow> hex_number (16 * v + int x) True cs)"

definition c_space :: "char \<Rightarrow> bool" where
  "c_space c \<longleftrightarrow> (of_char c :: nat) \<in> set [9, 10, 11, 12, 13, 32]"

definition int_16 :: "string \<Rightarrow> exn + int" where
  "int_16 s =
     (let space = (if \<exists>c \<in> set s. 128 \<le> (of_char c :: nat) then is_space else c_space);
          s1 = rev (dropWhile space (rev (dropWhile space s)));
          s2 = (if starts_with ''+'' s1 then tl s1 else s1);
          s3 = (if starts_with ''0x'' s2 \<or> starts_with ''0X'' s2
                then (if starts_with ''_'' (drop 2 s2) then drop 3 s2 else drop 2 s2) else s2) in
      case hex_number 0 False s3 of
        None \<Rightarrow> Inl (ValueError ''invalid literal for int() with base 16'') | Some v \<Rightarrow> Inr v)"

definition UUID_of_text :: "string \<Rightarrow> exn + uuid" where
  "UUID_of_text s =
     (let h = remove_all ''-'' (strip_braces (remove_all ''uuid:'' (remove_all ''urn:'' s))) in
      if length h \<noteq> 32 then Inl (ValueError ''badly formed hexadecimal UUID string'')
      else bind_res (int_16 h) (\<lambda>v. Inr (word_of_int v)))"

text \<open>\<open>UUID(x)\<close> of a JSON value: only a text has the method \<open>replace\<close> that is called first.\<close>

definition UUID_of_json :: "json \<Rightarrow> exn + uuid" where
  "UUID_of_json j = (case j of
     JStr s \<Rightarrow> UUID_of_text s
   | JNull \<Rightarrow> Inl (TypeError ''one of the hex, bytes, bytes_le, fields, or int arguments must be given'')
   | _ \<Rightarrow> Inl (AttributeError ''object has no attribute replace''))"

subsection \<open>The codec\<close>

definition CURSOR_VERSION :: int where "CURSOR_VERSION = 1"

definition cursor_payload :: "Text \<Rightarrow> timestamp \<Rightarrow> uuid \<Rightarrow> json" where
  "cursor_payload tx created_at i = JObj [(''created_at'', JStr (isoformat tx created_at)),
     (''id'', JStr (uuid_str i)), (''v'', JInt CURSOR_VERSION)]"

definition encode_position :: "Text \<Rightarrow> timestamp \<Rightarrow> uuid \<Rightarrow> string" where
  "encode_position tx created_at i =
     rstrip_char (CHR ''='') (urlsafe_b64encode (utf8 (dumps (cursor_payload tx created_at i))))"

text \<open>The body of the \<open>try\<close>; in Python \<open>True == 1\<close> and \<open>1.0 == 1\<close>.\<close>

definition is_version :: "json \<Rightarrow> bool" where
  "is_version j \<longleftrightarrow> j \<in> {JInt CURSOR_VERSION, JBool True, JFloat ''1.0''}"

definition decode_position :: "Text \<Rightarrow> string \<Rightarrow> exn + (timestamp \<times> uuid)" where
  "decode_position tx value =
     (let padding = replicate (nat ((- int (length value)) mod 4)) (CHR ''='') in
      bind_res (b64decode (value @ padding)) (\<lambda>decoded.
      bind_res (json_loads tx decoded) (\<lambda>payload.
      case payload of
        JObj items \<Rightarrow>
          if set (map fst items) \<noteq> {''created_at'', ''id'', ''v''}
          then Inl (ValueError ''cursor payload has an invalid shape'')
          else if \<not> is_version (the (map_of items ''v''))
          then Inl (ValueError ''cursor version is unsupported'')
          else
            bind_res (case the (map_of items ''created_at'') of
                JStr s \<Rightarrow> fromisoformat tx s
              | _ \<Rightarrow> Inl (TypeError ''fromisoformat: argument must be str'')) (\<lambda>(created_at, has_offset).
            if \<not> has_offset then Inl (ValueError ''cursor timestamp must include an offset'')
            else
              bind_res (UUID_of_json (the (map_of items ''id''))) (\<lambda>i. Inr (created_at, i)))
      | _ \<Rightarrow> Inl (ValueError ''cursor payload has an invalid shape''))))"

text \<open>
  The \<open>except\<close> clause: \<open>binascii.Error\<close>, \<open>JSONDecodeError\<close> and \<open>UnicodeDecodeError\<close> are subclasses of
  \<open>ValueError\<close>.
\<close>

definition cursor_error :: "exn \<Rightarrow> api_exn" where
  "cursor_error e = (case e of
     ValueError _ \<Rightarrow> RequestValidationError [([LStr ''query'', LStr ''cursor''], ''value_error'')]
   | TypeError _ \<Rightarrow> RequestValidationError [([LStr ''query'', LStr ''cursor''], ''value_error'')]
   | _ \<Rightarrow> Raised e)"

definition decode_cursor :: "Text \<Rightarrow> (timestamp \<Rightarrow> uuid \<Rightarrow> 'c) \<Rightarrow> string option \<Rightarrow> api_exn + 'c option" where
  "decode_cursor tx cursor value = (case value of
     None \<Rightarrow> Inr None
   | Some v \<Rightarrow> (case decode_position tx v of
       Inl e \<Rightarrow> Inl (cursor_error e)
     | Inr (created_at, i) \<Rightarrow> Inr (Some (cursor created_at i))))"

definition encode_connection_cursor :: "Text \<Rightarrow> ConnectionPageCursor option \<Rightarrow> string option" where
  "encode_connection_cursor tx =
     map_option (\<lambda>c. encode_position tx (conn_cursor_created_at c) (conn_cursor_connection_id c))"

definition decode_connection_cursor :: "Text \<Rightarrow> string option \<Rightarrow> api_exn + ConnectionPageCursor option" where
  "decode_connection_cursor tx = decode_cursor tx ConnectionPageCursor"

definition encode_project_cursor :: "Text \<Rightarrow> ProjectPageCursor option \<Rightarrow> string option" where
  "encode_project_cursor tx =
     map_option (\<lambda>c. encode_position tx (cursor_created_at c) (cursor_project_id c))"

definition decode_project_cursor :: "Text \<Rightarrow> string option \<Rightarrow> api_exn + ProjectPageCursor option" where
  "decode_project_cursor tx = decode_cursor tx ProjectPageCursor"

end
