(* ===== verification/CursorFacts.thy ===== *)
theory CursorFacts
  imports Cursors
begin

section \<open>Page cursors: round trip and refusals\<close>

text \<open>
  A cursor the server hands out is decoded to the position it was made from; what a client makes
  up is decoded, or refused as an invalid request, with one exception.
\<close>

subsection \<open>Base64\<close>

lemma b64_char_facts:
  assumes "n < 64"
  shows "b64_value (b64_char n) = Some n" "b64_char n \<noteq> CHR ''=''" "CHR ''='' \<noteq> b64_char n"
    "(of_char (b64_char n) :: nat) < 128"
proof -
  have small: "(of_char (char_of k :: char) :: nat) = k" if "k < 256" for k
    using that by (simp add: of_char_of)
  consider "n < 26" | "26 \<le> n \<and> n < 52" | "52 \<le> n \<and> n < 62" | "n = 62" | "n = 63" using assms by linarith
  then have "b64_value (b64_char n) = Some n \<and> (of_char (b64_char n) :: nat) < 128 \<and> (of_char (b64_char n) :: nat) \<noteq> 61"
  proof cases
    case 1 then show ?thesis by (simp add: b64_char_def b64_value_def Let_def small)
  next
    case 2 then show ?thesis by (simp add: b64_char_def b64_value_def Let_def small)
  next
    case 3
    then obtain m where "n = m + 4" "48 \<le> m" "m \<le> 57" by (intro that[of "n - 4"]) auto
    then show ?thesis by (auto simp: b64_char_def b64_value_def Let_def small)
  next
    case 4 then show ?thesis by (simp add: b64_char_def b64_value_def Let_def)
  next
    case 5 then show ?thesis by (simp add: b64_char_def b64_value_def Let_def)
  qed
  then show "b64_value (b64_char n) = Some n" "b64_char n \<noteq> CHR ''=''" "(of_char (b64_char n) :: nat) < 128"
    by auto
  then show "CHR ''='' \<noteq> b64_char n" by metis
qed

lemma byte_pieces:
  fixes a b c :: "8 word"
  shows "unat a div 4 < 64" "unat a mod 4 * 16 < 64" "unat a mod 4 * 16 + unat b div 16 < 64"
    "unat b mod 16 * 4 < 64" "unat b mod 16 * 4 + unat c div 64 < 64" "unat c mod 64 < 64"
    and "(unat a mod 4 * 16 + unat b div 16) div 16 = unat a mod 4" "(unat a mod 4 * 16 + unat b div 16) mod 16 = unat b div 16"
    and "(unat b mod 16 * 4 + unat c div 64) div 4 = unat b mod 16" "(unat b mod 16 * 4 + unat c div 64) mod 4 = unat c div 64"
    and "unat b div 16 div 16 = 0" "unat b div 16 mod 16 = unat b div 16" "unat c div 64 div 4 = 0" "unat c div 64 mod 4 = unat c div 64"
proof -
  have l: "unat a < 256" "unat b < 256" "unat c < 256"
    using unsigned_less[of a, where 'a = nat] unsigned_less[of b, where 'a = nat] unsigned_less[of c, where 'a = nat] by simp_all
  then have d: "unat b div 16 < 16" "unat c div 64 < 4" by linarith+
  show "unat a div 4 < 64" "unat a mod 4 * 16 < 64" "unat a mod 4 * 16 + unat b div 16 < 64"
    "unat b mod 16 * 4 < 64" "unat b mod 16 * 4 + unat c div 64 < 64" "unat c mod 64 < 64"
    using l d by linarith+
  show "(unat a mod 4 * 16 + unat b div 16) div 16 = unat a mod 4" "(unat a mod 4 * 16 + unat b div 16) mod 16 = unat b div 16"
    "(unat b mod 16 * 4 + unat c div 64) div 4 = unat b mod 16" "(unat b mod 16 * 4 + unat c div 64) mod 4 = unat c div 64"
    "unat b div 16 div 16 = 0" "unat b div 16 mod 16 = unat b div 16" "unat c div 64 div 4 = 0" "unat c div 64 mod 4 = unat c div 64"
    using d by simp_all
qed

lemma put_byte_Inr: "put_byte n (Inr bs) = Inr (of_nat n # bs)"
  by (simp add: put_byte_def)

lemma a2b_encode: "a2b_strict 0 0 0 False (urlsafe_b64encode bs) = Inr bs"
proof (induction bs rule: urlsafe_b64encode.induct)
  case 1
  show ?case by simp
next
  case (2 a)
  show ?case by (simp add: b64_char_facts byte_pieces put_byte_def)
next
  case (3 a b)
  show ?case by (simp add: b64_char_facts byte_pieces put_byte_def)
next
  case (4 a b c r)
  show ?case using 4 by (simp add: b64_char_facts byte_pieces put_byte_def)
qed

lemma urlsafe_shape:
  "\<exists>body k. urlsafe_b64encode bs = body @ replicate k (CHR ''='') \<and> CHR ''='' \<notin> set body \<and> k \<le> 2
    \<and> (length body + k) mod 4 = 0 \<and> length body \<le> 4 * ((length bs + 2) div 3)
    \<and> (\<forall>c \<in> set body. (of_char c :: nat) < 128)"
proof (induction bs rule: urlsafe_b64encode.induct)
  case 1
  show ?case by (intro exI[of _ "[]"] exI[of _ 0]) simp
next
  case (2 a)
  show ?case
    by (intro exI[of _ "[b64_char (unat a div 4), b64_char (unat a mod 4 * 16)]"] exI[of _ 2])
      (use b64_char_facts(2-4) byte_pieces in \<open>auto simp: numeral_2_eq_2\<close>)
next
  case (3 a b)
  show ?case
    by (intro exI[of _ "[b64_char (unat a div 4), b64_char (unat a mod 4 * 16 + unat b div 16), b64_char (unat b mod 16 * 4)]"]
        exI[of _ 1]) (use b64_char_facts(2-4) byte_pieces in auto)
next
  case (4 a b c r)
  then obtain body k where i: "urlsafe_b64encode r = body @ replicate k (CHR ''='')" "CHR ''='' \<notin> set body" "k \<le> 2"
    "(length body + k) mod 4 = 0" "length body \<le> 4 * ((length r + 2) div 3)" "\<forall>c \<in> set body. (of_char c :: nat) < 128"
    by (elim exE conjE) (rule that)
  let ?h = "[b64_char (unat a div 4), b64_char (unat a mod 4 * 16 + unat b div 16),
    b64_char (unat b mod 16 * 4 + unat c div 64), b64_char (unat c mod 64)]"
  have "(length (a # b # c # r) + 2) div 3 = (length r + 2) div 3 + 1"
    using div_add_self2[of 3 "length r + 2"] by simp
  then have "length (?h @ body) \<le> 4 * ((length (a # b # c # r) + 2) div 3)" using i(5) by simp
  moreover have "(length (?h @ body) + k) mod 4 = 0" using i(4) by simp
  ultimately show ?case using i b64_char_facts(2-4) byte_pieces
    by (intro exI[of _ "?h @ body"] exI[of _ k]) auto
qed

lemma padding_length:
  assumes "k \<le> 2" "(n + k) mod 4 = (0 :: nat)"
  shows "nat ((- int n) mod 4) = k"
proof -
  obtain q where "n + k = 4 * q" using assms(2) by (auto simp: mod_eq_0_iff_dvd dvd_def)
  then have "- int n = int k + 4 * (- int q)" by linarith
  then have "(- int n) mod 4 = int k mod 4" by (simp only: mod_mult_self2)
  then show ?thesis using assms(1) by simp
qed

lemma rstrip_replicate: "c \<notin> set s \<Longrightarrow> rstrip_char c (s @ replicate k c) = s"
proof -
  assume "c \<notin> set s"
  then have "dropWhile (\<lambda>x. x = c) (rev s) = rev s" by (cases "rev s") (auto simp: rev_swap)
  then show ?thesis by (simp add: rstrip_char_def dropWhile_append)
qed

lemma cursor_text:
  fixes bs :: "8 word list"
  defines "v \<equiv> rstrip_char (CHR ''='') (urlsafe_b64encode bs)"
  shows "b64decode (v @ replicate (nat ((- int (length v)) mod 4)) (CHR ''='')) = Inr bs"
    "length v \<le> 4 * ((length bs + 2) div 3)"
proof -
  obtain body k where s: "urlsafe_b64encode bs = body @ replicate k (CHR ''='')" "CHR ''='' \<notin> set body" "k \<le> 2"
    "(length body + k) mod 4 = 0" "length body \<le> 4 * ((length bs + 2) div 3)" "\<forall>c \<in> set body. (of_char c :: nat) < 128"
    using urlsafe_shape[of bs] by (elim exE conjE) (rule that)
  have v: "v = body" unfolding v_def s(1) by (rule rstrip_replicate[OF s(2)])
  have "nat ((- int (length v)) mod 4) = k" unfolding v by (rule padding_length[OF s(3,4)])
  then have e: "v @ replicate (nat ((- int (length v)) mod 4)) (CHR ''='') = urlsafe_b64encode bs" using s(1) v by simp
  have ascii: "\<not> (\<exists>c \<in> set (urlsafe_b64encode bs). 128 \<le> (of_char c :: nat))" unfolding s(1) using s(6) by auto
  have "\<not> starts_with ''='' (urlsafe_b64encode bs)"
  proof (cases body)
    case Nil
    then show ?thesis using s(1,3,4) by (auto simp: starts_with_def)
  next
    case (Cons x xs)
    then show ?thesis using s(1,2) by (auto simp: starts_with_def)
  qed
  then show "b64decode (v @ replicate (nat ((- int (length v)) mod 4)) (CHR ''='')) = Inr bs"
    unfolding e b64decode_def using ascii a2b_encode by simp
  show "length v \<le> 4 * ((length bs + 2) div 3)" using v s(5) by simp
qed

subsection \<open>The text of a UUID\<close>

lemma remove_all_absent: "c \<in> set p \<Longrightarrow> c \<notin> set s \<Longrightarrow> remove_all p s = s"
proof (induction s)
  case (Cons x s)
  then have "\<not> starts_with p (x # s)"
    by (metis in_set_takeD starts_with_def)
  then show ?case using Cons by (auto simp: remove_all.simps[of p "x # s"])
qed (simp add: remove_all.simps)

lemma starts_with_set: "starts_with p s \<Longrightarrow> c \<in> set p \<Longrightarrow> c \<in> set s"
  by (metis in_set_takeD starts_with_def)

lemma remove_one_char: "remove_all [c] s = filter (\<lambda>x. x \<noteq> c) s"
  by (induction s) (auto simp: remove_all.simps starts_with_def)

lemma strip_braces_absent: "CHR 0x7B \<notin> set s \<Longrightarrow> CHR 0x7D \<notin> set s \<Longrightarrow> strip_braces s = s"
proof (cases "s = []")
  case False
  assume "CHR 0x7B \<notin> set s" "CHR 0x7D \<notin> set s"
  then have "hd s \<notin> {CHR 0x7B, CHR 0x7D}" "last s \<notin> {CHR 0x7B, CHR 0x7D}"
    using hd_in_set[OF False] last_in_set[OF False] by auto
  then show ?thesis using False by (simp add: strip_braces_def Let_def dropWhile_hd hd_rev)
qed (simp add: strip_braces_def)

lemma hex_digit_facts:
  assumes "0 \<le> n" "n < 16"
  shows "hex_value (hex_digit n) = Some (nat n)" "hex_digit n \<noteq> CHR ''_''" "(of_char (hex_digit n) :: nat) \<in> {48..57} \<union> {97..102}"
proof -
  have c: "(of_char (hex_digit n) :: nat) = nat (if n < 10 then 48 + n else 87 + n)" by (rule of_char_hex_digit[OF assms])
  show "hex_value (hex_digit n) = Some (nat n)" using assms by (auto simp: hex_value_def c Let_def)
  show 1: "(of_char (hex_digit n) :: nat) \<in> {48..57} \<union> {97..102}" using assms by (auto simp: c)
  show "hex_digit n \<noteq> CHR ''_''" using 1 by (auto simp del: of_char_eq_iff)
qed

lemma hex_number_digits:
  "k = 0 \<longrightarrow> b \<Longrightarrow> hex_number a b (hex_digits k v) = Some (a * 16 ^ k + v mod 16 ^ k)"
proof (induction k arbitrary: a b)
  case (Suc k)
  have d: "0 \<le> v div 16 ^ k mod 16" "v div 16 ^ k mod 16 < 16" by simp_all
  have "v mod 16 ^ Suc k = 16 ^ k * (v div 16 ^ k mod 16) + v mod 16 ^ k"
    using zmod_zmult2_eq[of 16 v "16 ^ k"] by (simp only: power_Suc mult.commute[of 16])
  then have "(16 * a + v div 16 ^ k mod 16) * 16 ^ k + v mod 16 ^ k = a * 16 ^ Suc k + v mod 16 ^ Suc k"
    by (simp add: algebra_simps)
  then show ?case using Suc.IH[of True "16 * a + v div 16 ^ k mod 16"] hex_digit_facts[OF d] d by simp
qed simp

lemma hex_digits_chars: "c \<in> set (hex_digits k v) \<Longrightarrow> (of_char c :: nat) \<in> {48..57} \<union> {97..102}"
proof (induction k)
  case (Suc k)
  then show ?case using hex_digit_facts(3)[of "v div 16 ^ k mod 16"] by auto
qed simp

lemma uuid_str_chars:
  assumes "c \<in> set (uuid_str u)"
  shows "c = CHR ''-'' \<or> (of_char c :: nat) \<in> {48..57} \<union> {97..102}"
  using assms hex_digits_chars[of c 32 "uint u"]
  by (auto simp: uuid_str_def dashed_def dest: in_set_takeD in_set_dropD)

lemma length_uuid_str: "length (uuid_str u) = 36"
  by (simp add: uuid_str_def dashed_def)

lemma hex_char_not:
  assumes "(of_char c :: nat) \<in> {48..57} \<union> {97..102}"
  shows "c \<notin> {CHR ''-'', CHR '':'', CHR ''+'', CHR ''x'', CHR ''X'', CHR 0x7B, CHR 0x7D, CHR 0x22, CHR 0x5C}"
    "\<not> c_space c" "(of_char c :: nat) < 128"
  using assms by (auto simp: c_space_def simp del: of_char_eq_iff)

lemma undash: "CHR ''-'' \<notin> set h \<Longrightarrow> filter (\<lambda>x. x \<noteq> CHR ''-'') (dashed h) = h"
proof -
  assume "CHR ''-'' \<notin> set h"
  then have f: "filter (\<lambda>x. x \<noteq> CHR ''-'') (take n (drop m h)) = take n (drop m h)"
    "filter (\<lambda>x. x \<noteq> CHR ''-'') (drop m h) = drop m h" for n m
    by (auto simp: filter_id_conv dest: in_set_takeD in_set_dropD)
  have "take 8 h @ take 4 (drop 8 h) @ take 4 (drop 12 h) @ take 4 (drop 16 h) @ drop 20 h = h"
    using append_take_drop_id[of 8 h] append_take_drop_id[of 4 "drop 8 h"] append_take_drop_id[of 4 "drop 12 h"]
      append_take_drop_id[of 4 "drop 16 h"] by simp
  then show ?thesis using f(1)[of 8 0] by (simp add: dashed_def f)
qed

lemma int_16_digits: "0 < k \<Longrightarrow> int_16 (hex_digits k v) = Inr (v mod 16 ^ k)"
proof -
  assume k: "0 < k"
  define h where "h = hex_digits k v"
  note ch = hex_char_not[OF hex_digits_chars[of _ k v, folded h_def]]
  have "length h = k" by (simp add: h_def)
  then have ne: "h \<noteq> []" using k by auto
  have "\<not> (\<exists>c \<in> set h. 128 \<le> (of_char c :: nat))" using ch(3) by (auto simp: not_le)
  moreover have "rev (dropWhile c_space (rev (dropWhile c_space h))) = h"
    using ne ch(2) by (simp add: dropWhile_hd hd_rev)
  moreover have "\<not> starts_with ''+'' h" "\<not> starts_with ''0x'' h" "\<not> starts_with ''0X'' h"
    using starts_with_set[of "''+''" h "CHR ''+''"] starts_with_set[of "''0x''" h "CHR ''x''"]
      starts_with_set[of "''0X''" h "CHR ''X''"] ch(1)[of "CHR ''+''"] ch(1)[of "CHR ''x''"] ch(1)[of "CHR ''X''"]
    by auto
  ultimately show ?thesis using hex_number_digits[of k False 0 v] k
    unfolding int_16_def h_def[symmetric] by (simp add: Let_def h_def)
qed

lemma UUID_of_uuid_str: "UUID_of_text (uuid_str u) = Inr u"
proof -
  define h where "h = hex_digits 32 (uint u)"
  have nc: "CHR '':'' \<notin> set (uuid_str u)" "CHR 0x7B \<notin> set (uuid_str u)" "CHR 0x7D \<notin> set (uuid_str u)"
    using uuid_str_chars hex_char_not(1) by fastforce+
  have "CHR ''-'' \<notin> set h" using hex_char_not(1)[OF hex_digits_chars[of _ 32 "uint u", folded h_def]] by auto
  then have "remove_all ''-'' (uuid_str u) = h" by (simp add: remove_one_char uuid_str_def h_def undash)
  moreover have "strip_braces (remove_all ''uuid:'' (remove_all ''urn:'' (uuid_str u))) = uuid_str u"
    using nc remove_all_absent[of "CHR '':''" _ "uuid_str u"] by (simp add: strip_braces_absent)
  moreover have "uint u mod 16 ^ 32 = uint u" using uint_lt2p[of u] by simp
  ultimately show ?thesis by (simp add: UUID_of_text_def Let_def h_def int_16_digits)
qed

subsection \<open>The codec\<close>

definition plain_char :: "char \<Rightarrow> bool" where
  "plain_char c \<longleftrightarrow> 32 \<le> (of_char c :: nat) \<and> (of_char c :: nat) < 128 \<and> c \<noteq> CHR 0x22 \<and> c \<noteq> CHR 0x5C"

text \<open>
  What the standard library documents for the texts the encoder makes: \<open>json.loads\<close> inverts
  \<open>json.dumps\<close>, \<open>fromisoformat\<close> inverts \<open>isoformat\<close>, whose text has at most 32 plain characters.
\<close>

definition text_law :: "Text \<Rightarrow> timestamp \<Rightarrow> uuid \<Rightarrow> bool" where
  "text_law tx t i \<longleftrightarrow>
     json_loads tx (utf8 (dumps (cursor_payload tx t i))) = Inr (cursor_payload tx t i)
     \<and> fromisoformat tx (isoformat tx t) = Inr (t, True)
     \<and> length (isoformat tx t) \<le> 32 \<and> list_all plain_char (isoformat tx t)"

lemma json_quote_plain: "list_all plain_char s \<Longrightarrow> json_quote s = [CHR 0x22] @ s @ [CHR 0x22]"
proof -
  assume "list_all plain_char s"
  moreover have "plain_char c \<Longrightarrow> json_escape c = [c]" for c by (auto simp: plain_char_def json_escape_def)
  ultimately have "concat (map json_escape s) = s" by (induction s) auto
  then show ?thesis by (simp add: json_quote_def)
qed

lemma utf8_ascii: "\<forall>c \<in> set s. (of_char c :: nat) < 128 \<Longrightarrow> length (utf8 s) = length s"
  by (induction s) (auto simp: utf8_def)

lemma uuid_str_plain: "list_all plain_char (uuid_str u)"
  unfolding list_all_iff
proof
  fix c assume "c \<in> set (uuid_str u)"
  then consider "c = CHR ''-''" | "(of_char c :: nat) \<in> {48..57} \<union> {97..102}" using uuid_str_chars by blast
  then show "plain_char c"
  proof cases
    case 2
    then show ?thesis using hex_char_not(1)[OF 2] by (auto simp: plain_char_def)
  qed (simp add: plain_char_def)
qed

lemma dumps_payload:
  assumes "list_all plain_char (isoformat tx t)"
  shows "dumps (cursor_payload tx t i) = [CHR 0x7B, CHR 0x22] @ ''created_at'' @ [CHR 0x22, CHR '':'', CHR 0x22] @ isoformat tx t
    @ [CHR 0x22, CHR '','', CHR 0x22] @ ''id'' @ [CHR 0x22, CHR '':'', CHR 0x22] @ uuid_str i
    @ [CHR 0x22, CHR '','', CHR 0x22] @ ''v'' @ [CHR 0x22, CHR '':'', CHR ''1'', CHR 0x7D]"
proof -
  have k: "json_quote ''created_at'' = [CHR 0x22] @ ''created_at'' @ [CHR 0x22]" "json_quote ''id'' = [CHR 0x22] @ ''id'' @ [CHR 0x22]"
    "json_quote ''v'' = [CHR 0x22] @ ''v'' @ [CHR 0x22]"
    by (rule json_quote_plain, simp add: plain_char_def)+
  have one: "int_str 1 = ''1''" by code_simp
  have srt: "sort_key fst [(''created_at'', a), (''id'', b), (''v'', c)] = [(''created_at'', a), (''id'', b), (''v'', c)]"
    for a b c :: string by (simp add: less_char_def)
  show ?thesis
    unfolding cursor_payload_def CURSOR_VERSION_def dumps.simps list.map map_prod_simp id_apply srt prod.case join_comma.simps
      json_quote_plain[OF assms] json_quote_plain[OF uuid_str_plain] k one by simp
qed

lemma payload_bytes:
  assumes "list_all plain_char (isoformat tx t)" "length (isoformat tx t) \<le> 32"
  shows "length (utf8 (dumps (cursor_payload tx t i))) \<le> 99"
proof -
  have "\<forall>c \<in> set (isoformat tx t) \<union> set (uuid_str i). (of_char c :: nat) < 128"
    using assms(1) uuid_str_plain[of i] by (auto simp: list_all_iff plain_char_def)
  then have "\<forall>c \<in> set (dumps (cursor_payload tx t i)). (of_char c :: nat) < 128"
    unfolding dumps_payload[OF assms(1)] by (auto simp del: of_char_eq_iff)
  from utf8_ascii[OF this] show ?thesis
    unfolding dumps_payload[OF assms(1)] using assms(2) by (simp add: length_uuid_str)
qed

lemma decode_encode_position:
  assumes "text_law tx t i"
  shows "decode_position tx (encode_position tx t i) = Inr (t, i)" "length (encode_position tx t i) \<le> 136"
proof -
  define p where "p = dumps (cursor_payload tx t i)"
  have law: "json_loads tx (utf8 p) = Inr (cursor_payload tx t i)" "fromisoformat tx (isoformat tx t) = Inr (t, True)"
    "length (isoformat tx t) \<le> 32" "list_all plain_char (isoformat tx t)"
    using assms by (simp_all add: text_law_def p_def)
  note b = cursor_text[of "utf8 p", unfolded encode_position_def[symmetric] p_def, folded encode_position_def, folded p_def]
  have e: "encode_position tx t i = rstrip_char (CHR ''='') (urlsafe_b64encode (utf8 p))"
    by (simp add: encode_position_def p_def)
  show "decode_position tx (encode_position tx t i) = Inr (t, i)"
    unfolding decode_position_def e Let_def cursor_text(1) bind_res_simps law(1)
    by (simp add: cursor_payload_def CURSOR_VERSION_def is_version_def law(2) UUID_of_json_def UUID_of_uuid_str)
  have "length (utf8 p) \<le> 99" unfolding p_def by (rule payload_bytes[OF law(4,3)])
  then have "(length (utf8 p) + 2) div 3 \<le> 33" by linarith
  then show "length (encode_position tx t i) \<le> 136" unfolding e using cursor_text(2)[of "utf8 p"] by linarith
qed

text \<open>
  C24: A cursor the server hands out is short enough for the query parameter that takes it back, and
  is decoded to exactly the position it was made from, for Connections and for Projects.
\<close>

theorem cursor_round_trip:
  assumes "text_law tx t i"
  shows "\<exists>s. encode_connection_cursor tx (Some (ConnectionPageCursor t i)) = Some s
      \<and> encode_project_cursor tx (Some (ProjectPageCursor t i)) = Some s \<and> length s \<le> 512
      \<and> decode_connection_cursor tx (Some s) = Inr (Some (ConnectionPageCursor t i))
      \<and> decode_project_cursor tx (Some s) = Inr (Some (ProjectPageCursor t i))"
  using decode_encode_position[OF assms]
  by (simp add: encode_connection_cursor_def encode_project_cursor_def decode_connection_cursor_def decode_project_cursor_def
      decode_cursor_def)

definition sample_text :: "json \<Rightarrow> Text" where
  "sample_text payload = \<lparr>json_loads = (\<lambda>_. Inr payload), isoformat = (\<lambda>_. ''2026-01-02T03:04:05.678901+00:00''),
     fromisoformat = (\<lambda>s. if s = ''2026-01-02T03:04:05.678901+00:00'' then Inr (1767323045678901, True)
       else Inl (ValueError ''Invalid isoformat string''))\<rparr>"

definition sample_cursor_payload :: json where
  "sample_cursor_payload = JObj [(''created_at'', JStr ''2026-01-02T03:04:05.678901+00:00''), (''id'', JStr (uuid_str 30)), (''v'', JInt 1)]"

lemma sample_text_law: "text_law (sample_text sample_cursor_payload) 1767323045678901 30"
  by (simp add: text_law_def sample_text_def sample_cursor_payload_def cursor_payload_def CURSOR_VERSION_def plain_char_def)

theorem cursor_round_trip_witness:
  "\<exists>s. encode_connection_cursor (sample_text sample_cursor_payload) (Some (ConnectionPageCursor 1767323045678901 30)) = Some s
    \<and> decode_connection_cursor (sample_text sample_cursor_payload) (Some s) = Inr (Some (ConnectionPageCursor 1767323045678901 30))"
  using cursor_round_trip[OF sample_text_law] by blast

lemma a2b_Inl: "a2b_strict q l p b s = Inl e \<Longrightarrow> \<exists>m. e = ValueError m"
  by (induction q l p b s rule: a2b_strict.induct)
    (auto simp: put_byte_def bind_res_eq_Inl split: if_splits option.splits)

lemma b64decode_Inl: "b64decode s = Inl e \<Longrightarrow> \<exists>m. e = ValueError m"
  by (auto simp: b64decode_def dest: a2b_Inl split: if_splits)

lemma UUID_of_json_Inl:
  "UUID_of_json j = Inl e \<Longrightarrow> (\<exists>m. e = ValueError m \<or> e = TypeError m)
    \<or> (\<exists>m. e = AttributeError m) \<and> (\<forall>s. j \<noteq> JStr s) \<and> j \<noteq> JNull"
  by (auto simp: UUID_of_json_def UUID_of_text_def Let_def int_16_def bind_res_eq_Inl
      split: json.splits if_splits option.splits)

lemma created_at_Inl:
  assumes "\<And>s e. fromisoformat tx s = Inl e \<Longrightarrow> \<exists>m. e = ValueError m"
    and "(case j of JStr s \<Rightarrow> fromisoformat tx s | _ \<Rightarrow> Inl (TypeError m)) = Inl e"
  shows "\<exists>m. e = ValueError m \<or> e = TypeError m"
  using assms(2) by (auto split: json.splits dest: assms(1))

lemma decode_position_Inl:
  assumes "\<And>bs e. json_loads tx bs = Inl e \<Longrightarrow> \<exists>m. e = ValueError m"
    and "\<And>s e. fromisoformat tx s = Inl e \<Longrightarrow> \<exists>m. e = ValueError m"
    and "decode_position tx v = Inl e"
  shows "(\<exists>m. e = ValueError m \<or> e = TypeError m)
    \<or> (\<exists>m bs items j. e = AttributeError m \<and> json_loads tx bs = Inr (JObj items) \<and> map_of items ''id'' = Some j
        \<and> (\<forall>s. j \<noteq> JStr s) \<and> j \<noteq> JNull)"
proof -
  define w where "w = v @ replicate (nat ((- int (length v)) mod 4)) (CHR ''='')"
  note d = assms(3)[unfolded decode_position_def Let_def w_def[symmetric]]
  show ?thesis
  proof (cases "b64decode w")
    case (Inl x)
    then show ?thesis using d b64decode_Inl[OF Inl] by auto
  next
    case (Inr bs)
    note d = d[unfolded Inr bind_res_simps]
    show ?thesis
    proof (cases "json_loads tx bs")
      case (Inl x)
      then show ?thesis using d assms(1)[OF Inl] by auto
    next
      case (Inr payload)
      note d = d[unfolded Inr bind_res_simps]
      show ?thesis
      proof (cases "\<exists>items. payload = JObj items \<and> set (map fst items) = {''created_at'', ''id'', ''v''} \<and> is_version (the (map_of items ''v''))")
        case False
        then show ?thesis using d by (cases payload) (auto split: if_splits)
      next
        case True
        then obtain items where p: "payload = JObj items" "set (map fst items) = {''created_at'', ''id'', ''v''}"
          "is_version (the (map_of items ''v''))" by (elim exE conjE) (rule that)
        define c where "c = (case the (map_of items ''created_at'') of JStr s \<Rightarrow> fromisoformat tx s
          | _ \<Rightarrow> Inl (TypeError ''fromisoformat: argument must be str''))"
        note d = d[unfolded p(1) json.case p(2) c_def[symmetric]]
        show ?thesis
        proof (cases c)
          case (Inl x)
          then show ?thesis using d p(3) created_at_Inl[OF assms(2) Inl[unfolded c_def]] by auto
        next
          case (Inr tb)
          obtain t b where tb: "c = Inr (t, b)" using Inr by (cases tb) simp
          show ?thesis
          proof (cases b)
            case True
            have "UUID_of_json (the (map_of items ''id'')) = Inl e"
              using d p(3) tb True by (simp add: bind_res_eq_Inl)
            moreover have "''id'' \<in> set (map fst items)" unfolding p(2) by simp
            then obtain j where "map_of items ''id'' = Some j" by (metis map_of_eq_None_iff list.set_map option.exhaust)
            ultimately show ?thesis using UUID_of_json_Inl[of "the (map_of items ''id'')" e] Inr \<open>json_loads tx bs = Inr payload\<close> p(1)
              by auto
          next
            case False
            then show ?thesis using d p(3) tb by auto
          qed
        qed
      qed
    qed
  qed
qed


definition sample_bad_payload :: json where
  "sample_bad_payload = JObj [(''created_at'', JStr ''2026-01-02T03:04:05.678901+00:00''), (''id'', JInt 5), (''v'', JInt 1)]"

lemma bad_cursor:
  "decode_connection_cursor (sample_text sample_bad_payload) (Some ''QQ'') =
    Inl (Raised (AttributeError ''object has no attribute replace''))"
  by code_simp


end
