(* ===== verification/Schemas.thy ===== *)
theory Schemas
  imports Cursors ConnectionService Workspaces Authentication
begin

section \<open>Request and response schemas\<close>

text \<open>
  The Pydantic models of \<open>api/routes/v1/*.py\<close>. A request model arrives with its fields already
  parsed to their types; what the program adds are the field constraints and validators, whose
  failures are collected as validation issues: location and error type. Response models are records,
  and \<open>*_response\<close> are the functions that fill them. Pydantic's own parsing and serialisation are not
  modelled.
\<close>

subsection \<open>Requests\<close>

record CreateWorkspaceRequest =
  cwr_name :: string

record CreateProjectRequest =
  cpr_name :: string

record ConnectionAccessRequest =
  car_mode :: ConnectionAccessMode
  car_project_ids :: "uuid list"

record CreateConnectionRequest =
  ccr_name :: string
  ccr_provider_key :: string
  ccr_access :: ConnectionAccessRequest

record RenameConnectionRequest =
  rcr_name :: string

record PutConnectionDraftRequest =
  pdr_configuration :: json_object

definition MAX_PROVIDER_KEY_LENGTH :: nat where "MAX_PROVIDER_KEY_LENGTH = 64"
definition MAX_CURSOR_LENGTH :: nat where "MAX_CURSOR_LENGTH = 512"

text \<open>
  A \<open>str\<close> field with \<open>min_length=1\<close>, \<open>max_length\<close> and an after-validator: the validator runs on a
  value within the bounds, and its \<open>ValueError\<close> is an issue of the field.
\<close>

definition text_field :: "locpart list \<Rightarrow> nat \<Rightarrow> (string \<Rightarrow> exn + string) \<Rightarrow> string \<Rightarrow> issue list + string" where
  "text_field location max_length validator value =
     (if length value < 1 then Inl [(location, ''string_too_short'')]
      else if max_length < length value then Inl [(location, ''string_too_long'')]
      else (case validator value of
          Inl _ \<Rightarrow> Inl [(location, ''value_error'')]
        | Inr v \<Rightarrow> Inr v))"

definition issues_of :: "issue list + 'a \<Rightarrow> issue list" where
  "issues_of r = (case r of Inl issues \<Rightarrow> issues | Inr _ \<Rightarrow> [])"

definition body_field :: "string \<Rightarrow> locpart list" where
  "body_field name = [LStr ''body'', LStr name]"

definition validate_workspace_request :: "CreateWorkspaceRequest \<Rightarrow> issue list + CreateWorkspaceRequest" where
  "validate_workspace_request p =
     map_sum id (\<lambda>name. \<lparr>cwr_name = name\<rparr>)
       (text_field (body_field ''name'') MAX_WORKSPACE_NAME_LENGTH normalize_workspace_name (cwr_name p))"

definition validate_project_request :: "CreateProjectRequest \<Rightarrow> issue list + CreateProjectRequest" where
  "validate_project_request p =
     map_sum id (\<lambda>name. \<lparr>cpr_name = name\<rparr>)
       (text_field (body_field ''name'') MAX_PROJECT_NAME_LENGTH normalize_project_name (cpr_name p))"

definition validate_access_request ::
  "locpart list \<Rightarrow> ConnectionAccessRequest \<Rightarrow> issue list + ConnectionAccessRequest" where
  "validate_access_request location p =
     (if MAX_SELECTED_PROJECTS < length (car_project_ids p)
      then Inl [(location @ [LStr ''project_ids''], ''too_long'')]
      else (case normalize_access_policy (car_mode p) (car_project_ids p) of
          Inl _ \<Rightarrow> Inl [(location, ''value_error'')]
        | Inr _ \<Rightarrow> Inr p))"

definition access_to_domain :: "ConnectionAccessRequest \<Rightarrow> exn + ConnectionAccessPolicy" where
  "access_to_domain p = normalize_access_policy (car_mode p) (car_project_ids p)"

definition validate_connection_request :: "CreateConnectionRequest \<Rightarrow> issue list + CreateConnectionRequest" where
  "validate_connection_request p =
     (let name = text_field (body_field ''name'') MAX_CONNECTION_NAME_LENGTH normalize_connection_name (ccr_name p);
          provider_key = text_field (body_field ''provider_key'') MAX_PROVIDER_KEY_LENGTH normalize_provider_key
            (ccr_provider_key p);
          access = validate_access_request (body_field ''access'') (ccr_access p);
          issues = issues_of name @ issues_of provider_key @ issues_of access in
      if issues \<noteq> [] then Inl issues
      else Inr \<lparr>ccr_name = projr name, ccr_provider_key = projr provider_key, ccr_access = projr access\<rparr>)"

definition validate_rename_request :: "RenameConnectionRequest \<Rightarrow> issue list + RenameConnectionRequest" where
  "validate_rename_request p =
     map_sum id (\<lambda>name. \<lparr>rcr_name = name\<rparr>)
       (text_field (body_field ''name'') MAX_CONNECTION_NAME_LENGTH normalize_connection_name (rcr_name p))"

text \<open>Query parameters with \<open>ge=1\<close>, \<open>le\<close> and \<open>max_length\<close>.\<close>

definition query_limit :: "int \<Rightarrow> int \<Rightarrow> issue list" where
  "query_limit maximum limit =
     (if limit < 1 then [([LStr ''query'', LStr ''limit''], ''greater_than_equal'')]
      else if maximum < limit then [([LStr ''query'', LStr ''limit''], ''less_than_equal'')] else [])"

definition query_cursor :: "string option \<Rightarrow> issue list" where
  "query_cursor cursor = (case cursor of None \<Rightarrow> []
     | Some c \<Rightarrow> if MAX_CURSOR_LENGTH < length c then [([LStr ''query'', LStr ''cursor''], ''string_too_long'')] else [])"

definition query_before_revision :: "int option \<Rightarrow> issue list" where
  "query_before_revision before = (case before of None \<Rightarrow> []
     | Some b \<Rightarrow> if b < 1 then [([LStr ''query'', LStr ''before_revision''], ''greater_than_equal'')] else [])"

subsection \<open>Responses\<close>

record MeResponse =
  me_id :: uuid
  me_email :: string
  me_display_name :: "string option"

record SessionProvisioningResponse =
  sr_user :: MeResponse
  sr_expires_at :: timestamp

record WorkspaceResponse =
  wr_id :: uuid
  wr_name :: string
  wr_status :: WorkspaceStatus
  wr_role :: WorkspaceRole
  wr_created_at :: timestamp
  wr_updated_at :: timestamp

definition workspace_response :: "WorkspaceAccess \<Rightarrow> WorkspaceResponse" where
  "workspace_response a = \<lparr>wr_id = wa_workspace_id a, wr_name = wa_name a, wr_status = wa_status a,
     wr_role = wa_role a, wr_created_at = wa_created_at a, wr_updated_at = wa_updated_at a\<rparr>"

record ProjectResponse =
  pr_id :: uuid
  pr_workspace_id :: uuid
  pr_name :: string
  pr_status :: ProjectStatus
  pr_created_at :: timestamp
  pr_updated_at :: timestamp
  pr_archived_at :: "timestamp option"

record ProjectListResponse =
  pls_items :: "ProjectResponse list"
  pls_next_cursor :: "string option"

definition project_response :: "Project \<Rightarrow> ProjectResponse" where
  "project_response p = \<lparr>pr_id = pj_project_id p, pr_workspace_id = pj_workspace_id p, pr_name = pj_name p,
     pr_status = pj_status p, pr_created_at = pj_created_at p, pr_updated_at = pj_updated_at p,
     pr_archived_at = pj_archived_at p\<rparr>"

record ConnectionAccessResponse =
  cas_mode :: ConnectionAccessMode
  cas_project_ids :: "uuid list"

record ConnectionResponse =
  cs_id :: uuid
  cs_workspace_id :: uuid
  cs_name :: string
  cs_provider_key :: string
  cs_access :: ConnectionAccessResponse
  cs_status :: ConnectionStatus
  cs_created_at :: timestamp
  cs_updated_at :: timestamp
  cs_archived_at :: "timestamp option"

record ConnectionListResponse =
  cls_items :: "ConnectionResponse list"
  cls_next_cursor :: "string option"

record ConnectionDraftResponse =
  ds_connection_id :: uuid
  ds_workspace_id :: uuid
  ds_configuration :: json_object
  ds_updated_by_user_id :: "uuid option"
  ds_updated_at :: timestamp

record ConnectionRevisionMetadataResponse =
  ms_id :: uuid
  ms_connection_id :: uuid
  ms_workspace_id :: uuid
  ms_revision_number :: int
  ms_definition_schema_version :: int
  ms_config_hash :: string
  ms_created_by_user_id :: "uuid option"
  ms_created_at :: timestamp

record ConnectionRevisionResponse = ConnectionRevisionMetadataResponse +
  ms_configuration :: json_object

record ConnectionRevisionListResponse =
  rls_items :: "ConnectionRevisionMetadataResponse list"
  rls_next_before_revision :: "int option"

definition connection_response :: "Connection \<Rightarrow> ConnectionResponse" where
  "connection_response c = \<lparr>cs_id = cn_connection_id c, cs_workspace_id = cn_workspace_id c, cs_name = cn_name c,
     cs_provider_key = cn_provider_key c,
     cs_access = \<lparr>cas_mode = ap_mode (cn_access_policy c), cas_project_ids = ap_project_ids (cn_access_policy c)\<rparr>,
     cs_status = cn_status c, cs_created_at = cn_created_at c, cs_updated_at = cn_updated_at c,
     cs_archived_at = cn_archived_at c\<rparr>"

definition draft_response :: "ConnectionDraft \<Rightarrow> ConnectionDraftResponse" where
  "draft_response d = \<lparr>ds_connection_id = cd_connection_id d, ds_workspace_id = cd_workspace_id d,
     ds_configuration = cd_configuration d, ds_updated_by_user_id = cd_updated_by_user_id d,
     ds_updated_at = cd_updated_at d\<rparr>"

definition revision_metadata_response :: "ConnectionRevisionMetadata \<Rightarrow> ConnectionRevisionMetadataResponse" where
  "revision_metadata_response r = \<lparr>ms_id = rm_revision_id r, ms_connection_id = rm_connection_id r,
     ms_workspace_id = rm_workspace_id r, ms_revision_number = rm_revision_number r,
     ms_definition_schema_version = rm_definition_schema_version r, ms_config_hash = rm_config_hash_hex r,
     ms_created_by_user_id = rm_created_by_user_id r, ms_created_at = rm_created_at r\<rparr>"

definition revision_response :: "ConnectionRevision \<Rightarrow> ConnectionRevisionResponse" where
  "revision_response v = (let m = rv_metadata v in
     \<lparr>ms_id = rm_revision_id m, ms_connection_id = rm_connection_id m, ms_workspace_id = rm_workspace_id m,
      ms_revision_number = rm_revision_number m, ms_definition_schema_version = rm_definition_schema_version m,
      ms_config_hash = rm_config_hash_hex m, ms_created_by_user_id = rm_created_by_user_id m,
      ms_created_at = rm_created_at m, ms_configuration = rv_configuration v\<rparr>)"

datatype body =
    HealthBody string
  | MeBody MeResponse
  | SessionBody SessionProvisioningResponse
  | WorkspaceBody WorkspaceResponse
  | WorkspaceListBody "WorkspaceResponse list"
  | ProjectBody ProjectResponse
  | ProjectListBody ProjectListResponse
  | ConnectionBody ConnectionResponse
  | ConnectionListBody ConnectionListResponse
  | DraftBody ConnectionDraftResponse
  | RevisionBody ConnectionRevisionResponse
  | RevisionListBody ConnectionRevisionListResponse
  | ProblemBody ProblemDetail

end
