(* ===== verification/Api.thy ===== *)
theory Api
  imports Schemas ConnectionMutations
begin

section \<open>The HTTP API\<close>

text \<open>
  \<open>api/routes/health.py\<close>, \<open>api/routes/v1/*.py\<close>, \<open>api/dependencies/authentication.py\<close> and
  \<open>api/middleware/request_context.py\<close> on the services as \<open>bootstrap.py\<close> wires them. A \<open>Request\<close> is
  what FastAPI has made of an HTTP request: the route it matched with its parsed arguments, the
  credentials of \<open>HTTPBearer\<close> and the issues of its own parsing. \<open>Environment\<close> holds what the process
  supplies: the clock, the identifiers \<open>uuid7()\<close> returns, the active trace, the verifier, the
  profile provider, the registry, the hash and the parsers of \<open>Text\<close>.
\<close>

subsection \<open>Requests\<close>

datatype endpoint =
    Livez
  | Readyz
  | GetMe
  | ProvisionSession
  | CreateWorkspace CreateWorkspaceRequest
  | ListWorkspaces
  | GetWorkspace uuid
  | CreateProject uuid CreateProjectRequest
  | ListProjects uuid int "string option"
  | GetProject uuid uuid
  | CreateConnection uuid CreateConnectionRequest
  | ListConnections uuid int "string option"
  | LifecycleConnection ConnectionLifecycleAction uuid uuid
  | GetConnection uuid uuid
  | RenameConnection uuid uuid RenameConnectionRequest
  | GetConnectionDraft uuid uuid
  | PutConnectionDraft uuid uuid PutConnectionDraftRequest
  | ListConnectionRevisions uuid uuid "int option" int
  | PublishConnectionRevision uuid uuid
  | GetConnectionRevision uuid uuid uuid
  | ReplaceConnectionAccess uuid uuid ConnectionAccessRequest
  | Unmatched int "headers option"

record Request =
  rq_method :: string
  rq_route :: "string option"
  rq_credentials :: "(string \<times> string) option"
  rq_issues :: "issue list"
  rq_endpoint :: endpoint

record Environment =
  en_now :: timestamp
  en_request_id :: uuid
  en_trace_id :: "string option"
  en_id :: uuid
  en_membership_id :: uuid
  en_audit_id :: uuid
  en_provision :: Provision
  en_verify :: "string \<Rightarrow> exn + VerifiedAccessToken"
  en_fetch_user :: "string \<Rightarrow> exn + ExternalUserProfile"
  en_session_ttl :: int
  en_registry :: registry
  en_sha256 :: "8 word list \<Rightarrow> 8 word list"
  en_text :: Text
  en_database_ready :: bool

definition request_context :: "Environment \<Rightarrow> RequestContext" where
  "request_context env = \<lparr>rc_request_id = en_request_id env, rc_trace_id = en_trace_id env\<rparr>"

definition request_call :: "Environment \<Rightarrow> AuthenticatedPrincipal \<Rightarrow> Call" where
  "request_call env caller = \<lparr>call_now = en_now env, call_new_id = en_id env, call_audit_id = en_audit_id env,
     call_auth_session_id = ap_auth_session_id caller, call_request_id = rc_request_id (request_context env),
     call_trace_id = rc_trace_id (request_context env)\<rparr>"

subsection \<open>Handlers\<close>

type_synonym 'a handler = "db \<Rightarrow> (api_exn + 'a) \<times> db"

definition raised :: "exn + 'a \<Rightarrow> api_exn + 'a" where
  "raised r = map_sum Raised id r"

definition reading :: "(db \<Rightarrow> exn + 'a) \<Rightarrow> 'a handler" where
  "reading f d = (raised (f d), d)"

definition writing :: "(db \<Rightarrow> (exn + 'a) \<times> db) \<Rightarrow> 'a handler" where
  "writing f d = (case f d of (r, d') \<Rightarrow> (raised r, d'))"

definition answer :: "int \<Rightarrow> ('a \<Rightarrow> headers) \<Rightarrow> ('a \<Rightarrow> body) \<Rightarrow> 'a handler \<Rightarrow> body Response handler" where
  "answer status headers body h d = (case h d of
     (Inl e, d') \<Rightarrow> (Inl e, d')
   | (Inr a, d') \<Rightarrow> (Inr \<lparr>rs_status = status, rs_headers = headers a, rs_media_type = ''application/json'',
       rs_body = body a\<rparr>, d'))"

definition no_store :: "'a \<Rightarrow> headers" where
  "no_store _ = [(''Cache-Control'', ''no-store'')]"

definition located :: "('a \<Rightarrow> string) \<Rightarrow> 'a \<Rightarrow> headers" where
  "located path a = [(''Location'', path a), (''Cache-Control'', ''no-store'')]"

definition workspace_path :: "uuid \<Rightarrow> string" where
  "workspace_path workspace_id = ''/v1/workspaces/'' @ uuid_str workspace_id"

subsection \<open>Authentication\<close>

definition require_bearer_token :: "(string \<times> string) option \<Rightarrow> api_exn + string" where
  "require_bearer_token credentials = (case credentials of
     None \<Rightarrow> Inl (ProblemException AUTH_INVALID_CREDENTIALS [(''WWW-Authenticate'', ''Bearer'')])
   | Some (scheme, token) \<Rightarrow>
       if casefold scheme \<noteq> ''bearer''
       then Inl (ProblemException AUTH_INVALID_CREDENTIALS [(''WWW-Authenticate'', ''Bearer'')])
       else Inr token)"

definition require_authenticated_principal :: "Environment \<Rightarrow> string \<Rightarrow> db \<Rightarrow> api_exn + AuthenticatedPrincipal" where
  "require_authenticated_principal env token d =
     raised (authenticate (en_verify env) (repo_resolve_active_principal (en_now env)) token d)"

subsection \<open>Routes\<close>

definition readyz :: "Environment \<Rightarrow> body Response" where
  "readyz env =
     (if \<not> en_database_ready env
      then \<lparr>rs_status = 503, rs_headers = [], rs_media_type = ''application/json'', rs_body = HealthBody ''not_ready''\<rparr>
      else \<lparr>rs_status = 200, rs_headers = [], rs_media_type = ''application/json'', rs_body = HealthBody ''ready''\<rparr>)"

definition livez :: "body Response" where
  "livez = \<lparr>rs_status = 200, rs_headers = [], rs_media_type = ''application/json'', rs_body = HealthBody ''ok''\<rparr>"

definition me_response :: "AuthenticatedPrincipal \<Rightarrow> MeResponse" where
  "me_response p = \<lparr>me_id = ap_user_id p, me_email = ap_email p, me_display_name = ap_display_name p\<rparr>"

definition session_response :: "ProvisionedSession \<Rightarrow> SessionProvisioningResponse" where
  "session_response s = \<lparr>sr_user = me_response (ps_principal s), sr_expires_at = ps_expires_at s\<rparr>"

definition provision_session :: "Environment \<Rightarrow> string \<Rightarrow> body Response handler" where
  "provision_session env token =
     answer 200 no_store (\<lambda>s. SessionBody (session_response s))
       (writing (provision (en_verify env) repo_find_identity (repo_admit_existing_identity (en_provision env) [])
          (repo_provision_new_identity (en_provision env) []) (en_fetch_user env) (en_session_ttl env) token))"

definition get_me :: "AuthenticatedPrincipal \<Rightarrow> body Response handler" where
  "get_me caller = answer 200 no_store (\<lambda>p. MeBody (me_response p)) (reading (\<lambda>d. Inr caller))"

definition create_workspace_route ::
  "Environment \<Rightarrow> CreateWorkspaceRequest \<Rightarrow> AuthenticatedPrincipal \<Rightarrow> body Response handler" where
  "create_workspace_route env payload caller =
     answer 201 (located (\<lambda>a. workspace_path (wa_workspace_id a))) (\<lambda>a. WorkspaceBody (workspace_response a))
       (writing (create_workspace
          (\<lambda>name. repo_create_owned_workspace (en_now env) (en_id env) (en_membership_id env) (en_audit_id env)
             (ap_user_id caller) (ap_auth_session_id caller) name
             (rc_request_id (request_context env)) (rc_trace_id (request_context env)))
          (cwr_name payload)))"

definition list_workspaces_route :: "AuthenticatedPrincipal \<Rightarrow> body Response handler" where
  "list_workspaces_route caller =
     answer 200 no_store (\<lambda>as. WorkspaceListBody (map workspace_response as))
       (reading (list_workspaces repo_list_workspaces_for_user (ap_user_id caller)))"

definition get_workspace_route :: "uuid \<Rightarrow> AuthenticatedPrincipal \<Rightarrow> body Response handler" where
  "get_workspace_route workspace_id caller =
     answer 200 no_store (\<lambda>a. WorkspaceBody (workspace_response a))
       (reading (get_workspace repo_get_workspace_for_user (ap_user_id caller) workspace_id))"

definition create_project_route ::
  "Environment \<Rightarrow> uuid \<Rightarrow> CreateProjectRequest \<Rightarrow> AuthenticatedPrincipal \<Rightarrow> body Response handler" where
  "create_project_route env workspace_id payload caller =
     answer 201 (located (\<lambda>p. workspace_path workspace_id @ ''/projects/'' @ uuid_str (pj_project_id p)))
       (\<lambda>p. ProjectBody (project_response p))
       (writing (create_project
          (repo_create_project (en_now env) (en_id env) (en_audit_id env) (ap_auth_session_id caller)
             (rc_request_id (request_context env)) (rc_trace_id (request_context env)))
          (ap_user_id caller) workspace_id (cpr_name payload)))"

definition list_projects_route ::
  "Environment \<Rightarrow> uuid \<Rightarrow> int \<Rightarrow> string option \<Rightarrow> AuthenticatedPrincipal \<Rightarrow> body Response handler" where
  "list_projects_route env workspace_id limit cursor caller =
     answer 200 no_store
       (\<lambda>page. ProjectListBody \<lparr>pls_items = map project_response (pp_items page),
          pls_next_cursor = encode_project_cursor (en_text env) (pp_next_cursor page)\<rparr>)
       (\<lambda>d. case decode_project_cursor (en_text env) cursor of
          Inl e \<Rightarrow> (Inl e, d)
        | Inr decoded \<Rightarrow>
            reading (list_projects repo_list_projects_for_user (ap_user_id caller) workspace_id decoded limit) d)"

definition get_project_route :: "uuid \<Rightarrow> uuid \<Rightarrow> AuthenticatedPrincipal \<Rightarrow> body Response handler" where
  "get_project_route workspace_id project_id caller =
     answer 200 no_store (\<lambda>p. ProjectBody (project_response p))
       (reading (get_project repo_get_project_for_user (ap_user_id caller) workspace_id project_id))"

definition create_connection_route ::
  "Environment \<Rightarrow> uuid \<Rightarrow> CreateConnectionRequest \<Rightarrow> AuthenticatedPrincipal \<Rightarrow> body Response handler" where
  "create_connection_route env workspace_id payload caller =
     answer 201 (located (\<lambda>c. workspace_path workspace_id @ ''/connections/'' @ uuid_str (cn_connection_id c)))
       (\<lambda>c. ConnectionBody (connection_response c))
       (writing (\<lambda>d. case access_to_domain (ccr_access payload) of
          Inl e \<Rightarrow> (Inl e, d)
        | Inr policy \<Rightarrow>
            create_connection (en_registry env) (repo_create_connection (request_call env caller))
              (ap_user_id caller) workspace_id (ccr_name payload) (ccr_provider_key payload) policy d))"

definition list_connections_route ::
  "Environment \<Rightarrow> uuid \<Rightarrow> int \<Rightarrow> string option \<Rightarrow> AuthenticatedPrincipal \<Rightarrow> body Response handler" where
  "list_connections_route env workspace_id limit cursor caller =
     answer 200 no_store
       (\<lambda>page. ConnectionListBody \<lparr>cls_items = map connection_response (cp_items page),
          cls_next_cursor = encode_connection_cursor (en_text env) (cp_next_cursor page)\<rparr>)
       (\<lambda>d. case decode_connection_cursor (en_text env) cursor of
          Inl e \<Rightarrow> (Inl e, d)
        | Inr decoded \<Rightarrow>
            reading (list_connections repo_list_connections_for_user (ap_user_id caller) workspace_id decoded limit) d)"

definition connection_answer :: "(db \<Rightarrow> (exn + Connection) \<times> db) \<Rightarrow> body Response handler" where
  "connection_answer f = answer 200 no_store (\<lambda>c. ConnectionBody (connection_response c)) (writing f)"

definition lifecycle_action ::
  "Environment \<Rightarrow> uuid \<Rightarrow> uuid \<Rightarrow> ConnectionLifecycleAction \<Rightarrow> AuthenticatedPrincipal \<Rightarrow> body Response handler" where
  "lifecycle_action env workspace_id connection_id action caller =
     connection_answer (transition_lifecycle (repo_transition_lifecycle (request_call env caller))
       (ap_user_id caller) workspace_id connection_id action)"

definition get_connection_route :: "uuid \<Rightarrow> uuid \<Rightarrow> AuthenticatedPrincipal \<Rightarrow> body Response handler" where
  "get_connection_route workspace_id connection_id caller =
     answer 200 no_store (\<lambda>c. ConnectionBody (connection_response c))
       (reading (get_connection repo_get_connection_for_user (ap_user_id caller) workspace_id connection_id))"

definition rename_connection_route ::
  "Environment \<Rightarrow> uuid \<Rightarrow> uuid \<Rightarrow> RenameConnectionRequest \<Rightarrow> AuthenticatedPrincipal \<Rightarrow> body Response handler" where
  "rename_connection_route env workspace_id connection_id payload caller =
     connection_answer (rename_connection (repo_rename_connection (request_call env caller))
       (ap_user_id caller) workspace_id connection_id (rcr_name payload))"

definition get_connection_draft_route :: "uuid \<Rightarrow> uuid \<Rightarrow> AuthenticatedPrincipal \<Rightarrow> body Response handler" where
  "get_connection_draft_route workspace_id connection_id caller =
     answer 200 no_store (\<lambda>x. DraftBody (draft_response x))
       (reading (get_draft repo_get_draft_for_user (ap_user_id caller) workspace_id connection_id))"

definition put_connection_draft_route ::
  "Environment \<Rightarrow> uuid \<Rightarrow> uuid \<Rightarrow> PutConnectionDraftRequest \<Rightarrow> AuthenticatedPrincipal \<Rightarrow> body Response handler" where
  "put_connection_draft_route env workspace_id connection_id payload caller =
     answer 200 no_store (\<lambda>x. DraftBody (draft_response x))
       (writing (put_draft (en_registry env) (repo_put_draft (request_call env caller))
          (ap_user_id caller) workspace_id connection_id (pdr_configuration payload)))"

definition list_connection_revisions_route ::
  "uuid \<Rightarrow> uuid \<Rightarrow> int option \<Rightarrow> int \<Rightarrow> AuthenticatedPrincipal \<Rightarrow> body Response handler" where
  "list_connection_revisions_route workspace_id connection_id before_revision limit caller =
     answer 200 no_store
       (\<lambda>page. RevisionListBody \<lparr>rls_items = map revision_metadata_response (rp_items page),
          rls_next_before_revision = rp_next_before_revision page\<rparr>)
       (reading (list_revisions repo_list_revisions_for_user (ap_user_id caller) workspace_id connection_id
          before_revision limit))"

definition publish_connection_revision_route ::
  "Environment \<Rightarrow> uuid \<Rightarrow> uuid \<Rightarrow> AuthenticatedPrincipal \<Rightarrow> body Response handler" where
  "publish_connection_revision_route env workspace_id connection_id caller =
     answer 201 (located (\<lambda>v. workspace_path workspace_id @ ''/connections/'' @ uuid_str connection_id @ ''/revisions/''
         @ uuid_str (rm_revision_id (rv_metadata v))))
       (\<lambda>v. RevisionBody (revision_response v))
       (writing (publish_revision (en_sha256 env) (en_registry env) (repo_publish_revision (request_call env caller))
          (ap_user_id caller) workspace_id connection_id))"

definition get_connection_revision_route ::
  "uuid \<Rightarrow> uuid \<Rightarrow> uuid \<Rightarrow> AuthenticatedPrincipal \<Rightarrow> body Response handler" where
  "get_connection_revision_route workspace_id connection_id revision_id caller =
     answer 200 no_store (\<lambda>v. RevisionBody (revision_response v))
       (reading (get_revision repo_get_revision_for_user (ap_user_id caller) workspace_id connection_id revision_id))"

definition replace_connection_access_route ::
  "Environment \<Rightarrow> uuid \<Rightarrow> uuid \<Rightarrow> ConnectionAccessRequest \<Rightarrow> AuthenticatedPrincipal \<Rightarrow> body Response handler" where
  "replace_connection_access_route env workspace_id connection_id payload caller =
     connection_answer (\<lambda>d. case access_to_domain payload of
       Inl e \<Rightarrow> (Inl e, d)
     | Inr policy \<Rightarrow>
         replace_access (repo_replace_access (request_call env caller)) (ap_user_id caller) workspace_id
           connection_id policy d)"

subsection \<open>Dispatch\<close>

text \<open>
  \<open>validate_endpoint\<close> runs the constraints and validators of the arguments of a route.
\<close>

definition checked :: "issue list \<Rightarrow> endpoint \<Rightarrow> issue list + endpoint" where
  "checked issues e = (if issues \<noteq> [] then Inl issues else Inr e)"

fun validate_endpoint :: "endpoint \<Rightarrow> issue list + endpoint" where
  "validate_endpoint (CreateWorkspace p) = map_sum id CreateWorkspace (validate_workspace_request p)"
| "validate_endpoint (CreateProject w p) = map_sum id (CreateProject w) (validate_project_request p)"
| "validate_endpoint (ListProjects w limit cursor) =
     checked (query_limit MAX_PROJECT_PAGE_LIMIT limit @ query_cursor cursor) (ListProjects w limit cursor)"
| "validate_endpoint (CreateConnection w p) = map_sum id (CreateConnection w) (validate_connection_request p)"
| "validate_endpoint (ListConnections w limit cursor) =
     checked (query_limit MAX_CONNECTION_PAGE_LIMIT limit @ query_cursor cursor) (ListConnections w limit cursor)"
| "validate_endpoint (RenameConnection w c p) = map_sum id (RenameConnection w c) (validate_rename_request p)"
| "validate_endpoint (ListConnectionRevisions w c before limit) =
     checked (query_before_revision before @ query_limit MAX_CONNECTION_REVISION_PAGE_LIMIT limit)
       (ListConnectionRevisions w c before limit)"
| "validate_endpoint (ReplaceConnectionAccess w c p) =
     map_sum id (ReplaceConnectionAccess w c) (validate_access_request [LStr ''body''] p)"
| "validate_endpoint e = Inr e"

fun authenticated_route :: "Environment \<Rightarrow> endpoint \<Rightarrow> AuthenticatedPrincipal \<Rightarrow> body Response handler" where
  "authenticated_route env GetMe = get_me"
| "authenticated_route env (CreateWorkspace p) = create_workspace_route env p"
| "authenticated_route env ListWorkspaces = list_workspaces_route"
| "authenticated_route env (GetWorkspace w) = get_workspace_route w"
| "authenticated_route env (CreateProject w p) = create_project_route env w p"
| "authenticated_route env (ListProjects w limit cursor) = list_projects_route env w limit cursor"
| "authenticated_route env (GetProject w p) = get_project_route w p"
| "authenticated_route env (CreateConnection w p) = create_connection_route env w p"
| "authenticated_route env (ListConnections w limit cursor) = list_connections_route env w limit cursor"
| "authenticated_route env (LifecycleConnection action w c) = lifecycle_action env w c action"
| "authenticated_route env (GetConnection w c) = get_connection_route w c"
| "authenticated_route env (RenameConnection w c p) = rename_connection_route env w c p"
| "authenticated_route env (GetConnectionDraft w c) = get_connection_draft_route w c"
| "authenticated_route env (PutConnectionDraft w c p) = put_connection_draft_route env w c p"
| "authenticated_route env (ListConnectionRevisions w c before limit) =
     list_connection_revisions_route w c before limit"
| "authenticated_route env (PublishConnectionRevision w c) = publish_connection_revision_route env w c"
| "authenticated_route env (GetConnectionRevision w c r) = get_connection_revision_route w c r"
| "authenticated_route env (ReplaceConnectionAccess w c p) = replace_connection_access_route env w c p"
| "authenticated_route env e = (\<lambda>_ d. (Inl (HTTPException 404 None), d))"

text \<open>
  FastAPI resolves the dependencies of a route first and raises what they raise; then it refuses
  the request if a parameter is invalid, its own issues (\<open>rq_issues\<close>, complete when a parameter does
  not parse) before the program's.
\<close>

definition public_endpoint :: "endpoint \<Rightarrow> bool" where
  "public_endpoint e \<longleftrightarrow> (case e of Livez \<Rightarrow> True | Readyz \<Rightarrow> True | Unmatched _ _ \<Rightarrow> True | _ \<Rightarrow> False)"

definition validated :: "Request \<Rightarrow> api_exn + endpoint" where
  "validated rq =
     (if rq_issues rq \<noteq> [] then Inl (RequestValidationError (rq_issues rq))
      else map_sum RequestValidationError id (validate_endpoint (rq_endpoint rq)))"

definition router :: "Environment \<Rightarrow> Request \<Rightarrow> body Response handler" where
  "router env rq d =
     (case rq_endpoint rq of
        Livez \<Rightarrow> (Inr livez, d)
      | Readyz \<Rightarrow> (Inr (readyz env), d)
      | Unmatched status_code headers \<Rightarrow> (Inl (HTTPException status_code headers), d)
      | _ \<Rightarrow>
     (case require_bearer_token (rq_credentials rq) of
        Inl e \<Rightarrow> (Inl e, d)
      | Inr token \<Rightarrow>
     if rq_endpoint rq = ProvisionSession
     then (case validated rq of Inl e \<Rightarrow> (Inl e, d) | Inr _ \<Rightarrow> provision_session env token d)
     else
     (case require_authenticated_principal env token d of
        Inl e \<Rightarrow> (Inl e, d)
      | Inr caller \<Rightarrow>
     (case validated rq of
        Inl e \<Rightarrow> (Inl e, d)
      | Inr e \<Rightarrow> authenticated_route env e caller d))))"

subsection \<open>Middleware\<close>

definition problem_body :: "ProblemDetail Response \<Rightarrow> body Response" where
  "problem_body r = \<lparr>rs_status = rs_status r, rs_headers = rs_headers r, rs_media_type = rs_media_type r,
     rs_body = ProblemBody (rs_body r)\<rparr>"

text \<open>\<open>ExceptionMiddleware\<close>: a response, or nothing when the exception goes on.\<close>

definition exception_middleware :: "RequestContext \<Rightarrow> api_exn + body Response \<Rightarrow> body Response option" where
  "exception_middleware context r = (case r of
     Inr response \<Rightarrow> Some response
   | Inl e \<Rightarrow> (case exception_handler context e of
       Some (Inr response) \<Rightarrow> Some (problem_body response)
     | _ \<Rightarrow> None))"

text \<open>Starlette sends header names in lower case; \<open>send_with_request_id\<close> replaces the request's identifier.\<close>

definition raw_headers :: "headers \<Rightarrow> headers" where
  "raw_headers = map (\<lambda>(name, value). (lower name, value))"

definition send_with_request_id :: "RequestContext \<Rightarrow> body Response \<Rightarrow> body Response" where
  "send_with_request_id context response = response\<lparr>rs_headers :=
     filter (\<lambda>(name, _). lower name \<noteq> ''x-request-id'') (raw_headers (rs_headers response))
       @ [(''x-request-id'', uuid_str (rc_request_id context))]\<rparr>"

record AccessLog =
  al_request_id :: string
  al_trace_id :: "string option"
  al_method :: string
  al_route :: string
  al_status_code :: int

definition route_template :: "string option \<Rightarrow> string" where
  "route_template route = (case route of
     Some template \<Rightarrow> if template \<noteq> [] then template else ''<unmatched>''
   | None \<Rightarrow> ''<unmatched>'')"

definition access_log :: "RequestContext \<Rightarrow> Request \<Rightarrow> int \<Rightarrow> AccessLog" where
  "access_log context rq status_code = \<lparr>al_request_id = uuid_str (rc_request_id context),
     al_trace_id = rc_trace_id context, al_method = rq_method rq, al_route = route_template (rq_route rq),
     al_status_code = status_code\<rparr>"

text \<open>
  The application: the router and the exception handlers inside the request-context middleware, whose
  status stays 500 when an exception passes it; \<open>ServerErrorMiddleware\<close> outside it then answers.
\<close>

definition handle_request :: "Environment \<Rightarrow> Request \<Rightarrow> db \<Rightarrow> (body Response \<times> AccessLog) \<times> db" where
  "handle_request env rq d =
     (let context = request_context env; (r, d') = router env rq d in
      case exception_middleware context r of
        Some response \<Rightarrow>
          ((send_with_request_id context response, access_log context rq (rs_status response)), d')
      | None \<Rightarrow>
          (let response = problem_body (projr (internal_error_handler context)) in
           ((response\<lparr>rs_headers := raw_headers (rs_headers response)\<rparr>, access_log context rq 500), d')))"

end
