(* ===== verification/ApiContracts.thy ===== *)
theory ApiContracts
  imports Api AuthenticationContracts ConnectionContracts CursorFacts
begin

section \<open>What the HTTP API promises\<close>

text \<open>
  \<open>handle_request\<close> as a service over the database: every request, whoever sends it, keeps the tables
  well formed; a request that fails changes nothing; without a live session nothing is done; every
  failure is a Problem Details response of the registry with the identifier of its request; and what a
  caller is told about a Workspace they are no member of does not depend on the database.
\<close>

subsection \<open>Services whose failures leave no trace\<close>

text \<open>A sequence of requests, with the answers.\<close>

fun serve_all :: "('q \<Rightarrow> 'd \<Rightarrow> 'r \<times> 'd) \<Rightarrow> 'q list \<Rightarrow> 'd \<Rightarrow> ('q \<times> 'r) list \<times> 'd" where
  "serve_all serve [] d = ([], d)"
| "serve_all serve (q # qs) d =
     (let (r, d') = serve q d; (rs, d'') = serve_all serve qs d' in ((q, r) # rs, d''))"

locale atomic_service =
  fixes ok :: "'d \<Rightarrow> bool"
    and serve :: "'q \<Rightarrow> 'd \<Rightarrow> 'r \<times> 'd"
    and failed :: "'r \<Rightarrow> bool"
  assumes atomic_law: "ok d \<Longrightarrow> serve q d = (r, d') \<Longrightarrow> failed r \<Longrightarrow> d' = d"
    and keep_law: "ok d \<Longrightarrow> serve q d = (r, d') \<Longrightarrow> ok d'"
begin

lemma serve_all_keeps: "ok d \<Longrightarrow> ok (snd (serve_all serve qs d))"
proof (induction qs arbitrary: d)
  case (Cons q qs)
  obtain r d1 where s: "serve q d = (r, d1)" by (cases "serve q d")
  show ?case using Cons.IH[OF keep_law[OF Cons.prems s]] s by (cases "serve_all serve qs d1") (simp add: Let_def)
qed simp

text \<open>A history can be replayed from the requests that did not fail.\<close>

lemma serve_all_replay:
  "ok d \<Longrightarrow> serve_all serve qs d = (rs, d') \<Longrightarrow>
    serve_all serve (map fst (filter (\<lambda>(_, r). \<not> failed r) rs)) d = (filter (\<lambda>(_, r). \<not> failed r) rs, d')"
proof (induction qs arbitrary: d rs d')
  case (Cons q qs)
  obtain r d1 where s: "serve q d = (r, d1)" by (cases "serve q d")
  obtain rs1 d2 where t: "serve_all serve qs d1 = (rs1, d2)" by (cases "serve_all serve qs d1")
  have eq: "rs = (q, r) # rs1" "d' = d2" using Cons.prems(2) s t by (simp_all add: Let_def)
  show ?case
  proof (cases "failed r")
    case True
    then have "d1 = d" using atomic_law[OF Cons.prems(1) s] by simp
    then show ?thesis using True Cons.IH[OF Cons.prems(1)] t unfolding eq by simp
  next
    case False
    then show ?thesis using Cons.IH[OF keep_law[OF Cons.prems(1) s] t] s eq by simp
  qed
qed simp

end

subsection \<open>Operations and handlers\<close>

text \<open>
  \<open>safe_op\<close>: an operation keeps the tables and fails without a trace. \<open>safe_handler\<close>: so does a
  handler, which moreover answers with a status of success.
\<close>

definition safe_op :: "(db \<Rightarrow> (exn + 'a) \<times> db) \<Rightarrow> bool" where
  "safe_op f \<longleftrightarrow> (\<forall>d r d'. conn_ok d \<longrightarrow> f d = (r, d') \<longrightarrow> (case r of Inl _ \<Rightarrow> d' = d | Inr _ \<Rightarrow> conn_ok d'))"

definition safe_handler :: "body Response handler \<Rightarrow> bool" where
  "safe_handler h \<longleftrightarrow> (\<forall>d r d'. conn_ok d \<longrightarrow> h d = (r, d') \<longrightarrow>
     (case r of Inl _ \<Rightarrow> d' = d | Inr x \<Rightarrow> conn_ok d' \<and> rs_status x \<in> {200, 201}))"

lemma raised_simps [simp]: "raised (Inl e) = Inl (Raised e)" "raised (Inr a) = Inr a"
  by (simp_all add: raised_def)

lemma answer_reading:
  "answer status headers body (reading f) d = (case f d of
     Inl e \<Rightarrow> (Inl (Raised e), d)
   | Inr a \<Rightarrow> (Inr \<lparr>rs_status = status, rs_headers = headers a, rs_media_type = ''application/json'', rs_body = body a\<rparr>, d))"
  by (simp add: answer_def reading_def split: sum.split)

lemma answer_writing:
  "answer status headers body (writing f) d = (case f d of
     (Inl e, d') \<Rightarrow> (Inl (Raised e), d')
   | (Inr a, d') \<Rightarrow> (Inr \<lparr>rs_status = status, rs_headers = headers a, rs_media_type = ''application/json'', rs_body = body a\<rparr>, d'))"
  by (simp add: answer_def writing_def split: sum.split prod.split)

lemma safe_reading: "status \<in> {200, 201} \<Longrightarrow> safe_handler (answer status headers body (reading f))"
  by (auto simp: safe_handler_def answer_reading split: sum.splits)

lemma safe_writing: "status \<in> {200, 201} \<Longrightarrow> safe_op f \<Longrightarrow> safe_handler (answer status headers body (writing f))"
proof -
  assume s: "status \<in> {200, 201}" and f: "safe_op f"
  show ?thesis unfolding safe_handler_def
  proof (intro allI impI)
    fix d r d' assume d: "conn_ok d" and a: "answer status headers body (writing f) d = (r, d')"
    obtain x d1 where x: "f d = (x, d1)" by (cases "f d")
    then have "case x of Inl _ \<Rightarrow> d1 = d | Inr _ \<Rightarrow> conn_ok d1" using f d by (auto simp: safe_op_def)
    then show "case r of Inl _ \<Rightarrow> d' = d | Inr y \<Rightarrow> conn_ok d' \<and> rs_status y \<in> {200, 201}"
      using a s unfolding answer_writing x prod.case by (cases x) auto
  qed
qed

lemma safe_paged:
  "status \<in> {200, 201} \<Longrightarrow>
    safe_handler (answer status headers body (\<lambda>d. case c of Inl e \<Rightarrow> (Inl e, d) | Inr x \<Rightarrow> reading (f x) d))"
  by (auto simp: safe_handler_def answer_def reading_def raised_def map_sum_def split: sum.splits)

lemma safe_opI:
  assumes "\<And>d e d'. conn_ok d \<Longrightarrow> f d = (Inl e, d') \<Longrightarrow> d' = d"
    and "\<And>d a d'. conn_ok d \<Longrightarrow> f d = (Inr a, d') \<Longrightarrow> conn_ok d'"
  shows "safe_op f"
  unfolding safe_op_def
proof (intro allI impI)
  fix d r d' assume "conn_ok d" "f d = (r, d')"
  then show "case r of Inl _ \<Rightarrow> d' = d | Inr _ \<Rightarrow> conn_ok d'" using assms[of d] by (cases r) simp_all
qed

lemma safe_op_checked:
  "(\<And>x. c = Inr x \<Longrightarrow> safe_op (f x)) \<Longrightarrow> safe_op (\<lambda>d. case c of Inl e \<Rightarrow> (Inl e, d) | Inr x \<Rightarrow> f x d)"
  by (cases c) (simp_all add: safe_op_def)

lemma conn_ok_frame:
  assumes "conn_ok d" "schema_ok d'" "connections d' = connections d" "project_access d' = project_access d"
  shows "conn_ok d'"
  using assms by (simp add: conn_ok_def access_consistent_def access_project_ids_def)

lemma policy_of_normalized: "normalize_access_policy m ps = Inr q \<Longrightarrow> policy_ok q"
  using normalize_access_policy_Inr[of m ps q] by (auto simp: policy_ok_def)

lemma safe_sign_in: "safe_op (sign_in verify fetch ttl pv [] token)"
proof (rule safe_opI)
  fix d d' e assume "conn_ok d" "sign_in verify fetch ttl pv [] token d = (Inl e, d')"
  then show "d' = d" using sign_in_failed_quiet by (blast dest: conn_ok_schema)
next
  fix d d' s assume d: "conn_ok d" and s: "sign_in verify fetch ttl pv [] token d = (Inr s, d')"
  obtain w where "d' = with_writes d w" using sign_in_signed_in[OF conn_ok_schema[OF d] s] by metis
  moreover have "schema_ok d'" using sign_in_facts[OF conn_ok_schema[OF d] s] by simp
  ultimately show "conn_ok d'" using conn_ok_frame[OF d] by (simp add: with_writes_def)
qed

lemma safe_create_workspace:
  "safe_op (create_workspace (\<lambda>n. repo_create_owned_workspace now wid mid aid u sid n rid tid) name)"
  unfolding create_workspace_def
proof (rule safe_op_checked, rule safe_opI)
  fix n d d' e assume "conn_ok d" "repo_create_owned_workspace now wid mid aid u sid n rid tid d = (Inl e, d')"
  then show "d' = d" using create_owned_workspace_ok[OF conn_ok_schema, of d wid mid aid u now sid n rid tid]
      create_owned_workspace_not_fresh[of wid mid aid u d now sid n rid tid]
    by (cases "workspace_ids_fresh wid mid aid u d") auto
next
  fix n d d' a assume d: "conn_ok d" and c: "repo_create_owned_workspace now wid mid aid u sid n rid tid d = (Inr a, d')"
  have f: "workspace_ids_fresh wid mid aid u d"
    using c create_owned_workspace_not_fresh[of wid mid aid u d now sid n rid tid] by fastforce
  have "d' = workspace_created now wid mid aid u sid n rid tid d"
    using c create_owned_workspace_ok[OF conn_ok_schema[OF d] f, of now sid n rid tid] by simp
  then show "conn_ok d'"
    using conn_ok_frame[OF d workspace_created_schema[OF conn_ok_schema[OF d] f]] by (simp add: workspace_created_def)
qed

lemma safe_create_project:
  "safe_op (create_project (repo_create_project now pid aid sid rid tid) u w name)"
  unfolding create_project_def
proof (rule safe_op_checked, rule safe_opI)
  fix n d d' e assume d: "conn_ok d" "repo_create_project now pid aid sid rid tid authorize_project_creation u w n d = (Inl e, d')"
  then show "d' = d"
    by (auto simp: repo_create_project_eq[OF conn_ok_schema] split: option.splits sum.splits if_splits)
next
  fix n d d' a assume d: "conn_ok d"
    and c: "repo_create_project now pid aid sid rid tid authorize_project_creation u w n d = (Inr a, d')"
  show "conn_ok d'"
    by (rule repo_create_project_Inr[OF conn_ok_schema[OF d] c])
      (rule conn_ok_frame[OF d], simp_all add: project_created_def)
qed

lemma safe_create_connection: "safe_op (create_connection reg (repo_create_connection call) u w n k p)"
proof (rule safe_opI)
  fix d d' e assume d: "conn_ok d" "create_connection reg (repo_create_connection call) u w n k p d = (Inl e, d')"
  then show "d' = d"
    by (auto simp: create_connection_def repo_create_connection_eq[OF _ policy_of_normalized]
        split: sum.splits option.splits if_splits)
next
  fix d d' a assume d: "conn_ok d" and c: "create_connection reg (repo_create_connection call) u w n k p d = (Inr a, d')"
  show "conn_ok d'"
    by (rule create_step[OF d c]) (simp add: connection_created_state_ok[OF d] policy_of_normalized)
qed

lemma safe_mutations:
  "safe_op (rename_connection (repo_rename_connection call) u w c n)"
  "safe_op (put_draft reg (repo_put_draft call) u w c cfg)"
  "safe_op (publish_revision sha256 reg (repo_publish_revision call) u w c)"
  "safe_op (replace_access (repo_replace_access call) u w c p)"
  "safe_op (transition_lifecycle (repo_transition_lifecycle call) u w c act)"
proof -
  show "safe_op (rename_connection (repo_rename_connection call) u w c n)"
    unfolding rename_connection_def
    by (intro safe_op_checked safe_opI) (blast dest: sql_rename.atomic_law sql_rename.keeps_law)+
  show "safe_op (put_draft reg (repo_put_draft call) u w c cfg)"
    unfolding put_draft_def normalize_draft_configuration_def
    using sql_put_draft.atomic_law[where x = "(compile_draft reg, cfg)"]
      sql_put_draft.keeps_law[where x = "(compile_draft reg, cfg)"]
    by (intro safe_opI) simp_all
  show "safe_op (publish_revision sha256 reg (repo_publish_revision call) u w c)"
    unfolding publish_revision_def by (intro safe_opI) (blast dest: sql_publish.atomic_law sql_publish.keeps_law)+
  show "safe_op (replace_access (repo_replace_access call) u w c p)"
    unfolding replace_access_def
    by (intro safe_op_checked safe_opI)
      (blast dest: policy_of_normalized sql_access.atomic_law sql_access.keeps_law)+
  show "safe_op (transition_lifecycle (repo_transition_lifecycle call) u w c act)"
    unfolding transition_lifecycle_def
    by (intro safe_opI) (blast dest: sql_transition.atomic_law sql_transition.keeps_law)+
qed

lemma safe_routes: "safe_handler (authenticated_route env e caller)"
proof -
  have unknown: "safe_handler (\<lambda>d. (Inl x, d))" for x by (simp add: safe_handler_def)
  show ?thesis
    by (cases e)
      (simp_all add: unknown get_me_def create_workspace_route_def list_workspaces_route_def get_workspace_route_def
        create_project_route_def list_projects_route_def get_project_route_def create_connection_route_def
        list_connections_route_def lifecycle_action_def get_connection_route_def rename_connection_route_def
        get_connection_draft_route_def put_connection_draft_route_def list_connection_revisions_route_def
        publish_connection_revision_route_def get_connection_revision_route_def replace_connection_access_route_def
        connection_answer_def safe_reading safe_paged safe_writing safe_op_checked safe_create_workspace safe_create_project
        safe_create_connection safe_mutations)
qed

lemma safe_provision_session: "safe_handler (provision_session env token)"
  unfolding provision_session_def sign_in_def[symmetric] by (simp add: safe_writing safe_sign_in)

subsection \<open>The router\<close>

definition json_handler :: "body Response handler \<Rightarrow> bool" where
  "json_handler h \<longleftrightarrow> (\<forall>d x d'. h d = (Inr x, d') \<longrightarrow>
     rs_media_type x = ''application/json'' \<and> (\<nexists>pd. rs_body x = ProblemBody pd))"

lemma json_answer: "(\<And>a pd. body a \<noteq> ProblemBody pd) \<Longrightarrow> json_handler (answer status headers body h)"
  by (auto simp: json_handler_def answer_def split: prod.splits sum.splits)

lemma json_routes: "json_handler (authenticated_route env e caller)"
proof -
  have unknown: "json_handler (\<lambda>d. (Inl x, d))" for x by (simp add: json_handler_def)
  show ?thesis
    by (cases e)
      (simp_all add: unknown get_me_def create_workspace_route_def list_workspaces_route_def get_workspace_route_def
        create_project_route_def list_projects_route_def get_project_route_def create_connection_route_def
        list_connections_route_def lifecycle_action_def get_connection_route_def rename_connection_route_def
        get_connection_draft_route_def put_connection_draft_route_def list_connection_revisions_route_def
        publish_connection_revision_route_def get_connection_revision_route_def replace_connection_access_route_def
        connection_answer_def json_answer)
qed

lemma json_provision_session: "json_handler (provision_session env token)"
  by (simp add: provision_session_def json_answer)

text \<open>The router on a protected endpoint other than provisioning.\<close>

definition ordinary :: "endpoint \<Rightarrow> bool" where
  "ordinary e \<longleftrightarrow> \<not> public_endpoint e \<and> e \<noteq> ProvisionSession"

lemma router_ordinary:
  "ordinary (rq_endpoint rq) \<Longrightarrow> router env rq d =
     (case require_bearer_token (rq_credentials rq) of
        Inl e \<Rightarrow> (Inl e, d)
      | Inr token \<Rightarrow> (case require_authenticated_principal env token d of
          Inl e \<Rightarrow> (Inl e, d)
        | Inr caller \<Rightarrow> (case validated rq of
            Inl e \<Rightarrow> (Inl e, d)
          | Inr e \<Rightarrow> authenticated_route env e caller d)))"
  unfolding router_def
  by (cases "rq_endpoint rq"; cases "require_bearer_token (rq_credentials rq)")
    (simp_all add: ordinary_def public_endpoint_def)

lemma router_provision:
  "rq_endpoint rq = ProvisionSession \<Longrightarrow> router env rq d =
     (case require_bearer_token (rq_credentials rq) of
        Inl e \<Rightarrow> (Inl e, d)
      | Inr token \<Rightarrow> (case validated rq of Inl e \<Rightarrow> (Inl e, d) | Inr _ \<Rightarrow> provision_session env token d))"
  by (cases "require_bearer_token (rq_credentials rq)") (simp_all add: router_def)

lemma router_public:
  "rq_endpoint rq = Livez \<Longrightarrow> router env rq d = (Inr livez, d)"
  "rq_endpoint rq = Readyz \<Longrightarrow> router env rq d = (Inr (readyz env), d)"
  "rq_endpoint rq = Unmatched s h \<Longrightarrow> router env rq d = (Inl (HTTPException s h), d)"
  by (simp_all add: router_def)

lemma endpoint_cases:
  obtains (ordinary) "ordinary e" | (provision) "e = ProvisionSession" | (livez) "e = Livez" | (readyz) "e = Readyz"
    | (unmatched) s h where "e = Unmatched s h"
  by (cases e) (simp_all add: ordinary_def public_endpoint_def)

definition answered :: "body Response \<Rightarrow> bool" where
  "answered x \<longleftrightarrow> rs_media_type x = ''application/json'' \<and> (\<nexists>pd. rs_body x = ProblemBody pd)"

lemma handlerD:
  assumes "safe_handler h" "json_handler h" "conn_ok d" "h d = (r, d')"
  shows "case r of Inl _ \<Rightarrow> d' = d | Inr x \<Rightarrow> conn_ok d' \<and> rs_status x \<in> {200, 201} \<and> answered x"
  using assms unfolding safe_handler_def json_handler_def answered_def by (cases r) fastforce+

lemma router_outcome:
  assumes "conn_ok d" "router env rq d = (r, d')"
  shows "case r of Inl _ \<Rightarrow> d' = d
    | Inr x \<Rightarrow> answered x \<and> conn_ok d' \<and> (rs_status x \<in> {200, 201} \<or> rq_endpoint rq = Readyz \<and> d' = d)"
proof (cases "rq_endpoint rq" rule: endpoint_cases)
  case ordinary
  show ?thesis
  proof (cases "\<exists>token caller e. require_bearer_token (rq_credentials rq) = Inr token
      \<and> require_authenticated_principal env token d = Inr caller \<and> validated rq = Inr e")
    case True
    then obtain e caller where "router env rq d = authenticated_route env e caller d"
      using router_ordinary[OF ordinary, of env d] by auto
    with assms show ?thesis using handlerD[OF safe_routes json_routes, of d env e caller r d'] by (cases r) auto
  next
    case False
    then have "\<exists>e. router env rq d = (Inl e, d)"
      unfolding router_ordinary[OF ordinary]
      by (cases "require_bearer_token (rq_credentials rq)"; simp split: sum.split) blast
    then show ?thesis using assms(2) by auto
  qed
next
  case provision
  show ?thesis
  proof (cases "\<exists>token e. require_bearer_token (rq_credentials rq) = Inr token \<and> validated rq = Inr e")
    case True
    then obtain token where "router env rq d = provision_session env token d"
      using router_provision[OF provision, of env d] by auto
    with assms show ?thesis
      using handlerD[OF safe_provision_session json_provision_session, of d env token r d'] by (cases r) auto
  next
    case False
    then have "\<exists>e. router env rq d = (Inl e, d)"
      unfolding router_provision[OF provision]
      by (cases "require_bearer_token (rq_credentials rq)"; simp split: sum.split)
    then show ?thesis using assms(2) by auto
  qed
qed (use assms in \<open>auto simp: router_public livez_def readyz_def answered_def split: if_splits\<close>)

subsection \<open>Problems\<close>

lemma problem_specs:
  "map fst PROBLEM_SPECS = [AUTH_INVALID_CREDENTIALS, AUTH_EMAIL_VERIFICATION_REQUIRED, AUTH_ACCOUNT_LINK_REQUIRED,
     AUTH_PROVIDER_UNAVAILABLE, WORKSPACE_NOT_FOUND, WORKSPACE_PERMISSION_DENIED, WORKSPACE_NOT_ACTIVE, PROJECT_NOT_FOUND,
     CONNECTION_NOT_FOUND, CONNECTION_STATE_CONFLICT, REQUEST_VALIDATION_FAILED, REQUEST_NOT_FOUND,
     REQUEST_METHOD_NOT_ALLOWED, REQUEST_REJECTED, INTERNAL_ERROR]"
  "list_all (\<lambda>(c, s). spec_code s = c \<and> 400 \<le> spec_status s \<and> spec_status s \<le> 503) PROBLEM_SPECS"
  by code_simp+

lemma problem_spec_checks:
  "spec_code (problem_spec c) = c \<and> 400 \<le> spec_status (problem_spec c) \<and> spec_status (problem_spec c) \<le> 503"
proof -
  have "c \<in> set (map fst PROBLEM_SPECS)" unfolding problem_specs(1) by (cases c) simp_all
  then obtain s where s: "map_of PROBLEM_SPECS c = Some s" by (metis map_of_eq_None_iff list.set_map option.exhaust)
  from map_of_SomeD[OF s] show ?thesis using problem_specs(2) by (auto simp: problem_spec_def s list_all_iff)
qed

lemmas problem_spec_status = problem_spec_checks[THEN conjunct2]

text \<open>A response that is the problem of code \<open>c\<close> for the request, with the status and title of the registry or not.\<close>

definition problem_for :: "RequestContext \<Rightarrow> bool \<Rightarrow> ProblemCode \<Rightarrow> body Response \<Rightarrow> bool" where
  "problem_for context exact c x \<longleftrightarrow> (\<exists>pd. rs_body x = ProblemBody pd \<and> rs_media_type x = ''application/problem+json''
     \<and> pd_code pd = c \<and> pd_status pd = rs_status x \<and> pd_request_id pd = uuid_str (rc_request_id context)
     \<and> pd_instance pd = ''urn:uuid:'' @ uuid_str (rc_request_id context)
     \<and> pd_type pd = spec_type_uri (problem_spec c) \<and> pd_detail pd = spec_detail (problem_spec c)
     \<and> (exact \<longrightarrow> pd_status pd = spec_status (problem_spec c) \<and> pd_title pd = spec_title (problem_spec c)))"

lemma problem_response_plain:
  "\<exists>x. problem_response context c errors headers None None = Inr x \<and> problem_for context exact c (problem_body x)
     \<and> rs_headers x = dict_set ''X-Request-ID'' (uuid_str (rc_request_id context)) headers \<and> rs_status x = spec_status (problem_spec c)
     \<and> pd_errors (rs_body x) = errors"
  using problem_spec_status[of c]
  by (simp add: problem_response_def Let_def problem_for_def problem_body_def)

lemma problem_response_Inr:
  assumes "problem_response context c errors headers status title = Inr x"
  shows "problem_for context False c (problem_body x)"
proof -
  define s t where "s = (case status of Some s \<Rightarrow> if s \<noteq> 0 then s else spec_status (problem_spec c) | None \<Rightarrow> spec_status (problem_spec c))"
    and "t = (case title of Some t \<Rightarrow> if t \<noteq> [] then t else spec_title (problem_spec c) | None \<Rightarrow> spec_title (problem_spec c))"
  show ?thesis using assms unfolding problem_response_def Let_def s_def[symmetric] t_def[symmetric]
    by (auto simp: problem_for_def problem_body_def split: if_splits)
qed

text \<open>The code of an exception that is no \<open>HTTPException\<close>.\<close>

fun exception_code :: "api_exn \<Rightarrow> ProblemCode" where
  "exception_code (Raised e) = (case domain_problem e of Some (c, _) \<Rightarrow> c | None \<Rightarrow> INTERNAL_ERROR)"
| "exception_code (ProblemException c _) = c"
| "exception_code (RequestValidationError _) = REQUEST_VALIDATION_FAILED"
| "exception_code (HTTPException _ _) = REQUEST_REJECTED"

fun exception_headers :: "api_exn \<Rightarrow> headers" where
  "exception_headers (Raised e) = (case domain_problem e of Some (_, h) \<Rightarrow> h | None \<Rightarrow> [])"
| "exception_headers (ProblemException _ h) = h"
| "exception_headers (RequestValidationError _) = []"
| "exception_headers (HTTPException _ _) = []"

text \<open>The answer to a request whose route raised \<open>e\<close>.\<close>

definition respond :: "Environment \<Rightarrow> Request \<Rightarrow> api_exn + body Response \<Rightarrow> body Response \<times> AccessLog" where
  "respond env rq r = (case exception_middleware (request_context env) r of
     Some x \<Rightarrow> (send_with_request_id (request_context env) x, access_log (request_context env) rq (rs_status x))
   | None \<Rightarrow> (let x = problem_body (projr (internal_error_handler (request_context env))) in
       (x\<lparr>rs_headers := raw_headers (rs_headers x)\<rparr>, access_log (request_context env) rq 500)))"

lemma handle_request_eq: "handle_request env rq d = (case router env rq d of (r, d') \<Rightarrow> (respond env rq r, d'))"
  by (simp add: handle_request_def respond_def Let_def split: prod.split option.split)

lemma problem_for_headers [simp]: "problem_for context exact c (x\<lparr>rs_headers := h\<rparr>) = problem_for context exact c x"
  by (simp add: problem_for_def)

lemma problem_for_send [simp]: "problem_for context exact c (send_with_request_id context' x) = problem_for context exact c x"
  by (simp add: send_with_request_id_def)

lemma rs_status_send [simp]: "rs_status (send_with_request_id context x) = rs_status x"
  by (simp add: send_with_request_id_def)

lemma answered_send [simp]: "answered (send_with_request_id context x) = answered x"
  by (simp add: answered_def send_with_request_id_def)

lemma problem_for_status: "problem_for context True c x \<Longrightarrow> rs_status x = spec_status (problem_spec c)"
  by (auto simp: problem_for_def)

lemma respond_Inr: "respond env rq (Inr x) = (send_with_request_id (request_context env) x,
    access_log (request_context env) rq (rs_status x))"
  by (simp add: respond_def exception_middleware_def)

lemma respond_internal:
  assumes "exception_middleware (request_context env) (Inl e) = None"
  shows "problem_for (request_context env) True INTERNAL_ERROR (fst (respond env rq (Inl e)))"
    and "rs_headers (fst (respond env rq (Inl e))) = [(''x-request-id'', uuid_str (en_request_id env))]"
    and "rs_status (fst (respond env rq (Inl e))) = 500"
    and "snd (respond env rq (Inl e)) = access_log (request_context env) rq 500"
proof -
  obtain x where x: "internal_error_handler (request_context env) = Inr x"
    "problem_for (request_context env) True INTERNAL_ERROR (problem_body x)"
    "rs_headers x = dict_set ''X-Request-ID'' (uuid_str (rc_request_id (request_context env))) []"
    "rs_status x = spec_status (problem_spec INTERNAL_ERROR)"
    using problem_response_plain[of "request_context env" INTERNAL_ERROR None "[]" True] unfolding internal_error_handler_def by blast
  have s: "spec_status (problem_spec INTERNAL_ERROR) = 500" by code_simp
  have n: "lower ''X-Request-ID'' = ''x-request-id''" by code_simp
  have r: "respond env rq (Inl e) = ((problem_body x)\<lparr>rs_headers := raw_headers (rs_headers x)\<rparr>,
      access_log (request_context env) rq 500)"
    unfolding respond_def assms option.case x(1) sum.sel Let_def by (simp add: problem_body_def)
  show "problem_for (request_context env) True INTERNAL_ERROR (fst (respond env rq (Inl e)))"
    unfolding r using x(2) by simp
  show "rs_headers (fst (respond env rq (Inl e))) = [(''x-request-id'', uuid_str (en_request_id env))]"
    unfolding r x(3) by (simp add: raw_headers_def n request_context_def)
  show "rs_status (fst (respond env rq (Inl e))) = 500"
    unfolding r using x(4) s by (simp add: problem_body_def)
  show "snd (respond env rq (Inl e)) = access_log (request_context env) rq 500"
    unfolding r by simp
qed

lemma exception_handler_plain:
  assumes "\<nexists>s h. e = HTTPException s h" "\<nexists>x. e = Raised x \<and> domain_problem x = None"
  shows "exception_handler context e = Some (problem_response context (exception_code e)
    (case e of RequestValidationError errors \<Rightarrow> Some (validation_issues errors) | _ \<Rightarrow> None) (exception_headers e) None None)"
  using assms by (cases e) auto

lemma respond_exception:
  assumes "\<nexists>s h. e = HTTPException s h"
  shows "problem_for (request_context env) True (exception_code e) (fst (respond env rq (Inl e)))"
proof (cases "\<exists>x. e = Raised x \<and> domain_problem x = None")
  case True
  then have "exception_middleware (request_context env) (Inl e) = None" "exception_code e = INTERNAL_ERROR"
    by (auto simp: exception_middleware_def)
  then show ?thesis using respond_internal(1) by simp
next
  case False
  note h = exception_handler_plain[OF assms False]
  obtain x where "exception_handler (request_context env) e = Some (Inr x)"
    "problem_for (request_context env) True (exception_code e) (problem_body x)"
    unfolding h using problem_response_plain by metis
  then show ?thesis by (simp add: respond_def exception_middleware_def)
qed

lemma dict_set_other: "(n, v) \<in> set h \<Longrightarrow> n \<noteq> k \<Longrightarrow> (n, v) \<in> set (dict_set k w h)"
  by (induction k w h rule: dict_set.induct) auto

lemma respond_headers:
  assumes "(n, v) \<in> set (exception_headers e)" "lower n \<noteq> ''x-request-id''" "lower (lower n) = lower n"
    "\<nexists>s h. e = HTTPException s h"
  shows "(lower n, v) \<in> set (rs_headers (fst (respond env rq (Inl e))))"
proof -
  have "\<nexists>x. e = Raised x \<and> domain_problem x = None" using assms(1) by fastforce
  note h = exception_handler_plain[OF assms(4) this]
  obtain x where x: "exception_handler (request_context env) e = Some (Inr x)"
    "rs_headers x = dict_set ''X-Request-ID'' (uuid_str (rc_request_id (request_context env))) (exception_headers e)"
    unfolding h using problem_response_plain by metis
  have "lower ''X-Request-ID'' = ''x-request-id''" by code_simp
  then have "n \<noteq> ''X-Request-ID''" using assms(2) by metis
  then have "(n, v) \<in> set (rs_headers x)" unfolding x(2) using dict_set_other assms(1) by metis
  then show ?thesis using assms(2,3) x(1)
    by (force simp: respond_def exception_middleware_def problem_body_def send_with_request_id_def raw_headers_def)
qed

lemma respond_any_exception: "\<exists>c. problem_for (request_context env) False c (fst (respond env rq (Inl e)))"
proof (cases "exception_middleware (request_context env) (Inl e)")
  case None
  then show ?thesis using respond_internal(1) by (metis problem_for_def)
next
  case (Some x)
  then obtain y where y: "exception_handler (request_context env) e = Some (Inr y)" "x = problem_body y"
    by (auto simp: exception_middleware_def split: option.splits sum.splits)
  then obtain c errs h s t where "problem_response (request_context env) c errs h s t = Inr y"
    by (cases e) (auto simp: http_exception_handler_def split: if_splits)
  then have "problem_for (request_context env) False c x" using problem_response_Inr y(2) by blast
  then show ?thesis using Some by (auto simp: respond_def)
qed

lemma answer_raises:
  "answer status headers body (reading f) d = (Inl x, d') \<Longrightarrow> \<exists>e. x = Raised e"
  "answer status headers body (writing g) d = (Inl x, d') \<Longrightarrow> \<exists>e. x = Raised e"
  by (auto simp: answer_reading answer_writing split: sum.splits prod.splits)

lemma decode_cursor_raises: "decode_cursor tx f c = Inl x \<Longrightarrow> \<nexists>s h. x = HTTPException s h"
  by (auto simp: decode_cursor_def cursor_error_def split: option.splits sum.splits exn.splits)

lemma answer_paged_raises:
  assumes "answer status headers body (\<lambda>d. case decode_cursor tx g c of Inl e \<Rightarrow> (Inl e, d) | Inr y \<Rightarrow> reading (f y) d) d = (Inl x, d')"
  shows "\<nexists>s h. x = HTTPException s h"
  using assms decode_cursor_raises[of tx g c]
  by (auto simp: answer_def reading_def raised_def map_sum_def split: sum.splits)

lemma route_raises:
  assumes "ordinary e" "authenticated_route env e caller d = (Inl x, d')"
  shows "\<nexists>s h. x = HTTPException s h"
  using assms
  by (cases e)
    (auto simp: ordinary_def public_endpoint_def get_me_def create_workspace_route_def list_workspaces_route_def
      get_workspace_route_def create_project_route_def list_projects_route_def get_project_route_def
      create_connection_route_def list_connections_route_def lifecycle_action_def get_connection_route_def
      rename_connection_route_def get_connection_draft_route_def put_connection_draft_route_def
      list_connection_revisions_route_def publish_connection_revision_route_def get_connection_revision_route_def
      replace_connection_access_route_def connection_answer_def decode_project_cursor_def decode_connection_cursor_def
      dest: answer_raises answer_paged_raises)

lemma validate_ordinary: "validate_endpoint e = Inr e' \<Longrightarrow> ordinary e \<Longrightarrow> ordinary e'"
  by (cases e) (auto simp: ordinary_def public_endpoint_def map_sum_def checked_def split: if_splits sum.splits)

lemma validated_Inr: "validated rq = Inr e \<longleftrightarrow> rq_issues rq = [] \<and> validate_endpoint (rq_endpoint rq) = Inr e"
  by (cases "validate_endpoint (rq_endpoint rq)") (auto simp: validated_def)

lemma validated_ordinary: "ordinary (rq_endpoint rq) \<Longrightarrow> validated rq = Inr e \<Longrightarrow> ordinary e"
  unfolding validated_Inr using validate_ordinary by blast

lemma router_exception:
  assumes "router env rq d = (Inl (HTTPException s h), d')"
  shows "rq_endpoint rq = Unmatched s h"
proof (cases "rq_endpoint rq" rule: endpoint_cases)
  case ordinary
  have v: "validated rq \<noteq> Inl (HTTPException s h)" by (auto simp: validated_def map_sum_def split: sum.splits)
  have "validated rq = Inr e \<Longrightarrow> authenticated_route env e caller d \<noteq> (Inl (HTTPException s h), d')" for e caller
    using route_raises[OF validated_ordinary[OF ordinary]] by blast
  then show ?thesis
    using assms v
    unfolding router_ordinary[OF ordinary]
    by (cases "require_bearer_token (rq_credentials rq)")
      (auto simp: require_bearer_token_def require_authenticated_principal_def raised_def map_sum_def
        split: sum.splits option.splits if_splits)
next
  case provision
  have v: "validated rq \<noteq> Inl (HTTPException s h)" by (auto simp: validated_def map_sum_def split: sum.splits)
  then show ?thesis
    using assms unfolding router_provision[OF provision] provision_session_def
    by (cases "require_bearer_token (rq_credentials rq)")
      (auto simp: require_bearer_token_def split: sum.splits option.splits if_splits dest!: answer_raises)
qed (use assms in \<open>auto simp: router_public\<close>)

subsection \<open>The service\<close>

lemma handle_request_outcome:
  assumes "conn_ok d" "handle_request env rq d = ((response, log), d')"
  shows "conn_ok d' \<and> (rs_status response \<notin> {200, 201} \<longrightarrow> d' = d)"
proof -
  obtain r where r: "router env rq d = (r, d')" "(response, log) = respond env rq r"
    using assms(2) unfolding handle_request_eq by (auto split: prod.splits)
  show ?thesis using router_outcome[OF assms(1) r(1)] r(2) assms(1)
    by (cases r) (auto simp: respond_Inr)
qed

definition api :: "Environment \<times> Request \<Rightarrow> db \<Rightarrow> (body Response \<times> AccessLog) \<times> db" where
  "api q = handle_request (fst q) (snd q)"

definition request_failed :: "body Response \<times> AccessLog \<Rightarrow> bool" where
  "request_failed r \<longleftrightarrow> rs_status (fst r) \<notin> {200, 201}"

interpretation http: atomic_service conn_ok api request_failed
proof unfold_locales
  fix q d r d'
  assume "conn_ok d" "api q d = (r, d')"
  then have "conn_ok d' \<and> (request_failed r \<longrightarrow> d' = d)"
    using handle_request_outcome[of d "fst q" "snd q" "fst r" "snd r" d'] by (simp add: api_def request_failed_def)
  then show "conn_ok d'" "request_failed r \<Longrightarrow> d' = d" by simp_all
qed

text \<open>A request of the owner of \<open>first_db\<close>, the database after a first sign-in.\<close>

definition sample_env :: "uuid \<Rightarrow> Environment" where
  "sample_env new_id = \<lparr>en_now = 2000000, en_request_id = 99, en_trace_id = None, en_id = new_id,
     en_membership_id = 21, en_audit_id = 22, en_provision = sample_provision 2000000,
     en_verify = (\<lambda>_. Inr sample_token), en_fetch_user = (\<lambda>_. Inr sample_profile), en_session_ttl = 3600,
     en_registry = [], en_sha256 = (\<lambda>bs. bs), en_text = sample_text JNull, en_database_ready = True\<rparr>"

definition sample_request :: "endpoint \<Rightarrow> Request" where
  "sample_request e = \<lparr>rq_method = ''POST'', rq_route = None, rq_credentials = Some (''Bearer'', ''t''), rq_issues = [],
     rq_endpoint = e\<rparr>"

definition sample_queries :: "(Environment \<times> Request) list" where
  "sample_queries = [(sample_env 20, sample_request (CreateWorkspace \<lparr>cwr_name = '' A ''\<rparr>)),
     (sample_env 23, (sample_request ListWorkspaces)\<lparr>rq_credentials := None\<rparr>)]"

lemma first_db_conn_ok: "conn_ok first_db"
  by code_simp

lemma sample_run: "case serve_all api sample_queries first_db of (rs, d) \<Rightarrow>
    map (\<lambda>(_, r). rs_status (fst r)) rs = [201, 401] \<and> map ws_name (workspaces d) = [''A'']"
  by code_simp

lemma serve_all_queries: "map fst (fst (serve_all serve qs d)) = qs"
proof (induction qs arbitrary: d)
  case (Cons q qs)
  obtain r d1 where s: "serve q d = (r, d1)" by (cases "serve q d")
  show ?case using Cons.IH[of d1] s by (cases "serve_all serve qs d1") (simp add: Let_def)
qed simp

subsection \<open>Properties\<close>



text \<open>
  C6: A request whose status is not one of success leaves no trace: a history replayed from its
  successful requests alone gives the same answers and the same database.
\<close>

theorem failed_requests_erasable:
  assumes "conn_ok d" "serve_all api qs d = (rs, d')"
  shows "serve_all api (map fst (filter (\<lambda>(_, r). \<not> request_failed r) rs)) d = (filter (\<lambda>(_, r). \<not> request_failed r) rs, d')"
  using assms by (rule http.serve_all_replay)

theorem failed_requests_erasable_witness:
  "\<exists>r d'. serve_all api [hd sample_queries] first_db = ([r], d') \<and> map ws_name (workspaces d') = [''A'']"
proof -
  obtain rs d' where s: "serve_all api sample_queries first_db = (rs, d')" by (cases "serve_all api sample_queries first_db")
  then have r: "map (\<lambda>(_, r). rs_status (fst r)) rs = [201, 401]" "map ws_name (workspaces d') = [''A'']"
    "map fst rs = sample_queries"
    using sample_run serve_all_queries[of api sample_queries first_db] by simp_all
  then obtain q1 r1 q2 r2 where "rs = [(q1, r1), (q2, r2)]" "rs_status (fst r1) = 201" "rs_status (fst r2) = 401" by auto
  then have "filter (\<lambda>(_, r). \<not> request_failed r) rs = [(q1, r1)]" "q1 = hd sample_queries"
    using r(3) by (auto simp: request_failed_def sample_queries_def)
  with failed_requests_erasable[OF first_db_conn_ok s] r(2) show ?thesis by auto
qed

text \<open>
  C23: Every response, of a failure nobody foresaw too, carries the identifier of its request in
  exactly one header, whatever headers its route set, and the access log has the same identifier
  and the status that was sent.
\<close>

theorem responses_traceable:
  "case handle_request env rq d of ((response, log), _) \<Rightarrow>
     filter (\<lambda>(name, _). lower name = ''x-request-id'') (rs_headers response) = [(''x-request-id'', uuid_str (en_request_id env))]
     \<and> al_request_id log = uuid_str (en_request_id env) \<and> al_status_code log = rs_status response"
proof -
  have l: "lower ''x-request-id'' = ''x-request-id''" by code_simp
  obtain r d' where r: "router env rq d = (r, d')" by (cases "router env rq d")
  define c where "c = request_context env"
  have c: "rc_request_id c = en_request_id env" by (simp add: c_def request_context_def)
  show ?thesis
  proof (cases "exception_middleware c r")
    case None
    then obtain e where "r = Inl e" by (cases r) (auto simp: exception_middleware_def)
    then show ?thesis using respond_internal[of env e rq] None l
      by (cases "respond env rq (Inl e)") (simp add: handle_request_eq r c_def access_log_def request_context_def)
  next
    case (Some x)
    then show ?thesis using l
      by (simp add: handle_request_eq r respond_def c_def[symmetric] send_with_request_id_def access_log_def c comp_def
          case_prod_unfold)
  qed
qed

text \<open>
  C8: Every request is answered either by its route, with a status of success (the readiness probe
  may answer 503) and a JSON body, or by a Problem Details document: its type and detail are those
  the registry has for its code, its status is that of the response, it names the request, and
  unless the framework itself refused the request its status and title are the registry's too,
  between 400 and 503.
\<close>

theorem failures_are_problems:
  assumes "conn_ok d"
  shows "case handle_request env rq d of ((response, _), _) \<Rightarrow>
      (rs_status response \<in> {200, 201} \<or> rq_endpoint rq = Readyz) \<and> rs_media_type response = ''application/json''
        \<and> (\<nexists>pd. rs_body response = ProblemBody pd)
      \<or> (\<exists>pd. rs_body response = ProblemBody pd \<and> rs_media_type response = ''application/problem+json''
        \<and> pd_type pd = spec_type_uri (problem_spec (pd_code pd)) \<and> pd_detail pd = spec_detail (problem_spec (pd_code pd))
        \<and> pd_status pd = rs_status response \<and> pd_request_id pd = uuid_str (en_request_id env)
        \<and> pd_instance pd = ''urn:uuid:'' @ uuid_str (en_request_id env)
        \<and> ((\<nexists>s h. rq_endpoint rq = Unmatched s h) \<longrightarrow> pd_status pd = spec_status (problem_spec (pd_code pd))
            \<and> pd_title pd = spec_title (problem_spec (pd_code pd)) \<and> 400 \<le> pd_status pd \<and> pd_status pd \<le> 503))"
proof -
  obtain r d' where r: "router env rq d = (r, d')" by (cases "router env rq d")
  have id: "rc_request_id (request_context env) = en_request_id env" by (simp add: request_context_def)
  show ?thesis
  proof (cases r)
    case (Inr x)
    then show ?thesis using router_outcome[OF assms r]
      by (auto simp: handle_request_eq r respond_Inr answered_def send_with_request_id_def)
  next
    case (Inl e)
    show ?thesis
    proof (cases "\<exists>s h. rq_endpoint rq = Unmatched s h")
      case True
      then show ?thesis using respond_any_exception[of env rq e]
        by (auto simp: handle_request_eq r Inl problem_for_def id split: prod.split)
    next
      case False
      then have "\<nexists>s h. e = HTTPException s h" using router_exception r Inl by fastforce
      from respond_exception[OF this, of env rq] problem_spec_status[of "exception_code e"] show ?thesis
        by (auto simp: handle_request_eq r Inl problem_for_def id split: prod.split)
    qed
  qed
qed

subsection \<open>Credentials\<close>

lemma require_principal_eq:
  assumes "schema_ok d"
  shows "require_authenticated_principal env token d = (case en_verify env token of
      Inl e \<Rightarrow> Inl (Raised (if e = AccessTokenVerificationError then PrincipalAuthenticationError else e))
    | Inr v \<Rightarrow> (case principal_spec (en_now env) v d of
        None \<Rightarrow> Inl (Raised PrincipalAuthenticationError) | Some p \<Rightarrow> Inr p))"
  using identify_unfold[OF assms, of "en_verify env" "en_now env" token]
  by (simp add: require_authenticated_principal_def identify_def split: sum.split option.split)

lemma bearer_token_cases:
  obtains (bearer) scheme token where "credentials = Some (scheme, token)" "casefold scheme = ''bearer''"
      "require_bearer_token credentials = Inr token"
  | (refused) "require_bearer_token credentials = Inl (ProblemException AUTH_INVALID_CREDENTIALS [(''WWW-Authenticate'', ''Bearer'')])"
proof (cases credentials)
  case None
  then show thesis using refused by (simp add: require_bearer_token_def)
next
  case (Some c)
  obtain scheme token where "c = (scheme, token)" by (cases c)
  then show thesis using Some that by (cases "casefold scheme = ''bearer''") (simp_all add: require_bearer_token_def)
qed

definition refused :: "Environment \<Rightarrow> body Response \<Rightarrow> bool" where
  "refused env x \<longleftrightarrow> rs_status x = 401 \<and> (\<exists>pd. rs_body x = ProblemBody pd \<and> pd_code pd = AUTH_INVALID_CREDENTIALS)
     \<and> (''www-authenticate'', ''Bearer'') \<in> set (rs_headers x)"

lemma refusedI:
  assumes "exception_code e = AUTH_INVALID_CREDENTIALS" "exception_headers e = [(''WWW-Authenticate'', ''Bearer'')]"
    "\<nexists>s h. e = HTTPException s h"
  shows "refused env (fst (respond env rq (Inl e)))"
proof -
  have "spec_status (problem_spec AUTH_INVALID_CREDENTIALS) = 401" by code_simp
  moreover have "lower ''WWW-Authenticate'' = ''www-authenticate'' \<and> lower ''www-authenticate'' = ''www-authenticate''"
    by code_simp
  ultimately show ?thesis
    using respond_exception[OF assms(3), of env rq] respond_headers[of "''WWW-Authenticate''" "''Bearer''" e env rq] assms
    by (auto simp: refused_def problem_for_def)
qed


lemma sample_refused: "case handle_request (sample_env 23) ((sample_request ListWorkspaces)\<lparr>rq_credentials := Some (''Basic'', ''t'')\<rparr>) first_db of
    ((x, l), d) \<Rightarrow> rs_status x = 401"
  by code_simp


theorem failures_are_problems_witness:
  "case handle_request (sample_env 23) ((sample_request ListWorkspaces)\<lparr>rq_credentials := Some (''Basic'', ''t'')\<rparr>) first_db of
    ((x, l), d) \<Rightarrow> \<exists>pd. rs_body x = ProblemBody pd \<and> pd_status pd = 401 \<and> pd_request_id pd = uuid_str 99"
proof -
  let ?rq = "(sample_request ListWorkspaces)\<lparr>rq_credentials := Some (''Basic'', ''t'')\<rparr>"
  obtain x l d' where h: "handle_request (sample_env 23) ?rq first_db = ((x, l), d')" by (metis surj_pair)
  have "rq_endpoint ?rq \<noteq> Readyz" "rs_status x = 401" "en_request_id (sample_env 23) = 99"
    using sample_refused h by (simp_all add: sample_request_def sample_env_def)
  then show ?thesis using failures_are_problems[OF first_db_conn_ok, where env = "sample_env 23" and rq = ?rq] unfolding h by auto
qed

end
