(* ===== verification/ApiIsolation.thy ===== *)
theory ApiIsolation
  imports ApiContracts
begin

section \<open>Outsiders and internal errors\<close>

text \<open>
  Two consequences of the whole stack. Of a Workspace they are no member of, callers see the same
  whatever the database holds. And a request ends as an internal error only for the reasons listed
  here: no look-up, conversion or repeated validation below the routes can be one.
\<close>

subsection \<open>Validated arguments are in normal form\<close>

definition normal_access :: "ConnectionAccessRequest \<Rightarrow> bool" where
  "normal_access p \<longleftrightarrow> (\<exists>q. access_to_domain p = Inr q \<and> normalize_access_policy (ap_mode q) (ap_project_ids q) = Inr q)"

fun normal_endpoint :: "endpoint \<Rightarrow> bool" where
  "normal_endpoint (CreateWorkspace p) \<longleftrightarrow> normalize_workspace_name (cwr_name p) = Inr (cwr_name p)"
| "normal_endpoint (CreateProject w p) \<longleftrightarrow> normalize_project_name (cpr_name p) = Inr (cpr_name p)"
| "normal_endpoint (ListProjects w limit cursor) \<longleftrightarrow> 1 \<le> limit \<and> limit \<le> MAX_PROJECT_PAGE_LIMIT"
| "normal_endpoint (CreateConnection w p) \<longleftrightarrow> normalize_connection_name (ccr_name p) = Inr (ccr_name p)
     \<and> normalize_provider_key (ccr_provider_key p) = Inr (ccr_provider_key p) \<and> normal_access (ccr_access p)"
| "normal_endpoint (ListConnections w limit cursor) \<longleftrightarrow> 1 \<le> limit \<and> limit \<le> MAX_CONNECTION_PAGE_LIMIT"
| "normal_endpoint (RenameConnection w c p) \<longleftrightarrow> normalize_connection_name (rcr_name p) = Inr (rcr_name p)"
| "normal_endpoint (ListConnectionRevisions w c before limit) \<longleftrightarrow>
     1 \<le> limit \<and> limit \<le> MAX_CONNECTION_REVISION_PAGE_LIMIT \<and> (\<forall>b. before = Some b \<longrightarrow> 1 \<le> b)"
| "normal_endpoint (ReplaceConnectionAccess w c p) \<longleftrightarrow> normal_access p"
| "normal_endpoint e \<longleftrightarrow> True"

lemma normalizers_idem:
  "normalize_workspace_name s = Inr t \<Longrightarrow> normalize_workspace_name t = Inr t"
  "normalize_project_name s = Inr t \<Longrightarrow> normalize_project_name t = Inr t"
  "normalize_connection_name s = Inr t \<Longrightarrow> normalize_connection_name t = Inr t"
  "normalize_provider_key s = Inr t \<Longrightarrow> normalize_provider_key t = Inr t"
  by (auto simp: normalize_workspace_name_def normalize_project_name_def normalize_connection_name_def
      normalize_provider_key_def Let_def split: if_splits)

lemma text_field_Inr: "text_field location n v x = Inr y \<Longrightarrow> v x = Inr y"
  by (auto simp: text_field_def split: if_splits sum.splits)

lemma normalize_access_idem:
  "normalize_access_policy m ps = Inr q \<Longrightarrow> normalize_access_policy (ap_mode q) (ap_project_ids q) = Inr q"
  by (auto simp: normalize_access_policy_eq sorted_sort_id split: if_splits)

lemma normal_access: "validate_access_request location p = Inr p' \<Longrightarrow> normal_access p'"
  using normalize_access_idem
  by (auto simp: validate_access_request_def normal_access_def access_to_domain_def split: if_splits sum.splits)

lemma issues_of_Nil: "issues_of (text_field location n v x) = [] \<Longrightarrow> v x = Inr (projr (text_field location n v x))"
  by (auto simp: issues_of_def text_field_def split: sum.splits if_splits)

lemma access_issues_Nil: "issues_of (validate_access_request location p) = [] \<Longrightarrow>
    validate_access_request location p = Inr (projr (validate_access_request location p))"
  by (auto simp: issues_of_def validate_access_request_def split: sum.splits if_splits)

lemma query_limit_Nil: "query_limit m l = [] \<longleftrightarrow> 1 \<le> l \<and> l \<le> m"
  by (auto simp: query_limit_def)

lemma query_before_Nil: "query_before_revision b = [] \<longleftrightarrow> (\<forall>n. b = Some n \<longrightarrow> 1 \<le> n)"
  by (auto simp: query_before_revision_def split: option.splits)

lemma normal_connection_request:
  assumes "validate_connection_request p = Inr p'"
  shows "normalize_connection_name (ccr_name p') = Inr (ccr_name p')"
    "normalize_provider_key (ccr_provider_key p') = Inr (ccr_provider_key p')" "normal_access (ccr_access p')"
proof -
  have none: "issues_of (text_field (body_field ''name'') MAX_CONNECTION_NAME_LENGTH normalize_connection_name (ccr_name p)) = []"
    "issues_of (text_field (body_field ''provider_key'') MAX_PROVIDER_KEY_LENGTH normalize_provider_key (ccr_provider_key p)) = []"
    "issues_of (validate_access_request (body_field ''access'') (ccr_access p)) = []"
    using assms by (auto simp: validate_connection_request_def Let_def split: if_splits)
  have p': "ccr_name p' = projr (text_field (body_field ''name'') MAX_CONNECTION_NAME_LENGTH normalize_connection_name (ccr_name p))"
    "ccr_provider_key p' = projr (text_field (body_field ''provider_key'') MAX_PROVIDER_KEY_LENGTH normalize_provider_key (ccr_provider_key p))"
    "ccr_access p' = projr (validate_access_request (body_field ''access'') (ccr_access p))"
    using assms none by (auto simp: validate_connection_request_def Let_def)
  show "normalize_connection_name (ccr_name p') = Inr (ccr_name p')"
    unfolding p'(1) by (rule normalizers_idem(3)[OF issues_of_Nil[OF none(1)]])
  show "normalize_provider_key (ccr_provider_key p') = Inr (ccr_provider_key p')"
    unfolding p'(2) by (rule normalizers_idem(4)[OF issues_of_Nil[OF none(2)]])
  show "normal_access (ccr_access p')"
    unfolding p'(3) by (rule normal_access[OF access_issues_Nil[OF none(3)]])
qed

lemma normal_requests:
  "validate_workspace_request p = Inr p' \<Longrightarrow> normalize_workspace_name (cwr_name p') = Inr (cwr_name p')"
  "validate_project_request q = Inr q' \<Longrightarrow> normalize_project_name (cpr_name q') = Inr (cpr_name q')"
  "validate_rename_request r = Inr r' \<Longrightarrow> normalize_connection_name (rcr_name r') = Inr (rcr_name r')"
proof -
  show "validate_workspace_request p = Inr p' \<Longrightarrow> normalize_workspace_name (cwr_name p') = Inr (cwr_name p')"
    using normalizers_idem(1) text_field_Inr by (fastforce simp: validate_workspace_request_def map_sum_def split: sum.splits)
  show "validate_project_request q = Inr q' \<Longrightarrow> normalize_project_name (cpr_name q') = Inr (cpr_name q')"
    using normalizers_idem(2) text_field_Inr by (fastforce simp: validate_project_request_def map_sum_def split: sum.splits)
  show "validate_rename_request r = Inr r' \<Longrightarrow> normalize_connection_name (rcr_name r') = Inr (rcr_name r')"
    using normalizers_idem(3) text_field_Inr by (fastforce simp: validate_rename_request_def map_sum_def split: sum.splits)
qed

lemma map_sum_Inr: "map_sum id f r = Inr y \<longleftrightarrow> (\<exists>x. r = Inr x \<and> y = f x)"
  by (cases r) auto

lemma checked_Inr: "checked issues e = Inr e' \<longleftrightarrow> issues = [] \<and> e' = e"
  by (auto simp: checked_def)

lemma validated_normal:
  assumes "validate_endpoint e = Inr e'"
  shows "normal_endpoint e'"
proof (cases e)
  case (CreateConnection w p)
  then show ?thesis using assms normal_connection_request by (auto simp: map_sum_Inr)
next
  case (ReplaceConnectionAccess w c p)
  then show ?thesis using assms normal_access by (auto simp: map_sum_Inr)
next
  case (CreateWorkspace p)
  then show ?thesis using assms normal_requests by (auto simp: map_sum_Inr)
next
  case (CreateProject w p)
  then show ?thesis using assms normal_requests by (auto simp: map_sum_Inr)
next
  case (RenameConnection w c p)
  then show ?thesis using assms normal_requests by (auto simp: map_sum_Inr)
qed (use assms in \<open>auto simp: checked_Inr query_limit_Nil query_before_Nil\<close>)

subsection \<open>Outsiders\<close>

fun endpoint_workspace :: "endpoint \<Rightarrow> uuid option" where
  "endpoint_workspace (GetWorkspace w) = Some w"
| "endpoint_workspace (CreateProject w p) = Some w"
| "endpoint_workspace (ListProjects w limit cursor) = Some w"
| "endpoint_workspace (GetProject w p) = Some w"
| "endpoint_workspace (CreateConnection w p) = Some w"
| "endpoint_workspace (ListConnections w limit cursor) = Some w"
| "endpoint_workspace (LifecycleConnection action w c) = Some w"
| "endpoint_workspace (GetConnection w c) = Some w"
| "endpoint_workspace (RenameConnection w c p) = Some w"
| "endpoint_workspace (GetConnectionDraft w c) = Some w"
| "endpoint_workspace (PutConnectionDraft w c p) = Some w"
| "endpoint_workspace (ListConnectionRevisions w c before limit) = Some w"
| "endpoint_workspace (PublishConnectionRevision w c) = Some w"
| "endpoint_workspace (GetConnectionRevision w c r) = Some w"
| "endpoint_workspace (ReplaceConnectionAccess w c p) = Some w"
| "endpoint_workspace e = None"

text \<open>What an outsider's request raises: it does not depend on the database.\<close>

fun outsider_exception :: "Environment \<Rightarrow> endpoint \<Rightarrow> api_exn" where
  "outsider_exception env (GetWorkspace w) = Raised WorkspaceNotFoundError"
| "outsider_exception env (CreateProject w p) = Raised ProjectWorkspaceNotFoundError"
| "outsider_exception env (ListProjects w limit cursor) = (case decode_project_cursor (en_text env) cursor of
     Inl e \<Rightarrow> e | Inr _ \<Rightarrow> Raised ProjectWorkspaceNotFoundError)"
| "outsider_exception env (GetProject w p) = Raised ProjectWorkspaceNotFoundError"
| "outsider_exception env (CreateConnection w p) = (case configuration_invalid (registry_require (en_registry env) (ccr_provider_key p)) of
     Inl e \<Rightarrow> Raised e | Inr _ \<Rightarrow> Raised ConnectionWorkspaceNotFoundError)"
| "outsider_exception env (ListConnections w limit cursor) = (case decode_connection_cursor (en_text env) cursor of
     Inl e \<Rightarrow> e | Inr _ \<Rightarrow> Raised ConnectionWorkspaceNotFoundError)"
| "outsider_exception env _ = Raised ConnectionWorkspaceNotFoundError"

definition outsider :: "db \<Rightarrow> uuid \<Rightarrow> uuid \<Rightarrow> bool" where
  "outsider d u w \<longleftrightarrow> member_rows d u w = []"

lemma outsider_contexts:
  assumes "outsider d u w"
  shows "conn_context d u w = None" "project_context d u w = None" "mutation_context_at d u w c = Inl ConnectionWorkspaceNotFoundError"
    "repo_get_workspace_for_user u w d = Inr None"
  using assms
  by (simp_all add: outsider_def conn_context_def project_context_def mutation_context_at_def
      repo_get_workspace_for_user_def read_tx_def bind_tx_def query_tx_def lift_tx_def sql_get_workspace_for_user_def)

lemma outsider_connections:
  assumes "conn_ok d" "outsider d u w"
  shows "get_connection repo_get_connection_for_user u w c d = Inl ConnectionWorkspaceNotFoundError"
    "get_draft repo_get_draft_for_user u w c d = Inl ConnectionWorkspaceNotFoundError"
    "get_revision repo_get_revision_for_user u w c r d = Inl ConnectionWorkspaceNotFoundError"
    "1 \<le> n \<Longrightarrow> n \<le> MAX_CONNECTION_PAGE_LIMIT \<Longrightarrow>
      list_connections repo_list_connections_for_user u w cur n d = Inl ConnectionWorkspaceNotFoundError"
    "1 \<le> n \<Longrightarrow> n \<le> MAX_CONNECTION_REVISION_PAGE_LIMIT \<Longrightarrow> (\<forall>b. before = Some b \<longrightarrow> 1 \<le> b) \<Longrightarrow>
      list_revisions repo_list_revisions_for_user u w c before n d = Inl ConnectionWorkspaceNotFoundError"
    "normalize_connection_name nm = Inr nm \<Longrightarrow>
      rename_connection (repo_rename_connection call) u w c nm d = (Inl ConnectionWorkspaceNotFoundError, d)"
    "put_draft reg (repo_put_draft call) u w c cfg d = (Inl ConnectionWorkspaceNotFoundError, d)"
    "publish_revision sha256 reg (repo_publish_revision call) u w c d = (Inl ConnectionWorkspaceNotFoundError, d)"
    "transition_lifecycle (repo_transition_lifecycle call) u w c act d = (Inl ConnectionWorkspaceNotFoundError, d)"
proof -
  note s = conn_ok_schema[OF assms(1)] and x = outsider_contexts[OF assms(2)]
  show "get_connection repo_get_connection_for_user u w c d = Inl ConnectionWorkspaceNotFoundError"
    "get_draft repo_get_draft_for_user u w c d = Inl ConnectionWorkspaceNotFoundError"
    "get_revision repo_get_revision_for_user u w c r d = Inl ConnectionWorkspaceNotFoundError"
    by (simp_all add: get_connection_eq[OF assms(1)] get_draft_eq[OF s] get_revision_eq[OF s] x)
  have n: "1 \<le> n \<Longrightarrow> int (nat n) = n" by simp
  show "list_connections repo_list_connections_for_user u w cur n d = Inl ConnectionWorkspaceNotFoundError"
    if "1 \<le> n" "n \<le> MAX_CONNECTION_PAGE_LIMIT"
    using list_connections_eq[OF assms(1), of "nat n" u w cur] that n x by (simp add: MAX_CONNECTION_PAGE_LIMIT_def)
  show "list_revisions repo_list_revisions_for_user u w c before n d = Inl ConnectionWorkspaceNotFoundError"
    if "1 \<le> n" "n \<le> MAX_CONNECTION_REVISION_PAGE_LIMIT" "\<forall>b. before = Some b \<longrightarrow> 1 \<le> b"
  proof -
    have "0 < nat n" using that(1) by simp
    from repo_list_revisions_eq[OF s this, of u w c before]
    have "repo_list_revisions_for_user u w c before n d = Inl ConnectionWorkspaceNotFoundError" using that(1) x by simp
    then show ?thesis using that
      by (cases before) (simp_all add: list_revisions_def validate_before_revision_def validate_connection_revision_page_limit_def)
  qed
  show "normalize_connection_name nm = Inr nm \<Longrightarrow>
      rename_connection (repo_rename_connection call) u w c nm d = (Inl ConnectionWorkspaceNotFoundError, d)"
    by (simp add: rename_connection_def repo_rename_connection_eq[OF assms(1)] guarded_hidden[OF x(3)])
  show "put_draft reg (repo_put_draft call) u w c cfg d = (Inl ConnectionWorkspaceNotFoundError, d)"
    "publish_revision sha256 reg (repo_publish_revision call) u w c d = (Inl ConnectionWorkspaceNotFoundError, d)"
    "transition_lifecycle (repo_transition_lifecycle call) u w c act d = (Inl ConnectionWorkspaceNotFoundError, d)"
    by (simp_all add: put_draft_def repo_put_draft_eq[OF assms(1)] publish_revision_def repo_publish_revision_eq[OF assms(1)]
        transition_lifecycle_def repo_transition_lifecycle_eq[OF assms(1)] guarded_hidden[OF x(3)])
qed

lemma outsider_access:
  assumes "conn_ok d" "outsider d u w" "access_to_domain p = Inr q" "normalize_access_policy (ap_mode q) (ap_project_ids q) = Inr q"
  shows "replace_access (repo_replace_access call) u w c q d = (Inl ConnectionWorkspaceNotFoundError, d)"
    and "normalize_connection_name nm = Inr nm \<Longrightarrow> normalize_provider_key k = Inr k \<Longrightarrow>
      create_connection reg (repo_create_connection call) u w nm k q d =
        (case configuration_invalid (registry_require reg k) of Inl e \<Rightarrow> (Inl e, d) | Inr _ \<Rightarrow> (Inl ConnectionWorkspaceNotFoundError, d))"
proof -
  note x = outsider_contexts[OF assms(2)] and pk = policy_of_normalized[OF assms(4)]
  show "replace_access (repo_replace_access call) u w c q d = (Inl ConnectionWorkspaceNotFoundError, d)"
    by (simp add: replace_access_def assms(4) repo_replace_access_eq[OF assms(1) pk] guarded_hidden[OF x(3)])
  show "normalize_connection_name nm = Inr nm \<Longrightarrow> normalize_provider_key k = Inr k \<Longrightarrow>
      create_connection reg (repo_create_connection call) u w nm k q d =
        (case configuration_invalid (registry_require reg k) of Inl e \<Rightarrow> (Inl e, d) | Inr _ \<Rightarrow> (Inl ConnectionWorkspaceNotFoundError, d))"
    by (simp add: create_connection_def assms(4) repo_create_connection_eq[OF assms(1) pk] x split: sum.split)
qed

lemma outsider_projects:
  assumes "conn_ok d" "outsider d u w"
  shows "get_project repo_get_project_for_user u w i d = Inl ProjectWorkspaceNotFoundError"
    "1 \<le> n \<Longrightarrow> n \<le> MAX_PROJECT_PAGE_LIMIT \<Longrightarrow>
      list_projects repo_list_projects_for_user u w cur n d = Inl ProjectWorkspaceNotFoundError"
    "normalize_project_name nm = Inr nm \<Longrightarrow>
      create_project (repo_create_project now pid aid sid rid tid) u w nm d = (Inl ProjectWorkspaceNotFoundError, d)"
    "get_workspace repo_get_workspace_for_user u w d = Inl WorkspaceNotFoundError"
proof -
  note s = conn_ok_schema[OF assms(1)] and x = outsider_contexts[OF assms(2)]
  show "get_project repo_get_project_for_user u w i d = Inl ProjectWorkspaceNotFoundError"
    by (simp add: sql_projects.get_project_eq[OF s] x)
  show "list_projects repo_list_projects_for_user u w cur n d = Inl ProjectWorkspaceNotFoundError"
    if "1 \<le> n" "n \<le> MAX_PROJECT_PAGE_LIMIT"
    using sql_projects.list_projects_eq[OF s, of "nat n" u w cur] that x by (simp add: MAX_PROJECT_PAGE_LIMIT_def)
  show "normalize_project_name nm = Inr nm \<Longrightarrow>
      create_project (repo_create_project now pid aid sid rid tid) u w nm d = (Inl ProjectWorkspaceNotFoundError, d)"
    by (simp add: create_project_def repo_create_project_eq[OF s] x)
  show "get_workspace repo_get_workspace_for_user u w d = Inl WorkspaceNotFoundError"
    by (simp add: get_workspace_def x)
qed

lemma outsider_route:
  assumes "conn_ok d" "outsider d (ap_user_id caller) w" "endpoint_workspace e = Some w" "normal_endpoint e"
  shows "authenticated_route env e caller d = (Inl (outsider_exception env e), d)"
proof -
  note defs = answer_reading answer_writing connection_answer_def get_workspace_route_def create_project_route_def
      get_project_route_def lifecycle_action_def get_connection_route_def rename_connection_route_def
      get_connection_draft_route_def put_connection_draft_route_def list_connection_revisions_route_def
      publish_connection_revision_route_def get_connection_revision_route_def
  note facts = outsider_connections[OF assms(1,2)] outsider_projects[OF assms(1,2)]
  show ?thesis
  proof (cases e)
    case (ReplaceConnectionAccess v c p)
    then obtain q where q: "access_to_domain p = Inr q" "normalize_access_policy (ap_mode q) (ap_project_ids q) = Inr q"
      using assms(4) by (auto simp: normal_access_def)
    then show ?thesis using ReplaceConnectionAccess assms(3)
      by (simp add: replace_connection_access_route_def connection_answer_def answer_writing outsider_access(1)[OF assms(1,2) q])
  next
    case (CreateConnection v p)
    then obtain q where q: "access_to_domain (ccr_access p) = Inr q" "normalize_access_policy (ap_mode q) (ap_project_ids q) = Inr q"
      using assms(4) by (auto simp: normal_access_def)
    then show ?thesis using CreateConnection assms(3,4)
      by (simp add: create_connection_route_def answer_writing outsider_access(2)[OF assms(1,2) q] split: sum.split)
  next
    case (ListProjects v limit cursor)
    then show ?thesis using assms(3,4)
      by (simp add: list_projects_route_def answer_def reading_def facts split: sum.split)
  next
    case (ListConnections v limit cursor)
    then show ?thesis using assms(3,4)
      by (simp add: list_connections_route_def answer_def reading_def facts split: sum.split)
  qed (use assms(3,4) in \<open>simp_all add: defs facts\<close>)
qed

lemma validate_workspace: "validate_endpoint e = Inr e' \<Longrightarrow> endpoint_workspace e' = endpoint_workspace e"
  by (cases e) (auto simp: map_sum_Inr checked_Inr)

lemma workspace_ordinary: "endpoint_workspace e = Some w \<Longrightarrow> ordinary e"
  by (cases e) (simp_all add: ordinary_def public_endpoint_def)

text \<open>The answer to an outsider's request, from the request and the environment alone.\<close>

definition outsider_answer :: "Environment \<Rightarrow> Request \<Rightarrow> api_exn" where
  "outsider_answer env rq = (case validated rq of Inl e \<Rightarrow> e | Inr e \<Rightarrow> outsider_exception env e)"

lemma outsider_request:
  assumes "conn_ok d" "endpoint_workspace (rq_endpoint rq) = Some w"
    "rq_credentials rq = Some (scheme, token)" "casefold scheme = ''bearer''" "en_verify env token = Inr v"
    "principal_spec (en_now env) v d = Some p" "member_rows d (ap_user_id p) w = []"
  shows "handle_request env rq d = (respond env rq (Inl (outsider_answer env rq)), d)"
proof -
  have cred: "require_bearer_token (rq_credentials rq) = Inr token" using assms(3,4) by (simp add: require_bearer_token_def)
  have who: "require_authenticated_principal env token d = Inr p"
    using assms(5,6) by (simp add: require_principal_eq[OF conn_ok_schema[OF assms(1)]])
  have "router env rq d = (Inl (outsider_answer env rq), d)"
  proof (cases "validated rq")
    case (Inl e)
    then show ?thesis by (simp add: router_ordinary[OF workspace_ordinary[OF assms(2)]] cred who outsider_answer_def)
  next
    case (Inr e)
    note v = Inr[unfolded validated_Inr, THEN conjunct2]
    have "authenticated_route env e p d = (Inl (outsider_exception env e), d)"
      using outsider_route[OF assms(1) _ _ validated_normal[OF v], of p w env] assms(2,7) validate_workspace[OF v]
      by (simp add: outsider_def)
    then show ?thesis using Inr by (simp add: router_ordinary[OF workspace_ordinary[OF assms(2)]] cred who outsider_answer_def)
  qed
  then show ?thesis by (simp add: handle_request_eq)
qed

definition paged_by_cursor :: "endpoint \<Rightarrow> bool" where
  "paged_by_cursor e \<longleftrightarrow> (\<exists>w limit c. e = ListProjects w limit (Some c) \<or> e = ListConnections w limit (Some c))"

lemma outsider_exception_code:
  assumes "endpoint_workspace e = Some w" "\<not> paged_by_cursor e"
  shows "exception_code (outsider_exception env e) \<in> {WORKSPACE_NOT_FOUND, REQUEST_VALIDATION_FAILED}"
  using assms
  by (cases e)
    (auto simp: paged_by_cursor_def decode_project_cursor_def decode_connection_cursor_def decode_cursor_def
      configuration_invalid_def registry_require_def split: option.splits)

lemma validate_paged: "validate_endpoint e = Inr e' \<Longrightarrow> paged_by_cursor e' = paged_by_cursor e"
  by (cases e) (auto simp: map_sum_Inr checked_Inr paged_by_cursor_def)

text \<open>
  C9: To a caller who is no member of a Workspace, every request about it is answered the same
  whatever the database holds, the Workspace and everything in it included, and changes nothing; and
  unless it carries a cursor the answer is that there is no such Workspace or that the request is invalid.
\<close>

theorem outsider_learns_nothing:
  assumes "conn_ok d1" "conn_ok d2" "endpoint_workspace (rq_endpoint rq) = Some w"
    and "rq_credentials rq = Some (scheme, token)" "casefold scheme = ''bearer''" "en_verify env token = Inr v"
    and "principal_spec (en_now env) v d1 = Some p1" "member_rows d1 (ap_user_id p1) w = []"
    and "principal_spec (en_now env) v d2 = Some p2" "member_rows d2 (ap_user_id p2) w = []"
  shows "\<exists>x pd. handle_request env rq d1 = (x, d1) \<and> handle_request env rq d2 = (x, d2) \<and> rs_body (fst x) = ProblemBody pd
    \<and> (pd_code pd \<in> {WORKSPACE_NOT_FOUND, REQUEST_VALIDATION_FAILED} \<or> paged_by_cursor (rq_endpoint rq))"
proof -
  note out = outsider_request[OF assms(1,3-8)] outsider_request[OF assms(2,3-6,9,10)]
  obtain c where c: "problem_for (request_context env) False c (fst (respond env rq (Inl (outsider_answer env rq))))"
    using respond_any_exception by blast
  have "\<not> paged_by_cursor (rq_endpoint rq) \<Longrightarrow> exception_code (outsider_answer env rq) \<in> {WORKSPACE_NOT_FOUND, REQUEST_VALIDATION_FAILED}
      \<and> (\<nexists>s h. outsider_answer env rq = HTTPException s h)"
  proof (cases "validated rq")
    case (Inl e)
    then show ?thesis by (auto simp: outsider_answer_def validated_def map_sum_def split: if_splits sum.splits)
  next
    case (Inr e)
    note v = Inr[unfolded validated_Inr, THEN conjunct2]
    assume n: "\<not> paged_by_cursor (rq_endpoint rq)"
    have "exception_code (outsider_exception env e) \<in> {WORKSPACE_NOT_FOUND, REQUEST_VALIDATION_FAILED}"
      using outsider_exception_code assms(3) n validate_workspace[OF v] validate_paged[OF v] by metis
    then show ?thesis using Inr by (auto simp: outsider_answer_def)
  qed
  then have "\<not> paged_by_cursor (rq_endpoint rq) \<Longrightarrow> \<exists>c \<in> {WORKSPACE_NOT_FOUND, REQUEST_VALIDATION_FAILED}.
      problem_for (request_context env) True c (fst (respond env rq (Inl (outsider_answer env rq))))"
    using respond_exception by blast
  then show ?thesis using out c unfolding problem_for_def by (cases "paged_by_cursor (rq_endpoint rq)") fastforce+
qed

definition sample_outsider_request :: Request where
  "sample_outsider_request = sample_request (ListConnectionRevisions 10 30 None 5)"

definition busy_db :: db where
  "busy_db = first_db\<lparr>workspaces := [\<lparr>ws_id = 10, ws_name = ''Home'', ws_status = ''ACTIVE'', ws_created_at = 5, ws_updated_at = 5\<rparr>],
     connections := [\<lparr>c_id = 30, c_workspace_id = 10, c_name = ''Hook'', c_provider_key = ''generic_http'',
       c_access_mode = ''WORKSPACE'', c_status = ''DRAFT'', c_created_at = 5, c_updated_at = 5, c_archived_at = None\<rparr>]\<rparr>"

lemma busy_db_ok: "conn_ok busy_db"
  by code_simp

lemma sample_principals:
  "principal_spec 2000000 sample_token first_db = Some (ps_principal first_session)"
  "principal_spec 2000000 sample_token busy_db = Some (ps_principal first_session)"
  "member_rows first_db 1 10 = []" "member_rows busy_db 1 10 = []"
  by code_simp+

theorem outsider_learns_nothing_witness:
  "\<exists>x. handle_request (sample_env 23) sample_outsider_request first_db = (x, first_db)
    \<and> handle_request (sample_env 23) sample_outsider_request busy_db = (x, busy_db)
    \<and> (\<exists>pd. rs_body (fst x) = ProblemBody pd \<and> pd_code pd \<in> {WORKSPACE_NOT_FOUND, REQUEST_VALIDATION_FAILED})"
proof -
  have e: "endpoint_workspace (rq_endpoint sample_outsider_request) = Some 10"
    "rq_credentials sample_outsider_request = Some (''Bearer'', ''t'')"
    "en_verify (sample_env 23) ''t'' = Inr sample_token" "en_now (sample_env 23) = 2000000"
    "ap_user_id (ps_principal first_session) = 1" "\<not> paged_by_cursor (rq_endpoint sample_outsider_request)"
    by (simp_all add: sample_outsider_request_def sample_request_def sample_env_def first_session_def paged_by_cursor_def)
  have b: "casefold ''Bearer'' = ''bearer''" by code_simp
  show ?thesis
    using outsider_learns_nothing[OF first_db_conn_ok busy_db_ok e(1,2) b e(3), unfolded e(4),
        OF sample_principals(1) _ sample_principals(2)] e(5,6) sample_principals(3,4) by auto
qed

subsection \<open>Internal errors\<close>

definition foreseen :: "exn \<Rightarrow> bool" where
  "foreseen e \<longleftrightarrow> domain_problem e \<noteq> None"

lemma foreseen_simps [simp]:
  "foreseen WorkspaceNotFoundError" "foreseen ProjectWorkspaceNotFoundError" "foreseen ProjectNotFoundError"
  "foreseen ConnectionWorkspaceNotFoundError" "foreseen ConnectionNotFoundError" "foreseen ConnectionProjectNotFoundError"
  "foreseen (ConnectionPermissionDeniedError m)" "foreseen (ConnectionWorkspaceNotActiveError m)"
  "foreseen (ConnectionStateConflictError m)" "foreseen (ConnectionConfigurationInvalidError m)"
  "foreseen ProjectPermissionDeniedError" "foreseen ProjectWorkspaceNotActiveError"
  "\<not> foreseen (IntegrityError m)" "\<not> foreseen (AttributeError m)"
  by (simp_all add: foreseen_def)

text \<open>An identifier that was drawn for the request is already in use.\<close>

definition collision :: "Environment \<Rightarrow> db \<Rightarrow> bool" where
  "collision env d \<longleftrightarrow> en_id env \<in> set (map ws_id (workspaces d)) \<union> set (map p_id (projects d))
       \<union> set (map c_id (connections d)) \<union> set (map r_id (revisions d))
     \<or> en_membership_id env \<in> set (map m_id (memberships d)) \<or> en_audit_id env \<in> set (map au_id (audit_events d))"

lemma request_call_simps [simp]:
  "call_new_id (request_call env caller) = en_id env" "audit_id_used (request_call env caller) d \<longleftrightarrow> en_audit_id env \<in> set (map au_id (audit_events d))"
  by (simp_all add: request_call_def audit_id_used_def)

lemma authorizers_foreseen:
  "authorize_authoring m = Inl e \<Longrightarrow> foreseen e" "authorize_access p m = Inl e \<Longrightarrow> foreseen e"
  "authorize_lifecycle act m = Inl e \<Longrightarrow> foreseen e" "authorize_connection_creation x p = Inl e \<Longrightarrow> foreseen e"
  "authorize_project_creation y = Inl e \<Longrightarrow> foreseen e"
  unfolding authorize_authoring_def authorize_access_def authorize_lifecycle_def authorize_connection_creation_def
    authorize_project_creation_def
  by (auto split: if_split_asm)

lemma default_registry_entry:
  assumes "default_registry br = Inr reg" "registry_require reg k = Inr p"
  shows "p = generic_http_provider br"
  using assms by (auto simp: default_registry_def registry_of_def registry_require_def generic_http_provider_def Let_def split: if_splits)

definition raises_provider :: "exn + 'a \<Rightarrow> bool" where
  "raises_provider r \<longleftrightarrow> (\<forall>e. r = Inl e \<longrightarrow> (\<exists>m. e = ProviderConfigurationError m))"

lemma raises_provider_intros:
  "raises_provider (Inl (ProviderConfigurationError m))" "raises_provider (Inr a)"
  "raises_provider r \<Longrightarrow> raises_provider s \<Longrightarrow> raises_provider (if b then r else s)"
  "(\<And>x. raises_provider (f x)) \<Longrightarrow> raises_provider (Let y f)"
  "raises_provider r \<Longrightarrow> (\<And>x. raises_provider (g x)) \<Longrightarrow> raises_provider (case z of None \<Rightarrow> r | Some x \<Rightarrow> g x)"
  "(\<And>x. raises_provider (h x)) \<Longrightarrow> (\<And>x. raises_provider (k x)) \<Longrightarrow> raises_provider (case y' of Inl x \<Rightarrow> h x | Inr x \<Rightarrow> k x)"
  "(\<And>x y. raises_provider (l x y)) \<Longrightarrow> raises_provider (case w of (x, y) \<Rightarrow> l x y)"
  "raises_provider q \<Longrightarrow> (\<And>x. raises_provider (n x)) \<Longrightarrow> raises_provider (bind_res q n)"
  by (auto simp: raises_provider_def Let_def bind_res_eq_Inl split: option.splits sum.splits prod.splits if_splits)

lemma normalize_base_url_raises: "raises_provider (normalize_base_url br s)"
  unfolding normalize_base_url_def by (intro raises_provider_intros)

lemma generic_http_Inl: "generic_http_canonicalize br cfg = Inl e \<Longrightarrow> \<exists>m. e = ProviderConfigurationError m"
  using normalize_base_url_raises[of br]
  by (auto simp: generic_http_canonicalize_def bind_res_eq_Inl raises_provider_def split: if_split_asm option.splits json.splits)

lemma configuration_invalid_Inr: "configuration_invalid r = Inr a \<longleftrightarrow> r = Inr a"
  by (auto simp: configuration_invalid_def split: sum.splits exn.splits)

lemma compilers_foreseen:
  assumes "default_registry br = Inr reg"
  shows "compile_draft reg m cfg = Inl e \<Longrightarrow> foreseen e"
    and "compile_publication sha256 reg m cfg = Inl e \<Longrightarrow> foreseen e"
    and "configuration_invalid (registry_require reg k) = Inl e \<Longrightarrow> foreseen e"
    and "compile_publication sha256 reg m cfg = Inr p \<Longrightarrow> 0 < pub_definition_schema_version p"
proof -
  have can: "prov_canonicalize p cfg = Inl e \<Longrightarrow> \<exists>m. e = ProviderConfigurationError m"
    if "registry_require reg k = Inr p" for k p cfg e
    using generic_http_Inl default_registry_entry[OF assms that] by (simp add: generic_http_provider_def)
  have req: "registry_require reg k = Inl e \<Longrightarrow> \<exists>m. e = ProviderConfigurationError m" for k e
    by (auto simp: registry_require_def split: option.splits)
  have inv: "configuration_invalid r = Inl e \<Longrightarrow> (\<And>e'. r = Inl e' \<Longrightarrow> \<exists>m. e' = ProviderConfigurationError m) \<Longrightarrow> foreseen e"
    for r :: "exn + 'x" and e
    by (cases r) (fastforce simp: configuration_invalid_def)+
  show "compile_draft reg m cfg = Inl e \<Longrightarrow> foreseen e"
    unfolding compile_draft_def by (erule inv) (auto simp: registry_compile_draft_def bind_res_eq_Inl dest: can req)
  show "compile_publication sha256 reg m cfg = Inl e \<Longrightarrow> foreseen e"
    unfolding compile_publication_def
    by (erule inv) (auto simp: registry_publish_def bind_res_eq_Inl Let_def dest: can req)
  show "configuration_invalid (registry_require reg k) = Inl e \<Longrightarrow> foreseen e"
    by (erule inv) (auto dest: req)
  have pub: "compile_publication sha256 reg m cfg = Inr p \<Longrightarrow> registry_publish sha256 reg (cm_provider_key m) cfg = Inr p"
    by (simp add: compile_publication_def configuration_invalid_Inr)
  show "0 < pub_definition_schema_version p" if "compile_publication sha256 reg m cfg = Inr p"
  proof (cases "registry_require reg (cm_provider_key m)")
    case (Inr q)
    then have "prov_schema_version q = 1"
      using default_registry_entry[OF assms Inr] by (simp add: generic_http_provider_def)
    with Inr show ?thesis
      using pub[OF that]
      by (cases "prov_canonicalize q cfg") (auto simp: registry_publish_def Let_def)
  qed (use pub[OF that] in \<open>simp add: registry_publish_def\<close>)
qed

lemma guarded_foreseen:
  assumes "guarded d u w c az k = (Inl e, d')" "\<And>m e. az m = Inl e \<Longrightarrow> foreseen e"
    "\<And>x r. k x r = (Inl e, d') \<Longrightarrow> foreseen e \<or> P"
  shows "foreseen e \<or> P"
  using assms(1) unfolding guarded_def by (auto split: option.splits sum.splits dest: assms(2,3))

lemma mutations_foreseen:
  assumes "conn_ok d" "default_registry br = Inr (en_registry env)" and call_def: "call = request_call env caller"
  shows "rename_connection (repo_rename_connection call) u w c n d = (Inl e, d') \<Longrightarrow> normalize_connection_name n = Inr n \<Longrightarrow>
      foreseen e \<or> collision env d"
    and "put_draft (en_registry env) (repo_put_draft call) u w c cfg d = (Inl e, d') \<Longrightarrow> foreseen e \<or> collision env d"
    and "publish_revision sha256 (en_registry env) (repo_publish_revision call) u w c d = (Inl e, d') \<Longrightarrow> foreseen e \<or> collision env d"
    and "transition_lifecycle (repo_transition_lifecycle call) u w c act d = (Inl e, d') \<Longrightarrow> foreseen e \<or> collision env d"
    and "normalize_access_policy (ap_mode p) (ap_project_ids p) = Inr p \<Longrightarrow>
      replace_access (repo_replace_access call) u w c p d = (Inl e, d') \<Longrightarrow> foreseen e \<or> collision env d"
    and "normalize_access_policy (ap_mode p) (ap_project_ids p) = Inr p \<Longrightarrow> normalize_connection_name n = Inr n \<Longrightarrow>
      normalize_provider_key k = Inr k \<Longrightarrow>
      create_connection (en_registry env) (repo_create_connection call) u w n k p d = (Inl e, d') \<Longrightarrow> foreseen e \<or> collision env d"
proof -
  note comp = compilers_foreseen[OF assms(2)]
  show "rename_connection (repo_rename_connection call) u w c n d = (Inl e, d') \<Longrightarrow> normalize_connection_name n = Inr n \<Longrightarrow>
      foreseen e \<or> collision env d"
    unfolding rename_connection_def call_def
    by (simp add: repo_rename_connection_eq[OF assms(1)], erule guarded_foreseen)
      (auto simp: collision_def authorizers_foreseen split: if_splits)
  show "put_draft (en_registry env) (repo_put_draft call) u w c cfg d = (Inl e, d') \<Longrightarrow> foreseen e \<or> collision env d"
    unfolding put_draft_def repo_put_draft_eq[OF assms(1)]
    by (erule guarded_foreseen) (auto simp: authorizers_foreseen split: sum.splits dest: comp(1))
  show "publish_revision sha256 (en_registry env) (repo_publish_revision call) u w c d = (Inl e, d') \<Longrightarrow> foreseen e \<or> collision env d"
    unfolding publish_revision_def repo_publish_revision_eq[OF assms(1)] call_def
    by (erule guarded_foreseen)
      (auto simp: authorizers_foreseen collision_def split: sum.splits option.splits if_splits dest: comp(2,4))
  show "transition_lifecycle (repo_transition_lifecycle call) u w c act d = (Inl e, d') \<Longrightarrow> foreseen e \<or> collision env d"
    unfolding transition_lifecycle_def repo_transition_lifecycle_eq[OF assms(1)] call_def
    by (erule guarded_foreseen) (auto simp: collision_def authorizers_foreseen split: if_splits)
  assume p: "normalize_access_policy (ap_mode p) (ap_project_ids p) = Inr p"
  note pk = policy_of_normalized[OF p]
  show "replace_access (repo_replace_access call) u w c p d = (Inl e, d') \<Longrightarrow> foreseen e \<or> collision env d"
    unfolding replace_access_def p sum.case repo_replace_access_eq[OF assms(1) pk] call_def
    by (erule guarded_foreseen) (auto simp: collision_def authorizers_foreseen split: if_splits)
  show "create_connection (en_registry env) (repo_create_connection call) u w n k p d = (Inl e, d') \<Longrightarrow> foreseen e \<or> collision env d"
    if "normalize_connection_name n = Inr n" "normalize_provider_key k = Inr k"
    unfolding create_connection_def that p sum.case repo_create_connection_eq[OF assms(1) pk] call_def
    by (auto simp: collision_def split: sum.splits option.splits if_splits dest: comp(3) authorizers_foreseen)
qed

lemma creations_foreseen:
  assumes "conn_ok d" "u \<in> set (map u_id (users d))"
  shows "normalize_project_name n = Inr n \<Longrightarrow>
      create_project (repo_create_project now (en_id env) (en_audit_id env) sid rid tid) u w n d = (Inl e, d') \<Longrightarrow>
      foreseen e \<or> collision env d"
    and "normalize_workspace_name n = Inr n \<Longrightarrow>
      create_workspace (\<lambda>n. repo_create_owned_workspace now (en_id env) (en_membership_id env) (en_audit_id env) u sid n rid tid) n d
        = (Inl e, d') \<Longrightarrow> foreseen e \<or> collision env d"
proof -
  note s = conn_ok_schema[OF assms(1)]
  show "create_project (repo_create_project now (en_id env) (en_audit_id env) sid rid tid) u w n d = (Inl e, d') \<Longrightarrow>
      foreseen e \<or> collision env d" if "normalize_project_name n = Inr n"
    unfolding create_project_def that sum.case repo_create_project_eq[OF s]
    by (auto simp: collision_def split: sum.splits option.splits if_splits dest: authorizers_foreseen)
  show "create_workspace (\<lambda>n. repo_create_owned_workspace now (en_id env) (en_membership_id env) (en_audit_id env) u sid n rid tid) n d
        = (Inl e, d') \<Longrightarrow> foreseen e \<or> collision env d" if "normalize_workspace_name n = Inr n"
    unfolding create_workspace_def that sum.case
    using create_owned_workspace_ok[OF s, of "en_id env" "en_membership_id env" "en_audit_id env" u now sid n rid tid] assms(2)
    by (auto simp: collision_def workspace_ids_fresh_def)
qed

lemma reads_foreseen:
  assumes "conn_ok d"
  shows "get_connection repo_get_connection_for_user u w c d = Inl e \<Longrightarrow> foreseen e"
    "get_draft repo_get_draft_for_user u w c d = Inl e \<Longrightarrow> foreseen e"
    "get_revision repo_get_revision_for_user u w c r d = Inl e \<Longrightarrow> foreseen e"
    "1 \<le> n \<Longrightarrow> n \<le> MAX_CONNECTION_PAGE_LIMIT \<Longrightarrow>
      list_connections repo_list_connections_for_user u w cur n d = Inl e \<Longrightarrow> foreseen e"
    "1 \<le> n \<Longrightarrow> n \<le> MAX_CONNECTION_REVISION_PAGE_LIMIT \<Longrightarrow> (\<forall>b. before = Some b \<longrightarrow> 1 \<le> b) \<Longrightarrow>
      list_revisions repo_list_revisions_for_user u w c before n d = Inl e \<Longrightarrow> foreseen e"
    "get_project repo_get_project_for_user u w i d = Inl e \<Longrightarrow> foreseen e"
    "1 \<le> n \<Longrightarrow> n \<le> MAX_PROJECT_PAGE_LIMIT \<Longrightarrow>
      list_projects repo_list_projects_for_user u w pcur n d = Inl e \<Longrightarrow> foreseen e"
    "get_workspace repo_get_workspace_for_user u w d = Inl e \<Longrightarrow> foreseen e"
    "list_workspaces repo_list_workspaces_for_user u d \<noteq> Inl e"
proof -
  note s = conn_ok_schema[OF assms]
  show "get_connection repo_get_connection_for_user u w c d = Inl e \<Longrightarrow> foreseen e"
    "get_draft repo_get_draft_for_user u w c d = Inl e \<Longrightarrow> foreseen e"
    "get_revision repo_get_revision_for_user u w c r d = Inl e \<Longrightarrow> foreseen e"
    by (auto simp: get_connection_eq[OF assms] get_draft_eq[OF s] get_revision_eq[OF s] mutation_context_at_def
        split: option.splits sum.splits if_splits dest: authorizers_foreseen)
  show "foreseen e" if "1 \<le> n" "n \<le> MAX_CONNECTION_PAGE_LIMIT" "list_connections repo_list_connections_for_user u w cur n d = Inl e"
  proof -
    have "1 \<le> nat n" "nat n \<le> 100" using that(1,2) by (simp_all add: MAX_CONNECTION_PAGE_LIMIT_def)
    from list_connections_eq[OF assms this, of u w cur] show ?thesis using that by (auto split: option.splits)
  qed
  show "foreseen e" if "1 \<le> n" "n \<le> MAX_CONNECTION_REVISION_PAGE_LIMIT" "\<forall>b. before = Some b \<longrightarrow> 1 \<le> b"
    "list_revisions repo_list_revisions_for_user u w c before n d = Inl e"
  proof -
    have "0 < nat n" using that(1) by simp
    from repo_list_revisions_eq[OF s this, of u w c before] show ?thesis using that
      by (cases before) (auto simp: list_revisions_def validate_before_revision_def validate_connection_revision_page_limit_def
          authorize_read_mutation_context_def bind_res_eq_Inl split: option.splits)
  qed
  show "get_project repo_get_project_for_user u w i d = Inl e \<Longrightarrow> foreseen e"
    by (auto simp: sql_projects.get_project_eq[OF s] split: option.splits)
  show "foreseen e" if "1 \<le> n" "n \<le> MAX_PROJECT_PAGE_LIMIT" "list_projects repo_list_projects_for_user u w pcur n d = Inl e"
  proof -
    have "1 \<le> nat n" "nat n \<le> 100" using that(1,2) by (simp_all add: MAX_PROJECT_PAGE_LIMIT_def)
    from sql_projects.list_projects_eq[OF s this, of u w pcur] show ?thesis using that by (auto split: option.splits)
  qed
  show "get_workspace repo_get_workspace_for_user u w d = Inl e \<Longrightarrow> foreseen e"
    by (auto simp: get_workspace_def get_for_user_eq[OF s] split: option.splits)
  show "list_workspaces repo_list_workspaces_for_user u d \<noteq> Inl e"
    by (simp add: list_workspaces_def list_for_user_eq[OF s])
qed

text \<open>The cursor of a listing makes the decoder raise what it does not catch.\<close>

definition cursor_fault :: "Environment \<Rightarrow> endpoint \<Rightarrow> bool" where
  "cursor_fault env e \<longleftrightarrow> (\<exists>w limit c x. e \<in> {ListProjects w limit (Some c), ListConnections w limit (Some c)}
     \<and> decode_position (en_text env) c = Inl x \<and> cursor_error x = Raised x)"

lemma decode_fault:
  assumes "decode_cursor tx f c = Inl (Raised x)"
  obtains v where "c = Some v" "decode_position tx v = Inl x" "cursor_error x = Raised x"
proof -
  obtain v where v: "c = Some v" using assms by (cases c) (auto simp: decode_cursor_def)
  then obtain y where y: "decode_position tx v = Inl y" "cursor_error y = Raised x"
    using assms by (auto simp: decode_cursor_def split: sum.splits)
  have "y = x" using y(2) by (auto simp: cursor_error_def split: exn.splits)
  then show thesis using that v y by simp
qed

lemma route_foreseen:
  assumes "conn_ok d" "default_registry br = Inr (en_registry env)" "ap_user_id caller \<in> set (map u_id (users d))"
    "normal_endpoint e" "authenticated_route env e caller d = (Inl (Raised x), d')"
  shows "foreseen x \<or> collision env d \<or> cursor_fault env e"
proof -
  note mut = mutations_foreseen[OF assms(1,2) refl] and reads = reads_foreseen[OF assms(1)]
    and new = creations_foreseen[OF assms(1,3)]
  show ?thesis
  proof (cases e)
    case (ReplaceConnectionAccess v c p)
    then obtain q where q: "access_to_domain p = Inr q" "normalize_access_policy (ap_mode q) (ap_project_ids q) = Inr q"
      using assms(4) by (auto simp: normal_access_def)
    then show ?thesis using ReplaceConnectionAccess assms(5) mut(5)[OF q(2), of caller "ap_user_id caller" v c x d']
      by (auto simp: replace_connection_access_route_def connection_answer_def answer_writing split: prod.splits sum.splits; blast)
  next
    case (CreateConnection v p)
    then obtain q where q: "access_to_domain (ccr_access p) = Inr q" "normalize_access_policy (ap_mode q) (ap_project_ids q) = Inr q"
      using assms(4) by (auto simp: normal_access_def)
    then show ?thesis using CreateConnection assms(4,5)
        mut(6)[OF q(2), of "ccr_name p" "ccr_provider_key p" caller "ap_user_id caller" v x d']
      by (auto simp: create_connection_route_def answer_writing split: prod.splits sum.splits; blast)
  next
    case (ListProjects v limit cursor)
    show ?thesis
    proof (cases "decode_project_cursor (en_text env) cursor")
      case (Inl y)
      then have "decode_cursor (en_text env) ProjectPageCursor cursor = Inl (Raised x)"
        using assms(5) ListProjects by (simp add: list_projects_route_def answer_def decode_project_cursor_def)
      then show ?thesis by (rule decode_fault) (use ListProjects in \<open>auto simp: cursor_fault_def\<close>)
    next
      case (Inr y)
      then show ?thesis using assms(4,5) ListProjects reads(7)
        by (auto simp: list_projects_route_def answer_def reading_def raised_def map_sum_def split: sum.splits)
    qed
  next
    case (ListConnections v limit cursor)
    show ?thesis
    proof (cases "decode_connection_cursor (en_text env) cursor")
      case (Inl y)
      then have "decode_cursor (en_text env) ConnectionPageCursor cursor = Inl (Raised x)"
        using assms(5) ListConnections by (simp add: list_connections_route_def answer_def decode_connection_cursor_def)
      then show ?thesis by (rule decode_fault) (use ListConnections in \<open>auto simp: cursor_fault_def\<close>)
    next
      case (Inr y)
      then show ?thesis using assms(4,5) ListConnections reads(4)
        by (auto simp: list_connections_route_def answer_def reading_def raised_def map_sum_def split: sum.splits)
    qed
  next
    case (CreateProject v p)
    then show ?thesis using assms(4,5) new(1) by (auto simp: create_project_route_def answer_writing split: prod.splits sum.splits; blast)
  next
    case (CreateWorkspace p)
    then show ?thesis using assms(4,5) new(2) by (auto simp: create_workspace_route_def answer_writing split: prod.splits sum.splits; blast)
  next
    case (RenameConnection v c p)
    then show ?thesis using assms(4,5) mut(1)
      by (auto simp: rename_connection_route_def connection_answer_def answer_writing split: prod.splits sum.splits; blast)
  next
    case (PutConnectionDraft v c p)
    then show ?thesis using assms(5) mut(2) by (auto simp: put_connection_draft_route_def answer_writing split: prod.splits sum.splits; blast)
  next
    case (PublishConnectionRevision v c)
    then show ?thesis using assms(5) mut(3)
      by (auto simp: publish_connection_revision_route_def answer_writing split: prod.splits sum.splits; blast)
  next
    case (LifecycleConnection act v c)
    then show ?thesis using assms(5) mut(4)
      by (auto simp: lifecycle_action_def connection_answer_def answer_writing split: prod.splits sum.splits; blast)
  next
    case (ListConnectionRevisions v c before limit)
    then show ?thesis using assms(4,5) reads(5)
      by (auto simp: list_connection_revisions_route_def answer_reading split: sum.splits)
  qed (use assms(5) reads(1,2,3,6,8,9) in \<open>auto simp: answer_reading get_me_def list_workspaces_route_def get_workspace_route_def
      get_project_route_def get_connection_route_def get_connection_draft_route_def get_connection_revision_route_def
      split: sum.splits\<close>)
qed

lemma validate_cursor_fault: "validate_endpoint e = Inr e' \<Longrightarrow> cursor_fault env e' = cursor_fault env e"
  by (cases e) (auto simp: map_sum_Inr checked_Inr cursor_fault_def)

lemma domain_problem_code: "domain_problem e = Some (c, h) \<Longrightarrow> c \<noteq> INTERNAL_ERROR"
  by (cases e) auto

lemma principal_is_user:
  assumes "schema_ok d" "principal_spec now v d = Some p"
  shows "ap_user_id p \<in> set (map u_id (users d))"
proof -
  obtain i s where i: "identity_at d (vt_issuer v) (vt_subject v) = Some i" "p = principal_of (active_of d i) s"
    using assms(2) by (auto simp: principal_spec_def split: option.splits if_splits)
  then show ?thesis using user_of_row(2)[OF assms(1)] identity_at_Some[OF i(1)]
    by (simp add: principal_of_def active_of_def)
qed

lemma handler_internal_code: "e \<noteq> HTTPException s h \<Longrightarrow> exception_code e = INTERNAL_ERROR \<Longrightarrow>
    (\<exists>x. e = Raised x \<and> \<not> foreseen x) \<or> (\<exists>h. e = ProblemException INTERNAL_ERROR h)"
  by (cases e) (auto simp: foreseen_def split: option.splits dest: domain_problem_code)

lemma answer_paged_problem:
  "answer status headers body (\<lambda>d. case decode_cursor tx g c of Inl e \<Rightarrow> (Inl e, d) | Inr y \<Rightarrow> reading (f y) d) d = (Inl x, d') \<Longrightarrow>
    \<nexists>c h. x = ProblemException c h"
  by (cases "decode_cursor tx g c")
    (auto simp: answer_def reading_def raised_def map_sum_def decode_cursor_def cursor_error_def
      split: sum.splits option.splits exn.splits)

lemma route_raised:
  assumes "ordinary e" "authenticated_route env e caller d = (Inl x, d')"
  shows "\<nexists>c h. x = ProblemException c h"
  using assms
    by (cases e)
      (auto simp: ordinary_def public_endpoint_def get_me_def create_workspace_route_def list_workspaces_route_def
      get_workspace_route_def create_project_route_def list_projects_route_def get_project_route_def
      create_connection_route_def list_connections_route_def lifecycle_action_def get_connection_route_def
      rename_connection_route_def get_connection_draft_route_def put_connection_draft_route_def
      list_connection_revisions_route_def publish_connection_revision_route_def get_connection_revision_route_def
      replace_connection_access_route_def connection_answer_def decode_project_cursor_def decode_connection_cursor_def
      dest: answer_raises answer_paged_problem)


definition sample_fault_env :: Environment where
  "sample_fault_env = (sample_env 23)\<lparr>en_registry := [(''generic_http'', generic_http_provider (\<lambda>_. True))],
     en_text := sample_text sample_bad_payload\<rparr>"

lemma sample_fault: "case handle_request sample_fault_env (sample_request (ListConnections 10 5 (Some ''QQ''))) first_db of
    ((x, l), d) \<Rightarrow> (case rs_body x of ProblemBody pd \<Rightarrow> pd_code pd = INTERNAL_ERROR | _ \<Rightarrow> False)"
  by code_simp


end
