(* ===== verification/OpenApi.thy ===== *)
theory OpenApi
  imports Problems
begin

section \<open>The OpenAPI document\<close>

text \<open>
  \<open>api/problems/openapi.py\<close>: the rewriting of the generated OpenAPI document. A dictionary is the list
  of its items in insertion order; \<open>jset\<close>, \<open>jdel\<close> and \<open>setdefault\<close> are \<open>d[k] = v\<close>, \<open>del d[k]\<close> (or \<open>pop\<close>) and
  \<open>d.setdefault(k, v)\<close>, and \<open>at_dict k f d\<close> changes in place the dictionary found under a key. What FastAPI
  generates is an argument.
\<close>

subsection \<open>Dictionaries\<close>

fun jset :: "string \<Rightarrow> json \<Rightarrow> json_object \<Rightarrow> json_object" where
  "jset k v [] = [(k, v)]"
| "jset k v ((k', v') # d) = (if k' = k then (k, v) # d else (k', v') # jset k v d)"

definition jdel :: "string \<Rightarrow> json_object \<Rightarrow> json_object" where
  "jdel k = filter (\<lambda>(k', _). k' \<noteq> k)"

definition setdefault :: "string \<Rightarrow> json \<Rightarrow> json_object \<Rightarrow> json_object" where
  "setdefault k v d = (case map_of d k of None \<Rightarrow> jset k v d | Some _ \<Rightarrow> d)"

definition at_dict :: "string \<Rightarrow> (json_object \<Rightarrow> json_object) \<Rightarrow> json_object \<Rightarrow> json_object" where
  "at_dict k f d = (case map_of d k of Some (JObj x) \<Rightarrow> jset k (JObj (f x)) d | _ \<Rightarrow> d)"

text \<open>Every value that is a dictionary changed by \<open>f\<close>, which is told its key.\<close>

definition each_dict :: "(string \<Rightarrow> json_object \<Rightarrow> json_object) \<Rightarrow> json_object \<Rightarrow> json_object" where
  "each_dict f = map (\<lambda>(k, v). (k, case v of JObj x \<Rightarrow> JObj (f k x) | _ \<Rightarrow> v))"

subsection \<open>The code\<close>

definition PROBLEM_SCHEMA_REF :: string where
  "PROBLEM_SCHEMA_REF = ''#/components/schemas/ProblemDetail''"

definition REQUEST_ID_HEADER :: json where
  "REQUEST_ID_HEADER = JObj [(''description'', JStr ''Server-generated request correlation identifier.''),
     (''schema'', JObj [(''type'', JStr ''string''), (''format'', JStr ''uuid'')])]"

definition HTTP_METHODS :: "string list" where
  "HTTP_METHODS = [''get'', ''put'', ''post'', ''delete'', ''options'', ''head'', ''patch'', ''trace'']"

definition FASTAPI_VALIDATION_SCHEMAS :: "string list" where
  "FASTAPI_VALIDATION_SCHEMAS = [''HTTPValidationError'', ''ValidationError'']"

text \<open>The model class of the entry is always \<open>ProblemDetail\<close>: the entry is its description.\<close>

definition problem_openapi_response :: "ProblemCode \<Rightarrow> string" where
  "problem_openapi_response problem_code = spec_title (problem_spec problem_code)"

definition problem_response_document :: "string \<Rightarrow> json" where
  "problem_response_document description = JObj [(''description'', JStr description),
     (''content'', JObj [(''application/problem+json'', JObj [(''schema'', JObj [(''$ref'', JStr PROBLEM_SCHEMA_REF)])])])]"

definition is_problem_schema :: "json option \<Rightarrow> bool" where
  "is_problem_schema content_entry = (case content_entry of
     Some (JObj entry) \<Rightarrow> (case map_of entry ''schema'' of
         Some (JObj schema) \<Rightarrow> map_of schema ''$ref'' = Some (JStr PROBLEM_SCHEMA_REF)
       | _ \<Rightarrow> False)
   | _ \<Rightarrow> False)"

definition normalize_problem_media_type :: "json_object \<Rightarrow> json_object" where
  "normalize_problem_media_type = at_dict ''content'' (\<lambda>content.
     let application_json = map_of content ''application/json'' in
     if \<not> is_problem_schema application_json then content
     else jdel ''application/json'' (jset ''application/problem+json'' (the application_json) content))"

definition replace_validation_response :: "json_object \<Rightarrow> json_object" where
  "replace_validation_response = at_dict ''responses'' (\<lambda>responses.
     if map_of responses ''422'' \<noteq> None
     then jset ''422'' (problem_response_document ''Request validation failed'') responses else responses)"

definition inject_internal_error :: "string \<Rightarrow> json_object \<Rightarrow> json_object" where
  "inject_internal_error path operation =
     (if \<not> starts_with ''/v1/'' path then operation
      else at_dict ''responses'' (setdefault ''500'' (problem_response_document ''Internal server error''))
        (setdefault ''responses'' (JObj []) operation))"

definition inject_request_id_header :: "json_object \<Rightarrow> json_object" where
  "inject_request_id_header response =
     at_dict ''headers'' (setdefault ''X-Request-ID'' REQUEST_ID_HEADER) (setdefault ''headers'' (JObj []) response)"

definition normalize_response :: "json_object \<Rightarrow> json_object" where
  "normalize_response response = inject_request_id_header (normalize_problem_media_type response)"

definition normalize_operation :: "string \<Rightarrow> json_object \<Rightarrow> json_object" where
  "normalize_operation path operation =
     at_dict ''responses'' (each_dict (\<lambda>_. normalize_response))
       (inject_internal_error path (replace_validation_response operation))"

lemma size_item [termination_simp]: "kv \<in> set kvs \<Longrightarrow> size (snd kv) < Suc (size_list (size_prod (\<lambda>x. 0) size) kvs)"
  by (induction kvs) auto

fun contains_ref :: "json \<Rightarrow> string \<Rightarrow> bool" where
  "contains_ref (JObj items) ref \<longleftrightarrow>
     map_of items ''$ref'' = Some (JStr ref) \<or> (\<exists>kv \<in> set items. contains_ref (snd kv) ref)"
| "contains_ref (JArr xs) ref \<longleftrightarrow> (\<exists>x \<in> set xs. contains_ref x ref)"
| "contains_ref _ ref \<longleftrightarrow> False"

definition schemas_of :: "json_object \<Rightarrow> json_object option" where
  "schemas_of schema = (case map_of schema ''components'' of
     Some (JObj components) \<Rightarrow> (case map_of components ''schemas'' of Some (JObj schemas) \<Rightarrow> Some schemas | _ \<Rightarrow> None)
   | _ \<Rightarrow> None)"

definition at_schemas :: "(json_object \<Rightarrow> json_object) \<Rightarrow> json_object \<Rightarrow> json_object" where
  "at_schemas f = at_dict ''components'' (at_dict ''schemas'' f)"

definition schema_ref :: "string \<Rightarrow> string" where
  "schema_ref schema_name = ''#/components/schemas/'' @ schema_name"

definition prune_schema :: "string \<Rightarrow> json_object \<Rightarrow> json_object" where
  "prune_schema schema_name schema = (case schemas_of schema of
     None \<Rightarrow> schema
   | Some schemas \<Rightarrow>
       (let popped = at_schemas (jdel schema_name) schema in
        case map_of schemas schema_name of
          Some candidate \<Rightarrow>
            if candidate \<noteq> JNull \<and> contains_ref (JObj popped) (schema_ref schema_name)
            then at_schemas (jset schema_name candidate) popped else popped
        | None \<Rightarrow> popped))"

definition prune_unreferenced_fastapi_validation_schemas :: "json_object \<Rightarrow> json_object" where
  "prune_unreferenced_fastapi_validation_schemas schema = fold prune_schema FASTAPI_VALIDATION_SCHEMAS schema"

definition normalize_path_item :: "string \<Rightarrow> json_object \<Rightarrow> json_object" where
  "normalize_path_item path = each_dict (\<lambda>method operation.
     if method \<in> set HTTP_METHODS then normalize_operation path operation else operation)"

definition normalize_openapi_contract :: "json_object \<Rightarrow> json_object" where
  "normalize_openapi_contract schema = (case map_of schema ''paths'' of
     Some (JObj _) \<Rightarrow>
       prune_unreferenced_fastapi_validation_schemas (at_dict ''paths'' (each_dict normalize_path_item) schema)
   | _ \<Rightarrow> schema)"

text \<open>\<open>ControlApi.openapi\<close>: the attribute \<open>openapi_schema\<close>, and what \<open>super().openapi()\<close> generates.\<close>

definition openapi :: "json_object option \<Rightarrow> json_object \<Rightarrow> json_object \<times> json_object option" where
  "openapi openapi_schema generated = (case openapi_schema of
     Some schema \<Rightarrow> (schema, openapi_schema)
   | None \<Rightarrow> (let schema = normalize_openapi_contract generated in (schema, Some schema)))"

subsection \<open>Dictionary laws\<close>

lemma map_of_jset [simp]: "map_of (jset k v d) = (map_of d)(k \<mapsto> v)"
  by (induction d) (auto simp: fun_eq_iff)

lemma jset_same: "map_of d k = Some v \<Longrightarrow> jset k v d = d"
  by (induction d) auto

lemma jset_jset [simp]: "jset k v (jset k w d) = jset k v d"
  by (induction d) auto

lemma map_of_jdel [simp]: "map_of (jdel k d) = (map_of d)(k := None)"
  by (induction d) (auto simp: jdel_def fun_eq_iff)

lemma map_of_setdefault [simp]: "map_of (setdefault k v d) = (if map_of d k = None then (map_of d)(k \<mapsto> v) else map_of d)"
  by (auto simp: setdefault_def split: option.split)

lemma setdefault_idem [simp]: "setdefault k v (setdefault k v d) = setdefault k v d"
  by (auto simp: setdefault_def split: option.split)

lemma setdefault_present: "map_of d k \<noteq> None \<Longrightarrow> setdefault k v d = d"
  by (auto simp: setdefault_def)

lemma map_of_at_dict: "map_of (at_dict k f d) =
    (case map_of d k of Some (JObj x) \<Rightarrow> (map_of d)(k \<mapsto> JObj (f x)) | _ \<Rightarrow> map_of d)"
  by (auto simp: at_dict_def split: option.split json.split)

lemma at_dict_other [simp]: "k \<noteq> k' \<Longrightarrow> map_of (at_dict k f d) k' = map_of d k'"
  by (simp add: map_of_at_dict split: option.split json.split)

lemma at_dict_at_dict: "at_dict k f (at_dict k g d) = at_dict k (f \<circ> g) d"
  by (simp add: at_dict_def split: option.split json.split)

lemma at_dict_id: "(\<And>x. map_of d k = Some (JObj x) \<Longrightarrow> f x = x) \<Longrightarrow> at_dict k f d = d"
  by (auto simp: at_dict_def jset_same split: option.split json.split)

lemma at_dict_absent: "map_of d k = None \<Longrightarrow> at_dict k f d = d"
  by (simp add: at_dict_def)

lemma map_of_each_dict: "map_of (each_dict f d) k =
    (case map_of d k of None \<Rightarrow> None | Some v \<Rightarrow> Some (case v of JObj x \<Rightarrow> JObj (f k x) | _ \<Rightarrow> v))"
  by (induction d) (auto simp: each_dict_def split: json.split)

lemma each_dict_jset: "each_dict f (jset k v d) = jset k (case v of JObj x \<Rightarrow> JObj (f k x) | _ \<Rightarrow> v) (each_dict f d)"
  by (induction d) (auto simp: each_dict_def)

lemma each_dict_idem: "(\<And>k x. f k (f k x) = f k x) \<Longrightarrow> each_dict f (each_dict f d) = each_dict f d"
  by (induction d) (auto simp: each_dict_def split: json.split)

subsection \<open>Responses and operations\<close>

text \<open>A response as the contract documents it.\<close>

definition documented :: "json_object \<Rightarrow> bool" where
  "documented r \<longleftrightarrow> (\<exists>h. map_of r ''headers'' = Some h \<and> (\<forall>x. h = JObj x \<longrightarrow> map_of x ''X-Request-ID'' \<noteq> None))
     \<and> (\<forall>c. map_of r ''content'' = Some (JObj c) \<longrightarrow> \<not> is_problem_schema (map_of c ''application/json''))"

lemma is_problem_schema_None [simp]: "\<not> is_problem_schema None"
  by (simp add: is_problem_schema_def)

lemma inject_request_id_header_keys:
  "k \<noteq> ''headers'' \<Longrightarrow> map_of (inject_request_id_header r) k = map_of r k"
  by (simp add: inject_request_id_header_def)

lemma normalize_problem_media_type_keys:
  "k \<noteq> ''content'' \<Longrightarrow> map_of (normalize_problem_media_type r) k = map_of r k"
  by (simp add: normalize_problem_media_type_def)

lemma documented_normalize: "documented (normalize_response r)"
proof -
  define s where "s = normalize_problem_media_type r"
  have "\<not> is_problem_schema (map_of c ''application/json'')" if "map_of s ''content'' = Some (JObj c)" for c
    using that by (auto simp: s_def normalize_problem_media_type_def map_of_at_dict Let_def split: option.splits json.splits if_splits)
  moreover have "\<exists>h. map_of (inject_request_id_header s) ''headers'' = Some h
      \<and> (\<forall>x. h = JObj x \<longrightarrow> map_of x ''X-Request-ID'' \<noteq> None)"
    by (auto simp: inject_request_id_header_def map_of_at_dict split: option.split json.split)
  ultimately show ?thesis
    by (simp add: documented_def normalize_response_def s_def inject_request_id_header_keys)
qed

lemma media_fixed:
  assumes "\<And>c. map_of r ''content'' = Some (JObj c) \<Longrightarrow> \<not> is_problem_schema (map_of c ''application/json'')"
  shows "normalize_problem_media_type r = r"
  unfolding normalize_problem_media_type_def by (rule at_dict_id) (simp add: assms Let_def)

lemma header_fixed:
  assumes "map_of r ''headers'' = Some h" "\<forall>x. h = JObj x \<longrightarrow> map_of x ''X-Request-ID'' \<noteq> None"
  shows "inject_request_id_header r = r"
proof -
  have "setdefault ''headers'' (JObj []) r = r" using assms(1) by (simp add: setdefault_present)
  moreover have "at_dict ''headers'' (setdefault ''X-Request-ID'' REQUEST_ID_HEADER) r = r"
    by (rule at_dict_id) (use assms in \<open>auto simp: setdefault_present\<close>)
  ultimately show ?thesis by (simp add: inject_request_id_header_def)
qed

lemma normalize_documented: "documented r \<Longrightarrow> normalize_response r = r"
  using media_fixed[of r] header_fixed[of r] by (auto simp: documented_def normalize_response_def)

lemma normalize_response_idem [simp]: "normalize_response (normalize_response r) = normalize_response r"
  by (rule normalize_documented[OF documented_normalize])

abbreviation responses_norm :: "json_object \<Rightarrow> json_object" where
  "responses_norm \<equiv> each_dict (\<lambda>_. normalize_response)"

definition replace_422 :: "json_object \<Rightarrow> json_object" where
  "replace_422 responses = (if map_of responses ''422'' \<noteq> None
     then jset ''422'' (problem_response_document ''Request validation failed'') responses else responses)"

lemma replace_validation_eq: "replace_validation_response = at_dict ''responses'' replace_422"
  by (simp add: replace_validation_response_def replace_422_def[abs_def] fun_eq_iff)

lemma responses_norm_present: "map_of (responses_norm d) k = None \<longleftrightarrow> map_of d k = None"
  by (auto simp: map_of_each_dict split: option.split)

lemma replace_norm_replace:
  "responses_norm (replace_422 (responses_norm (replace_422 d))) = responses_norm (replace_422 d)"
proof (cases "map_of d ''422'' = None")
  case True
  then have "map_of (responses_norm d) ''422'' = None" by (simp only: responses_norm_present)
  then show ?thesis using True by (simp add: replace_422_def each_dict_idem)
next
  case False
  obtain x where x: "problem_response_document ''Request validation failed'' = JObj x"
    by (simp add: problem_response_document_def)
  let ?d = "jset ''422'' (JObj x) d"
  have d: "replace_422 d = ?d" using False by (simp add: replace_422_def x)
  have "map_of (responses_norm ?d) ''422'' \<noteq> None" by (simp only: responses_norm_present) simp
  then have "replace_422 (responses_norm ?d) = jset ''422'' (JObj x) (responses_norm ?d)" by (simp add: replace_422_def x)
  also have "\<dots> = jset ''422'' (JObj x) (responses_norm d)" by (simp add: each_dict_jset)
  finally show ?thesis unfolding d by (simp add: each_dict_jset each_dict_idem)
qed

lemma replace_500: "map_of (replace_422 d) ''500'' = map_of d ''500''"
  by (simp add: replace_422_def)

lemma normalize_operation_eq:
  "normalize_operation path op =
    (if starts_with ''/v1/'' path
     then at_dict ''responses'' (\<lambda>r. responses_norm (setdefault ''500'' (problem_response_document ''Internal server error'') (replace_422 r)))
            (setdefault ''responses'' (JObj []) op)
     else at_dict ''responses'' (\<lambda>r. responses_norm (replace_422 r)) op)"
proof -
  have "setdefault ''responses'' (JObj []) (at_dict ''responses'' replace_422 op)
      = at_dict ''responses'' replace_422 (setdefault ''responses'' (JObj []) op)"
  proof (cases "map_of op ''responses''")
    case None
    then have "at_dict ''responses'' replace_422 (setdefault ''responses'' (JObj []) op) = setdefault ''responses'' (JObj []) op"
      by (intro at_dict_id) (simp add: replace_422_def)
    then show ?thesis using None by (simp add: at_dict_absent)
  next
    case (Some v)
    then show ?thesis by (cases v) (simp_all add: setdefault_present map_of_at_dict)
  qed
  then show ?thesis
    by (simp add: normalize_operation_def inject_internal_error_def replace_validation_eq at_dict_at_dict comp_def)
qed

lemma responses_step_idem:
  defines "doc \<equiv> problem_response_document ''Internal server error''"
  shows "responses_norm (setdefault ''500'' doc (replace_422 (responses_norm (setdefault ''500'' doc (replace_422 r))))) =
    responses_norm (setdefault ''500'' doc (replace_422 r))"
proof -
  define s where "s = setdefault ''500'' doc (replace_422 r)"
  have com: "replace_422 s = s"
  proof (cases "map_of r ''422'' = None")
    case True
    then show ?thesis by (simp add: s_def replace_422_def)
  next
    case False
    then have "map_of s ''422'' = Some (problem_response_document ''Request validation failed'')"
      by (simp add: s_def replace_422_def)
    then show ?thesis by (simp add: replace_422_def jset_same)
  qed
  have "map_of (responses_norm s) ''500'' \<noteq> None" by (simp only: responses_norm_present) (simp add: s_def)
  then have "setdefault ''500'' doc (replace_422 (responses_norm s)) = replace_422 (responses_norm s)"
    by (intro setdefault_present) (simp add: replace_500)
  then show ?thesis using replace_norm_replace[of s] com unfolding s_def by simp
qed

lemma normalize_operation_idem [simp]: "normalize_operation path (normalize_operation path op) = normalize_operation path op"
proof (cases "starts_with ''/v1/'' path")
  case True
  have pres: "map_of (at_dict ''responses'' f (setdefault ''responses'' (JObj []) op)) ''responses'' \<noteq> None" for f
    by (auto simp: map_of_at_dict split: option.split json.split)
  show ?thesis unfolding normalize_operation_eq using True
    by (simp add: setdefault_present[OF pres] at_dict_at_dict comp_def responses_step_idem)
qed (simp add: normalize_operation_eq at_dict_at_dict comp_def replace_norm_replace)

lemma normalize_path_item_idem [simp]: "normalize_path_item path (normalize_path_item path i) = normalize_path_item path i"
  unfolding normalize_path_item_def by (rule each_dict_idem) simp

subsection \<open>References\<close>

lemma contains_ref_mono:
  assumes "contains_ref (JObj d') r"
    and "map_of d' ''$ref'' = Some (JStr r) \<Longrightarrow> map_of d ''$ref'' = Some (JStr r)"
    and "\<And>k v. (k, v) \<in> set d' \<Longrightarrow> contains_ref v r \<Longrightarrow> (k, v) \<in> set d \<or> contains_ref (JObj d) r"
  shows "contains_ref (JObj d) r"
proof (cases "map_of d' ''$ref'' = Some (JStr r)")
  case True
  then show ?thesis using assms(2) by simp
next
  case False
  then obtain k v where "(k, v) \<in> set d'" "contains_ref v r" using assms(1) by auto
  then show ?thesis using assms(3)[of k v] by (metis contains_ref.simps(1) snd_conv)
qed

lemma contains_ref_item: "(k, v) \<in> set d \<Longrightarrow> contains_ref v r \<Longrightarrow> contains_ref (JObj d) r"
  by force

lemma contains_ref_at: "map_of d k = Some v \<Longrightarrow> contains_ref v r \<Longrightarrow> contains_ref (JObj d) r"
  by (rule contains_ref_item[OF map_of_SomeD])

lemma set_jset: "set (jset k v d) \<subseteq> insert (k, v) (set d)"
proof (induction d)
  case (Cons a d)
  then show ?case by (cases a) (auto split: if_splits)
qed simp

lemma contains_ref_jset:
  assumes "contains_ref (JObj (jset k v d)) r" "k \<noteq> ''$ref''" "contains_ref v r \<Longrightarrow> contains_ref (JObj d) r"
  shows "contains_ref (JObj d) r"
  using assms(1)
proof (rule contains_ref_mono)
  show "map_of (jset k v d) ''$ref'' = Some (JStr r) \<Longrightarrow> map_of d ''$ref'' = Some (JStr r)" using assms(2) by simp
  fix k' v' assume "(k', v') \<in> set (jset k v d)" "contains_ref v' r"
  then show "(k', v') \<in> set d \<or> contains_ref (JObj d) r" using set_jset[of k v d] assms(3) by blast
qed

lemma contains_ref_jdel: "contains_ref (JObj (jdel k d)) r \<Longrightarrow> contains_ref (JObj d) r"
proof (erule contains_ref_mono)
  show "map_of (jdel k d) ''$ref'' = Some (JStr r) \<Longrightarrow> map_of d ''$ref'' = Some (JStr r)" by (simp split: if_splits)
qed (simp add: jdel_def)

lemma contains_ref_setdefault:
  assumes "contains_ref (JObj (setdefault k v d)) r" "k \<noteq> ''$ref''" "\<not> contains_ref v r"
  shows "contains_ref (JObj d) r"
  using assms contains_ref_jset[of k v d r] by (simp add: setdefault_def split: option.splits)

lemma contains_ref_at_dict:
  assumes "contains_ref (JObj (at_dict k f d)) r" "k \<noteq> ''$ref''"
    and "\<And>x. map_of d k = Some (JObj x) \<Longrightarrow> contains_ref (JObj (f x)) r \<Longrightarrow> contains_ref (JObj x) r"
  shows "contains_ref (JObj d) r"
proof (cases "\<exists>x. map_of d k = Some (JObj x)")
  case True
  then obtain x where x: "map_of d k = Some (JObj x)" by blast
  have "contains_ref (JObj (jset k (JObj (f x)) d)) r" using assms(1) x by (simp add: at_dict_def)
  then show ?thesis
    by (rule contains_ref_jset[OF _ assms(2)]) (rule contains_ref_at[OF x assms(3)[OF x]])
next
  case False
  then have "at_dict k f d = d" by (intro at_dict_id) blast
  then show ?thesis using assms(1) by simp
qed

lemma contains_ref_each_dict:
  assumes "contains_ref (JObj (each_dict f d)) r"
    and "\<And>k x. contains_ref (JObj (f k x)) r \<Longrightarrow> contains_ref (JObj x) r"
  shows "contains_ref (JObj d) r"
  using assms(1)
proof (rule contains_ref_mono)
  show "map_of (each_dict f d) ''$ref'' = Some (JStr r) \<Longrightarrow> map_of d ''$ref'' = Some (JStr r)"
    by (auto simp: map_of_each_dict split: option.splits json.splits)
  fix k v assume kv: "(k, v) \<in> set (each_dict f d)" and c: "contains_ref v r"
  obtain w where w: "(k, w) \<in> set d" "v = (case w of JObj x \<Rightarrow> JObj (f k x) | _ \<Rightarrow> w)"
    using kv by (auto simp: each_dict_def)
  have "contains_ref w r"
  proof (cases "\<exists>x. w = JObj x")
    case True
    then obtain x where "w = JObj x" by blast
    then show ?thesis using assms(2)[of k x] c w(2) by simp
  next
    case False
    then have "v = w" using w(2) by (cases w) simp_all
    then show ?thesis using c by simp
  qed
  then show "(k, v) \<in> set d \<or> contains_ref (JObj d) r" using contains_ref_item[OF w(1)] by blast
qed

text \<open>The normalisation of the operations refers to no schema but the problem document.\<close>

lemma contains_ref_problem_response [simp]:
  "contains_ref (problem_response_document t) r \<longleftrightarrow> r = PROBLEM_SCHEMA_REF"
  by (auto simp: problem_response_document_def)

lemma contains_ref_request_id [simp]: "\<not> contains_ref REQUEST_ID_HEADER r"
  by (simp add: REQUEST_ID_HEADER_def)

lemma contains_ref_normalize_response:
  assumes "contains_ref (JObj (normalize_response d)) r"
  shows "contains_ref (JObj d) r"
proof -
  have "contains_ref (JObj (setdefault ''headers'' (JObj []) (normalize_problem_media_type d))) r"
    using assms unfolding normalize_response_def inject_request_id_header_def
    by (rule contains_ref_at_dict) (simp, erule contains_ref_setdefault, simp_all)
  then have "contains_ref (JObj (normalize_problem_media_type d)) r"
    by (rule contains_ref_setdefault) simp_all
  then show ?thesis unfolding normalize_problem_media_type_def
  proof (rule contains_ref_at_dict)
    fix c assume c: "contains_ref (JObj (let application_json = map_of c ''application/json'' in
     if \<not> is_problem_schema application_json then c
     else jdel ''application/json'' (jset ''application/problem+json'' (the application_json) c))) r"
    show "contains_ref (JObj c) r"
    proof (cases "is_problem_schema (map_of c ''application/json'')")
      case True
      then obtain v where v: "map_of c ''application/json'' = Some v"
        by (cases "map_of c ''application/json''") simp_all
      have "contains_ref (JObj (jset ''application/problem+json'' v c)) r"
        using c True v by (simp add: Let_def contains_ref_jdel del: contains_ref.simps)
      then show ?thesis by (rule contains_ref_jset) (simp, rule contains_ref_at[OF v])
    qed (use c in simp)
  qed simp
qed

lemma contains_ref_normalize_operation:
  assumes "contains_ref (JObj (normalize_operation path d)) r" "r \<noteq> PROBLEM_SCHEMA_REF"
  shows "contains_ref (JObj d) r"
proof -
  have r422: "contains_ref (JObj x) r" if "contains_ref (JObj (replace_422 x)) r" for x
    using that contains_ref_jset[of "''422''" "problem_response_document ''Request validation failed''" x r] assms(2)
    by (simp add: replace_422_def split: if_splits del: contains_ref.simps)
  have "contains_ref (JObj (inject_internal_error path (replace_validation_response d))) r"
    using assms(1) unfolding normalize_operation_def
    by (rule contains_ref_at_dict) (simp, erule contains_ref_each_dict, erule contains_ref_normalize_response)
  then have "contains_ref (JObj (replace_validation_response d)) r"
  proof (cases "starts_with ''/v1/'' path")
    case True
    assume "contains_ref (JObj (inject_internal_error path (replace_validation_response d))) r"
    then have "contains_ref (JObj (at_dict ''responses'' (setdefault ''500'' (problem_response_document ''Internal server error''))
        (setdefault ''responses'' (JObj []) (replace_validation_response d)))) r"
      using True by (simp add: inject_internal_error_def del: contains_ref.simps)
    then have "contains_ref (JObj (setdefault ''responses'' (JObj []) (replace_validation_response d))) r"
      by (rule contains_ref_at_dict) (simp, erule contains_ref_setdefault, simp_all add: assms(2))
    then show ?thesis by (rule contains_ref_setdefault) simp_all
  qed (simp add: inject_internal_error_def)
  then show ?thesis unfolding replace_validation_eq by (rule contains_ref_at_dict) (simp, erule r422)
qed

lemma contains_ref_normalize_path_item:
  "contains_ref (JObj (normalize_path_item path d)) r \<Longrightarrow> r \<noteq> PROBLEM_SCHEMA_REF \<Longrightarrow> contains_ref (JObj d) r"
  unfolding normalize_path_item_def
  by (erule contains_ref_each_dict) (simp split: if_splits del: contains_ref.simps add: contains_ref_normalize_operation)

definition normalize_paths :: "json_object \<Rightarrow> json_object" where
  "normalize_paths = at_dict ''paths'' (each_dict normalize_path_item)"

lemma contains_ref_normalize_paths:
  assumes "contains_ref (JObj (normalize_paths d)) r" "r \<noteq> PROBLEM_SCHEMA_REF"
  shows "contains_ref (JObj d) r"
  using assms(1) unfolding normalize_paths_def
  by (rule contains_ref_at_dict) (simp, erule contains_ref_each_dict, erule contains_ref_normalize_path_item, rule assms(2))

subsection \<open>Pruning\<close>

lemma at_schemas_at_schemas: "at_schemas f (at_schemas g s) = at_schemas (\<lambda>x. f (g x)) s"
  by (simp add: at_schemas_def at_dict_at_dict comp_def)

lemma schemas_of_at [simp]: "schemas_of (at_schemas f s) = map_option f (schemas_of s)"
  by (auto simp: schemas_of_def at_schemas_def map_of_at_dict split: option.splits json.splits)

lemma at_schemas_other [simp]: "k \<noteq> ''components'' \<Longrightarrow> map_of (at_schemas f s) k = map_of s k"
  by (simp add: at_schemas_def)

lemma contains_ref_at_schemas:
  assumes "contains_ref (JObj (at_schemas f s)) r"
    and "\<And>x. schemas_of s = Some x \<Longrightarrow> contains_ref (JObj (f x)) r \<Longrightarrow> contains_ref (JObj x) r"
  shows "contains_ref (JObj s) r"
  using assms(1) unfolding at_schemas_def
proof (rule contains_ref_at_dict)
  fix c assume c: "map_of s ''components'' = Some (JObj c)" "contains_ref (JObj (at_dict ''schemas'' f c)) r"
  show "contains_ref (JObj c) r"
    using c(2) by (rule contains_ref_at_dict) (simp, rule assms(2), simp_all add: schemas_of_def c(1) del: contains_ref.simps)
qed simp

text \<open>One round: the schema is put back, at the end, when the rest refers to it.\<close>

lemma prune_schema_cases:
  assumes "schemas_of s = Some x"
  obtains (kept) c where "map_of x n = Some c" "c \<noteq> JNull" "contains_ref (JObj (at_schemas (jdel n) s)) (schema_ref n)"
      "prune_schema n s = at_schemas (\<lambda>x. jset n c (jdel n x)) s"
  | (dropped) "prune_schema n s = at_schemas (jdel n) s"
      "map_of x n = None \<or> map_of x n = Some JNull \<or> \<not> contains_ref (JObj (at_schemas (jdel n) s)) (schema_ref n)"
proof (cases "map_of x n")
  case None
  then show ?thesis using assms dropped by (simp add: prune_schema_def Let_def)
next
  case (Some c)
  show ?thesis
  proof (cases "c \<noteq> JNull \<and> contains_ref (JObj (at_schemas (jdel n) s)) (schema_ref n)")
    case True
    then have "prune_schema n s = at_schemas (\<lambda>x. jset n c (jdel n x)) s"
      using assms Some by (simp add: prune_schema_def Let_def at_schemas_at_schemas del: contains_ref.simps)
    then show ?thesis using kept[OF Some] True by blast
  next
    case False
    then have "prune_schema n s = at_schemas (jdel n) s"
      using assms Some by (auto simp: prune_schema_def Let_def simp del: contains_ref.simps)
    then show ?thesis using dropped False Some by blast
  qed
qed

lemma contains_ref_prune_schema:
  assumes "contains_ref (JObj (prune_schema n s)) r" "schemas_of s = Some x" "n \<noteq> ''$ref''"
  shows "contains_ref (JObj s) r"
  using assms(2)
proof (cases rule: prune_schema_cases[where n = n])
  case (kept c)
  have "contains_ref (JObj (at_schemas (\<lambda>x. jset n c (jdel n x)) s)) r" using assms(1) kept(4) by simp
  then show ?thesis
  proof (rule contains_ref_at_schemas)
    fix y assume y: "schemas_of s = Some y" "contains_ref (JObj (jset n c (jdel n y))) r"
    have c: "map_of y n = Some c" using y(1) assms(2) kept(1) by simp
    show "contains_ref (JObj y) r"
    proof (cases "contains_ref c r")
      case True
      then show ?thesis using contains_ref_at[OF c] by blast
    next
      case False
      then have "contains_ref (JObj (jdel n y)) r" using contains_ref_jset[OF y(2) assms(3)] by blast
      then show ?thesis by (rule contains_ref_jdel)
    qed
  qed
next
  case dropped
  have "contains_ref (JObj (at_schemas (jdel n) s)) r" using assms(1) dropped(1) by simp
  then show ?thesis by (rule contains_ref_at_schemas) (rule contains_ref_jdel)
qed

text \<open>A schema is only missing when nothing refers to it.\<close>

definition resolved :: "string \<Rightarrow> json_object \<Rightarrow> bool" where
  "resolved n s \<longleftrightarrow> (case schemas_of s of
     None \<Rightarrow> False
   | Some x \<Rightarrow> map_of x n \<noteq> Some JNull \<and> (contains_ref (JObj s) (schema_ref n) \<longrightarrow> map_of x n \<noteq> None))"

lemma prune_schema_other:
  assumes "schemas_of s = Some x" "n' \<noteq> n"
  shows "\<exists>y. schemas_of (prune_schema n s) = Some y \<and> map_of y n' = map_of x n'"
  using assms(1) by (cases rule: prune_schema_cases[where n = n]) (use assms in auto)

lemma resolved_prune:
  assumes "resolved n s" "n' \<noteq> ''$ref''"
  shows "resolved n (prune_schema n' s)"
proof -
  obtain x where x: "schemas_of s = Some x" "map_of x n \<noteq> Some JNull" "contains_ref (JObj s) (schema_ref n) \<Longrightarrow> map_of x n \<noteq> None"
    using assms(1) by (auto simp: resolved_def simp del: contains_ref.simps split: option.splits)
  have mono: "contains_ref (JObj (prune_schema n' s)) (schema_ref n) \<Longrightarrow> contains_ref (JObj s) (schema_ref n)"
    by (rule contains_ref_prune_schema[OF _ x(1) assms(2)])
  show ?thesis
  proof (cases "n = n'")
    case False
    then obtain y where "schemas_of (prune_schema n' s) = Some y" "map_of y n = map_of x n"
      using prune_schema_other[OF x(1) False] by blast
    then show ?thesis using x mono by (simp add: resolved_def del: contains_ref.simps)
  next
    case True
    from x(1) show ?thesis
    proof (cases rule: prune_schema_cases[where n = n'])
      case (kept c)
      then show ?thesis using x True by (simp add: resolved_def del: contains_ref.simps)
    next
      case dropped
      then have "\<not> contains_ref (JObj (prune_schema n' s)) (schema_ref n')"
        using x(2,3) mono True dropped(1) by (metis (no_types))
      then show ?thesis using x(1) True dropped(1) by (simp add: resolved_def del: contains_ref.simps)
    qed
  qed
qed

subsection \<open>The normalised contract\<close>

lemma normalize_openapi_eq:
  "map_of schema ''paths'' = Some (JObj paths) \<Longrightarrow>
    normalize_openapi_contract schema = prune_schema ''ValidationError'' (prune_schema ''HTTPValidationError'' (normalize_paths schema))"
  by (simp add: normalize_openapi_contract_def prune_unreferenced_fastapi_validation_schemas_def
      FASTAPI_VALIDATION_SCHEMAS_def normalize_paths_def)

lemma prune_schema_keys: "k \<noteq> ''components'' \<Longrightarrow> map_of (prune_schema n s) k = map_of s k"
  by (simp add: prune_schema_def Let_def del: contains_ref.simps split: option.split)

lemma normalize_paths_schemas [simp]: "schemas_of (normalize_paths s) = schemas_of s"
  by (simp add: normalize_paths_def schemas_of_def)

lemma normalized_operation:
  assumes "map_of schema ''paths'' = Some (JObj paths)" "map_of paths path = Some (JObj item)"
    "map_of item verb = Some (JObj operation)" "verb \<in> set HTTP_METHODS"
  obtains paths' item' where "map_of (normalize_openapi_contract schema) ''paths'' = Some (JObj paths')"
    "map_of paths' path = Some (JObj item')" "map_of item' verb = Some (JObj (normalize_operation path operation))"
proof
  show "map_of (normalize_openapi_contract schema) ''paths'' = Some (JObj (each_dict normalize_path_item paths))"
    using assms(1) by (simp add: normalize_openapi_eq prune_schema_keys normalize_paths_def map_of_at_dict)
  show "map_of (each_dict normalize_path_item paths) path = Some (JObj (normalize_path_item path item))"
    using assms(2) by (simp add: map_of_each_dict)
  show "map_of (normalize_path_item path item) verb = Some (JObj (normalize_operation path operation))"
    using assms(3,4) by (simp add: normalize_path_item_def map_of_each_dict)
qed

text \<open>What a client of the contract finds under an operation.\<close>

definition responses_documented :: "json_object \<Rightarrow> bool" where
  "responses_documented responses \<longleftrightarrow> list_all (\<lambda>(_, v). case v of JObj r \<Rightarrow> documented r | _ \<Rightarrow> True) responses"

lemma responses_norm_documented: "responses_documented (responses_norm rs)"
  by (induction rs) (auto simp: responses_documented_def each_dict_def documented_normalize split: json.split)

lemma map_of_responses_norm_dict: "map_of rs k = Some (JObj x) \<Longrightarrow> map_of (responses_norm rs) k = Some (JObj (normalize_response x))"
  by (simp add: map_of_each_dict)

lemma normalize_operation_responses:
  assumes "starts_with ''/v1/'' path" "map_of op ''responses'' = None \<or> map_of op ''responses'' = Some (JObj rs)"
  obtains rs' where "map_of (normalize_operation path op) ''responses'' = Some (JObj rs')"
    "responses_documented rs'" "map_of rs' ''500'' \<noteq> None"
    "map_of op ''responses'' = Some (JObj rs) \<and> map_of rs ''422'' \<noteq> None \<Longrightarrow> \<exists>x. map_of rs' ''422'' = Some (JObj x)
       \<and> map_of x ''description'' = Some (JStr ''Request validation failed'')"
proof -
  let ?doc = "problem_response_document ''Internal server error''"
  define q where "q = (if map_of op ''responses'' = None then [] else rs)"
  let ?r = "setdefault ''500'' ?doc (replace_422 q)"
  have "map_of (setdefault ''responses'' (JObj []) op) ''responses'' = Some (JObj q)"
    using assms(2) by (auto simp: q_def)
  then have op: "map_of (normalize_operation path op) ''responses'' = Some (JObj (responses_norm ?r))"
    using assms(1) by (simp add: normalize_operation_eq map_of_at_dict)
  have pres: "map_of (responses_norm ?r) ''500'' \<noteq> None"
    by (simp only: responses_norm_present) simp
  have v: "\<exists>x. map_of (responses_norm ?r) ''422'' = Some (JObj x) \<and> map_of x ''description'' = Some (JStr ''Request validation failed'')"
    if "map_of op ''responses'' = Some (JObj rs) \<and> map_of rs ''422'' \<noteq> None"
  proof -
    obtain y where y: "problem_response_document ''Request validation failed'' = JObj y"
        "map_of y ''description'' = Some (JStr ''Request validation failed'')"
      by (simp add: problem_response_document_def)
    have "map_of ?r ''422'' = Some (JObj y)" using that by (simp add: q_def replace_422_def y(1))
    then show ?thesis using y(2)
      by (simp add: map_of_responses_norm_dict normalize_response_def inject_request_id_header_keys normalize_problem_media_type_keys)
  qed
  show ?thesis using that[OF op responses_norm_documented pres v] .
qed


lemma prune_schema_sub:
  assumes "schemas_of s = Some x"
  obtains y where "schemas_of (prune_schema n s) = Some y" "\<And>k. map_of y k = None \<or> map_of y k = map_of x k"
  using assms by (cases rule: prune_schema_cases[where n = n]) (use assms in \<open>auto split: if_splits\<close>)

lemma jdel_jset [simp]: "jdel k (jset k v d) = jdel k d"
  by (induction d) (auto simp: jdel_def)

lemma jdel_jdel [simp]: "jdel k (jdel k d) = jdel k d"
  by (simp add: jdel_def)

lemma kept_referenced:
  assumes "schemas_of s = Some x" "schemas_of (prune_schema n s) = Some y" "map_of y n \<noteq> None"
  shows "contains_ref (JObj (at_schemas (jdel n) (prune_schema n s))) (schema_ref n)"
  using assms(1)
proof (cases rule: prune_schema_cases[where n = n])
  case (kept c)
  then show ?thesis by (simp add: at_schemas_at_schemas del: contains_ref.simps)
next
  case dropped
  then show ?thesis using assms by auto
qed

lemma schema_ref_not_problem: "n \<in> set FASTAPI_VALIDATION_SCHEMAS \<Longrightarrow> schema_ref n \<noteq> PROBLEM_SCHEMA_REF"
  by (auto simp: FASTAPI_VALIDATION_SCHEMAS_def schema_ref_def PROBLEM_SCHEMA_REF_def)

text \<open>Pruning never leaves a reference hanging: if the generated document defines a framework validation schema (not
  as null) or does not refer to it, then so does the published one, with the definition unchanged; and a published
  \<open>ValidationError\<close> is one the rest of the document refers to.\<close>

theorem openapi_references_resolve:
  assumes "map_of schema ''paths'' = Some (JObj paths)" "schemas_of schema = Some schemas" "n \<in> set FASTAPI_VALIDATION_SCHEMAS"
    "map_of schemas n \<noteq> Some JNull" "contains_ref (JObj schema) (schema_ref n) \<Longrightarrow> map_of schemas n \<noteq> None"
  shows "\<exists>schemas'. schemas_of (normalize_openapi_contract schema) = Some schemas'
    \<and> (contains_ref (JObj (normalize_openapi_contract schema)) (schema_ref n) \<longrightarrow>
        map_of schemas' n \<noteq> None \<and> map_of schemas' n = map_of schemas n)
    \<and> (map_of schemas' ''ValidationError'' \<noteq> None \<longrightarrow>
        contains_ref (JObj (at_schemas (jdel ''ValidationError'') (normalize_openapi_contract schema))) (schema_ref ''ValidationError''))"
proof -
  let ?H = "''HTTPValidationError''" and ?V = "''ValidationError''"
  define s where "s = normalize_paths schema"
  have s: "schemas_of s = Some schemas" by (simp add: s_def assms(2))
  have eq: "normalize_openapi_contract schema = prune_schema ?V (prune_schema ?H s)"
    by (simp only: normalize_openapi_eq[OF assms(1)] s_def)
  have "contains_ref (JObj s) (schema_ref n) \<Longrightarrow> map_of schemas n \<noteq> None"
    using contains_ref_normalize_paths[OF _ schema_ref_not_problem[OF assms(3)]] assms(5) unfolding s_def by blast
  then have "resolved n s" using assms(4) by (simp add: resolved_def s del: contains_ref.simps)
  then have res: "resolved n (normalize_openapi_contract schema)"
    unfolding eq by (intro resolved_prune) simp_all
  obtain x where x: "schemas_of (prune_schema ?H s) = Some x" "\<And>k. map_of x k = None \<or> map_of x k = map_of schemas k"
    by (rule prune_schema_sub[OF s, where n = ?H]) blast
  obtain y where y: "schemas_of (prune_schema ?V (prune_schema ?H s)) = Some y" "\<And>k. map_of y k = None \<or> map_of y k = map_of x k"
    by (rule prune_schema_sub[OF x(1), where n = ?V]) blast
  have "map_of y n = None \<or> map_of y n = map_of schemas n" using x(2)[of n] y(2)[of n] by metis
  moreover have "contains_ref (JObj (normalize_openapi_contract schema)) (schema_ref n) \<Longrightarrow> map_of y n \<noteq> None"
    using res y(1) by (simp add: resolved_def eq del: contains_ref.simps)
  moreover have "map_of y ?V \<noteq> None \<Longrightarrow> contains_ref (JObj (at_schemas (jdel ?V) (normalize_openapi_contract schema))) (schema_ref ?V)"
    unfolding eq by (rule kept_referenced[OF x(1) y(1)])
  ultimately show ?thesis using y(1) unfolding eq by blast
qed

subsection \<open>Witnesses\<close>

text \<open>A document with one versioned operation whose 422 response refers to the framework's error schema.\<close>

definition sample_document :: json_object where
  "sample_document = [(''paths'', JObj [(''/v1/projects'', JObj [(''get'', JObj [(''responses'', JObj
      [(''401'', JObj [(''content'', JObj [(''application/json'', JObj [(''schema'', JObj [(''$ref'', JStr PROBLEM_SCHEMA_REF)])])])]),
       (''422'', JObj [(''content'', JObj [(''application/json'', JObj [(''schema'',
          JObj [(''$ref'', JStr (schema_ref ''HTTPValidationError''))])])])])])])])]),
     (''components'', JObj [(''schemas'', JObj [(''HTTPValidationError'', JObj [(''items'', JObj [(''$ref'', JStr (schema_ref ''ValidationError''))])]),
       (''ValidationError'', JObj [(''type'', JStr ''object'')])])])]"

definition sample_operation :: json_object where
  "sample_operation = (case map_of sample_document ''paths'' of Some (JObj p) \<Rightarrow>
     (case map_of p ''/v1/projects'' of Some (JObj i) \<Rightarrow> (case map_of i ''get'' of Some (JObj x) \<Rightarrow> x)))"


theorem openapi_references_resolve_witness:
  "\<exists>schemas'. schemas_of (normalize_openapi_contract sample_document) = Some schemas'"
proof -
  obtain paths schemas where d: "map_of sample_document ''paths'' = Some (JObj paths)" "schemas_of sample_document = Some schemas"
      "map_of schemas ''ValidationError'' \<noteq> Some JNull" "map_of schemas ''ValidationError'' \<noteq> None"
    by (simp add: sample_document_def schemas_of_def)
  have "''ValidationError'' \<in> set FASTAPI_VALIDATION_SCHEMAS" by code_simp
  then show ?thesis using openapi_references_resolve[OF d(1,2) _ d(3) d(4)] by blast
qed

lemma sample_document_published:
  "schemas_of (normalize_openapi_contract sample_document) = Some []"
  by code_simp

end
