(* ===== verification/Texts.thy ===== *)
theory Texts
  imports ConnectionProviders
begin

section \<open>Texts and paths\<close>

text \<open>
  What the repository's scripts use of \<open>str\<close> and \<open>pathlib\<close>: \<open>split\<close> on one character, \<open>join\<close>, the \<open>in\<close> of a
  substring, \<open>removeprefix\<close>, \<open>splitlines\<close> (on code points below 256), and a path as the tuple of its parts, whose
  first is the slash when it is absolute.
\<close>

subsection \<open>\<open>str\<close>\<close>

fun split_on :: "char \<Rightarrow> string \<Rightarrow> string list" where
  "split_on c [] = [[]]"
| "split_on c (x # xs) = (if x = c then [] # split_on c xs
     else (case split_on c xs of [] \<Rightarrow> [[x]] | p # ps \<Rightarrow> (x # p) # ps))"

fun join :: "string \<Rightarrow> string list \<Rightarrow> string" where
  "join sep [] = []"
| "join sep [x] = x"
| "join sep (x # y # xs) = x @ sep @ join sep (y # xs)"

fun contains_text :: "string \<Rightarrow> string \<Rightarrow> bool" where
  "contains_text p [] = (p = [])"
| "contains_text p (c # cs) = (starts_with p (c # cs) \<or> contains_text p cs)"

definition removeprefix :: "string \<Rightarrow> string \<Rightarrow> string" where
  "removeprefix p s = (if starts_with p s then drop (length p) s else s)"

definition ends_with :: "string \<Rightarrow> string \<Rightarrow> bool" where
  "ends_with p s \<longleftrightarrow> starts_with (rev p) (rev s)"

definition lstrip :: "string \<Rightarrow> string" where
  "lstrip = dropWhile is_space"

definition line_break :: "char \<Rightarrow> bool" where
  "line_break c \<longleftrightarrow> code c \<in> {10, 11, 12, 13, 28, 29, 30, 133}"

text \<open>What is left after a line: a carriage return takes the line feed after it along.\<close>

fun after_break :: "string \<Rightarrow> string" where
  "after_break [] = []"
| "after_break (c # cs) = (if code c = 13 \<and> cs \<noteq> [] \<and> code (hd cs) = 10 then tl cs else cs)"

lemma length_after_break: "s \<noteq> [] \<Longrightarrow> length (after_break (dropWhile P s)) < length s"
proof -
  assume "s \<noteq> []"
  moreover have "length (after_break t) \<le> length t - 1" for t by (cases t) auto
  ultimately show ?thesis using length_dropWhile_le[of P s] by (metis length_greater_0_conv le_less_trans diff_less less_one
        diff_le_self less_le_trans order_le_less le_trans diff_le_mono)
qed

function splitlines :: "string \<Rightarrow> string list" where
  "splitlines s = (if s = [] then []
     else takeWhile (\<lambda>c. \<not> line_break c) s # splitlines (after_break (dropWhile (\<lambda>c. \<not> line_break c) s)))"
  by pat_completeness auto

termination splitlines
  by (relation "measure length") (auto simp: length_after_break)

declare splitlines.simps [simp del]

lemma splitlines_Nil [simp]: "splitlines [] = []"
  by (simp add: splitlines.simps)

lemma splitlines_no_break: "l \<in> set (splitlines s) \<Longrightarrow> c \<in> set l \<Longrightarrow> \<not> line_break c"
proof (induction s rule: splitlines.induct)
  case (1 s)
  show ?case
  proof (cases "s = []")
    case False
    then show ?thesis using 1 by (subst (asm) splitlines.simps) (auto dest: set_takeWhileD)
  qed (use 1 in simp)
qed

subsection \<open>Laws\<close>

lemma starts_with_iff: "starts_with p s \<longleftrightarrow> (\<exists>t. s = p @ t)"
  unfolding starts_with_def by (metis append_eq_conv_conj append_take_drop_id)

lemma contains_text_iff: "contains_text p s \<longleftrightarrow> (\<exists>a b. s = a @ p @ b)"
proof (induction s)
  case (Cons c cs)
  have "contains_text p (c # cs) \<longleftrightarrow> (\<exists>b. c # cs = p @ b) \<or> (\<exists>a b. cs = a @ p @ b)"
    using Cons by (simp add: starts_with_iff)
  also have "\<dots> \<longleftrightarrow> (\<exists>a b. c # cs = a @ p @ b)" by (metis append_Cons append_Nil list.exhaust list.inject)
  finally show ?case .
qed auto

lemma split_on_not_Nil [simp]: "split_on c s \<noteq> []"
  by (induction s) (auto split: list.split)

lemma join_split_on: "join [c] (split_on c s) = s"
proof (induction s)
  case (Cons x xs)
  then show ?case by (cases "split_on c xs"; cases "tl (split_on c xs)") auto
qed simp

lemma split_on_no_sep: "p \<in> set (split_on c s) \<Longrightarrow> c \<notin> set p"
  by (induction s arbitrary: p) (auto split: list.splits if_splits)

lemma rpartition_last:
  "c \<in> set s \<Longrightarrow> \<exists>a b. str_rpartition c s = (a, True, b) \<and> s = a @ c # b \<and> c \<notin> set b"
proof -
  assume c: "c \<in> set s"
  obtain a b where s: "s = a @ c # b" "c \<notin> set b" using split_list_last[OF c] by blast
  have "takeWhile (\<lambda>x. x \<noteq> c) (rev b @ c # rev a) = rev b"
    using s(2) by (subst takeWhile_append2) auto
  then show ?thesis using s(2) by (intro exI[of _ a] exI[of _ b]) (simp add: str_rpartition_def s(1) Let_def)
qed

lemma map_res_ok: "map_res f xs = Inr ys \<Longrightarrow> (\<forall>x \<in> set xs. \<exists>y \<in> set ys. f x = Inr y) \<and> (\<forall>y \<in> set ys. \<exists>x \<in> set xs. f x = Inr y)"
proof (induction xs arbitrary: ys)
  case (Cons x xs)
  then obtain y zs where "f x = Inr y" "map_res f xs = Inr zs" "ys = y # zs" by (auto simp: bind_res_eq_Inr)
  then show ?case using Cons.IH by fastforce
qed simp

subsection \<open>\<open>pathlib\<close>\<close>

text \<open>\<open>suffix\<close> and \<open>stem\<close> as CPython 3.13 has them: the last dot, unless it is the first or the last character.\<close>

type_synonym path = "string list"

definition path_name :: "path \<Rightarrow> string" where
  "path_name p = (if p = [] \<or> p = [''/''] then [] else last p)"

definition has_suffix :: "string \<Rightarrow> bool" where
  "has_suffix name = (let (pre, dot, post) = str_rpartition (CHR ''.'') name in dot \<and> pre \<noteq> [] \<and> post \<noteq> [])"

definition path_suffix :: "path \<Rightarrow> string" where
  "path_suffix p = (if has_suffix (path_name p) then CHR ''.'' # snd (snd (str_rpartition (CHR ''.'') (path_name p))) else [])"

definition path_stem :: "path \<Rightarrow> string" where
  "path_stem p = (if has_suffix (path_name p) then fst (str_rpartition (CHR ''.'') (path_name p)) else path_name p)"

definition path_str :: "path \<Rightarrow> string" where
  "path_str p = (case p of [] \<Rightarrow> ''.'' | r # ps \<Rightarrow> if r = ''/'' then ''/'' @ join ''/'' ps else join ''/'' p)"

definition relative_to :: "path \<Rightarrow> path \<Rightarrow> exn + path" where
  "relative_to p root = (if take (length root) p = root then Inr (drop (length root) p)
     else Inl (ValueError (path_str p @ '' is not in the subpath of '' @ path_str root)))"

lemma relative_to_below [simp]: "relative_to (root @ p) root = Inr p"
  by (simp add: relative_to_def)

subsection \<open>\<open>subprocess\<close>\<close>

text \<open>A captured process.\<close>

record CompletedProcess =
  cp_returncode :: int
  cp_stdout :: string
  cp_stderr :: string

subsection \<open>Effects\<close>

text \<open>A call on a machine of state \<open>'w\<close> that may raise an \<open>'e\<close>: what it has done stays done.\<close>

type_synonym ('e, 'w, 'a) io = "'w \<Rightarrow> ('e + 'a) \<times> 'w"

definition io_return :: "'a \<Rightarrow> ('e, 'w, 'a) io" where "io_return a w = (Inr a, w)"

definition io_raise :: "'e \<Rightarrow> ('e, 'w, 'a) io" where "io_raise e w = (Inl e, w)"

definition io_lift :: "'e + 'a \<Rightarrow> ('e, 'w, 'a) io" where "io_lift r w = (r, w)"

definition io_bind :: "('e, 'w, 'a) io \<Rightarrow> ('a \<Rightarrow> ('e, 'w, 'b) io) \<Rightarrow> ('e, 'w, 'b) io" where
  "io_bind m f w = (case m w of (Inl e, w') \<Rightarrow> (Inl e, w') | (Inr a, w') \<Rightarrow> f a w')"

text \<open>\<open>try ... except\<close> and \<open>try ... finally\<close>: an exception of the last block is the one that is raised.\<close>

definition io_catch :: "('e, 'w, 'a) io \<Rightarrow> ('e \<Rightarrow> ('e, 'w, 'a) io) \<Rightarrow> ('e, 'w, 'a) io" where
  "io_catch m handler w = (case m w of (Inl e, w') \<Rightarrow> handler e w' | (Inr a, w') \<Rightarrow> (Inr a, w'))"

definition io_finally :: "('e, 'w, 'a) io \<Rightarrow> ('e, 'w, unit) io \<Rightarrow> ('e, 'w, 'a) io" where
  "io_finally m last_block w = (case m w of (r, w') \<Rightarrow>
     (case last_block w' of (Inl e, w'') \<Rightarrow> (Inl e, w'') | (Inr _, w'') \<Rightarrow> (r, w'')))"

lemma io_simps [simp]:
  "io_return a w = (Inr a, w)" "io_raise e w = (Inl e, w)" "io_lift r w = (r, w)"
  by (simp_all add: io_return_def io_raise_def io_lift_def)

lemma io_bind_step: "m w = (Inr a, w') \<Longrightarrow> io_bind m f w = f a w'" "m w = (Inl e, w') \<Longrightarrow> io_bind m f w = (Inl e, w')"
  by (simp_all add: io_bind_def)

lemma io_bind_return: "snd (io_bind m (\<lambda>_. io_return b) w) = snd (m w)"
  by (simp add: io_bind_def split: prod.split sum.split)

lemma io_finally_last: "snd (io_finally m last_block w) = snd (last_block (snd (m w)))"
  by (simp add: io_finally_def split: prod.split sum.split)

lemma io_bind_eq_Inr: "io_bind m f w = (Inr b, w'') \<longleftrightarrow> (\<exists>a w'. m w = (Inr a, w') \<and> f a w' = (Inr b, w''))"
  by (auto simp: io_bind_def split: prod.splits sum.splits)

end
