(* ===== verification/OperatorScripts.thy ===== *)
theory OperatorScripts
  imports OpenApi Texts
begin

section \<open>Scripts of the operators\<close>

text \<open>
  \<open>scripts/db/verify_baseline_snapshot.py\<close>, \<open>scripts/db/bootstrap_roles.py\<close> and \<open>scripts/api/export_openapi.py\<close>. Files
  are read and written by calls on a machine of state \<open>'w\<close> that may raise; \<open>json.dumps\<close>, SQLAlchemy's engine and what
  FastAPI generates are parameters.
\<close>

subsection \<open>Snapshots\<close>

definition rstrip :: "string \<Rightarrow> string" where
  "rstrip s = rev (dropWhile is_space (rev s))"

definition transaction_control :: "string \<Rightarrow> bool" where
  "transaction_control line \<longleftrightarrow> strip line \<in> {''BEGIN;'', ''COMMIT;''}"

definition schema_without_transaction_control :: "string \<Rightarrow> string" where
  "schema_without_transaction_control s =
     (let lines = filter (\<lambda>line. \<not> transaction_control line) (splitlines s) in rstrip (join [CHR 0x0A] lines) @ [CHR 0x0A])"

record Snapshots =
  sn_baseline_schema :: string
  sn_migration_schema :: string
  sn_baseline_roles :: string
  sn_migration_roles :: string
  sn_current_roles :: string
  sn_application_roles :: string

definition verify :: "Snapshots \<Rightarrow> string list" where
  "verify sn =
     (if sn_migration_schema sn \<noteq> schema_without_transaction_control (sn_baseline_schema sn)
      then [''0001 schema migration drifted from retained V2.1 schema baseline''] else [])
   @ (if sn_migration_roles sn \<noteq> sn_baseline_roles sn
      then [''0001 role bootstrap drifted from retained V2.1 role baseline''] else [])
   @ (if sn_application_roles sn \<noteq> sn_current_roles sn
      then [''deployable application role bootstrap drifted from docs/security/database-roles.sql''] else [])"

text \<open>What is printed, and the exit status.\<close>

definition snapshots_main :: "Snapshots \<Rightarrow> string list \<times> int" where
  "snapshots_main sn = (let violations = verify sn in
     if violations \<noteq> [] then (violations, 1)
     else ([''immutable V2.1 snapshots and current application roles are consistent''], 0))"

subsection \<open>Roles\<close>

text \<open>\<open>rh_begin engine block\<close> is \<open>with engine.begin() as connection\<close>: a transaction around the block.\<close>

record ('e, 'w, 'g, 'c) RolesHost =
  rh_migration_database_url :: "('e, 'w, string) io"
  rh_create_engine :: "string \<Rightarrow> ('e, 'w, 'g) io"
  rh_read_roles :: "('e, 'w, string) io"
  rh_begin :: "'g \<Rightarrow> ('c \<Rightarrow> ('e, 'w, unit) io) \<Rightarrow> ('e, 'w, unit) io"
  rh_exec_driver_sql :: "'c \<Rightarrow> string \<Rightarrow> ('e, 'w, unit) io"
  rh_dispose :: "'g \<Rightarrow> ('e, 'w, unit) io"

definition roles_main :: "('e, 'w, 'g, 'c) RolesHost \<Rightarrow> ('e, 'w, string list \<times> int) io" where
  "roles_main host = io_bind (rh_migration_database_url host) (\<lambda>url. io_bind (rh_create_engine host url) (\<lambda>engine.
     io_bind
       (io_finally
          (io_bind (rh_read_roles host) (\<lambda>sql. rh_begin host engine (\<lambda>connection. rh_exec_driver_sql host connection sql)))
          (rh_dispose host engine))
       (\<lambda>_. io_return ([''database application roles/grants applied''], 0))))"

subsection \<open>The OpenAPI file\<close>

record ('e, 'w) Files =
  fi_exists :: "path \<Rightarrow> 'w \<Rightarrow> bool"
  fi_read_text :: "path \<Rightarrow> ('e, 'w, string) io"
  fi_write_text :: "path \<Rightarrow> string \<Rightarrow> ('e, 'w, unit) io"
  fi_make_parents :: "path \<Rightarrow> ('e, 'w, unit) io"
  fi_replace :: "path \<Rightarrow> path \<Rightarrow> ('e, 'w, unit) io"

text \<open>A new application has no document yet, so \<open>openapi\<close> normalises what FastAPI generates.\<close>

definition render_openapi :: "(json_object \<Rightarrow> string) \<Rightarrow> json_object \<Rightarrow> string" where
  "render_openapi json_dumps generated = json_dumps (fst (openapi None generated)) @ [CHR 0x0A]"

definition temporary_for :: "path \<Rightarrow> path" where
  "temporary_for output = butlast output @ [path_stem output @ path_suffix output @ ''.tmp'']"

definition write_openapi :: "('e, 'w) Files \<Rightarrow> string \<Rightarrow> path \<Rightarrow> ('e, 'w, unit) io" where
  "write_openapi files rendered output = io_bind (fi_make_parents files output) (\<lambda>_.
     io_bind (fi_write_text files (temporary_for output) rendered) (\<lambda>_. fi_replace files (temporary_for output) output))"

definition check_openapi :: "('e, 'w) Files \<Rightarrow> string \<Rightarrow> path \<Rightarrow> ('e, 'w, bool) io" where
  "check_openapi files rendered output w =
     (if \<not> fi_exists files output w then io_return False w
      else io_bind (fi_read_text files output) (\<lambda>committed. io_return (committed = rendered)) w)"

definition export_main :: "('e, 'w) Files \<Rightarrow> string \<Rightarrow> bool \<Rightarrow> path \<Rightarrow> ('e, 'w, string list \<times> int) io" where
  "export_main files rendered check output =
     (if check then io_bind (check_openapi files rendered output) (\<lambda>current.
        if \<not> current then io_return ([''OpenAPI drift detected: '' @ path_str output], 1)
        else io_return ([''OpenAPI is current: '' @ path_str output], 0))
      else io_bind (write_openapi files rendered output)
        (\<lambda>_. io_return ([''OpenAPI written: '' @ path_str output], 0)))"

subsection \<open>A migration that passes holds no transaction control\<close>

lemma rstrip_append: "rstrip (a @ b) = (if list_all is_space b then rstrip a else a @ rstrip b)"
  by (auto simp: rstrip_def list_all_iff dropWhile_append)

lemma strip_rstrip: "strip (rstrip s) = strip s"
proof (induction s rule: rev_induct)
  case (snoc c s)
  show ?case
  proof (cases "is_space c")
    case True
    then have "strip (s @ [c]) = strip s" by (auto simp: strip_def dropWhile_append dropWhile_eq_Nil_conv[THEN iffD2])
    then show ?thesis using snoc True by (simp add: rstrip_append)
  next
    case False
    then show ?thesis by (simp add: rstrip_append rstrip_def)
  qed
qed (simp add: rstrip_def)

lemma splitlines_first:
  assumes "\<And>c. c \<in> set l \<Longrightarrow> \<not> line_break c"
  shows "splitlines (l @ CHR 0x0A # s) = l # splitlines s"
proof -
  have "takeWhile (\<lambda>c. \<not> line_break c) (l @ CHR 0x0A # s) = l" "dropWhile (\<lambda>c. \<not> line_break c) (l @ CHR 0x0A # s) = CHR 0x0A # s"
    using assms by (simp_all add: takeWhile_append dropWhile_append line_break_def)
  then show ?thesis by (simp add: splitlines.simps[of "l @ CHR 0x0A # s"])
qed

lemma join_Cons: "join sep (x # xs) = (if xs = [] then x else x @ sep @ join sep xs)"
  by (cases xs) simp_all

text \<open>The lines of the result are the lines that were kept, but for white space at the end, and an empty one perhaps.\<close>

lemma splitlines_rstrip_join:
  assumes "\<And>l c. l \<in> set ls \<Longrightarrow> c \<in> set l \<Longrightarrow> \<not> line_break c" "line \<in> set (splitlines (rstrip (join [CHR 0x0A] ls) @ [CHR 0x0A]))"
  shows "strip line \<in> insert [] (strip ` set ls)"
  using assms
proof (induction ls)
  case Nil
  then show ?case using splitlines_first[of "[]" "[]"] by (simp add: rstrip_def strip_def)
next
  case (Cons x xs)
  let ?J = "join [CHR 0x0A] xs"
  have nb: "\<not> line_break c" if "c \<in> set (rstrip x)" for c
    using that Cons.prems(1)[of x] by (auto simp: rstrip_def dest: set_dropWhileD)
  show ?case
  proof (cases "xs = [] \<or> list_all is_space ?J")
    case True
    then have "rstrip (join [CHR 0x0A] (x # xs)) = rstrip x"
      using rstrip_append[of x "CHR 0x0A # ?J"] by (auto simp: join_Cons is_space_def)
    then have "line = rstrip x" using Cons.prems(2) splitlines_first[of "rstrip x" "[]", OF nb] by simp
    then show ?thesis by (simp add: strip_rstrip)
  next
    case False
    then have "rstrip (join [CHR 0x0A] (x # xs)) = x @ CHR 0x0A # rstrip ?J"
      using rstrip_append[of x "CHR 0x0A # ?J"] rstrip_append[of "[CHR 0x0A]" ?J] by (simp add: join_Cons)
    moreover have "splitlines (x @ CHR 0x0A # rstrip ?J @ [CHR 0x0A]) = x # splitlines (rstrip ?J @ [CHR 0x0A])"
      by (rule splitlines_first) (use Cons.prems(1) in auto)
    ultimately have "line = x \<or> line \<in> set (splitlines (rstrip ?J @ [CHR 0x0A]))" using Cons.prems(2) by simp
    then show ?thesis using Cons.IH Cons.prems(1) by auto
  qed
qed

lemma migration_without_transaction_control:
  assumes "verify sn = []" "line \<in> set (splitlines (sn_migration_schema sn))"
  shows "\<not> transaction_control line"
proof -
  let ?ls = "filter (\<lambda>line. \<not> transaction_control line) (splitlines (sn_baseline_schema sn))"
  have "sn_migration_schema sn = rstrip (join [CHR 0x0A] ?ls) @ [CHR 0x0A]"
    using assms(1) by (auto simp: verify_def schema_without_transaction_control_def Let_def split: if_splits)
  then have "strip line \<in> insert [] (strip ` set ?ls)"
    using splitlines_rstrip_join[of ?ls line] assms(2) splitlines_no_break by (metis (no_types, lifting) filter_is_subset subset_code(1))
  then show ?thesis by (auto simp: transaction_control_def)
qed

lemma snapshots_pass: "snd (snapshots_main sn) = 0 \<longleftrightarrow> verify sn = []"
  by (simp add: snapshots_main_def Let_def)

subsection \<open>Writing and checking the OpenAPI file\<close>

text \<open>
  A file system as \<open>pathlib\<close> documents it: what is written is read back, and a replacement moves the file.
\<close>

definition map_files :: "(exn, path \<rightharpoonup> string) Files" where
  "map_files = \<lparr>fi_exists = (\<lambda>p fs. fs p \<noteq> None),
     fi_read_text = (\<lambda>p fs. case fs p of None \<Rightarrow> (Inl (OSError (path_str p)), fs) | Some s \<Rightarrow> (Inr s, fs)),
     fi_write_text = (\<lambda>p s fs. (Inr (), fs(p \<mapsto> s))), fi_make_parents = (\<lambda>p fs. (Inr (), fs)),
     fi_replace = (\<lambda>p q fs. (Inr (), fs(q := fs p, p := None)))\<rparr>"

lemma temporary_differs: "output \<noteq> [] \<Longrightarrow> output \<noteq> [''/''] \<Longrightarrow> temporary_for output \<noteq> output"
proof
  assume o: "output \<noteq> []" "output \<noteq> [''/'']" and eq: "temporary_for output = output"
  have "last output = path_stem output @ path_suffix output @ ''.tmp''"
    using arg_cong[OF eq, of last] by (simp add: temporary_for_def)
  moreover have "path_stem output @ path_suffix output = last output"
    using o rpartition_last[of "CHR ''.''" "last output"]
    by (cases "CHR ''.'' \<in> set (last output)")
      (auto simp: path_stem_def path_suffix_def path_name_def has_suffix_def str_rpartition_def)
  ultimately show False by (metis append_assoc append_self_conv list.distinct(1))
qed

lemma written_openapi_is_current:
  assumes "output \<noteq> []" "output \<noteq> [''/'']"
  obtains fs' where "write_openapi map_files rendered output fs = (Inr (), fs')"
    "check_openapi map_files rendered output fs' = (Inr True, fs')" "\<And>p. p \<noteq> output \<Longrightarrow> p \<noteq> temporary_for output \<Longrightarrow> fs' p = fs p"
  using temporary_differs[OF assms]
  by (simp add: write_openapi_def check_openapi_def map_files_def io_bind_def fun_upd_twist)

text \<open>Until the replacement the file keeps its contents.\<close>

lemma interrupted_write_keeps_file:
  assumes "output \<noteq> []" "output \<noteq> [''/'']" "fi_write_text map_files (temporary_for output) rendered fs = (r, fs')"
  shows "fs' output = fs output"
  using assms temporary_differs[OF assms(1,2)] by (auto simp: map_files_def)

text \<open>The engine is disposed of as the last thing, whatever the block did.\<close>

lemma roles_engine_disposed:
  assumes "rh_migration_database_url host w = (Inr url, v)" "rh_create_engine host url v = (Inr engine, v1)"
  obtains v2 where "snd (roles_main host w) = snd (rh_dispose host engine v2)"
  using assms by (simp add: roles_main_def io_bind_step(1) io_bind_return io_finally_last)

end
