(* ===== verification/ActionPins.thy ===== *)
theory ActionPins
  imports Texts "HOL-Library.List_Lexorder" "HOL-Library.Char_ord"
begin

section \<open>Pinned GitHub Actions\<close>

text \<open>
  \<open>scripts/check_github_actions_pins.py\<close>. The file tree below the repository root is a list of entries: the parts of
  the path, whether it is a regular file, and what \<open>read_text\<close> returns or raises. \<open>USES_PATTERN\<close> has one way to match
  a line at most: \<open>uses_value\<close> is its scan from the left, and \<open>uses_value_iff\<close> shows that it finds exactly the lines the
  pattern describes, with the longest value.
\<close>

record Entry =
  en_path :: path
  en_is_file :: bool
  en_text :: "exn + string"

subsection \<open>The patterns\<close>

definition value_char :: "char \<Rightarrow> bool" where
  "value_char c \<longleftrightarrow> c \<notin> {CHR 0x22, CHR 0x27, CHR ''#''} \<and> \<not> is_space c"

definition skip_dash :: "string \<Rightarrow> string" where
  "skip_dash s = (if starts_with ''-'' s then dropWhile is_space (drop 1 s) else s)"

definition skip_quote :: "string \<Rightarrow> string" where
  "skip_quote s = (case s of c # cs \<Rightarrow> if c \<in> {CHR 0x22, CHR 0x27} then cs else s | [] \<Rightarrow> [])"

definition uses_value :: "string \<Rightarrow> string option" where
  "uses_value line =
     (let s = skip_dash (dropWhile is_space line) in
      if \<not> starts_with ''uses:'' s then None
      else (let value = takeWhile value_char (skip_quote (dropWhile is_space (drop 5 s))) in
            if value = [] then None else Some value))"

definition full_sha :: "string \<Rightarrow> bool" where
  "full_sha ref \<longleftrightarrow> length ref = 40
     \<and> list_all (\<lambda>c. is_ascii_digit c \<or> 97 \<le> code c \<and> code c \<le> 102) ref"

subsection \<open>The code\<close>

definition iter_workflow_files :: "Entry list \<Rightarrow> Entry list" where
  "iter_workflow_files tree =
     (let workflow_root = [''.github'', ''workflows''] in
      if \<not> (\<exists>e \<in> set tree. take 2 (en_path e) = workflow_root) then []
      else sort_key en_path (filter (\<lambda>e. take 2 (en_path e) = workflow_root \<and> 2 < length (en_path e)
             \<and> en_is_file e \<and> path_suffix (en_path e) \<in> {''.yml'', ''.yaml''}) tree))"

text \<open>The message for one value, when it is not pinned.\<close>

definition unpinned :: "string \<Rightarrow> string option" where
  "unpinned value =
     (if starts_with ''./'' value then None
      else if starts_with ''docker://'' value then
        (if \<not> contains_text ''@sha256:'' (removeprefix ''docker://'' value)
         then Some (''container action must use a sha256 digest ('' @ value @ '')'') else None)
      else if CHR ''@'' \<notin> set value then Some (''action reference is missing @<sha> ('' @ value @ '')'')
      else (let (_, _, ref) = str_rpartition (CHR ''@'') value in
            if \<not> full_sha ref
            then Some (''action must be pinned to a full 40-character commit SHA ('' @ value @ '')'') else None))"

definition line_violations :: "path \<Rightarrow> nat \<times> string \<Rightarrow> string list" where
  "line_violations workflow numbered = (case uses_value (snd numbered) of
     None \<Rightarrow> []
   | Some value \<Rightarrow> (case unpinned value of
       None \<Rightarrow> []
     | Some message \<Rightarrow> [path_str workflow @ '':'' @ nat_str (fst numbered) @ '': '' @ message]))"

definition file_violations :: "Entry \<Rightarrow> exn + string list" where
  "file_violations workflow = bind_res (en_text workflow) (\<lambda>text.
     Inr (concat (map (line_violations (en_path workflow)) (enumerate 1 (splitlines text)))))"

definition find_unpinned_actions :: "Entry list \<Rightarrow> exn + string list" where
  "find_unpinned_actions tree = bind_res (map_res file_violations (iter_workflow_files tree)) (\<lambda>vs. Inr (concat vs))"

text \<open>What \<open>main\<close> prints, and its exit status.\<close>

definition pins_main :: "Entry list \<Rightarrow> exn + string list \<times> int" where
  "pins_main tree = bind_res (find_unpinned_actions tree) (\<lambda>violations.
     Inr (if violations \<noteq> []
          then (violations @ [''GitHub Actions pin check failed: '' @ nat_str (length violations) @ '' violation(s)''], 1)
          else ([], 0)))"

subsection \<open>The scan and the pattern\<close>

definition uses_line :: "string \<Rightarrow> string \<Rightarrow> bool" where
  "uses_line line value \<longleftrightarrow> (\<exists>ws dash ws' ws'' quote rest.
     line = ws @ dash @ ws' @ ''uses:'' @ ws'' @ quote @ value @ rest
     \<and> list_all is_space (ws @ ws' @ ws'') \<and> dash \<in> {[], ''-''} \<and> quote \<in> {[], [CHR 0x22], [CHR 0x27]}
     \<and> value \<noteq> [] \<and> list_all value_char value \<and> (rest = [] \<or> \<not> value_char (hd rest)))"

lemma uses_lineI:
  "line = ws @ dash @ ws' @ ''uses:'' @ ws'' @ quote @ value @ rest \<Longrightarrow> list_all is_space (ws @ ws' @ ws'')
    \<Longrightarrow> dash \<in> {[], ''-''} \<Longrightarrow> quote \<in> {[], [CHR 0x22], [CHR 0x27]} \<Longrightarrow> value \<noteq> [] \<Longrightarrow> list_all value_char value
    \<Longrightarrow> rest = [] \<or> \<not> value_char (hd rest) \<Longrightarrow> uses_line line value"
  unfolding uses_line_def
  by (rule exI[of _ ws], rule exI[of _ dash], rule exI[of _ ws'], rule exI[of _ ws''], rule exI[of _ quote],
      rule exI[of _ rest], intro conjI)

lemma dropWhile_space: "list_all is_space ws \<Longrightarrow> s = [] \<or> \<not> is_space (hd s) \<Longrightarrow> dropWhile is_space (ws @ s) = s"
  by (cases s; induction ws) auto

lemma takeWhile_value: "list_all P v \<Longrightarrow> r = [] \<or> \<not> P (hd r) \<Longrightarrow> takeWhile P (v @ r) = v"
  by (induction v) (auto simp: takeWhile_eq_Nil_iff)

lemma spaces: "\<not> is_space (CHR ''-'')" "\<not> is_space (CHR ''u'')" "\<not> is_space (CHR 0x22)" "\<not> is_space (CHR 0x27)"
  "value_char c \<Longrightarrow> \<not> is_space c" "\<not> value_char (CHR 0x22)" "\<not> value_char (CHR 0x27)"
  by (simp_all add: is_space_def value_char_def)

lemma split_spaces: obtains ws where "s = ws @ dropWhile is_space s" "list_all is_space ws"
  using takeWhile_dropWhile_id[of is_space s] by (metis list_all_iff set_takeWhileD)

theorem uses_value_iff: "uses_value line = Some value \<longleftrightarrow> uses_line line value"
proof
  assume v: "uses_value line = Some value"
  define s where "s = skip_dash (dropWhile is_space line)"
  define t where "t = dropWhile is_space (drop 5 s)"
  have u: "starts_with ''uses:'' s" and val: "value = takeWhile value_char (skip_quote t)" and ne: "value \<noteq> []"
    using v by (auto simp: uses_value_def Let_def s_def t_def split: if_splits)
  obtain ws where ws: "line = ws @ dropWhile is_space line" "list_all is_space ws" by (rule split_spaces)
  obtain dash ws' where d: "dropWhile is_space line = dash @ ws' @ s" "dash \<in> {[], ''-''}" "list_all is_space ws'"
  proof (cases "starts_with ''-'' (dropWhile is_space line)")
    case True
    then obtain r where r: "dropWhile is_space line = ''-'' @ r" by (auto simp: starts_with_iff)
    obtain ws' where "r = ws' @ dropWhile is_space r" "list_all is_space ws'" by (rule split_spaces)
    moreover have "s = dropWhile is_space r" using r by (simp add: s_def skip_dash_def starts_with_def)
    ultimately show ?thesis using that[of "''-''" ws'] r by simp
  next
    case False
    then show ?thesis using that[of "[]" "[]"] by (simp add: s_def skip_dash_def)
  qed
  have s: "s = ''uses:'' @ drop 5 s" using u by (auto simp: starts_with_iff)
  obtain ws'' where w: "drop 5 s = ws'' @ t" "list_all is_space ws''" unfolding t_def by (rule split_spaces)
  obtain quote where q: "t = quote @ skip_quote t" "quote \<in> {[], [CHR 0x22], [CHR 0x27]}"
  proof (cases "skip_quote t = t")
    case True
    then show ?thesis using that[of "[]"] by simp
  next
    case False
    then show ?thesis using that by (auto simp: skip_quote_def split: list.splits if_splits)
  qed
  have "skip_quote t = value @ dropWhile value_char (skip_quote t)"
    unfolding val by (rule takeWhile_dropWhile_id[symmetric])
  moreover have "list_all value_char value" unfolding val by (auto simp: list_all_iff dest: set_takeWhileD)
  moreover have "dropWhile value_char (skip_quote t) = [] \<or> \<not> value_char (hd (dropWhile value_char (skip_quote t)))"
    using hd_dropWhile by blast
  moreover have "line = ws @ dash @ ws' @ ''uses:'' @ ws'' @ quote @ value @ dropWhile value_char (skip_quote t)"
    unfolding calculation(1)[symmetric] q(1)[symmetric] w(1)[symmetric] s[symmetric] d(1)[symmetric] by (rule ws(1))
  moreover have "list_all is_space (ws @ ws' @ ws'')" using ws(2) d(3) w(2) by simp
  ultimately show "uses_line line value"
    using uses_lineI d(2) q(2) ne by metis
next
  assume "uses_line line value"
  then obtain ws dash ws' ws'' quote rest where
    l: "line = ws @ dash @ ws' @ ''uses:'' @ ws'' @ quote @ value @ rest"
    and sp: "list_all is_space ws" "list_all is_space ws'" "list_all is_space ws''"
    and d: "dash \<in> {[], ''-''}" and q: "quote \<in> {[], [CHR 0x22], [CHR 0x27]}"
    and v: "value \<noteq> []" "list_all value_char value" "rest = [] \<or> \<not> value_char (hd rest)"
    unfolding uses_line_def list_all_append by (elim exE conjE) (rule that)
  let ?u = "''uses:'' @ ws'' @ quote @ value @ rest"
  have hv: "value_char (hd value)" using v(1,2) by (cases "value") auto
  have s: "skip_dash (dropWhile is_space line) = ?u"
  proof (cases "dash = []")
    case True
    have "dropWhile is_space ((ws @ ws') @ ?u) = ?u"
      by (rule dropWhile_space) (use sp in \<open>simp_all add: spaces\<close>)
    then show ?thesis by (simp add: l True skip_dash_def starts_with_def)
  next
    case False
    then have "dropWhile is_space line = ''-'' @ ws' @ ?u"
      using d dropWhile_space[OF sp(1), of "''-'' @ ws' @ ?u"] by (simp add: l spaces)
    then show ?thesis
      using dropWhile_space[OF sp(2), of ?u] by (simp add: skip_dash_def starts_with_def spaces)
  qed
  have t: "dropWhile is_space (drop 5 ?u) = quote @ value @ rest"
    using dropWhile_space[OF sp(3), of "quote @ value @ rest"] q v(1) hv spaces by (cases "value") auto
  have k: "skip_quote (quote @ value @ rest) = value @ rest"
    using q v(1) hv spaces(6,7) by (cases "value") (auto simp: skip_quote_def)
  show "uses_value line = Some value"
    unfolding uses_value_def Let_def s t k takeWhile_value[OF v(2,3)] using v(1) by (simp add: starts_with_def)
qed

subsection \<open>What a passing check guarantees\<close>

text \<open>Local to the checkout, an image with a digest marker, or a commit.\<close>

definition pinned :: "string \<Rightarrow> bool" where
  "pinned value \<longleftrightarrow> (\<exists>p. value = ''./'' @ p)
     \<or> (\<exists>image digest. value = ''docker://'' @ image @ ''@sha256:'' @ digest)
     \<or> (\<exists>action sha. value = action @ ''@'' @ sha \<and> full_sha sha \<and> \<not> starts_with ''docker://'' value)"

definition workflow_file :: "Entry \<Rightarrow> bool" where
  "workflow_file e \<longleftrightarrow> en_is_file e \<and> path_suffix (en_path e) \<in> {''.yml'', ''.yaml''}
     \<and> (\<exists>p. p \<noteq> [] \<and> en_path e = ''.github'' # ''workflows'' # p)"

lemma full_sha_no_at: "full_sha r \<Longrightarrow> CHR ''@'' \<notin> set r"
  by (auto simp: full_sha_def list_all_iff is_ascii_digit_def)

lemma last_at_unique: "a @ c # b = a' @ c # b' \<Longrightarrow> c \<notin> set b \<Longrightarrow> c \<notin> set b' \<Longrightarrow> b = b'"
proof -
  assume eq: "a @ c # b = a' @ c # b'" and n: "c \<notin> set b" "c \<notin> set b'"
  have t: "takeWhile (\<lambda>x. x \<noteq> c) (rev (a @ c # b)) = rev b" if "c \<notin> set b" for a b
    using takeWhile_value[of "\<lambda>x. x \<noteq> c" "rev b" "c # rev a"] that by (auto simp: list_all_iff)
  show ?thesis using t[OF n(1), of a] t[OF n(2), of a'] eq by simp
qed

lemma unpinned_iff: "unpinned value = None \<longleftrightarrow> pinned value"
proof -
  have loc: "starts_with ''./'' value \<longleftrightarrow> (\<exists>p. value = ''./'' @ p)" by (rule starts_with_iff)
  have doc: "contains_text ''@sha256:'' (removeprefix ''docker://'' value)
      \<longleftrightarrow> (\<exists>image digest. value = ''docker://'' @ image @ ''@sha256:'' @ digest)" if "starts_with ''docker://'' value"
  proof -
    obtain t where "value = ''docker://'' @ t" using \<open>starts_with ''docker://'' value\<close> by (auto simp: starts_with_iff)
    then show ?thesis by (simp add: contains_text_iff removeprefix_def starts_with_def)
  qed
  show ?thesis
  proof (cases "starts_with ''docker://'' value")
    case True
    then have "\<not> starts_with ''./'' value" by (auto simp: starts_with_iff)
    then show ?thesis using True doc[OF True] loc unfolding unpinned_def pinned_def by simp
  next
    case False
    then have nd: "\<not> (\<exists>image digest. value = ''docker://'' @ image @ ''@sha256:'' @ digest)" by (auto simp: starts_with_iff)
    show ?thesis
    proof (cases "CHR ''@'' \<in> set value")
      case True
      obtain a b where ab: "str_rpartition (CHR ''@'') value = (a, True, b)" "value = a @ CHR ''@'' # b" "CHR ''@'' \<notin> set b"
        using rpartition_last[OF True] by blast
      have "full_sha b \<longleftrightarrow> (\<exists>action sha. value = action @ ''@'' @ sha \<and> full_sha sha)"
        using ab(2,3) last_at_unique[of a "CHR ''@''" b] full_sha_no_at by (metis append_Cons append_Nil)
      then show ?thesis using True False nd loc ab(1) unfolding unpinned_def pinned_def by auto
    next
      case no: False
      then have "\<not> (\<exists>action sha. value = action @ ''@'' @ sha)" by auto
      then show ?thesis using no False nd loc unfolding unpinned_def pinned_def by auto
    qed
  qed
qed

lemma set_iter_workflow_files: "set (iter_workflow_files tree) = {e \<in> set tree. workflow_file e}"
proof -
  have w: "workflow_file e \<longleftrightarrow> take 2 (en_path e) = [''.github'', ''workflows''] \<and> 2 < length (en_path e)
      \<and> en_is_file e \<and> path_suffix (en_path e) \<in> {''.yml'', ''.yaml''}" for e
  proof -
    have "(\<exists>p. p \<noteq> [] \<and> en_path e = ''.github'' # ''workflows'' # p)
        \<longleftrightarrow> take 2 (en_path e) = [''.github'', ''workflows''] \<and> 2 < length (en_path e)"
      by (cases "en_path e"; cases "tl (en_path e)") (auto simp: neq_Nil_conv)
    then show ?thesis by (auto simp: workflow_file_def)
  qed
  show ?thesis by (auto simp: iter_workflow_files_def Let_def w)
qed

lemma line_violations_Nil: "line_violations w (n, line) = [] \<longleftrightarrow> (\<forall>value. uses_line line value \<longrightarrow> pinned value)"
  by (cases "uses_value line") (auto simp: line_violations_def unpinned_iff[symmetric] uses_value_iff[symmetric] split: option.split)

lemma file_violations_Nil: "file_violations e = Inr vs \<Longrightarrow>
    vs = [] \<longleftrightarrow> (\<forall>src line value. en_text e = Inr src \<longrightarrow> line \<in> set (splitlines src) \<longrightarrow> uses_line line value \<longrightarrow> pinned value)"
proof -
  assume f: "file_violations e = Inr vs"
  then obtain src where t: "en_text e = Inr src" "vs = concat (map (line_violations (en_path e)) (enumerate 1 (splitlines src)))"
    by (auto simp: file_violations_def bind_res_eq_Inr)
  have "vs = [] \<longleftrightarrow> (\<forall>nl \<in> set (enumerate 1 (splitlines src)). line_violations (en_path e) nl = [])"
    by (simp add: t(2) concat_eq_Nil_conv)
  also have "\<dots> \<longleftrightarrow> (\<forall>line \<in> set (splitlines src). line_violations (en_path e) (0, line) = [])"
  proof -
    have "line_violations (en_path e) nl = [] \<longleftrightarrow> line_violations (en_path e) (0, snd nl) = []" for nl
      by (cases nl) (simp add: line_violations_Nil)
    then have "(\<forall>nl \<in> set (enumerate 1 (splitlines src)). line_violations (en_path e) nl = [])
        \<longleftrightarrow> (\<forall>line \<in> snd ` set (enumerate 1 (splitlines src)). line_violations (en_path e) (0, line) = [])"
      by simp
    also have "snd ` set (enumerate 1 (splitlines src)) = set (splitlines src)"
      by (metis map_snd_enumerate set_map)
    finally show ?thesis .
  qed
  finally show ?thesis unfolding line_violations_Nil t(1) by blast
qed


text \<open>A workflow whose one action is pinned, and values the check accepts or does not see.\<close>

definition sample_workflow :: "Entry list" where
  "sample_workflow = [\<lparr>en_path = [''.github'', ''workflows'', ''ci.yml''], en_is_file = True,
     en_text = Inr ''jobs:\<newline>  - uses: actions/checkout@08c6903cd8c0fde910a37f88322edcfb5dd907a8 # v5\<newline>''\<rparr>]"


lemma empty_digest_accepted: "unpinned ''docker://alpine@sha256:'' = None"
  by code_simp

lemma flow_style_unseen: "uses_value ''  - {uses: actions/checkout@main}'' = None"
  by code_simp

end
