(* ===== verification/ImportBoundaries.thy ===== *)
theory ImportBoundaries
  imports Texts "HOL-Library.List_Lexorder" "HOL-Library.Char_ord"
begin

section \<open>Import boundaries\<close>

text \<open>
  \<open>scripts/check_python_boundaries.py\<close>. The syntax tree of a module is the list \<open>ast.walk\<close> yields, of which only the
  two import statements matter; reading a file and \<open>ast.parse\<close> are parameters, the file system is the list of its paths.
\<close>

subsection \<open>The data\<close>

datatype ast_node =
    Import nat "string list"
  | ImportFrom nat "string option" nat "string list"
  | OtherNode

text \<open>\<open>ImportFrom lineno module level names\<close>; \<open>lineno\<close> and the message of a \<open>SyntaxError\<close>.\<close>

record Sources =
  src_read_text :: "path \<Rightarrow> exn + string"
  src_parse :: "string \<Rightarrow> (nat option \<times> string) + ast_node list"

record Violation =
  v_path :: path
  v_line :: nat
  v_message :: string

definition PYTHON_SOURCE_ROOT_NAMES :: "string list" where
  "PYTHON_SOURCE_ROOT_NAMES = [''apps'', ''packages'', ''workers'']"

definition CONTROL_PACKAGE :: string where "CONTROL_PACKAGE = ''bff_control''"

definition FORBIDDEN_CORE_TARGETS :: "string list" where
  "FORBIDDEN_CORE_TARGETS = [''api'', ''domains'', ''infrastructure'']"

definition FORBIDDEN_DOMAIN_TARGETS :: "string list" where
  "FORBIDDEN_DOMAIN_TARGETS = [''api'']"

definition FORBIDDEN_CROSS_DOMAIN_MODULES :: "string list" where
  "FORBIDDEN_CROSS_DOMAIN_MODULES = [''models'', ''repository'']"

definition render :: "Violation \<Rightarrow> path \<Rightarrow> string" where
  "render v root =
     (let display_path = (case relative_to (v_path v) root of Inr p \<Rightarrow> p | Inl _ \<Rightarrow> v_path v)
      in path_str display_path @ '':'' @ nat_str (v_line v) @ '': '' @ v_message v)"

subsection \<open>Modules and targets\<close>

definition source_module_parts :: "path \<Rightarrow> string list option" where
  "source_module_parts path =
     (if CONTROL_PACKAGE \<notin> set path then None
      else (let module_parts = dropWhile (\<lambda>p. p \<noteq> CONTROL_PACKAGE) path in
            if module_parts = [] \<or> path_suffix path \<noteq> ''.py'' then None
            else Some (if path_name path = ''__init__.py'' then butlast module_parts
                       else module_parts[length module_parts - 1 := path_stem path])))"

definition resolve_import_from :: "path \<Rightarrow> string option \<Rightarrow> nat \<Rightarrow> string list option" where
  "resolve_import_from path module level =
     (let module_tail = (case module of None \<Rightarrow> [] | Some m \<Rightarrow> if m = [] then [] else split_on (CHR ''.'') m) in
      if level = 0 then Some module_tail
      else (case source_module_parts path of
        None \<Rightarrow> None
      | Some source_module \<Rightarrow>
          (let package_parts = (if path_name path = ''__init__.py'' then source_module else butlast source_module);
               parents_to_remove = level - 1
           in if parents_to_remove > length package_parts then None
              else Some (take (length package_parts - parents_to_remove) package_parts @ module_tail))))"

definition import_targets :: "path \<Rightarrow> ast_node \<Rightarrow> string list list" where
  "import_targets path node = (case node of
     Import _ names \<Rightarrow> map (split_on (CHR ''.'')) names
   | ImportFrom _ module level names \<Rightarrow>
       (case resolve_import_from path module level of
          None \<Rightarrow> []
        | Some base \<Rightarrow>
            if base = [] then []
            else sort (remdups (base # map (\<lambda>name. base @ split_on (CHR ''.'') name) (filter (\<lambda>name. name \<noteq> ''*'') names))))
   | OtherNode \<Rightarrow> [])"

definition layer_and_domain :: "string list \<Rightarrow> string option \<times> string option" where
  "layer_and_domain parts =
     (let layer = parts ! 1 in (Some layer, if layer = ''domains'' \<and> 3 \<le> length parts then Some (parts ! 2) else None))"

definition control_context :: "path \<Rightarrow> string option \<times> string option" where
  "control_context path = (case source_module_parts path of
     None \<Rightarrow> (None, None)
   | Some module_parts \<Rightarrow> if length module_parts < 2 then (None, None) else layer_and_domain module_parts)"

definition target_context :: "string list \<Rightarrow> string option \<times> string option" where
  "target_context parts =
     (if parts = [] \<or> hd parts \<noteq> CONTROL_PACKAGE \<or> length parts < 2 then (None, None) else layer_and_domain parts)"

definition target_message :: "path \<Rightarrow> string list \<Rightarrow> string option" where
  "target_message path parts =
     (let (source_layer, source_domain) = control_context path;
          (target_layer, target_domain) = target_context parts;
          rendered_target = join ''.'' parts
      in case target_layer of
           None \<Rightarrow> None
         | Some layer \<Rightarrow>
             if source_layer = Some ''core'' \<and> layer \<in> set FORBIDDEN_CORE_TARGETS
             then Some (''core modules must not import '' @ layer @ '': '' @ rendered_target)
             else if source_layer = Some ''domains'' \<and> layer \<in> set FORBIDDEN_DOMAIN_TARGETS
             then Some (''domain modules must not import '' @ layer @ '': '' @ rendered_target)
             else if source_layer \<noteq> Some ''domains'' \<or> source_domain = None \<or> layer \<noteq> ''domains''
                \<or> target_domain = None \<or> target_domain = source_domain
             then None
             else (case filter (\<lambda>m. m \<in> set (drop 3 parts)) FORBIDDEN_CROSS_DOMAIN_MODULES of
                 [] \<Rightarrow> None
               | forbidden_name # _ \<Rightarrow> Some (''cross-domain imports may not reach another domain'' @ [CHR 0x27]
                   @ ''s '' @ forbidden_name @ '' module: '' @ rendered_target)))"

definition node_line :: "ast_node \<Rightarrow> nat" where
  "node_line node = (case node of Import l _ \<Rightarrow> l | ImportFrom l _ _ _ \<Rightarrow> l | OtherNode \<Rightarrow> 0)"

definition check_import :: "path \<Rightarrow> ast_node \<Rightarrow> Violation list" where
  "check_import path node = concat (map (\<lambda>parts. case target_message path parts of
       None \<Rightarrow> []
     | Some message \<Rightarrow> [\<lparr>v_path = path, v_line = node_line node, v_message = message\<rparr>]) (import_targets path node))"

definition is_import :: "ast_node \<Rightarrow> bool" where
  "is_import node \<longleftrightarrow> (case node of OtherNode \<Rightarrow> False | _ \<Rightarrow> True)"

text \<open>Only \<open>OSError\<close> and \<open>SyntaxError\<close> are caught; a line of 0 or none is reported as line 1.\<close>

definition check_file :: "Sources \<Rightarrow> path \<Rightarrow> exn + Violation list" where
  "check_file sources path =
     (let unable = (\<lambda>line message. Inr [\<lparr>v_path = path, v_line = line, v_message = ''unable to parse Python source: '' @ message\<rparr>])
      in case src_read_text sources path of
           Inl (OSError message) \<Rightarrow> unable 1 message
         | Inl e \<Rightarrow> Inl e
         | Inr source \<Rightarrow> (case src_parse sources source of
             Inl (lineno, message) \<Rightarrow>
               unable (case lineno of None \<Rightarrow> 1 | Some n \<Rightarrow> if n = 0 then 1 else n) message
           | Inr tree \<Rightarrow> Inr (concat (map (check_import path) (filter is_import tree)))))"

subsection \<open>The repository\<close>

definition below :: "path \<Rightarrow> path \<Rightarrow> bool" where
  "below root path \<longleftrightarrow> take (length root) path = root \<and> length root < length path"

definition discover_python_files :: "path list \<Rightarrow> path \<Rightarrow> path list" where
  "discover_python_files files root = sort (concat (map (\<lambda>source_root_name.
     (let source_root = root @ [source_root_name] in
      if \<not> list_ex (\<lambda>p. p = source_root \<or> below source_root p) files then []
      else filter (\<lambda>p. below source_root p \<and> ends_with ''.py'' (last p)
             \<and> ''.venv'' \<notin> set p \<and> ''node_modules'' \<notin> set p) files)) PYTHON_SOURCE_ROOT_NAMES))"

definition check_repository :: "Sources \<Rightarrow> path list \<Rightarrow> path \<Rightarrow> exn + Violation list" where
  "check_repository sources files root =
     bind_res (map_res (check_file sources) (discover_python_files files root)) (\<lambda>vs. Inr (concat vs))"

text \<open>What \<open>main\<close> prints on the error stream, and its exit status.\<close>

definition boundaries_main :: "Sources \<Rightarrow> path list \<Rightarrow> path \<Rightarrow> exn + string list \<times> int" where
  "boundaries_main sources files root = bind_res (check_repository sources files root) (\<lambda>violations.
     Inr (if violations = [] then ([], 0)
          else (map (\<lambda>v. render v root) violations
            @ [''architecture boundary check failed: '' @ nat_str (length violations) @ '' violation(s)''], 1)))"

subsection \<open>The rules, as they are meant\<close>

text \<open>What a module (its dotted name as parts) may not import.\<close>

inductive illegal_import :: "string list \<Rightarrow> string list \<Rightarrow> bool" where
  core: "layer \<in> {''api'', ''domains'', ''infrastructure''} \<Longrightarrow>
    illegal_import (CONTROL_PACKAGE # ''core'' # m) (CONTROL_PACKAGE # layer # t)"
| domain_api: "illegal_import (CONTROL_PACKAGE # ''domains'' # m) (CONTROL_PACKAGE # ''api'' # t)"
| cross_domain: "d \<noteq> d' \<Longrightarrow> x \<in> {''models'', ''repository''} \<Longrightarrow> x \<in> set t \<Longrightarrow>
    illegal_import (CONTROL_PACKAGE # ''domains'' # d # m) (CONTROL_PACKAGE # ''domains'' # d' # t)"

inductive_cases illegal_importE: "illegal_import m t"

text \<open>The package a \<open>from\<close> import starts at: its own for one dot, one package up for each further dot.\<close>

definition package_of :: "path \<Rightarrow> string list \<Rightarrow> string list" where
  "package_of path m = (if path_name path = ''__init__.py'' then m else butlast m)"

definition module_tail :: "string option \<Rightarrow> string list" where
  "module_tail module = (case module of None \<Rightarrow> [] | Some m \<Rightarrow> if m = [] then [] else split_on (CHR ''.'') m)"

inductive resolves :: "path \<Rightarrow> string option \<Rightarrow> nat \<Rightarrow> string list \<Rightarrow> bool" where
  absolute: "resolves path module 0 (module_tail module)"
| relative: "source_module_parts path = Some m \<Longrightarrow> package_of path m = base @ up \<Longrightarrow>
    resolves path module (Suc (length up)) (base @ module_tail module)"

text \<open>The modules an import statement may load: \<open>from a import b\<close> may load \<open>a\<close> and \<open>a.b\<close>.\<close>

inductive may_load :: "path \<Rightarrow> ast_node \<Rightarrow> string list \<Rightarrow> bool" where
  plain: "name \<in> set names \<Longrightarrow> may_load path (Import line names) (split_on (CHR ''.'') name)"
| package: "resolves path module level base \<Longrightarrow> base \<noteq> [] \<Longrightarrow> may_load path (ImportFrom line module level names) base"
| member: "resolves path module level base \<Longrightarrow> base \<noteq> [] \<Longrightarrow> name \<in> set names \<Longrightarrow> name \<noteq> ''*'' \<Longrightarrow>
    may_load path (ImportFrom line module level names) (base @ split_on (CHR ''.'') name)"

inductive_simps may_load_simps [simp]: "may_load path (Import line names) t"
  "may_load path (ImportFrom line module level names) t" "may_load path OtherNode t"

lemma resolves_iff: "resolves path module level base \<longleftrightarrow> resolve_import_from path module level = Some base"
proof
  assume "resolves path module level base"
  then show "resolve_import_from path module level = Some base"
    by cases (simp_all add: resolve_import_from_def module_tail_def package_of_def Let_def)
next
  assume r: "resolve_import_from path module level = Some base"
  show "resolves path module level base"
  proof (cases level)
    case 0
    then show ?thesis using r resolves.absolute[of path module] by (simp add: resolve_import_from_def module_tail_def Let_def)
  next
    case (Suc n)
    obtain m where m: "source_module_parts path = Some m" and n: "n \<le> length (package_of path m)"
      and b: "base = take (length (package_of path m) - n) (package_of path m) @ module_tail module"
      using r Suc by (auto simp: resolve_import_from_def module_tail_def package_of_def Let_def split: option.splits if_splits)
    let ?p = "package_of path m"
    have "?p = take (length ?p - n) ?p @ drop (length ?p - n) ?p" by simp
    then show ?thesis using resolves.relative[OF m, of "take (length ?p - n) ?p" "drop (length ?p - n) ?p" module] n Suc b
      by simp
  qed
qed

lemma import_targets_iff: "t \<in> set (import_targets path node) \<longleftrightarrow> may_load path node t"
proof (cases node)
  case (ImportFrom line module level names)
  show ?thesis
  proof (cases "resolve_import_from path module level")
    case None
    then show ?thesis by (simp add: ImportFrom import_targets_def resolves_iff)
  next
    case (Some base)
    have "t \<in> set (import_targets path node) \<longleftrightarrow>
        base \<noteq> [] \<and> (t = base \<or> (\<exists>name \<in> set names. name \<noteq> ''*'' \<and> t = base @ split_on (CHR ''.'') name))"
      by (auto simp: ImportFrom import_targets_def Some)
    then show ?thesis by (simp add: ImportFrom resolves_iff Some) blast
  qed
qed (auto simp: import_targets_def)

subsection \<open>The checks are the rules\<close>

lemma package_no_suffix: "path_suffix p = ''.py'' \<Longrightarrow> last p \<noteq> CONTROL_PACKAGE"
proof (rule notI)
  assume py: "path_suffix p = ''.py''" and l: "last p = CONTROL_PACKAGE"
  have "path_name p = [] \<or> path_name p = CONTROL_PACKAGE" using l by (simp add: path_name_def)
  moreover have "\<not> has_suffix []" "\<not> has_suffix CONTROL_PACKAGE" by code_simp+
  ultimately show False using py by (auto simp: path_suffix_def)
qed

lemma source_module_head:
  assumes "source_module_parts path = Some m"
  obtains r where "m = CONTROL_PACKAGE # r"
proof -
  have c: "CONTROL_PACKAGE \<in> set path" "path_suffix path = ''.py''"
    using assms by (auto simp: source_module_parts_def Let_def split: if_splits)
  define q where "q = dropWhile (\<lambda>p. p \<noteq> CONTROL_PACKAGE) path"
  have q: "q \<noteq> []" "hd q = CONTROL_PACKAGE" "last q = last path"
    using c(1) hd_dropWhile[of "\<lambda>p. p \<noteq> CONTROL_PACKAGE" path] last_dropWhile[of "\<lambda>p. p \<noteq> CONTROL_PACKAGE" path]
    by (auto simp: q_def dropWhile_eq_Nil_conv)
  have "length q \<noteq> 1" using q package_no_suffix[OF c(2)] by (cases q) auto
  then obtain x r where "q = CONTROL_PACKAGE # x # r" using q(1,2) by (cases q; cases "tl q") auto
  then show ?thesis using assms that c
    by (auto simp: source_module_parts_def Let_def q_def[symmetric] split: if_splits)
qed

lemma target_message_None:
  assumes "control_context path = (sl, sd)" "target_context t = (tlay, td)"
  shows "target_message path t = None \<longleftrightarrow> (\<forall>layer. tlay = Some layer \<longrightarrow>
      \<not> (sl = Some ''core'' \<and> layer \<in> {''api'', ''domains'', ''infrastructure''})
      \<and> \<not> (sl = Some ''domains'' \<and> layer = ''api'')
      \<and> \<not> (sl = Some ''domains'' \<and> sd \<noteq> None \<and> layer = ''domains'' \<and> td \<noteq> None \<and> td \<noteq> sd
          \<and> (''models'' \<in> set (drop 3 t) \<or> ''repository'' \<in> set (drop 3 t))))"
proof (cases tlay)
  case None
  then show ?thesis by (simp add: target_message_def assms)
next
  case (Some layer)
  have f: "(case filter (\<lambda>m. m \<in> set (drop 3 t)) FORBIDDEN_CROSS_DOMAIN_MODULES of [] \<Rightarrow> None | x # _ \<Rightarrow> Some (g x)) = None
      \<longleftrightarrow> \<not> (''models'' \<in> set (drop 3 t) \<or> ''repository'' \<in> set (drop 3 t))" for g :: "string \<Rightarrow> string"
    by (simp add: FORBIDDEN_CROSS_DOMAIN_MODULES_def)
  show ?thesis unfolding target_message_def assms Some Let_def prod.case option.case if_split[of "\<lambda>x. x = None"] f
    by (auto simp: FORBIDDEN_CORE_TARGETS_def FORBIDDEN_DOMAIN_TARGETS_def)
qed

lemma illegal_import_iff: "illegal_import (CONTROL_PACKAGE # m) (CONTROL_PACKAGE # layer # t) \<longleftrightarrow>
    m \<noteq> [] \<and> (hd m = ''core'' \<and> layer \<in> {''api'', ''domains'', ''infrastructure''}
      \<or> hd m = ''domains'' \<and> layer = ''api''
      \<or> hd m = ''domains'' \<and> tl m \<noteq> [] \<and> layer = ''domains'' \<and> t \<noteq> [] \<and> hd t \<noteq> hd (tl m)
        \<and> (''models'' \<in> set (tl t) \<or> ''repository'' \<in> set (tl t)))" (is "?l \<longleftrightarrow> ?r")
proof
  show "?l \<Longrightarrow> ?r" by (elim illegal_importE) auto
  assume r: ?r
  then obtain h m' where m: "m = h # m'" by (cases m) auto
  from r consider "h = ''core''" "layer \<in> {''api'', ''domains'', ''infrastructure''}" | "h = ''domains''" "layer = ''api''"
    | x d s d' where "h = ''domains''" "layer = ''domains''" "t = d' # s" "x \<in> {''models'', ''repository''}" "x \<in> set s"
        "m' = d # tl m'" "d \<noteq> d'"
    unfolding m by (cases t; cases m') auto
  then show ?l unfolding m
  proof cases
    case 1
    then show "illegal_import (CONTROL_PACKAGE # h # m') (CONTROL_PACKAGE # layer # t)"
      using illegal_import.core[OF 1(2)] by simp
  next
    case 2
    then show "illegal_import (CONTROL_PACKAGE # h # m') (CONTROL_PACKAGE # layer # t)"
      using illegal_import.domain_api by simp
  next
    case 3
    then show "illegal_import (CONTROL_PACKAGE # h # m') (CONTROL_PACKAGE # layer # t)"
      using illegal_import.cross_domain[OF 3(7,4,5), of "tl m'"] by metis
  qed
qed

lemma layer_and_domain_Cons:
  "layer_and_domain (p # layer # t) = (Some layer, if layer = ''domains'' \<and> t \<noteq> [] then Some (hd t) else None)"
  by (cases t) (auto simp: layer_and_domain_def)

lemma target_message_iff: "target_message path t = None \<longleftrightarrow> (\<forall>m. source_module_parts path = Some m \<longrightarrow> \<not> illegal_import m t)"
proof (cases "t = [] \<or> hd t \<noteq> CONTROL_PACKAGE \<or> length t < 2")
  case True
  then have "target_context t = (None, None)" by (simp add: target_context_def)
  then have "target_message path t = None"
    using target_message_None[of path "fst (control_context path)" "snd (control_context path)" t None None] by simp
  moreover have "\<not> illegal_import m t" for m using True by (auto elim: illegal_importE)
  ultimately show ?thesis by simp
next
  case False
  then obtain l s where t: "t = CONTROL_PACKAGE # l # s" by (cases t; cases "tl t") auto
  have tc: "target_context t = (Some l, if l = ''domains'' \<and> s \<noteq> [] then Some (hd s) else None)"
    by (simp add: target_context_def t layer_and_domain_Cons)
  have d3: "drop 3 t = tl s" by (simp add: t drop_Suc numeral_3_eq_3)
  show ?thesis
  proof (cases "source_module_parts path")
    case None
    then have "control_context path = (None, None)" by (simp add: control_context_def)
    then show ?thesis using None by (simp add: target_message_None[OF _ tc])
  next
    case (Some m)
    obtain r where m: "m = CONTROL_PACKAGE # r" by (rule source_module_head[OF Some])
    show ?thesis
    proof (cases r)
      case Nil
      then have cc: "control_context path = (None, None)" using Some m by (simp add: control_context_def)
      show ?thesis unfolding target_message_None[OF cc tc] using Some by (simp add: t m illegal_import_iff Nil)
    next
      case (Cons h m')
      have cc: "control_context path = (Some h, if h = ''domains'' \<and> m' \<noteq> [] then Some (hd m') else None)"
        using Some m Cons by (simp add: control_context_def layer_and_domain_Cons)
      show ?thesis unfolding target_message_None[OF cc tc] d3 using Some
        by (auto simp: t m illegal_import_iff Cons)
    qed
  qed
qed

lemma check_import_Nil: "check_import path node = [] \<longleftrightarrow>
    (\<forall>m t. source_module_parts path = Some m \<longrightarrow> may_load path node t \<longrightarrow> \<not> illegal_import m t)"
proof -
  have "check_import path node = [] \<longleftrightarrow> (\<forall>t \<in> set (import_targets path node). target_message path t = None)"
    by (auto simp: check_import_def split: option.splits)
  then show ?thesis by (auto simp: target_message_iff import_targets_iff)
qed

text \<open>A file obeys the rules: it can be read and parsed, and its module loads nothing it may not.\<close>

definition obeys :: "Sources \<Rightarrow> path \<Rightarrow> bool" where
  "obeys sources path \<longleftrightarrow> (\<exists>source tree. src_read_text sources path = Inr source \<and> src_parse sources source = Inr tree
     \<and> (\<forall>node \<in> set tree. \<forall>m t. source_module_parts path = Some m \<longrightarrow> may_load path node t \<longrightarrow> \<not> illegal_import m t))"

lemma check_file_Nil: "check_file sources path = Inr vs \<Longrightarrow> vs = [] \<longleftrightarrow> obeys sources path"
proof (cases "src_read_text sources path")
  case (Inr source)
  assume c: "check_file sources path = Inr vs"
  show ?thesis
  proof (cases "src_parse sources source")
    case (Inl e)
    then show ?thesis using c Inr by (cases e) (auto simp: check_file_def obeys_def)
  next
    case (Inr tree)
    have "vs = [] \<longleftrightarrow> (\<forall>node \<in> set tree. is_import node \<longrightarrow> check_import path node = [])"
      using c \<open>src_read_text sources path = Inr source\<close> Inr by (auto simp: check_file_def)
    also have "\<dots> \<longleftrightarrow> (\<forall>node \<in> set tree. check_import path node = [])"
      by (auto simp: is_import_def check_import_def import_targets_def split: ast_node.splits)
    finally show ?thesis using \<open>src_read_text sources path = Inr source\<close> Inr
      by (simp add: obeys_def check_import_Nil)
  qed
next
  case (Inl e)
  assume "check_file sources path = Inr vs"
  then show ?thesis using Inl by (cases e) (auto simp: check_file_def obeys_def)
qed

text \<open>The Python files of the source roots, virtual environments and installed packages aside.\<close>

definition checked_file :: "path \<Rightarrow> path \<Rightarrow> bool" where
  "checked_file root p \<longleftrightarrow> (\<exists>name \<in> set PYTHON_SOURCE_ROOT_NAMES. below (root @ [name]) p)
     \<and> ends_with ''.py'' (last p) \<and> ''.venv'' \<notin> set p \<and> ''node_modules'' \<notin> set p"

lemma set_discover: "set (discover_python_files files root) = {p \<in> set files. checked_file root p}"
proof -
  have "list_ex (\<lambda>p. p = r \<or> below r p) files" if "p \<in> set files" "below r p" for p r
    using that by (auto simp: list_ex_iff)
  then show ?thesis by (auto simp: discover_python_files_def Let_def checked_file_def split: if_splits)
qed


text \<open>The module of a file of the package, when the package's name does not occur above it.\<close>

lemma source_module_of_file:
  assumes "CONTROL_PACKAGE \<notin> set outer" "path_suffix (outer @ CONTROL_PACKAGE # dirs @ [name]) = ''.py''"
  shows "source_module_parts (outer @ CONTROL_PACKAGE # dirs @ [name]) =
    Some (if name = ''__init__.py'' then CONTROL_PACKAGE # dirs
          else CONTROL_PACKAGE # dirs @ [path_stem (outer @ CONTROL_PACKAGE # dirs @ [name])])"
proof -
  let ?p = "outer @ CONTROL_PACKAGE # dirs @ [name]"
  have d: "dropWhile (\<lambda>p. p \<noteq> CONTROL_PACKAGE) ?p = CONTROL_PACKAGE # dirs @ [name]"
    using assms(1) by (subst dropWhile_append2) auto
  have n: "path_name ?p = name" by (simp add: path_name_def)
  show ?thesis using assms(2) unfolding source_module_parts_def d Let_def n
    by (simp add: list_update_append butlast_append)
qed

subsection \<open>Witnesses\<close>

definition sample_path :: path where
  "sample_path = [''/'', ''repo'', ''apps'', ''control-api'', ''src'', ''bff_control'', ''domains'', ''projects'', ''service.py'']"

text \<open>A project service that imports its own models and, for a type, the policies of another domain.\<close>

definition sample_sources :: Sources where
  "sample_sources = \<lparr>src_read_text = (\<lambda>_. Inr ''source''),
     src_parse = (\<lambda>_. Inr [ImportFrom 3 (Some ''models'') 1 [''Project''], OtherNode,
       ImportFrom 4 (Some ''bff_control.domains.workspaces'') 0 [''policies''], Import 5 [''bff_control.core'']])\<rparr>"


text \<open>The first occurrence of the package's name decides: in a checkout below a directory of that name nothing is found.\<close>

lemma checkout_name_disables:
  "target_message ([''/'', ''home'', ''dev'', ''bff_control''] @ drop 2 sample_path) [''bff_control'', ''api'', ''app''] = None"
  "target_message sample_path [''bff_control'', ''api'', ''app''] \<noteq> None"
  by code_simp+

end
