(* ===== verification/Smoke.thy ===== *)
theory Smoke
  imports Texts "HOL-Library.Multiset" "HOL-Library.List_Lexorder" "HOL-Library.Char_ord"
begin

section \<open>The infrastructure smoke test\<close>

text \<open>
  \<open>scripts/infra/smoke.py\<close>. The machine it runs on is a parameter: a state \<open>'w\<close> with its clock, the processes it
  starts (\<open>subprocess.run\<close>, captured), the search path, the environment, \<open>urlopen\<close> and \<open>time.sleep\<close>. Times are whole
  microseconds. \<open>time.monotonic\<close> reads the state; every other call may change it. \<open>wait_until_ready\<close> may run forever on
  a machine whose clock stands still, so its loop is a \<open>partial_function\<close> whose value None is not returning.
\<close>

subsection \<open>The machine\<close>

text \<open>The exceptions in sight; \<open>URLError\<close> and \<open>TimeoutError\<close> are subclasses of \<open>OSError\<close>, \<open>HTTPException\<close> is not.\<close>

datatype failure =
    SmokeFailure string
  | Os_Error string
  | URLError string
  | TimeoutError
  | HTTPException string
  | CalledProcessError int

definition is_os_error :: "failure \<Rightarrow> bool" where
  "is_os_error e \<longleftrightarrow> (case e of Os_Error _ \<Rightarrow> True | URLError _ \<Rightarrow> True | TimeoutError \<Rightarrow> True | _ \<Rightarrow> False)"

record 'w Host =
  h_monotonic :: "'w \<Rightarrow> int"
  h_sleep :: "int \<Rightarrow> 'w \<Rightarrow> 'w"
  h_run :: "string list \<Rightarrow> (failure, 'w, CompletedProcess) io"
  h_which :: "string \<Rightarrow> 'w \<Rightarrow> string option"
  h_environ :: "string \<Rightarrow> string option"
  h_urlopen_status :: "string \<Rightarrow> int \<Rightarrow> (failure, 'w, int option) io"
  h_compose_file :: string

text \<open>\<open>h_urlopen_status url timeout\<close> is the status of the response, None when it is not an integer.\<close>

subsection \<open>Processes\<close>

definition run_process :: "'w Host \<Rightarrow> string list \<Rightarrow> bool \<Rightarrow> (failure, 'w, CompletedProcess) io" where
  "run_process host args check = io_bind (h_run host args) (\<lambda>result.
     if check \<and> cp_returncode result \<noteq> 0 then io_raise (CalledProcessError (cp_returncode result)) else io_return result)"

definition compose :: "'w Host \<Rightarrow> string list \<Rightarrow> bool \<Rightarrow> (failure, 'w, CompletedProcess) io" where
  "compose host args check = run_process host ([''docker'', ''compose'', ''-f'', h_compose_file host] @ args) check"

definition process_details :: "CompletedProcess \<Rightarrow> string" where
  "process_details result = strip (if cp_stderr result \<noteq> [] then cp_stderr result else cp_stdout result)"

definition require_docker :: "'w Host \<Rightarrow> (failure, 'w, unit) io" where
  "require_docker host w =
     (if h_which host ''docker'' w = None then io_raise (SmokeFailure ''docker executable is not available'') w
      else io_bind (run_process host [''docker'', ''compose'', ''version''] False) (\<lambda>result.
        if cp_returncode result \<noteq> 0
        then io_raise (SmokeFailure (''Docker Compose v2 is unavailable: '' @ process_details result))
        else io_return ()) w)"

definition validate_compose :: "'w Host \<Rightarrow> (failure, 'w, unit) io" where
  "validate_compose host = io_bind (compose host [''config'', ''--quiet''] False) (\<lambda>result.
     if cp_returncode result \<noteq> 0
     then io_raise (SmokeFailure (''docker compose config validation failed: '' @ process_details result))
     else io_return ())"

subsection \<open>The checks\<close>

definition environ_get :: "'w Host \<Rightarrow> string \<Rightarrow> string \<Rightarrow> string" where
  "environ_get host key fallback = (case h_environ host key of None \<Rightarrow> fallback | Some value \<Rightarrow> value)"

definition postgres_ready :: "'w Host \<Rightarrow> (failure, 'w, bool) io" where
  "postgres_ready host = io_bind (compose host [''exec'', ''-T'', ''postgres'', ''pg_isready'',
       ''-U'', environ_get host ''POSTGRES_USER'' ''bff'', ''-d'', environ_get host ''POSTGRES_DB'' ''bff'',
       ''-h'', ''127.0.0.1''] False) (\<lambda>result. io_return (cp_returncode result = 0))"

definition rabbitmq_ready :: "'w Host \<Rightarrow> (failure, 'w, bool) io" where
  "rabbitmq_ready host = io_bind (compose host [''exec'', ''-T'', ''rabbitmq'', ''rabbitmq-diagnostics'', ''-q'', ''ping''] False)
     (\<lambda>result. io_return (cp_returncode result = 0))"

definition valkey_ready :: "'w Host \<Rightarrow> (failure, 'w, bool) io" where
  "valkey_ready host = io_bind (compose host [''exec'', ''-T'', ''valkey'', ''valkey-cli'', ''ping''] False)
     (\<lambda>result. io_return (cp_returncode result = 0 \<and> strip (cp_stdout result) = ''PONG''))"

definition otel_ready :: "'w Host \<Rightarrow> (failure, 'w, bool) io" where
  "otel_ready host w =
     (case h_urlopen_status host (''http://127.0.0.1:'' @ environ_get host ''OTEL_HEALTH_PORT'' ''13133'' @ ''/'') 2000000 w of
        (Inl (URLError _), w') \<Rightarrow> (Inr False, w')
      | (Inl TimeoutError, w') \<Rightarrow> (Inr False, w')
      | (Inl e, w') \<Rightarrow> (Inl e, w')
      | (Inr None, w') \<Rightarrow> (Inr False, w')
      | (Inr (Some status), w') \<Rightarrow> (Inr (200 \<le> status \<and> status < 300), w'))"

definition CHECKS :: "'w Host \<Rightarrow> (string \<times> (failure, 'w, bool) io) list" where
  "CHECKS host = [(''postgres'', postgres_ready host), (''rabbitmq'', rabbitmq_ready host),
     (''valkey'', valkey_ready host), (''otel-collector'', otel_ready host)]"

definition check_named :: "'w Host \<Rightarrow> string \<Rightarrow> (failure, 'w, bool) io" where
  "check_named host name = the (map_of (CHECKS host) name)"

subsection \<open>The wait\<close>

text \<open>
  One pass over \<open>tuple(pending)\<close>; what is printed is threaded along. The set \<open>pending\<close> is the list of its elements in the
  order the interpreter iterates over it, which is some order of \<open>CHECKS\<close>.
\<close>

fun poll :: "'w Host \<Rightarrow> string list \<Rightarrow> string list \<Rightarrow> string list \<Rightarrow> 'w \<Rightarrow> (failure + string list) \<times> string list \<times> 'w" where
  "poll host [] pending out w = (Inr pending, out, w)"
| "poll host (name # names) pending out w =
     (case check_named host name w of
        (Inr True, w') \<Rightarrow> poll host names (remove1 name pending) (out @ [''[ready] '' @ name]) w'
      | (Inr False, w') \<Rightarrow> poll host names pending out w'
      | (Inl e, w') \<Rightarrow> if is_os_error e then poll host names pending out w' else (Inl e, out, w'))"

partial_function (option) wait_loop ::
  "'w Host \<Rightarrow> int \<Rightarrow> string list \<Rightarrow> string list \<Rightarrow> 'w \<Rightarrow> ((failure + string list) \<times> string list \<times> 'w) option" where
  "wait_loop host deadline pending out w =
     (if pending = [] \<or> \<not> h_monotonic host w < deadline then Some (Inr pending, out, w)
      else (case poll host pending pending out w of
          (Inl e, out', w') \<Rightarrow> Some (Inl e, out', w')
        | (Inr pending', out', w') \<Rightarrow>
            wait_loop host deadline pending' out' (if pending' \<noteq> [] then h_sleep host 1000000 w' else w')))"

declare wait_loop.simps [code]

definition timed_out :: "'w Host \<Rightarrow> string list \<Rightarrow> (failure, 'w, unit) io" where
  "timed_out host pending = io_bind (compose host [''ps''] False) (\<lambda>status.
     let details = (if strip (cp_stdout status) \<noteq> [] then strip (cp_stdout status) else strip (cp_stderr status))
     in io_raise (SmokeFailure (''timed out waiting for: '' @ join '', '' (sort pending) @ [CHR 0x0A] @ details)))"

text \<open>What was printed comes with the result, whether it is normal or an exception.\<close>

definition wait_until_ready ::
  "'w Host \<Rightarrow> string list \<Rightarrow> int \<Rightarrow> 'w \<Rightarrow> ((failure + unit) \<times> string list \<times> 'w) option" where
  "wait_until_ready host order timeout w =
     map_option (\<lambda>(r, out, w'). case r of
         Inl e \<Rightarrow> (Inl e, out, w')
       | Inr pending \<Rightarrow> if pending \<noteq> [] then (case timed_out host pending w' of (r', w'') \<Rightarrow> (r', out, w'')) else (Inr (), out, w'))
       (wait_loop host (h_monotonic host w + timeout) order [] w)"

text \<open>The body of the \<open>try\<close> of \<open>main\<close> before the wait, and the end of \<open>main\<close>: what is printed and the exit status.\<close>

definition smoke_prepare :: "'w Host \<Rightarrow> bool \<Rightarrow> (failure, 'w, unit) io" where
  "smoke_prepare host start = io_bind (require_docker host) (\<lambda>_. io_bind (validate_compose host) (\<lambda>_.
     if start then io_bind (compose host [''up'', ''-d''] True) (\<lambda>_. io_return ()) else io_return ()))"

definition smoke_end :: "failure + unit \<Rightarrow> string list \<Rightarrow> failure + string list \<times> int" where
  "smoke_end r out = (case r of
     Inl (SmokeFailure error) \<Rightarrow> Inr (out @ [''infrastructure smoke test failed: '' @ error], 1)
   | Inl e \<Rightarrow> Inl e
   | Inr _ \<Rightarrow> Inr (out @ [''local infrastructure smoke test passed''], 0))"

definition smoke_main ::
  "'w Host \<Rightarrow> string list \<Rightarrow> bool \<Rightarrow> int \<Rightarrow> 'w \<Rightarrow> ((failure + string list \<times> int) \<times> 'w) option" where
  "smoke_main host order start timeout w =
     (case smoke_prepare host start w of
        (Inl e, w') \<Rightarrow> Some (smoke_end (Inl e) [], w')
      | (Inr _, w') \<Rightarrow> map_option (\<lambda>(r, out, w''). (smoke_end r out, w'')) (wait_until_ready host order timeout w'))"

subsection \<open>The wait ends\<close>

text \<open>
  A steady machine: no check turns the clock back or takes longer than \<open>d\<close>, and a sleep of a second lasts at least that
  and at most \<open>d\<close> longer.
\<close>

definition steady :: "'w Host \<Rightarrow> int \<Rightarrow> bool" where
  "steady host d \<longleftrightarrow> 0 \<le> d
     \<and> (\<forall>name \<in> set (map fst (CHECKS host)). \<forall>w. let w' = snd (check_named host name w) in
          h_monotonic host w \<le> h_monotonic host w' \<and> h_monotonic host w' \<le> h_monotonic host w + d)
     \<and> (\<forall>w. h_monotonic host w + 1000000 \<le> h_monotonic host (h_sleep host 1000000 w)
          \<and> h_monotonic host (h_sleep host 1000000 w) \<le> h_monotonic host w + 1000000 + d)"

lemma steady_check:
  "steady host d \<Longrightarrow> name \<in> set (map fst (CHECKS host)) \<Longrightarrow> check_named host name w = (r, w') \<Longrightarrow>
    h_monotonic host w \<le> h_monotonic host w' \<and> h_monotonic host w' \<le> h_monotonic host w + d"
  unfolding steady_def Let_def by (metis snd_conv)

lemma steady_sleep:
  "steady host d \<Longrightarrow> h_monotonic host w + 1000000 \<le> h_monotonic host (h_sleep host 1000000 w)
     \<and> h_monotonic host (h_sleep host 1000000 w) \<le> h_monotonic host w + 1000000 + d"
  by (simp add: steady_def)

lemma poll_time:
  assumes "steady host d" "set names \<subseteq> set (map fst (CHECKS host))" "poll host names pending out w = (r, out', w')"
  shows "h_monotonic host w \<le> h_monotonic host w' \<and> h_monotonic host w' \<le> h_monotonic host w + int (length names) * d"
  using assms(2,3)
proof (induction names arbitrary: pending out w)
  case (Cons name names)
  obtain c v where c: "check_named host name w = (c, v)" by fastforce
  have t: "h_monotonic host w \<le> h_monotonic host v" "h_monotonic host v \<le> h_monotonic host w + d"
    using steady_check[OF assms(1) _ c] Cons.prems(1) by simp_all
  have d: "0 \<le> int (length names) * d" using assms(1) by (simp add: steady_def)
  have l: "int (length (name # names)) * d = d + int (length names) * d" by (simp add: algebra_simps)
  consider p q where "poll host names p q v = (r, out', w')" | "w' = v"
    using Cons.prems(2) by (auto simp: c split: sum.splits bool.splits if_splits)
  then show ?case
  proof cases
    case 1
    then have "h_monotonic host v \<le> h_monotonic host w' \<and> h_monotonic host w' \<le> h_monotonic host v + int (length names) * d"
      using Cons.IH Cons.prems(1) by simp
    then have "h_monotonic host w' \<le> h_monotonic host w + (d + int (length names) * d)" "h_monotonic host w \<le> h_monotonic host w'"
      using t by linarith+
    then show ?thesis unfolding l by blast
  next
    case 2
    show ?thesis unfolding 2 l by (intro conjI) (use t d in linarith)+
  qed
qed simp

text \<open>What is still pending and what was reported ready are together all the checks.\<close>

definition ready_line :: "string \<Rightarrow> string" where "ready_line name = ''[ready] '' @ name"

lemma poll_accounts:
  assumes "poll host names pending out w = (Inr pending', out', w')" "distinct names" "set names \<subseteq> set pending"
  shows "mset (map ready_line pending') + mset out' = mset (map ready_line pending) + mset out
    \<and> set pending' \<subseteq> set pending \<and> (distinct pending \<longrightarrow> distinct pending') \<and> length pending' \<le> length pending"
  using assms
proof (induction names arbitrary: pending out w)
  case (Cons name names)
  obtain c v where c: "check_named host name w = (c, v)" by fastforce
  show ?case
  proof (cases "c = Inr True")
    case True
    have p: "poll host names (remove1 name pending) (out @ [ready_line name]) v = (Inr pending', out', w')"
      using Cons.prems(1) by (simp add: c True ready_line_def)
    have "set names \<subseteq> set (remove1 name pending)"
      using Cons.prems(2,3) by (metis distinct.simps(2) in_set_remove1 insert_subset list.simps(15) subset_code(1))
    then have "mset (map ready_line pending') + mset out'
        = mset (map ready_line (remove1 name pending)) + mset (out @ [ready_line name])
      \<and> set pending' \<subseteq> set (remove1 name pending) \<and> (distinct (remove1 name pending) \<longrightarrow> distinct pending')
      \<and> length pending' \<le> length (remove1 name pending)"
      using Cons.IH[OF p] Cons.prems(2) by simp
    moreover have "mset (map ready_line pending) = mset (map ready_line (remove1 name pending)) + {#ready_line name#}"
      using Cons.prems(3) by (simp add: mset_map image_mset_Diff)
    moreover have "length (remove1 name pending) \<le> length pending" by (simp add: length_remove1)
    ultimately show ?thesis using set_remove1_subset[of name pending] by auto
  next
    case False
    then have "poll host names pending out v = (Inr pending', out', w')"
      using Cons.prems(1) by (auto simp: c split: sum.splits bool.splits if_splits)
    then show ?thesis using Cons.IH Cons.prems(2,3) by auto
  qed
qed simp

lemma poll_raises: "poll host names pending out w = (Inl e, out', w') \<Longrightarrow> \<not> is_os_error e"
  by (induction names arbitrary: pending out w) (auto split: prod.splits sum.splits bool.splits if_splits)

text \<open>The loop: it returns, in time, having accounted for every check.\<close>

lemma wait_loop_returns:
  assumes "steady host d" "set pending \<subseteq> set (map fst (CHECKS host))" "distinct pending" "length pending \<le> 4"
  shows "\<exists>r out' w'. wait_loop host deadline pending out w = Some (r, out', w')
    \<and> h_monotonic host w' \<le> max (h_monotonic host w) (deadline + 5 * d + 1000000)
    \<and> (\<forall>e. r = Inl e \<longrightarrow> \<not> is_os_error e)
    \<and> (\<forall>pending'. r = Inr pending' \<longrightarrow> set pending' \<subseteq> set pending
        \<and> mset (map ready_line pending') + mset out' = mset (map ready_line pending) + mset out
        \<and> (pending' \<noteq> [] \<longrightarrow> deadline \<le> h_monotonic host w'))"
  using assms(2-4)
proof (induction "nat (deadline - h_monotonic host w)" arbitrary: pending out w rule: less_induct)
  case less
  have d0: "0 \<le> d" using assms(1) by (simp add: steady_def)
  show ?case
  proof (cases "pending = [] \<or> \<not> h_monotonic host w < deadline")
    case True
    then show ?thesis using d0 by (auto simp: wait_loop.simps)
  next
    case False
    obtain r out1 w1 where p: "poll host pending pending out w = (r, out1, w1)" by (metis prod_cases3)
    have len: "int (length pending) * d \<le> 4 * d" using less.prems(3) d0 by (simp add: mult_right_mono)
    have t: "h_monotonic host w \<le> h_monotonic host w1" "h_monotonic host w1 \<le> h_monotonic host w + 4 * d"
      using poll_time[OF assms(1) less.prems(1) p] len by auto
    show ?thesis
    proof (cases r)
      case (Inl e)
      then have "wait_loop host deadline pending out w = Some (Inl e, out1, w1)"
        using False p by (simp add: wait_loop.simps[of host deadline pending])
      then show ?thesis using poll_raises[of host pending pending out w e out1 w1] p Inl t d0 False by auto
    next
      case (Inr pending1)
      have acc: "mset (map ready_line pending1) + mset out1 = mset (map ready_line pending) + mset out"
          "set pending1 \<subseteq> set pending" "distinct pending1" "length pending1 \<le> 4"
        using poll_accounts[of host pending pending out w pending1 out1 w1] p Inr less.prems(2,3) by auto
      define w2 where "w2 = (if pending1 \<noteq> [] then h_sleep host 1000000 w1 else w1)"
      have step: "wait_loop host deadline pending out w = wait_loop host deadline pending1 out1 w2"
        using False p Inr by (simp add: wait_loop.simps[of host deadline pending] w2_def)
      show ?thesis
      proof (cases "pending1 = []")
        case True
        then have "wait_loop host deadline pending out w = Some (Inr [], out1, w1)"
          unfolding step by (simp add: w2_def wait_loop.simps[of host deadline "[]"])
        then show ?thesis using acc(1) True t d0 False by auto
      next
        case ne: False
        have w2: "h_monotonic host w1 + 1000000 \<le> h_monotonic host w2" "h_monotonic host w2 \<le> h_monotonic host w1 + 1000000 + d"
          using steady_sleep[OF assms(1), of w1] ne by (simp_all add: w2_def)
        have "nat (deadline - h_monotonic host w2) < nat (deadline - h_monotonic host w)" using w2(1) t(1) False by simp
        then obtain r' out' w' where ih: "wait_loop host deadline pending1 out1 w2 = Some (r', out', w')"
          "h_monotonic host w' \<le> max (h_monotonic host w2) (deadline + 5 * d + 1000000)"
          "\<forall>e. r' = Inl e \<longrightarrow> \<not> is_os_error e"
          "\<forall>pending'. r' = Inr pending' \<longrightarrow> set pending' \<subseteq> set pending1
            \<and> mset (map ready_line pending') + mset out' = mset (map ready_line pending1) + mset out1
            \<and> (pending' \<noteq> [] \<longrightarrow> deadline \<le> h_monotonic host w')"
          using less.hyps[of w2 pending1 out1] acc(2-4) less.prems(1) by blast
        have "h_monotonic host w' \<le> max (h_monotonic host w) (deadline + 5 * d + 1000000)"
          using ih(2) w2(2) t(2) False by simp
        moreover have "\<forall>pending'. r' = Inr pending' \<longrightarrow> set pending' \<subseteq> set pending" using ih(4) acc(2) by blast
        ultimately show ?thesis using ih(1,3,4) acc(1) unfolding step by auto
      qed
    qed
  qed
qed

text \<open>C38: the smoke test terminates: on a machine whose clock advances (no check takes longer than d, a second of sleep at
  most d longer) it returns whatever the checks answer, and when its exit status is 0 it has reported each of the four
  dependencies ready, once, and its wait was over within the timeout, one pass and one sleep.\<close>

theorem smoke_terminates:
  assumes "steady host d" "mset order = mset (map fst (CHECKS host))"
  shows "\<exists>r w'. smoke_main host order start timeout w = Some (r, w')
    \<and> (\<forall>lines. r = Inr (lines, 0) \<longrightarrow> (\<exists>w0. smoke_prepare host start w = (Inr (), w0)
        \<and> mset lines = mset (map ready_line order) + {#''local infrastructure smoke test passed''#}
        \<and> h_monotonic host w' \<le> max (h_monotonic host w0) (h_monotonic host w0 + timeout + 5 * d + 1000000)))"
proof (cases "smoke_prepare host start w")
  case (Pair p w0)
  show ?thesis
  proof (cases p)
    case (Inl e)
    have "smoke_end (Inl e) [] \<noteq> Inr (lines, 0)" for lines by (cases e) (auto simp: smoke_end_def)
    then show ?thesis by (auto simp: smoke_main_def Pair Inl)
  next
    case (Inr u)
    have o: "set order \<subseteq> set (map fst (CHECKS host))" "distinct order" "length order \<le> 4"
      using arg_cong[OF assms(2), of set_mset] mset_eq_imp_distinct_iff[OF assms(2)] mset_eq_length[OF assms(2)]
      by (simp_all add: CHECKS_def)
    obtain r out w1 where l: "wait_loop host (h_monotonic host w0 + timeout) order [] w0 = Some (r, out, w1)"
      "h_monotonic host w1 \<le> max (h_monotonic host w0) (h_monotonic host w0 + timeout + 5 * d + 1000000)"
      "\<forall>pending'. r = Inr pending' \<longrightarrow> mset (map ready_line pending') + mset out = mset (map ready_line order) + mset []"
      using wait_loop_returns[OF assms(1) o, of "h_monotonic host w0 + timeout" "[]" w0] by blast
    show ?thesis
    proof (cases "r = Inr []")
      case True
      then have "smoke_main host order start timeout w = Some (Inr (out @ [''local infrastructure smoke test passed''], 0), w1)"
        by (simp add: smoke_main_def Pair Inr wait_until_ready_def l(1) smoke_end_def)
      then show ?thesis using l(2,3) True Pair Inr by auto
    next
      case False
      obtain r' w2 where s: "wait_until_ready host order timeout w0 = Some (r', out, w2)" "r' \<noteq> Inr ()"
      proof (cases r)
        case (Inl e)
        then show ?thesis using that[of "Inl e" w1] by (simp add: wait_until_ready_def l(1))
      next
        case (Inr pending)
        obtain q w2 where q: "timed_out host pending w1 = (q, w2)" by fastforce
        then have "q \<noteq> Inr ()"
          by (auto simp: timed_out_def io_bind_def io_raise_def Let_def split: prod.splits sum.splits)
        then show ?thesis using that[of q w2] Inr False q by (simp add: wait_until_ready_def l(1))
      qed
      then have "smoke_end r' out \<noteq> Inr (lines, 0)" for lines
        by (auto simp: smoke_end_def split: sum.splits failure.splits)
      then show ?thesis using s(1) by (auto simp: smoke_main_def Pair Inr)
    qed
  qed
qed

text \<open>A machine on which everything answers at once; its state is its clock.\<close>

definition sample_host :: "int Host" where
  "sample_host = \<lparr>h_monotonic = (\<lambda>w. w), h_sleep = (\<lambda>t w. w + t),
     h_run = (\<lambda>_ w. (Inr \<lparr>cp_returncode = 0, cp_stdout = ''PONG'', cp_stderr = []\<rparr>, w)),
     h_which = (\<lambda>_ _. Some ''/usr/bin/docker''), h_environ = (\<lambda>_. None),
     h_urlopen_status = (\<lambda>_ _ w. (Inr (Some 200), w)), h_compose_file = ''/repo/compose.yaml''\<rparr>"

lemma sample_host_steady: "steady sample_host 0"
  by (auto simp: steady_def CHECKS_def check_named_def Let_def sample_host_def postgres_ready_def rabbitmq_ready_def
      valkey_ready_def otel_ready_def compose_def run_process_def io_bind_def io_return_def)

theorem smoke_terminates_witness:
  "\<exists>r w'. smoke_main sample_host [''valkey'', ''postgres'', ''otel-collector'', ''rabbitmq''] True 60000000 0 = Some (r, w')"
proof -
  have "mset [''valkey'', ''postgres'', ''otel-collector'', ''rabbitmq''] = mset (map fst (CHECKS sample_host))"
    by (simp add: CHECKS_def)
  then show ?thesis using smoke_terminates[OF sample_host_steady] by meson
qed

lemma sample_host_passes:
  "case smoke_main sample_host [''valkey'', ''postgres'', ''otel-collector'', ''rabbitmq''] True 60000000 0 of
     Some (Inr (lines, status), w) \<Rightarrow> length lines = 5 \<and> status = 0 \<and> w = 0 | _ \<Rightarrow> False"
  by code_simp

text \<open>Exceptions that \<open>main\<close> does not report: a failing \<open>docker compose up\<close>, and a port that does not speak HTTP.\<close>

lemma failures_that_escape:
  assumes "smoke_prepare host start w = (Inl e, w')" "\<And>m. e \<noteq> SmokeFailure m"
  shows "smoke_main host order start timeout w = Some (Inl e, w')"
  using assms(1,2) by (cases e) (auto simp: smoke_main_def smoke_end_def)

lemma otel_exception_escapes:
  "h_urlopen_status host (''http://127.0.0.1:'' @ environ_get host ''OTEL_HEALTH_PORT'' ''13133'' @ ''/'') 2000000 w
     = (Inl (HTTPException m), w') \<Longrightarrow> poll host (''otel-collector'' # names) pending out w = (Inl (HTTPException m), out, w')"
  by (simp add: check_named_def CHECKS_def otel_ready_def is_os_error_def)

end
