(* ===== verification/Settings.thy ===== *)
theory Settings
  imports Texts Authentication
begin

section \<open>Settings\<close>

text \<open>
  The validators of \<open>core/settings.py\<close>, on values that Pydantic has already read: a \<open>ValueError\<close> refuses the value. Of an
  \<open>AnyHttpUrl\<close> the validators read the scheme; \<open>sqlalchemy.engine.make_url\<close>, of which they read the driver name, is a
  parameter.
\<close>

definition ASYNC_DRIVER :: string where "ASYNC_DRIVER = ''postgresql+asyncpg''"

definition MIGRATION_DRIVER :: string where "MIGRATION_DRIVER = ''postgresql+psycopg''"

definition validate_issuer :: "(string \<Rightarrow> bool) \<Rightarrow> string \<Rightarrow> exn + string" where
  "validate_issuer brackets_ok value =
     (if value = [] \<or> value \<noteq> strip value
      then Inl (ValueError ''issuer must be a non-empty exact URL without surrounding whitespace'')
      else bind_res (urlsplit brackets_ok value) (\<lambda>parsed.
        if sr_scheme parsed \<noteq> ''https'' \<or> sr_netloc parsed = [] \<or> fst (userinfo parsed) \<noteq> None
           \<or> snd (userinfo parsed) \<noteq> None \<or> sr_query parsed \<noteq> [] \<or> sr_fragment parsed \<noteq> []
        then Inl (ValueError ''issuer must be an HTTPS origin/path without credentials/query/fragment'')
        else Inr value))"

definition validate_client_id :: "string \<Rightarrow> exn + string" where
  "validate_client_id value =
     (if value = [] \<or> value \<noteq> strip value
      then Inl (ValueError ''client_id must be non-empty without surrounding whitespace'') else Inr value)"

definition validate_jwks_url :: "('u \<Rightarrow> string) \<Rightarrow> 'u \<Rightarrow> exn + 'u" where
  "validate_jwks_url scheme value =
     (if scheme value \<noteq> ''https'' then Inl (ValueError ''jwks_url must use HTTPS'') else Inr value)"

definition validate_api_base_url :: "('u \<Rightarrow> string) \<Rightarrow> 'u \<Rightarrow> exn + 'u" where
  "validate_api_base_url scheme value =
     (if scheme value \<noteq> ''https'' then Inl (ValueError ''WorkOS api_base_url must use HTTPS'') else Inr value)"

definition validate_driver :: "string \<Rightarrow> string \<Rightarrow> (string \<Rightarrow> exn + string) \<Rightarrow> string \<Rightarrow> exn + string" where
  "validate_driver field expected make_url value = bind_res (make_url value) (\<lambda>driver.
     if driver \<noteq> expected then Inl (ValueError (field @ '' must use '' @ expected @ ''; got '' @ driver)) else Inr value)"

definition validate_database_url :: "(string \<Rightarrow> exn + string) \<Rightarrow> string \<Rightarrow> exn + string" where
  "validate_database_url = validate_driver ''database_url'' ASYNC_DRIVER"

definition validate_migration_database_url :: "(string \<Rightarrow> exn + string) \<Rightarrow> string \<Rightarrow> exn + string" where
  "validate_migration_database_url = validate_driver ''migration_database_url'' MIGRATION_DRIVER"

subsection \<open>What an accepted issuer is\<close>

lemma validate_issuer_id: "validate_issuer b value = Inr v \<Longrightarrow> v = value"
  by (auto simp: validate_issuer_def bind_res_eq_Inr split: if_splits)

lemma validate_issuer_iff: "validate_issuer b value = Inr v \<longleftrightarrow> v = value \<and> value \<noteq> [] \<and> strip value = value
    \<and> (\<exists>parsed. urlsplit b value = Inr parsed \<and> sr_scheme parsed = ''https'' \<and> sr_netloc parsed \<noteq> []
        \<and> userinfo parsed = (None, None) \<and> sr_query parsed = [] \<and> sr_fragment parsed = [])"
  by (auto simp: validate_issuer_def bind_res_eq_Inr prod_eq_iff split: if_splits)

end
