(* ===== verification/Doctor.thy ===== *)
theory Doctor
  imports Settings "HOL-Library.AList" "HOL-Library.List_Lexorder" "HOL-Library.Char_ord"
begin

section \<open>The environment doctor\<close>

text \<open>
  \<open>scripts/dev/doctor.py\<close>: the parser of \<open>.env\<close>, the checks of its values, the checks of the tools and \<open>main\<close>. A dictionary
  is an association list in insertion order (\<open>AList.update\<close> is \<open>d[k] = v\<close>). The machine (files, processes, search path,
  \<open>json.loads\<close> and \<open>str\<close> of a JSON value) is a parameter with its state.
\<close>

record EnvFile =
  ef_values :: "(string \<times> string) list"
  ef_line_numbers :: "(string \<times> nat list) list"
  ef_invalid_lines :: "nat list"

record Check =
  ck_level :: string
  ck_message :: string

definition check :: "string \<Rightarrow> string \<Rightarrow> Check" where
  "check level message = \<lparr>ck_level = level, ck_message = message\<rparr>"

definition PLACEHOLDER_MARKERS :: "string list" where
  "PLACEHOLDER_MARKERS = [''replace_me'', ''********'', ''<real value>'', ''<real_value>'']"

definition BASE_REQUIRED_KEYS :: "string list" where
  "BASE_REQUIRED_KEYS = [''POSTGRES_DB'', ''POSTGRES_USER'', ''POSTGRES_PASSWORD'', ''BFF_DATABASE_URL'',
     ''BFF_MIGRATION_DATABASE_URL'', ''RABBITMQ_DEFAULT_USER'', ''RABBITMQ_DEFAULT_PASS'', ''RABBITMQ_DEFAULT_VHOST'',
     ''VALKEY_PASSWORD'']"

definition AUTH_REQUIRED_KEYS :: "string list" where
  "AUTH_REQUIRED_KEYS = [''BFF_AUTH_ISSUER'', ''BFF_AUTH_CLIENT_ID'', ''BFF_AUTH_JWKS_URL'', ''BFF_WORKOS_API_KEY'']"

subsection \<open>The parser\<close>

definition key_char :: "char \<Rightarrow> bool" where
  "key_char c \<longleftrightarrow> is_ascii_alpha c \<or> is_ascii_digit c \<or> c = CHR ''_''"

definition key_ok :: "string \<Rightarrow> bool" where
  "key_ok key \<longleftrightarrow> key \<noteq> [] \<and> \<not> is_ascii_digit (hd key) \<and> list_all key_char key"

definition unquote :: "string \<Rightarrow> string" where
  "unquote value = (let value = strip value in
     if 2 \<le> length value \<and> hd value = last value \<and> hd value \<in> {CHR 0x27, CHR 0x22}
     then butlast (tl value) else value)"

definition parse_line :: "EnvFile \<Rightarrow> nat \<times> string \<Rightarrow> EnvFile" where
  "parse_line env numbered =
     (let line_number = fst numbered; line = strip (snd numbered) in
      if line = [] \<or> starts_with ''#'' line then env
      else
        (let line = (if starts_with ''export '' line then lstrip (drop 7 line) else line);
             (key, found, raw_value) = str_partition (CHR ''='') line;
             key = strip key
         in if \<not> found \<or> \<not> key_ok key
            then env\<lparr>ef_invalid_lines := ef_invalid_lines env @ [line_number]\<rparr>
            else env\<lparr>ef_line_numbers := AList.update key
                        ((case map_of (ef_line_numbers env) key of None \<Rightarrow> [] | Some lines \<Rightarrow> lines) @ [line_number])
                        (ef_line_numbers env),
                     ef_values := AList.update key (unquote raw_value) (ef_values env)\<rparr>))"

definition empty_env :: EnvFile where
  "empty_env = \<lparr>ef_values = [], ef_line_numbers = [], ef_invalid_lines = []\<rparr>"

definition parse_env_file :: "string \<Rightarrow> EnvFile" where
  "parse_env_file source = foldl parse_line empty_env (enumerate 1 (splitlines source))"

subsection \<open>The checks of the values\<close>

definition is_placeholder :: "string \<Rightarrow> bool" where
  "is_placeholder value =
     (let lowered = casefold value in list_ex (\<lambda>marker. contains_text (casefold marker) lowered) PLACEHOLDER_MARKERS)"

lemma is_placeholder_code [code]:
  "is_placeholder value = (let lowered = casefold value in list_ex (\<lambda>marker. contains_text marker lowered) PLACEHOLDER_MARKERS)"
proof -
  have "map casefold PLACEHOLDER_MARKERS = PLACEHOLDER_MARKERS" by code_simp
  moreover have "list_ex (\<lambda>m. contains_text (casefold m) t) ms = list_ex (\<lambda>m. contains_text m t) (map casefold ms)" for t ms
    by (induction ms) auto
  ultimately show ?thesis unfolding is_placeholder_def Let_def by simp
qed

definition required_key_checks :: "EnvFile \<Rightarrow> string list \<Rightarrow> Check list" where
  "required_key_checks env required = concat (map (\<lambda>key.
     case map_of (ef_values env) key of
       None \<Rightarrow> [check ''FAIL'' (''missing required environment key '' @ key)]
     | Some value \<Rightarrow> if strip value = [] then [check ''FAIL'' (''missing required environment key '' @ key)] else []) required)"

definition env_get :: "EnvFile \<Rightarrow> string \<Rightarrow> string" where
  "env_get env key = (case map_of (ef_values env) key of None \<Rightarrow> [] | Some value \<Rightarrow> value)"

definition fail_if :: "bool \<Rightarrow> string \<Rightarrow> Check list" where
  "fail_if b message = (if b then [check ''FAIL'' message] else [])"

definition numbers :: "nat list \<Rightarrow> string" where
  "numbers lines = join '', '' (map nat_str lines)"

definition duplicate_checks :: "EnvFile \<Rightarrow> Check list" where
  "duplicate_checks env = concat (map (\<lambda>(key, lines).
     fail_if (1 < length lines) (''duplicate .env key '' @ key @ '' on lines '' @ numbers lines)) (sort_key fst (ef_line_numbers env)))"

definition placeholder_keys :: "EnvFile \<Rightarrow> string list" where
  "placeholder_keys env = sort (map fst (filter (\<lambda>(_, value). is_placeholder value) (ef_values env)))"

definition base_checks :: "EnvFile \<Rightarrow> string \<Rightarrow> Check list" where
  "base_checks env profile =
     fail_if (ef_invalid_lines env \<noteq> []) (''invalid .env syntax on line(s): '' @ numbers (ef_invalid_lines env))
     @ duplicate_checks env
     @ required_key_checks env BASE_REQUIRED_KEYS
     @ (let runtime_url = env_get env ''BFF_DATABASE_URL'' in
        fail_if (runtime_url \<noteq> [] \<and> \<not> starts_with ''postgresql+asyncpg://'' runtime_url)
          ''BFF_DATABASE_URL must use postgresql+asyncpg'')
     @ (let migration_url = env_get env ''BFF_MIGRATION_DATABASE_URL'' in
        fail_if (migration_url \<noteq> [] \<and> \<not> starts_with ''postgresql+psycopg://'' migration_url)
          ''BFF_MIGRATION_DATABASE_URL must use postgresql+psycopg'')
     @ (if placeholder_keys env \<noteq> []
        then [check (if profile = ''auth'' then ''FAIL'' else ''WARN'')
               (''placeholder value(s) remain in: '' @ join '', '' (placeholder_keys env))] else [])"

text \<open>The two checks of a URL that must identify the client: \<open>urlsplit\<close> may raise.\<close>

definition url_checks :: "(string \<Rightarrow> bool) \<Rightarrow> string \<Rightarrow> string \<Rightarrow> string \<Rightarrow> exn + Check list" where
  "url_checks brackets_ok key url client_id =
     (if url = [] then Inr []
      else bind_res (urlsplit brackets_ok url) (\<lambda>parsed.
        Inr (fail_if (sr_scheme parsed \<noteq> ''https'' \<or> sr_netloc parsed = []) (key @ '' must be an HTTPS URL'')
          @ fail_if (client_id \<noteq> [] \<and> \<not> contains_text client_id url) (key @ '' must identify the configured client ID''))))"

definition auth_checks :: "(string \<Rightarrow> bool) \<Rightarrow> EnvFile \<Rightarrow> exn + Check list" where
  "auth_checks brackets_ok env =
     (let client_id = env_get env ''BFF_AUTH_CLIENT_ID''; issuer = env_get env ''BFF_AUTH_ISSUER'';
          jwks_url = env_get env ''BFF_AUTH_JWKS_URL''; api_key = env_get env ''BFF_WORKOS_API_KEY''
      in bind_res (url_checks brackets_ok ''BFF_AUTH_ISSUER'' issuer client_id) (\<lambda>issuer_checks.
         bind_res (url_checks brackets_ok ''BFF_AUTH_JWKS_URL'' jwks_url client_id) (\<lambda>jwks_checks.
         Inr (required_key_checks env AUTH_REQUIRED_KEYS
           @ fail_if (client_id \<noteq> [] \<and> \<not> starts_with ''client_'' client_id) ''BFF_AUTH_CLIENT_ID must be a WorkOS client ID''
           @ issuer_checks @ jwks_checks
           @ fail_if (api_key \<noteq> [] \<and> \<not> (starts_with ''sk_test_'' api_key \<or> starts_with ''sk_live_'' api_key))
               ''BFF_WORKOS_API_KEY has an unexpected prefix''))))"

definition environment_checks :: "(string \<Rightarrow> bool) \<Rightarrow> EnvFile \<Rightarrow> string \<Rightarrow> exn + Check list" where
  "environment_checks brackets_ok env profile =
     (if profile \<noteq> ''auth'' then Inr (base_checks env profile)
      else bind_res (auth_checks brackets_ok env) (\<lambda>checks. Inr (base_checks env profile @ checks)))"

subsection \<open>The checks of the tools\<close>

text \<open>Paths are relative to the repository root, where commands run; \<open>m_python\<close> is \<open>major.minor\<close> of the interpreter.\<close>

record 'w Machine =
  m_exists :: "string \<Rightarrow> 'w \<Rightarrow> bool"
  m_read_text :: "string \<Rightarrow> ('w, string) tx"
  m_which :: "string \<Rightarrow> 'w \<Rightarrow> string option"
  m_run :: "string list \<Rightarrow> ('w, CompletedProcess) tx"
  m_python :: string
  m_json_loads :: "string \<Rightarrow> exn + json"
  m_str :: "json \<Rightarrow> string"

definition tool_check :: "'w Machine \<Rightarrow> string \<Rightarrow> string list \<Rightarrow> ('w, Check) tx" where
  "tool_check machine executable command w =
     (if m_which machine executable w = None
      then ret_tx (check ''FAIL'' (''required tool is not on PATH: '' @ executable)) w
      else bind_tx (m_run machine command) (\<lambda>result.
        ret_tx (if cp_returncode result \<noteq> 0
          then check ''FAIL'' (''required tool command failed: '' @ join '' '' command)
          else check ''PASS'' (''tool available: '' @ executable))) w)"

text \<open>A tool whose version is compared with the one the repository asks for: nothing is said when its command fails.\<close>

definition version_check :: "string \<Rightarrow> CompletedProcess \<Rightarrow> string \<Rightarrow> string \<Rightarrow> Check list" where
  "version_check tool result actual expected =
     (if cp_returncode result = 0 \<and> actual \<noteq> expected
      then [check ''FAIL'' (tool @ '' '' @ actual @ '' is active; repository requires '' @ expected)]
      else if cp_returncode result = 0 then [check ''PASS'' (tool @ '' version matches '' @ expected)] else [])"

definition node_checks :: "'w Machine \<Rightarrow> ('w, Check list) tx" where
  "node_checks machine w =
     (if m_which machine ''node'' w = None then ret_tx [] w
      else bind_tx (m_read_text machine ''.node-version'') (\<lambda>source.
           bind_tx (m_run machine [''node'', ''--version'']) (\<lambda>result.
           ret_tx (version_check ''Node'' result (removeprefix ''v'' (strip (cp_stdout result))) (strip source)))) w)"

definition expected_pnpm :: "'w Machine \<Rightarrow> string \<Rightarrow> exn + string" where
  "expected_pnpm machine source = bind_res (m_json_loads machine source) (\<lambda>package.
     case package of
       JObj items \<Rightarrow> Inr (removeprefix ''pnpm@'' (case map_of items ''packageManager'' of
           None \<Rightarrow> [] | Some (JStr s) \<Rightarrow> s | Some v \<Rightarrow> m_str machine v))
     | _ \<Rightarrow> Inl (AttributeError ''get''))"

definition pnpm_checks :: "'w Machine \<Rightarrow> ('w, Check list) tx" where
  "pnpm_checks machine w =
     (if m_which machine ''pnpm'' w = None then ret_tx [] w
      else bind_tx (m_read_text machine ''package.json'') (\<lambda>source.
           bind_tx (lift_tx (expected_pnpm machine source)) (\<lambda>expected.
           bind_tx (m_run machine [''pnpm'', ''--version'']) (\<lambda>result.
           ret_tx (version_check ''pnpm'' result (strip (cp_stdout result)) expected)))) w)"

definition version_checks :: "'w Machine \<Rightarrow> ('w, Check list) tx" where
  "version_checks machine =
     bind_tx (m_read_text machine ''.python-version'') (\<lambda>source.
     let expected_python = strip source; actual_python = m_python machine;
         python = (if actual_python \<noteq> expected_python
           then check ''FAIL'' (''Python '' @ actual_python @ '' is active; repository requires '' @ expected_python)
           else check ''PASS'' (''Python version matches '' @ expected_python))
     in bind_tx (tool_check machine ''uv'' [''uv'', ''--version'']) (\<lambda>uv.
        bind_tx (tool_check machine ''node'' [''node'', ''--version'']) (\<lambda>node.
        bind_tx (tool_check machine ''pnpm'' [''pnpm'', ''--version'']) (\<lambda>pnpm.
        bind_tx (tool_check machine ''docker'' [''docker'', ''compose'', ''version'']) (\<lambda>docker.
        bind_tx (node_checks machine) (\<lambda>node_version.
        bind_tx (pnpm_checks machine) (\<lambda>pnpm_version.
        ret_tx ([python, uv, node, pnpm, docker] @ node_version @ pnpm_version))))))))"

definition compose_check :: "'w Machine \<Rightarrow> ('w, Check) tx" where
  "compose_check machine w =
     (if m_which machine ''docker'' w = None
      then ret_tx (check ''FAIL'' ''cannot validate Compose because docker is unavailable'') w
      else bind_tx (m_run machine [''docker'', ''compose'', ''--env-file'', ''.env'', ''config'', ''--quiet'']) (\<lambda>result.
        ret_tx (if cp_returncode result \<noteq> 0 then check ''FAIL'' ''docker compose configuration is invalid''
          else check ''PASS'' ''docker compose configuration is valid'')) w)"

text \<open>What \<open>main\<close> prints, and its exit status.\<close>

definition doctor_report :: "Check list \<Rightarrow> string list \<times> int" where
  "doctor_report checks =
     (let failures = length (filter (\<lambda>c. ck_level c = ''FAIL'') checks);
          warnings = length (filter (\<lambda>c. ck_level c = ''WARN'') checks);
          lines = map (\<lambda>c. ''['' @ ck_level c @ ''] '' @ ck_message c) checks
      in if failures \<noteq> 0
         then (lines @ [''doctor failed: '' @ nat_str failures @ '' failure(s), '' @ nat_str warnings @ '' warning(s)''], 1)
         else (lines @ [''doctor passed: '' @ nat_str warnings @ '' warning(s)''], 0))"

definition doctor_main :: "(string \<Rightarrow> bool) \<Rightarrow> 'w Machine \<Rightarrow> string \<Rightarrow> ('w, string list \<times> int) tx" where
  "doctor_main brackets_ok machine profile =
     bind_tx (query_tx (m_exists machine ''.env'')) (\<lambda>env_exists.
     bind_tx (if \<not> env_exists then ret_tx [check ''FAIL'' ''.env does not exist; copy .env.example first'']
              else bind_tx (m_read_text machine ''.env'') (\<lambda>source.
                   lift_tx (environment_checks brackets_ok (parse_env_file source) profile))) (\<lambda>env_checks.
     bind_tx (version_checks machine) (\<lambda>tool_checks.
     bind_tx (query_tx (m_exists machine ''.env'')) (\<lambda>env_exists.
     bind_tx (if env_exists then bind_tx (compose_check machine) (\<lambda>c. ret_tx [c]) else ret_tx []) (\<lambda>compose_checks.
     ret_tx (doctor_report (env_checks @ tool_checks @ compose_checks)))))))"

subsection \<open>What a passing doctor guarantees\<close>

definition no_fail :: "Check list \<Rightarrow> bool" where
  "no_fail checks \<longleftrightarrow> list_all (\<lambda>c. ck_level c \<noteq> ''FAIL'') checks"

lemma no_fail_append [simp]: "no_fail (xs @ ys) \<longleftrightarrow> no_fail xs \<and> no_fail ys"
  by (simp add: no_fail_def)

lemma no_fail_Nil [simp]: "no_fail []"
  by (simp add: no_fail_def)

lemma no_fail_concat [simp]: "no_fail (concat xss) \<longleftrightarrow> (\<forall>xs \<in> set xss. no_fail xs)"
  by (induction xss) simp_all

lemma no_fail_one [simp]: "no_fail [check level message] \<longleftrightarrow> level \<noteq> ''FAIL''"
  by (simp add: no_fail_def check_def)

lemma no_fail_if [simp]: "no_fail (fail_if b message) \<longleftrightarrow> \<not> b"
  by (simp add: fail_if_def)

lemma doctor_report_status: "snd (doctor_report checks) = 0 \<longleftrightarrow> no_fail checks" "snd (doctor_report checks) \<in> {0, 1}"
  by (auto simp: doctor_report_def Let_def no_fail_def list_all_iff filter_empty_conv)

text \<open>A required key has a value that is not blank.\<close>

definition present :: "EnvFile \<Rightarrow> string \<Rightarrow> bool" where
  "present env key \<longleftrightarrow> (\<exists>value. map_of (ef_values env) key = Some value \<and> strip value \<noteq> [])"

lemma no_fail_required [simp]: "no_fail (required_key_checks env required) \<longleftrightarrow> (\<forall>key \<in> set required. present env key)"
  by (auto simp: required_key_checks_def present_def split: option.splits)

lemma no_fail_duplicates [simp]:
  "no_fail (duplicate_checks env) \<longleftrightarrow> (\<forall>(key, lines) \<in> set (ef_line_numbers env). length lines \<le> 1)"
  by (auto simp: duplicate_checks_def not_less)

lemma present_get: "present env key \<Longrightarrow> env_get env key \<noteq> [] \<and> strip (env_get env key) \<noteq> []"
  by (auto simp: present_def env_get_def)

lemma placeholder_keys_Nil: "placeholder_keys env = [] \<longleftrightarrow> (\<forall>(key, value) \<in> set (ef_values env). \<not> is_placeholder value)"
proof -
  have "placeholder_keys env = [] \<longleftrightarrow> set (placeholder_keys env) = {}" by simp
  also have "\<dots> \<longleftrightarrow> (\<forall>(key, value) \<in> set (ef_values env). \<not> is_placeholder value)"
    by (auto simp: placeholder_keys_def simp del: sort_key_simps)
  finally show ?thesis .
qed

definition https_for :: "(string \<Rightarrow> bool) \<Rightarrow> string \<Rightarrow> string \<Rightarrow> bool" where
  "https_for brackets_ok client_id url \<longleftrightarrow> (\<exists>parsed. urlsplit brackets_ok url = Inr parsed
     \<and> sr_scheme parsed = ''https'' \<and> sr_netloc parsed \<noteq> [] \<and> (\<exists>a b. url = a @ client_id @ b))"

text \<open>The environment of a configured identity provider.\<close>

definition auth_ready :: "(string \<Rightarrow> bool) \<Rightarrow> EnvFile \<Rightarrow> bool" where
  "auth_ready brackets_ok env \<longleftrightarrow> ef_invalid_lines env = []
     \<and> (\<forall>(key, lines) \<in> set (ef_line_numbers env). length lines \<le> 1)
     \<and> (\<forall>key \<in> set (BASE_REQUIRED_KEYS @ AUTH_REQUIRED_KEYS). present env key)
     \<and> (\<forall>(key, value) \<in> set (ef_values env). \<not> is_placeholder value)
     \<and> starts_with (ASYNC_DRIVER @ ''://'') (env_get env ''BFF_DATABASE_URL'')
     \<and> starts_with (MIGRATION_DRIVER @ ''://'') (env_get env ''BFF_MIGRATION_DATABASE_URL'')
     \<and> starts_with ''client_'' (env_get env ''BFF_AUTH_CLIENT_ID'')
     \<and> https_for brackets_ok (env_get env ''BFF_AUTH_CLIENT_ID'') (env_get env ''BFF_AUTH_ISSUER'')
     \<and> https_for brackets_ok (env_get env ''BFF_AUTH_CLIENT_ID'') (env_get env ''BFF_AUTH_JWKS_URL'')
     \<and> (starts_with ''sk_test_'' (env_get env ''BFF_WORKOS_API_KEY'') \<or> starts_with ''sk_live_'' (env_get env ''BFF_WORKOS_API_KEY''))"

lemma base_checks_auth: "no_fail (base_checks env ''auth'') \<longleftrightarrow> ef_invalid_lines env = []
     \<and> (\<forall>(key, lines) \<in> set (ef_line_numbers env). length lines \<le> 1)
     \<and> (\<forall>key \<in> set BASE_REQUIRED_KEYS. present env key)
     \<and> starts_with (ASYNC_DRIVER @ ''://'') (env_get env ''BFF_DATABASE_URL'')
     \<and> starts_with (MIGRATION_DRIVER @ ''://'') (env_get env ''BFF_MIGRATION_DATABASE_URL'')
     \<and> (\<forall>(key, value) \<in> set (ef_values env). \<not> is_placeholder value)"
proof -
  have b: "(\<forall>key \<in> set BASE_REQUIRED_KEYS. present env key) \<Longrightarrow>
      env_get env ''BFF_DATABASE_URL'' \<noteq> [] \<and> env_get env ''BFF_MIGRATION_DATABASE_URL'' \<noteq> []"
    using present_get by (auto simp: BASE_REQUIRED_KEYS_def)
  have d: "ASYNC_DRIVER @ ''://'' = ''postgresql+asyncpg://''" "MIGRATION_DRIVER @ ''://'' = ''postgresql+psycopg://''"
    by (simp_all add: ASYNC_DRIVER_def MIGRATION_DRIVER_def)
  show ?thesis unfolding base_checks_def d Let_def placeholder_keys_Nil[symmetric] no_fail_append no_fail_if no_fail_required
      no_fail_duplicates using b by (cases "placeholder_keys env = []") auto
qed

lemma url_checks_ok:
  assumes "url \<noteq> []" "client_id \<noteq> []" "url_checks brackets_ok key url client_id = Inr cs"
  shows "no_fail cs \<longleftrightarrow> https_for brackets_ok client_id url"
  unfolding https_for_def contains_text_iff[symmetric] using assms by (auto simp: url_checks_def bind_res_eq_Inr)

lemma environment_checks_auth:
  assumes "environment_checks brackets_ok env ''auth'' = Inr checks"
  shows "no_fail checks \<longleftrightarrow> auth_ready brackets_ok env"
proof -
  let ?c = "env_get env ''BFF_AUTH_CLIENT_ID''" and ?i = "env_get env ''BFF_AUTH_ISSUER''"
    and ?j = "env_get env ''BFF_AUTH_JWKS_URL''" and ?k = "env_get env ''BFF_WORKOS_API_KEY''"
  obtain ics jcs where u: "url_checks brackets_ok ''BFF_AUTH_ISSUER'' ?i ?c = Inr ics"
      "url_checks brackets_ok ''BFF_AUTH_JWKS_URL'' ?j ?c = Inr jcs"
    and c: "checks = base_checks env ''auth'' @ required_key_checks env AUTH_REQUIRED_KEYS
      @ fail_if (?c \<noteq> [] \<and> \<not> starts_with ''client_'' ?c) ''BFF_AUTH_CLIENT_ID must be a WorkOS client ID'' @ ics @ jcs
      @ fail_if (?k \<noteq> [] \<and> \<not> (starts_with ''sk_test_'' ?k \<or> starts_with ''sk_live_'' ?k)) ''BFF_WORKOS_API_KEY has an unexpected prefix''"
    using assms by (auto simp: environment_checks_def auth_checks_def Let_def bind_res_eq_Inr)
  show ?thesis
  proof (cases "\<forall>key \<in> set AUTH_REQUIRED_KEYS. present env key")
    case True
    then have ne: "?c \<noteq> []" "?i \<noteq> []" "?j \<noteq> []" "?k \<noteq> []" using present_get by (auto simp: AUTH_REQUIRED_KEYS_def)
    show ?thesis unfolding c no_fail_append no_fail_if no_fail_required base_checks_auth
        url_checks_ok[OF ne(2,1) u(1)] url_checks_ok[OF ne(3,1) u(2)] auth_ready_def set_append ball_Un
      using ne True by blast
  next
    case False
    then show ?thesis unfolding c no_fail_append no_fail_required auth_ready_def set_append ball_Un by blast
  qed
qed

text \<open>C39: the doctor and the settings agree: when the doctor exits with 0 for the authentication profile, \<open>.env\<close> exists, has no
  invalid line, no duplicate key and no placeholder, every required key has a value, both database URLs name the drivers the
  settings require, the issuer and the key set are HTTPS URLs that name the WorkOS client, the API key has a WorkOS prefix;
  and the application then accepts the issuer exactly when it has no surrounding white space, credentials, query or fragment.\<close>

theorem doctor_auth_passed:
  assumes "doctor_main brackets_ok machine ''auth'' w = Inr ((lines, 0), w')"
  shows "m_exists machine ''.env'' w \<and> (\<exists>source w1. m_read_text machine ''.env'' w = Inr (source, w1)
    \<and> auth_ready brackets_ok (parse_env_file source)
    \<and> (let issuer = env_get (parse_env_file source) ''BFF_AUTH_ISSUER'' in
        validate_issuer brackets_ok issuer = Inr issuer \<longleftrightarrow> strip issuer = issuer
          \<and> (\<exists>parsed. urlsplit brackets_ok issuer = Inr parsed \<and> userinfo parsed = (None, None)
              \<and> sr_query parsed = [] \<and> sr_fragment parsed = [])))"
proof (cases "m_exists machine ''.env'' w")
  case False
  obtain rest where "doctor_report (check ''FAIL'' ''.env does not exist; copy .env.example first'' # rest) = (lines, 0)"
    using assms False by (auto simp: doctor_main_def bind_tx_eq_Inr)
  then have "no_fail (check ''FAIL'' ''.env does not exist; copy .env.example first'' # rest)"
    by (metis doctor_report_status(1) snd_conv)
  then show ?thesis by (simp add: no_fail_def check_def)
next
  case True
  obtain source w1 cs rest where s: "m_read_text machine ''.env'' w = Inr (source, w1)"
      "environment_checks brackets_ok (parse_env_file source) ''auth'' = Inr cs"
      "doctor_report (cs @ rest) = (lines, 0)"
    using assms True by (auto simp: doctor_main_def bind_tx_eq_Inr lift_tx_eq_Inr)
  have "no_fail (cs @ rest)" using s(3) by (metis doctor_report_status(1) snd_conv)
  then have ready: "auth_ready brackets_ok (parse_env_file source)"
    using environment_checks_auth[OF s(2)] by simp
  let ?i = "env_get (parse_env_file source) ''BFF_AUTH_ISSUER''"
  have h: "https_for brackets_ok (env_get (parse_env_file source) ''BFF_AUTH_CLIENT_ID'') ?i"
    "present (parse_env_file source) ''BFF_AUTH_ISSUER''"
    using ready unfolding auth_ready_def by (simp_all add: AUTH_REQUIRED_KEYS_def)
  then have "?i \<noteq> []" using present_get by blast
  then have "validate_issuer brackets_ok ?i = Inr ?i \<longleftrightarrow> strip ?i = ?i
      \<and> (\<exists>parsed. urlsplit brackets_ok ?i = Inr parsed \<and> userinfo parsed = (None, None)
          \<and> sr_query parsed = [] \<and> sr_fragment parsed = [])"
    using h(1) by (auto simp: validate_issuer_iff https_for_def)
  then show ?thesis using True s(1) ready by (simp add: Let_def)
qed

subsection \<open>The parser reads what is written\<close>

text \<open>A file with one quoted assignment on each line.\<close>

definition env_line :: "string \<times> string \<Rightarrow> string" where
  "env_line kv = fst kv @ ''='' @ [CHR 0x22] @ snd kv @ [CHR 0x22]"

definition env_source :: "(string \<times> string) list \<Rightarrow> string" where
  "env_source kvs = concat (map (\<lambda>kv. env_line kv @ [CHR 0x0A]) kvs)"

definition line_safe :: "string \<Rightarrow> bool" where
  "line_safe s \<longleftrightarrow> list_all (\<lambda>c. \<not> line_break c) s"

lemma splitlines_line:
  assumes "line_safe l"
  shows "splitlines (l @ CHR 0x0A # rest) = l # splitlines rest"
proof -
  have nl: "line_break (CHR 0x0A)" by (simp add: line_break_def)
  have t: "takeWhile (\<lambda>c. \<not> line_break c) (l @ CHR 0x0A # rest) = l"
    "dropWhile (\<lambda>c. \<not> line_break c) (l @ CHR 0x0A # rest) = CHR 0x0A # rest"
    using assms nl by (induction l) (auto simp: line_safe_def)
  show ?thesis by (subst splitlines.simps) (simp add: t)
qed

lemma key_char_safe: "key_char c \<Longrightarrow> \<not> line_break c \<and> \<not> is_space c \<and> c \<noteq> CHR ''='' \<and> c \<noteq> CHR ''#''"
  by (auto simp: key_char_def is_ascii_alpha_def is_ascii_digit_def line_break_def is_space_def)

lemma key_ok_trimmed: "key_ok key \<Longrightarrow> strip key = key"
proof (rule strip_trimmed_id)
  assume k: "key_ok key"
  then have "key_char (hd key)" "key_char (last key)" by (auto simp: key_ok_def list_all_iff)
  then show "trimmed key" by (simp add: trimmed_def key_char_safe)
qed

lemma env_line_trimmed: "key_ok (fst kv) \<Longrightarrow> strip (env_line kv) = env_line kv"
proof (rule strip_trimmed_id)
  assume k: "key_ok (fst kv)"
  have "hd (env_line kv) = hd (fst kv)" "last (env_line kv) = CHR 0x22" "env_line kv \<noteq> []"
    using k by (auto simp: env_line_def key_ok_def)
  moreover have "key_char (hd (fst kv))" using k by (auto simp: key_ok_def list_all_iff)
  moreover have "\<not> is_space (CHR 0x22)" by (simp add: is_space_def)
  ultimately show "trimmed (env_line kv)" by (simp add: trimmed_def key_char_safe)
qed

lemma env_line_partition: "key_ok (fst kv) \<Longrightarrow>
    str_partition (CHR ''='') (env_line kv) = (fst kv, True, CHR 0x22 # snd kv @ [CHR 0x22])"
proof -
  assume k: "key_ok (fst kv)"
  have t: "takeWhile (\<lambda>c. c \<noteq> CHR ''='') (fst kv @ CHR ''='' # CHR 0x22 # snd kv @ [CHR 0x22]) = fst kv"
    using k key_char_safe by (simp add: key_ok_def list_all_iff takeWhile_tail)
  show ?thesis by (simp add: str_partition_def env_line_def t Let_def)
qed

lemma env_line_plain: "key_ok (fst kv) \<Longrightarrow> \<not> starts_with ''#'' (env_line kv) \<and> \<not> starts_with ''export '' (env_line kv)"
proof -
  assume k: "key_ok (fst kv)"
  have kc: "\<forall>c \<in> set (fst kv). key_char c" using k by (auto simp: key_ok_def list_all_iff)
  have "\<not> starts_with ''#'' (env_line kv)"
    using k kc key_char_safe by (cases "fst kv") (auto simp: env_line_def starts_with_def key_ok_def)
  moreover have "\<not> starts_with ''export '' (env_line kv)"
  proof
    assume "starts_with ''export '' (env_line kv)"
    then have t: "take 7 (env_line kv) = ''export ''" by (simp add: starts_with_def eval_nat_numeral)
    show False
    proof (cases "7 \<le> length (fst kv)")
      case True
      then have "take 7 (fst kv) = ''export ''" using t by (simp add: env_line_def)
      then have "CHR '' '' \<in> set (fst kv)" by (metis in_set_takeD list.set_intros(1) list.set_intros(2))
      then have "key_char (CHR '' '')" using kc by blast
      then show False by (simp add: key_char_def is_ascii_alpha_def is_ascii_digit_def)
    next
      case False
      obtain n where "7 - length (fst kv) = Suc n" using False by (cases "7 - length (fst kv)") auto
      then have "take 7 (env_line kv) ! length (fst kv) = CHR ''=''" using False by (simp add: env_line_def nth_append)
      moreover have "length (fst kv) < length (take 7 (env_line kv))" using False by (simp add: env_line_def)
      ultimately have "CHR ''='' \<in> set ''export ''" unfolding t by (metis nth_mem)
      then show False by simp
    qed
  qed
  ultimately show ?thesis by simp
qed

lemma unquote_quoted: "unquote (CHR 0x22 # v @ [CHR 0x22]) = v"
proof -
  have "strip (CHR 0x22 # v @ [CHR 0x22]) = CHR 0x22 # v @ [CHR 0x22]"
    by (rule strip_trimmed_id) (simp add: trimmed_def is_space_def)
  then show ?thesis by (simp add: unquote_def)
qed

lemma parse_env_line:
  assumes "key_ok (fst kv)" "map_of (ef_values env) (fst kv) = None" "map_of (ef_line_numbers env) (fst kv) = None"
  shows "parse_line env (n, env_line kv) = env\<lparr>ef_line_numbers := ef_line_numbers env @ [(fst kv, [n])],
    ef_values := ef_values env @ [kv]\<rparr>"
proof -
  have up: "AList.update k v d = d @ [(k, v)]" if "map_of d k = None" for k :: string and v :: 'x and d
    using that by (induction d) (auto split: if_splits)
  have ne: "env_line kv \<noteq> []" by (simp add: env_line_def)
  show ?thesis unfolding parse_line_def Let_def fst_conv snd_conv
    using env_line_plain[OF assms(1)] ne assms
    by (simp add: env_line_trimmed env_line_partition key_ok_trimmed unquote_quoted up)
qed

lemma parse_env_lines:
  assumes "list_all (\<lambda>kv. key_ok (fst kv) \<and> line_safe (snd kv)) kvs" "distinct (map fst kvs)"
    and "\<forall>k \<in> fst ` set kvs. map_of (ef_values env) k = None \<and> map_of (ef_line_numbers env) k = None"
  shows "foldl parse_line env (enumerate n (splitlines (env_source kvs))) =
    env\<lparr>ef_line_numbers := ef_line_numbers env @ map (\<lambda>(i, kv). (fst kv, [i])) (enumerate n kvs),
        ef_values := ef_values env @ kvs\<rparr>"
  using assms
proof (induction kvs arbitrary: env n)
  case (Cons kv kvs)
  have k: "key_ok (fst kv)" "line_safe (snd kv)" using Cons.prems(1) by simp_all
  have "line_safe (env_line kv)"
    using k key_char_safe by (auto simp: line_safe_def env_line_def key_ok_def list_all_iff line_break_def)
  then have sp: "splitlines (env_source (kv # kvs)) = env_line kv # splitlines (env_source kvs)"
    using splitlines_line by (simp add: env_source_def)
  define env' where "env' = env\<lparr>ef_line_numbers := ef_line_numbers env @ [(fst kv, [n])], ef_values := ef_values env @ [kv]\<rparr>"
  have p: "parse_line env (n, env_line kv) = env'"
    unfolding env'_def by (rule parse_env_line[OF k(1)]) (use Cons.prems(3) in simp_all)
  have "\<forall>key \<in> fst ` set kvs. map_of (ef_values env') key = None \<and> map_of (ef_line_numbers env') key = None"
  proof
    fix key assume key: "key \<in> fst ` set kvs"
    then have "key \<noteq> fst kv" using Cons.prems(2) by (metis distinct.simps(2) list.simps(9) list.set_map)
    moreover have "map_of (ef_values env) key = None" "map_of (ef_line_numbers env) key = None"
      using Cons.prems(3) key by auto
    ultimately show "map_of (ef_values env') key = None \<and> map_of (ef_line_numbers env') key = None" by (cases kv) (simp add: env'_def map_add_def)
  qed
  then have "foldl parse_line env' (enumerate (Suc n) (splitlines (env_source kvs))) =
      env'\<lparr>ef_line_numbers := ef_line_numbers env' @ map (\<lambda>(i, kv). (fst kv, [i])) (enumerate (Suc n) kvs),
           ef_values := ef_values env' @ kvs\<rparr>"
    using Cons.IH[of env' "Suc n"] Cons.prems(1,2) by simp
  then show ?case unfolding sp by (simp add: p) (simp add: env'_def)
qed (simp add: env_source_def)

text \<open>The parser of .env reads back what is written: for valid, distinct keys and any values without a line break, a file
  with a quoted assignment on each line is parsed to exactly these keys and values in their order, each key on its own
  line, with no invalid line.\<close>

theorem env_round_trip:
  assumes "list_all (\<lambda>kv. key_ok (fst kv) \<and> line_safe (snd kv)) kvs" "distinct (map fst kvs)"
  shows "parse_env_file (env_source kvs) = \<lparr>ef_values = kvs,
    ef_line_numbers = map (\<lambda>(i, kv). (fst kv, [i])) (enumerate 1 kvs), ef_invalid_lines = []\<rparr>"
  unfolding parse_env_file_def using parse_env_lines[OF assms, of empty_env 1] by (simp add: empty_env_def)

subsection \<open>Witnesses\<close>

definition sample_env_values :: "(string \<times> string) list" where
  "sample_env_values =
    [(''POSTGRES_DB'', ''x''), (''POSTGRES_USER'', ''x''), (''POSTGRES_PASSWORD'', ''x''), (''BFF_DATABASE_URL'',
     ''postgresql+asyncpg://''), (''BFF_MIGRATION_DATABASE_URL'', ''postgresql+psycopg://''),
     (''RABBITMQ_DEFAULT_USER'', ''x''), (''RABBITMQ_DEFAULT_PASS'', ''x''), (''RABBITMQ_DEFAULT_VHOST'', ''x''),
     (''VALKEY_PASSWORD'', ''x''), (''BFF_AUTH_ISSUER'', ''https://h/client_''), (''BFF_AUTH_CLIENT_ID'',
     ''client_''), (''BFF_AUTH_JWKS_URL'', ''https://h/client_''), (''BFF_WORKOS_API_KEY'', ''sk_test_'')]"

lemma sample_env_safe:
  "list_all (\<lambda>kv. key_ok (fst kv) \<and> line_safe (snd kv)) sample_env_values" "distinct (map fst sample_env_values)"
  by code_simp+

theorem env_round_trip_witness: "ef_values (parse_env_file (env_source sample_env_values)) = sample_env_values"
  using env_round_trip[OF sample_env_safe] by simp

text \<open>A machine on which every tool is present and its versions are those of the repository.\<close>

definition sample_machine :: "string \<Rightarrow> unit Machine" where
  "sample_machine env = \<lparr>m_exists = (\<lambda>_ _. True),
     m_read_text = (\<lambda>path. ret_tx (if path = ''.env'' then env else if path = ''.python-version'' then ''3.13'' else ''1'')),
     m_which = (\<lambda>_ _. Some ''/usr/bin/tool''),
     m_run = (\<lambda>_. ret_tx \<lparr>cp_returncode = 0, cp_stdout = ''1'', cp_stderr = []\<rparr>), m_python = ''3.13'',
     m_json_loads = (\<lambda>_. Inr (JObj [(''packageManager'', JStr ''pnpm@1'')])), m_str = (\<lambda>_. [])\<rparr>"

definition sample_env :: EnvFile where
  "sample_env = \<lparr>ef_values = sample_env_values, ef_line_numbers = map (\<lambda>(i, kv). (fst kv, [i])) (enumerate 1 sample_env_values),
     ef_invalid_lines = []\<rparr>"

lemma sample_env_parsed: "parse_env_file (env_source sample_env_values) = sample_env"
  unfolding parse_env_file_def using parse_env_lines[OF sample_env_safe, of empty_env 1]
  by (simp add: empty_env_def sample_env_def)

lemma sample_env_checks: "environment_checks (\<lambda>_. True) sample_env ''auth'' = Inr []"
  by code_simp

lemma sample_doctor_passes:
  "\<exists>lines. doctor_main (\<lambda>_. True) (sample_machine (env_source sample_env_values)) ''auth'' () = Inr ((lines, 0), ())"
proof -
  have tools: "version_checks (sample_machine x) () = Inr
      (map (check ''PASS'') [''Python version matches 3.13'', ''tool available: uv'', ''tool available: node'', ''tool available: pnpm'',
         ''tool available: docker'', ''Node version matches 1'', ''pnpm version matches 1''], ())" for x
    by code_simp
  have comp: "compose_check (sample_machine x) () = Inr (check ''PASS'' ''docker compose configuration is valid'', ())" for x
    by (simp add: compose_check_def sample_machine_def bind_tx_def)
  have m: "m_exists (sample_machine x) ''.env'' () = True" "m_read_text (sample_machine x) ''.env'' () = Inr (x, ())" for x
    by (simp_all add: sample_machine_def)
  have "\<exists>checks. no_fail checks \<and>
      doctor_main (\<lambda>_. True) (sample_machine (env_source sample_env_values)) ''auth'' () = Inr (doctor_report checks, ())"
    by (simp add: doctor_main_def m sample_env_parsed sample_env_checks tools comp)
       (rule exI, rule conjI[rotated], rule refl, simp add: no_fail_def check_def)
  then show ?thesis using doctor_report_status(1) by (metis prod.collapse)
qed

theorem doctor_auth_passed_witness:
  "\<exists>source. auth_ready (\<lambda>_. True) (parse_env_file source)"
proof -
  obtain lines where "doctor_main (\<lambda>_. True) (sample_machine (env_source sample_env_values)) ''auth'' () = Inr ((lines, 0), ())"
    using sample_doctor_passes by blast
  from doctor_auth_passed[OF this] show ?thesis by blast
qed

text \<open>An unbalanced bracket in the issuer makes \<open>urlsplit\<close> raise, and the doctor with it.\<close>

lemma doctor_raises:
  "environment_checks (\<lambda>_. True) (parse_env_file (env_source [(''BFF_AUTH_ISSUER'', ''https://[issuer'')])) ''auth''
     = Inl (ValueError ''Invalid IPv6 URL'')"
  by code_simp

end
