(* ===== verification/LiveProbe.thy ===== *)
theory LiveProbe
  imports Texts CursorFacts Authentication
begin

section \<open>The live authentication probe\<close>

text \<open>
  \<open>scripts/auth/workos_live_probe.py\<close>. The machine is a parameter with its state \<open>'w\<close>: the HTTP client (httpx), the
  loopback server's next request, the browser, the clock (whole microseconds), the terminal and the random bytes. So are
  \<open>sha256\<close>, \<open>json.loads\<close>, \<open>parse_qs\<close> (its percent-decoding leaves the code points below 256), \<open>repr\<close> of a string, and
  how Pydantic reads a UUID, a datetime and a bool; that a \<open>str\<close> field accepts a JSON string and nothing else is written
  out. The settings are arguments.
\<close>

subsection \<open>Exceptions and data\<close>

text \<open>\<open>Escaped\<close> is an exception the probe does not turn into a \<open>ProbeError\<close>.\<close>

datatype probe_exn = ProbeError string | Escaped exn

type_synonym ('w, 'a) probe = "(probe_exn, 'w, 'a) io"

record DiagnosticAccessTokenClaims =
  dc_issuer :: string
  dc_subject :: string
  dc_client_id :: string
  dc_provider_session_id :: string

record WorkOSUserResponse =
  wu_id :: string
  wu_email :: string
  wu_email_verified :: bool

record BffUserResponse =
  bu_id :: uuid
  bu_email :: string
  bu_display_name :: "string option"

record BffSessionResponse =
  bs_user :: BffUserResponse
  bs_expires_at :: timestamp

record ProbeConfig =
  pc_redirect_uri :: string
  pc_bff_base_url :: string
  pc_callback_timeout :: int
  pc_open_browser :: bool

record CallbackCapture =
  cb_code :: "string option"
  cb_state :: "string option"
  cb_error :: "string option"

record ProbeSummary =
  sm_workos_subject :: string
  sm_bff_user_id :: uuid
  sm_expires_at :: timestamp
  sm_email_verified :: bool

record HttpCall =
  hc_method :: string
  hc_url :: string
  hc_headers :: "(string \<times> string) list"
  hc_json :: "json option"

record HttpResponse =
  hr_status_code :: int
  hr_json :: "exn + json"

text \<open>How Pydantic reads the three types, and the pure functions of the standard library that stay parameters.\<close>

record Library =
  lb_brackets_ok :: "string \<Rightarrow> bool"
  lb_sha256 :: "8 word list \<Rightarrow> 8 word list"
  lb_json_loads :: "8 word list \<Rightarrow> exn + json"
  lb_parse_qs :: "string \<Rightarrow> (string \<times> string list) list"
  lb_repr :: "string \<Rightarrow> string"
  lb_isoformat :: "timestamp \<Rightarrow> string"
  lb_read_uuid :: "json \<Rightarrow> uuid option"
  lb_read_datetime :: "json \<Rightarrow> timestamp option"
  lb_read_bool :: "json \<Rightarrow> bool option"

text \<open>\<open>pm_next_request\<close> is \<open>server.handle_request()\<close>: the target of the GET it handled, None after a second without one.\<close>

record 'w ProbeMachine =
  pm_client :: "HttpCall \<Rightarrow> (exn, 'w, HttpResponse) io"
  pm_monotonic :: "'w \<Rightarrow> int"
  pm_bind :: "string \<Rightarrow> int \<Rightarrow> (exn, 'w, unit) io"
  pm_open_browser :: "string \<Rightarrow> 'w \<Rightarrow> bool \<times> 'w"
  pm_print :: "string list \<Rightarrow> 'w \<Rightarrow> 'w"
  pm_next_request :: "'w \<Rightarrow> string option \<times> 'w"
  pm_random_bytes :: "nat \<Rightarrow> 'w \<Rightarrow> 8 word list \<times> 'w"

definition escaping :: "(exn, 'w, 'a) io \<Rightarrow> ('w, 'a) probe" where
  "escaping m w = (case m w of (Inl e, w') \<Rightarrow> (Inl (Escaped e), w') | (Inr a, w') \<Rightarrow> (Inr a, w'))"

subsection \<open>PKCE\<close>

text \<open>\<open>secrets.token_urlsafe\<close> is URL-safe base64 of random bytes without padding.\<close>

definition token_urlsafe :: "8 word list \<Rightarrow> string" where
  "token_urlsafe bytes = rstrip_char (CHR ''='') (urlsafe_b64encode bytes)"

definition generate_code_verifier :: "'w ProbeMachine \<Rightarrow> 'w \<Rightarrow> string \<times> 'w" where
  "generate_code_verifier machine w = (case pm_random_bytes machine 64 w of (bytes, w') \<Rightarrow> (token_urlsafe bytes, w'))"

definition encode_ascii :: "string \<Rightarrow> exn + 8 word list" where
  "encode_ascii s = (if \<exists>c \<in> set s. 128 \<le> code c then Inl (ValueError ''ordinal not in range(128)'')
     else Inr (map (\<lambda>c. of_nat (code c)) s))"

definition derive_code_challenge :: "(8 word list \<Rightarrow> 8 word list) \<Rightarrow> string \<Rightarrow> exn + string" where
  "derive_code_challenge sha256 code_verifier = bind_res (encode_ascii code_verifier) (\<lambda>bytes.
     Inr (rstrip_char (CHR ''='') (urlsafe_b64encode (sha256 bytes))))"

text \<open>\<open>urllib.parse.urlencode\<close> of a dictionary of strings.\<close>

definition quote_plus :: "string \<Rightarrow> string" where
  "quote_plus s = concat (map (\<lambda>c. if c = CHR '' '' then ''+'' else quote_char c) s)"

definition urlencode :: "(string \<times> string) list \<Rightarrow> string" where
  "urlencode query = join ''&'' (map (\<lambda>(k, v). quote_plus k @ ''='' @ quote_plus v) query)"

definition build_authorization_url :: "string \<Rightarrow> string \<Rightarrow> string \<Rightarrow> string \<Rightarrow> string \<Rightarrow> string" where
  "build_authorization_url api_base_url client_id redirect_uri state code_challenge =
     rstrip_char (CHR ''/'') api_base_url @ ''/user_management/authorize?'' @ urlencode
       [(''response_type'', ''code''), (''client_id'', client_id), (''redirect_uri'', redirect_uri), (''state'', state),
        (''provider'', ''authkit''), (''code_challenge_method'', ''S256''), (''code_challenge'', code_challenge)]"

subsection \<open>The loopback callback\<close>

definition validate_loopback_redirect_uri :: "(string \<Rightarrow> bool) \<Rightarrow> string \<Rightarrow> probe_exn + string \<times> int \<times> string" where
  "validate_loopback_redirect_uri brackets_ok redirect_uri = (case urlsplit brackets_ok redirect_uri of
     Inl e \<Rightarrow> Inl (Escaped e)
   | Inr parsed \<Rightarrow>
     if sr_scheme parsed \<noteq> ''http'' then Inl (ProbeError ''live probe redirect URI must use http'')
     else (case url_hostname parsed of
       None \<Rightarrow> Inl (ProbeError ''live probe redirect URI must use a loopback hostname'')
     | Some hostname \<Rightarrow>
     if hostname \<notin> {''127.0.0.1'', ''localhost''}
     then Inl (ProbeError ''live probe redirect URI must use a loopback hostname'')
     else (case url_port parsed of
       Inl e \<Rightarrow> Inl (Escaped e)
     | Inr None \<Rightarrow> Inl (ProbeError ''live probe redirect URI must include an explicit port'')
     | Inr (Some port) \<Rightarrow>
     if sr_path parsed = [] \<or> sr_path parsed = ''/''
     then Inl (ProbeError ''live probe redirect URI must include a callback path'')
     else if sr_query parsed \<noteq> [] \<or> sr_fragment parsed \<noteq> [] \<or> fst (userinfo parsed) \<notin> {None, Some []}
        \<or> snd (userinfo parsed) \<notin> {None, Some []}
     then Inl (ProbeError ''live probe redirect URI cannot contain credentials, query, or fragment'')
     else Inr (hostname, port, sr_path parsed))))"

definition single_query_value :: "(string \<times> string list) list \<Rightarrow> string \<Rightarrow> string option" where
  "single_query_value params key = (case map_of params key of
     None \<Rightarrow> None | Some [] \<Rightarrow> None | Some (value # _) \<Rightarrow> Some value)"

definition no_capture :: CallbackCapture where
  "no_capture = \<lparr>cb_code = None, cb_state = None, cb_error = None\<rparr>"

text \<open>\<open>CallbackHandler.do_GET\<close>: what is captured, and the status sent; None when it raises, which the server only logs.\<close>

definition do_GET :: "Library \<Rightarrow> string \<Rightarrow> CallbackCapture \<Rightarrow> string \<Rightarrow> CallbackCapture \<times> int option" where
  "do_GET lib expected_path capture target = (case urlsplit (lb_brackets_ok lib) target of
     Inl e \<Rightarrow> (capture, None)
   | Inr parsed \<Rightarrow>
       if sr_path parsed \<noteq> expected_path then (capture, Some 404)
       else (let params = lb_parse_qs lib (sr_query parsed)
             in (\<lparr>cb_code = single_query_value params ''code'', cb_state = single_query_value params ''state'',
                  cb_error = single_query_value params ''error''\<rparr>, Some 200)))"

partial_function (option) callback_loop ::
  "Library \<Rightarrow> 'w ProbeMachine \<Rightarrow> string \<Rightarrow> int \<Rightarrow> CallbackCapture \<Rightarrow> 'w \<Rightarrow> ((probe_exn + CallbackCapture) \<times> 'w) option" where
  "callback_loop lib machine expected_path deadline capture w =
     (if cb_code capture \<noteq> None \<or> cb_error capture \<noteq> None then Some (Inr capture, w)
      else if deadline \<le> pm_monotonic machine w
      then Some (Inl (ProbeError ''timed out waiting for WorkOS authorization callback''), w)
      else (case pm_next_request machine w of
          (None, w') \<Rightarrow> callback_loop lib machine expected_path deadline capture w'
        | (Some target, w') \<Rightarrow>
            callback_loop lib machine expected_path deadline (fst (do_GET lib expected_path capture target)) w'))"

declare callback_loop.simps [code]

definition accept_capture :: "Library \<Rightarrow> string \<Rightarrow> CallbackCapture \<Rightarrow> probe_exn + string" where
  "accept_capture lib expected_state capture = (case cb_error capture of
     Some error \<Rightarrow> Inl (ProbeError (''WorkOS authorization failed with error '' @ lb_repr lib error))
   | None \<Rightarrow>
       if cb_state capture \<noteq> Some expected_state
       then Inl (ProbeError ''WorkOS authorization callback state did not match'')
       else (case cb_code capture of
           None \<Rightarrow> Inl (ProbeError ''WorkOS authorization callback did not contain a code'')
         | Some auth_code \<Rightarrow> Inr auth_code))"

definition show_authorization_url :: "'w ProbeMachine \<Rightarrow> bool \<Rightarrow> string \<Rightarrow> ('w, unit) probe" where
  "show_authorization_url machine open_browser authorization_url w =
     (if open_browser
      then (case pm_open_browser machine authorization_url w of (opened, w') \<Rightarrow>
        if \<not> opened then (Inl (ProbeError ''browser could not be opened; rerun with --print-authorization-url''), w')
        else (Inr (), w'))
      else (Inr (), pm_print machine [''Open this one-time authorization URL in your browser:'', authorization_url] w))"

definition wait_for_authorization_callback ::
  "Library \<Rightarrow> 'w ProbeMachine \<Rightarrow> string \<Rightarrow> string \<Rightarrow> string \<Rightarrow> int \<Rightarrow> bool \<Rightarrow> 'w \<Rightarrow> ((probe_exn + string) \<times> 'w) option" where
  "wait_for_authorization_callback lib machine redirect_uri expected_state authorization_url timeout open_browser w =
     (case validate_loopback_redirect_uri (lb_brackets_ok lib) redirect_uri of
        Inl e \<Rightarrow> Some (Inl e, w)
      | Inr (host, port, expected_path) \<Rightarrow>
          (let deadline = pm_monotonic machine w + timeout in
           case io_bind (escaping (pm_bind machine host port)) (\<lambda>_. show_authorization_url machine open_browser authorization_url) w of
             (Inl e, w') \<Rightarrow> Some (Inl e, w')
           | (Inr _, w') \<Rightarrow>
               map_option (\<lambda>(r, w''). (case r of Inl e \<Rightarrow> Inl e | Inr capture \<Rightarrow> accept_capture lib expected_state capture, w''))
                 (callback_loop lib machine expected_path deadline no_capture w')))"

subsection \<open>Responses\<close>

definition read_str :: "json option \<Rightarrow> string option" where
  "read_str v = (case v of Some (JStr s) \<Rightarrow> Some s | _ \<Rightarrow> None)"

definition items_of :: "json \<Rightarrow> json_object option" where
  "items_of v = (case v of JObj items \<Rightarrow> Some items | _ \<Rightarrow> None)"

definition read_claims :: "json \<Rightarrow> DiagnosticAccessTokenClaims option" where
  "read_claims payload = Option.bind (items_of payload) (\<lambda>items.
     Option.bind (read_str (map_of items ''iss'')) (\<lambda>issuer.
     Option.bind (read_str (map_of items ''sub'')) (\<lambda>subject.
     Option.bind (read_str (map_of items ''client_id'')) (\<lambda>client_id.
     Option.bind (read_str (map_of items ''sid'')) (\<lambda>provider_session_id.
     Some \<lparr>dc_issuer = issuer, dc_subject = subject, dc_client_id = client_id,
           dc_provider_session_id = provider_session_id\<rparr>)))))"

definition read_access_token :: "json \<Rightarrow> string option" where
  "read_access_token payload = Option.bind (items_of payload) (\<lambda>items. read_str (map_of items ''access_token''))"

definition read_workos_user :: "Library \<Rightarrow> json \<Rightarrow> WorkOSUserResponse option" where
  "read_workos_user lib payload = Option.bind (items_of payload) (\<lambda>items.
     Option.bind (read_str (map_of items ''id'')) (\<lambda>user_id.
     Option.bind (read_str (map_of items ''email'')) (\<lambda>email.
     Option.bind (Option.bind (map_of items ''email_verified'') (lb_read_bool lib)) (\<lambda>email_verified.
     Some \<lparr>wu_id = user_id, wu_email = email, wu_email_verified = email_verified\<rparr>))))"

definition read_bff_user :: "Library \<Rightarrow> json \<Rightarrow> BffUserResponse option" where
  "read_bff_user lib payload = Option.bind (items_of payload) (\<lambda>items.
     Option.bind (Option.bind (map_of items ''id'') (lb_read_uuid lib)) (\<lambda>user_id.
     Option.bind (read_str (map_of items ''email'')) (\<lambda>email.
     Option.bind (case map_of items ''display_name'' of
         Some JNull \<Rightarrow> Some None | v \<Rightarrow> map_option Some (read_str v)) (\<lambda>display_name.
     Some \<lparr>bu_id = user_id, bu_email = email, bu_display_name = display_name\<rparr>))))"

definition read_bff_session :: "Library \<Rightarrow> json \<Rightarrow> BffSessionResponse option" where
  "read_bff_session lib payload = Option.bind (items_of payload) (\<lambda>items.
     Option.bind (Option.bind (map_of items ''user'') (read_bff_user lib)) (\<lambda>user.
     Option.bind (Option.bind (map_of items ''expires_at'') (lb_read_datetime lib)) (\<lambda>expires_at.
     Some \<lparr>bs_user = user, bs_expires_at = expires_at\<rparr>)))"

text \<open>\<open>model_validate(response.json())\<close> with its \<open>except (ValueError, ValidationError)\<close>.\<close>

definition validated_json :: "string \<Rightarrow> (json \<Rightarrow> 'a option) \<Rightarrow> exn + json \<Rightarrow> probe_exn + 'a" where
  "validated_json message read r = (case r of
     Inl (ValueError _) \<Rightarrow> Inl (ProbeError message)
   | Inl e \<Rightarrow> Inl (Escaped e)
   | Inr payload \<Rightarrow> (case read payload of None \<Rightarrow> Inl (ProbeError message) | Some a \<Rightarrow> Inr a))"

text \<open>\<open>base64.urlsafe_b64decode\<close>, which is not strict: other characters are skipped and a complete padding ends the data.\<close>

fun a2b_lenient :: "nat \<Rightarrow> nat \<Rightarrow> nat \<Rightarrow> string \<Rightarrow> exn + 8 word list" where
  "a2b_lenient quad_pos leftchar pads [] =
     (if quad_pos = 0 then Inr [] else Inl (ValueError ''Incorrect padding''))"
| "a2b_lenient quad_pos leftchar pads (c # cs) =
     (if c = CHR ''='' then
        (if quad_pos \<ge> 2 \<and> quad_pos + (pads + 1) \<ge> 4 then Inr []
         else a2b_lenient quad_pos leftchar (if quad_pos \<ge> 2 then pads + 1 else pads) cs)
      else (case b64_value c of
          None \<Rightarrow> a2b_lenient quad_pos leftchar pads cs
        | Some v \<Rightarrow>
            if quad_pos = 0 then a2b_lenient 1 v 0 cs
            else if quad_pos = 1 then put_byte (leftchar * 4 + v div 16) (a2b_lenient 2 (v mod 16) 0 cs)
            else if quad_pos = 2 then put_byte (leftchar * 16 + v div 4) (a2b_lenient 3 (v mod 4) 0 cs)
            else put_byte (leftchar * 64 + v) (a2b_lenient 0 0 0 cs)))"

definition urlsafe_b64decode :: "string \<Rightarrow> exn + 8 word list" where
  "urlsafe_b64decode s =
     (if \<exists>c \<in> set s. 128 \<le> code c
      then Inl (ValueError ''string argument should contain only ASCII characters'')
      else a2b_lenient 0 0 0 s)"

definition decode_unverified_access_token :: "Library \<Rightarrow> string \<Rightarrow> probe_exn + DiagnosticAccessTokenClaims" where
  "decode_unverified_access_token lib access_token = (case split_on (CHR ''.'') access_token of
     [header, payload_segment, signature] \<Rightarrow>
       (let padding = replicate ((4 - length payload_segment mod 4) mod 4) (CHR ''='') in
        validated_json ''WorkOS access token had invalid diagnostic claims'' read_claims
          (bind_res (urlsafe_b64decode (payload_segment @ padding)) (lb_json_loads lib)))
   | _ \<Rightarrow> Inl (ProbeError ''WorkOS returned an invalid access-token shape''))"

subsection \<open>The provider\<close>

definition bearer :: "string \<Rightarrow> string \<times> string" where
  "bearer token = (''Authorization'', ''Bearer '' @ token)"

definition http_get :: "string \<Rightarrow> (string \<times> string) list \<Rightarrow> HttpCall" where
  "http_get url headers = \<lparr>hc_method = ''GET'', hc_url = url, hc_headers = headers, hc_json = None\<rparr>"

definition http_post :: "string \<Rightarrow> (string \<times> string) list \<Rightarrow> json option \<Rightarrow> HttpCall" where
  "http_post url headers body = \<lparr>hc_method = ''POST'', hc_url = url, hc_headers = headers, hc_json = body\<rparr>"

definition exchange_authorization_code ::
  "'w ProbeMachine \<Rightarrow> string \<Rightarrow> string \<Rightarrow> string \<Rightarrow> string \<Rightarrow> ('w, string) probe" where
  "exchange_authorization_code machine api_base_url client_id auth_code code_verifier =
     io_bind (escaping (pm_client machine (http_post (rstrip_char (CHR ''/'') api_base_url @ ''/user_management/authenticate'') []
         (Some (JObj [(''client_id'', JStr client_id), (''grant_type'', JStr ''authorization_code''), (''code'', JStr auth_code),
            (''code_verifier'', JStr code_verifier)]))))) (\<lambda>response.
     if hr_status_code response \<noteq> 200
     then io_raise (ProbeError (''WorkOS authorization-code exchange failed with HTTP '' @ int_str (hr_status_code response)))
     else io_lift (validated_json ''WorkOS authorization response had an invalid shape'' read_access_token (hr_json response)))"

definition verify_workos_user_lookup ::
  "Library \<Rightarrow> 'w ProbeMachine \<Rightarrow> string \<Rightarrow> string \<Rightarrow> string \<Rightarrow> ('w, WorkOSUserResponse) probe" where
  "verify_workos_user_lookup lib machine api_base_url api_key subject =
     io_bind (escaping (pm_client machine (http_get (rstrip_char (CHR ''/'') api_base_url @ ''/user_management/users/'' @ quote_path subject)
         [bearer api_key, (''Accept'', ''application/json'')]))) (\<lambda>response.
     if hr_status_code response \<noteq> 200
     then io_raise (ProbeError (''WorkOS server-side user lookup failed with HTTP '' @ int_str (hr_status_code response)))
     else io_bind (io_lift (validated_json ''WorkOS user response had an invalid shape'' (read_workos_user lib) (hr_json response)))
       (\<lambda>user. if wu_id user \<noteq> subject then io_raise (ProbeError ''WorkOS user lookup returned a different subject'')
               else io_return user))"

definition verify_diagnostic_claims ::
  "Library \<Rightarrow> DiagnosticAccessTokenClaims \<Rightarrow> AuthenticationSettings \<Rightarrow> probe_exn + unit" where
  "verify_diagnostic_claims lib claims settings =
     (if dc_client_id claims \<noteq> as_client_id settings
      then Inl (ProbeError (''access-token client_id does not match BFF_AUTH_CLIENT_ID: '' @ lb_repr lib (dc_client_id claims)))
      else if dc_issuer claims \<noteq> as_issuer settings
      then Inl (ProbeError (''access-token issuer does not match BFF_AUTH_ISSUER; token issuer is '' @ lb_repr lib (dc_issuer claims)))
      else Inr ())"

subsection \<open>The BFF\<close>

text \<open>Only \<open>httpx.HTTPError\<close> is caught, and only here.\<close>

definition reachable :: "('w, 'a) probe \<Rightarrow> ('w, 'a) probe" where
  "reachable m w = (case m w of
     (Inl (Escaped (HTTPError _)), w') \<Rightarrow> (Inl (ProbeError ''local BFF control API is not reachable''), w')
   | r \<Rightarrow> r)"

definition bff_url :: "string \<Rightarrow> string \<Rightarrow> string" where
  "bff_url bff_base_url path = rstrip_char (CHR ''/'') bff_base_url @ path"

definition verify_bff_readiness :: "'w ProbeMachine \<Rightarrow> string \<Rightarrow> ('w, unit) probe" where
  "verify_bff_readiness machine bff_base_url =
     io_bind (reachable (io_bind (escaping (pm_client machine (http_get (bff_url bff_base_url ''/livez'') []))) (\<lambda>live.
       io_bind (escaping (pm_client machine (http_get (bff_url bff_base_url ''/readyz'') []))) (\<lambda>ready. io_return (live, ready)))))
     (\<lambda>(live, ready).
       if hr_status_code live \<noteq> 200
       then io_raise (ProbeError (''BFF liveness failed with HTTP '' @ int_str (hr_status_code live)))
       else if hr_status_code ready \<noteq> 200
       then io_raise (ProbeError (''BFF readiness failed with HTTP '' @ int_str (hr_status_code ready)))
       else io_return ())"

definition safe_problem_code :: "HttpResponse \<Rightarrow> exn + string option" where
  "safe_problem_code response = (case hr_json response of
     Inl (ValueError _) \<Rightarrow> Inr None
   | Inl e \<Rightarrow> Inl e
   | Inr (JObj payload) \<Rightarrow> Inr (read_str (map_of payload ''code''))
   | Inr _ \<Rightarrow> Inr None)"

definition require_bff_success :: "HttpResponse \<Rightarrow> string \<Rightarrow> probe_exn + unit" where
  "require_bff_success response action =
     (if hr_status_code response = 200 then Inr ()
      else (case safe_problem_code response of
          Inl e \<Rightarrow> Inl (Escaped e)
        | Inr problem_code \<Rightarrow> Inl (ProbeError (''BFF '' @ action @ '' failed with HTTP '' @ int_str (hr_status_code response)
            @ (case problem_code of None \<Rightarrow> [] | Some c \<Rightarrow> '' ('' @ c @ '')'')))))"

definition bff_call :: "'w ProbeMachine \<Rightarrow> HttpCall \<Rightarrow> string \<Rightarrow> ('w, HttpResponse) probe" where
  "bff_call machine call action = io_bind (escaping (pm_client machine call)) (\<lambda>response.
     io_bind (io_lift (require_bff_success response action)) (\<lambda>_. io_return response))"

definition verify_bff_session_flow ::
  "Library \<Rightarrow> 'w ProbeMachine \<Rightarrow> string \<Rightarrow> string \<Rightarrow> ('w, BffSessionResponse \<times> BffUserResponse) probe" where
  "verify_bff_session_flow lib machine bff_base_url access_token =
     (let headers = [bearer access_token]; session_url = bff_url bff_base_url ''/v1/auth/session'' in
      io_bind (bff_call machine (http_post session_url headers None) ''initial session provisioning'') (\<lambda>first_response.
      io_bind (bff_call machine (http_post session_url headers None) ''idempotent session reuse'') (\<lambda>second_response.
      io_bind (io_lift (validated_json ''BFF session response had an invalid shape'' (read_bff_session lib) (hr_json first_response))) (\<lambda>first.
      io_bind (io_lift (validated_json ''BFF session response had an invalid shape'' (read_bff_session lib) (hr_json second_response))) (\<lambda>second.
      if bs_user second \<noteq> bs_user first then io_raise (ProbeError ''BFF session reuse returned a different local User'')
      else if bs_expires_at second \<noteq> bs_expires_at first
      then io_raise (ProbeError ''BFF session reuse unexpectedly extended local expiry'')
      else
        io_bind (bff_call machine (http_get (bff_url bff_base_url ''/v1/me'') headers) ''authenticated /v1/me'') (\<lambda>me_response.
        io_bind (io_lift (validated_json ''BFF /v1/me response had an invalid shape'' (read_bff_user lib) (hr_json me_response))) (\<lambda>current_user.
        if current_user \<noteq> bs_user first
        then io_raise (ProbeError ''BFF /v1/me did not resolve the provisioned local User'')
        else io_return (first, current_user))))))))"

subsection \<open>The probe\<close>

text \<open>After the callback: the exchange of the code and the three proofs.\<close>

definition prove_code ::
  "Library \<Rightarrow> 'w ProbeMachine \<Rightarrow> ProbeConfig \<Rightarrow> AuthenticationSettings \<Rightarrow> string \<Rightarrow> string \<Rightarrow> string \<Rightarrow> string \<Rightarrow> ('w, ProbeSummary) probe" where
  "prove_code lib machine config auth_settings api_base_url api_key auth_code code_verifier =
     io_bind (exchange_authorization_code machine api_base_url (as_client_id auth_settings) auth_code code_verifier) (\<lambda>access_token.
     io_bind (io_lift (decode_unverified_access_token lib access_token)) (\<lambda>claims.
     io_bind (io_lift (verify_diagnostic_claims lib claims auth_settings)) (\<lambda>_.
     io_bind (verify_workos_user_lookup lib machine api_base_url api_key (dc_subject claims)) (\<lambda>workos_user.
     io_bind (verify_bff_session_flow lib machine (pc_bff_base_url config) access_token) (\<lambda>(session, current_user).
     io_return \<lparr>sm_workos_subject = dc_subject claims, sm_bff_user_id = bu_id current_user,
       sm_expires_at = bs_expires_at session, sm_email_verified = wu_email_verified workos_user\<rparr>)))))"

definition run_probe ::
  "Library \<Rightarrow> 'w ProbeMachine \<Rightarrow> ProbeConfig \<Rightarrow> AuthenticationSettings \<Rightarrow> string \<Rightarrow> string \<Rightarrow> 'w \<Rightarrow> ((probe_exn + ProbeSummary) \<times> 'w) option" where
  "run_probe lib machine config auth_settings workos_api_base_url api_key w =
     (let api_base_url = rstrip_char (CHR ''/'') workos_api_base_url in
      case verify_bff_readiness machine (pc_bff_base_url config) w of
        (Inl e, w1) \<Rightarrow> Some (Inl e, w1)
      | (Inr _, w1) \<Rightarrow>
          (case generate_code_verifier machine w1 of (code_verifier, w2) \<Rightarrow>
          (case pm_random_bytes machine 32 w2 of (bytes, w3) \<Rightarrow>
          (let state = token_urlsafe bytes in
          (case derive_code_challenge (lb_sha256 lib) code_verifier of
             Inl e \<Rightarrow> Some (Inl (Escaped e), w3)
           | Inr code_challenge \<Rightarrow>
          (let authorization_url = build_authorization_url api_base_url (as_client_id auth_settings) (pc_redirect_uri config) state code_challenge in
          (case wait_for_authorization_callback lib machine (pc_redirect_uri config) state authorization_url
              (pc_callback_timeout config) (pc_open_browser config) w3 of
             None \<Rightarrow> None
           | Some (Inl e, w4) \<Rightarrow> Some (Inl e, w4)
           | Some (Inr auth_code, w4) \<Rightarrow>
               Some (prove_code lib machine config auth_settings api_base_url api_key auth_code code_verifier w4))))))))"

text \<open>What \<open>main\<close> prints, and its exit status; other exceptions escape.\<close>

definition probe_lines :: "Library \<Rightarrow> ProbeSummary \<Rightarrow> string list" where
  "probe_lines lib summary =
     [''PASS: WorkOS PKCE authorization-code flow'', ''PASS: access-token issuer/client configuration'',
      ''PASS: WorkOS server-side User lookup'', ''PASS: BFF durable session provisioning'',
      ''PASS: BFF same-sid idempotent reuse without TTL extension'', ''PASS: authenticated /v1/me'',
      ''WorkOS subject: '' @ sm_workos_subject summary, ''BFF user id: '' @ uuid_str (sm_bff_user_id summary),
      ''Local session expires at: '' @ lb_isoformat lib (sm_expires_at summary),
      ''WorkOS email verified: '' @ (if sm_email_verified summary then ''True'' else ''False'')]"

definition probe_main :: "Library \<Rightarrow> probe_exn + ProbeSummary \<Rightarrow> exn + string list \<times> int" where
  "probe_main lib r = (case r of
     Inl (ProbeError error) \<Rightarrow> Inr ([''FAIL: '' @ error], 1)
   | Inl (Escaped e) \<Rightarrow> Inl e
   | Inr summary \<Rightarrow> Inr (probe_lines lib summary, 0))"

subsection \<open>The PKCE parameters\<close>

text \<open>URL-safe base64 without padding: its length, and only unreserved characters.\<close>

lemma b64_char_unreserved: "n < 64 \<Longrightarrow> unreserved (b64_char n)"
  by (auto simp: b64_char_def unreserved_def Let_def)

lemma unreserved_plain: "unreserved c \<Longrightarrow> c \<noteq> CHR ''='' \<and> code c < 128 \<and> c \<noteq> CHR '' ''"
  by (auto simp: unreserved_def Let_def)

lemma rstrip_pad: "c \<notin> set s \<Longrightarrow> rstrip_char c (s @ replicate n c) = s"
proof -
  assume "c \<notin> set s"
  then have "dropWhile (\<lambda>x. x = c) (rev s) = rev s" by (cases s rule: rev_cases) auto
  moreover have "dropWhile (\<lambda>x. x = c) (replicate n c @ t) = dropWhile (\<lambda>x. x = c) t" for t by (induction n) simp_all
  ultimately show ?thesis by (simp add: rstrip_char_def rev_replicate)
qed

lemma b64_body: "\<exists>body n. urlsafe_b64encode bs = body @ replicate n (CHR ''='') \<and> list_all unreserved body
    \<and> length body = (4 * length bs + 2) div 3"
proof (induction bs rule: urlsafe_b64encode.induct)
  case (2 a)
  let ?q = "[b64_char (unat a div 4), b64_char (unat a mod 4 * 16)]"
  have "urlsafe_b64encode [a] = ?q @ replicate 2 (CHR ''='')" by (simp add: numeral_2_eq_2)
  moreover have "list_all unreserved ?q" by (simp add: b64_char_unreserved byte_pieces)
  moreover have "length ?q = (4 * length [a] + 2) div 3" by simp
  ultimately show ?case by blast
next
  case (3 a b)
  let ?q = "[b64_char (unat a div 4), b64_char (unat a mod 4 * 16 + unat b div 16), b64_char (unat b mod 16 * 4)]"
  have "urlsafe_b64encode [a, b] = ?q @ replicate 1 (CHR ''='')" by simp
  moreover have "list_all unreserved ?q" by (simp add: b64_char_unreserved byte_pieces)
  moreover have "length ?q = (4 * length [a, b] + 2) div 3" by simp
  ultimately show ?case by blast
next
  case (4 a b c r)
  obtain body n where ih: "urlsafe_b64encode r = body @ replicate n (CHR ''='')" "list_all unreserved body"
    "length body = (4 * length r + 2) div 3" using 4 by blast
  let ?q = "[b64_char (unat a div 4), b64_char (unat a mod 4 * 16 + unat b div 16),
    b64_char (unat b mod 16 * 4 + unat c div 64), b64_char (unat c mod 64)]"
  have "urlsafe_b64encode (a # b # c # r) = (?q @ body) @ replicate n (CHR ''='')" by (simp add: ih(1))
  moreover have "list_all unreserved (?q @ body)" using ih(2) by (simp add: b64_char_unreserved byte_pieces)
  moreover have "length (?q @ body) = (4 * length (a # b # c # r) + 2) div 3" using ih(3) by simp
  ultimately show ?case by blast
qed simp

lemma token_urlsafe_shape: "list_all unreserved (token_urlsafe bs) \<and> length (token_urlsafe bs) = (4 * length bs + 2) div 3"
proof -
  obtain body n where b: "urlsafe_b64encode bs = body @ replicate n (CHR ''='')" "list_all unreserved body"
    "length body = (4 * length bs + 2) div 3" using b64_body by blast
  have "CHR ''='' \<notin> set body" using b(2) unreserved_plain by (auto simp: list_all_iff)
  then show ?thesis using b by (simp add: token_urlsafe_def rstrip_pad)
qed

text \<open>The verifier is one RFC 7636 allows, and deriving its challenge never raises.\<close>

lemma code_verifier_shape:
  assumes "length bytes = 64"
  shows "list_all unreserved (token_urlsafe bytes)" "length (token_urlsafe bytes) = 86"
    "\<exists>digest. derive_code_challenge sha256 (token_urlsafe bytes) = Inr (token_urlsafe (sha256 digest))"
proof -
  show u: "list_all unreserved (token_urlsafe bytes)" and "length (token_urlsafe bytes) = 86"
    using token_urlsafe_shape[of bytes] assms by simp_all
  have "\<not> (\<exists>c \<in> set (token_urlsafe bytes). 128 \<le> code c)" using u unreserved_plain by (auto simp: list_all_iff not_le)
  then show "\<exists>digest. derive_code_challenge sha256 (token_urlsafe bytes) = Inr (token_urlsafe (sha256 digest))"
    by (simp add: derive_code_challenge_def encode_ascii_def token_urlsafe_def) blast
qed

subsection \<open>The callback\<close>

text \<open>Where a capture comes from: a request for the callback path, taken before the deadline.\<close>

definition captured_from :: "Library \<Rightarrow> 'w ProbeMachine \<Rightarrow> string \<Rightarrow> int \<Rightarrow> CallbackCapture \<Rightarrow> bool" where
  "captured_from lib machine expected_path deadline capture \<longleftrightarrow> (\<exists>w0 target w1 parsed.
     pm_monotonic machine w0 < deadline \<and> pm_next_request machine w0 = (Some target, w1)
     \<and> urlsplit (lb_brackets_ok lib) target = Inr parsed \<and> sr_path parsed = expected_path
     \<and> cb_code capture = single_query_value (lb_parse_qs lib (sr_query parsed)) ''code''
     \<and> cb_state capture = single_query_value (lb_parse_qs lib (sr_query parsed)) ''state''
     \<and> cb_error capture = single_query_value (lb_parse_qs lib (sr_query parsed)) ''error'')"

lemma do_GET_captured:
  assumes "pm_monotonic machine w < deadline" "pm_next_request machine w = (Some target, w')"
  shows "fst (do_GET lib expected_path capture target) = capture
    \<or> captured_from lib machine expected_path deadline (fst (do_GET lib expected_path capture target))"
proof (cases "urlsplit (lb_brackets_ok lib) target")
  case (Inr parsed)
  then show ?thesis using assms unfolding captured_from_def by (auto simp: do_GET_def Let_def)
qed (simp add: do_GET_def)

definition ticking :: "'w ProbeMachine \<Rightarrow> bool" where
  "ticking machine \<longleftrightarrow> (\<forall>w. pm_monotonic machine w < pm_monotonic machine (snd (pm_next_request machine w)))"

lemma callback_loop_returns:
  assumes "ticking machine" "capture = no_capture \<or> captured_from lib machine expected_path deadline capture"
  shows "\<exists>r w'. callback_loop lib machine expected_path deadline capture w = Some (r, w')
    \<and> (\<forall>c. r = Inr c \<longrightarrow> (cb_code c \<noteq> None \<or> cb_error c \<noteq> None) \<and> captured_from lib machine expected_path deadline c)"
  using assms(2)
proof (induction "nat (deadline - pm_monotonic machine w)" arbitrary: capture w rule: less_induct)
  case less
  show ?case
  proof (cases "cb_code capture \<noteq> None \<or> cb_error capture \<noteq> None")
    case True
    then have "capture \<noteq> no_capture" by (auto simp: no_capture_def)
    then show ?thesis using True less.prems by (subst callback_loop.simps) auto
  next
    case no: False
    show ?thesis
    proof (cases "deadline \<le> pm_monotonic machine w")
      case True
      then show ?thesis using no by (subst callback_loop.simps) auto
    next
      case False
      obtain t w1 where t: "pm_next_request machine w = (t, w1)" by fastforce
      have tick: "pm_monotonic machine w < pm_monotonic machine w1" using assms(1) t unfolding ticking_def by (metis snd_conv)
      then have dec: "nat (deadline - pm_monotonic machine w1) < nat (deadline - pm_monotonic machine w)" using False by simp
      show ?thesis
      proof (cases t)
        case None
        then have "callback_loop lib machine expected_path deadline capture w
            = callback_loop lib machine expected_path deadline capture w1"
          using no False t by (subst callback_loop.simps) simp
        then show ?thesis using less.hyps[OF dec less.prems] by simp
      next
        case (Some target)
        define c where "c = fst (do_GET lib expected_path capture target)"
        have "callback_loop lib machine expected_path deadline capture w
            = callback_loop lib machine expected_path deadline c w1"
          using no False t Some by (subst callback_loop.simps) (simp add: c_def)
        moreover have "c = no_capture \<or> captured_from lib machine expected_path deadline c"
          using do_GET_captured[of machine w deadline target w1 lib expected_path capture] less.prems t Some False
          unfolding c_def by auto
        ultimately show ?thesis using less.hyps[OF dec] by simp
      qed
    qed
  qed
qed

lemma loopback_uri:
  "validate_loopback_redirect_uri b uri = Inr (host, port, path) \<Longrightarrow>
    host \<in> {''127.0.0.1'', ''localhost''} \<and> path \<noteq> [] \<and> port \<le> 65535"
  by (auto simp: validate_loopback_redirect_uri_def url_port_def split: sum.splits option.splits if_splits)


subsection \<open>Witnesses\<close>

text \<open>A browser that follows the authorization at once; the state of the machine is its clock.\<close>

definition sample_library :: Library where
  "sample_library = \<lparr>lb_brackets_ok = (\<lambda>_. True), lb_sha256 = (\<lambda>_. replicate 32 0), lb_json_loads = (\<lambda>_. Inr JNull),
     lb_parse_qs = (\<lambda>q. if q = ''code=c&state=s'' then [(''code'', [''c'']), (''state'', [''s''])] else []),
     lb_repr = (\<lambda>s. s), lb_isoformat = (\<lambda>_. []), lb_read_uuid = (\<lambda>_. None), lb_read_datetime = (\<lambda>_. None),
     lb_read_bool = (\<lambda>_. None)\<rparr>"

definition sample_probe_machine :: "int ProbeMachine" where
  "sample_probe_machine = \<lparr>pm_client = (\<lambda>_. io_raise (HTTPError ''refused'')), pm_monotonic = (\<lambda>w. w),
     pm_bind = (\<lambda>_ _. io_return ()), pm_open_browser = (\<lambda>_ w. (True, w)), pm_print = (\<lambda>_ w. w),
     pm_next_request = (\<lambda>w. (if w = 0 then Some ''/favicon.ico'' else Some ''/callback?code=c&state=s'', w + 1)),
     pm_random_bytes = (\<lambda>n w. (replicate n 0, w))\<rparr>"

lemma sample_wait: "wait_for_authorization_callback sample_library sample_probe_machine ''http://127.0.0.1:8787/callback''
    ''s'' ''https://api.workos.com'' 300000000 True 0 = Some (Inr ''c'', 2)"
  by code_simp


text \<open>What \<open>main\<close> does not report: a port out of range, and a connection that fails after the readiness check.\<close>

lemma port_error_escapes:
  "validate_loopback_redirect_uri (\<lambda>_. True) ''http://127.0.0.1:65536/callback''
     = Inl (Escaped (ValueError ''Port out of range 0-65535''))"
  by code_simp

lemma exchange_error_escapes:
  "exchange_authorization_code sample_probe_machine url client_id auth_code verifier w = (Inl (Escaped (HTTPError ''refused'')), w)"
  by (simp add: exchange_authorization_code_def io_bind_def escaping_def sample_probe_machine_def)

end
