(* ===== verification/ProbeContracts.thy ===== *)
theory ProbeContracts
  imports LiveProbe ApiContracts
begin

section \<open>The service passes the probe\<close>

text \<open>
  The two sides of \<open>/v1/auth/session\<close> and \<open>/v1/me\<close> together: the flow of \<open>workos_live_probe.py\<close> against the
  requests of \<open>Api\<close>. The transport is \<open>bff_client\<close>: the world is the database with the environment of each request; a
  call is routed by its method and URL, HTTPBearer reads the header, and the body comes back as JSON. \<open>other\<close> is the JSON of
  the bodies the flow does not read, \<open>show_time\<close> the text of a time.
\<close>

record BffWorld =
  bw_db :: db
  bw_env :: "nat \<Rightarrow> Environment"
  bw_count :: nat

definition bearer_credentials :: "HttpCall \<Rightarrow> (string \<times> string) option" where
  "bearer_credentials call = (case map_of (hc_headers call) ''Authorization'' of
     None \<Rightarrow> None
   | Some authorization \<Rightarrow>
       (let (scheme, _, credentials) = str_partition (CHR '' '') authorization
        in if scheme = [] \<or> credentials = [] then None else Some (scheme, credentials)))"

definition received :: "string \<Rightarrow> HttpCall \<Rightarrow> Request" where
  "received base call = \<lparr>rq_method = hc_method call, rq_route = None, rq_credentials = bearer_credentials call, rq_issues = [],
     rq_endpoint =
       (if hc_method call = ''POST'' \<and> hc_url call = bff_url base ''/v1/auth/session'' then ProvisionSession
        else if hc_method call = ''GET'' \<and> hc_url call = bff_url base ''/v1/me'' then GetMe
        else if hc_method call = ''GET'' \<and> hc_url call = bff_url base ''/livez'' then Livez
        else if hc_method call = ''GET'' \<and> hc_url call = bff_url base ''/readyz'' then Readyz
        else Unmatched 404 None)\<rparr>"

definition json_user :: "MeResponse \<Rightarrow> json" where
  "json_user m = JObj [(''id'', JStr (uuid_str (me_id m))), (''email'', JStr (me_email m)),
     (''display_name'', case me_display_name m of None \<Rightarrow> JNull | Some n \<Rightarrow> JStr n)]"

definition json_body :: "(timestamp \<Rightarrow> string) \<Rightarrow> (body \<Rightarrow> json) \<Rightarrow> body \<Rightarrow> json" where
  "json_body show_time other b = (case b of
     MeBody m \<Rightarrow> json_user m
   | SessionBody s \<Rightarrow> JObj [(''user'', json_user (sr_user s)), (''expires_at'', JStr (show_time (sr_expires_at s)))]
   | _ \<Rightarrow> other b)"

definition bff_client :: "string \<Rightarrow> (body \<Rightarrow> json) \<Rightarrow> HttpCall \<Rightarrow> (exn, BffWorld, HttpResponse) io" where
  "bff_client base render call w =
     (case handle_request (bw_env w (bw_count w)) (received base call) (bw_db w) of ((response, _), d') \<Rightarrow>
        (Inr \<lparr>hr_status_code = rs_status response, hr_json = Inr (render (rs_body response))\<rparr>,
         w\<lparr>bw_db := d', bw_count := bw_count w + 1\<rparr>))"

text \<open>What the probe makes of a principal and of a session.\<close>

definition seen_user :: "AuthenticatedPrincipal \<Rightarrow> BffUserResponse" where
  "seen_user p = \<lparr>bu_id = ap_user_id p, bu_email = ap_email p, bu_display_name = ap_display_name p\<rparr>"

definition seen_session :: "ProvisionedSession \<Rightarrow> BffSessionResponse" where
  "seen_session s = \<lparr>bs_user = seen_user (ps_principal s), bs_expires_at = ps_expires_at s\<rparr>"

definition reads_back :: "Library \<Rightarrow> (timestamp \<Rightarrow> string) \<Rightarrow> bool" where
  "reads_back lib show_time \<longleftrightarrow> (\<forall>u. lb_read_uuid lib (JStr (uuid_str u)) = Some u) \<and> (\<forall>t. lb_read_datetime lib (JStr (show_time t)) = Some t)"

lemma read_user: "reads_back lib show_time \<Longrightarrow> read_bff_user lib (json_user (me_response p)) = Some (seen_user p)"
  by (simp add: reads_back_def read_bff_user_def json_user_def items_of_def read_str_def me_response_def seen_user_def
      split: option.split)

lemma read_session:
  "reads_back lib show_time \<Longrightarrow> read_bff_session lib (json_body show_time other (SessionBody (session_response s))) = Some (seen_session s)"
  using read_user[of lib show_time "ps_principal s"]
  by (simp add: read_bff_session_def json_body_def items_of_def session_response_def seen_session_def reads_back_def)

lemma bearer_header: "token \<noteq> [] \<Longrightarrow> hc_headers call = [bearer token] \<Longrightarrow>
    require_bearer_token (bearer_credentials call) = Inr token"
proof -
  assume t: "token \<noteq> []" and h: "hc_headers call = [bearer token]"
  have "str_partition (CHR '' '') (''Bearer '' @ token) = (''Bearer'', True, token)" by (simp add: str_partition_def)
  moreover have "casefold ''Bearer'' = ''bearer''" by code_simp
  ultimately show ?thesis using t h by (simp add: bearer_credentials_def bearer_def require_bearer_token_def)
qed

lemma answer_writing_Inr:
  "f d = (Inr a, d') \<Longrightarrow> answer status headers body (writing f) d =
    (Inr \<lparr>rs_status = status, rs_headers = headers a, rs_media_type = ''application/json'', rs_body = body a\<rparr>, d')"
  by (simp add: answer_def writing_def raised_def)

lemma session_call:
  assumes "token \<noteq> []" "sign_in (en_verify env) (en_fetch_user env) (en_session_ttl env) (en_provision env) [] token d = (Inr s, d')"
    and "env = bw_env w (bw_count w)" "d = bw_db w"
  shows "bff_client base render (http_post (bff_url base ''/v1/auth/session'') [bearer token] None) w =
    (Inr \<lparr>hr_status_code = 200, hr_json = Inr (render (SessionBody (session_response s)))\<rparr>,
     w\<lparr>bw_db := d', bw_count := bw_count w + 1\<rparr>)"
proof -
  let ?call = "http_post (bff_url base ''/v1/auth/session'') [bearer token] None"
  have e: "rq_endpoint (received base ?call) = ProvisionSession" "rq_issues (received base ?call) = []"
    by (simp_all add: received_def http_post_def)
  have b: "require_bearer_token (rq_credentials (received base ?call)) = Inr token"
    using bearer_header[OF assms(1), of ?call] by (simp add: received_def http_post_def)
  have v: "validated (received base ?call) = Inr ProvisionSession" by (simp add: validated_def e)
  have p: "provision_session env token d = (Inr \<lparr>rs_status = 200, rs_headers = no_store s, rs_media_type = ''application/json'',
      rs_body = SessionBody (session_response s)\<rparr>, d')"
    unfolding provision_session_def by (rule answer_writing_Inr) (rule assms(2)[unfolded sign_in_def])
  show ?thesis
    by (simp add: bff_client_def handle_request_eq router_provision[OF e(1)] b v p[unfolded assms(3,4)] respond_Inr
        send_with_request_id_def)
qed

lemma me_call:
  assumes "token \<noteq> []" "identify (en_verify env) (en_now env) token d = Inr p"
    and "env = bw_env w (bw_count w)" "d = bw_db w"
  shows "bff_client base render (http_get (bff_url base ''/v1/me'') [bearer token]) w =
    (Inr \<lparr>hr_status_code = 200, hr_json = Inr (render (MeBody (me_response p)))\<rparr>, w\<lparr>bw_count := bw_count w + 1\<rparr>)"
proof -
  let ?call = "http_get (bff_url base ''/v1/me'') [bearer token]"
  have e: "rq_endpoint (received base ?call) = GetMe" "rq_issues (received base ?call) = []"
    by (simp_all add: received_def http_get_def)
  have b: "require_bearer_token (rq_credentials (received base ?call)) = Inr token"
    using bearer_header[OF assms(1), of ?call] by (simp add: received_def http_get_def)
  have v: "validated (received base ?call) = Inr GetMe" by (simp add: validated_def e)
  have a: "require_authenticated_principal env token d = Inr p"
    using assms(2) by (simp add: require_authenticated_principal_def identify_def raised_def)
  have o: "ordinary (rq_endpoint (received base ?call))" by (simp add: e ordinary_def public_endpoint_def)
  show ?thesis
    by (simp add: bff_client_def handle_request_eq router_ordinary[OF o] b v a[unfolded assms(3,4)] respond_Inr
        send_with_request_id_def get_me_def answer_def reading_def raised_def)
qed

lemma bff_call_ok:
  assumes "pm_client machine call w = (Inr \<lparr>hr_status_code = 200, hr_json = j\<rparr>, w')"
  shows "bff_call machine call action w = (Inr \<lparr>hr_status_code = 200, hr_json = j\<rparr>, w')"
  by (simp add: bff_call_def io_bind_def escaping_def assms require_bff_success_def)

text \<open>C11: the service keeps the contract the live probe tests: whenever a token signs in, on any database that meets its
  schema, the probe's flow succeeds against the service: the second provisioning, before the session expires, returns the
  same user and the same expiry, /v1/me resolves that user, and the database is the one the first sign-in left.\<close>

theorem service_passes_probe:
  fixes w :: BffWorld
  defines "e1 \<equiv> bw_env w (bw_count w)" and "e2 \<equiv> bw_env w (bw_count w + 1)" and "e3 \<equiv> bw_env w (bw_count w + 2)"
  assumes "pm_client machine = bff_client base (json_body show_time other)" "reads_back lib show_time" "schema_ok (bw_db w)" "token \<noteq> []"
    and "en_verify e2 = en_verify e1" "en_verify e3 = en_verify e1"
    and "sign_in (en_verify e1) (en_fetch_user e1) (en_session_ttl e1) (en_provision e1) [] token (bw_db w) = (Inr s, d')"
    and "pv_now (en_provision e2) < ps_expires_at s" "0 < en_session_ttl e2" "en_now e3 < ps_expires_at s"
  shows "\<exists>w'. verify_bff_session_flow lib machine base token w = (Inr (seen_session s, seen_user (ps_principal s)), w') \<and> bw_db w' = d'"
proof -
  define w1 where "w1 = w\<lparr>bw_db := d', bw_count := bw_count w + 1\<rparr>"
  define w2 where "w2 = w\<lparr>bw_db := d', bw_count := bw_count w + 2\<rparr>"
  define w3 where "w3 = w\<lparr>bw_db := d', bw_count := bw_count w + 3\<rparr>"
  define s' where "s' = s\<lparr>ps_created := False\<rparr>"
  let ?post = "http_post (bff_url base ''/v1/auth/session'') [bearer token] None"
  let ?render = "json_body show_time other"
  have c1: "pm_client machine ?post w = (Inr \<lparr>hr_status_code = 200, hr_json = Inr (?render (SessionBody (session_response s)))\<rparr>, w1)"
    unfolding assms(4) w1_def using assms(7) assms(10)[unfolded e1_def] by (rule session_call) simp_all
  have "sign_in (en_verify e2) (en_fetch_user e2) (en_session_ttl e2) (en_provision e2) [] token d' = (Inr s', d')"
    unfolding assms(8) s'_def using assms(6,10,11,12) by (rule session_reused)
  then have "pm_client machine ?post w1 = (Inr \<lparr>hr_status_code = 200, hr_json = Inr (?render (SessionBody (session_response s')))\<rparr>,
      w1\<lparr>bw_db := d', bw_count := bw_count w1 + 1\<rparr>)"
    unfolding assms(4) by (rule session_call[OF assms(7)]) (simp_all add: w1_def e2_def)
  moreover have "w1\<lparr>bw_db := d', bw_count := bw_count w1 + 1\<rparr> = w2" by (simp add: w1_def w2_def)
  ultimately have c2: "pm_client machine ?post w1 =
      (Inr \<lparr>hr_status_code = 200, hr_json = Inr (?render (SessionBody (session_response s')))\<rparr>, w2)" by simp
  have "identify (en_verify e3) (en_now e3) token d' = Inr (ps_principal s)"
    unfolding assms(9) using assms(6,10,13) by (rule session_identifies)
  then have "pm_client machine (http_get (bff_url base ''/v1/me'') [bearer token]) w2 =
      (Inr \<lparr>hr_status_code = 200, hr_json = Inr (?render (MeBody (me_response (ps_principal s))))\<rparr>, w2\<lparr>bw_count := bw_count w2 + 1\<rparr>)"
    unfolding assms(4) by (rule me_call[OF assms(7)]) (simp_all add: w2_def e3_def)
  then have c3: "pm_client machine (http_get (bff_url base ''/v1/me'') [bearer token]) w2 =
      (Inr \<lparr>hr_status_code = 200, hr_json = Inr (?render (MeBody (me_response (ps_principal s))))\<rparr>, w3)"
    by (simp add: w2_def w3_def)
  have same: "seen_session s' = seen_session s" by (simp add: s'_def seen_session_def)
  have "verify_bff_session_flow lib machine base token w = (Inr (seen_session s, seen_user (ps_principal s)), w3)"
    unfolding verify_bff_session_flow_def Let_def
    by (simp add: io_bind_def bff_call_ok[OF c1] bff_call_ok[OF c2] bff_call_ok[OF c3] validated_json_def
        read_session[OF assms(5)] same read_user[OF assms(5), of "ps_principal s"] json_body_def[of show_time other "MeBody _"])
       (simp add: seen_session_def)
  then show ?thesis by (simp add: w3_def)
qed

subsection \<open>Witness\<close>

text \<open>Times as runs of one of two letters, UUIDs as the cursor codec reads them.\<close>

definition sample_time :: "timestamp \<Rightarrow> string" where
  "sample_time t = (if t < 0 then replicate (nat (- t)) (CHR ''b'') else replicate (nat t) (CHR ''a''))"

definition sample_reader :: Library where
  "sample_reader = sample_library\<lparr>lb_read_uuid := (\<lambda>j. case UUID_of_json j of Inr u \<Rightarrow> Some u | Inl _ \<Rightarrow> None),
     lb_read_datetime := (\<lambda>j. case j of
         JStr s \<Rightarrow> Some (if CHR ''b'' \<in> set s then - int (length s) else int (length s)) | _ \<Rightarrow> None)\<rparr>"

lemma sample_reads_back: "reads_back sample_reader sample_time"
  by (auto simp: reads_back_def sample_reader_def sample_time_def UUID_of_json_def UUID_of_uuid_str)

definition sample_world :: BffWorld where
  "sample_world = \<lparr>bw_db = empty_db, bw_env = (\<lambda>n. (sample_env 20)\<lparr>en_provision := sample_provision (1000000 + int n)\<rparr>), bw_count = 0\<rparr>"

definition sample_bff_machine :: "BffWorld ProbeMachine" where
  "sample_bff_machine = \<lparr>pm_client = bff_client ''http://127.0.0.1:8000/'' (json_body sample_time (\<lambda>_. JNull)),
     pm_monotonic = (\<lambda>w. int (bw_count w)), pm_bind = (\<lambda>_ _. io_return ()), pm_open_browser = (\<lambda>_ w. (True, w)),
     pm_print = (\<lambda>_ w. w), pm_next_request = (\<lambda>w. (None, w)), pm_random_bytes = (\<lambda>n w. (replicate n 0, w))\<rparr>"

theorem service_passes_probe_witness:
  "\<exists>w'. verify_bff_session_flow sample_reader sample_bff_machine ''http://127.0.0.1:8000/'' ''t'' sample_world
     = (Inr (seen_session first_session, seen_user (ps_principal first_session)), w') \<and> bw_db w' = first_db"
proof (rule service_passes_probe)
  show "pm_client sample_bff_machine = bff_client ''http://127.0.0.1:8000/'' (json_body sample_time (\<lambda>_. JNull))"
    by (simp add: sample_bff_machine_def)
  show "sign_in (en_verify (bw_env sample_world (bw_count sample_world))) (en_fetch_user (bw_env sample_world (bw_count sample_world)))
      (en_session_ttl (bw_env sample_world (bw_count sample_world))) (en_provision (bw_env sample_world (bw_count sample_world))) []
      ''t'' (bw_db sample_world) = (Inr first_session, first_db)"
    using first_sign_in by (simp add: sample_sign_in_def sample_world_def sample_env_def)
qed (use empty_db_ok in \<open>simp_all add: sample_reads_back sample_world_def sample_env_def sample_provision_def first_session_def\<close>)

end
