(* ===== verification/Lifecycle.thy ===== *)
theory Lifecycle
  imports Texts Api
begin

section \<open>The life of the process and of a database session\<close>

text \<open>
  \<open>lifespan\<close> of \<open>api/app.py\<close>, \<open>ApplicationResources\<close> of \<open>api/contracts.py\<close>, \<open>Database\<close> of
  \<open>infrastructure/db/database.py\<close>, \<open>telemetry.py\<close> and the readiness route over the database. SQLAlchemy's engine and the tracer are parameters: a
  record of calls on a machine of state \<open>'w\<close>, each of which may raise. The lemmas say which of these calls are made, in
  which order, whatever each of them does.
\<close>

subsection \<open>Resources\<close>

record ('e, 'w, 's, 'c) Engine =
  eg_open_session :: "('e, 'w, 's) io"
  eg_rollback :: "'s \<Rightarrow> ('e, 'w, unit) io"
  eg_close_session :: "'s \<Rightarrow> ('e, 'w, unit) io"
  eg_connect :: "('e, 'w, 'c) io"
  eg_execute :: "'c \<Rightarrow> string \<Rightarrow> ('e, 'w, unit) io"
  eg_close :: "'c \<Rightarrow> ('e, 'w, unit) io"
  eg_dispose :: "('e, 'w, unit) io"
  eg_is_sqlalchemy_error :: "'e \<Rightarrow> bool"

record ('e, 'w) DatabaseLifecycle =
  dl_is_ready :: "('e, 'w, bool) io"
  dl_dispose :: "('e, 'w, unit) io"

text \<open>\<open>tl_span name\<close> is \<open>with tracer.start_as_current_span(name): pass\<close>.\<close>

record ('e, 'w) TelemetryLifecycle =
  tl_span :: "string \<Rightarrow> ('e, 'w, unit) io"
  tl_shutdown :: "('e, 'w, unit) io"

text \<open>The five services are handles; \<open>app.state\<close> holds the same seven values, none before the start.\<close>

record ('e, 'w, 'h) ApplicationResources =
  ar_database :: "('e, 'w) DatabaseLifecycle"
  ar_telemetry :: "('e, 'w) TelemetryLifecycle"
  ar_authenticator :: 'h
  ar_session_provisioner :: "'h option"
  ar_workspace_service :: "'h option"
  ar_project_service :: "'h option"
  ar_connection_service :: "'h option"

subsection \<open>Telemetry\<close>

text \<open>
  \<open>configure_telemetry\<close> of \<open>infrastructure/observability/telemetry.py\<close>. What the OpenTelemetry SDK builds for a resource
  and an endpoint is a parameter; a no-op tracer writes nothing.
\<close>

record ApplicationSettings =
  as_service_name :: string
  as_environment :: string
  as_telemetry_enabled :: bool
  as_otel_traces_endpoint :: string

definition default_application_settings :: ApplicationSettings where
  "default_application_settings = \<lparr>as_service_name = ''bff-control'', as_environment = ''dev'', as_telemetry_enabled = False,
     as_otel_traces_endpoint = ''http://127.0.0.1:4318/v1/traces''\<rparr>"

definition telemetry_disabled :: "('e, 'w) TelemetryLifecycle" where
  "telemetry_disabled = \<lparr>tl_span = (\<lambda>_. io_return ()), tl_shutdown = io_return ()\<rparr>"

definition configure_telemetry ::
  "((string \<times> string) list \<Rightarrow> string \<Rightarrow> ('e, 'w, ('e, 'w) TelemetryLifecycle) io) \<Rightarrow> ApplicationSettings \<Rightarrow>
    ('e, 'w, ('e, 'w) TelemetryLifecycle) io" where
  "configure_telemetry otlp settings =
     (if \<not> as_telemetry_enabled settings then io_return telemetry_disabled
      else otlp [(''service.name'', as_service_name settings), (''deployment.environment.name'', as_environment settings)]
        (as_otel_traces_endpoint settings))"

subsection \<open>\<open>Database\<close>\<close>

text \<open>The body is the block under \<open>async with database.session()\<close>.\<close>

definition session :: "('e, 'w, 's, 'c) Engine \<Rightarrow> ('s \<Rightarrow> ('e, 'w, 'a) io) \<Rightarrow> ('e, 'w, 'a) io" where
  "session engine body = io_bind (eg_open_session engine) (\<lambda>s.
     io_finally (io_catch (body s) (\<lambda>e. io_bind (eg_rollback engine s) (\<lambda>_. io_raise e))) (eg_close_session engine s))"

definition is_ready :: "('e, 'w, 's, 'c) Engine \<Rightarrow> ('e, 'w, bool) io" where
  "is_ready engine = io_catch
     (io_bind (eg_connect engine) (\<lambda>connection.
        io_finally (io_bind (eg_execute engine connection ''SELECT 1'') (\<lambda>_. io_return True)) (eg_close engine connection)))
     (\<lambda>e. if eg_is_sqlalchemy_error engine e then io_return False else io_raise e)"

definition dispose :: "('e, 'w, 's, 'c) Engine \<Rightarrow> ('e, 'w, unit) io" where
  "dispose engine = eg_dispose engine"

definition database_of :: "('e, 'w, 's, 'c) Engine \<Rightarrow> ('e, 'w) DatabaseLifecycle" where
  "database_of engine = \<lparr>dl_is_ready = is_ready engine, dl_dispose = dispose engine\<rparr>"

subsection \<open>\<open>lifespan\<close>\<close>

text \<open>\<open>serve\<close> is what the server does between the start and the end, with the state of the application.\<close>

definition shut_down :: "('e, 'w, 'h) ApplicationResources \<Rightarrow> ('e, 'w, unit) io" where
  "shut_down resources = io_finally (dl_dispose (ar_database resources))
     (io_bind (tl_span (ar_telemetry resources) ''control_api.shutdown'') (\<lambda>_. tl_shutdown (ar_telemetry resources)))"

definition lifespan ::
  "('e, 'w, ('e, 'w, 'h) ApplicationResources) io \<Rightarrow> (('e, 'w, 'h) ApplicationResources \<Rightarrow> ('e, 'w, 'a) io) \<Rightarrow> ('e, 'w, 'a) io" where
  "lifespan resource_factory serve = io_bind resource_factory (\<lambda>resources.
     io_bind (tl_span (ar_telemetry resources) ''control_api.startup'') (\<lambda>_.
       io_finally (serve resources) (shut_down resources)))"

text \<open>\<open>readyz\<close> with the database of the application; the span around it is left out.\<close>

definition readyz_io :: "('e, 'w, 'h) ApplicationResources \<Rightarrow> Environment \<Rightarrow> ('e, 'w, body Response) io" where
  "readyz_io resources env = io_bind (dl_is_ready (ar_database resources))
     (\<lambda>ready. io_return (readyz (env\<lparr>en_database_ready := ready\<rparr>)))"

subsection \<open>What is released, and when\<close>

lemma io_finally_runs:
  "m w = (r, w') \<Longrightarrow> last_block w' = (s, w'') \<Longrightarrow>
    io_finally m last_block w = (case s of Inl e \<Rightarrow> (Inl e, w'') | Inr _ \<Rightarrow> (r, w''))"
  by (simp add: io_finally_def split: sum.split)

text \<open>Once a session is open it is closed as the last thing, after a rollback exactly when the block raised.\<close>

lemma session_closed:
  assumes "eg_open_session engine w = (Inr s, v)" "body s v = (r, v1)"
  obtains v2 where "v2 = (case r of Inl _ \<Rightarrow> snd (eg_rollback engine s v1) | Inr _ \<Rightarrow> v1)"
    "snd (session engine body w) = snd (eg_close_session engine s v2)"
  using assms by (cases r; cases "eg_rollback engine s v1"; cases "fst (eg_rollback engine s v1)")
    (auto simp: session_def io_bind_def io_finally_def io_catch_def split: prod.splits sum.splits)

lemma session_result:
  assumes "session engine body w = (Inr a, w')"
  obtains s v v1 where "eg_open_session engine w = (Inr s, v)" "body s v = (Inr a, v1)"
    "eg_close_session engine s v1 = (Inr (), w')"
  using assms by (auto simp: session_def io_bind_def io_finally_def io_catch_def split: prod.splits sum.splits)

text \<open>The probe answers, unless something raises what is no \<open>SQLAlchemyError\<close>; the connection is closed on every path.\<close>

lemma is_ready_answers:
  assumes "\<And>v e v'. eg_connect engine v = (Inl e, v') \<Longrightarrow> eg_is_sqlalchemy_error engine e"
    "\<And>c v e v'. eg_execute engine c ''SELECT 1'' v = (Inl e, v') \<Longrightarrow> eg_is_sqlalchemy_error engine e"
    "\<And>c v e v'. eg_close engine c v = (Inl e, v') \<Longrightarrow> eg_is_sqlalchemy_error engine e"
  obtains b w' where "is_ready engine w = (Inr b, w')"
proof -
  have "\<exists>b w'. is_ready engine w = (Inr b, w')"
    by (auto simp: is_ready_def io_bind_def io_finally_def io_catch_def split: prod.splits sum.splits dest: assms)
  then show thesis using that by blast
qed

lemma is_ready_closes:
  assumes "eg_connect engine w = (Inr c, v)"
  shows "snd (is_ready engine w) = snd (eg_close engine c (snd (eg_execute engine c ''SELECT 1'' v)))"
  using assms by (simp add: is_ready_def io_bind_def io_finally_def io_catch_def split: prod.split sum.split)

lemma is_ready_true:
  "is_ready engine w = (Inr True, w') \<longleftrightarrow> (\<exists>c v v'. eg_connect engine w = (Inr c, v)
     \<and> eg_execute engine c ''SELECT 1'' v = (Inr (), v') \<and> eg_close engine c v' = (Inr (), w'))"
  by (auto simp: is_ready_def io_bind_def io_finally_def io_catch_def split: prod.splits sum.splits)

text \<open>
  Once the application has started, the end of the process first disposes of the database and then writes the span of the
  shutdown, whatever serving and the disposal did; the exporter is shut down unless that span raised.
\<close>

lemma lifespan_releases:
  fixes serve :: "('e, 'w, 'h) ApplicationResources \<Rightarrow> ('e, 'w, 'a) io"
  assumes "resource_factory w = (Inr resources, v)" "tl_span (ar_telemetry resources) ''control_api.startup'' v = (Inr (), v1)"
  defines "v2 \<equiv> snd (serve resources v1)"
  defines "v3 \<equiv> snd (dl_dispose (ar_database resources) v2)"
  shows "snd (lifespan resource_factory serve w) =
    (case tl_span (ar_telemetry resources) ''control_api.shutdown'' v3 of
       (Inl _, v4) \<Rightarrow> v4 | (Inr _, v4) \<Rightarrow> snd (tl_shutdown (ar_telemetry resources) v4))"
  by (simp add: lifespan_def shut_down_def io_bind_def io_finally_def assms split: prod.split sum.split)

lemma lifespan_result:
  assumes "lifespan resource_factory serve w = (Inr a, w')"
  obtains resources v v1 v2 v3 v4 where "resource_factory w = (Inr resources, v)"
    "tl_span (ar_telemetry resources) ''control_api.startup'' v = (Inr (), v1)" "serve resources v1 = (Inr a, v2)"
    "dl_dispose (ar_database resources) v2 = (Inr (), v3)"
    "tl_span (ar_telemetry resources) ''control_api.shutdown'' v3 = (Inr (), v4)"
    "tl_shutdown (ar_telemetry resources) v4 = (Inr (), w')"
  using assms by (auto simp: lifespan_def shut_down_def io_bind_def io_finally_def split: prod.splits sum.splits)

text \<open>A span that cannot be written at the start leaves the database and the exporter as the factory made them.\<close>

lemma failed_start_releases_nothing:
  "resource_factory w = (Inr resources, v) \<Longrightarrow> tl_span (ar_telemetry resources) ''control_api.startup'' v = (Inl e, v1) \<Longrightarrow>
    lifespan resource_factory serve w = (Inl e, v1)"
  by (simp add: lifespan_def io_bind_def)

text \<open>Without telemetry the process starts whatever the state, and the database is released.\<close>

lemma lifespan_without_telemetry:
  assumes "resource_factory w = (Inr resources, v)" "ar_telemetry resources = telemetry_disabled"
  shows "snd (lifespan resource_factory serve w) = snd (dl_dispose (ar_database resources) (snd (serve resources v)))"
  using assms by (simp add: lifespan_def shut_down_def telemetry_disabled_def io_bind_def io_finally_def split: prod.split sum.split)

text \<open>The readiness answered is the one of the database.\<close>

lemma readyz_reports:
  "is_ready engine w = (Inr ready, w') \<Longrightarrow> ar_database resources = database_of engine \<Longrightarrow>
    \<exists>response. readyz_io resources env w = (Inr response, w') \<and> (rs_status response = 200 \<longleftrightarrow> ready) \<and> (rs_status response = 503 \<longleftrightarrow> \<not> ready)"
  by (simp add: readyz_io_def database_of_def io_bind_def readyz_def)

end
