(* ===== verification/Migrations.thy ===== *)
theory Migrations
  imports Texts
begin

section \<open>The migrations\<close>

text \<open>
  \<open>migrations/versions/*.py\<close>: five revisions, each with the revision below it, what it executes on an upgrade (a file of
  \<open>migrations/sql\<close>, whose text a parameter reads, or a statement) and what its downgrade does. Alembic, which orders the
  revisions by \<open>down_revision\<close> and runs each in its own transaction (\<open>env.py\<close>), is the function \<open>lineage\<close> over them.
\<close>

datatype operation =
    Exec_Driver_SQL string
  | Drop_Index (di_name: string) (di_table: string) (di_schema: string)

record Revision =
  rv_revision :: string
  rv_down_revision :: "string option"
  rv_upgrade :: "(string \<Rightarrow> exn + string) \<Rightarrow> exn + operation list"
  rv_downgrade :: "exn + operation list"

definition exec_file :: "string \<Rightarrow> (string \<Rightarrow> exn + string) \<Rightarrow> exn + operation list" where
  "exec_file name read_sql = bind_res (read_sql name) (\<lambda>sql. Inr [Exec_Driver_SQL sql])"

definition schema_baseline :: Revision where
  "schema_baseline = \<lparr>rv_revision = ''0001_schema_baseline_v2_1'', rv_down_revision = None,
     rv_upgrade = (\<lambda>read_sql. bind_res (exec_file ''0001_schema_baseline_v2_1.sql'' read_sql)
       (\<lambda>ops. Inr (ops @ [Exec_Driver_SQL ''SET search_path TO public'']))),
     rv_downgrade = Inl (RuntimeError (''Schema Baseline V2.1 is irreversible; restore a disposable database ''
       @ ''or roll forward with a corrective migration''))\<rparr>"

definition user_auth_identities :: Revision where
  "user_auth_identities = \<lparr>rv_revision = ''0002_user_auth_identities'', rv_down_revision = Some ''0001_schema_baseline_v2_1'',
     rv_upgrade = exec_file ''0002_user_auth_identities.sql'',
     rv_downgrade = Inl (RuntimeError (''0002_user_auth_identities is data-bearing and intentionally irreversible; ''
       @ ''roll forward with a corrective migration''))\<rparr>"

definition auth_sessions :: Revision where
  "auth_sessions = \<lparr>rv_revision = ''0003_auth_sessions'', rv_down_revision = Some ''0002_user_auth_identities'',
     rv_upgrade = exec_file ''0003_auth_sessions.sql'',
     rv_downgrade = Inl (RuntimeError (''0003_auth_sessions is security-history-bearing and intentionally irreversible; ''
       @ ''roll forward with a corrective migration''))\<rparr>"

definition project_pagination :: Revision where
  "project_pagination = \<lparr>rv_revision = ''0004_project_pagination'', rv_down_revision = Some ''0003_auth_sessions'',
     rv_upgrade = exec_file ''0004_project_pagination.sql'',
     rv_downgrade = Inr [Drop_Index ''idx_projects_workspace_created_id'' ''projects'' ''app'']\<rparr>"

definition connection_control_plane :: Revision where
  "connection_control_plane = \<lparr>rv_revision = ''0005_connection_control_plane'', rv_down_revision = Some ''0004_project_pagination'',
     rv_upgrade = exec_file ''0005_connection_control_plane.sql'',
     rv_downgrade = Inr [Drop_Index ''idx_connections_workspace_created_id'' ''connections'' ''app'']\<rparr>"

definition VERSIONS :: "Revision list" where
  "VERSIONS = [schema_baseline, user_auth_identities, auth_sessions, project_pagination, connection_control_plane]"

lemmas revision_defs = VERSIONS_def schema_baseline_def user_auth_identities_def auth_sessions_def project_pagination_def
  connection_control_plane_def

subsection \<open>One line of revisions\<close>

text \<open>The revisions from a given one down, as their \<open>down_revision\<close>s lead; the fuel bounds the walk.\<close>

fun lineage :: "nat \<Rightarrow> string option \<Rightarrow> Revision list" where
  "lineage 0 _ = []"
| "lineage (Suc n) None = []"
| "lineage (Suc n) (Some name) = (case List.find (\<lambda>rv. rv_revision rv = name) VERSIONS of
     None \<Rightarrow> [] | Some rv \<Rightarrow> rv # lineage n (rv_down_revision rv))"

definition heads :: "Revision list" where
  "heads = filter (\<lambda>rv. \<forall>above_it \<in> set VERSIONS. rv_down_revision above_it \<noteq> Some (rv_revision rv)) VERSIONS"

lemma one_head: "heads = [connection_control_plane]"
  by (simp add: heads_def revision_defs)

lemma one_base: "filter (\<lambda>rv. rv_down_revision rv = None) VERSIONS = [schema_baseline]"
  by (simp add: revision_defs)

lemma lineage_of_head: "lineage (length VERSIONS) (Some ''0005_connection_control_plane'') = rev VERSIONS"
  by (simp add: revision_defs numeral_nat)

text \<open>A downgrade runs the revisions from the head; it is possible exactly while no data is at stake.\<close>

definition downgrade :: "nat \<Rightarrow> exn + operation list" where
  "downgrade steps = bind_res (map_res rv_downgrade (take steps (rev VERSIONS))) (\<lambda>os. Inr (concat os))"

lemma downgrade_possible: "(\<exists>ops. downgrade steps = Inr ops) \<longleftrightarrow> steps \<le> 2"
  by (cases steps; cases "steps - 1"; cases "steps - 2") (auto simp: downgrade_def revision_defs)

lemma downgrade_drops_indexes_only: "downgrade steps = Inr ops \<Longrightarrow> operation \<in> set ops \<Longrightarrow> \<exists>name table. operation = Drop_Index name table ''app''"
  by (cases steps; cases "steps - 1"; cases "steps - 2") (auto simp: downgrade_def revision_defs)

text \<open>Only the baseline executes more than its file: it leaves Alembic the search path it found.\<close>

lemma upgrade_executes:
  assumes "rv \<in> set VERSIONS" "\<And>name. read_sql name = Inr (sql name)"
  shows "rv_upgrade rv read_sql = Inr (Exec_Driver_SQL (sql (rv_revision rv @ ''.sql''))
    # (if rv_down_revision rv = None then [Exec_Driver_SQL ''SET search_path TO public''] else []))"
  using assms by (auto simp: revision_defs exec_file_def)

end
