(* ===== verification/RequestMiddleware.thy ===== *)
theory RequestMiddleware
  imports ApiContracts
begin

section \<open>The request-context middleware\<close>

text \<open>
  \<open>api/middleware/request_context.py\<close> and \<open>api/context.py\<close> at the level of ASGI: an application that sends messages one by
  one, may fail at any point and is told when a send fails; the context variable, the scope, the current span and the
  access log. \<open>Api.handle_request\<close> takes the response as one value; \<open>middleware_serves\<close> says that this is what
  the middleware makes of an application that sends a response, or fails before it sent one. The duration of a
  request is \<open>duration_ms\<close> of the nanoseconds that passed: the division and \<open>round\<close> are on floats, which are a parameter.
\<close>

subsection \<open>Process state\<close>

record BoundContext = RequestContext +
  rc_started_at :: timestamp

record Span =
  sp_is_valid :: bool
  sp_trace_id :: "128 word"
  sp_attributes :: "(string \<times> string) list"

record Scope =
  sc_type :: string
  sc_method :: "string option"
  sc_route :: "string option"
  sc_request_context :: "BoundContext option"

record 'f CompletedLog = AccessLog +
  cl_duration_ms :: 'f

text \<open>The context variable \<open>_current_request_context\<close> of the task, with what else a request changes; \<open>pr_wire\<close> is the server's side.\<close>

record ('f, 't) process =
  pr_context :: "BoundContext option"
  pr_scope :: Scope
  pr_span :: Span
  pr_log :: "'f CompletedLog list"
  pr_wire :: 't

definition active_trace_id :: "Span \<Rightarrow> string option" where
  "active_trace_id span_context =
     (if \<not> sp_is_valid span_context then None else Some (hex_digits 32 (uint (sp_trace_id span_context))))"

text \<open>\<open>ContextVar.set\<close> returns a token of the value it replaces, \<open>ContextVar.reset\<close> puts that value back.\<close>

definition bind_request_context ::
  "BoundContext \<Rightarrow> ('f, 't) process \<Rightarrow> BoundContext option \<times> ('f, 't) process" where
  "bind_request_context context s = (pr_context s, s\<lparr>pr_context := Some context\<rparr>)"

definition reset_request_context :: "BoundContext option \<Rightarrow> ('f, 't) process \<Rightarrow> ('f, 't) process" where
  "reset_request_context token s = s\<lparr>pr_context := token\<rparr>"

definition current_request_context :: "('f, 't) process \<Rightarrow> BoundContext option" where
  "current_request_context s = pr_context s"

definition require_request_context :: "Scope \<Rightarrow> exn + BoundContext" where
  "require_request_context scope = (case sc_request_context scope of
     None \<Rightarrow> Inl (RuntimeError ''request context middleware is not installed'')
   | Some context \<Rightarrow> Inr context)"

subsection \<open>Applications\<close>

text \<open>A message other than \<open>http.response.start\<close> is passed on as it is; only its type is kept here.\<close>

datatype message =
    ResponseStart int "headers option"
  | OtherMessage string

text \<open>
  An application: it ends, normally or with an exception; sends a message and goes on with the outcome of the send; or does
  something to the scope, the context variable and the span, the router's work among it.
\<close>

datatype asgi_app =
    Finish "exn + unit"
  | Send message "exn + unit \<Rightarrow> asgi_app"
  | Act "BoundContext option \<times> Scope \<times> Span \<Rightarrow> (BoundContext option \<times> Scope \<times> Span) \<times> asgi_app"

definition touched :: "(BoundContext option \<times> Scope \<times> Span) \<Rightarrow> ('f, 't) process \<Rightarrow> ('f, 't) process" where
  "touched c s = (case c of (context, scope, span) \<Rightarrow> s\<lparr>pr_context := context, pr_scope := scope, pr_span := span\<rparr>)"

type_synonym 't sender = "message \<Rightarrow> 't \<Rightarrow> (exn + unit) \<times> 't"

text \<open>
  What the middleware hands the application for \<open>send\<close>: it notes the status and has exactly one identifier among the
  headers. The local \<open>status_code\<close> is the first of the pair it threads.
\<close>

definition send_message :: "BoundContext \<Rightarrow> 't sender \<Rightarrow> message \<Rightarrow> int \<times> 't \<Rightarrow> (exn + unit) \<times> int \<times> 't" where
  "send_message context send m st = (case m of
     ResponseStart status raw \<Rightarrow>
       (case raw of
          None \<Rightarrow> (Inl (KeyError ''headers''), status, snd st)
        | Some h \<Rightarrow>
            (let (r, t) = send (ResponseStart status (Some (filter (\<lambda>(name, value). lower name \<noteq> ''x-request-id'') h
                    @ [(''x-request-id'', uuid_str (rc_request_id context))]))) (snd st)
             in (r, status, t)))
   | OtherMessage kind \<Rightarrow> (let (r, t) = send m (snd st) in (r, fst st, t)))"

primrec run_app :: "(message \<Rightarrow> int \<times> 't \<Rightarrow> (exn + unit) \<times> int \<times> 't) \<Rightarrow> asgi_app \<Rightarrow> int \<times> ('f, 't) process
    \<Rightarrow> (exn + unit) \<times> int \<times> ('f, 't) process" where
  "run_app send (Finish r) st = (r, st)"
| "run_app send (Send m k) st = (case send m (fst st, pr_wire (snd st)) of
     (r, status, t) \<Rightarrow> run_app send (k r) (status, (snd st)\<lparr>pr_wire := t\<rparr>))"
| "run_app send (Act f) st = (case map_prod id (run_app send) (f (pr_context (snd st), pr_scope (snd st), pr_span (snd st))) of
     (c, run) \<Rightarrow> run (fst st, touched c (snd st)))"

subsection \<open>The middleware\<close>

text \<open>The clocks and the random bits of one call: \<open>uuid7\<close>, \<open>datetime.now\<close> and the two readings of \<open>perf_counter_ns\<close>.\<close>

record CallClock =
  ck_request_id :: "exn + uuid"
  ck_now :: timestamp
  ck_started_ns :: int
  ck_ended_ns :: int

definition completed_log :: "(int \<Rightarrow> 'f) \<Rightarrow> CallClock \<Rightarrow> BoundContext \<Rightarrow> Scope \<Rightarrow> int \<Rightarrow> 'f CompletedLog" where
  "completed_log duration_ms clock context scope status_code = \<lparr>
     al_request_id = uuid_str (rc_request_id context), al_trace_id = rc_trace_id context,
     al_method = (case sc_method scope of None \<Rightarrow> [] | Some m \<Rightarrow> m), al_route = route_template (sc_route scope),
     al_status_code = status_code, cl_duration_ms = duration_ms (ck_ended_ns clock - ck_started_ns clock)\<rparr>"

definition middleware_call ::
  "(int \<Rightarrow> 'f) \<Rightarrow> CallClock \<Rightarrow> 't sender \<Rightarrow> asgi_app \<Rightarrow> ('f, 't) process \<Rightarrow> (exn + unit) \<times> ('f, 't) process" where
  "middleware_call duration_ms clock send app s =
     (if sc_type (pr_scope s) \<noteq> ''http''
      then (case run_app (\<lambda>m st. case send m (snd st) of (r, t) \<Rightarrow> (r, fst st, t)) app (0, s) of (r, _, s') \<Rightarrow> (r, s'))
      else
        (case ck_request_id clock of
           Inl e \<Rightarrow> (Inl e, s)
         | Inr request_id \<Rightarrow>
             (let trace_id = active_trace_id (pr_span s);
                  context = \<lparr>rc_request_id = request_id, rc_trace_id = trace_id, rc_started_at = ck_now clock\<rparr>;
                  s = s\<lparr>pr_scope := (pr_scope s)\<lparr>sc_request_context := Some context\<rparr>\<rparr>;
                  s = (if sp_is_valid (pr_span s)
                       then s\<lparr>pr_span := (pr_span s)\<lparr>sp_attributes :=
                         dict_set ''bff.request.id'' (uuid_str request_id) (sp_attributes (pr_span s))\<rparr>\<rparr>
                       else s);
                  (token, s) = bind_request_context context s;
                  (r, status_code, s) = run_app (send_message context send) app (500, s);
                  s = s\<lparr>pr_log := pr_log s @ [completed_log duration_ms clock context (pr_scope s) status_code]\<rparr>
              in (r, reset_request_context token s))))"

subsection \<open>What a request leaves behind\<close>

lemma run_app_log: "pr_log (snd (snd (run_app send app st))) = pr_log (snd st)"
proof (induction app arbitrary: st)
  case (Send m k)
  then show ?case by (simp add: case_prod_unfold)
next
  case (Act f)
  obtain c app where f: "f (pr_context (snd st), pr_scope (snd st), pr_span (snd st)) = (c, app)" by (metis surj_pair)
  then have "app \<in> Basic_BNFs.snds (f (pr_context (snd st), pr_scope (snd st), pr_span (snd st)))" by simp
  note ih = Act.IH[OF rangeI this]
  show ?case using ih[of "(fst st, touched c (snd st))"] f by (simp add: touched_def split: prod.splits)
qed simp

text \<open>A server that notes what it is sent and may fail a send for any reason.\<close>

definition recording :: "(message list \<Rightarrow> message \<Rightarrow> exn + unit) \<Rightarrow> message list sender" where
  "recording reply m sent = (reply sent m, sent @ [m])"

definition identified :: "uuid \<Rightarrow> message \<Rightarrow> bool" where
  "identified request_id m = (case m of
     ResponseStart status raw \<Rightarrow> (case raw of None \<Rightarrow> False
       | Some h \<Rightarrow> filter (\<lambda>(name, value). lower name = ''x-request-id'') h = [(''x-request-id'', uuid_str request_id)])
   | OtherMessage kind \<Rightarrow> True)"

lemma send_message_identified:
  assumes "list_all (identified (rc_request_id context)) sent"
    "send_message context (recording reply) m (status, sent) = (r, status', sent')"
  shows "list_all (identified (rc_request_id context)) sent'"
proof -
  have "lower ''x-request-id'' = ''x-request-id''" by code_simp
  then show ?thesis using assms
    by (auto simp: send_message_def recording_def identified_def case_prod_unfold comp_def split: message.splits option.splits)
qed

lemma run_app_identified:
  "list_all (identified (rc_request_id context)) (pr_wire (snd st)) \<Longrightarrow>
    list_all (identified (rc_request_id context)) (pr_wire (snd (snd (run_app (send_message context (recording reply)) app st))))"
proof (induction app arbitrary: st)
  case (Send m k)
  obtain r status t where s: "send_message context (recording reply) m (fst st, pr_wire (snd st)) = (r, status, t)"
    by (metis surj_pair)
  then show ?case using Send.IH[OF rangeI, of "(status, (snd st)\<lparr>pr_wire := t\<rparr>)"] send_message_identified[OF Send.prems s] by simp
next
  case (Act f)
  obtain c app where f: "f (pr_context (snd st), pr_scope (snd st), pr_span (snd st)) = (c, app)" by (metis surj_pair)
  then have "app \<in> Basic_BNFs.snds (f (pr_context (snd st), pr_scope (snd st), pr_span (snd st)))" by simp
  note ih = Act.IH[OF rangeI this]
  show ?case using ih[of "(fst st, touched c (snd st))"] Act.prems f by (simp add: touched_def split: prod.splits)
qed simp

text \<open>
  However the application ends, whatever it sends and whatever becomes of it: the context variable is what it was before the
  request, the outcome is the application's, there is one access record more, of this request and the trace that was active,
  and every response that was started carries the identifier of the request in exactly one header.
\<close>

theorem middleware_accounts:
  assumes "sc_type (pr_scope s) = ''http''" "ck_request_id clock = Inr i" "pr_wire s = []"
    "middleware_call duration_ms clock (recording reply) app s = (r, s')"
  shows "pr_context s' = pr_context s
    \<and> (\<exists>log. pr_log s' = pr_log s @ [log] \<and> al_request_id log = uuid_str i \<and> al_trace_id log = active_trace_id (pr_span s))
    \<and> list_all (identified i) (pr_wire s')"
proof -
  define ctx where "ctx = \<lparr>rc_request_id = i, rc_trace_id = active_trace_id (pr_span s), rc_started_at = ck_now clock\<rparr>"
  define s1 where "s1 = s\<lparr>pr_scope := (pr_scope s)\<lparr>sc_request_context := Some ctx\<rparr>,
    pr_span := (if sp_is_valid (pr_span s) then (pr_span s)\<lparr>sp_attributes :=
      dict_set ''bff.request.id'' (uuid_str i) (sp_attributes (pr_span s))\<rparr> else pr_span s),
    pr_context := Some ctx\<rparr>"
  obtain x status s2 where run: "run_app (send_message ctx (recording reply)) app (500, s1) = (x, status, s2)"
    by (metis surj_pair)
  have s': "s' = s2\<lparr>pr_log := pr_log s2 @ [completed_log duration_ms clock ctx (pr_scope s2) status], pr_context := pr_context s\<rparr>"
    using assms(1,2,4) run
    by (cases "sp_is_valid (pr_span s)")
      (auto simp: middleware_call_def bind_request_context_def reset_request_context_def ctx_def[symmetric] s1_def Let_def)
  have "pr_log s2 = pr_log s" using run_app_log[of "send_message ctx (recording reply)" app "(500, s1)"] run
    by (simp add: s1_def)
  moreover have "list_all (identified i) (pr_wire s2)"
    using run_app_identified[of ctx "(500, s1)" reply app] run assms(3) by (simp add: s1_def ctx_def)
  ultimately show ?thesis by (simp add: s' completed_log_def) (simp add: ctx_def)
qed

text \<open>A scope that is not HTTP (the lifespan) passes through: no context, no record, nothing added to a message.\<close>

lemma other_scopes_pass:
  assumes "sc_type (pr_scope s) \<noteq> ''http''"
  shows "middleware_call duration_ms clock send (Send m (\<lambda>r. Finish r)) s = (case send m (pr_wire s) of (r, t) \<Rightarrow> (r, s\<lparr>pr_wire := t\<rparr>))"
  using assms by (simp add: middleware_call_def split: prod.split)

text \<open>
  \<open>Api.handle_request\<close> is the middleware around the routes: \<open>Response.__call__\<close> of Starlette sends the start and the body, and an
  exception no handler took ends the application before it sent anything.
\<close>

definition response_app :: "'b Response \<Rightarrow> asgi_app" where
  "response_app response = Send (ResponseStart (rs_status response) (Some (raw_headers (rs_headers response))))
     (\<lambda>r. case r of Inl e \<Rightarrow> Finish (Inl e) | Inr _ \<Rightarrow> Send (OtherMessage ''http.response.body'') (\<lambda>r. Finish r))"

definition routed_app :: "body Response option \<Rightarrow> exn \<Rightarrow> asgi_app" where
  "routed_app handled e = (case handled of Some response \<Rightarrow> response_app response | None \<Rightarrow> Finish (Inl e))"

abbreviation delivering :: "message list sender" where
  "delivering \<equiv> recording (\<lambda>_ _. Inr ())"

lemma response_app_run:
  "run_app (send_message ctx delivering) (response_app response) (500, s) = (Inr (), rs_status response,
     s\<lparr>pr_wire := pr_wire s @ [ResponseStart (rs_status response) (Some (filter (\<lambda>(name, _). lower name \<noteq> ''x-request-id'')
       (raw_headers (rs_headers response)) @ [(''x-request-id'', uuid_str (rc_request_id ctx))])), OtherMessage ''http.response.body'']\<rparr>)"
  by (simp add: response_app_def send_message_def recording_def)

theorem middleware_serves:
  assumes "sc_type (pr_scope s) = ''http''" "ck_request_id clock = Inr (en_request_id env)" "pr_wire s = []"
    "en_trace_id env = active_trace_id (pr_span s)" "sc_method (pr_scope s) = Some (rq_method rq)" "sc_route (pr_scope s) = rq_route rq"
    "router env rq d = (r, d')"
    "middleware_call duration_ms clock delivering (routed_app (exception_middleware (request_context env) r) e) s = (x, s')"
  shows "map AccessLog.truncate (pr_log s') = map AccessLog.truncate (pr_log s) @ [snd (fst (handle_request env rq d))]
    \<and> (exception_middleware (request_context env) r \<noteq> None \<longrightarrow> x = Inr () \<and>
        pr_wire s' = [ResponseStart (rs_status (fst (fst (handle_request env rq d)))) (Some (rs_headers (fst (fst (handle_request env rq d))))),
          OtherMessage ''http.response.body''])
    \<and> (exception_middleware (request_context env) r = None \<longrightarrow> x = Inl e \<and> pr_wire s' = [])"
proof (cases "exception_middleware (request_context env) r")
  case None
  then show ?thesis using assms
    by (auto simp: middleware_call_def bind_request_context_def reset_request_context_def routed_app_def handle_request_def Let_def
        completed_log_def access_log_def AccessLog.truncate_def request_context_def)
next
  case (Some response)
  then show ?thesis using assms
    by (auto simp: middleware_call_def bind_request_context_def reset_request_context_def routed_app_def handle_request_def Let_def
        completed_log_def access_log_def AccessLog.truncate_def request_context_def response_app_run send_with_request_id_def)
qed

end
