(* ===== verification/Spec2Isabelle.thy ===== *)
theory Spec2Isabelle
  imports ConcurrentHistory Projects Workspaces AuthenticationContracts WorkosFacts CursorFacts ApiIsolation
    OperatorScripts ActionPins ImportBoundaries Smoke Doctor ProbeContracts Lifecycle Migrations RequestMiddleware
begin

text \<open>
  The control API of Backend for Framer (\<open>apps/control-api\<close>, Python) and the scripts its operators run (\<open>scripts\<close>).
  Paths below \<open>bff_control\<close> are given without their prefix.

  \<^bold>\<open>The program.\<close> An HTTP service over PostgreSQL. A request passes the request-context middleware (an identifier, a
  trace, an access log record), FastAPI's parsing, the bearer authentication, a route of \<open>api/routes\<close>, a service of
  \<open>domains/*/service.py\<close> and a repository of \<open>infrastructure/db\<close>; an exception on the way back is turned into a Problem
  Details document by \<open>api/problems\<close>. Its tenants are Workspaces with members; a Workspace has Projects and Connections.
  A Connection has a lifecycle (draft, active, disabled, archived), at most one draft configuration, revisions that
  are only appended, and an access policy. Users sign in with an access token of WorkOS: \<open>infrastructure/auth\<close>
  verifies it and fetches a profile, and the session-provisioning repository admits a session, which later requests
  are resolved against.

  \<^bold>\<open>Common notions.\<close>
  \<^item> \<open>Prelude\<close>: exceptions are the constructors of \<open>exn\<close>, a function that may raise returns \<open>exn + 'a\<close>, and the code
    inside one \<open>session.begin()\<close> is a \<open>tx\<close> on the state of the database; \<open>begin_tx\<close> commits it or leaves the state
    alone. A \<open>str\<close> is a list of code points below 256.
  \<^item> \<open>Database\<close>: the eleven tables the service writes (\<open>migrations/sql/0001\<close> to \<open>0003\<close>), each a list of row records, with
    their keys, foreign keys and checks: \<open>insert_*\<close> raises \<open>IntegrityError\<close> where PostgreSQL would, and \<open>schema_ok\<close> says
    that all constraints hold. Result rows are lists of named Python values, as \<open>RowMapping\<close> is.
  \<^item> \<open>Transactions\<close>: a transaction of the session-provisioning repository, whose statements interleave with what other
    sessions commit (READ COMMITTED). The other repositories take a transaction as one step.
  \<^item> \<open>RowLocks\<close>: what makes that step legitimate for the mutations of a Workspace. A program is a tree of statements, a
    system has many of them open, statement by statement, each with its writes on top of the committed state and with the
    row lock it took; transactions raise, commit or are lost, and other sessions commit. Schedules can be executed (\<open>play\<close>).
  \<^item> \<open>Ids\<close> (\<open>core/ids.py\<close>): \<open>uuid7\<close> with its fields as words; the clock is cut to 48 bits as the code does.
  \<^item> \<open>Keyset\<close>: the paging the three list endpoints share.
  \<^item> \<open>Texts\<close>: what the scripts use of \<open>str\<close> and \<open>pathlib\<close>, and calls on a machine that may raise (\<open>io\<close>).

  \<^bold>\<open>The service.\<close>
  \<^item> Connections. \<open>ConnectionPolicies\<close>: \<open>models.py\<close>, \<open>policies.py\<close>. \<open>ConnectionProviders\<close>: \<open>providers.py\<close> with
    \<open>urlsplit\<close>, \<open>json.dumps\<close> and UTF-8 written out. \<open>ConnectionRepository\<close> and \<open>ConnectionOperations\<close>:
    \<open>connection_repository.py\<close>, the statements and then the eleven methods. \<open>ConnectionService\<close>: \<open>service.py\<close>.
    Lemmas: \<open>ConnectionMutations\<close> and \<open>ConnectionReads\<close> (each operation as one equation, errors in their order),
    \<open>ProviderFacts\<close> (the canonical URL), \<open>ConnectionContracts\<close> (listings and their isolation), \<open>ConnectionEffects\<close> (who may,
    atomicity, audit, drafts, publication), \<open>ConnectionLifecycle\<close> and \<open>ConnectionHistory\<close> (the step relation \<open>conn_step\<close> of
    calls by any users, its refinement of the abstract lifecycle, reachability and its invariant).
  \<^item> The same under concurrency. \<open>WorkspaceParts\<close>: what a statement reads and writes of the rows of a Workspace.
    \<open>WorkspaceConcurrency\<close>: the mutations of \<open>connection_repository.py\<close> and \<open>create_project\<close> again, as programs of their
    statements; alone each is the operation of \<open>ConnectionOperations\<close> or \<open>Projects\<close>, side by side they are serialisable.
    \<open>ConcurrentHistory\<close>: so whatever the calls of the services reach side by side is reachable by \<open>conn_step\<close>.
  \<^item> \<open>Projects\<close> and \<open>Workspaces\<close>: models, policies, service and repository of the two domains with their lemmas.
  \<^item> \<open>SessionProvisioning\<close>: \<open>session_provisioning_repository.py\<close> and its models; \<open>Authentication\<close>: the two services, the
    principal repository and the WorkOS adapters. Lemmas: \<open>SessionFacts\<close> (weakest preconditions of the acts under any
    interference), \<open>SessionContracts\<close>, \<open>AuthenticationContracts\<close> (a sign-in from the token to the principal),
    \<open>WorkosFacts\<close> (what an accepted token was checked for).
  \<^item> \<open>Problems\<close>: \<open>api/problems\<close> but for \<open>openapi.py\<close>, with Starlette's look-up of handlers. \<open>Cursors\<close> and \<open>CursorFacts\<close>: the
    page cursors of \<open>routes/v1/connections.py\<close> and \<open>projects.py\<close>, base64 and \<open>uuid.UUID\<close> included. \<open>Schemas\<close>: the Pydantic
    models. \<open>Api\<close>: every route, the dependencies, the middleware, and their composition \<open>handle_request\<close>. Lemmas:
    \<open>ApiContracts\<close> (every request keeps the schema; failures change nothing and are problems; no credentials, no effect)
    and \<open>ApiIsolation\<close> (a non-member learns nothing; the only ways to an internal error). \<open>RequestMiddleware\<close>: the middleware
    and \<open>api/context.py\<close> again, message by message around any ASGI application; however that ends, the context variable is
    restored and one record is written, and around the routes it is \<open>handle_request\<close> (\<open>middleware_serves\<close>).
  \<^item> \<open>OpenApi\<close>: \<open>api/problems/openapi.py\<close>, the rewriting of the generated document. \<open>Lifecycle\<close>: the lifespan of
    \<open>api/app.py\<close>, \<open>infrastructure/db/database.py\<close> and \<open>telemetry.py\<close>. \<open>Settings\<close>: the validators of \<open>core/settings.py\<close>.
    \<open>Migrations\<close>: the five revisions of \<open>migrations/versions\<close>.

  \<^bold>\<open>The scripts.\<close> \<open>ActionPins\<close> (\<open>check_github_actions_pins.py\<close>) and \<open>ImportBoundaries\<close> (\<open>check_python_boundaries.py\<close>) are shown
  equivalent to a reference definition of what they should find; \<open>Smoke\<close> (\<open>infra/smoke.py\<close>) to return; \<open>Doctor\<close>
  (\<open>dev/doctor.py\<close>) to report no failure only where the environment has what it checks; \<open>LiveProbe\<close>
  (\<open>auth/workos_live_probe.py\<close>) to take a code only from the callback it asked for. \<open>ProbeContracts\<close> runs the
  probe's flow against \<open>handle_request\<close>: the two agree. \<open>OperatorScripts\<close> holds the comparison of the snapshots, the
  application of the roles and the export of the OpenAPI file.

  \<^bold>\<open>Interfaces.\<close> \<open>keyset_pages\<close> is the contract of a paged listing, interpreted for Connections, revisions and Projects;
  \<open>guarded_mutation\<close> of a mutation that an authorizer guards, interpreted for five methods of the Connection
  repository; \<open>project_repository\<close> and \<open>workspace_repository\<close> are what the two services assume of theirs, interpreted on the
  SQL repositories; \<open>atomic_service\<close> is a service whose failures change nothing, interpreted on the whole API;
  \<open>row_locked\<close> is a set of calls whose first statement locks what the rest is confined to, interpreted on the mutations of
  a Workspace.

  \<^bold>\<open>Bounds and loops.\<close> All loops of the service are structural or have a measure. Two loops of the scripts may run forever and
  are \<open>partial_function\<close>s, None being no return: \<open>wait_loop\<close> of \<open>Smoke\<close>, which returns on every machine whose clock
  advances (\<open>smoke_terminates\<close>), and \<open>callback_loop\<close> of \<open>LiveProbe\<close>. The fuel of \<open>lineage\<close> in \<open>Migrations\<close> is the number of
  revisions, which reaches the base (\<open>lineage_of_head\<close>). Times are whole microseconds.

  \<^bold>\<open>Parameters.\<close> Code outside the repository is an argument: PyJWT and the JWKS client, the HTTP transports, SHA-256, the
  check of a bracketed host by \<open>ipaddress\<close>, \<open>json.loads\<close>, \<open>isoformat\<close> and \<open>fromisoformat\<close>, \<open>parse_qs\<close>, \<open>ast.parse\<close>, \<open>make_url\<close>,
  what FastAPI and Pydantic make of a request (its parsed arguments or its issues) and what FastAPI generates as
  OpenAPI, SQLAlchemy's engine, the OpenTelemetry SDK, the files, processes, clocks and terminals of the scripts. Where a
  theorem needs a law of one of them, the law is a hypothesis and a witness shows that it can hold.

  \<^bold>\<open>Not modelled.\<close> \<open>bootstrap.py\<close> and \<open>main.py\<close> only call constructors (the handlers of \<open>Api\<close> take the services as they wire
  them). The Protocol classes of the \<open>contracts.py\<close> files have no code. The metadata the routes pass to FastAPI for
  the OpenAPI document, \<open>argparse\<close>, the declared types of the settings and \<open>migrations/env.py\<close> are declarations for
  libraries. Floats are a parameter (\<open>duration_ms\<close>). The row locks of the
  session-provisioning repository are not modelled: there the other sessions may do more than the locks allow. Of the locks
  the mutations of a Workspace take, the one on its row (with the caller's membership) is modelled; the later ones, on a
  Connection, a draft or Projects, are of rows this one protects. What sessions outside the model commit leaves the part of a
  locked Workspace alone.

  \<^bold>\<open>Open.\<close> The request as bytes: what is shown of a request starts after FastAPI's parsing. The reads of more than one
  statement, which take no lock, and \<open>create_owned_workspace\<close>, whose Workspace nobody else sees before the commit, are
  taken as one step.
\<close>

end
